(* ===== verification/Awr_Prelude.thy ===== *)
theory Awr_Prelude
  imports Main "HOL-Library.Word" "HOL-Library.Sublist" "HOL-Library.Char_ord"
    "HOL-Library.Code_Target_Numeral"
begin

text \<open>
  The vocabulary every component theory shares.

  \<^item> Machine integers: \<open>u32\<close>, \<open>u64\<close> and \<open>u128\<close> are words of that width, with Rust's
    \<open>checked_add\<close>, \<open>checked_sub\<close> and \<open>saturating_sub\<close> on them. Rust's \<open>i64\<close> time stamps are only
    compared and stored by the modelled code, so they are \<open>int\<close>.
  \<^item> \<open>Result\<close>: \<open>Inl\<close> is \<open>Err\<close>, \<open>Inr\<close> is \<open>Ok\<close>. \<open>and_then\<close> is the \<open>?\<close> operator on a value,
    \<open>then_ok\<close> is \<open>check?;\<close>, \<open>run_checks\<close> is a sequence of \<open>check?;\<close> statements, \<open>refuse\<close> is
    \<open>if c { return Err(e) }\<close>, \<open>try_fold\<close> is a \<open>for\<close> loop whose body may return an error and
    \<open>insert_new\<close> is \<open>if !seen.insert(k) { return Err(e) }\<close>.
  \<^item> Strings: a Rust \<open>String\<close> is its UTF-8 bytes, here a \<open>char list\<close> of bytes; \<open>len\<close> is
    \<open>length\<close>, \<open>bytes\<close> is the list itself, and \<open>utf8_chars\<close> decodes the bytes into code points
    for the tests Rust makes on \<open>char\<close>s (\<open>is_control\<close>, \<open>is_whitespace\<close>, \<open>trim\<close>).
\<close>

section \<open>Machine integers\<close>

type_synonym u32 = "32 word"
type_synonym u64 = "64 word"
type_synonym u128 = "128 word"
type_synonym i64 = int

definition checked_add :: "'a::len word \<Rightarrow> 'a word \<Rightarrow> 'a word option" where
  "checked_add a b = (if unat a + unat b < 2 ^ LENGTH('a) then Some (a + b) else None)"

definition saturating_add :: "'a::len word \<Rightarrow> 'a word \<Rightarrow> 'a word" where
  "saturating_add a b = (if unat a + unat b < 2 ^ LENGTH('a) then a + b else - 1)"

definition checked_sub :: "'a::len word \<Rightarrow> 'a word \<Rightarrow> 'a word option" where
  "checked_sub a b = (if b \<le> a then Some (a - b) else None)"

definition saturating_sub :: "'a::len word \<Rightarrow> 'a word \<Rightarrow> 'a word" where
  "saturating_sub a b = (if b \<le> a then a - b else 0)"

section \<open>Results\<close>

type_synonym ('e, 'a) result = "'e + 'a"

named_theorems result_simps "rewriting of Ok and Err results of the check combinators"

definition refuse :: "bool \<Rightarrow> 'e \<Rightarrow> ('e, unit) result" where
  "refuse b e = (if b then Inl e else Inr ())"

fun run_checks :: "('e, unit) result list \<Rightarrow> ('e, unit) result" where
  "run_checks [] = Inr ()"
| "run_checks (c # cs) = (case c of Inl e \<Rightarrow> Inl e | Inr _ \<Rightarrow> run_checks cs)"

definition and_then :: "('e, 'a) result \<Rightarrow> ('a \<Rightarrow> ('e, 'b) result) \<Rightarrow> ('e, 'b) result" where
  "and_then r f = (case r of Inl e \<Rightarrow> Inl e | Inr x \<Rightarrow> f x)"

definition then_ok :: "('e, unit) result \<Rightarrow> ('e, 'b) result \<Rightarrow> ('e, 'b) result" where
  "then_ok c r = (case c of Inl e \<Rightarrow> Inl e | Inr _ \<Rightarrow> r)"

definition ok_or :: "'a option \<Rightarrow> 'e \<Rightarrow> ('e, 'a) result" where
  "ok_or x e = (case x of None \<Rightarrow> Inl e | Some v \<Rightarrow> Inr v)"

definition check_some :: "('a \<Rightarrow> ('e, unit) result) \<Rightarrow> 'a option \<Rightarrow> ('e, unit) result" where
  "check_some f x = (case x of None \<Rightarrow> Inr () | Some v \<Rightarrow> f v)"

definition map_err :: "('e \<Rightarrow> 'f) \<Rightarrow> ('e, 'a) result \<Rightarrow> ('f, 'a) result" where
  "map_err f r = (case r of Inl e \<Rightarrow> Inl (f e) | Inr x \<Rightarrow> Inr x)"

definition is_ok :: "('e, 'a) result \<Rightarrow> bool" where
  "is_ok r = (case r of Inl _ \<Rightarrow> False | Inr _ \<Rightarrow> True)"

fun try_fold :: "('s \<Rightarrow> 'a \<Rightarrow> ('e, 's) result) \<Rightarrow> 's \<Rightarrow> 'a list \<Rightarrow> ('e, 's) result" where
  "try_fold f s [] = Inr s"
| "try_fold f s (x # xs) = (case f s x of Inl e \<Rightarrow> Inl e | Inr s' \<Rightarrow> try_fold f s' xs)"

text \<open>\<open>collect\<close> of an iterator of results into a result: the first error, or all values.\<close>

fun collect_results :: "('e, 'a) result list \<Rightarrow> ('e, 'a list) result" where
  "collect_results [] = Inr []"
| "collect_results (r # rs) = and_then r (\<lambda>x. and_then (collect_results rs) (\<lambda>xs. Inr (x # xs)))"

definition insert_new :: "'e \<Rightarrow> 'k set \<Rightarrow> 'k \<Rightarrow> ('e, 'k set) result" where
  "insert_new e seen k = (if k \<in> seen then Inl e else Inr (insert k seen))"

section \<open>Strings\<close>

abbreviation byte :: "char \<Rightarrow> nat" where
  "byte c \<equiv> of_char c"

text \<open>
  The decoder of well-formed UTF-8. A Rust \<open>String\<close> is well-formed by construction; on other
  byte lists a truncated sequence at the end decodes to the replacement character.
\<close>

fun utf8_chars :: "string \<Rightarrow> nat list" where
  "utf8_chars [] = []"
| "utf8_chars (a # rest) =
     (if byte a < 128 then byte a # utf8_chars rest
      else if byte a < 224 then
        (case rest of
           b # r \<Rightarrow> ((byte a mod 32) * 64 + byte b mod 64) # utf8_chars r
         | [] \<Rightarrow> [65533])
      else if byte a < 240 then
        (case rest of
           b # c # r \<Rightarrow>
             ((byte a mod 16) * 4096 + (byte b mod 64) * 64 + byte c mod 64) # utf8_chars r
         | _ \<Rightarrow> [65533])
      else
        (case rest of
           b # c # d # r \<Rightarrow>
             ((byte a mod 8) * 262144 + (byte b mod 64) * 4096 + (byte c mod 64) * 64
               + byte d mod 64) # utf8_chars r
         | _ \<Rightarrow> [65533]))"

text \<open>\<open>char::is_control\<close> is Unicode category Cc; \<open>char::is_whitespace\<close> is White\_Space.\<close>

definition is_control :: "nat \<Rightarrow> bool" where
  "is_control c \<longleftrightarrow> c < 32 \<or> 127 \<le> c \<and> c \<le> 159"

definition is_whitespace :: "nat \<Rightarrow> bool" where
  "is_whitespace c \<longleftrightarrow> 9 \<le> c \<and> c \<le> 13 \<or> c = 32 \<or> c = 133 \<or> c = 160 \<or> c = 5760
     \<or> 8192 \<le> c \<and> c \<le> 8202 \<or> c = 8232 \<or> c = 8233 \<or> c = 8239 \<or> c = 8287 \<or> c = 12288"

definition has_control :: "string \<Rightarrow> bool" where
  "has_control s \<longleftrightarrow> list_ex is_control (utf8_chars s)"

definition has_whitespace :: "string \<Rightarrow> bool" where
  "has_whitespace s \<longleftrightarrow> list_ex is_whitespace (utf8_chars s)"

definition trim_chars :: "nat list \<Rightarrow> nat list" where
  "trim_chars cs = rev (dropWhile is_whitespace (rev (dropWhile is_whitespace cs)))"

definition trim_empty :: "string \<Rightarrow> bool" where
  "trim_empty s \<longleftrightarrow> trim_chars (utf8_chars s) = []"

definition is_trimmed :: "string \<Rightarrow> bool" where
  "is_trimmed s \<longleftrightarrow> trim_chars (utf8_chars s) = utf8_chars s"

definition to_ascii_lowercase :: "nat \<Rightarrow> nat" where
  "to_ascii_lowercase c = (if 65 \<le> c \<and> c \<le> 90 then c + 32 else c)"

text \<open>\<open>str::to_ascii_lowercase\<close> changes only ASCII bytes, and \<open>split\<close> at an ASCII character cuts between bytes.\<close>

definition str_ascii_lower :: "string \<Rightarrow> string" where
  "str_ascii_lower s = map (\<lambda>c. char_of (to_ascii_lowercase (byte c))) s"

fun split_on :: "char \<Rightarrow> string \<Rightarrow> string list" where
  "split_on sep [] = [[]]"
| "split_on sep (c # s) =
     (if c = sep then [] # split_on sep s
      else (case split_on sep s of [] \<Rightarrow> [[c]] | seg # segs \<Rightarrow> (c # seg) # segs))"

text \<open>The code points with their bytes, to trim a string that is kept.\<close>

fun utf8_split :: "string \<Rightarrow> (nat \<times> string) list" where
  "utf8_split [] = []"
| "utf8_split (a # rest) =
     (if byte a < 128 then (byte a, [a]) # utf8_split rest
      else if byte a < 224 then
        (case rest of
           b # r \<Rightarrow> ((byte a mod 32) * 64 + byte b mod 64, [a, b]) # utf8_split r
         | [] \<Rightarrow> [(65533, [a])])
      else if byte a < 240 then
        (case rest of
           b # c # r \<Rightarrow>
             ((byte a mod 16) * 4096 + (byte b mod 64) * 64 + byte c mod 64, [a, b, c]) # utf8_split r
         | _ \<Rightarrow> [(65533, a # rest)])
      else
        (case rest of
           b # c # d # r \<Rightarrow>
             ((byte a mod 8) * 262144 + (byte b mod 64) * 4096 + (byte c mod 64) * 64
               + byte d mod 64, [a, b, c, d]) # utf8_split r
         | _ \<Rightarrow> [(65533, a # rest)]))"

definition trim_str :: "string \<Rightarrow> string" where
  "trim_str s = concat (map snd
     (rev (dropWhile (is_whitespace \<circ> fst) (rev (dropWhile (is_whitespace \<circ> fst) (utf8_split s))))))"

definition contains_nul :: "string \<Rightarrow> bool" where
  "contains_nul s \<longleftrightarrow> 0 \<in> set (utf8_chars s)"

definition is_ascii_digit :: "char \<Rightarrow> bool" where
  "is_ascii_digit b \<longleftrightarrow> 48 \<le> byte b \<and> byte b \<le> 57"

definition is_ascii_uppercase :: "char \<Rightarrow> bool" where
  "is_ascii_uppercase b \<longleftrightarrow> 65 \<le> byte b \<and> byte b \<le> 90"

definition is_ascii_lowercase :: "char \<Rightarrow> bool" where
  "is_ascii_lowercase b \<longleftrightarrow> 97 \<le> byte b \<and> byte b \<le> 122"

definition is_ascii_alphanumeric :: "char \<Rightarrow> bool" where
  "is_ascii_alphanumeric b \<longleftrightarrow> is_ascii_digit b \<or> is_ascii_uppercase b \<or> is_ascii_lowercase b"

definition is_lower_hex :: "char \<Rightarrow> bool" where
  "is_lower_hex b \<longleftrightarrow> is_ascii_digit b \<or> 97 \<le> byte b \<and> byte b \<le> 102"

definition is_ascii_hexdigit :: "char \<Rightarrow> bool" where
  "is_ascii_hexdigit b \<longleftrightarrow> is_lower_hex b \<or> 65 \<le> byte b \<and> byte b \<le> 70"

text \<open>Decimal printing of an unsigned integer (\<open>Display\<close>).\<close>

fun show_nat :: "nat \<Rightarrow> string" where
  "show_nat n = (if n < 10 then [char_of (48 + n)] else show_nat (n div 10) @ [char_of (48 + n mod 10)])"

declare show_nat.simps [simp del]

text \<open>The two characters beyond ASCII that occur in messages, as their UTF-8 bytes.\<close>

definition em_dash :: string where
  "em_dash = [CHR 0xE2, CHR 0x80, CHR 0x94]"

definition left_right_arrow :: string where
  "left_right_arrow = [CHR 0xE2, CHR 0x86, CHR 0x94]"

section \<open>Lemmas on the combinators\<close>

lemma refuse_simps [simp, result_simps]:
  "refuse b e = Inr u \<longleftrightarrow> \<not> b"
  "refuse b e = Inl e' \<longleftrightarrow> b \<and> e = e'"
  by (auto simp: refuse_def)

text \<open>The error value of a guard is irrelevant to whether it passes; do not rewrite inside it.\<close>

lemma refuse_cong [cong]: "b = b' \<Longrightarrow> refuse b e = refuse b' e"
  by simp

lemma run_checks_Cons_ok [simp, result_simps]:
  "run_checks (c # cs) = Inr u \<longleftrightarrow> c = Inr () \<and> run_checks cs = Inr ()"
  by (auto split: sum.splits)

lemma run_checks_Cons_err [simp, result_simps]:
  "run_checks (c # cs) = Inl e \<longleftrightarrow> c = Inl e \<or> c = Inr () \<and> run_checks cs = Inl e"
  by (auto split: sum.splits)

declare run_checks.simps(2) [simp del]

lemma run_checks_append_ok [simp]:
  "run_checks (cs @ ds) = Inr u \<longleftrightarrow> run_checks cs = Inr () \<and> run_checks ds = Inr ()"
  by (induction cs) auto

lemma run_checks_map_ok [simp]:
  "run_checks (map f xs) = Inr u \<longleftrightarrow> (\<forall>x\<in>set xs. f x = Inr ())"
  by (induction xs) auto

lemma run_checks_ok_iff: "run_checks cs = Inr u \<longleftrightarrow> (\<forall>c\<in>set cs. c = Inr ())"
  by (induction cs) auto

lemma then_ok_simps [simp, result_simps]:
  "then_ok c r = Inr x \<longleftrightarrow> c = Inr () \<and> r = Inr x"
  "then_ok c r = Inl e \<longleftrightarrow> c = Inl e \<or> c = Inr () \<and> r = Inl e"
  by (auto simp: then_ok_def split: sum.splits)

lemma and_then_simps [simp, result_simps]:
  "and_then r f = Inr y \<longleftrightarrow> (\<exists>x. r = Inr x \<and> f x = Inr y)"
  "and_then r f = Inl e \<longleftrightarrow> r = Inl e \<or> (\<exists>x. r = Inr x \<and> f x = Inl e)"
  by (auto simp: and_then_def split: sum.splits)

lemma ok_or_simps [simp, result_simps]:
  "ok_or x e = Inr v \<longleftrightarrow> x = Some v"
  "ok_or x e = Inl e' \<longleftrightarrow> x = None \<and> e = e'"
  by (auto simp: ok_or_def split: option.splits)

lemma check_some_ok [simp, result_simps]:
  "check_some f x = Inr u \<longleftrightarrow> (\<forall>v. x = Some v \<longrightarrow> f v = Inr ())"
  by (auto simp: check_some_def split: option.splits)

lemma check_some_None [simp]: "check_some f None = Inr ()"
  by (simp add: check_some_def)

lemma check_some_Some [simp]: "check_some f (Some v) = f v"
  by (simp add: check_some_def)

lemma map_err_simps [simp, result_simps]:
  "map_err f r = Inr x \<longleftrightarrow> r = Inr x"
  "map_err f r = Inl e' \<longleftrightarrow> (\<exists>e. r = Inl e \<and> e' = f e)"
  by (auto simp: map_err_def split: sum.splits)

lemma is_ok_iff: "is_ok r \<longleftrightarrow> (\<exists>x. r = Inr x)"
  by (auto simp: is_ok_def split: sum.splits)

lemma is_ok_simps [simp]: "is_ok (Inr x)" "\<not> is_ok (Inl e)"
  by (simp_all add: is_ok_def)

lemma try_fold_Cons_ok [simp, result_simps]:
  "try_fold f s (x # xs) = Inr t \<longleftrightarrow> (\<exists>s'. f s x = Inr s' \<and> try_fold f s' xs = Inr t)"
  by (auto split: sum.splits)

lemma try_fold_Cons_err [simp, result_simps]:
  "try_fold f s (x # xs) = Inl e \<longleftrightarrow>
     f s x = Inl e \<or> (\<exists>s'. f s x = Inr s' \<and> try_fold f s' xs = Inl e)"
  by (auto split: sum.splits)

declare try_fold.simps(2) [simp del]

lemma collect_results_ok: "collect_results rs = Inr xs \<longleftrightarrow> rs = map Inr xs"
  by (induction rs arbitrary: xs) auto

lemma collect_results_map_Inr [simp]: "collect_results (map (\<lambda>x. Inr (f x)) xs) = Inr (map f xs)"
  by (simp add: collect_results_ok)

lemma insert_new_simps [simp, result_simps]:
  "insert_new e seen k = Inr s \<longleftrightarrow> k \<notin> seen \<and> s = insert k seen"
  "insert_new e seen k = Inl e' \<longleftrightarrow> k \<in> seen \<and> e = e'"
  by (auto simp: insert_new_def)

lemma try_fold_append:
  "try_fold f s (xs @ ys) = and_then (try_fold f s xs) (\<lambda>t. try_fold f t ys)"
  by (induction xs arbitrary: s) (auto simp: try_fold.simps and_then_def split: sum.splits)

text \<open>
  The loop \<open>for x in xs { check(x)?; if !seen.insert(key(x)) { return Err(e) } }\<close> succeeds exactly
  when every check passes and the keys are pairwise distinct and new.
\<close>

lemma try_fold_insert_new:
  "try_fold (\<lambda>seen x. then_ok (chk x) (insert_new e seen (key x))) s xs = Inr s' \<longleftrightarrow>
     (\<forall>x\<in>set xs. chk x = Inr ()) \<and> distinct (map key xs) \<and> key ` set xs \<inter> s = {} \<and>
     s' = s \<union> key ` set xs"
  by (induction xs arbitrary: s) auto

lemma try_fold_invariant:
  assumes "try_fold f s xs = Inr s'" and "P s"
    and step: "\<And>s x s'. P s \<Longrightarrow> x \<in> set xs \<Longrightarrow> f s x = Inr s' \<Longrightarrow> P s'"
  shows "P s'"
  using assms
proof (induction xs arbitrary: s)
  case Nil
  then show ?case by simp
next
  case (Cons x xs)
  from Cons.prems(1) obtain t where t: "f s x = Inr t" and rest: "try_fold f t xs = Inr s'"
    by auto
  have "P t" using Cons.prems(3)[OF Cons.prems(2) _ t] by simp
  from rest this show ?case
    by (rule Cons.IH) (rule Cons.prems(3), auto)
qed

lemma find_Some_in: "find P xs = Some x \<Longrightarrow> x \<in> set xs \<and> P x"
  by (auto simp: find_Some_iff)

lemma find_append_case:
  "find P (xs @ ys) = (case find P xs of None \<Rightarrow> find P ys | Some x \<Rightarrow> Some x)"
  by (induction xs) auto

lemma find_unique_key:
  assumes "distinct (map key xs)" and "x \<in> set xs" and "key x = k"
  shows "find (\<lambda>y. key y = k) xs = Some x"
  using assms by (induction xs) (auto simp: image_iff)

lemma map_of_key:
  assumes "distinct (map key xs)"
  shows "map_of (map (\<lambda>x. (key x, x)) xs) k = Some x \<longleftrightarrow> x \<in> set xs \<and> key x = k"
  using assms by (induction xs) (auto simp: image_iff)

lemma card_set_eq_length: "card (set xs) = length xs \<longleftrightarrow> distinct xs"
  by (metis card_distinct distinct_card)

section \<open>Lemmas on words and strings\<close>

lemma checked_add_Some [simp]:
  fixes a b :: "'a::len word"
  shows "checked_add a b = Some c \<longleftrightarrow> unat a + unat b < 2 ^ LENGTH('a) \<and> c = a + b"
  by (auto simp: checked_add_def)

lemma checked_add_unat:
  fixes a b :: "'a::len word"
  assumes "checked_add a b = Some c"
  shows "unat c = unat a + unat b"
  using assms by (simp add: unat_add_lem)

lemma checked_sub_Some [simp]:
  "checked_sub a b = Some c \<longleftrightarrow> b \<le> a \<and> c = a - b"
  by (auto simp: checked_sub_def)

lemma checked_sub_unat:
  assumes "checked_sub a b = Some c"
  shows "unat c = unat a - unat b"
  using assms by (simp add: unat_sub)

lemma utf8_split_chars: "map fst (utf8_split s) = utf8_chars s"
  by (induction s rule: utf8_split.induct) (auto split: list.splits)

lemma utf8_split_bytes: "concat (map snd (utf8_split s)) = s"
  by (induction s rule: utf8_split.induct) (auto split: list.splits)

lemma trim_empty_iff: "trim_empty s \<longleftrightarrow> list_all is_whitespace (utf8_chars s)"
  by (simp add: trim_empty_def trim_chars_def list_all_iff)
    (metis set_dropWhileD takeWhile_dropWhile_id Un_iff set_append set_takeWhileD)

end
