(* ===== verification/Core_Error.thy ===== *)
theory Core_Error
  imports Awr_Prelude
begin

text \<open>
  The errors of \<^verbatim>\<open>crates/awr-core\<close>: \<^verbatim>\<open>WorkstreamError\<close> (workstream.rs) and
  \<^verbatim>\<open>Error\<close> (error.rs) with its stable code and the checkpoint rewording. A variant carries
  the fields the source gives it; \<^verbatim>\<open>serde_json::Value\<close>, \<^verbatim>\<open>std::io::Error\<close> and
  \<^verbatim>\<open>serde_json::Error\<close> payloads, which belong to other libraries, are kept as text.
\<close>

type_synonym ulid = u128

datatype workstream_error =
    UnsupportedVersion u32
  | InvalidDefinition string
  | ScopeRequired
  | BindingMismatch
  | AccessDenied
  | StaleAuthority
  | Unavailable
  | Inactive

record diagnostic_location =
  loc_locator :: "string option"
  loc_pointer :: "string option"
  loc_line :: "nat option"
  loc_column :: "nat option"

record source_diagnostic =
  diag_message :: string
  diag_location :: diagnostic_location
  diag_rule :: string
  diag_repair :: string

datatype (plugins only: code size) error =
    WorkstreamErr workstream_error
  | NotFound string
  | SourceUnavailable string
  | SourceStale string
  | IntakePreflightRejected string bool
  | SourceConflict string
  | RevisionConflict u64 u64
  | CheckpointRevisionConflict u64 u64
  | DependencyBlocked string
  | ClaimConflict string
  | RuleViolation string
  | SensitiveSource string diagnostic_location
  | EvidenceMissing string
  | MutationUnsupported string
  | ProposalRequired ulid string
  | MutationIncomplete ulid ulid string
  | WorkActionIncomplete ulid string string
  | MutationConflict string
  | WorkspaceConflict string
  | WorkspaceContended string
  | CheckpointIncomplete ulid string
  | ContextIncomplete string
  | BudgetExceeded nat nat
  | InvalidTransition string
  | InvalidInput string
  | InvalidSource source_diagnostic
  | Unsupported string
  | ProtocolUnsupported u32 "u32 list"
  | CapabilityUnavailable "string list" "string list"
  | StorageErr string
  | IoErr string
  | JsonErr string

fun workstream_error_code :: "workstream_error \<Rightarrow> string" where
  "workstream_error_code (UnsupportedVersion _) = ''WorkstreamProtocolUnsupported''"
| "workstream_error_code (InvalidDefinition _) = ''WorkstreamInvalidDefinition''"
| "workstream_error_code ScopeRequired = ''WorkstreamScopeRequired''"
| "workstream_error_code BindingMismatch = ''WorkstreamBindingMismatch''"
| "workstream_error_code AccessDenied = ''WorkstreamAccessDenied''"
| "workstream_error_code StaleAuthority = ''WorkstreamStaleAuthority''"
| "workstream_error_code Unavailable = ''WorkstreamUnavailable''"
| "workstream_error_code Inactive = ''WorkstreamInactive''"

text \<open>The \<open>Display\<close> text of a workstream error.\<close>

fun workstream_error_display :: "workstream_error \<Rightarrow> string" where
  "workstream_error_display (UnsupportedVersion v) = ''unsupported workstream catalog version '' @ show_nat (unat v)"
| "workstream_error_display (InvalidDefinition m) = ''invalid workstream definition: '' @ m"
| "workstream_error_display ScopeRequired = ''an explicit workstream is required''"
| "workstream_error_display BindingMismatch = ''workstream, work and session bindings do not agree''"
| "workstream_error_display AccessDenied = ''workstream access denied''"
| "workstream_error_display StaleAuthority = ''workstream authority has changed; refresh the permission binding''"
| "workstream_error_display Unavailable = ''workstream is unavailable''"
| "workstream_error_display Inactive = ''ordinary writes require an active workstream''"

definition error_code :: "error \<Rightarrow> string" where
  "error_code err = (case err of
     WorkstreamErr e \<Rightarrow> workstream_error_code e
   | NotFound _ \<Rightarrow> ''NotFound''
   | SourceUnavailable _ \<Rightarrow> ''SourceUnavailable''
   | SourceStale _ \<Rightarrow> ''SourceStale''
   | IntakePreflightRejected _ _ \<Rightarrow> ''SourceStale''
   | SourceConflict _ \<Rightarrow> ''SourceConflict''
   | RevisionConflict _ _ \<Rightarrow> ''RevisionConflict''
   | CheckpointRevisionConflict _ _ \<Rightarrow> ''RevisionConflict''
   | DependencyBlocked _ \<Rightarrow> ''DependencyBlocked''
   | ClaimConflict _ \<Rightarrow> ''ClaimConflict''
   | RuleViolation _ \<Rightarrow> ''RuleViolation''
   | SensitiveSource _ _ \<Rightarrow> ''RuleViolation''
   | EvidenceMissing _ \<Rightarrow> ''EvidenceMissing''
   | MutationUnsupported _ \<Rightarrow> ''MutationUnsupported''
   | ProposalRequired _ _ \<Rightarrow> ''proposal_required''
   | MutationIncomplete _ _ _ \<Rightarrow> ''MutationIncomplete''
   | WorkActionIncomplete _ _ _ \<Rightarrow> ''WorkActionIncomplete''
   | MutationConflict _ \<Rightarrow> ''MutationConflict''
   | WorkspaceConflict _ \<Rightarrow> ''WorkspaceConflict''
   | WorkspaceContended _ \<Rightarrow> ''WorkspaceContended''
   | CheckpointIncomplete _ _ \<Rightarrow> ''CheckpointIncomplete''
   | ContextIncomplete _ \<Rightarrow> ''ContextIncomplete''
   | BudgetExceeded _ _ \<Rightarrow> ''BudgetExceeded''
   | InvalidTransition _ \<Rightarrow> ''InvalidTransition''
   | InvalidInput _ \<Rightarrow> ''InvalidInput''
   | InvalidSource _ \<Rightarrow> ''InvalidInput''
   | Unsupported _ \<Rightarrow> ''Unsupported''
   | ProtocolUnsupported _ _ \<Rightarrow> ''ProtocolUnsupported''
   | CapabilityUnavailable _ _ \<Rightarrow> ''CapabilityUnavailable''
   | StorageErr _ \<Rightarrow> ''Storage''
   | IoErr _ \<Rightarrow> ''Io''
   | JsonErr _ \<Rightarrow> ''Json'')"

definition for_checkpoint :: "error \<Rightarrow> error" where
  "for_checkpoint err = (case err of
     RevisionConflict expected actual \<Rightarrow> CheckpointRevisionConflict expected actual
   | other \<Rightarrow> other)"

lemma for_checkpoint_keeps_code: "error_code (for_checkpoint e) = error_code e"
  by (simp add: for_checkpoint_def error_code_def split: error.split)

end
