(* ===== verification/Workstream.thy ===== *)
theory Workstream
  imports Core_Error
begin

text \<open>
  \<^verbatim>\<open>crates/awr-core/src/workstream.rs\<close>: workstream identity, the catalog of a project, ownership
  of work items by workstreams, grants, authorization of an action on a workstream and the
  resolution of the workstream a request addresses. The SHA-256 that derives the identity of a
  legacy project's only scope comes from the \<^verbatim>\<open>sha2\<close> crate and is the parameter \<open>sha256\<close>.
\<close>

section \<open>Data\<close>

datatype workstream_state = WsActive | WsPaused | WsArchived

record workstream =
  ws_id :: ulid
  ws_project_id :: string
  ws_external_key :: string
  ws_title :: string
  ws_state :: workstream_state
  ws_authority_version :: u64
  ws_goal_keys :: "string list"
  ws_acceptance_contracts :: "string list"

record workstream_catalog =
  cat_version :: u32
  cat_project_id :: string
  cat_legacy_default :: "ulid option"
  cat_workstreams :: "workstream list"

record workstream_work_binding =
  wb_project_id :: string
  wb_workstream_id :: ulid
  wb_work_item_id :: string

record workstream_session_binding =
  sb_work :: workstream_work_binding
  sb_session_id :: string

datatype workstream_action = ActRead | ActWrite | ActManage

record workstream_grant =
  gr_workstream_id :: ulid
  gr_authority_version :: u64
  gr_read :: bool
  gr_write :: bool
  gr_manage :: bool

record workstream_access =
  acc_project_id :: string
  acc_subject :: string
  acc_grants :: "workstream_grant list"

record workstream_selection =
  sel_explicit :: "ulid option"
  sel_work :: "workstream_work_binding option"
  sel_session :: "workstream_session_binding option"
  sel_conversation_default :: "ulid option"

datatype workstream_selection_basis =
  BasisWork | BasisSession | BasisExplicit | BasisConversation | BasisUniqueAuthorized

record resolved_workstream =
  res_project_id :: string
  res_workstream_id :: ulid
  res_work_item_id :: "string option"
  res_session_id :: "string option"
  res_authority_version :: u64
  res_basis :: workstream_selection_basis

definition WORKSTREAM_CATALOG_VERSION :: u32 where
  "WORKSTREAM_CATALOG_VERSION = 1"

definition MAX_WORKSTREAMS :: nat where
  "MAX_WORKSTREAMS = 4096"

section \<open>Operations\<close>

definition non_nil :: "ulid \<Rightarrow> bool" where
  "non_nil i \<longleftrightarrow> i \<noteq> 0"

definition valid_identity :: "string \<Rightarrow> bool" where
  "valid_identity v \<longleftrightarrow> v \<noteq> [] \<and> length v \<le> 128 \<and> \<not> has_control v"

definition bounded_text :: "string \<Rightarrow> nat \<Rightarrow> bool" where
  "bounded_text v limit \<longleftrightarrow>
     v \<noteq> [] \<and> is_trimmed v \<and> length v \<le> limit \<and> \<not> has_control v"

definition references :: "string list \<Rightarrow> bool" where
  "references vs \<longleftrightarrow>
     length vs \<le> 256 \<and> list_all (\<lambda>v. bounded_text v 4096) vs \<and> card (set vs) = length vs"

definition valid_external_key :: "string \<Rightarrow> bool" where
  "valid_external_key key \<longleftrightarrow>
     \<not> (key = [] \<or> length key > 128 \<or> \<not> is_ascii_alphanumeric (hd key)
        \<or> \<not> list_all (\<lambda>b. is_ascii_alphanumeric b \<or> b \<in> set ''._-'') key)"

definition workstream_validate :: "workstream \<Rightarrow> (workstream_error, unit) result" where
  "workstream_validate w =
     refuse
       (\<not> non_nil (ws_id w)
        \<or> \<not> valid_identity (ws_project_id w)
        \<or> \<not> valid_external_key (ws_external_key w)
        \<or> \<not> bounded_text (ws_title w) 512
        \<or> ws_authority_version w = 0
        \<or> \<not> references (ws_goal_keys w)
        \<or> \<not> references (ws_acceptance_contracts w))
       (InvalidDefinition ''identity, key, title, authority version or references are invalid'')"

definition validate_successor ::
  "workstream \<Rightarrow> workstream \<Rightarrow> (workstream_error, unit) result" where
  "validate_successor self previous =
     (let authority_changed =
            ws_state self \<noteq> ws_state previous
            \<or> set (ws_goal_keys self) \<noteq> set (ws_goal_keys previous)
            \<or> set (ws_acceptance_contracts self) \<noteq> set (ws_acceptance_contracts previous)
      in run_checks
        [workstream_validate self,
         workstream_validate previous,
         refuse (ws_id self \<noteq> ws_id previous
                 \<or> ws_project_id self \<noteq> ws_project_id previous
                 \<or> ws_external_key self \<noteq> ws_external_key previous) BindingMismatch,
         refuse (ws_authority_version self < ws_authority_version previous
                 \<or> (authority_changed
                     \<and> ws_authority_version self = ws_authority_version previous))
           StaleAuthority])"

text \<open>The loop of \<open>WorkstreamCatalog::validate\<close>, with its sets of seen identities and keys.\<close>

definition catalog_visit ::
  "string \<Rightarrow> ulid set \<times> string set \<Rightarrow> workstream \<Rightarrow>
     (workstream_error, ulid set \<times> string set) result" where
  "catalog_visit project st w = (case st of (ids, keys) \<Rightarrow>
     then_ok
       (run_checks
         [workstream_validate w,
          refuse (ws_project_id w \<noteq> project) BindingMismatch,
          refuse (ws_id w \<in> ids \<or> ws_external_key w \<in> keys)
            (InvalidDefinition ''duplicate workstream identity or key'')])
       (Inr (insert (ws_id w) ids, insert (ws_external_key w) keys)))"

definition catalog_validate :: "workstream_catalog \<Rightarrow> (workstream_error, unit) result" where
  "catalog_validate c =
     then_ok
       (run_checks
         [refuse (cat_version c \<noteq> WORKSTREAM_CATALOG_VERSION) (UnsupportedVersion (cat_version c)),
          refuse (\<not> valid_identity (cat_project_id c)
                  \<or> cat_workstreams c = []
                  \<or> length (cat_workstreams c) > MAX_WORKSTREAMS)
            (InvalidDefinition ''catalog requires a project and a bounded nonempty scope set'')])
       (and_then (try_fold (catalog_visit (cat_project_id c)) ({}, {}) (cat_workstreams c))
         (\<lambda>(ids, keys).
           refuse (case cat_legacy_default c of None \<Rightarrow> False | Some i \<Rightarrow> i \<notin> ids)
             (InvalidDefinition ''legacy default is not a declared workstream'')))"

definition be_bytes :: "string \<Rightarrow> ulid" where
  "be_bytes bs = foldl (\<lambda>acc b. acc * 256 + of_nat (byte b)) 0 bs"

definition catalog_legacy ::
  "(string \<Rightarrow> string) \<Rightarrow> string \<Rightarrow> (workstream_error, workstream_catalog) result" where
  "catalog_legacy sha256 project_id =
     (let i = be_bytes (take 16 (sha256 (''awr:legacy-workstream:v1:'' @ project_id)));
          catalog =
            \<lparr>cat_version = WORKSTREAM_CATALOG_VERSION,
             cat_project_id = project_id,
             cat_legacy_default = Some i,
             cat_workstreams =
               [\<lparr>ws_id = i,
                 ws_project_id = project_id,
                 ws_external_key = ''main'',
                 ws_title = ''Main'',
                 ws_state = WsActive,
                 ws_authority_version = 1,
                 ws_goal_keys = [],
                 ws_acceptance_contracts = []\<rparr>]\<rparr>
      in then_ok (catalog_validate catalog) (Inr catalog))"

definition catalog_get :: "workstream_catalog \<Rightarrow> ulid \<Rightarrow> (workstream_error, workstream) result" where
  "catalog_get c i = ok_or (find (\<lambda>w. ws_id w = i) (cat_workstreams c)) Unavailable"

definition validate_work_binding ::
  "workstream_catalog \<Rightarrow> workstream_work_binding \<Rightarrow> (workstream_error, unit) result" where
  "validate_work_binding c b =
     then_ok
       (refuse (wb_project_id b \<noteq> cat_project_id c \<or> \<not> valid_identity (wb_work_item_id b))
         BindingMismatch)
       (and_then (catalog_get c (wb_workstream_id b)) (\<lambda>_. Inr ()))"

definition validate_workstream_ownership ::
  "workstream_catalog \<Rightarrow> string list \<Rightarrow> workstream_work_binding list \<Rightarrow>
     (workstream_error, unit) result" where
  "validate_workstream_ownership c work_ids bindings =
     then_ok
       (run_checks
         [catalog_validate c,
          refuse (card (set work_ids) \<noteq> length work_ids \<or> list_ex (\<lambda>i. \<not> valid_identity i) work_ids)
            (InvalidDefinition ''invalid work identity set'')])
       (and_then
         (try_fold (\<lambda>seen b.
            then_ok (validate_work_binding c b)
              (insert_new (InvalidDefinition ''work must have exactly one owning workstream'')
                seen (wb_work_item_id b))) {} bindings)
         (\<lambda>seen. refuse (seen \<noteq> set work_ids)
            (InvalidDefinition ''ownership must cover exactly the declared work set'')))"

fun grant_permits :: "workstream_grant \<Rightarrow> workstream_action \<Rightarrow> bool" where
  "grant_permits g ActRead = gr_read g"
| "grant_permits g ActWrite = gr_write g"
| "grant_permits g ActManage = gr_manage g"

text \<open>The closure of \<open>grants.iter().any(..)\<close>, which records the scopes it has seen.\<close>

fun grants_any_invalid :: "ulid set \<Rightarrow> workstream_grant list \<Rightarrow> bool" where
  "grants_any_invalid seen [] = False"
| "grants_any_invalid seen (g # gs) =
     (if \<not> non_nil (gr_workstream_id g)
         \<or> gr_authority_version g = 0
         \<or> ((gr_write g \<or> gr_manage g) \<and> \<not> gr_read g)
         \<or> gr_workstream_id g \<in> seen
      then True
      else grants_any_invalid (insert (gr_workstream_id g) seen) gs)"

definition access_validate :: "workstream_access \<Rightarrow> (workstream_error, unit) result" where
  "access_validate a =
     refuse
       (\<not> valid_identity (acc_project_id a)
        \<or> \<not> bounded_text (acc_subject a) 512
        \<or> length (acc_grants a) > MAX_WORKSTREAMS
        \<or> grants_any_invalid {} (acc_grants a))
       (InvalidDefinition ''invalid permission identity, duplicate scope or incomplete read grant'')"

definition authorize_validated ::
  "workstream_access \<Rightarrow> workstream_catalog \<Rightarrow> ulid \<Rightarrow> workstream_action \<Rightarrow>
     (workstream_error, unit) result" where
  "authorize_validated a c i action =
     then_ok (refuse (acc_project_id a \<noteq> cat_project_id c) AccessDenied)
       (and_then (ok_or (find (\<lambda>g. gr_workstream_id g = i) (acc_grants a)) AccessDenied)
         (\<lambda>g. then_ok (refuse (\<not> grant_permits g action) AccessDenied)
           (and_then (catalog_get c i)
             (\<lambda>w. run_checks
               [refuse (gr_authority_version g \<noteq> ws_authority_version w) StaleAuthority,
                refuse (action = ActWrite \<and> ws_state w \<noteq> WsActive) Inactive]))))"

definition authorize ::
  "workstream_access \<Rightarrow> workstream_catalog \<Rightarrow> ulid \<Rightarrow> workstream_action \<Rightarrow>
     (workstream_error, unit) result" where
  "authorize a c i action =
     run_checks [access_validate a, catalog_validate c, authorize_validated a c i action]"

text \<open>\<open>grants.iter().map(..).collect::<BTreeMap>()\<close>: a later entry replaces an earlier one.\<close>

definition grants_map :: "workstream_grant list \<Rightarrow> ulid \<Rightarrow> workstream_grant option" where
  "grants_map gs = map_of (rev (map (\<lambda>g. (gr_workstream_id g, g)) gs))"

definition authorized_candidates ::
  "workstream_catalog \<Rightarrow> workstream_access \<Rightarrow> workstream_action \<Rightarrow> ulid list" where
  "authorized_candidates c a action =
     take 2 (map ws_id
       (filter (\<lambda>w. case grants_map (acc_grants a) (ws_id w) of
                      None \<Rightarrow> False | Some g \<Rightarrow> grant_permits g action)
         (cat_workstreams c)))"

definition selection_binding :: "workstream_selection \<Rightarrow> workstream_work_binding option" where
  "selection_binding s = (case sel_session s of Some b \<Rightarrow> Some (sb_work b) | None \<Rightarrow> sel_work s)"

definition select_scope ::
  "workstream_catalog \<Rightarrow> workstream_access \<Rightarrow> workstream_selection \<Rightarrow> workstream_action \<Rightarrow>
     (workstream_error, ulid \<times> workstream_selection_basis) result" where
  "select_scope c a s action =
     (case selection_binding s of
        Some work \<Rightarrow>
          then_ok
            (refuse (wb_project_id work \<noteq> cat_project_id c
                     \<or> (case sel_explicit s of None \<Rightarrow> False | Some i \<Rightarrow> i \<noteq> wb_workstream_id work))
              BindingMismatch)
            (Inr (wb_workstream_id work,
                  if sel_session s \<noteq> None then BasisSession else BasisWork))
      | None \<Rightarrow>
          (case sel_explicit s of
             Some i \<Rightarrow> Inr (i, BasisExplicit)
           | None \<Rightarrow>
               (case sel_conversation_default s of
                  Some i \<Rightarrow> Inr (i, BasisConversation)
                | None \<Rightarrow>
                    (case authorized_candidates c a action of
                       [i] \<Rightarrow> Inr (i, BasisUniqueAuthorized)
                     | [] \<Rightarrow> Inl AccessDenied
                     | _ \<Rightarrow> Inl ScopeRequired))))"

definition resolve_workstream ::
  "workstream_catalog \<Rightarrow> workstream_access \<Rightarrow> workstream_selection \<Rightarrow> workstream_action \<Rightarrow>
     (workstream_error, resolved_workstream) result" where
  "resolve_workstream c a s action =
     then_ok
       (run_checks
         [catalog_validate c,
          access_validate a,
          refuse (acc_project_id a \<noteq> cat_project_id c) AccessDenied,
          check_some (\<lambda>b. refuse (\<not> valid_identity (sb_session_id b)
              \<or> (case sel_work s of None \<Rightarrow> False | Some w \<Rightarrow> w \<noteq> sb_work b)) BindingMismatch)
            (sel_session s)])
       (and_then (select_scope c a s action)
         (\<lambda>(i, basis).
           then_ok
             (run_checks
               [authorize_validated a c i action,
                check_some (validate_work_binding c) (selection_binding s)])
             (and_then (catalog_get c i)
               (\<lambda>w. Inr
                 \<lparr>res_project_id = cat_project_id c,
                  res_workstream_id = i,
                  res_work_item_id = map_option wb_work_item_id (selection_binding s),
                  res_session_id = map_option sb_session_id (sel_session s),
                  res_authority_version = ws_authority_version w,
                  res_basis = basis\<rparr>))))"

section \<open>Characterisations\<close>

lemma catalog_visit_ok [simp]:
  "catalog_visit project (ids, keys) w = Inr st \<longleftrightarrow>
     workstream_validate w = Inr () \<and> ws_project_id w = project \<and> ws_id w \<notin> ids
     \<and> ws_external_key w \<notin> keys \<and> st = (insert (ws_id w) ids, insert (ws_external_key w) keys)"
  by (auto simp: catalog_visit_def)

lemma catalog_loop_ok:
  "try_fold (catalog_visit project) (ids, keys) ws = Inr (ids', keys') \<longleftrightarrow>
     (\<forall>w\<in>set ws. workstream_validate w = Inr () \<and> ws_project_id w = project)
     \<and> distinct (map ws_id ws) \<and> ws_id ` set ws \<inter> ids = {}
     \<and> distinct (map ws_external_key ws) \<and> ws_external_key ` set ws \<inter> keys = {}
     \<and> ids' = ids \<union> ws_id ` set ws \<and> keys' = keys \<union> ws_external_key ` set ws"
  by (induction ws arbitrary: ids keys) auto

lemma catalog_validate_ok:
  "catalog_validate c = Inr () \<longleftrightarrow>
     cat_version c = WORKSTREAM_CATALOG_VERSION \<and> valid_identity (cat_project_id c)
     \<and> cat_workstreams c \<noteq> [] \<and> length (cat_workstreams c) \<le> MAX_WORKSTREAMS
     \<and> (\<forall>w\<in>set (cat_workstreams c).
          workstream_validate w = Inr () \<and> ws_project_id w = cat_project_id c)
     \<and> distinct (map ws_id (cat_workstreams c))
     \<and> distinct (map ws_external_key (cat_workstreams c))
     \<and> (\<forall>i. cat_legacy_default c = Some i \<longrightarrow> i \<in> ws_id ` set (cat_workstreams c))"
  by (auto simp: catalog_validate_def catalog_loop_ok not_less split: option.splits)

lemma catalog_get_ok:
  assumes "catalog_validate c = Inr ()"
  shows "catalog_get c i = Inr w \<longleftrightarrow> w \<in> set (cat_workstreams c) \<and> ws_id w = i"
  using assms
  by (auto simp: catalog_get_def catalog_validate_ok dest: find_Some_in intro: find_unique_key)

lemma validate_work_binding_ok [simp]:
  "validate_work_binding c b = Inr u \<longleftrightarrow>
     wb_project_id b = cat_project_id c \<and> valid_identity (wb_work_item_id b)
     \<and> (\<exists>w. catalog_get c (wb_workstream_id b) = Inr w)"
  by (auto simp: validate_work_binding_def)

lemma ownership_ok:
  "validate_workstream_ownership c ids bs = Inr u \<longleftrightarrow>
     catalog_validate c = Inr () \<and> distinct ids \<and> list_all valid_identity ids
     \<and> (\<forall>b\<in>set bs. validate_work_binding c b = Inr ())
     \<and> distinct (map wb_work_item_id bs) \<and> wb_work_item_id ` set bs = set ids"
  by (auto simp: validate_workstream_ownership_def try_fold_insert_new card_set_eq_length
      list_ex_iff list_all_iff)

lemma grants_any_invalid_False:
  "\<not> grants_any_invalid seen gs \<longleftrightarrow>
     (\<forall>g\<in>set gs. non_nil (gr_workstream_id g) \<and> gr_authority_version g \<noteq> 0
        \<and> (gr_write g \<or> gr_manage g \<longrightarrow> gr_read g))
     \<and> distinct (map gr_workstream_id gs) \<and> gr_workstream_id ` set gs \<inter> seen = {}"
  by (induction gs arbitrary: seen) auto

lemma access_validate_ok:
  "access_validate a = Inr u \<longleftrightarrow>
     valid_identity (acc_project_id a) \<and> bounded_text (acc_subject a) 512
     \<and> length (acc_grants a) \<le> MAX_WORKSTREAMS
     \<and> (\<forall>g\<in>set (acc_grants a). non_nil (gr_workstream_id g) \<and> gr_authority_version g \<noteq> 0
          \<and> (gr_write g \<or> gr_manage g \<longrightarrow> gr_read g))
     \<and> distinct (map gr_workstream_id (acc_grants a))"
  by (auto simp: access_validate_def grants_any_invalid_False)

lemma authorize_validated_ok:
  assumes "catalog_validate c = Inr ()" and "access_validate a = Inr ()"
  shows "authorize_validated a c i action = Inr u \<longleftrightarrow>
    acc_project_id a = cat_project_id c \<and>
    (\<exists>g\<in>set (acc_grants a). \<exists>w\<in>set (cat_workstreams c).
       gr_workstream_id g = i \<and> ws_id w = i \<and> grant_permits g action
       \<and> gr_authority_version g = ws_authority_version w
       \<and> (action = ActWrite \<longrightarrow> ws_state w = WsActive))"
  using assms(2)
  by (auto simp: authorize_validated_def catalog_get_ok[OF assms(1)] access_validate_ok
      dest!: find_Some_in intro: find_unique_key)

lemma grants_map_Some:
  assumes "access_validate a = Inr ()"
  shows "grants_map (acc_grants a) i = Some g \<longleftrightarrow> g \<in> set (acc_grants a) \<and> gr_workstream_id g = i"
  using assms map_of_key[of gr_workstream_id "rev (acc_grants a)" i g]
  by (simp add: grants_map_def access_validate_ok rev_map flip: rev_map)

lemma select_scope_ok:
  assumes "select_scope c a s action = Inr (i, basis)"
  shows "(\<forall>b. selection_binding s = Some b \<longrightarrow> wb_workstream_id b = i \<and> wb_project_id b = cat_project_id c)
    \<and> (\<forall>j. sel_explicit s = Some j \<longrightarrow> j = i)"
  using assms by (auto simp: select_scope_def split: option.splits list.splits)

lemma resolve_workstream_ok:
  "resolve_workstream c a s action = Inr r \<longleftrightarrow>
     catalog_validate c = Inr () \<and> access_validate a = Inr () \<and> acc_project_id a = cat_project_id c
     \<and> (\<forall>b. sel_session s = Some b \<longrightarrow> valid_identity (sb_session_id b)
           \<and> (\<forall>w. sel_work s = Some w \<longrightarrow> w = sb_work b))
     \<and> (\<exists>i basis w. select_scope c a s action = Inr (i, basis)
           \<and> authorize_validated a c i action = Inr ()
           \<and> (\<forall>b. selection_binding s = Some b \<longrightarrow> validate_work_binding c b = Inr ())
           \<and> catalog_get c i = Inr w
           \<and> r = \<lparr>res_project_id = cat_project_id c, res_workstream_id = i,
                  res_work_item_id = map_option wb_work_item_id (selection_binding s),
                  res_session_id = map_option sb_session_id (sel_session s),
                  res_authority_version = ws_authority_version w, res_basis = basis\<rparr>)"
  unfolding resolve_workstream_def by (fastforce split: option.splits)

text \<open>The catalog in which a workstream is replaced by its successor.\<close>

definition replace_stream :: "workstream \<Rightarrow> workstream_catalog \<Rightarrow> workstream_catalog" where
  "replace_stream w' c = c\<lparr>cat_workstreams :=
     map (\<lambda>x. if ws_id x = ws_id w' then w' else x) (cat_workstreams c)\<rparr>"

lemma replace_stream_simps [simp]:
  "cat_version (replace_stream w' c) = cat_version c"
  "cat_project_id (replace_stream w' c) = cat_project_id c"
  "cat_legacy_default (replace_stream w' c) = cat_legacy_default c"
  "length (cat_workstreams (replace_stream w' c)) = length (cat_workstreams c)"
  "cat_workstreams (replace_stream w' c) = [] \<longleftrightarrow> cat_workstreams c = []"
  "map ws_id (cat_workstreams (replace_stream w' c)) = map ws_id (cat_workstreams c)"
  by (simp_all add: replace_stream_def comp_def if_distrib)

lemma replace_stream_ids [simp]:
  "ws_id ` set (cat_workstreams (replace_stream w' c)) = ws_id ` set (cat_workstreams c)"
  by (metis replace_stream_simps(6) list.set_map)

lemma replace_stream_member:
  "x \<in> set (cat_workstreams (replace_stream w' c)) \<Longrightarrow>
     x = w' \<or> x \<in> set (cat_workstreams c)"
  by (auto simp: replace_stream_def)

lemma replace_stream_hit:
  "w \<in> set (cat_workstreams c) \<Longrightarrow> ws_id w' = ws_id w \<Longrightarrow>
     w' \<in> set (cat_workstreams (replace_stream w' c))"
  by (auto simp: replace_stream_def)

lemma replace_stream_valid:
  assumes cat: "catalog_validate c = Inr ()" and w: "w \<in> set (cat_workstreams c)"
    and succ: "validate_successor w' w = Inr ()"
  shows "catalog_validate (replace_stream w' c) = Inr ()"
proof -
  from succ have same: "ws_id w' = ws_id w" "ws_external_key w' = ws_external_key w"
      "ws_project_id w' = ws_project_id w" "workstream_validate w' = Inr ()"
    by (auto simp: validate_successor_def Let_def)
  have "x = w" if "x \<in> set (cat_workstreams c)" "ws_id x = ws_id w" for x
    using cat w that by (auto simp: catalog_validate_ok distinct_map inj_on_def)
  then have keys: "map ws_external_key (cat_workstreams (replace_stream w' c)) =
      map ws_external_key (cat_workstreams c)"
    using same by (auto simp: replace_stream_def)
  have mem: "\<forall>x\<in>set (cat_workstreams (replace_stream w' c)).
      workstream_validate x = Inr () \<and> ws_project_id x = cat_project_id c"
    using cat w same by (auto simp: catalog_validate_ok dest!: replace_stream_member)
  show ?thesis
    using cat mem keys unfolding catalog_validate_ok by simp
qed

lemma authorized_candidates_alt:
  assumes "access_validate a = Inr ()"
  shows "authorized_candidates c a action = take 2 (map ws_id (filter
     (\<lambda>w. \<exists>g\<in>set (acc_grants a). gr_workstream_id g = ws_id w \<and> grant_permits g action)
     (cat_workstreams c)))"
  unfolding authorized_candidates_def
  by (intro arg_cong[of _ _ "\<lambda>P. take 2 (map ws_id (filter P (cat_workstreams c)))"] ext)
    (auto split: option.splits simp: grants_map_Some[OF assms]
      dest!: grants_map_Some[OF assms, THEN iffD2, OF conjI] )

section \<open>Properties\<close>

text \<open>A small project with two workstreams, for the witnesses.\<close>

definition ex_stream :: "ulid \<Rightarrow> string \<Rightarrow> workstream" where
  "ex_stream i key = \<lparr>ws_id = i, ws_project_id = ''proj'', ws_external_key = key, ws_title = ''T'',
     ws_state = WsActive, ws_authority_version = 3, ws_goal_keys = [''g''], ws_acceptance_contracts = []\<rparr>"

definition ex_catalog :: workstream_catalog where
  "ex_catalog = \<lparr>cat_version = 1, cat_project_id = ''proj'', cat_legacy_default = None,
     cat_workstreams = [ex_stream 1 ''api'', ex_stream 2 ''web'']\<rparr>"

definition ex_access :: workstream_access where
  "ex_access = \<lparr>acc_project_id = ''proj'', acc_subject = ''alice'', acc_grants =
     [\<lparr>gr_workstream_id = 2, gr_authority_version = 3, gr_read = True, gr_write = True, gr_manage = False\<rparr>]\<rparr>"

definition ex_selection :: workstream_selection where
  "ex_selection = \<lparr>sel_explicit = None, sel_work = None, sel_session = None, sel_conversation_default = None\<rparr>"

lemma ex_resolves: "is_ok (resolve_workstream ex_catalog ex_access ex_selection ActWrite)"
  by code_simp

text \<open>
  C1: A request resolves to a workstream only if the caller's access record holds a grant for
  exactly that workstream.
\<close>
theorem resolve_workstream_authorized:
  assumes "resolve_workstream c a s action = Inr r"
  shows "\<exists>g\<in>set (acc_grants a). \<exists>w\<in>set (cat_workstreams c).
      ws_id w = res_workstream_id r \<and> gr_workstream_id g = ws_id w \<and> grant_permits g action
    \<and> gr_authority_version g = ws_authority_version w
    \<and> res_authority_version r = ws_authority_version w
    \<and> (action = ActWrite \<longrightarrow> ws_state w = WsActive)
    \<and> acc_project_id a = cat_project_id c \<and> res_project_id r = cat_project_id c
    \<and> (\<forall>b. selection_binding s = Some b \<longrightarrow>
          wb_workstream_id b = ws_id w \<and> wb_project_id b = cat_project_id c
          \<and> res_work_item_id r = Some (wb_work_item_id b))
    \<and> (\<forall>i. sel_explicit s = Some i \<longrightarrow> i = ws_id w)"
proof -
  from assms obtain i basis w where ok: "catalog_validate c = Inr ()" "access_validate a = Inr ()"
    and sel: "select_scope c a s action = Inr (i, basis)"
    and auth: "authorize_validated a c i action = Inr ()"
    and get: "catalog_get c i = Inr w"
    and r: "r = \<lparr>res_project_id = cat_project_id c, res_workstream_id = i,
                  res_work_item_id = map_option wb_work_item_id (selection_binding s),
                  res_session_id = map_option sb_session_id (sel_session s),
                  res_authority_version = ws_authority_version w, res_basis = basis\<rparr>"
    by (auto simp: resolve_workstream_ok)
  from auth obtain g v where "g \<in> set (acc_grants a)" "v \<in> set (cat_workstreams c)"
      "gr_workstream_id g = i" "ws_id v = i" "grant_permits g action"
      "gr_authority_version g = ws_authority_version v" "action = ActWrite \<longrightarrow> ws_state v = WsActive"
      "acc_project_id a = cat_project_id c"
    by (auto simp: authorize_validated_ok[OF ok])
  moreover from this have "catalog_get c i = Inr v"
    by (simp add: catalog_get_ok[OF ok(1)])
  with get have "v = w" by simp
  ultimately show ?thesis
    using select_scope_ok[OF sel] r by (intro bexI[of _ g] bexI[of _ w]) auto
qed

theorem resolve_workstream_authorized_witness:
  "\<exists>r. resolve_workstream ex_catalog ex_access ex_selection ActWrite = Inr r
     \<and> (\<exists>g\<in>set (acc_grants ex_access). gr_workstream_id g = res_workstream_id r \<and> grant_permits g ActWrite)"
proof -
  obtain r where r: "resolve_workstream ex_catalog ex_access ex_selection ActWrite = Inr r"
    using ex_resolves by (auto simp: is_ok_iff)
  from resolve_workstream_authorized[OF r] r show ?thesis by fastforce
qed

text \<open>
  An ownership set that validates gives every declared work item exactly one owning binding,
  declares nothing else, and every owner is exactly one workstream of the catalog.
\<close>
theorem validated_ownership_is_total_and_unique:
  assumes "validate_workstream_ownership c ids bs = Inr ()"
  shows "(\<forall>i\<in>set ids. \<exists>!b. b \<in> set bs \<and> wb_work_item_id b = i)
    \<and> (\<forall>b\<in>set bs. wb_work_item_id b \<in> set ids \<and> wb_project_id b = cat_project_id c
          \<and> (\<exists>!w. w \<in> set (cat_workstreams c) \<and> ws_id w = wb_workstream_id b))"
proof -
  from assms have cat: "catalog_validate c = Inr ()" and d: "distinct (map wb_work_item_id bs)"
    and im: "wb_work_item_id ` set bs = set ids"
    and bind: "\<forall>b\<in>set bs. validate_work_binding c b = Inr ()"
    by (auto simp: ownership_ok)
  have inj: "inj_on wb_work_item_id (set bs)" using d by (simp add: distinct_map)
  have uniq: "\<exists>!w. w \<in> set (cat_workstreams c) \<and> ws_id w = wb_workstream_id b"
    if "b \<in> set bs" for b
  proof -
    from bind that obtain w where "catalog_get c (wb_workstream_id b) = Inr w" by auto
    then show ?thesis using catalog_get_ok[OF cat, of "wb_workstream_id b"] by (metis Inr_inject)
  qed
  have one: "\<exists>!b. b \<in> set bs \<and> wb_work_item_id b = i" if "i \<in> set ids" for i
  proof -
    from that im obtain b where "b \<in> set bs" "wb_work_item_id b = i" by (metis imageE)
    then show ?thesis using inj by (intro ex1I[of _ b]) (auto dest: inj_onD)
  qed
  have "wb_work_item_id b \<in> set ids" if "b \<in> set bs" for b
    using that im by (metis imageI)
  with one uniq bind show ?thesis by simp
qed

definition ex_owned :: "workstream_work_binding list" where
  "ex_owned = [\<lparr>wb_project_id = ''proj'', wb_workstream_id = 2, wb_work_item_id = ''w1''\<rparr>]"

theorem validated_ownership_is_total_and_unique_witness:
  "validate_workstream_ownership ex_catalog [''w1''] ex_owned = Inr ()
   \<and> (\<exists>!b. b \<in> set ex_owned \<and> wb_work_item_id b = ''w1'')"
proof -
  have ok: "validate_workstream_ownership ex_catalog [''w1''] ex_owned = Inr ()" by code_simp
  from validated_ownership_is_total_and_unique[OF ok] ok show ?thesis by simp
qed

text \<open>
  An accepted change of a workstream's scope authority invalidates outstanding permission: a
  subject who could act on the workstream is refused with \<open>StaleAuthority\<close> afterwards.
\<close>
theorem authority_change_invalidates_grants:
  assumes "authorize a c (ws_id w) action = Inr ()" and "w \<in> set (cat_workstreams c)"
    and "validate_successor w' w = Inr ()"
    and "ws_state w' \<noteq> ws_state w \<or> set (ws_goal_keys w') \<noteq> set (ws_goal_keys w)
         \<or> set (ws_acceptance_contracts w') \<noteq> set (ws_acceptance_contracts w)"
  shows "authorize a (replace_stream w' c) (ws_id w) action = Inl StaleAuthority"
proof -
  from assms(1) have cat: "catalog_validate c = Inr ()" and acc: "access_validate a = Inr ()"
    and auth: "authorize_validated a c (ws_id w) action = Inr ()"
    by (auto simp: authorize_def)
  have cat': "catalog_validate (replace_stream w' c) = Inr ()"
    by (rule replace_stream_valid[OF cat assms(2,3)])
  from auth obtain g v where g: "find (\<lambda>g. gr_workstream_id g = ws_id w) (acc_grants a) = Some g"
      "grant_permits g action" "acc_project_id a = cat_project_id c"
    and v: "catalog_get c (ws_id w) = Inr v" "gr_authority_version g = ws_authority_version v"
    by (auto simp: authorize_validated_def)
  have "v = w" using v(1) assms(2) catalog_get_ok[OF cat] by (metis Inr_inject)
  moreover have "ws_authority_version w < ws_authority_version w'" "ws_id w' = ws_id w"
    using assms(3,4) by (auto simp: validate_successor_def Let_def)
  moreover have "catalog_get (replace_stream w' c) (ws_id w) = Inr w'"
    using replace_stream_hit[OF assms(2) calculation(3)] calculation(3)
    by (simp add: catalog_get_ok[OF cat'])
  ultimately show ?thesis
    using g v cat' acc by (simp add: authorize_def authorize_validated_def)
qed

theorem authority_change_invalidates_grants_witness:
  "authorize ex_access ex_catalog 2 ActWrite = Inr ()
   \<and> authorize ex_access (replace_stream ((ex_stream 2 ''web'')\<lparr>ws_state := WsPaused,
        ws_authority_version := 4\<rparr>) ex_catalog) 2 ActWrite = Inl StaleAuthority"
proof -
  let ?w = "ex_stream 2 ''web''"
  let ?w' = "?w\<lparr>ws_state := WsPaused, ws_authority_version := 4\<rparr>"
  have id: "ws_id ?w = 2" by (simp add: ex_stream_def)
  have 1: "authorize ex_access ex_catalog (ws_id ?w) ActWrite = Inr ()" by code_simp
  have 2: "?w \<in> set (cat_workstreams ex_catalog)" by (simp add: ex_catalog_def)
  have 3: "validate_successor ?w' ?w = Inr ()" by code_simp
  have 4: "ws_state ?w' \<noteq> ws_state ?w \<or> set (ws_goal_keys ?w') \<noteq> set (ws_goal_keys ?w)
      \<or> set (ws_acceptance_contracts ?w') \<noteq> set (ws_acceptance_contracts ?w)"
    by (simp add: ex_stream_def)
  show ?thesis using 1 authority_change_invalidates_grants[OF 1 2 3 4] by (simp add: id)
qed

text \<open>
  A request that names no workstream, work item or session is never guessed into a scope: it
  is denied when the caller's grants permit the action on no workstream, refused with
  \<open>ScopeRequired\<close> when they permit it on two or more, and where it resolves the permitted
  workstream is the only one.
\<close>
theorem implicit_scope_is_never_guessed:
  assumes "catalog_validate c = Inr ()" and "access_validate a = Inr ()"
    and "acc_project_id a = cat_project_id c"
    and "s = \<lparr>sel_explicit = None, sel_work = None, sel_session = None, sel_conversation_default = None\<rparr>"
    and "permitted = {w \<in> set (cat_workstreams c).
           \<exists>g\<in>set (acc_grants a). gr_workstream_id g = ws_id w \<and> grant_permits g action}"
  shows "(permitted = {} \<longrightarrow> resolve_workstream c a s action = Inl AccessDenied)
    \<and> (2 \<le> card permitted \<longrightarrow> resolve_workstream c a s action = Inl ScopeRequired)
    \<and> (\<forall>r. resolve_workstream c a s action = Inr r \<longrightarrow>
          (\<exists>w. permitted = {w} \<and> ws_id w = res_workstream_id r))"
proof -
  let ?P = "\<lambda>w. \<exists>g\<in>set (acc_grants a). gr_workstream_id g = ws_id w \<and> grant_permits g action"
  define ws where "ws = filter ?P (cat_workstreams c)"
  have perm: "permitted = set ws" by (simp add: assms(5) ws_def)
  have "distinct ws"
    using assms(1) by (auto simp: ws_def catalog_validate_ok distinct_map)
  then have card: "card permitted = length ws" by (simp add: perm distinct_card)
  have cand: "authorized_candidates c a action = take 2 (map ws_id ws)"
    by (simp add: authorized_candidates_alt[OF assms(2)] ws_def)
  have sel: "select_scope c a s action = (case take 2 (map ws_id ws) of
       [i] \<Rightarrow> Inr (i, BasisUniqueAuthorized) | [] \<Rightarrow> Inl AccessDenied | _ \<Rightarrow> Inl ScopeRequired)"
    by (simp add: select_scope_def selection_binding_def assms(4) cand)
  have res: "resolve_workstream c a s action = Inl e" if "select_scope c a s action = Inl e" for e
    using that assms by (simp add: resolve_workstream_def)
  consider "ws = []" | w where "ws = [w]" | w v vs where "ws = w # v # vs"
    by (metis neq_Nil_conv)
  then show ?thesis
  proof cases
    case 1
    with sel res show ?thesis by (simp add: perm)
  next
    case 2
    with sel show ?thesis by (auto simp: perm resolve_workstream_ok)
  next
    case 3
    with sel res show ?thesis by (simp add: perm)
  qed
qed

theorem implicit_scope_is_never_guessed_witness:
  "resolve_workstream ex_catalog (ex_access\<lparr>acc_grants := []\<rparr>) ex_selection ActRead = Inl AccessDenied"
proof -
  have 1: "catalog_validate ex_catalog = Inr ()" by code_simp
  have 2: "access_validate (ex_access\<lparr>acc_grants := []\<rparr>) = Inr ()" by code_simp
  have 3: "acc_project_id (ex_access\<lparr>acc_grants := []\<rparr>) = cat_project_id ex_catalog"
    by (simp add: ex_access_def ex_catalog_def)
  show ?thesis
    using implicit_scope_is_never_guessed[OF 1 2 3 ex_selection_def refl, of ActRead] by simp
qed

end
