(* ===== verification/Workstream_Graph.thy ===== *)
theory Workstream_Graph
  imports Workstream "HOL-Library.List_Lexorder"
begin

text \<open>
  \<^verbatim>\<open>crates/awr-core/src/workstream_graph.rs\<close>: the dependency check of a project. A depth-first
  search with an explicit stack decides whether the required edges form a DAG and returns an
  actual cycle otherwise. A \<open>BTreeMap\<close> or \<open>BTreeSet\<close> iterates in key order, which for Rust strings
  is the lexicographic order of their bytes, the order of \<open>HOL-Library.List_Lexorder\<close> on \<open>string\<close>.

  A result \<open>None\<close> stands for a panic (indexing a missing key, slicing past the end, the
  \<open>expect\<close> on an empty path); that it never happens is one of the properties.
\<close>

section \<open>The DAG kernel\<close>

datatype dependency_dag_error = MissingEndpoint | Cycle "string list"

type_synonym edges = "(string \<times> string) list"
type_synonym successors = "string \<Rightarrow> string set"

definition add_edge ::
  "string set \<Rightarrow> successors \<Rightarrow> string \<times> string \<Rightarrow> (dependency_dag_error, successors) result" where
  "add_edge keys graph = (\<lambda>(from, to).
     if from \<notin> keys \<or> to \<notin> keys then Inl MissingEndpoint
     else Inr (graph(from := insert to (graph from))))"

definition build_graph ::
  "string list \<Rightarrow> edges \<Rightarrow> (dependency_dag_error, successors) result" where
  "build_graph nodes edges = try_fold (add_edge (set nodes)) (\<lambda>_. {}) edges"

abbreviation graph_keys :: "string list \<Rightarrow> string list" where
  "graph_keys nodes \<equiv> sorted_list_of_set (set nodes)"

text \<open>
  The \<open>while\<close> loop. \<open>path\<close> is the \<open>Vec\<close> of the same name; \<open>stack\<close> holds what each iterator has
  left, the top of the stack first.
\<close>

function dfs_loop ::
  "string list \<Rightarrow> successors \<Rightarrow> string set \<Rightarrow> (string \<rightharpoonup> nat) \<Rightarrow> string list \<Rightarrow> string list list \<Rightarrow>
     (dependency_dag_error, string set \<times> (string \<rightharpoonup> nat)) result option" where
  "dfs_loop keys graph don active path [] = Some (Inr (don, active))"
| "dfs_loop keys graph don active path ((child # rest) # stack) =
     (case active child of
        Some start \<Rightarrow>
          (if start \<le> length path then Some (Inl (Cycle (drop start path @ [child]))) else None)
      | None \<Rightarrow>
          (if child \<notin> don then
             (if child \<in> set keys then
                dfs_loop keys graph don (active(child \<mapsto> length path)) (path @ [child])
                  (sorted_list_of_set (graph child) # rest # stack)
              else None)
           else dfs_loop keys graph don active path (rest # stack)))"
| "dfs_loop keys graph don active path ([] # stack) =
     (if path = [] then None
      else dfs_loop keys graph (insert (last path) don) (active(last path := None)) (butlast path)
             stack)"
  by pat_completeness auto
termination
proof (relation "measures
    [\<lambda>(keys, graph, don, active, path, stack). card (set keys - don - dom active),
     \<lambda>(keys, graph, don, active, path, stack). sum_list (map length stack) + length stack]",
    goal_cases)
  case 1
  then show ?case by simp
next
  case (2 keys graph don active path child rest stack)
  then have "set keys - don - dom (active(child \<mapsto> length path)) \<subset> set keys - don - dom active"
    by auto
  then show ?case by (simp add: psubset_card_mono)
next
  case (3 keys graph don active path child rest stack)
  then show ?case by simp
next
  case (4 keys graph don active path stack)
  have "card (set keys - insert (last path) don - dom (active(last path := None)))
      \<le> card (set keys - don - dom active)"
    by (rule card_mono) auto
  then show ?case by (simp add: le_less)
qed

fun dfs_roots ::
  "string list \<Rightarrow> successors \<Rightarrow> string set \<Rightarrow> (string \<rightharpoonup> nat) \<Rightarrow> string list \<Rightarrow>
     (dependency_dag_error, unit) result option" where
  "dfs_roots keys graph don active [] = Some (Inr ())"
| "dfs_roots keys graph don active (root # roots) =
     (if root \<in> don then dfs_roots keys graph don active roots
      else (case dfs_loop keys graph don (active(root \<mapsto> 0)) [root]
                   [sorted_list_of_set (graph root)] of
              None \<Rightarrow> None
            | Some (Inl e) \<Rightarrow> Some (Inl e)
            | Some (Inr (don', active')) \<Rightarrow> dfs_roots keys graph don' active' roots))"

definition validate_dependency_dag ::
  "string list \<Rightarrow> edges \<Rightarrow> (dependency_dag_error, unit) result option" where
  "validate_dependency_dag nodes edges =
     (case build_graph nodes edges of
        Inl e \<Rightarrow> Some (Inl e)
      | Inr graph \<Rightarrow> dfs_roots (graph_keys nodes) graph {} Map.empty (graph_keys nodes))"

section \<open>The project graph\<close>

record workstream_dependency_edge =
  dep_from :: workstream_work_binding
  dep_to :: workstream_work_binding
  dep_required :: bool

datatype workstream_graph_error =
    GraphBudgetExceeded
  | InvalidOwnership
  | InvalidRequiredEndpoint
  | Dependency dependency_dag_error

definition MAX_WORKSTREAM_GRAPH_NODES :: nat where
  "MAX_WORKSTREAM_GRAPH_NODES = 16384"

definition MAX_WORKSTREAM_GRAPH_EDGES :: nat where
  "MAX_WORKSTREAM_GRAPH_EDGES = 65536"

definition known_owner ::
  "workstream_work_binding list \<Rightarrow> string \<Rightarrow> workstream_work_binding option" where
  "known_owner ownership = map_of (rev (map (\<lambda>b. (wb_work_item_id b, b)) ownership))"

definition required_endpoints ::
  "workstream_dependency_edge list \<Rightarrow> workstream_work_binding list" where
  "required_endpoints edges = concat (map (\<lambda>e. [dep_from e, dep_to e]) (filter dep_required edges))"

definition required_pairs :: "workstream_dependency_edge list \<Rightarrow> edges" where
  "required_pairs edges =
     map (\<lambda>e. (wb_work_item_id (dep_from e), wb_work_item_id (dep_to e))) (filter dep_required edges)"

definition validate_workstream_graph ::
  "workstream_catalog \<Rightarrow> string list \<Rightarrow> workstream_work_binding list \<Rightarrow>
     workstream_dependency_edge list \<Rightarrow> (workstream_graph_error, unit) result option" where
  "validate_workstream_graph catalog work_ids ownership edges =
     (case run_checks
         [refuse (length work_ids > MAX_WORKSTREAM_GRAPH_NODES
                  \<or> length ownership > MAX_WORKSTREAM_GRAPH_NODES
                  \<or> length edges > MAX_WORKSTREAM_GRAPH_EDGES) GraphBudgetExceeded,
          refuse (list_ex (\<lambda>i. length i > 128) work_ids
                  \<or> list_ex (\<lambda>b. length (wb_work_item_id b) > 128 \<or> length (wb_project_id b) > 128)
                      ownership) InvalidOwnership,
          map_err (\<lambda>_. InvalidOwnership)
            (validate_workstream_ownership catalog work_ids ownership),
          run_checks (map (\<lambda>endpoint.
            refuse (length (wb_work_item_id endpoint) > 128
                    \<or> length (wb_project_id endpoint) > 128
                    \<or> known_owner ownership (wb_work_item_id endpoint) \<noteq> Some endpoint)
              InvalidRequiredEndpoint) (required_endpoints edges))]
      of Inl e \<Rightarrow> Some (Inl e)
       | Inr _ \<Rightarrow> map_option (map_err Dependency)
                   (validate_dependency_dag work_ids (required_pairs edges)))"

section \<open>Walks, acyclicity and schedules\<close>

text \<open>A directed closed path: consecutive elements are edges and the ends coincide.\<close>

definition closed_walk :: "(string \<times> string) set \<Rightarrow> string list \<Rightarrow> bool" where
  "closed_walk E c \<longleftrightarrow> 2 \<le> length c \<and> hd c = last c \<and> (\<forall>i. Suc i < length c \<longrightarrow> (c ! i, c ! Suc i) \<in> E)"

lemma walk_trancl:
  assumes "\<forall>i. Suc i < length c \<longrightarrow> (c ! i, c ! Suc i) \<in> E" and "j < length c" and "0 < j"
  shows "(c ! 0, c ! j) \<in> E\<^sup>+"
  using assms(2,3)
proof (induction j)
  case 0
  then show ?case by simp
next
  case (Suc j)
  have edge: "(c ! j, c ! Suc j) \<in> E" using assms(1) Suc.prems by simp
  show ?case
  proof (cases "j = 0")
    case True
    with edge show ?thesis by auto
  next
    case False
    with Suc have "(c ! 0, c ! j) \<in> E\<^sup>+" by simp
    from this edge show ?thesis by (rule trancl_into_trancl)
  qed
qed

lemma closed_walk_not_acyclic:
  assumes "closed_walk E c"
  shows "\<not> acyclic E"
proof -
  have len: "2 \<le> length c" using assms by (simp add: closed_walk_def)
  then have "c \<noteq> []" by auto
  then have ends: "c ! 0 = c ! (length c - 1)"
    using assms by (simp add: closed_walk_def hd_conv_nth last_conv_nth)
  have "(c ! 0, c ! (length c - 1)) \<in> E\<^sup>+"
    using assms len by (intro walk_trancl) (auto simp: closed_walk_def)
  then show ?thesis using ends by (auto simp: acyclic_def)
qed

text \<open>An acyclic relation on a finite set of nodes can be scheduled: sources before targets.\<close>

definition schedules :: "(string \<times> string) set \<Rightarrow> string list \<Rightarrow> bool" where
  "schedules E order \<longleftrightarrow> distinct order \<and>
     (\<forall>i j. i < length order \<and> j < length order \<and> (order ! i, order ! j) \<in> E \<longrightarrow> i < j)"

lemma acyclic_schedule:
  assumes "finite V" and "acyclic E"
  shows "\<exists>order. set order = V \<and> schedules E order"
  using assms(1)
proof (induction V rule: finite_psubset_induct)
  case (psubset V)
  show ?case
  proof (cases "V = {}")
    case True
    then show ?thesis by (auto simp: schedules_def intro: exI[of _ "[]"])
  next
    case False
    define F where "F = E \<inter> V \<times> V"
    have "acyclic F" using assms(2) by (rule acyclic_subset) (auto simp: F_def)
    moreover have "finite F" using psubset.hyps by (auto simp: F_def)
    ultimately have "wf F" by (rule finite_acyclic_wf[rotated])
    moreover from False obtain x where "x \<in> V" by blast
    ultimately obtain m where m: "m \<in> V" "\<And>y. (y, m) \<in> F \<Longrightarrow> y \<notin> V"
      by (rule wfE_min) blast
    have "V - {m} \<subset> V" using m(1) by blast
    then obtain order where order: "set order = V - {m}" "schedules E order"
      using psubset.IH by blast
    have noin: "(y, m) \<notin> E" if "y \<in> V" for y
      using m that unfolding F_def by blast
    have step: "i < j"
      if ij: "i < length (m # order)" "j < length (m # order)" "((m # order) ! i, (m # order) ! j) \<in> E"
      for i j
    proof (cases j)
      case 0
      have "(m # order) ! i \<in> set (m # order)" using ij(1) by (rule nth_mem)
      then have "(m # order) ! i \<in> V" using order(1) m(1) by (metis insertE insert_Diff list.simps(15))
      then have "((m # order) ! i, m) \<notin> E" by (rule noin)
      with ij(3) 0 show ?thesis by simp
    next
      case (Suc k)
      show ?thesis
      proof (cases i)
        case 0
        with Suc show ?thesis by simp
      next
        case (Suc l)
        with ij \<open>j = Suc k\<close> have "l < length order" "k < length order" "(order ! l, order ! k) \<in> E"
          by simp_all
        with order(2) have "l < k" unfolding schedules_def by blast
        with Suc \<open>j = Suc k\<close> show ?thesis by simp
      qed
    qed
    have "distinct (m # order)" using order unfolding schedules_def by auto
    with step have "schedules E (m # order)" unfolding schedules_def by blast
    moreover have "set (m # order) = V" using order(1) m(1) by auto
    ultimately show ?thesis by blast
  qed
qed

lemma schedules_acyclic:
  assumes "schedules E order" and "E \<subseteq> set order \<times> set order"
  shows "acyclic E"
proof -
  define rank where "rank x = (LEAST i. i < length order \<and> order ! i = x)" for x
  have rank: "rank (order ! i) = i" if "i < length order" for i
    unfolding rank_def using assms(1) that
    by (intro Least_equality) (auto simp: schedules_def nth_eq_iff_index_eq)
  have "rank a < rank b" if ab: "(a, b) \<in> E" for a b
  proof -
    from ab assms(2) obtain i j
      where ij: "i < length order" "j < length order" "a = order ! i" "b = order ! j"
      by (metis in_set_conv_nth mem_Sigma_iff subsetD)
    with ab assms(1) have "i < j" unfolding schedules_def by blast
    with ij rank show ?thesis by simp
  qed
  then have "E \<subseteq> measure rank" by auto
  then show ?thesis by (meson acyclic_subset wf_acyclic wf_measure)
qed

lemma closed_walk_nodes:
  assumes "closed_walk E c" and "E \<subseteq> V \<times> V"
  shows "set c \<subseteq> V"
proof
  fix x assume "x \<in> set c"
  then obtain i where i: "i < length c" "c ! i = x" by (auto simp: in_set_conv_nth)
  have walk: "(c ! k, c ! Suc k) \<in> E" if "Suc k < length c" for k
    using assms(1) that by (simp add: closed_walk_def)
  show "x \<in> V"
  proof (cases i)
    case 0
    with walk[of 0] i assms show ?thesis by (auto simp: closed_walk_def)
  next
    case (Suc k)
    with walk[of k] i assms(2) show ?thesis by auto
  qed
qed

section \<open>The search invariant\<close>

definition graph_edges :: "string set \<Rightarrow> successors \<Rightarrow> (string \<times> string) set" where
  "graph_edges K graph = {(u, v). u \<in> K \<and> v \<in> graph u}"

text \<open>
  What the frames of the stack have left to visit, top of the stack first; \<open>nxt\<close> is the node
  above the frame, whose visit is under way.
\<close>

fun frames_ok :: "successors \<Rightarrow> string set \<Rightarrow> string option \<Rightarrow> string list \<Rightarrow> string list list \<Rightarrow> bool" where
  "frames_ok graph don nxt [] [] = True"
| "frames_ok graph don nxt (u # us) (f # fs) =
     (set f \<subseteq> graph u \<and> graph u \<subseteq> set f \<union> don \<union> set_option nxt \<and> set_option nxt \<subseteq> graph u
      \<and> frames_ok graph don (Some u) us fs)"
| "frames_ok graph don nxt _ _ = False"

definition done_ok :: "string set \<Rightarrow> successors \<Rightarrow> string set \<Rightarrow> bool" where
  "done_ok K graph don \<longleftrightarrow> don \<subseteq> K \<and> (\<forall>u\<in>don. graph u \<subseteq> don)
     \<and> (\<forall>u\<in>don. (u, u) \<notin> (graph_edges K graph)\<^sup>+)"

definition dfs_inv ::
  "string set \<Rightarrow> successors \<Rightarrow> string set \<Rightarrow> (string \<rightharpoonup> nat) \<Rightarrow> string list \<Rightarrow> string list list \<Rightarrow> bool" where
  "dfs_inv K graph don active path stack \<longleftrightarrow>
     finite K \<and> (\<forall>u\<in>K. graph u \<subseteq> K) \<and> distinct path \<and> set path \<subseteq> K \<and> set path \<inter> don = {}
     \<and> (\<forall>c i. active c = Some i \<longleftrightarrow> i < length path \<and> path ! i = c)
     \<and> done_ok K graph don \<and> frames_ok graph don None (rev path) stack"

lemma frames_ok_mono: "frames_ok graph don nxt us fs \<Longrightarrow> don \<subseteq> don' \<Longrightarrow> frames_ok graph don' nxt us fs"
  by (induction graph don nxt us fs rule: frames_ok.induct) auto

lemma frames_ok_pop:
  assumes "frames_ok graph don (Some u) us fs"
  shows "frames_ok graph (insert u don) None us fs"
proof (cases us)
  case Nil
  with assms show ?thesis by (cases fs) auto
next
  case (Cons v vs)
  with assms obtain f gs where "fs = f # gs" by (cases fs) auto
  with Cons assms show ?thesis by (auto elim: frames_ok_mono)
qed

text \<open>Consecutive nodes of the path are edges.\<close>

lemma frames_ok_edges:
  assumes "frames_ok graph don nxt us fs" and "Suc i < length us"
  shows "us ! i \<in> graph (us ! Suc i)"
  using assms
proof (induction us arbitrary: nxt fs i)
  case Nil
  then show ?case by simp
next
  case (Cons u us)
  then obtain f gs where fs: "fs = f # gs" by (cases fs) auto
  with Cons.prems have rest: "frames_ok graph don (Some u) us gs" by simp
  show ?case
  proof (cases i)
    case 0
    with Cons.prems rest show ?thesis by (cases us; cases gs) auto
  next
    case (Suc k)
    with Cons.prems Cons.IH[OF rest, of k] show ?thesis by simp
  qed
qed

lemma path_edges:
  assumes "frames_ok graph don nxt (rev path) fs" and "Suc i < length path"
  shows "path ! Suc i \<in> graph (path ! i)"
  using frames_ok_edges[OF assms(1), of "length path - 2 - i"] assms(2)
  by (simp add: rev_nth Suc_diff_Suc numeral_2_eq_2)

lemma closed_reach:
  assumes "(u, v) \<in> (graph_edges K graph)\<^sup>+" and "graph u \<subseteq> D" and "\<forall>w\<in>D. graph w \<subseteq> D"
  shows "v \<in> D"
  using assms by (induction rule: trancl_induct) (auto simp: graph_edges_def)

lemma done_ok_insert:
  assumes "done_ok K graph don" and "u \<in> K" and "u \<notin> don" and "graph u \<subseteq> don"
  shows "done_ok K graph (insert u don)"
proof -
  have "(u, u) \<notin> (graph_edges K graph)\<^sup>+"
    using closed_reach[of u u K graph don] assms by (auto simp: done_ok_def)
  with assms show ?thesis by (auto simp: done_ok_def)
qed

lemma dfs_inv_skip:
  assumes "dfs_inv K graph don active path ((child # rest) # stack)" and "child \<in> don"
  shows "dfs_inv K graph don active path (rest # stack)"
  using assms by (cases path rule: rev_cases) (auto simp: dfs_inv_def)

lemma dfs_inv_child:
  assumes "dfs_inv K graph don active path ((child # rest) # stack)"
  shows "path \<noteq> []" and "child \<in> graph (last path)" and "child \<in> K"
  using assms by (cases path rule: rev_cases; auto simp: dfs_inv_def)+

lemma dfs_inv_push:
  assumes inv: "dfs_inv K graph don active path ((child # rest) # stack)"
    and new: "active child = None" "child \<notin> don"
  shows "dfs_inv K graph don (active(child \<mapsto> length path)) (path @ [child])
     (sorted_list_of_set (graph child) # rest # stack)"
proof -
  note child = dfs_inv_child[OF inv]
  have fin: "finite (graph child)"
    using inv child by (auto simp: dfs_inv_def intro: finite_subset)
  have notin: "child \<notin> set path"
  proof
    assume "child \<in> set path"
    then obtain i where "i < length path" "path ! i = child" by (auto simp: in_set_conv_nth)
    then have "active child = Some i" using inv by (simp add: dfs_inv_def)
    with new(1) show False by simp
  qed
  have act: "\<forall>c i. (active(child \<mapsto> length path)) c = Some i \<longleftrightarrow>
      i < length (path @ [child]) \<and> (path @ [child]) ! i = c"
    using inv notin by (auto simp: dfs_inv_def nth_append less_Suc_eq in_set_conv_nth)
  have fr: "frames_ok graph don None (rev (path @ [child]))
      (sorted_list_of_set (graph child) # rest # stack)"
    using inv fin child by (cases path rule: rev_cases) (auto simp: dfs_inv_def)
  show ?thesis
    using inv new child notin act fr by (auto simp: dfs_inv_def)
qed

lemma dfs_inv_pop:
  assumes inv: "dfs_inv K graph don active path ([] # stack)"
  shows "path \<noteq> []"
    and "dfs_inv K graph (insert (last path) don) (active(last path := None)) (butlast path) stack"
proof -
  from inv obtain us u where path: "path = us @ [u]"
    by (cases path rule: rev_cases) (auto simp: dfs_inv_def)
  then show "path \<noteq> []" by simp
  have fr: "frames_ok graph don (Some u) (rev us) stack" and sub: "graph u \<subseteq> don"
    using inv path by (auto simp: dfs_inv_def)
  have don: "done_ok K graph (insert u don)"
    using inv path sub by (intro done_ok_insert) (auto simp: dfs_inv_def)
  have act: "\<forall>c i. (active(u := None)) c = Some i \<longleftrightarrow> i < length us \<and> us ! i = c"
    using inv path by (auto simp: dfs_inv_def nth_append less_Suc_eq split: if_splits)
  show "dfs_inv K graph (insert (last path) don) (active(last path := None)) (butlast path) stack"
    using inv path don act frames_ok_pop[OF fr] by (auto simp: dfs_inv_def)
qed

text \<open>Closing a cycle: the path from the active node to the top, and back.\<close>

lemma dfs_inv_cycle:
  assumes inv: "dfs_inv K graph don active path ((child # rest) # stack)"
    and act: "active child = Some start"
  shows "start \<le> length path" and "closed_walk (graph_edges K graph) (drop start path @ [child])"
proof -
  note child = dfs_inv_child[OF inv]
  have start: "start < length path" "path ! start = child" and sub: "set path \<subseteq> K"
    and fr: "frames_ok graph don None (rev path) ((child # rest) # stack)"
    using inv act by (auto simp: dfs_inv_def)
  then show "start \<le> length path" by simp
  let ?c = "drop start path @ [child]"
  have "(?c ! i, ?c ! Suc i) \<in> graph_edges K graph" if "Suc i < length ?c" for i
  proof (cases "Suc i < length (drop start path)")
    case True
    then show ?thesis
      using path_edges[OF fr, of "start + i"] sub nth_mem[of "start + i" path]
      by (auto simp: nth_append graph_edges_def)
  next
    case False
    with that have i: "Suc i = length path - start" by simp
    with start have "start + i = length path - 1" by arith
    with i start have "?c ! i = last path" and "?c ! Suc i = child"
      using child(1) by (auto simp: nth_append last_conv_nth)
    then show ?thesis using child sub last_in_set[OF child(1)] by (auto simp: graph_edges_def)
  qed
  moreover have "hd ?c = last ?c"
    using start by (simp add: hd_append hd_drop_conv_nth)
  ultimately show "closed_walk (graph_edges K graph) ?c"
    using start by (auto simp: closed_walk_def)
qed

definition loop_result_ok ::
  "string set \<Rightarrow> successors \<Rightarrow> string set \<Rightarrow>
     (dependency_dag_error, string set \<times> (string \<rightharpoonup> nat)) result option \<Rightarrow> bool" where
  "loop_result_ok K graph D r \<longleftrightarrow> (case r of
     Some (Inr (don', active')) \<Rightarrow> done_ok K graph don' \<and> D \<subseteq> don' \<and> active' = Map.empty
   | Some (Inl (Cycle c)) \<Rightarrow> closed_walk (graph_edges K graph) c
   | _ \<Rightarrow> False)"

lemma loop_result_ok_mono: "loop_result_ok K graph D r \<Longrightarrow> D' \<subseteq> D \<Longrightarrow> loop_result_ok K graph D' r"
  by (auto simp: loop_result_ok_def split: option.splits sum.splits dependency_dag_error.splits)

lemma dfs_loop_result:
  assumes "dfs_inv (set keys) graph don active path stack"
  shows "loop_result_ok (set keys) graph (don \<union> set path) (dfs_loop keys graph don active path stack)"
  using assms
proof (induction keys graph don active path stack rule: dfs_loop.induct)
  case (1 keys graph don active path)
  then have "path = []" by (cases path rule: rev_cases) (auto simp: dfs_inv_def)
  with 1 show ?case by (auto simp: loop_result_ok_def dfs_inv_def fun_eq_iff not_Some_eq[symmetric]
        simp del: not_Some_eq)
next
  case (2 keys graph don active path child rest stack)
  note child = dfs_inv_child[OF "2.prems"]
  show ?case
  proof (cases "active child")
    case (Some start)
    with dfs_inv_cycle[OF "2.prems" Some] show ?thesis by (simp add: loop_result_ok_def)
  next
    case None
    show ?thesis
    proof (cases "child \<in> don")
      case True
      with 2 None dfs_inv_skip[OF "2.prems" True] show ?thesis by simp
    next
      case False
      have "loop_result_ok (set keys) graph (don \<union> set path)
          (dfs_loop keys graph don (active(child \<mapsto> length path)) (path @ [child])
             (sorted_list_of_set (graph child) # rest # stack))"
        by (rule loop_result_ok_mono[OF "2.IH"(1)[OF None False child(3)
              dfs_inv_push[OF "2.prems" None False]]]) auto
      with None False child(3) show ?thesis by simp
    qed
  qed
next
  case (3 keys graph don active path stack)
  note pop = dfs_inv_pop[OF "3.prems"]
  have "set path = insert (last path) (set (butlast path))"
    using pop(1) by (metis append_butlast_last_id set_append list.simps(15) empty_set Un_insert_right sup_bot.right_neutral)
  then have "loop_result_ok (set keys) graph (don \<union> set path)
      (dfs_loop keys graph (insert (last path) don) (active(last path := None)) (butlast path) stack)"
    by (intro loop_result_ok_mono[OF "3.IH"[OF pop]]) auto
  with pop(1) show ?case by simp
qed

text \<open>Over the roots, every node processed so far is done and lies on no cycle.\<close>

definition roots_result_ok ::
  "string set \<Rightarrow> successors \<Rightarrow> (dependency_dag_error, unit) result option \<Rightarrow> bool" where
  "roots_result_ok K graph r \<longleftrightarrow> (case r of
     Some (Inr _) \<Rightarrow> acyclic (graph_edges K graph)
   | Some (Inl (Cycle c)) \<Rightarrow> closed_walk (graph_edges K graph) c
   | _ \<Rightarrow> False)"

lemma done_all_acyclic:
  assumes "done_ok K graph don" and "K \<subseteq> don"
  shows "acyclic (graph_edges K graph)"
proof (rule acyclicI, rule allI, rule notI)
  fix x assume x: "(x, x) \<in> (graph_edges K graph)\<^sup>+"
  then have "x \<in> K" by (metis (no_types, lifting) graph_edges_def case_prodD mem_Collect_eq tranclD)
  with assms x show False by (auto simp: done_ok_def)
qed

lemma dfs_inv_root:
  assumes "finite K" and "\<forall>u\<in>K. graph u \<subseteq> K" and "done_ok K graph don" and "root \<in> K" and "root \<notin> don"
  shows "dfs_inv K graph don (Map.empty(root \<mapsto> 0)) [root] [sorted_list_of_set (graph root)]"
proof -
  have "finite (graph root)" using assms by (auto intro: finite_subset)
  with assms show ?thesis by (auto simp: dfs_inv_def)
qed

lemma dfs_roots_result:
  assumes "\<forall>u\<in>set keys. graph u \<subseteq> set keys" and "done_ok (set keys) graph don"
    and "set roots \<subseteq> set keys" and "set keys \<subseteq> don \<union> set roots"
  shows "roots_result_ok (set keys) graph (dfs_roots keys graph don Map.empty roots)"
  using assms(2-)
proof (induction roots arbitrary: don)
  case Nil
  then have "acyclic (graph_edges (set keys) graph)" by (intro done_all_acyclic) auto
  then show ?case by (simp add: roots_result_ok_def)
next
  case (Cons root roots)
  show ?case
  proof (cases "root \<in> don")
    case True
    with Cons.prems Cons.IH[of don] show ?thesis by auto
  next
    case False
    let ?r = "dfs_loop keys graph don [root \<mapsto> 0] [root] [sorted_list_of_set (graph root)]"
    have "loop_result_ok (set keys) graph (don \<union> set [root]) ?r"
      using assms(1) Cons.prems False by (intro dfs_loop_result dfs_inv_root) auto
    then consider
        (acc) don' where "?r = Some (Inr (don', Map.empty))" "done_ok (set keys) graph don'"
          "insert root don \<subseteq> don'"
      | (cyc) c where "?r = Some (Inl (Cycle c))" "closed_walk (graph_edges (set keys) graph) c"
      by (auto simp: loop_result_ok_def split: option.splits sum.splits dependency_dag_error.splits)
    then show ?thesis
    proof cases
      case acc
      with Cons.prems Cons.IH[of don'] False show ?thesis by auto
    next
      case cyc
      with False show ?thesis by (simp add: roots_result_ok_def)
    qed
  qed
qed

lemma build_graph_step:
  "try_fold (add_edge V) g edges =
     (if set edges \<subseteq> V \<times> V then Inr (\<lambda>u. g u \<union> {v. (u, v) \<in> set edges}) else Inl MissingEndpoint)"
proof (induction edges arbitrary: g)
  case Nil
  then show ?case by simp
next
  case (Cons e edges)
  obtain a b where e: "e = (a, b)" by (cases e)
  show ?case
  proof (cases "a \<in> V \<and> b \<in> V")
    case True
    have un: "(\<lambda>u. (g(a := insert b (g a))) u \<union> {v. (u, v) \<in> set edges}) =
        (\<lambda>u. g u \<union> {v. (u, v) \<in> set ((a, b) # edges)})"
      by (auto simp: fun_eq_iff)
    have add: "add_edge V g (a, b) = Inr (g(a := insert b (g a)))"
      using True by (simp add: add_edge_def)
    show ?thesis
      unfolding e try_fold.simps add sum.case Cons.IH un using True by simp
  next
    case False
    then show ?thesis unfolding e by (auto simp: try_fold.simps add_edge_def)
  qed
qed

lemma build_graph_eq:
  "build_graph nodes edges =
     (if set edges \<subseteq> set nodes \<times> set nodes then Inr (\<lambda>u. {v. (u, v) \<in> set edges})
      else Inl MissingEndpoint)"
  unfolding build_graph_def by (subst build_graph_step) simp

lemma validate_dependency_dag_result:
  assumes "set edges \<subseteq> set nodes \<times> set nodes"
  shows "case validate_dependency_dag nodes edges of
           Some (Inr _) \<Rightarrow> acyclic (set edges)
         | Some (Inl (Cycle c)) \<Rightarrow> closed_walk (set edges) c
         | _ \<Rightarrow> False"
proof -
  let ?graph = "\<lambda>u. {v. (u, v) \<in> set edges}"
  have edges: "graph_edges (set (graph_keys nodes)) ?graph = set edges"
    using assms by (auto simp: graph_edges_def)
  have "roots_result_ok (set (graph_keys nodes)) ?graph
      (dfs_roots (graph_keys nodes) ?graph {} Map.empty (graph_keys nodes))"
    using assms by (intro dfs_roots_result) (auto simp: done_ok_def)
  then show ?thesis
    using assms unfolding roots_result_ok_def edges validate_dependency_dag_def build_graph_eq by simp
qed

lemma validate_dependency_dag_missing:
  "\<not> set edges \<subseteq> set nodes \<times> set nodes \<Longrightarrow>
     validate_dependency_dag nodes edges = Some (Inl MissingEndpoint)"
  by (simp add: validate_dependency_dag_def build_graph_eq)

lemma validate_dependency_dag_ok_iff:
  "validate_dependency_dag nodes edges = Some (Inr ()) \<longleftrightarrow>
     set edges \<subseteq> set nodes \<times> set nodes \<and> acyclic (set edges)"
proof (cases "set edges \<subseteq> set nodes \<times> set nodes")
  case True
  from validate_dependency_dag_result[OF this] True closed_walk_not_acyclic show ?thesis
    by (auto split: option.splits sum.splits dependency_dag_error.splits)
next
  case False
  with validate_dependency_dag_missing[OF False] show ?thesis by simp
qed

lemma validate_dependency_dag_cong:
  "set nodes = set nodes' \<Longrightarrow> set edges = set edges' \<Longrightarrow>
     validate_dependency_dag nodes edges = validate_dependency_dag nodes' edges'"
  by (simp add: validate_dependency_dag_def build_graph_eq)

section \<open>The interface of a dependency checker\<close>

text \<open>
  What the callers of the kernel (the project graph here, the task graphs of the stores) rely on:
  it accepts exactly the acyclic edge lists over known nodes. Everything a planner needs follows.
\<close>

locale dependency_checker =
  fixes accepts :: "string list \<Rightarrow> edges \<Rightarrow> bool"
  assumes accepts_iff: "accepts nodes edges \<longleftrightarrow> set edges \<subseteq> set nodes \<times> set nodes \<and> acyclic (set edges)"
begin

lemma has_schedule:
  assumes "accepts nodes edges"
  shows "\<exists>order. set order = set nodes \<and> schedules (set edges) order"
  using assms accepts_iff acyclic_schedule[of "set nodes"] by simp

lemma drop_edges:
  assumes "accepts nodes edges" and "set edges' \<subseteq> set edges"
  shows "accepts nodes edges'"
  using assms accepts_iff acyclic_subset by auto

lemma add_nodes:
  assumes "accepts nodes edges" and "set nodes \<subseteq> set nodes'"
  shows "accepts nodes' edges"
  using assms accepts_iff by auto

lemma no_self_edge: "accepts nodes edges \<Longrightarrow> (n, n) \<notin> set edges"
  using accepts_iff by (auto simp: acyclic_def)

end

interpretation dag: dependency_checker "\<lambda>nodes edges. validate_dependency_dag nodes edges = Some (Inr ())"
  by unfold_locales (rule validate_dependency_dag_ok_iff)

section \<open>Properties of the kernel\<close>

text \<open>
  C2: The kernel accepts a graph exactly when every edge joins known nodes and the edge relation
  is acyclic, so it neither rejects a schedulable graph nor lets a cyclic one through; an accepted
  graph can be executed with every prerequisite first.
\<close>
theorem dag_acceptance_is_exact:
  "(validate_dependency_dag nodes edges = Some (Inr ()) \<longleftrightarrow>
      set edges \<subseteq> set nodes \<times> set nodes \<and> acyclic (set edges))
   \<and> (validate_dependency_dag nodes edges = Some (Inr ()) \<longleftrightarrow>
      set edges \<subseteq> set nodes \<times> set nodes \<and>
      (\<exists>order. set order = set nodes \<and> schedules (set edges) order))"
proof -
  have "acyclic (set edges)"
    if sub: "set edges \<subseteq> set nodes \<times> set nodes" and order: "set order = set nodes" "schedules (set edges) order"
    for order
    using schedules_acyclic[OF order(2)] sub order(1) by simp
  then show ?thesis
    using validate_dependency_dag_ok_iff[of nodes edges] dag.has_schedule[of nodes edges] by blast
qed

text \<open>
  The kernel always answers (its stack, path and index never go out of range) and every refusal
  is justified: \<open>MissingEndpoint\<close> exactly when an edge names an unknown node, and a reported
  \<open>Cycle\<close> is a closed path all of whose steps are edges of the input.
\<close>
theorem dag_refusal_is_justified:
  "\<exists>r. validate_dependency_dag nodes edges = Some r
     \<and> (r = Inl MissingEndpoint \<longleftrightarrow> \<not> set edges \<subseteq> set nodes \<times> set nodes)
     \<and> (\<forall>c. r = Inl (Cycle c) \<longrightarrow> closed_walk (set edges) c \<and> set c \<subseteq> set nodes)"
proof (cases "set edges \<subseteq> set nodes \<times> set nodes")
  case True
  from validate_dependency_dag_result[OF True] show ?thesis
    using closed_walk_nodes[OF _ True] True
    by (auto split: option.splits sum.splits dependency_dag_error.splits)
next
  case False
  with validate_dependency_dag_missing[OF False] show ?thesis by simp
qed

theorem dag_refusal_is_justified_witness:
  "validate_dependency_dag [''a'', ''b'', ''c''] [(''c'', ''a''), (''a'', ''b''), (''b'', ''a'')]
     = Some (Inl (Cycle [''a'', ''b'', ''a'']))
   \<and> closed_walk (set [(''c'', ''a''), (''a'', ''b''), (''b'', ''a'')]) [''a'', ''b'', ''a'']"
proof -
  have run: "validate_dependency_dag [''a'', ''b'', ''c'']
      [(''c'', ''a''), (''a'', ''b''), (''b'', ''a'')] = Some (Inl (Cycle [''a'', ''b'', ''a'']))"
    by code_simp
  from dag_refusal_is_justified[of "[''a'', ''b'', ''c'']"
      "[(''c'', ''a''), (''a'', ''b''), (''b'', ''a'')]"]
  show ?thesis using run by auto
qed

text \<open>
  The answer, including which cycle is reported, depends only on the set of nodes and the set of
  edges: input order and repetition do not matter.
\<close>
theorem dag_result_is_order_independent:
  assumes "set nodes = set nodes'" and "set edges = set edges'"
  shows "validate_dependency_dag nodes edges = validate_dependency_dag nodes' edges'"
  using assms by (rule validate_dependency_dag_cong)

theorem dag_result_is_order_independent_witness:
  "validate_dependency_dag [''a'', ''b''] [(''b'', ''a''), (''a'', ''b'')]
     = validate_dependency_dag [''b'', ''a'', ''b''] [(''a'', ''b''), (''b'', ''a'')]"
  by (rule dag_result_is_order_independent) auto

section \<open>Properties of the project graph\<close>

lemma known_owner_Some:
  assumes "distinct (map wb_work_item_id bs)"
  shows "known_owner bs i = Some b \<longleftrightarrow> b \<in> set bs \<and> wb_work_item_id b = i"
  using assms map_of_key[of wb_work_item_id "rev bs" i b]
  by (simp add: known_owner_def rev_map flip: rev_map)

lemma ownership_length:
  assumes "validate_workstream_ownership c ids bs = Inr ()"
  shows "length bs = length ids"
proof -
  from assms have "distinct ids" "distinct (map wb_work_item_id bs)" "set (map wb_work_item_id bs) = set ids"
    by (auto simp: ownership_ok)
  then show ?thesis by (metis distinct_card length_map)
qed

lemma ownership_bounded:
  assumes "validate_workstream_ownership c ids bs = Inr ()"
  shows "\<not> list_ex (\<lambda>i. length i > 128) ids"
    and "b \<in> set bs \<Longrightarrow> length (wb_work_item_id b) \<le> 128 \<and> length (wb_project_id b) \<le> 128"
  using assms
  by (auto simp: ownership_ok list_ex_iff list_all_iff valid_identity_def catalog_validate_ok)

lemma workstream_graph_checks:
  assumes "validate_workstream_ownership c ids bs = Inr ()"
  shows "validate_workstream_graph c ids bs es =
    (if length ids > MAX_WORKSTREAM_GRAPH_NODES \<or> length es > MAX_WORKSTREAM_GRAPH_EDGES
     then Some (Inl GraphBudgetExceeded)
     else if \<not> set (required_endpoints es) \<subseteq> set bs then Some (Inl InvalidRequiredEndpoint)
     else map_option (map_err Dependency) (validate_dependency_dag ids (required_pairs es)))"
proof -
  have d: "distinct (map wb_work_item_id bs)" using assms by (simp add: ownership_ok)
  have bad: "(length (wb_work_item_id b) > 128 \<or> length (wb_project_id b) > 128
      \<or> known_owner bs (wb_work_item_id b) \<noteq> Some b) \<longleftrightarrow> b \<notin> set bs" for b
    using ownership_bounded(2)[OF assms, of b] known_owner_Some[OF d] by auto
  have small: "\<not> list_ex (\<lambda>b. length (wb_work_item_id b) > 128 \<or> length (wb_project_id b) > 128) bs"
    using ownership_bounded(2)[OF assms] by (force simp: list_ex_iff)
  have ends: "run_checks (map (\<lambda>b. refuse (b \<notin> set bs) InvalidRequiredEndpoint) xs) =
      refuse (\<not> set xs \<subseteq> set bs) InvalidRequiredEndpoint" for xs
    by (induction xs) (auto simp: run_checks.simps refuse_def)
  show ?thesis
    unfolding validate_workstream_graph_def bad ends
    using assms small ownership_bounded(1)[OF assms] ownership_length[OF assms]
    by (auto simp: run_checks.simps refuse_def map_err_def)
qed

lemma required_pairs_nodes:
  assumes "validate_workstream_ownership c ids bs = Inr ()" and "set (required_endpoints es) \<subseteq> set bs"
  shows "set (required_pairs es) \<subseteq> set ids \<times> set ids"
proof -
  have "wb_work_item_id b \<in> set ids" if "b \<in> set (required_endpoints es)" for b
    using assms that by (auto simp: ownership_ok)
  then show ?thesis by (auto simp: required_pairs_def required_endpoints_def)
qed

lemma workstream_graph_ownership:
  "validate_workstream_graph c ids bs es = Some (Inr ()) \<Longrightarrow> validate_workstream_ownership c ids bs = Inr ()"
  by (auto simp: validate_workstream_graph_def split: sum.splits)

lemma workstream_graph_ok:
  "validate_workstream_graph c ids bs es = Some (Inr ()) \<longleftrightarrow>
     length ids \<le> MAX_WORKSTREAM_GRAPH_NODES \<and> length es \<le> MAX_WORKSTREAM_GRAPH_EDGES
     \<and> validate_workstream_ownership c ids bs = Inr ()
     \<and> set (required_endpoints es) \<subseteq> set bs
     \<and> acyclic (set (required_pairs es))"
  using workstream_graph_ownership[of c ids bs es] workstream_graph_checks[of c ids bs es]
    required_pairs_nodes[of c ids bs es] validate_dependency_dag_ok_iff[of ids "required_pairs es"]
  by (cases "validate_workstream_ownership c ids bs = Inr ()")
    (auto split: if_splits)

text \<open>
  A project graph is accepted exactly when it is within budget, ownership of the work is valid
  and total, both ends of every required edge are recorded ownership bindings and the required
  edges are acyclic; edges that are not required never matter.
\<close>
theorem workstream_graph_acceptance:
  "validate_workstream_graph c ids bs es = Some (Inr ()) \<longleftrightarrow>
     length ids \<le> MAX_WORKSTREAM_GRAPH_NODES \<and> length es \<le> MAX_WORKSTREAM_GRAPH_EDGES
     \<and> validate_workstream_ownership c ids bs = Inr ()
     \<and> set (required_endpoints es) \<subseteq> set bs
     \<and> acyclic (set (required_pairs es))"
  by (rule workstream_graph_ok)

text \<open>
  The work of an accepted project can be put in an order in which every item comes after all
  the items it requires.
\<close>
theorem accepted_workstream_graph_has_schedule:
  assumes "validate_workstream_graph c ids bs es = Some (Inr ())"
  shows "\<exists>order. set order = set ids \<and> distinct order \<and>
    (\<forall>e\<in>set es. dep_required e \<longrightarrow> (\<exists>i j. i < j \<and> j < length order
        \<and> order ! i = wb_work_item_id (dep_from e) \<and> order ! j = wb_work_item_id (dep_to e)))"
proof -
  from assms have own: "validate_workstream_ownership c ids bs = Inr ()"
    and ends: "set (required_endpoints es) \<subseteq> set bs" and "acyclic (set (required_pairs es))"
    by (auto simp: workstream_graph_ok)
  then have acc: "validate_dependency_dag ids (required_pairs es) = Some (Inr ())"
    using required_pairs_nodes[OF own ends] by (simp add: validate_dependency_dag_ok_iff)
  then obtain order where order: "set order = set ids" "schedules (set (required_pairs es)) order"
    using dag.has_schedule by blast
  have "\<exists>i j. i < j \<and> j < length order \<and> order ! i = a \<and> order ! j = b"
    if ab: "(a, b) \<in> set (required_pairs es)" for a b
  proof -
    from ab required_pairs_nodes[OF own ends] order(1) obtain i j
      where ij: "i < length order" "j < length order" "order ! i = a" "order ! j = b"
      by (metis in_set_conv_nth mem_Sigma_iff subsetD)
    with ab order(2) have "i < j" unfolding schedules_def by blast
    with ij show ?thesis by blast
  qed
  with order show ?thesis
    by (intro exI[of _ order]) (auto simp: schedules_def required_pairs_def)
qed

definition ex_work :: "string \<Rightarrow> workstream_work_binding" where
  "ex_work i = \<lparr>wb_project_id = ''proj'', wb_workstream_id = 2, wb_work_item_id = i\<rparr>"

definition ex_edges :: "workstream_dependency_edge list" where
  "ex_edges =
     [\<lparr>dep_from = ex_work ''w2'', dep_to = ex_work ''w1'', dep_required = True\<rparr>,
      \<lparr>dep_from = ex_work ''w1'', dep_to = ex_work ''w9'', dep_required = False\<rparr>]"

theorem accepted_workstream_graph_has_schedule_witness:
  "validate_workstream_graph ex_catalog [''w1'', ''w2''] [ex_work ''w1'', ex_work ''w2''] ex_edges
     = Some (Inr ())
   \<and> (\<exists>order. set order = {''w1'', ''w2''} \<and> distinct order)"
proof -
  have ok: "validate_workstream_graph ex_catalog [''w1'', ''w2''] [ex_work ''w1'', ex_work ''w2'']
      ex_edges = Some (Inr ())" by code_simp
  from accepted_workstream_graph_has_schedule[OF ok] ok show ?thesis by auto
qed

end
