(* ===== verification/Operation_Readset.thy ===== *)
theory Operation_Readset
  imports Workstream "HOL-Library.Multiset"
begin

text \<open>
  \<^verbatim>\<open>crates/awr-core/src/workstream_readset.rs\<close>: the versioned preconditions of an operation, their
  comparison with the read set the server requires, and the classification of a retried request
  against its recorded receipt.
\<close>

section \<open>Data\<close>

definition OPERATION_READSET_VERSION :: u32 where
  "OPERATION_READSET_VERSION = 1"

record operation_identity =
  oid_work :: workstream_work_binding
  oid_subject :: string
  oid_request_id :: string
  oid_action :: string
  oid_payload_sha256 :: string

datatype operation_token_kind =
  TkClaim | TkSession | TkFence | TkDependency | TkResource | TkSource | TkGraph

record operation_token =
  tok_kind :: operation_token_kind
  tok_key :: string
  tok_version :: string

record operation_read_set =
  rs_protocol_version :: u32
  rs_identity :: operation_identity
  rs_coordinator_epoch :: string
  rs_policy_revision :: u64
  rs_authority_version :: u64
  rs_work_version :: u64
  rs_contract_sha256 :: string
  rs_tokens :: "operation_token list"

datatype operation_read_set_error =
    RsUnsupportedVersion u32
  | RsInvalid string
  | RsIdentityMismatch
  | RsChanged string
  | RsMissingToken
  | RsUnexpectedToken
  | RsChangedToken
  | RsIdempotencyConflict
  | RsReceiptMismatch

section \<open>Operations\<close>

definition text_valid :: "string \<Rightarrow> bool" where
  "text_valid v \<longleftrightarrow> v \<noteq> [] \<and> length v \<le> 4096 \<and> \<not> has_control v"

definition sha256_valid :: "string \<Rightarrow> bool" where
  "sha256_valid v \<longleftrightarrow> length v = 64 \<and> list_all is_lower_hex v"

text \<open>The closure of \<open>tokens.iter().any(..)\<close>: \<open>insert\<close> runs only for tokens with valid text.\<close>

fun tokens_any_invalid ::
  "(operation_token_kind \<times> string) set \<Rightarrow> operation_token list \<Rightarrow> bool" where
  "tokens_any_invalid seen [] = False"
| "tokens_any_invalid seen (t # ts) =
     (if \<not> text_valid (tok_key t) \<or> \<not> text_valid (tok_version t) \<or> (tok_kind t, tok_key t) \<in> seen
      then True
      else tokens_any_invalid (insert (tok_kind t, tok_key t) seen) ts)"

definition read_set_validate :: "operation_read_set \<Rightarrow> (operation_read_set_error, unit) result" where
  "read_set_validate rs =
     (let identity = rs_identity rs in
      run_checks
        [refuse (rs_protocol_version rs \<noteq> OPERATION_READSET_VERSION)
           (RsUnsupportedVersion (rs_protocol_version rs)),
         refuse (\<not> text_valid (wb_project_id (oid_work identity))
                 \<or> wb_workstream_id (oid_work identity) = 0
                 \<or> \<not> text_valid (wb_work_item_id (oid_work identity))
                 \<or> \<not> text_valid (oid_subject identity)
                 \<or> \<not> text_valid (oid_request_id identity)
                 \<or> \<not> text_valid (oid_action identity)
                 \<or> \<not> sha256_valid (oid_payload_sha256 identity)
                 \<or> \<not> sha256_valid (rs_contract_sha256 rs)
                 \<or> \<not> text_valid (rs_coordinator_epoch rs)
                 \<or> rs_authority_version rs = 0)
           (RsInvalid ''identity, hash or mandatory version''),
         refuse (length (rs_tokens rs) > 4096 \<or> tokens_any_invalid {} (rs_tokens rs))
           (RsInvalid ''invalid or duplicate token'')])"

definition check_token ::
  "operation_token list \<Rightarrow> operation_token \<Rightarrow> (operation_read_set_error, unit) result" where
  "check_token supplied token =
     and_then
       (ok_or (find (\<lambda>other. tok_kind other = tok_kind token \<and> tok_key other = tok_key token) supplied)
         RsMissingToken)
       (\<lambda>found. refuse (tok_version found \<noteq> tok_version token) RsChangedToken)"

definition validate_operation_readset ::
  "operation_read_set \<Rightarrow> operation_read_set \<Rightarrow> (operation_read_set_error, unit) result" where
  "validate_operation_readset supplied current =
     run_checks
       [read_set_validate supplied,
        read_set_validate current,
        refuse (rs_identity supplied \<noteq> rs_identity current) RsIdentityMismatch,
        refuse (rs_coordinator_epoch supplied \<noteq> rs_coordinator_epoch current)
          (RsChanged ''coordinator_epoch''),
        refuse (rs_policy_revision supplied \<noteq> rs_policy_revision current)
          (RsChanged ''policy_revision''),
        refuse (rs_authority_version supplied \<noteq> rs_authority_version current)
          (RsChanged ''authority_version''),
        refuse (rs_work_version supplied \<noteq> rs_work_version current) (RsChanged ''work_version''),
        refuse (rs_contract_sha256 supplied \<noteq> rs_contract_sha256 current)
          (RsChanged ''contract_sha256''),
        run_checks (map (check_token (rs_tokens supplied)) (rs_tokens current)),
        refuse (length (rs_tokens supplied) \<noteq> length (rs_tokens current)) RsUnexpectedToken]"

datatype operation_replay = NewRequest | ExistingRequest

definition classify_operation_replay ::
  "operation_read_set \<Rightarrow> operation_read_set option \<Rightarrow>
     (operation_read_set_error, operation_replay) result" where
  "classify_operation_replay incoming recorded =
     then_ok (read_set_validate incoming)
       (case recorded of
          None \<Rightarrow> Inr NewRequest
        | Some recorded \<Rightarrow>
            then_ok
              (run_checks
                [read_set_validate recorded,
                 refuse (wb_project_id (oid_work (rs_identity incoming))
                           \<noteq> wb_project_id (oid_work (rs_identity recorded))
                         \<or> oid_request_id (rs_identity incoming) \<noteq> oid_request_id (rs_identity recorded))
                   RsReceiptMismatch,
                 map_err (\<lambda>_. RsIdempotencyConflict) (validate_operation_readset incoming recorded)])
              (Inr ExistingRequest))"

section \<open>Intent: the read set up to the order of its tokens\<close>

definition same_intent :: "operation_read_set \<Rightarrow> operation_read_set \<Rightarrow> bool" where
  "same_intent a b \<longleftrightarrow>
     a\<lparr>rs_tokens := []\<rparr> = b\<lparr>rs_tokens := []\<rparr> \<and> mset (rs_tokens a) = mset (rs_tokens b)"

abbreviation token_id :: "operation_token \<Rightarrow> operation_token_kind \<times> string" where
  "token_id t \<equiv> (tok_kind t, tok_key t)"

lemma tokens_any_invalid_False:
  "\<not> tokens_any_invalid seen ts \<longleftrightarrow>
     (\<forall>t\<in>set ts. text_valid (tok_key t) \<and> text_valid (tok_version t))
     \<and> distinct (map token_id ts) \<and> token_id ` set ts \<inter> seen = {}"
  by (induction ts arbitrary: seen) auto

lemma read_set_tokens_distinct:
  "read_set_validate rs = Inr () \<Longrightarrow> distinct (map token_id (rs_tokens rs))"
  by (simp add: read_set_validate_def Let_def tokens_any_invalid_False)

lemma check_token_ok:
  assumes "distinct (map token_id ts)"
  shows "check_token ts t = Inr () \<longleftrightarrow> t \<in> set ts"
proof
  assume "check_token ts t = Inr ()"
  then obtain u where "u \<in> set ts" "tok_kind u = tok_kind t" "tok_key u = tok_key t"
    "tok_version u = tok_version t"
    by (auto simp: check_token_def dest: find_Some_in)
  then show "t \<in> set ts" by (metis operation_token.equality old.unit.exhaust)
next
  assume "t \<in> set ts"
  with assms have "find (\<lambda>u. token_id u = token_id t) ts = Some t"
    by (rule find_unique_key) simp
  then show "check_token ts t = Inr ()" by (simp add: check_token_def)
qed

lemma tokens_match_iff:
  assumes "distinct (map token_id ts)" and "distinct (map token_id us)"
  shows "(\<forall>t\<in>set us. check_token ts t = Inr ()) \<and> length ts = length us \<longleftrightarrow> mset ts = mset us"
proof -
  have d: "distinct ts" "distinct us" using assms by (auto simp: distinct_map)
  have "set us \<subseteq> set ts \<and> length ts = length us \<longleftrightarrow> set ts = set us"
    using d by (metis card_subset_eq distinct_card finite_set subset_refl)
  with d show ?thesis
    by (simp add: check_token_ok[OF assms(1)] set_eq_iff_mset_eq_distinct subset_eq)
qed

lemma validate_operation_readset_ok:
  "validate_operation_readset a b = Inr () \<longleftrightarrow>
     read_set_validate a = Inr () \<and> read_set_validate b = Inr () \<and> same_intent a b"
proof (cases "read_set_validate a = Inr () \<and> read_set_validate b = Inr ()")
  case True
  then have version: "rs_protocol_version a = rs_protocol_version b"
    by (simp add: read_set_validate_def Let_def)
  have "(\<forall>t\<in>set (rs_tokens b). check_token (rs_tokens a) t = Inr ())
      \<and> length (rs_tokens a) = length (rs_tokens b) \<longleftrightarrow> mset (rs_tokens a) = mset (rs_tokens b)"
    using True by (intro tokens_match_iff read_set_tokens_distinct) auto
  moreover have "a\<lparr>rs_tokens := []\<rparr> = b\<lparr>rs_tokens := []\<rparr> \<longleftrightarrow>
      rs_identity a = rs_identity b \<and> rs_coordinator_epoch a = rs_coordinator_epoch b
      \<and> rs_policy_revision a = rs_policy_revision b \<and> rs_authority_version a = rs_authority_version b
      \<and> rs_work_version a = rs_work_version b \<and> rs_contract_sha256 a = rs_contract_sha256 b"
    using version by (cases a; cases b) auto
  ultimately show ?thesis
    using True by (auto simp: validate_operation_readset_def same_intent_def)
next
  case False
  then show ?thesis by (auto simp: validate_operation_readset_def)
qed

section \<open>The interface of a receipt journal\<close>

text \<open>
  What an adapter that stores receipts relies on: comparison of valid requests is an equivalence,
  so whichever of several equal retries was recorded, the others are recognised.
\<close>

locale request_intent =
  fixes valid :: "'r \<Rightarrow> bool" and matches :: "'r \<Rightarrow> 'r \<Rightarrow> bool"
  assumes matches_refl: "valid r \<Longrightarrow> matches r r"
    and matches_sym: "matches r s \<Longrightarrow> matches s r"
    and matches_trans: "matches r s \<Longrightarrow> matches s t \<Longrightarrow> matches r t"
begin

lemma retry_of_retry: "matches r s \<Longrightarrow> matches t s \<Longrightarrow> matches r t"
  using matches_sym matches_trans by blast

lemma same_class: "matches r s \<Longrightarrow> matches r t \<longleftrightarrow> matches s t"
  using matches_sym matches_trans by blast

end

interpretation rsi: request_intent "\<lambda>r. read_set_validate r = Inr ()"
    "\<lambda>r s. validate_operation_readset r s = Inr ()"
  by unfold_locales (auto simp: validate_operation_readset_ok same_intent_def)

section \<open>Properties\<close>

definition ex_read_set :: operation_read_set where
  "ex_read_set = \<lparr>rs_protocol_version = 1,
     rs_identity = \<lparr>oid_work = \<lparr>wb_project_id = ''proj'', wb_workstream_id = 2, wb_work_item_id = ''w1''\<rparr>,
       oid_subject = ''alice'', oid_request_id = ''r1'', oid_action = ''complete'',
       oid_payload_sha256 = replicate 64 CHR ''a''\<rparr>,
     rs_coordinator_epoch = ''e1'', rs_policy_revision = 1, rs_authority_version = 3,
     rs_work_version = 7, rs_contract_sha256 = replicate 64 CHR ''b'',
     rs_tokens = [\<lparr>tok_kind = TkClaim, tok_key = ''c'', tok_version = ''1''\<rparr>,
                  \<lparr>tok_kind = TkFence, tok_key = ''f'', tok_version = ''2''\<rparr>]\<rparr>"

text \<open>
  C31: A supplied read set passes exactly when both sets are well formed and they agree in every
  field, tokens compared as a collection: nothing missing, nothing extra, no version changed.
\<close>
theorem readset_passes_iff_nothing_changed:
  "validate_operation_readset supplied current = Inr () \<longleftrightarrow>
     read_set_validate supplied = Inr () \<and> read_set_validate current = Inr ()
     \<and> supplied\<lparr>rs_tokens := []\<rparr> = current\<lparr>rs_tokens := []\<rparr>
     \<and> mset (rs_tokens supplied) = mset (rs_tokens current)"
  by (simp add: validate_operation_readset_ok same_intent_def)

text \<open>
  Once a receipt is recorded, a request with its identity is never classified as new: it is the
  existing request when its intent is the recorded one, and an idempotency conflict otherwise; two
  requests that are both accepted as retries of one receipt have the same intent.
\<close>
theorem replay_is_never_executed_twice:
  assumes "read_set_validate incoming = Inr ()" and "read_set_validate recorded = Inr ()"
    and "wb_project_id (oid_work (rs_identity incoming)) = wb_project_id (oid_work (rs_identity recorded))"
    and "oid_request_id (rs_identity incoming) = oid_request_id (rs_identity recorded)"
  shows "classify_operation_replay incoming (Some recorded) =
      (if same_intent incoming recorded then Inr ExistingRequest else Inl RsIdempotencyConflict)
    \<and> (\<forall>other. classify_operation_replay incoming (Some recorded) = Inr ExistingRequest
         \<and> classify_operation_replay other (Some recorded) = Inr ExistingRequest
         \<longrightarrow> same_intent incoming other)"
proof
  show "classify_operation_replay incoming (Some recorded) =
      (if same_intent incoming recorded then Inr ExistingRequest else Inl RsIdempotencyConflict)"
  proof (cases "validate_operation_readset incoming recorded")
    case (Inl e)
    then have "\<not> same_intent incoming recorded"
      using assms validate_operation_readset_ok[of incoming recorded] by auto
    with Inl assms show ?thesis by (auto simp: classify_operation_replay_def)
  next
    case (Inr u)
    then have "same_intent incoming recorded"
      using validate_operation_readset_ok[of incoming recorded] by simp
    with Inr assms show ?thesis by (auto simp: classify_operation_replay_def)
  qed
  have existing: "classify_operation_replay r (Some recorded) = Inr ExistingRequest \<Longrightarrow>
      validate_operation_readset r recorded = Inr ()" for r
    by (simp add: classify_operation_replay_def)
  show "\<forall>other. classify_operation_replay incoming (Some recorded) = Inr ExistingRequest
         \<and> classify_operation_replay other (Some recorded) = Inr ExistingRequest
         \<longrightarrow> same_intent incoming other"
    using existing rsi.retry_of_retry validate_operation_readset_ok by blast
qed

theorem replay_is_never_executed_twice_witness:
  "classify_operation_replay (ex_read_set\<lparr>rs_tokens := rev (rs_tokens ex_read_set)\<rparr>) (Some ex_read_set)
     = Inr ExistingRequest
   \<and> classify_operation_replay (ex_read_set\<lparr>rs_work_version := 8\<rparr>) (Some ex_read_set)
     = Inl RsIdempotencyConflict"
proof -
  let ?r = "ex_read_set\<lparr>rs_tokens := rev (rs_tokens ex_read_set)\<rparr>"
  let ?s = "ex_read_set\<lparr>rs_work_version := 8\<rparr>"
  have ok: "read_set_validate ex_read_set = Inr ()" "read_set_validate ?r = Inr ()"
    "read_set_validate ?s = Inr ()" by code_simp+
  have "same_intent ?r ex_read_set" "\<not> same_intent ?s ex_read_set"
    by (simp_all add: same_intent_def ex_read_set_def)
  with replay_is_never_executed_twice[OF ok(2,1)] replay_is_never_executed_twice[OF ok(3,1)]
  show ?thesis by simp
qed

end
