(* ===== verification/Workstream_Accounting.thy ===== *)
theory Workstream_Accounting
  imports Workstream
begin

text \<open>
  \<^verbatim>\<open>crates/awr-core/src/workstream_accounting.rs\<close>: the delivery stages of a workstream counted
  over the frozen required set of an approved contract.
\<close>

section \<open>Data\<close>

definition WORKSTREAM_ACCOUNTING_VERSION :: u32 where
  "WORKSTREAM_ACCOUNTING_VERSION = 1"

record accounting_contract_identity =
  aci_project_id :: string
  aci_workstream_id :: ulid
  aci_contract_id :: string
  aci_revision :: u64
  aci_digest :: string

record workstream_accounting_contract =
  wac_version :: u32
  wac_identity :: accounting_contract_identity
  wac_required_work :: "workstream_work_binding list"
  wac_shared_references :: "workstream_work_binding list"

record accounting_evidence =
  ae_reference :: string
  ae_source_version :: string
  ae_environment :: string
  ae_acceptance_round :: string
  ae_occurred_at_ms :: i64
  ae_attribution :: workstream_work_binding

datatype accounting_stage = StUnknown | StNotMet | StRecorded accounting_evidence

record accounting_stages =
  stg_planned :: accounting_stage
  stg_implemented :: accounting_stage
  stg_verified :: accounting_stage
  stg_merged :: accounting_stage
  stg_released :: accounting_stage

record accounting_work =
  aw_binding :: workstream_work_binding
  aw_contract :: accounting_contract_identity
  aw_source_declared_done :: bool
  aw_stages :: accounting_stages

record accounting_stage_count =
  cnt_recorded :: nat
  cnt_not_met :: nat
  cnt_unknown :: nat

record workstream_accounting =
  wa_contract :: accounting_contract_identity
  wa_required_count :: nat
  wa_source_declared_done :: nat
  wa_planned :: accounting_stage_count
  wa_implemented :: accounting_stage_count
  wa_verified :: accounting_stage_count
  wa_merged :: accounting_stage_count
  wa_released :: accounting_stage_count
  wa_shared_reference_count :: nat

datatype accounting_error =
    AcUnsupportedVersion
  | AcInvalidDefinition
  | AcDuplicateWork
  | AcWorkSetMismatch
  | AcBindingMismatch
  | AcContractMismatch

section \<open>Operations\<close>

definition stages_values :: "accounting_stages \<Rightarrow> accounting_stage list" where
  "stages_values s =
     [stg_planned s, stg_implemented s, stg_verified s, stg_merged s, stg_released s]"

definition accounting_text :: "string \<Rightarrow> bool" where
  "accounting_text v \<longleftrightarrow> \<not> trim_empty v \<and> \<not> has_control v"

definition binding_valid :: "workstream_work_binding \<Rightarrow> bool" where
  "binding_valid b \<longleftrightarrow>
     accounting_text (wb_project_id b) \<and> accounting_text (wb_work_item_id b) \<and> wb_workstream_id b \<noteq> 0"

definition declare_binding ::
  "accounting_contract_identity \<Rightarrow> string set \<Rightarrow> workstream_work_binding \<times> bool \<Rightarrow>
     (accounting_error, string set) result" where
  "declare_binding identity declared = (\<lambda>(b, owned).
     then_ok
       (run_checks
         [refuse (\<not> binding_valid b) AcInvalidDefinition,
          refuse (wb_project_id b \<noteq> aci_project_id identity
                  \<or> (wb_workstream_id b = aci_workstream_id identity) \<noteq> owned) AcBindingMismatch])
       (insert_new AcDuplicateWork declared (wb_work_item_id b)))"

definition zero_count :: accounting_stage_count where
  "zero_count = \<lparr>cnt_recorded = 0, cnt_not_met = 0, cnt_unknown = 0\<rparr>"

definition count_stage ::
  "workstream_work_binding \<Rightarrow> accounting_stage \<Rightarrow> accounting_stage_count \<Rightarrow>
     (accounting_error, accounting_stage_count) result" where
  "count_stage binding stage count = (case stage of
     StUnknown \<Rightarrow> Inr (count\<lparr>cnt_unknown := cnt_unknown count + 1\<rparr>)
   | StNotMet \<Rightarrow> Inr (count\<lparr>cnt_not_met := cnt_not_met count + 1\<rparr>)
   | StRecorded evidence \<Rightarrow>
       then_ok
         (run_checks
           [refuse (ae_attribution evidence \<noteq> binding) AcBindingMismatch,
            refuse (\<not> accounting_text (ae_reference evidence)
                    \<or> \<not> accounting_text (ae_source_version evidence)
                    \<or> \<not> accounting_text (ae_environment evidence)
                    \<or> \<not> accounting_text (ae_acceptance_round evidence)
                    \<or> ae_occurred_at_ms evidence < 0) AcInvalidDefinition])
         (Inr (count\<lparr>cnt_recorded := cnt_recorded count + 1\<rparr>)))"

fun count_stages ::
  "workstream_work_binding \<Rightarrow> accounting_stage list \<Rightarrow> accounting_stage_count list \<Rightarrow>
     (accounting_error, accounting_stage_count list) result" where
  "count_stages binding (stage # stages) (count # counts) =
     and_then (count_stage binding stage count)
       (\<lambda>count'. and_then (count_stages binding stages counts) (\<lambda>counts'. Inr (count' # counts')))"
| "count_stages binding _ counts = Inr counts"

definition account_row ::
  "workstream_accounting_contract \<Rightarrow> string set \<times> accounting_stage_count list \<times> nat \<Rightarrow>
     accounting_work \<Rightarrow> (accounting_error, string set \<times> accounting_stage_count list \<times> nat) result" where
  "account_row contract st row = (case st of (seen, counts, source_done) \<Rightarrow>
     and_then (insert_new AcDuplicateWork seen (wb_work_item_id (aw_binding row)))
       (\<lambda>seen'. then_ok (refuse (aw_contract row \<noteq> wac_identity contract) AcContractMismatch)
         (and_then
           (ok_or (find (\<lambda>b. wb_work_item_id b = wb_work_item_id (aw_binding row))
                     (wac_required_work contract)) AcWorkSetMismatch)
           (\<lambda>expected. then_ok (refuse (aw_binding row \<noteq> expected) AcBindingMismatch)
             (and_then (count_stages (aw_binding row) (stages_values (aw_stages row)) counts)
               (\<lambda>counts'. Inr (seen', counts', source_done + of_bool (aw_source_declared_done row))))))))"

definition account_workstream ::
  "workstream_accounting_contract \<Rightarrow> accounting_work list \<Rightarrow>
     (accounting_error, workstream_accounting) result" where
  "account_workstream contract rows =
     (let identity = wac_identity contract in
      then_ok
        (run_checks
          [refuse (wac_version contract \<noteq> WORKSTREAM_ACCOUNTING_VERSION) AcUnsupportedVersion,
           refuse (\<not> accounting_text (aci_project_id identity)
                   \<or> \<not> accounting_text (aci_contract_id identity)
                   \<or> \<not> accounting_text (aci_digest identity)
                   \<or> aci_revision identity = 0
                   \<or> aci_workstream_id identity = 0) AcInvalidDefinition])
        (and_then
          (try_fold (declare_binding identity) {}
             (map (\<lambda>b. (b, True)) (wac_required_work contract)
              @ map (\<lambda>b. (b, False)) (wac_shared_references contract)))
          (\<lambda>_. and_then (try_fold (account_row contract) ({}, replicate 5 zero_count, 0) rows)
            (\<lambda>(seen, counts, source_done).
              then_ok (refuse (card seen \<noteq> length (wac_required_work contract)) AcWorkSetMismatch)
                (Inr \<lparr>wa_contract = identity,
                   wa_required_count = length (wac_required_work contract),
                   wa_source_declared_done = source_done,
                   wa_planned = counts ! 0,
                   wa_implemented = counts ! 1,
                   wa_verified = counts ! 2,
                   wa_merged = counts ! 3,
                   wa_released = counts ! 4,
                   wa_shared_reference_count = length (wac_shared_references contract)\<rparr>)))))"

section \<open>What the loops compute\<close>

abbreviation is_recorded :: "accounting_stage \<Rightarrow> bool" where
  "is_recorded s \<equiv> (case s of StRecorded _ \<Rightarrow> True | _ \<Rightarrow> False)"

text \<open>The count of one stage over the rows, as a direct definition.\<close>

definition stage_totals :: "(accounting_stages \<Rightarrow> accounting_stage) \<Rightarrow> accounting_work list \<Rightarrow>
    accounting_stage_count" where
  "stage_totals sel rows =
     \<lparr>cnt_recorded = length (filter (\<lambda>r. is_recorded (sel (aw_stages r))) rows),
      cnt_not_met = length (filter (\<lambda>r. sel (aw_stages r) = StNotMet) rows),
      cnt_unknown = length (filter (\<lambda>r. sel (aw_stages r) = StUnknown) rows)\<rparr>"

definition add_counts ::
  "accounting_stage_count \<Rightarrow> accounting_stage_count \<Rightarrow> accounting_stage_count" where
  "add_counts a b = \<lparr>cnt_recorded = cnt_recorded a + cnt_recorded b,
     cnt_not_met = cnt_not_met a + cnt_not_met b, cnt_unknown = cnt_unknown a + cnt_unknown b\<rparr>"

lemma add_counts_zero [simp]: "add_counts zero_count c = c" "add_counts c zero_count = c"
  by (simp_all add: add_counts_def zero_count_def)

lemma add_counts_assoc: "add_counts (add_counts a b) c = add_counts a (add_counts b c)"
  by (simp add: add_counts_def)

lemma stage_totals_Nil [simp]: "stage_totals sel [] = zero_count"
  by (simp add: stage_totals_def zero_count_def)

lemma stage_totals_Cons:
  "stage_totals sel (r # rows) = add_counts (stage_totals sel [r]) (stage_totals sel rows)"
  by (simp add: stage_totals_def add_counts_def)

lemma stage_totals_sum:
  "cnt_recorded (stage_totals sel rows) + cnt_not_met (stage_totals sel rows)
     + cnt_unknown (stage_totals sel rows) = length rows"
  by (induction rows) (auto simp: stage_totals_def split: accounting_stage.splits)

lemma count_stage_ok:
  assumes "count_stage b (sel (aw_stages r)) c = Inr c'"
  shows "c' = add_counts c (stage_totals sel [r])"
    and "sel (aw_stages r) = StRecorded ev \<Longrightarrow> ae_attribution ev = b"
  using assms
  by (auto simp: count_stage_def add_counts_def stage_totals_def split: accounting_stage.splits)

lemma account_row_ok:
  assumes "account_row contract (seen, counts, n) r = Inr (seen', counts', n')"
    and "length counts = 5"
  shows "wb_work_item_id (aw_binding r) \<notin> seen" "seen' = insert (wb_work_item_id (aw_binding r)) seen"
    and "aw_contract r = wac_identity contract" "aw_binding r \<in> set (wac_required_work contract)"
    and "n' = n + of_bool (aw_source_declared_done r)"
    and "counts' = map2 add_counts counts (map (\<lambda>sel. stage_totals sel [r])
           [stg_planned, stg_implemented, stg_verified, stg_merged, stg_released])"
proof -
  from assms(2) obtain a b c d e where counts: "counts = [a, b, c, d, e]"
    by (auto simp: length_Suc_conv numeral_eq_Suc)
  note facts = assms(1)[unfolded account_row_def counts stages_values_def, simplified]
  show "wb_work_item_id (aw_binding r) \<notin> seen" "seen' = insert (wb_work_item_id (aw_binding r)) seen"
    "aw_contract r = wac_identity contract" "n' = n + of_bool (aw_source_declared_done r)"
    "aw_binding r \<in> set (wac_required_work contract)"
    using facts by (auto dest: find_Some_in)
  show "counts' = map2 add_counts counts (map (\<lambda>sel. stage_totals sel [r])
           [stg_planned, stg_implemented, stg_verified, stg_merged, stg_released])"
    using facts unfolding counts by (auto dest: count_stage_ok(1))
qed

definition stage_selectors :: "(accounting_stages \<Rightarrow> accounting_stage) list" where
  "stage_selectors = [stg_planned, stg_implemented, stg_verified, stg_merged, stg_released]"

lemma account_rows_ok:
  assumes "try_fold (account_row contract) (seen, counts, n) rows = Inr (seen', counts', n')"
    and "length counts = 5"
  shows "distinct (map (wb_work_item_id \<circ> aw_binding) rows)
    \<and> seen' = seen \<union> (wb_work_item_id \<circ> aw_binding) ` set rows
    \<and> (wb_work_item_id \<circ> aw_binding) ` set rows \<inter> seen = {}
    \<and> (\<forall>r\<in>set rows. aw_contract r = wac_identity contract \<and> aw_binding r \<in> set (wac_required_work contract))
    \<and> n' = n + length (filter aw_source_declared_done rows)
    \<and> counts' = map2 add_counts counts (map (\<lambda>sel. stage_totals sel rows) stage_selectors)"
  using assms
proof (induction rows arbitrary: seen counts n)
  case Nil
  then show ?case by (auto simp: stage_selectors_def length_Suc_conv numeral_eq_Suc)
next
  case (Cons r rows)
  then obtain seen1 counts1 n1 where
      r: "account_row contract (seen, counts, n) r = Inr (seen1, counts1, n1)"
    and rest: "try_fold (account_row contract) (seen1, counts1, n1) rows = Inr (seen', counts', n')"
    by auto
  note row = account_row_ok[OF r Cons.prems(2)]
  have len: "length counts1 = 5" using row(6) Cons.prems(2) by simp
  have "counts' = map2 add_counts counts (map (\<lambda>sel. stage_totals sel (r # rows)) stage_selectors)"
    using Cons.IH[OF rest len] row(6) Cons.prems(2)
    by (auto simp: stage_selectors_def length_Suc_conv numeral_eq_Suc add_counts_assoc
        stage_totals_Cons[of _ r rows])
  with Cons.IH[OF rest len] row show ?case by auto
qed

lemma declare_ok:
  assumes "try_fold (declare_binding identity) {} xs = Inr seen'"
  shows "distinct (map (wb_work_item_id \<circ> fst) xs)"
proof -
  have "declare_binding identity = (\<lambda>seen x. then_ok
      (run_checks [refuse (\<not> binding_valid (fst x)) AcInvalidDefinition,
         refuse (wb_project_id (fst x) \<noteq> aci_project_id identity
           \<or> (wb_workstream_id (fst x) = aci_workstream_id identity) \<noteq> snd x) AcBindingMismatch])
      (insert_new AcDuplicateWork seen ((wb_work_item_id \<circ> fst) x)))"
    by (auto simp: fun_eq_iff declare_binding_def)
  with assms show ?thesis by (simp add: try_fold_insert_new comp_def)
qed

lemma account_workstream_ok:
  assumes "account_workstream contract rows = Inr acct"
  shows "length rows = length (wac_required_work contract)"
    and "set (map aw_binding rows) = set (wac_required_work contract)"
    and "distinct (map aw_binding rows)"
    and "wa_required_count acct = length (wac_required_work contract)"
    and "wa_source_declared_done acct = length (filter aw_source_declared_done rows)"
    and "[wa_planned acct, wa_implemented acct, wa_verified acct, wa_merged acct, wa_released acct]
           = map (\<lambda>sel. stage_totals sel rows) stage_selectors"
    and "\<forall>r\<in>set rows. aw_contract r = wac_identity contract"
proof -
  from assms obtain seen counts done0 declared where
      decl: "try_fold (declare_binding (wac_identity contract)) {}
             (map (\<lambda>b. (b, True)) (wac_required_work contract)
              @ map (\<lambda>b. (b, False)) (wac_shared_references contract)) = Inr declared"
    and fold: "try_fold (account_row contract) ({}, replicate 5 zero_count, 0) rows = Inr (seen, counts, done0)"
    and card: "card seen = length (wac_required_work contract)"
    and acct: "wa_required_count acct = length (wac_required_work contract)"
      "wa_source_declared_done acct = done0"
      "wa_planned acct = counts ! 0" "wa_implemented acct = counts ! 1" "wa_verified acct = counts ! 2"
      "wa_merged acct = counts ! 3" "wa_released acct = counts ! 4"
    by (auto simp: account_workstream_def Let_def)
  note rows = account_rows_ok[OF fold]
  have d: "distinct (map (wb_work_item_id \<circ> aw_binding) rows)" using rows by simp
  have len: "length rows = length (wac_required_work contract)"
    using rows card distinct_card[OF d] by simp
  then show "length rows = length (wac_required_work contract)" .
  show db: "distinct (map aw_binding rows)" using d by (simp add: distinct_map comp_inj_on_iff inj_on_def)
  have "distinct (map (wb_work_item_id \<circ> fst) (map (\<lambda>b. (b, True)) (wac_required_work contract)))"
    using declare_ok[OF decl] by simp
  then have dr: "distinct (wac_required_work contract)" by (simp add: comp_def distinct_map)
  have "set (map aw_binding rows) \<subseteq> set (wac_required_work contract)" using rows by auto
  moreover have "card (set (map aw_binding rows)) = card (set (wac_required_work contract))"
    using len distinct_card[OF db] distinct_card[OF dr] by simp
  ultimately show "set (map aw_binding rows) = set (wac_required_work contract)"
    by (intro card_subset_eq) auto
  have counts: "counts = map (\<lambda>sel. stage_totals sel rows) stage_selectors"
    using rows by (simp add: stage_selectors_def numeral_eq_Suc)
  show "wa_required_count acct = length (wac_required_work contract)"
    "wa_source_declared_done acct = length (filter aw_source_declared_done rows)"
    "[wa_planned acct, wa_implemented acct, wa_verified acct, wa_merged acct, wa_released acct]
           = map (\<lambda>sel. stage_totals sel rows) stage_selectors"
    "\<forall>r\<in>set rows. aw_contract r = wac_identity contract"
    using acct rows counts by (auto simp: stage_selectors_def)
qed

section \<open>Property\<close>

text \<open>
  A successful accounting counts every required work item exactly once in every stage: the rows
  are the required bindings of the contract, recorded, not-met and unknown add up to the required
  count, each recorded total is the number of rows with evidence for that stage (never inferred from
  another stage or from the source's own done flag).
\<close>
theorem accounting_is_complete:
  assumes "account_workstream contract rows = Inr acct"
  shows "set (map aw_binding rows) = set (wac_required_work contract) \<and> distinct (map aw_binding rows)
    \<and> wa_required_count acct = length rows
    \<and> (\<forall>(total, sel) \<in> set (zip [wa_planned acct, wa_implemented acct, wa_verified acct, wa_merged acct,
            wa_released acct] [stg_planned, stg_implemented, stg_verified, stg_merged, stg_released]).
          cnt_recorded total + cnt_not_met total + cnt_unknown total = wa_required_count acct
          \<and> cnt_recorded total = length (filter (\<lambda>r. is_recorded (sel (aw_stages r))) rows))"
proof -
  note ok = account_workstream_ok[OF assms]
  have sum: "cnt_recorded (stage_totals sel rows) + cnt_not_met (stage_totals sel rows)
      + cnt_unknown (stage_totals sel rows) = wa_required_count acct" for sel
    using stage_totals_sum[of sel rows] ok(1,4) by simp
  have rec: "cnt_recorded (stage_totals sel rows) =
      length (filter (\<lambda>r. is_recorded (sel (aw_stages r))) rows)" for sel
    by (simp add: stage_totals_def)
  have "\<forall>(total, sel) \<in> set (zip (map (\<lambda>sel. stage_totals sel rows) stage_selectors) stage_selectors).
      cnt_recorded total + cnt_not_met total + cnt_unknown total = wa_required_count acct
      \<and> cnt_recorded total = length (filter (\<lambda>r. is_recorded (sel (aw_stages r))) rows)"
    using sum by (auto simp: set_zip rec[symmetric])
  with ok show ?thesis unfolding ok(6)[symmetric] by (simp only: stage_selectors_def)
qed

definition ex_accounting_contract :: workstream_accounting_contract where
  "ex_accounting_contract = \<lparr>wac_version = 1,
     wac_identity = \<lparr>aci_project_id = ''proj'', aci_workstream_id = 2, aci_contract_id = ''c'',
       aci_revision = 1, aci_digest = ''d''\<rparr>,
     wac_required_work = [\<lparr>wb_project_id = ''proj'', wb_workstream_id = 2, wb_work_item_id = ''w1''\<rparr>],
     wac_shared_references = []\<rparr>"

definition ex_accounting_row :: accounting_work where
  "ex_accounting_row = \<lparr>
     aw_binding = \<lparr>wb_project_id = ''proj'', wb_workstream_id = 2, wb_work_item_id = ''w1''\<rparr>,
     aw_contract = wac_identity ex_accounting_contract, aw_source_declared_done = True,
     aw_stages = \<lparr>stg_planned = StNotMet, stg_implemented = StUnknown, stg_verified = StUnknown,
       stg_merged = StUnknown, stg_released = StUnknown\<rparr>\<rparr>"

theorem accounting_is_complete_witness:
  "\<exists>acct. account_workstream ex_accounting_contract [ex_accounting_row] = Inr acct
     \<and> wa_required_count acct = 1
     \<and> cnt_recorded (wa_planned acct) + cnt_not_met (wa_planned acct) + cnt_unknown (wa_planned acct) = 1"
proof -
  have "is_ok (account_workstream ex_accounting_contract [ex_accounting_row])" by code_simp
  then obtain acct where ok: "account_workstream ex_accounting_contract [ex_accounting_row] = Inr acct"
    by (auto simp: is_ok_iff)
  from accounting_is_complete[OF ok] ok show ?thesis by simp
qed

end
