(* ===== verification/Ordered_Map.thy ===== *)
theory Ordered_Map
  imports Awr_Prelude "HOL-Library.List_Lexorder"
begin

text \<open>
  Rust's \<^verbatim>\<open>BTreeMap\<close> where its iteration order or its values are observed: an association list with
  strictly increasing keys. \<open>bt_insert\<close> is \<open>insert\<close>, \<open>map_of\<close> is \<open>get\<close>, \<open>bt_values\<close> is
  \<open>into_values\<close> and \<open>bt_collect\<close> is \<open>collect\<close> from an iterator of pairs (later entries replace
  earlier ones).
\<close>

type_synonym ('k, 'v) btree_map = "('k \<times> 'v) list"

fun bt_insert :: "'k::linorder \<Rightarrow> 'v \<Rightarrow> ('k, 'v) btree_map \<Rightarrow> ('k, 'v) btree_map" where
  "bt_insert k v [] = [(k, v)]"
| "bt_insert k v ((k', v') # m) =
     (if k < k' then (k, v) # (k', v') # m
      else if k = k' then (k, v) # m
      else (k', v') # bt_insert k v m)"

definition bt_values :: "('k, 'v) btree_map \<Rightarrow> 'v list" where
  "bt_values m = map snd m"

definition bt_collect :: "('k::linorder \<times> 'v) list \<Rightarrow> ('k, 'v) btree_map" where
  "bt_collect kvs = fold (\<lambda>(k, v). bt_insert k v) kvs []"

definition bt_wf :: "('k::linorder, 'v) btree_map \<Rightarrow> bool" where
  "bt_wf m \<longleftrightarrow> sorted_wrt (<) (map fst m)"

lemma bt_insert_keys: "set (map fst (bt_insert k v m)) = insert k (set (map fst m))"
  by (induction k v m rule: bt_insert.induct) auto

lemma bt_wf_insert: "bt_wf m \<Longrightarrow> bt_wf (bt_insert k v m)"
proof (induction k v m rule: bt_insert.induct)
  case (1 k v)
  then show ?case by (simp add: bt_wf_def)
next
  case (2 k v k' v' m)
  then have "bt_wf m" and lt: "\<forall>x\<in>set (map fst m). k' < x" by (auto simp: bt_wf_def)
  with 2 bt_insert_keys[of k v m] show ?case by (auto simp: bt_wf_def)
qed

lemma bt_insert_lookup: "bt_wf m \<Longrightarrow> map_of (bt_insert k v m) = (map_of m)(k \<mapsto> v)"
proof (induction k v m rule: bt_insert.induct)
  case (1 k v)
  then show ?case by simp
next
  case (2 k v k' v' m)
  then have "bt_wf m" and lt: "\<forall>x\<in>set (map fst m). k' < x" by (auto simp: bt_wf_def)
  with 2 show ?case by (auto simp: fun_eq_iff)
qed

lemma bt_wf_Nil [simp]: "bt_wf []"
  by (simp add: bt_wf_def)

lemma bt_wf_distinct: "bt_wf m \<Longrightarrow> distinct (map fst m)"
  by (auto simp: bt_wf_def strict_sorted_iff)

section \<open>The interface of a map\<close>

text \<open>What clients use: look-up after update, and well-formedness of everything built by updates.\<close>

locale updatable_map =
  fixes lookup :: "'m \<Rightarrow> 'k \<Rightarrow> 'v option" and update :: "'k \<Rightarrow> 'v \<Rightarrow> 'm \<Rightarrow> 'm"
    and empty :: 'm and wf_map :: "'m \<Rightarrow> bool"
  assumes lookup_empty: "lookup empty = Map.empty"
    and lookup_update: "wf_map m \<Longrightarrow> lookup (update k v m) = (lookup m)(k \<mapsto> v)"
    and wf_empty: "wf_map empty"
    and wf_update: "wf_map m \<Longrightarrow> wf_map (update k v m)"
begin

lemma fold_update:
  "wf_map m \<Longrightarrow> wf_map (fold (\<lambda>(k, v). update k v) kvs m)
     \<and> lookup (fold (\<lambda>(k, v). update k v) kvs m) = lookup m ++ map_of (rev kvs)"
proof (induction kvs arbitrary: m)
  case Nil
  then show ?case by simp
next
  case (Cons kv kvs)
  obtain k v where kv: "kv = (k, v)" by (cases kv)
  from Cons.prems have "wf_map (update k v m)" by (rule wf_update)
  from Cons.IH[OF this] Cons.prems show ?case
    by (simp add: kv lookup_update map_add_assoc del: fun_upd_apply)
qed

lemma collect_lookup:
  assumes "distinct (map fst kvs)"
  shows "lookup (fold (\<lambda>(k, v). update k v) kvs empty) = map_of kvs"
proof -
  have "map_of (rev kvs) = map_of kvs"
    using assms by (intro map_of_eqI) (auto simp: rev_map[symmetric] map_of_eq_Some_iff)
  then show ?thesis using fold_update[OF wf_empty] by (simp add: lookup_empty)
qed

end

interpretation bt: updatable_map map_of bt_insert "[]" bt_wf
  by unfold_locales (auto simp: bt_insert_lookup bt_wf_insert)

lemma bt_collect_wf [simp]: "bt_wf (bt_collect kvs)"
  unfolding bt_collect_def using bt.fold_update[OF bt_wf_Nil, of kvs] by simp

lemma bt_collect_lookup:
  "distinct (map fst kvs) \<Longrightarrow> map_of (bt_collect kvs) = map_of kvs"
  unfolding bt_collect_def by (rule bt.collect_lookup)

lemma bt_values_lookup: "bt_wf m \<Longrightarrow> v \<in> set (bt_values m) \<longleftrightarrow> (\<exists>k. map_of m k = Some v)"
  using map_of_eq_Some_iff[OF bt_wf_distinct, of m] by (force simp: bt_values_def)

lemma bt_wf_unique:
  assumes "bt_wf a" and "bt_wf b" and "map_of a = map_of b"
  shows "a = b"
proof -
  have d: "distinct (map fst a)" "distinct (map fst b)" using assms(1,2) by (simp_all add: bt_wf_distinct)
  with assms(3) have set_eq: "set a = set b" by (simp add: map_of_inject_set)
  have "sorted (map fst a)" "sorted (map fst b)"
    using assms(1,2) by (auto simp: bt_wf_def strict_sorted_iff)
  moreover have "inj_on fst (set a \<union> set b)" using d(1) set_eq by (simp add: distinct_map)
  ultimately show ?thesis using d set_eq by (auto intro: map_sorted_distinct_set_unique)
qed

end
