(* ===== verification/Workstream_Usage.thy ===== *)
theory Workstream_Usage
  imports Workstream Ordered_Map "HOL-Library.Product_Lexorder"
begin

text \<open>
  \<^verbatim>\<open>crates/awr-core/src/workstream_usage.rs\<close>: accounting over observed usage. Counter deltas,
  deduplication of receipts, cost totals, allocation, corrections, wall-clock and execution time of
  overlapping intervals, coverage and the observation hand-off. Amounts and times are \<open>u64\<close> words.
\<close>

section \<open>Data\<close>

datatype usage_error =
    UeInvalid string
  | UeConflict
  | UeCounterBoundary
  | UeOverflow
  | UeEtaFromCumulativeDuration
  | UeCorrectionAudit

record usage_tokens =
  ut_input :: u64
  ut_output :: u64
  ut_cached_input :: u64

record usage_counter_scope =
  ucs_project_id :: string
  ucs_provider_namespace :: string
  ucs_provider :: string
  ucs_model :: string
  ucs_session_id :: string
  ucs_counter_epoch :: string

record usage_counter_snapshot =
  snap_scope :: usage_counter_scope
  snap_observed_at_ms :: u64
  snap_tokens :: usage_tokens

record usage_money =
  um_currency :: string
  um_micros :: u64

datatype usage_cost =
    CostActual usage_money
  | CostApiEquivalentEstimate usage_money string
  | CostUnknown

datatype usage_channel = ChModel | ChCompaction

record usage_attribution =
  ua_work_id :: string
  ua_execution_id :: string
  ua_workstream_id :: "ulid option"

record usage_receipt =
  ur_receipt_id :: string
  ur_project_id :: string
  ur_provider_namespace :: string
  ur_provider :: string
  ur_call_id :: string
  ur_model :: string
  ur_session_id :: string
  ur_occurred_at_ms :: u64
  ur_channel :: usage_channel
  ur_attribution :: usage_attribution
  ur_tokens :: "usage_tokens option"
  ur_cost :: usage_cost

record usage_cost_totals_rec =
  uct_actual_micros :: "(string, u64) btree_map"
  uct_api_equivalent_micros :: "(string, u64) btree_map"
  uct_unknown_calls :: nat
  uct_unique_calls :: nat

record usage_allocation =
  al_workstream_id :: "ulid option"
  al_micros :: u64

record usage_time_interval =
  ti_start_ms :: u64
  ti_end_ms :: u64

record usage_time_totals_rec =
  tt_observed_wall_clock_ms :: u64
  tt_observed_execution_ms :: u64

record usage_coverage_observation =
  co_observed_calls :: nat
  co_expected_calls :: "nat option"
  co_observed_time_ms :: u64
  co_expected_time_ms :: "u64 option"

record usage_coverage_report_rec =
  cr_observed_calls :: nat
  cr_expected_calls :: "nat option"
  cr_observed_time_ms :: u64
  cr_expected_time_ms :: "u64 option"
  cr_call_coverage :: "(nat \<times> nat) option"
  cr_time_coverage :: "(u64 \<times> u64) option"
  cr_coverage_is_not_a_cost_column :: bool

record usage_correction =
  uc_correction_id :: string
  uc_project_id :: string
  uc_target_receipt_id :: string
  uc_corrected_at_ms :: u64
  uc_reason :: string
  uc_prior_cost :: usage_cost
  uc_new_cost :: usage_cost
  uc_actor :: string

record usage_allocation_record =
  ar_allocation_id :: string
  ar_project_id :: string
  ar_receipt_id :: string
  ar_rule :: "string option"
  ar_shares :: "usage_allocation list"
  ar_recorded_at_ms :: u64

record usage_occurrence_binding =
  ob_receipt_id :: string
  ob_call_id :: string
  ob_execution_id :: string
  ob_work_id :: string
  ob_occurrence_mainline_id :: "ulid option"

record usage_time_observation_handoff =
  oh_project_id :: string
  oh_cost_totals :: usage_cost_totals_rec
  oh_time_totals :: "usage_time_totals_rec option"
  oh_coverage :: usage_coverage_report_rec
  oh_applied_correction_ids :: "string list"
  oh_is_historical_observation :: bool
  oh_is_not_estimated_remaining_time :: bool
  oh_wall_clock_distinct_from_execution_sum :: bool

record usage_execution_interval =
  ei_execution_id :: string
  ei_interval :: usage_time_interval

section \<open>Counters\<close>

definition usage_text :: "string \<Rightarrow> bool" where
  "usage_text v \<longleftrightarrow> \<not> trim_empty v \<and> length v \<le> 512 \<and> \<not> has_control v"

definition usage_add :: "u64 \<Rightarrow> u64 \<Rightarrow> (usage_error, u64) result" where
  "usage_add a b = ok_or (checked_add a b) UeOverflow"

definition tokens_validate :: "usage_tokens \<Rightarrow> (usage_error, unit) result" where
  "tokens_validate t = refuse (ut_cached_input t > ut_input t) (UeInvalid ''cache exceeds input'')"

definition counter_scope_validate :: "usage_counter_scope \<Rightarrow> (usage_error, unit) result" where
  "counter_scope_validate s =
     refuse (\<not> list_all usage_text [ucs_project_id s, ucs_provider_namespace s, ucs_provider s,
         ucs_model s, ucs_session_id s, ucs_counter_epoch s]) (UeInvalid ''counter scope'')"

definition validate_usage_counter_snapshot ::
  "usage_counter_snapshot \<Rightarrow> (usage_error, unit) result" where
  "validate_usage_counter_snapshot s =
     run_checks [counter_scope_validate (snap_scope s), tokens_validate (snap_tokens s)]"

definition usage_counter_delta ::
  "usage_counter_snapshot \<Rightarrow> usage_counter_snapshot \<Rightarrow> (usage_error, usage_tokens) result" where
  "usage_counter_delta previous current =
     (let subtract = \<lambda>a b. ok_or (checked_sub a b) UeCounterBoundary in
      then_ok
        (run_checks
          [validate_usage_counter_snapshot previous,
           validate_usage_counter_snapshot current,
           refuse (snap_scope previous \<noteq> snap_scope current
                   \<or> snap_observed_at_ms current \<le> snap_observed_at_ms previous) UeCounterBoundary])
        (and_then (subtract (ut_input (snap_tokens current)) (ut_input (snap_tokens previous)))
          (\<lambda>i. and_then (subtract (ut_output (snap_tokens current)) (ut_output (snap_tokens previous)))
            (\<lambda>out. and_then (subtract (ut_cached_input (snap_tokens current))
                (ut_cached_input (snap_tokens previous)))
              (\<lambda>c. let delta = \<lparr>ut_input = i, ut_output = out, ut_cached_input = c\<rparr> in
                then_ok (tokens_validate delta) (Inr delta))))))"

section \<open>Receipts\<close>

fun cost_amount :: "usage_cost \<Rightarrow> usage_money option" where
  "cost_amount (CostActual m) = Some m"
| "cost_amount (CostApiEquivalentEstimate m _) = Some m"
| "cost_amount CostUnknown = None"

definition currency_invalid :: "usage_money \<Rightarrow> bool" where
  "currency_invalid m \<longleftrightarrow>
     length (um_currency m) \<noteq> 3 \<or> \<not> list_all is_ascii_uppercase (um_currency m)"

text \<open>The checks on a cost, shared by receipts and corrections.\<close>

definition cost_checks :: "usage_cost \<Rightarrow> (usage_error, unit) result" where
  "cost_checks c =
     run_checks
       [check_some (\<lambda>m. refuse (currency_invalid m) (UeInvalid ''currency'')) (cost_amount c),
        refuse (case c of CostApiEquivalentEstimate _ v \<Rightarrow> \<not> usage_text v | _ \<Rightarrow> False)
          (UeInvalid ''pricing version'')]"

definition receipt_validate :: "usage_receipt \<Rightarrow> (usage_error, unit) result" where
  "receipt_validate r =
     run_checks
       [refuse (\<not> list_all usage_text [ur_receipt_id r, ur_project_id r, ur_provider_namespace r,
            ur_provider r, ur_call_id r, ur_model r, ur_session_id r,
            ua_work_id (ur_attribution r), ua_execution_id (ur_attribution r)]
          \<or> ua_workstream_id (ur_attribution r) = Some 0) (UeInvalid ''receipt identity''),
        check_some tokens_validate (ur_tokens r),
        cost_checks (ur_cost r)]"

definition same_call_content :: "usage_receipt \<Rightarrow> usage_receipt \<Rightarrow> bool" where
  "same_call_content self other \<longleftrightarrow>
     self = other\<lparr>ur_receipt_id := ur_receipt_id self, ur_channel := ur_channel self\<rparr>"

definition call_key :: "usage_receipt \<Rightarrow> string \<times> string \<times> string" where
  "call_key r = (ur_provider_namespace r, ur_provider r, ur_call_id r)"

type_synonym dedup_state =
  "(string \<rightharpoonup> usage_receipt) \<times> (string \<times> string \<times> string \<rightharpoonup> usage_receipt) \<times> usage_receipt list"

definition dedup_visit ::
  "string \<Rightarrow> dedup_state \<Rightarrow> usage_receipt \<Rightarrow> (usage_error, dedup_state) result" where
  "dedup_visit project st r = (case st of (ids, calls, uniq) \<Rightarrow>
     then_ok
       (run_checks
         [receipt_validate r,
          refuse (ur_project_id r \<noteq> project) (UeInvalid ''cross-project receipt''),
          refuse (case ids (ur_receipt_id r) of None \<Rightarrow> False | Some old \<Rightarrow> old \<noteq> r) UeConflict])
       (let ids' = ids(ur_receipt_id r \<mapsto> r) in
        case calls (call_key r) of
          Some old \<Rightarrow>
            then_ok (refuse (\<not> same_call_content old r) UeConflict) (Inr (ids', calls, uniq))
        | None \<Rightarrow> Inr (ids', calls(call_key r \<mapsto> r), uniq @ [r])))"

definition deduplicate_usage ::
  "string \<Rightarrow> usage_receipt list \<Rightarrow> (usage_error, usage_receipt list) result" where
  "deduplicate_usage project receipts =
     then_ok (refuse (\<not> usage_text project) (UeInvalid ''project''))
       (and_then (try_fold (dedup_visit project) (Map.empty, Map.empty, []) receipts)
         (\<lambda>(ids, calls, uniq). Inr uniq))"

definition add_entry ::
  "(string, u64) btree_map \<Rightarrow> usage_money \<Rightarrow> (usage_error, (string, u64) btree_map) result" where
  "add_entry m amount =
     and_then (usage_add (case map_of m (um_currency amount) of None \<Rightarrow> 0 | Some v \<Rightarrow> v) (um_micros amount))
       (\<lambda>v. Inr (bt_insert (um_currency amount) v m))"

definition total_visit ::
  "usage_cost_totals_rec \<Rightarrow> usage_receipt \<Rightarrow> (usage_error, usage_cost_totals_rec) result" where
  "total_visit totals r = (case ur_cost r of
     CostActual m \<Rightarrow> and_then (add_entry (uct_actual_micros totals) m)
       (\<lambda>m'. Inr (totals\<lparr>uct_actual_micros := m'\<rparr>))
   | CostApiEquivalentEstimate m _ \<Rightarrow> and_then (add_entry (uct_api_equivalent_micros totals) m)
       (\<lambda>m'. Inr (totals\<lparr>uct_api_equivalent_micros := m'\<rparr>))
   | CostUnknown \<Rightarrow> Inr (totals\<lparr>uct_unknown_calls := uct_unknown_calls totals + 1\<rparr>))"

definition usage_cost_totals ::
  "string \<Rightarrow> usage_receipt list \<Rightarrow> (usage_error, usage_cost_totals_rec) result" where
  "usage_cost_totals project receipts =
     and_then (deduplicate_usage project receipts)
       (\<lambda>uniq. try_fold total_visit
          \<lparr>uct_actual_micros = [], uct_api_equivalent_micros = [], uct_unknown_calls = 0,
           uct_unique_calls = length uniq\<rparr> uniq)"

definition allocation_visit ::
  "ulid option set \<times> u64 \<Rightarrow> usage_allocation \<Rightarrow> (usage_error, ulid option set \<times> u64) result" where
  "allocation_visit st a = (case st of (seen, acc) \<Rightarrow>
     then_ok (refuse (al_workstream_id a = Some 0 \<or> al_workstream_id a \<in> seen)
         (UeInvalid ''duplicate or invalid allocation target''))
       (and_then (usage_add acc (al_micros a))
         (\<lambda>acc'. Inr (insert (al_workstream_id a) seen, acc'))))"

definition allocate_usage_cost ::
  "usage_receipt \<Rightarrow> usage_allocation list \<Rightarrow> string option \<Rightarrow>
     (usage_error, usage_allocation list option) result" where
  "allocate_usage_cost r allocations rule =
     then_ok (receipt_validate r)
       (case cost_amount (ur_cost r) of
          None \<Rightarrow> then_ok (refuse (allocations \<noteq> [] \<or> rule \<noteq> None)
              (UeInvalid ''unknown cost allocation'')) (Inr None)
        | Some amount \<Rightarrow>
            if allocations = [] then
              then_ok (refuse (rule \<noteq> None) (UeInvalid ''rule without allocation''))
                (Inr (Some [\<lparr>al_workstream_id = ua_workstream_id (ur_attribution r),
                             al_micros = um_micros amount\<rparr>]))
            else
              then_ok (refuse (\<not> (case rule of None \<Rightarrow> False | Some t \<Rightarrow> usage_text t))
                  (UeInvalid ''allocation rule required''))
                (and_then (try_fold allocation_visit ({}, 0) allocations)
                  (\<lambda>(seen, acc). then_ok (refuse (acc \<noteq> um_micros amount)
                      (UeInvalid ''allocation does not conserve cost''))
                    (Inr (Some allocations)))))"

section \<open>Time\<close>

definition execution_visit :: "u64 \<Rightarrow> usage_time_interval \<Rightarrow> (usage_error, u64) result" where
  "execution_visit execution i =
     and_then (ok_or (checked_sub (ti_end_ms i) (ti_start_ms i)) (UeInvalid ''reversed interval''))
       (\<lambda>duration. usage_add execution duration)"

definition merge_visit ::
  "u64 \<times> usage_time_interval option \<Rightarrow> usage_time_interval \<Rightarrow>
     (usage_error, u64 \<times> usage_time_interval option) result" where
  "merge_visit st i = (case st of
     (union_ms, None) \<Rightarrow> Inr (union_ms, Some i)
   | (union_ms, Some cur) \<Rightarrow>
       if ti_start_ms i \<le> ti_end_ms cur
       then Inr (union_ms, Some (cur\<lparr>ti_end_ms := max (ti_end_ms cur) (ti_end_ms i)\<rparr>))
       else and_then (usage_add union_ms (ti_end_ms cur - ti_start_ms cur))
         (\<lambda>union_ms'. Inr (union_ms', Some i)))"

definition usage_time_totals ::
  "usage_time_interval list option \<Rightarrow> (usage_error, usage_time_totals_rec option) result" where
  "usage_time_totals intervals = (case intervals of
     None \<Rightarrow> Inr None
   | Some is \<Rightarrow>
       and_then (try_fold execution_visit 0 is)
         (\<lambda>execution.
           and_then (try_fold merge_visit (0, None) (sort_key (\<lambda>i. (ti_start_ms i, ti_end_ms i)) is))
             (\<lambda>(union_ms, merged).
               and_then (case merged of
                   None \<Rightarrow> Inr union_ms
                 | Some l \<Rightarrow> usage_add union_ms (ti_end_ms l - ti_start_ms l))
                 (\<lambda>union_ms'. Inr (Some \<lparr>tt_observed_wall_clock_ms = union_ms',
                    tt_observed_execution_ms = execution\<rparr>)))))"

definition usage_coverage_report ::
  "usage_coverage_observation \<Rightarrow> (usage_error, usage_coverage_report_rec) result" where
  "usage_coverage_report obs =
     then_ok
       (run_checks
         [refuse (case co_expected_calls obs of None \<Rightarrow> False | Some e \<Rightarrow> co_observed_calls obs > e)
            (UeInvalid ''observed calls exceed expected''),
          refuse (case co_expected_time_ms obs of None \<Rightarrow> False | Some e \<Rightarrow> co_observed_time_ms obs > e)
            (UeInvalid ''observed time exceeds expected window'')])
       (Inr \<lparr>cr_observed_calls = co_observed_calls obs,
          cr_expected_calls = co_expected_calls obs,
          cr_observed_time_ms = co_observed_time_ms obs,
          cr_expected_time_ms = co_expected_time_ms obs,
          cr_call_coverage = map_option (Pair (co_observed_calls obs)) (co_expected_calls obs),
          cr_time_coverage = map_option (Pair (co_observed_time_ms obs)) (co_expected_time_ms obs),
          cr_coverage_is_not_a_cost_column = True\<rparr>)"

section \<open>Corrections and views\<close>

definition correction_validate :: "usage_correction \<Rightarrow> (usage_error, unit) result" where
  "correction_validate c =
     run_checks
       [refuse (\<not> list_all usage_text [uc_correction_id c, uc_project_id c, uc_target_receipt_id c,
            uc_reason c, uc_actor c]) (UeInvalid ''correction identity''),
        cost_checks (uc_prior_cost c),
        cost_checks (uc_new_cost c),
        refuse (uc_prior_cost c = uc_new_cost c) (UeInvalid ''noop correction'')]"

type_synonym correction_state =
  "(string, usage_receipt) btree_map \<times> string list \<times> string set \<times> string set"

definition correction_visit ::
  "string \<Rightarrow> correction_state \<Rightarrow> usage_correction \<Rightarrow> (usage_error, correction_state) result" where
  "correction_visit project st c = (case st of (by_id, applied, seen_targets, seen_ids) \<Rightarrow>
     then_ok
       (run_checks
         [correction_validate c,
          refuse (uc_project_id c \<noteq> project) (UeInvalid ''cross-project correction''),
          refuse (uc_correction_id c \<in> seen_ids) UeConflict,
          refuse (uc_target_receipt_id c \<in> seen_targets) UeCorrectionAudit])
       (and_then (ok_or (map_of by_id (uc_target_receipt_id c)) UeCorrectionAudit)
         (\<lambda>r. then_ok (refuse (ur_cost r \<noteq> uc_prior_cost c) UeCorrectionAudit)
           (Inr (bt_insert (uc_target_receipt_id c) (r\<lparr>ur_cost := uc_new_cost c\<rparr>) by_id,
                 applied @ [uc_correction_id c],
                 insert (uc_target_receipt_id c) seen_targets,
                 insert (uc_correction_id c) seen_ids)))))"

definition apply_usage_corrections ::
  "string \<Rightarrow> usage_receipt list \<Rightarrow> usage_correction list \<Rightarrow>
     (usage_error, usage_receipt list \<times> string list) result" where
  "apply_usage_corrections project receipts corrections =
     then_ok (refuse (\<not> usage_text project) (UeInvalid ''project''))
       (and_then (deduplicate_usage project receipts)
         (\<lambda>uniq. and_then
            (try_fold (correction_visit project)
               (bt_collect (map (\<lambda>r. (ur_receipt_id r, r)) uniq), [], {}, {}) corrections)
            (\<lambda>(by_id, applied, _, _). Inr (bt_values by_id, applied))))"

definition allocation_validate_against ::
  "usage_allocation_record \<Rightarrow> usage_receipt \<Rightarrow> (usage_error, unit) result" where
  "allocation_validate_against rec r =
     then_ok
       (run_checks
         [refuse (\<not> usage_text (ar_allocation_id rec) \<or> ar_project_id rec \<noteq> ur_project_id r)
            (UeInvalid ''allocation record''),
          refuse (ar_receipt_id rec \<noteq> ur_receipt_id r) (UeInvalid ''allocation receipt mismatch'')])
       (and_then (allocate_usage_cost r (ar_shares rec) (ar_rule rec)) (\<lambda>_. Inr ()))"

definition usage_occurrence_bindings ::
  "string \<Rightarrow> usage_receipt list \<Rightarrow> (usage_error, usage_occurrence_binding list) result" where
  "usage_occurrence_bindings project receipts =
     and_then (deduplicate_usage project receipts)
       (\<lambda>uniq. Inr (map (\<lambda>r.
          \<lparr>ob_receipt_id = ur_receipt_id r,
           ob_call_id = ur_call_id r,
           ob_execution_id = ua_execution_id (ur_attribution r),
           ob_work_id = ua_work_id (ur_attribution r),
           ob_occurrence_mainline_id = ua_workstream_id (ur_attribution r)\<rparr>) uniq))"

definition usage_observation_handoff ::
  "string \<Rightarrow> usage_receipt list \<Rightarrow> usage_correction list \<Rightarrow> usage_time_interval list option \<Rightarrow>
     usage_coverage_observation \<Rightarrow> (usage_error, usage_time_observation_handoff) result" where
  "usage_observation_handoff project receipts corrections intervals coverage =
     and_then (apply_usage_corrections project receipts corrections)
       (\<lambda>(corrected, applied). and_then (usage_cost_totals project corrected)
         (\<lambda>cost_totals. and_then (usage_time_totals intervals)
           (\<lambda>time_totals. and_then (usage_coverage_report coverage)
             (\<lambda>report. Inr
               \<lparr>oh_project_id = project,
                oh_cost_totals = cost_totals,
                oh_time_totals = time_totals,
                oh_coverage = report,
                oh_applied_correction_ids = applied,
                oh_is_historical_observation = True,
                oh_is_not_estimated_remaining_time = True,
                oh_wall_clock_distinct_from_execution_sum = True\<rparr>))))"

text \<open>The search terms as code points; the last three are the Chinese ones of the source.\<close>

definition eta_needles :: "nat list list" where
  "eta_needles = [utf8_chars ''eta'', utf8_chars ''remaining'', utf8_chars ''estimate'',
     [39044, 35745], [21097, 20313], [39044, 20272]]"

definition refuse_eta_from_cumulative_duration :: "string \<Rightarrow> u64 \<Rightarrow> (usage_error, unit) result" where
  "refuse_eta_from_cumulative_duration label cumulative_duration_ms =
     (let lowered = map to_ascii_lowercase (trim_chars (utf8_chars label)) in
      refuse (list_ex (\<lambda>needle. sublist needle lowered) eta_needles) UeEtaFromCumulativeDuration)"

definition interval_visit ::
  "(string, usage_time_interval) btree_map \<Rightarrow> usage_execution_interval \<Rightarrow>
     (usage_error, (string, usage_time_interval) btree_map) result" where
  "interval_visit by_exec item =
     then_ok
       (run_checks
         [refuse (\<not> usage_text (ei_execution_id item)) (UeInvalid ''execution interval identity''),
          refuse (ti_end_ms (ei_interval item) < ti_start_ms (ei_interval item))
            (UeInvalid ''reversed interval''),
          refuse (case map_of by_exec (ei_execution_id item) of
              None \<Rightarrow> False | Some old \<Rightarrow> old \<noteq> ei_interval item) UeConflict])
       (Inr (bt_insert (ei_execution_id item) (ei_interval item) by_exec))"

definition deduplicate_execution_intervals ::
  "usage_execution_interval list \<Rightarrow> (usage_error, usage_time_interval list) result" where
  "deduplicate_execution_intervals intervals =
     and_then (try_fold interval_visit [] intervals) (\<lambda>by_exec. Inr (bt_values by_exec))"

end
