(* ===== verification/Usage_Laws.thy ===== *)
theory Usage_Laws
  imports Workstream_Usage "HOL-Library.Multiset"
begin

text \<open>
  What the usage accounting of \<^verbatim>\<open>Workstream_Usage\<close> computes: wall-clock time is the measure of the
  union of the intervals, a call is charged once however often it is observed, allocations conserve
  the amount, and corrections change costs only.
\<close>

section \<open>Time\<close>

abbreviation span :: "usage_time_interval \<Rightarrow> nat set" where
  "span i \<equiv> {unat (ti_start_ms i) ..< unat (ti_end_ms i)}"

abbreviation duration :: "usage_time_interval \<Rightarrow> nat" where
  "duration i \<equiv> unat (ti_end_ms i) - unat (ti_start_ms i)"

abbreviation covered :: "usage_time_interval list \<Rightarrow> nat set" where
  "covered is \<equiv> \<Union> (span ` set is)"

lemma usage_add_ok [simp]: "usage_add a b = Inr c \<longleftrightarrow> unat a + unat b < 2 ^ 64 \<and> c = a + b"
  by (simp add: usage_add_def)

lemma usage_add_unat: "unat a + unat b < 2 ^ 64 \<Longrightarrow> unat ((a::u64) + b) = unat a + unat b"
  using checked_add_unat[of a b "a + b"] by simp

lemma execution_fold:
  "try_fold execution_visit a is = Inr b \<longleftrightarrow>
     (\<forall>i\<in>set is. ti_start_ms i \<le> ti_end_ms i)
     \<and> unat a + sum_list (map duration is) < 2 ^ 64
     \<and> unat b = unat a + sum_list (map duration is)"
proof (induction "is" arbitrary: a)
  case Nil
  show ?case using unsigned_less[of a] by (auto simp: word_unat_eq_iff)
next
  case (Cons i "is")
  have "execution_visit a i = Inr c \<longleftrightarrow>
      ti_start_ms i \<le> ti_end_ms i \<and> unat a + duration i < 2 ^ 64 \<and> c = a + (ti_end_ms i - ti_start_ms i)" for c
    by (auto simp: execution_visit_def unat_sub)
  moreover have "unat (a + (ti_end_ms i - ti_start_ms i)) = unat a + duration i"
    if "ti_start_ms i \<le> ti_end_ms i" "unat a + duration i < 2 ^ 64"
    using that by (simp add: usage_add_unat unat_sub)
  ultimately show ?case using Cons.IH by (auto simp: ac_simps)
qed

text \<open>
  The merge loop from a current interval on: its total and the interval it ends with measure the
  union, when the intervals come in order of their start.
\<close>

lemma card_span: "card (span i) = duration i"
  by simp

lemma finite_covered [simp]: "finite (covered is)"
  by simp

lemma covered_card_le: "card (covered is) \<le> sum_list (map duration is)"
proof (induction "is")
  case (Cons i "is")
  have "card (span i \<union> covered is) \<le> card (span i) + card (covered is)" by (rule card_Un_le)
  with Cons show ?case by simp
qed simp

lemma merge_visit_simps [simp]:
  "merge_visit (u, None) i = Inr (u, Some i)"
  "ti_start_ms i \<le> ti_end_ms cur \<Longrightarrow> merge_visit (u, Some cur) i =
     Inr (u, Some (cur\<lparr>ti_end_ms := max (ti_end_ms cur) (ti_end_ms i)\<rparr>))"
  "\<not> ti_start_ms i \<le> ti_end_ms cur \<Longrightarrow> merge_visit (u, Some cur) i = Inr st \<longleftrightarrow>
     (\<exists>w. usage_add u (ti_end_ms cur - ti_start_ms cur) = Inr w \<and> st = (w, Some i))"
  by (auto simp: merge_visit_def)

lemma merge_fold:
  assumes "ti_start_ms cur \<le> ti_end_ms cur"
    and "\<forall>i\<in>set is. ti_start_ms i \<le> ti_end_ms i \<and> ti_start_ms cur \<le> ti_start_ms i"
    and "sorted (map ti_start_ms is)"
    and "unat u + duration cur + sum_list (map duration is) < 2 ^ 64"
  shows "\<exists>u' l. try_fold merge_visit (u, Some cur) is = Inr (u', Some l)
    \<and> ti_start_ms l \<le> ti_end_ms l
    \<and> unat u' + duration l = unat u + card (span cur \<union> covered is)"
  using assms
proof (induction "is" arbitrary: u cur)
  case Nil
  then show ?case by simp
next
  case (Cons i "is")
  note bounds = Cons.prems
  show ?case
  proof (cases "ti_start_ms i \<le> ti_end_ms cur")
    case True
    let ?cur = "cur\<lparr>ti_end_ms := max (ti_end_ms cur) (ti_end_ms i)\<rparr>"
    have ord: "unat (ti_start_ms cur) \<le> unat (ti_start_ms i)" "unat (ti_start_ms i) \<le> unat (ti_end_ms cur)"
      "unat (ti_start_ms i) \<le> unat (ti_end_ms i)"
      using bounds(2) True by (auto simp: word_le_nat_alt)
    have mx: "unat (max (ti_end_ms cur) (ti_end_ms i)) = max (unat (ti_end_ms cur)) (unat (ti_end_ms i))"
      by (auto simp: max_def word_le_nat_alt)
    have sp: "span ?cur = span cur \<union> span i" using ord by (auto simp: mx)
    have "duration ?cur \<le> duration cur + duration i" using ord by (simp add: mx)
    then have "\<exists>u' l. try_fold merge_visit (u, Some ?cur) is = Inr (u', Some l)
        \<and> ti_start_ms l \<le> ti_end_ms l
        \<and> unat u' + duration l = unat u + card (span ?cur \<union> covered is)"
      using bounds by (intro Cons.IH) (auto simp: max_def)
    moreover have "span ?cur \<union> covered is = span cur \<union> covered (i # is)"
      unfolding sp by auto
    ultimately show ?thesis using True by simp
  next
    case False
    let ?u = "u + (ti_end_ms cur - ti_start_ms cur)"
    have u: "unat ?u = unat u + duration cur" "usage_add u (ti_end_ms cur - ti_start_ms cur) = Inr ?u"
      using bounds(1,4) by (auto simp: usage_add_unat unat_sub)
    have later: "\<forall>j\<in>set is. ti_start_ms i \<le> ti_start_ms j" using bounds(3) by auto
    have gap: "span cur \<inter> covered (i # is) = {}"
    proof -
      have "unat (ti_end_ms cur) \<le> unat (ti_start_ms j)" if "j \<in> set (i # is)" for j
        using that False later by (auto simp: word_le_nat_alt not_le)
      then show ?thesis by fastforce
    qed
    have "\<exists>u' l. try_fold merge_visit (?u, Some i) is = Inr (u', Some l)
        \<and> ti_start_ms l \<le> ti_end_ms l
        \<and> unat u' + duration l = unat ?u + card (span i \<union> covered is)"
      using bounds u(1) later by (intro Cons.IH) auto
    moreover have "card (span cur \<union> covered (i # is)) = duration cur + card (covered (i # is))"
      using card_Un_disjoint[OF _ _ gap] by simp
    ultimately show ?thesis using False u by auto
  qed
qed

lemma sorted_by_start:
  "sorted (map ti_start_ms (sort_key (\<lambda>i. (ti_start_ms i, ti_end_ms i)) is))"
proof -
  have "sorted (map (\<lambda>i. (ti_start_ms i, ti_end_ms i)) (sort_key (\<lambda>i. (ti_start_ms i, ti_end_ms i)) is))"
    by (rule sorted_sort_key)
  then show ?thesis by (auto simp: sorted_map elim!: sorted_wrt_mono_rel[rotated])
qed

lemma usage_time_totals_value:
  assumes "\<forall>i\<in>set is. ti_start_ms i \<le> ti_end_ms i" and "sum_list (map duration is) < 2 ^ 64"
  shows "\<exists>t. usage_time_totals (Some is) = Inr (Some t)
    \<and> unat (tt_observed_execution_ms t) = sum_list (map duration is)
    \<and> unat (tt_observed_wall_clock_ms t) = card (covered is)"
proof -
  define js where "js = sort_key (\<lambda>i. (ti_start_ms i, ti_end_ms i)) is"
  have ms: "mset js = mset is" by (simp add: js_def)
  then have set: "set js = set is" by (rule mset_eq_setD)
  have sum: "sum_list (map duration js) = sum_list (map duration is)"
    using arg_cong[OF ms, of "\<lambda>m. sum_mset (image_mset duration m)"]
    by (simp add: sum_mset_sum_list flip: mset_map)
  define b :: u64 where "b = of_nat (sum_list (map duration is))"
  have ub: "unat b = sum_list (map duration is)"
    using assms(2) by (simp add: b_def unat_of_nat)
  then have b: "try_fold execution_visit 0 is = Inr b"
    using assms execution_fold[of 0 "is" b] by simp
  have "\<exists>u m. try_fold merge_visit (0, None) js = Inr (u, m) \<and>
      (\<exists>w. (case m of None \<Rightarrow> Inr u | Some l \<Rightarrow> usage_add u (ti_end_ms l - ti_start_ms l)) = Inr w
         \<and> unat w = card (covered js))"
  proof (cases js)
    case Nil
    then show ?thesis by simp
  next
    case (Cons j ks)
    have "sorted (map ti_start_ms js)" unfolding js_def by (rule sorted_by_start)
    then have "\<exists>u l. try_fold merge_visit (0, Some j) ks = Inr (u, Some l)
        \<and> ti_start_ms l \<le> ti_end_ms l \<and> unat u + duration l = unat (0::u64) + card (span j \<union> covered ks)"
      using assms set sum unfolding Cons by (intro merge_fold) auto
    then obtain u l where run: "try_fold merge_visit (0, Some j) ks = Inr (u, Some l)"
      and l: "ti_start_ms l \<le> ti_end_ms l" and tot: "unat u + duration l = card (covered js)"
      unfolding Cons by auto
    have "card (covered js) < 2 ^ 64" using covered_card_le[of js] sum assms(2) by simp
    with l tot have "usage_add u (ti_end_ms l - ti_start_ms l) = Inr (u + (ti_end_ms l - ti_start_ms l))"
      "unat (u + (ti_end_ms l - ti_start_ms l)) = card (covered js)"
      by (auto simp: usage_add_unat unat_sub)
    with run show ?thesis unfolding Cons by auto
  qed
  then obtain u m w where "try_fold merge_visit (0, None) js = Inr (u, m)"
      "(case m of None \<Rightarrow> Inr u | Some l \<Rightarrow> usage_add u (ti_end_ms l - ti_start_ms l)) = Inr w"
      "unat w = card (covered js)" by blast
  with b ub set show ?thesis
    by (intro exI[of _ "\<lparr>tt_observed_wall_clock_ms = w, tt_observed_execution_ms = b\<rparr>"])
      (auto simp: usage_time_totals_def js_def)
qed

text \<open>
  C34: Observed execution time is the sum of the durations and observed wall-clock time is the measure
  of the union of the half-open intervals, so overlapping work is counted once and wall clock never
  exceeds execution. The computation is refused exactly when an interval is reversed or the sum of
  durations does not fit 64 bits: neither the union nor a difference ever wraps.
\<close>
theorem wall_clock_is_measure_of_union:
  "(case usage_time_totals (Some is) of
      Inr (Some t) \<Rightarrow>
        unat (tt_observed_execution_ms t) = (\<Sum>i\<leftarrow>is. unat (ti_end_ms i) - unat (ti_start_ms i))
        \<and> unat (tt_observed_wall_clock_ms t)
            = card (\<Union>i\<in>set is. {unat (ti_start_ms i) ..< unat (ti_end_ms i)})
        \<and> tt_observed_wall_clock_ms t \<le> tt_observed_execution_ms t
    | Inr None \<Rightarrow> False
    | Inl e \<Rightarrow> (\<exists>i\<in>set is. ti_end_ms i < ti_start_ms i)
        \<or> (\<Sum>i\<leftarrow>is. unat (ti_end_ms i) - unat (ti_start_ms i)) \<ge> 2 ^ 64)
   \<and> (is_ok (usage_time_totals (Some is)) \<longleftrightarrow>
        list_all (\<lambda>i. ti_start_ms i \<le> ti_end_ms i) is
        \<and> (\<Sum>i\<leftarrow>is. unat (ti_end_ms i) - unat (ti_start_ms i)) < 2 ^ 64)"
proof (cases "(\<forall>i\<in>set is. ti_start_ms i \<le> ti_end_ms i) \<and> sum_list (map duration is) < 2 ^ 64")
  case True
  then obtain t where t: "usage_time_totals (Some is) = Inr (Some t)"
      "unat (tt_observed_execution_ms t) = sum_list (map duration is)"
      "unat (tt_observed_wall_clock_ms t) = card (covered is)"
    using usage_time_totals_value by blast
  then have "tt_observed_wall_clock_ms t \<le> tt_observed_execution_ms t"
    using covered_card_le[of "is"] by (simp add: word_le_nat_alt)
  with t True show ?thesis by (simp add: list_all_iff)
next
  case False
  then have "\<nexists>b. try_fold execution_visit 0 is = Inr b"
    by (auto simp: execution_fold)
  then obtain e where "try_fold execution_visit 0 is = Inl e"
    by (cases "try_fold execution_visit 0 is") auto
  then have "usage_time_totals (Some is) = Inl e" by (simp add: usage_time_totals_def)
  with False show ?thesis by (auto simp: list_all_iff not_le not_less)
qed

section \<open>Deduplication\<close>

lemma same_call_content_iff:
  "same_call_content a b \<longleftrightarrow>
     a\<lparr>ur_receipt_id := [], ur_channel := ChModel\<rparr> = b\<lparr>ur_receipt_id := [], ur_channel := ChModel\<rparr>"
  by (cases a; cases b) (auto simp: same_call_content_def)

lemma same_call_content_key: "same_call_content a b \<Longrightarrow> call_key a = call_key b"
  by (cases a; cases b) (auto simp: same_call_content_def call_key_def)

text \<open>The batch is consistent: one body per receipt identity, one content per call.\<close>

definition consistent_receipts :: "string \<Rightarrow> usage_receipt list \<Rightarrow> bool" where
  "consistent_receipts project rs \<longleftrightarrow>
     (\<forall>r\<in>set rs. receipt_validate r = Inr () \<and> ur_project_id r = project)
     \<and> (\<forall>r\<in>set rs. \<forall>s\<in>set rs. ur_receipt_id r = ur_receipt_id s \<longrightarrow> r = s)
     \<and> (\<forall>r\<in>set rs. \<forall>s\<in>set rs. call_key r = call_key s \<longrightarrow> same_call_content r s)"

text \<open>The first receipt of every call, in order.\<close>

definition first_of_call :: "usage_receipt list \<Rightarrow> usage_receipt list" where
  "first_of_call rs =
     fold (\<lambda>r u. if call_key r \<in> call_key ` set u then u else u @ [r]) rs []"

lemma first_of_call_Nil [simp]: "first_of_call [] = []"
  by (simp add: first_of_call_def)

lemma first_of_call_snoc [simp]:
  "first_of_call (rs @ [r]) =
     (if call_key r \<in> call_key ` set (first_of_call rs) then first_of_call rs else first_of_call rs @ [r])"
  by (simp add: first_of_call_def)

lemma first_of_call_props:
  "set (first_of_call rs) \<subseteq> set rs"
  "call_key ` set (first_of_call rs) = call_key ` set rs"
  "distinct (map call_key (first_of_call rs))"
  by (induction rs rule: rev_induct) auto

lemma first_of_call_id: "distinct (map call_key rs) \<Longrightarrow> first_of_call rs = rs"
proof (induction rs rule: rev_induct)
  case (snoc r rs)
  then show ?case using first_of_call_props(2)[of rs] by auto
qed simp

lemma first_of_call_replay:
  "call_key ` set dup \<subseteq> call_key ` set rs \<Longrightarrow> first_of_call (rs @ dup) = first_of_call rs"
proof (induction dup rule: rev_induct)
  case (snoc r dup)
  then have "call_key r \<in> call_key ` set (rs @ dup)" by auto
  then have "first_of_call (rs @ dup @ [r]) = first_of_call (rs @ dup)"
    using first_of_call_snoc[of "rs @ dup" r] first_of_call_props(2)[of "rs @ dup"] by simp
  with snoc show ?case by simp
qed simp

definition dedup_after :: "usage_receipt list \<Rightarrow> dedup_state" where
  "dedup_after rs =
     (\<lambda>i. find (\<lambda>r. ur_receipt_id r = i) rs, \<lambda>k. find (\<lambda>r. call_key r = k) rs, first_of_call rs)"

lemma find_key_None: "find (\<lambda>r. key r = k) rs = None \<longleftrightarrow> k \<notin> key ` set rs"
  by (auto simp: find_None_iff)

lemma consistent_snoc:
  "consistent_receipts project (rs @ [r]) \<longleftrightarrow>
     consistent_receipts project rs \<and> receipt_validate r = Inr () \<and> ur_project_id r = project
     \<and> (\<forall>s. find (\<lambda>s. ur_receipt_id s = ur_receipt_id r) rs = Some s \<longrightarrow> s = r)
     \<and> (\<forall>s. find (\<lambda>s. call_key s = call_key r) rs = Some s \<longrightarrow> same_call_content s r)"
    (is "?L \<longleftrightarrow> ?R")
proof
  assume ?L
  then show ?R by (auto simp: consistent_receipts_def dest!: find_Some_in)
next
  assume R: ?R
  have id: "s = r" if s: "s \<in> set rs" "ur_receipt_id s = ur_receipt_id r" for s
  proof (cases "find (\<lambda>s. ur_receipt_id s = ur_receipt_id r) rs")
    case None
    with s show ?thesis by (auto simp: find_None_iff)
  next
    case (Some t)
    then have t: "t \<in> set rs" "ur_receipt_id t = ur_receipt_id r" by (auto dest: find_Some_in)
    with R s have "s = t" by (auto simp: consistent_receipts_def)
    moreover have "t = r" using R Some by blast
    ultimately show ?thesis by simp
  qed
  have call: "same_call_content s r \<and> same_call_content r s"
    if s: "s \<in> set rs" "call_key s = call_key r" for s
  proof (cases "find (\<lambda>s. call_key s = call_key r) rs")
    case None
    with s show ?thesis by (auto simp: find_None_iff)
  next
    case (Some t)
    then have t: "t \<in> set rs" "call_key t = call_key r" by (auto dest: find_Some_in)
    with R s have "same_call_content s t" by (auto simp: consistent_receipts_def)
    moreover have "same_call_content t r" using R Some by blast
    ultimately have "same_call_content s t" "same_call_content t r" by simp_all
    then show ?thesis by (simp add: same_call_content_iff)
  qed
  from R have old: "consistent_receipts project rs" and new: "receipt_validate r = Inr ()"
    "ur_project_id r = project" by simp_all
  have self: "same_call_content r r" by (simp add: same_call_content_iff)
  have "\<forall>a\<in>set (rs @ [r]). \<forall>b\<in>set (rs @ [r]). ur_receipt_id a = ur_receipt_id b \<longrightarrow> a = b"
    using old id unfolding consistent_receipts_def by (metis Un_iff empty_iff empty_set set_ConsD set_append)
  moreover have "\<forall>a\<in>set (rs @ [r]). \<forall>b\<in>set (rs @ [r]). call_key a = call_key b \<longrightarrow> same_call_content a b"
    using old call self unfolding consistent_receipts_def by (metis Un_iff empty_iff empty_set set_ConsD set_append)
  ultimately show ?L using old new by (auto simp: consistent_receipts_def)
qed

lemma find_key_upd:
  assumes "\<And>s. find (\<lambda>s. key s = key r) rs = Some s \<Longrightarrow> s = r"
  shows "(\<lambda>k. find (\<lambda>s. key s = k) rs)(key r \<mapsto> r) = (\<lambda>k. find (\<lambda>s. key s = k) (rs @ [r]))"
proof (rule ext)
  fix k
  show "((\<lambda>k. find (\<lambda>s. key s = k) rs)(key r \<mapsto> r)) k = find (\<lambda>s. key s = k) (rs @ [r])"
    using assms by (cases "k = key r"; cases "find (\<lambda>s. key s = k) rs") (auto simp: find_append_case)
qed

lemma find_key_old:
  assumes "find (\<lambda>s. key s = key r) rs = Some s"
  shows "(\<lambda>k. find (\<lambda>s. key s = k) rs) = (\<lambda>k. find (\<lambda>s. key s = k) (rs @ [r]))"
proof (rule ext)
  fix k
  show "find (\<lambda>s. key s = k) rs = find (\<lambda>s. key s = k) (rs @ [r])"
    using assms by (cases "k = key r"; cases "find (\<lambda>s. key s = k) rs") (auto simp: find_append_case)
qed

lemma dedup_visit_iff:
  assumes "consistent_receipts project rs"
  shows "dedup_visit project (dedup_after rs) r = Inr st \<longleftrightarrow>
     consistent_receipts project (rs @ [r]) \<and> st = dedup_after (rs @ [r])"
proof -
  let ?known = "find (\<lambda>s. ur_receipt_id s = ur_receipt_id r) rs"
  let ?call = "find (\<lambda>s. call_key s = call_key r) rs"
  show ?thesis
  proof (cases "receipt_validate r = Inr () \<and> ur_project_id r = project \<and> (\<forall>s. ?known = Some s \<longrightarrow> s = r)")
    case False
    then have "\<not> consistent_receipts project (rs @ [r])" unfolding consistent_snoc by blast
    moreover have "dedup_visit project (dedup_after rs) r \<noteq> Inr st"
      using False by (auto simp: dedup_visit_def dedup_after_def)
    ultimately show ?thesis by blast
  next
    case True
    then have ids: "(\<lambda>i. find (\<lambda>s. ur_receipt_id s = i) rs)(ur_receipt_id r \<mapsto> r) =
        (\<lambda>i. find (\<lambda>s. ur_receipt_id s = i) (rs @ [r]))"
      by (intro find_key_upd) blast
    show ?thesis
    proof (cases ?call)
      case None
      then have "call_key r \<notin> call_key ` set (first_of_call rs)"
        using first_of_call_props(2)[of rs] find_key_None[of call_key "call_key r" rs] by simp
      moreover have "(\<lambda>k. find (\<lambda>s. call_key s = k) rs)(call_key r \<mapsto> r) =
          (\<lambda>k. find (\<lambda>s. call_key s = k) (rs @ [r]))"
        using None by (intro find_key_upd) simp
      moreover have "consistent_receipts project (rs @ [r])"
        unfolding consistent_snoc using assms True None by simp
      ultimately show ?thesis using True None ids
        by (auto simp: dedup_visit_def dedup_after_def Let_def split: option.split simp del: fun_upd_apply)
    next
      case (Some old)
      then have "call_key r \<in> call_key ` set (first_of_call rs)"
        using first_of_call_props(2)[of rs] find_key_None[of call_key "call_key r" rs] by simp
      moreover have "consistent_receipts project (rs @ [r]) \<longleftrightarrow> same_call_content old r"
        unfolding consistent_snoc using assms True Some by auto
      moreover have "dedup_visit project (dedup_after rs) r = Inr st \<longleftrightarrow> same_call_content old r
          \<and> st = ((\<lambda>i. find (\<lambda>s. ur_receipt_id s = i) rs)(ur_receipt_id r \<mapsto> r),
                \<lambda>k. find (\<lambda>s. call_key s = k) rs, first_of_call rs)"
        using True Some
        by (auto simp: dedup_visit_def dedup_after_def Let_def split: option.split simp del: fun_upd_apply)
      ultimately show ?thesis
        unfolding ids find_key_old[of call_key, OF Some] by (simp add: dedup_after_def)
    qed
  qed
qed

lemma dedup_fold:
  "try_fold (dedup_visit project) (Map.empty, Map.empty, []) rs = Inr st \<longleftrightarrow>
     consistent_receipts project rs \<and> st = dedup_after rs"
proof (induction rs arbitrary: st rule: rev_induct)
  case Nil
  then show ?case by (auto simp: consistent_receipts_def dedup_after_def)
next
  case (snoc r rs)
  have "try_fold (dedup_visit project) (Map.empty, Map.empty, []) (rs @ [r]) = Inr st \<longleftrightarrow>
      consistent_receipts project rs \<and> dedup_visit project (dedup_after rs) r = Inr st"
    by (cases st) (auto simp: try_fold_append snoc.IH)
  also have "\<dots> \<longleftrightarrow> consistent_receipts project (rs @ [r]) \<and> st = dedup_after (rs @ [r])"
    using dedup_visit_iff consistent_snoc by blast
  finally show ?case .
qed

lemma deduplicate_usage_ok:
  "deduplicate_usage project rs = Inr u \<longleftrightarrow>
     usage_text project \<and> consistent_receipts project rs \<and> u = first_of_call rs"
  by (auto simp: deduplicate_usage_def dedup_fold dedup_after_def)

section \<open>Cost totals\<close>

definition subtotal :: "(string, u64) btree_map \<Rightarrow> string \<Rightarrow> nat" where
  "subtotal m c = (case map_of m c of None \<Rightarrow> 0 | Some v \<Rightarrow> unat v)"

abbreviation micros_in :: "string \<Rightarrow> usage_money \<Rightarrow> nat" where
  "micros_in c m \<equiv> (if um_currency m = c then unat (um_micros m) else 0)"

definition actual_in :: "string \<Rightarrow> usage_receipt \<Rightarrow> nat" where
  "actual_in c r = (case ur_cost r of CostActual m \<Rightarrow> micros_in c m | _ \<Rightarrow> 0)"

definition api_in :: "string \<Rightarrow> usage_receipt \<Rightarrow> nat" where
  "api_in c r = (case ur_cost r of CostApiEquivalentEstimate m _ \<Rightarrow> micros_in c m | _ \<Rightarrow> 0)"

lemma add_entry_ok:
  assumes "add_entry m a = Inr m'" and "bt_wf m"
  shows "bt_wf m'" and "subtotal m' c = subtotal m c + micros_in c a"
  using assms
  by (auto simp: add_entry_def subtotal_def bt_wf_insert bt_insert_lookup usage_add_unat
      split: option.splits if_splits)

lemma total_fold:
  assumes "try_fold total_visit t rs = Inr t'"
    and "bt_wf (uct_actual_micros t)" and "bt_wf (uct_api_equivalent_micros t)"
  shows "subtotal (uct_actual_micros t') c = subtotal (uct_actual_micros t) c + (\<Sum>r\<leftarrow>rs. actual_in c r)
    \<and> subtotal (uct_api_equivalent_micros t') c =
        subtotal (uct_api_equivalent_micros t) c + (\<Sum>r\<leftarrow>rs. api_in c r)
    \<and> uct_unknown_calls t' = uct_unknown_calls t + length (filter (\<lambda>r. ur_cost r = CostUnknown) rs)
    \<and> uct_unique_calls t' = uct_unique_calls t"
  using assms
proof (induction rs arbitrary: t)
  case Nil
  then show ?case by simp
next
  case (Cons r rs)
  from Cons.prems(1) obtain t1 where t1: "total_visit t r = Inr t1" and rest: "try_fold total_visit t1 rs = Inr t'"
    by auto
  have "bt_wf (uct_actual_micros t1) \<and> bt_wf (uct_api_equivalent_micros t1)
      \<and> subtotal (uct_actual_micros t1) c = subtotal (uct_actual_micros t) c + actual_in c r
      \<and> subtotal (uct_api_equivalent_micros t1) c = subtotal (uct_api_equivalent_micros t) c + api_in c r
      \<and> uct_unknown_calls t1 = uct_unknown_calls t + of_bool (ur_cost r = CostUnknown)
      \<and> uct_unique_calls t1 = uct_unique_calls t"
  proof (cases "ur_cost r")
    case (CostActual m)
    with t1 obtain m' where m': "add_entry (uct_actual_micros t) m = Inr m'"
      "t1 = t\<lparr>uct_actual_micros := m'\<rparr>" by (auto simp: total_visit_def)
    with CostActual add_entry_ok[OF m'(1)] Cons.prems show ?thesis
      by (simp add: actual_in_def api_in_def)
  next
    case (CostApiEquivalentEstimate m v)
    with t1 obtain m' where m': "add_entry (uct_api_equivalent_micros t) m = Inr m'"
      "t1 = t\<lparr>uct_api_equivalent_micros := m'\<rparr>" by (auto simp: total_visit_def)
    with CostApiEquivalentEstimate add_entry_ok[OF m'(1)] Cons.prems show ?thesis
      by (simp add: actual_in_def api_in_def)
  next
    case CostUnknown
    with t1 Cons.prems show ?thesis by (auto simp: total_visit_def actual_in_def api_in_def)
  qed
  with Cons.IH[OF rest] show ?case by auto
qed

lemma usage_cost_totals_ok:
  assumes "usage_cost_totals project rs = Inr t"
  shows "deduplicate_usage project rs = Inr (first_of_call rs)"
    and "subtotal (uct_actual_micros t) c = (\<Sum>r\<leftarrow>first_of_call rs. actual_in c r)"
    and "subtotal (uct_api_equivalent_micros t) c = (\<Sum>r\<leftarrow>first_of_call rs. api_in c r)"
    and "uct_unknown_calls t = length (filter (\<lambda>r. ur_cost r = CostUnknown) (first_of_call rs))"
    and "uct_unique_calls t = length (first_of_call rs)"
proof -
  from assms obtain u where u: "deduplicate_usage project rs = Inr u"
    and fold: "try_fold total_visit \<lparr>uct_actual_micros = [], uct_api_equivalent_micros = [],
        uct_unknown_calls = 0, uct_unique_calls = length u\<rparr> u = Inr t"
    by (auto simp: usage_cost_totals_def)
  then show dd: "deduplicate_usage project rs = Inr (first_of_call rs)"
    by (simp add: deduplicate_usage_ok)
  show "subtotal (uct_actual_micros t) c = (\<Sum>r\<leftarrow>first_of_call rs. actual_in c r)"
    "subtotal (uct_api_equivalent_micros t) c = (\<Sum>r\<leftarrow>first_of_call rs. api_in c r)"
    "uct_unknown_calls t = length (filter (\<lambda>r. ur_cost r = CostUnknown) (first_of_call rs))"
    "uct_unique_calls t = length (first_of_call rs)"
    using total_fold[OF fold, of c] dd u by (simp_all add: subtotal_def)
qed

definition ex_receipt :: usage_receipt where
  "ex_receipt = \<lparr>ur_receipt_id = ''r1'', ur_project_id = ''proj'', ur_provider_namespace = ''acct'',
     ur_provider = ''p'', ur_call_id = ''call'', ur_model = ''m'', ur_session_id = ''s'',
     ur_occurred_at_ms = 5, ur_channel = ChModel,
     ur_attribution = \<lparr>ua_work_id = ''w1'', ua_execution_id = ''x1'', ua_workstream_id = Some 2\<rparr>,
     ur_tokens = None, ur_cost = CostActual \<lparr>um_currency = ''USD'', um_micros = 70\<rparr>\<rparr>"

definition ex_usage :: "usage_receipt list" where
  "ex_usage = [ex_receipt, ex_receipt\<lparr>ur_receipt_id := ''r2'', ur_channel := ChCompaction\<rparr>,
     ex_receipt\<lparr>ur_receipt_id := ''r3'', ur_call_id := ''call2'', ur_cost := CostUnknown\<rparr>]"

text \<open>
  C33: Cost totals charge every provider call exactly once: there is one receipt per call of the batch
  such that each currency's actual and API-equivalent subtotals are the exact sums over those
  receipts, and calls of unknown cost are counted and never priced.
\<close>
theorem totals_charge_each_call_once:
  assumes "usage_cost_totals project rs = Inr t"
  shows "\<exists>u. set u \<subseteq> set rs \<and> call_key ` set u = call_key ` set rs \<and> distinct (map call_key u)
    \<and> uct_unique_calls t = length u
    \<and> uct_unknown_calls t = length (filter (\<lambda>r. ur_cost r = CostUnknown) u)
    \<and> (\<forall>c. subtotal (uct_actual_micros t) c = (\<Sum>r\<leftarrow>u. actual_in c r))
    \<and> (\<forall>c. subtotal (uct_api_equivalent_micros t) c = (\<Sum>r\<leftarrow>u. api_in c r))"
  by (rule exI[of _ "first_of_call rs"])
    (simp add: first_of_call_props usage_cost_totals_ok[OF assms])

theorem totals_charge_each_call_once_witness:
  "\<exists>t. usage_cost_totals ''proj'' ex_usage = Inr t \<and> subtotal (uct_actual_micros t) ''USD'' = 70
     \<and> (\<exists>u. set u \<subseteq> set ex_usage \<and> distinct (map call_key u) \<and> uct_unique_calls t = length u)"
proof -
  have "map_sum id (\<lambda>t. subtotal (uct_actual_micros t) ''USD'') (usage_cost_totals ''proj'' ex_usage) = Inr 70"
    by code_simp
  then obtain t where t: "usage_cost_totals ''proj'' ex_usage = Inr t"
      "subtotal (uct_actual_micros t) ''USD'' = 70"
    by (cases "usage_cost_totals ''proj'' ex_usage") auto
  from totals_charge_each_call_once[OF t(1)] t show ?thesis by blast
qed

text \<open>
  Observing again what was already recorded, in any number and order, changes neither the
  deduplicated calls nor the totals; a different body under a recorded receipt identity, or a
  different content for a recorded call, is refused instead of being chosen from.
\<close>
theorem replayed_usage_changes_nothing:
  assumes "set replay \<subseteq> set rs"
  shows "(is_ok (deduplicate_usage project (rs @ replay)) \<longleftrightarrow> is_ok (deduplicate_usage project rs))
    \<and> (is_ok (deduplicate_usage project rs) \<longrightarrow>
         usage_cost_totals project (rs @ replay) = usage_cost_totals project rs)
    \<and> ((\<exists>r\<in>set rs. \<exists>s\<in>set rs. ur_receipt_id r = ur_receipt_id s \<and> r \<noteq> s
           \<or> call_key r = call_key s \<and> \<not> same_call_content r s)
         \<longrightarrow> \<not> is_ok (deduplicate_usage project rs))"
proof -
  have "set (rs @ replay) = set rs" using assms by auto
  then have "consistent_receipts project (rs @ replay) \<longleftrightarrow> consistent_receipts project rs"
    by (simp add: consistent_receipts_def)
  moreover have "first_of_call (rs @ replay) = first_of_call rs"
    using assms by (intro first_of_call_replay) auto
  ultimately have same: "deduplicate_usage project (rs @ replay) = Inr u \<longleftrightarrow> deduplicate_usage project rs = Inr u"
    for u by (simp add: deduplicate_usage_ok)
  have "usage_cost_totals project (rs @ replay) = usage_cost_totals project rs"
    if ok: "is_ok (deduplicate_usage project rs)"
  proof -
    from ok obtain u where u: "deduplicate_usage project rs = Inr u" by (auto simp: is_ok_iff)
    moreover from this have "deduplicate_usage project (rs @ replay) = Inr u" using same by blast
    ultimately show ?thesis by (simp add: usage_cost_totals_def)
  qed
  with same show ?thesis
    by (auto simp: is_ok_iff deduplicate_usage_ok consistent_receipts_def)
qed

theorem replayed_usage_changes_nothing_witness:
  "is_ok (deduplicate_usage ''proj'' ex_usage)
   \<and> usage_cost_totals ''proj'' (ex_usage @ [ex_receipt]) = usage_cost_totals ''proj'' ex_usage
   \<and> \<not> is_ok (deduplicate_usage ''proj'' [ex_receipt, ex_receipt\<lparr>ur_model := ''n''\<rparr>])"
proof -
  let ?other = "ex_receipt\<lparr>ur_model := ''n''\<rparr>"
  have ok: "is_ok (deduplicate_usage ''proj'' ex_usage)" by code_simp
  have sub: "set [ex_receipt] \<subseteq> set ex_usage" by (simp add: ex_usage_def)
  have bad: "ur_receipt_id ex_receipt = ur_receipt_id ?other \<and> ex_receipt \<noteq> ?other"
    by (simp add: ex_receipt_def)
  have none: "set [] \<subseteq> set [ex_receipt, ?other]" by simp
  have "\<exists>r\<in>set [ex_receipt, ?other]. \<exists>s\<in>set [ex_receipt, ?other].
      ur_receipt_id r = ur_receipt_id s \<and> r \<noteq> s \<or> call_key r = call_key s \<and> \<not> same_call_content r s"
    by (rule bexI[of _ ex_receipt], rule bexI[of _ ?other], rule disjI1, rule bad) simp_all
  then have "\<not> is_ok (deduplicate_usage ''proj'' [ex_receipt, ?other])"
    using replayed_usage_changes_nothing[OF none, of "''proj''"] by blast
  with ok replayed_usage_changes_nothing[OF sub, of "''proj''"] show ?thesis by simp
qed

section \<open>Allocation and counters\<close>

lemma allocation_visit_ok [simp]:
  "allocation_visit (seen, a) x = Inr st \<longleftrightarrow>
     al_workstream_id x \<noteq> Some 0 \<and> al_workstream_id x \<notin> seen \<and> unat a + unat (al_micros x) < 2 ^ 64
     \<and> st = (insert (al_workstream_id x) seen, a + al_micros x)"
  by (auto simp: allocation_visit_def)

lemma allocation_fold:
  assumes "try_fold allocation_visit (seen, a) xs = Inr (seen', b)"
  shows "unat b = unat a + (\<Sum>x\<leftarrow>xs. unat (al_micros x))
    \<and> distinct (map al_workstream_id xs) \<and> al_workstream_id ` set xs \<inter> seen = {}
    \<and> Some 0 \<notin> al_workstream_id ` set xs"
  using assms
proof (induction xs arbitrary: seen a)
  case Nil
  then show ?case by simp
next
  case (Cons x xs)
  then have step: "try_fold allocation_visit (insert (al_workstream_id x) seen, a + al_micros x) xs = Inr (seen', b)"
    and x: "unat a + unat (al_micros x) < 2 ^ 64" "al_workstream_id x \<noteq> Some 0" "al_workstream_id x \<notin> seen"
    by auto
  from Cons.IH[OF step] x usage_add_unat[OF x(1)] show ?case by auto
qed

text \<open>
  An accepted allocation conserves the receipt's amount exactly, without wrap-around, to pairwise
  different targets; without explicit shares the whole amount stays with the owner at occurrence, and
  a call of unknown cost is never given a number.
\<close>
theorem allocation_conserves_cost:
  assumes "allocate_usage_cost r allocations rule = Inr result"
  shows "case (cost_amount (ur_cost r), result) of
      (None, None) \<Rightarrow> allocations = [] \<and> rule = None
    | (Some m, Some shares) \<Rightarrow>
        (\<Sum>s\<leftarrow>shares. unat (al_micros s)) = unat (um_micros m)
        \<and> distinct (map al_workstream_id shares)
        \<and> (if allocations = [] then map al_workstream_id shares = [ua_workstream_id (ur_attribution r)]
           else shares = allocations \<and> rule \<noteq> None)
    | _ \<Rightarrow> False"
proof (cases "cost_amount (ur_cost r)")
  case None
  with assms show ?thesis by (auto simp: allocate_usage_cost_def)
next
  case (Some m)
  show ?thesis
  proof (cases "allocations = []")
    case True
    with Some assms show ?thesis by (auto simp: allocate_usage_cost_def)
  next
    case False
    with Some assms obtain seen where
        fold: "try_fold allocation_visit ({}, 0) allocations = Inr (seen, um_micros m)"
      and res: "result = Some allocations" "rule \<noteq> None"
      by (auto simp: allocate_usage_cost_def split: option.splits)
    from allocation_fold[OF fold] res False Some show ?thesis by simp
  qed
qed

theorem allocation_conserves_cost_witness:
  "allocate_usage_cost ex_receipt [\<lparr>al_workstream_id = Some 2, al_micros = 30\<rparr>,
       \<lparr>al_workstream_id = None, al_micros = 40\<rparr>] (Some ''split'')
     = Inr (Some [\<lparr>al_workstream_id = Some 2, al_micros = 30\<rparr>, \<lparr>al_workstream_id = None, al_micros = 40\<rparr>])
   \<and> unat (30 :: u64) + unat (40 :: u64) = unat (70 :: u64)"
proof -
  have ok: "allocate_usage_cost ex_receipt [\<lparr>al_workstream_id = Some 2, al_micros = 30\<rparr>,
       \<lparr>al_workstream_id = None, al_micros = 40\<rparr>] (Some ''split'')
     = Inr (Some [\<lparr>al_workstream_id = Some 2, al_micros = 30\<rparr>, \<lparr>al_workstream_id = None, al_micros = 40\<rparr>])"
    by code_simp
  from allocation_conserves_cost[OF ok] ok show ?thesis by (simp add: ex_receipt_def)
qed

lemma usage_counter_delta_ok:
  "usage_counter_delta p c = Inr d \<longleftrightarrow>
     validate_usage_counter_snapshot p = Inr () \<and> validate_usage_counter_snapshot c = Inr ()
     \<and> snap_scope p = snap_scope c \<and> snap_observed_at_ms p < snap_observed_at_ms c
     \<and> ut_input (snap_tokens p) \<le> ut_input (snap_tokens c)
     \<and> ut_output (snap_tokens p) \<le> ut_output (snap_tokens c)
     \<and> ut_cached_input (snap_tokens p) \<le> ut_cached_input (snap_tokens c)
     \<and> d = \<lparr>ut_input = ut_input (snap_tokens c) - ut_input (snap_tokens p),
            ut_output = ut_output (snap_tokens c) - ut_output (snap_tokens p),
            ut_cached_input = ut_cached_input (snap_tokens c) - ut_cached_input (snap_tokens p)\<rparr>
     \<and> ut_cached_input d \<le> ut_input d"
  by (auto simp: usage_counter_delta_def Let_def tokens_validate_def)

text \<open>
  Counter deltas telescope: measuring from the first to the last snapshot gives the sum of the
  deltas of the two halves, component by component and without wrap-around, so splitting an
  observation window neither creates nor loses tokens.
\<close>
theorem counter_deltas_telescope:
  assumes "usage_counter_delta a b = Inr d" and "usage_counter_delta b c = Inr e"
  shows "\<exists>f. usage_counter_delta a c = Inr f
    \<and> unat (ut_input f) = unat (ut_input d) + unat (ut_input e)
    \<and> unat (ut_output f) = unat (ut_output d) + unat (ut_output e)
    \<and> unat (ut_cached_input f) = unat (ut_cached_input d) + unat (ut_cached_input e)"
proof -
  have minus: "unat (z - x) = unat (y - x) + unat (z - y)" if "x \<le> y" "y \<le> z" for x y z :: u64
    using that by (simp add: unat_sub order_trans[OF that] word_le_nat_alt)
  let ?f = "\<lparr>ut_input = ut_input (snap_tokens c) - ut_input (snap_tokens a),
            ut_output = ut_output (snap_tokens c) - ut_output (snap_tokens a),
            ut_cached_input = ut_cached_input (snap_tokens c) - ut_cached_input (snap_tokens a)\<rparr>"
  note facts = assms[unfolded usage_counter_delta_ok]
  have parts: "unat (ut_input ?f) = unat (ut_input d) + unat (ut_input e)"
    "unat (ut_output ?f) = unat (ut_output d) + unat (ut_output e)"
    "unat (ut_cached_input ?f) = unat (ut_cached_input d) + unat (ut_cached_input e)"
    using facts by (auto intro: minus)
  have "unat (ut_cached_input d) \<le> unat (ut_input d)" "unat (ut_cached_input e) \<le> unat (ut_input e)"
    unfolding word_le_nat_alt[symmetric] using facts by blast+
  then have "ut_cached_input ?f \<le> ut_input ?f"
    using parts unfolding word_le_nat_alt by linarith
  with facts have "usage_counter_delta a c = Inr ?f"
    unfolding usage_counter_delta_ok by (auto intro: order_trans)
  with parts show ?thesis by blast
qed

definition ex_snapshot :: "u64 \<Rightarrow> usage_counter_snapshot" where
  "ex_snapshot n = \<lparr>snap_scope = \<lparr>ucs_project_id = ''proj'', ucs_provider_namespace = ''acct'',
     ucs_provider = ''p'', ucs_model = ''m'', ucs_session_id = ''s'', ucs_counter_epoch = ''e''\<rparr>,
     snap_observed_at_ms = n, snap_tokens = \<lparr>ut_input = 10 * n, ut_output = n, ut_cached_input = n\<rparr>\<rparr>"

theorem counter_deltas_telescope_witness:
  "usage_counter_delta (ex_snapshot 1) (ex_snapshot 2) =
     Inr \<lparr>ut_input = 10, ut_output = 1, ut_cached_input = 1\<rparr>
   \<and> (\<exists>f. usage_counter_delta (ex_snapshot 1) (ex_snapshot 5) = Inr f \<and> unat (ut_input f) = 40)"
proof -
  have d: "usage_counter_delta (ex_snapshot 1) (ex_snapshot 2) =
      Inr \<lparr>ut_input = 10, ut_output = 1, ut_cached_input = 1\<rparr>" by code_simp
  have e: "usage_counter_delta (ex_snapshot 2) (ex_snapshot 5) =
      Inr \<lparr>ut_input = 30, ut_output = 3, ut_cached_input = 3\<rparr>" by code_simp
  from counter_deltas_telescope[OF d e] d show ?thesis by auto
qed

section \<open>Corrections\<close>

text \<open>What a batch of corrections makes of one receipt.\<close>

definition corrected :: "usage_correction list \<Rightarrow> usage_receipt \<Rightarrow> usage_receipt" where
  "corrected cs r = (case find (\<lambda>c. uc_target_receipt_id c = ur_receipt_id r) cs of
     None \<Rightarrow> r | Some c \<Rightarrow> r\<lparr>ur_cost := uc_new_cost c\<rparr>)"

lemma corrected_keeps [simp]:
  "ur_receipt_id (corrected cs r) = ur_receipt_id r" "call_key (corrected cs r) = call_key r"
  "ur_project_id (corrected cs r) = ur_project_id r"
  "(corrected cs r)\<lparr>ur_cost := k\<rparr> = r\<lparr>ur_cost := k\<rparr>"
  by (auto simp: corrected_def call_key_def split: option.splits)

definition corrections_ok :: "string \<Rightarrow> (string \<rightharpoonup> usage_receipt) \<Rightarrow> usage_correction list \<Rightarrow> bool" where
  "corrections_ok project orig cs \<longleftrightarrow>
     distinct (map uc_target_receipt_id cs) \<and> distinct (map uc_correction_id cs)
     \<and> (\<forall>c\<in>set cs. correction_validate c = Inr () \<and> uc_project_id c = project
          \<and> (\<exists>r. orig (uc_target_receipt_id c) = Some r \<and> ur_cost r = uc_prior_cost c))"

lemma correction_fold:
  assumes fold: "try_fold (correction_visit project) (m0, [], {}, {}) cs = Inr (m, applied, targets, ids)"
    and wf: "bt_wf m0" and key: "\<And>i r. map_of m0 i = Some r \<Longrightarrow> ur_receipt_id r = i"
  shows "bt_wf m \<and> applied = map uc_correction_id cs \<and> targets = uc_target_receipt_id ` set cs
    \<and> ids = uc_correction_id ` set cs
    \<and> map_of m = map_option (corrected cs) \<circ> map_of m0
    \<and> corrections_ok project (map_of m0) cs"
  using fold
proof (induction cs arbitrary: m applied targets ids rule: rev_induct)
  case Nil
  then show ?case using wf
    by (auto simp: corrections_ok_def corrected_def fun_eq_iff option.map_ident)
next
  case (snoc c cs)
  then obtain m1 applied1 targets1 ids1 where
      before: "try_fold (correction_visit project) (m0, [], {}, {}) cs = Inr (m1, applied1, targets1, ids1)"
    and step: "correction_visit project (m1, applied1, targets1, ids1) c = Inr (m, applied, targets, ids)"
    by (auto simp: try_fold_append)
  note IH = snoc.IH[OF before]
  let ?t = "uc_target_receipt_id c"
  from step obtain r1 where c: "correction_validate c = Inr ()" "uc_project_id c = project"
      "uc_correction_id c \<notin> ids1" "?t \<notin> targets1"
    and r1: "map_of m1 ?t = Some r1" "ur_cost r1 = uc_prior_cost c"
    and new: "m = bt_insert ?t (r1\<lparr>ur_cost := uc_new_cost c\<rparr>) m1"
      "applied = applied1 @ [uc_correction_id c]" "targets = insert ?t targets1"
      "ids = insert (uc_correction_id c) ids1"
    by (auto simp: correction_visit_def)
  from IH r1 obtain r where r: "map_of m0 ?t = Some r" "r1 = corrected cs r" by auto
  have fresh: "find (\<lambda>d. uc_target_receipt_id d = ?t) cs = None"
    unfolding find_key_None using c(4) IH by blast
  then have r1r: "r1 = r" using r key[OF r(1)] by (simp add: corrected_def)
  have look: "map_of m = map_option (corrected (cs @ [c])) \<circ> map_of m0"
  proof (rule ext)
    fix i
    have "map_of m i = (if i = ?t then Some (r\<lparr>ur_cost := uc_new_cost c\<rparr>)
        else map_option (corrected cs) (map_of m0 i))"
      using IH new(1) r1r by (simp add: bt_insert_lookup)
    also have "\<dots> = map_option (corrected (cs @ [c])) (map_of m0 i)"
      using fresh r(1) key
      by (cases "map_of m0 i") (auto simp: corrected_def find_append_case split: option.splits)
    finally show "map_of m i = (map_option (corrected (cs @ [c])) \<circ> map_of m0) i" by simp
  qed
  have "corrections_ok project (map_of m0) (cs @ [c])"
    using IH c r r1 r1r by (auto simp: corrections_ok_def)
  with look IH new show ?case by (auto simp: bt_wf_insert)
qed

lemma first_of_call_ids:
  assumes "consistent_receipts project rs"
  shows "distinct (map ur_receipt_id (first_of_call rs))"
proof -
  have "inj_on ur_receipt_id (set (first_of_call rs))"
    using assms first_of_call_props(1)[of rs] unfolding consistent_receipts_def inj_on_def by blast
  moreover have "distinct (first_of_call rs)"
    using first_of_call_props(3)[of rs] by (simp add: distinct_map)
  ultimately show ?thesis by (simp add: distinct_map)
qed

lemma apply_corrections_ok:
  assumes "apply_usage_corrections project rs cs = Inr (out, applied)"
  shows "usage_text project" and "consistent_receipts project rs"
    and "applied = map uc_correction_id cs"
    and "set out = corrected cs ` set (first_of_call rs)" and "distinct (map ur_receipt_id out)"
    and "corrections_ok project (map_of (map (\<lambda>r. (ur_receipt_id r, r)) (first_of_call rs))) cs"
proof -
  let ?u = "first_of_call rs"
  let ?m0 = "bt_collect (map (\<lambda>r. (ur_receipt_id r, r)) ?u)"
  from assms obtain m targets ids where
      ok: "usage_text project" "consistent_receipts project rs"
    and fold: "try_fold (correction_visit project) (?m0, [], {}, {}) cs = Inr (m, applied, targets, ids)"
    and out: "out = bt_values m"
    by (auto simp: apply_usage_corrections_def deduplicate_usage_ok)
  then show "usage_text project" "consistent_receipts project rs" by simp_all
  have d: "distinct (map ur_receipt_id ?u)" using ok(2) by (rule first_of_call_ids)
  then have m0: "map_of ?m0 = map_of (map (\<lambda>r. (ur_receipt_id r, r)) ?u)"
    by (intro bt_collect_lookup) (simp add: comp_def)
  have look: "map_of ?m0 i = Some r \<longleftrightarrow> r \<in> set ?u \<and> ur_receipt_id r = i" for i r
    unfolding m0 using d by (rule map_of_key)
  have res: "bt_wf m" "applied = map uc_correction_id cs" "map_of m = map_option (corrected cs) \<circ> map_of ?m0"
    "corrections_ok project (map_of ?m0) cs"
    using correction_fold[OF fold bt_collect_wf] look by blast+
  show "applied = map uc_correction_id cs" by (rule res(2))
  show "corrections_ok project (map_of (map (\<lambda>r. (ur_receipt_id r, r)) ?u)) cs"
    using res(4) unfolding m0 .
  show "set out = corrected cs ` set ?u"
    unfolding out using bt_values_lookup[OF res(1)] look res(3) by (auto simp: image_iff)
  have "ur_receipt_id r = i" if "(i, r) \<in> set m" for i r
    using that res(1,3) look map_of_eq_Some_iff[OF bt_wf_distinct[OF res(1)], of i r] by auto
  then have "map ur_receipt_id out = map fst m" unfolding out bt_values_def by auto
  then show "distinct (map ur_receipt_id out)" using bt_wf_distinct[OF res(1)] by simp
qed

definition ex_correction :: usage_correction where
  "ex_correction = \<lparr>uc_correction_id = ''k1'', uc_project_id = ''proj'', uc_target_receipt_id = ''r3'',
     uc_corrected_at_ms = 9, uc_reason = ''invoice'', uc_prior_cost = CostUnknown,
     uc_new_cost = CostActual \<lparr>um_currency = ''USD'', um_micros = 5\<rparr>, uc_actor = ''alice''\<rparr>"

text \<open>
  Corrections are auditable: applying a batch keeps exactly the deduplicated receipts, changes
  nothing but the cost of a receipt named by a correction, and only from the cost that correction
  says it replaces; every applied correction is reported, and a target is corrected at most once.
\<close>
theorem corrections_change_only_named_costs:
  assumes "apply_usage_corrections project rs cs = Inr (out, applied)"
  shows "\<exists>u. deduplicate_usage project rs = Inr u
    \<and> applied = map uc_correction_id cs \<and> distinct (map uc_target_receipt_id cs)
    \<and> ur_receipt_id ` set out = ur_receipt_id ` set u \<and> distinct (map ur_receipt_id out)
    \<and> (\<forall>r\<in>set u. \<exists>r'\<in>set out. r' = r\<lparr>ur_cost := ur_cost r'\<rparr>
         \<and> (r' \<noteq> r \<longrightarrow> (\<exists>c\<in>set cs. uc_target_receipt_id c = ur_receipt_id r
                \<and> ur_cost r = uc_prior_cost c \<and> ur_cost r' = uc_new_cost c)))"
proof (intro exI conjI ballI)
  note ok = apply_corrections_ok[OF assms]
  let ?u = "first_of_call rs"
  show "deduplicate_usage project rs = Inr ?u" using ok by (simp add: deduplicate_usage_ok)
  show "applied = map uc_correction_id cs" "distinct (map ur_receipt_id out)"
    "distinct (map uc_target_receipt_id cs)"
    using ok by (simp_all add: corrections_ok_def)
  show "ur_receipt_id ` set out = ur_receipt_id ` set ?u" by (simp add: ok(4) image_image)
  fix r assume r: "r \<in> set ?u"
  show "\<exists>r'\<in>set out. r' = r\<lparr>ur_cost := ur_cost r'\<rparr>
      \<and> (r' \<noteq> r \<longrightarrow> (\<exists>c\<in>set cs. uc_target_receipt_id c = ur_receipt_id r
             \<and> ur_cost r = uc_prior_cost c \<and> ur_cost r' = uc_new_cost c))"
  proof (rule bexI[of _ "corrected cs r"])
    show "corrected cs r \<in> set out" using r ok(4) by blast
    have prior: "ur_cost r = uc_prior_cost c"
      if c: "c \<in> set cs" "uc_target_receipt_id c = ur_receipt_id r" for c
    proof -
      from ok(6) c obtain s where s: "map_of (map (\<lambda>r. (ur_receipt_id r, r)) ?u) (ur_receipt_id r) = Some s"
        "ur_cost s = uc_prior_cost c" by (auto simp: corrections_ok_def)
      from s(1) r have "s = r"
        by (simp add: map_of_key[OF first_of_call_ids[OF ok(2)]])
          (metis first_of_call_ids[OF ok(2)] distinct_map inj_onD)
      with s(2) show ?thesis by simp
    qed
    show "corrected cs r = r\<lparr>ur_cost := ur_cost (corrected cs r)\<rparr>
        \<and> (corrected cs r \<noteq> r \<longrightarrow> (\<exists>c\<in>set cs. uc_target_receipt_id c = ur_receipt_id r
             \<and> ur_cost r = uc_prior_cost c \<and> ur_cost (corrected cs r) = uc_new_cost c))"
      using prior by (auto simp: corrected_def split: option.splits dest: find_Some_in)
  qed
qed

theorem corrections_change_only_named_costs_witness:
  "\<exists>out. apply_usage_corrections ''proj'' ex_usage [ex_correction] = Inr (out, [''k1''])
     \<and> distinct (map ur_receipt_id out)"
proof -
  have "map_sum id snd (apply_usage_corrections ''proj'' ex_usage [ex_correction]) = Inr [''k1'']"
    by code_simp
  then obtain out where ok: "apply_usage_corrections ''proj'' ex_usage [ex_correction] = Inr (out, [''k1''])"
    by (cases "apply_usage_corrections ''proj'' ex_usage [ex_correction]") auto
  from corrections_change_only_named_costs[OF ok] ok show ?thesis by blast
qed

lemma correction_keeps_valid:
  assumes "receipt_validate r = Inr ()" and "\<forall>c\<in>set cs. correction_validate c = Inr ()"
  shows "receipt_validate (corrected cs r) = Inr ()"
  using assms
  by (auto simp: corrected_def receipt_validate_def correction_validate_def split: option.splits dest!: find_Some_in)

lemma corrected_dedup:
  assumes "apply_usage_corrections project rs cs = Inr (out, applied)"
  shows "deduplicate_usage project out = Inr out" and "length out = length (first_of_call rs)"
proof -
  note ok = apply_corrections_ok[OF assms]
  let ?u = "first_of_call rs"
  have valid: "\<forall>r\<in>set out. receipt_validate r = Inr () \<and> ur_project_id r = project"
    using ok first_of_call_props(1)[of rs] correction_keeps_valid[of _ cs]
    by (auto simp: corrections_ok_def consistent_receipts_def)
  have ids: "\<forall>r\<in>set out. \<forall>s\<in>set out. ur_receipt_id r = ur_receipt_id s \<longrightarrow> r = s"
    using ok(5) by (auto simp: distinct_map inj_on_def)
  have inj: "inj_on call_key (set ?u)" using first_of_call_props(3)[of rs] by (simp add: distinct_map)
  have calls: "\<forall>r\<in>set out. \<forall>s\<in>set out. call_key r = call_key s \<longrightarrow> r = s"
    using inj by (auto simp: ok(4) inj_on_def)
  have "same_call_content r r" for r by (simp add: same_call_content_iff)
  with valid ids calls have "consistent_receipts project out"
    by (auto simp: consistent_receipts_def)
  moreover have dout: "distinct out" using ok(5) by (simp add: distinct_map)
  with calls have "distinct (map call_key out)" by (auto simp: distinct_map inj_on_def)
  ultimately show "deduplicate_usage project out = Inr out"
    using ok(1) by (simp add: deduplicate_usage_ok first_of_call_id)
  have "inj_on (corrected cs) (set ?u)"
    using inj by (auto simp: inj_on_def) (metis corrected_keeps(2))
  then have "card (set out) = card (set ?u)" by (simp add: ok(4) card_image)
  moreover have "distinct ?u" using first_of_call_props(3)[of rs] by (simp add: distinct_map)
  ultimately show "length out = length ?u" using dout by (simp add: distinct_card)
qed

text \<open>
  The observation hand-off counts the same calls whether or not costs were corrected, and its
  totals are those of the corrected receipts.
\<close>
theorem handoff_counts_every_call_once:
  assumes "usage_observation_handoff project rs cs intervals coverage = Inr h"
  shows "\<exists>u out. deduplicate_usage project rs = Inr u
    \<and> apply_usage_corrections project rs cs = Inr (out, oh_applied_correction_ids h)
    \<and> usage_cost_totals project out = Inr (oh_cost_totals h)
    \<and> uct_unique_calls (oh_cost_totals h) = length u
    \<and> (\<forall>c. subtotal (uct_actual_micros (oh_cost_totals h)) c = (\<Sum>r\<leftarrow>out. actual_in c r))
    \<and> usage_time_totals intervals = Inr (oh_time_totals h)"
proof -
  from assms obtain out where app: "apply_usage_corrections project rs cs = Inr (out, oh_applied_correction_ids h)"
    and tot: "usage_cost_totals project out = Inr (oh_cost_totals h)"
    and tim: "usage_time_totals intervals = Inr (oh_time_totals h)"
    by (auto simp: usage_observation_handoff_def)
  have "first_of_call out = out" using corrected_dedup(1)[OF app] by (simp add: deduplicate_usage_ok)
  with usage_cost_totals_ok[OF tot] corrected_dedup(2)[OF app] apply_corrections_ok(1,2)[OF app] app tot tim
  show ?thesis by (auto simp: deduplicate_usage_ok)
qed

theorem handoff_counts_every_call_once_witness:
  "\<exists>h. usage_observation_handoff ''proj'' ex_usage [ex_correction] None
        \<lparr>co_observed_calls = 2, co_expected_calls = None, co_observed_time_ms = 0, co_expected_time_ms = None\<rparr>
      = Inr h \<and> (\<exists>u. deduplicate_usage ''proj'' ex_usage = Inr u
          \<and> uct_unique_calls (oh_cost_totals h) = length u)"
proof -
  let ?r = "usage_observation_handoff ''proj'' ex_usage [ex_correction] None
        \<lparr>co_observed_calls = 2, co_expected_calls = None, co_observed_time_ms = 0, co_expected_time_ms = None\<rparr>"
  have "is_ok ?r" by code_simp
  then obtain h where ok: "?r = Inr h" by (auto simp: is_ok_iff)
  from handoff_counts_every_call_once[OF ok] ok show ?thesis by blast
qed

end
