(* ===== verification/Evidence_Level.thy ===== *)
theory Evidence_Level
  imports Core_Error
begin

text \<open>
  The evidence levels of \<^verbatim>\<open>crates/awr-core/src/model.rs\<close>, their rank (\<^verbatim>\<open>completion.rs\<close>) and the test
  for a full source revision (\<^verbatim>\<open>query.rs\<close>).
\<close>

datatype evidence_level =
  Designed | Implemented | LocallyVerified | RealEnvironmentValidated | ReleaseCandidate | Released
| LevelUnknown

fun verification_rank :: "evidence_level \<Rightarrow> nat option" where
  "verification_rank Designed = Some 0"
| "verification_rank Implemented = Some 1"
| "verification_rank LocallyVerified = Some 2"
| "verification_rank RealEnvironmentValidated = Some 3"
| "verification_rank ReleaseCandidate = Some 4"
| "verification_rank Released = Some 5"
| "verification_rank LevelUnknown = None"

definition is_source_sha :: "string \<Rightarrow> bool" where
  "is_source_sha v \<longleftrightarrow> (length v = 40 \<or> length v = 64) \<and> list_all is_ascii_hexdigit v"

definition rank_below :: "evidence_level \<Rightarrow> nat \<Rightarrow> bool" where
  "rank_below level n = (case verification_rank level of None \<Rightarrow> True | Some r \<Rightarrow> r < n)"

lemma rank_below_2: "\<not> rank_below level 2 \<longleftrightarrow> (\<exists>r. verification_rank level = Some r \<and> 2 \<le> r)"
  by (auto simp: rank_below_def split: option.splits)

end
