(* ===== verification/Delivery_Adoption.thy ===== *)
theory Delivery_Adoption
  imports Workstream Evidence_Level
begin

text \<open>
  \<^verbatim>\<open>crates/awr-core/src/workstream_adoption.rs\<close>: cross-stream delivery dependencies. Assessment of a
  delivery against a requirement, adoption and reassessment, hard dependencies, export
  authorizations and adoption credentials. The \<open>unreachable!\<close> and \<open>unwrap\<close> of the assessment are
  the result \<open>None\<close> of an option; that they are never reached is proved.
\<close>

section \<open>Data\<close>

record delivery_version =
  dv_completion_receipt :: ulid
  dv_contract_sha256 :: string
  dv_artifact_sha256 :: string
  dv_source_sha :: string
  dv_environment :: string
  dv_acceptance_round :: string
  dv_export_scope_sha256 :: string

datatype delivery_version_policy = FixedDelivery | CurrentContract

record delivery_requirement =
  dr_provider :: workstream_work_binding
  dr_consumer :: workstream_work_binding
  dr_selected :: delivery_version
  dr_policy :: delivery_version_policy
  dr_minimum_level :: evidence_level

datatype delivery_acceptance =
    AccUnknown
  | AccUntrusted
  | AccAuthorDeclaredDone
  | AccRejected
  | AccRevoked
  | AccVerified (acc_evidence_id: ulid) (acc_author: string) (acc_reviewer: string)
      (acc_level: evidence_level) (acc_verified_at_ms: i64)

datatype delivery_availability = AvUnknown | AvAvailable | AvUnavailable

datatype delivery_export_authority = ExUnknown | ExGranted | ExDenied | ExRevoked

record delivery_facts =
  df_provider :: workstream_work_binding
  df_consumer :: workstream_work_binding
  df_delivery :: "delivery_version option"
  df_current_selection :: "delivery_version option"
  df_acceptance :: delivery_acceptance
  df_availability :: delivery_availability
  df_export_authority :: delivery_export_authority
  df_observed_at_ms :: i64

datatype delivery_status = DsSatisfied | DsWaiting | DsStale | DsRevoked | DsUnknown

datatype delivery_reason =
    VerifiedDelivery
  | MissingDelivery
  | DeliveryChanged
  | CurrentSelectionUnknown
  | CurrentSelectionChanged
  | AcceptanceUnknown
  | UntrustedAcceptance
  | IndependentAcceptanceRequired
  | AcceptanceRejected
  | AcceptanceRevoked
  | EvidenceLevelInsufficient
  | ArtifactAvailabilityUnknown
  | ArtifactUnavailable
  | ExportAuthorityUnknown
  | ExportDenied
  | ExportRevoked

record delivery_assessment =
  da_status :: delivery_status
  da_reason :: delivery_reason

datatype delivery_error =
    DeInvalidDefinition
  | DeBindingMismatch
  | DeInvalidTime
  | DeNotSatisfied delivery_assessment

record delivery_adoption =
  ad_requirement :: delivery_requirement
  ad_original_proof :: delivery_facts
  ad_adopted_at_ms :: i64

record completion_acceptance_proof =
  cap_completion_receipt_id :: ulid
  cap_work_item_id :: string
  cap_contract_sha256 :: string
  cap_artifact_sha256 :: string
  cap_independence_kind :: string
  cap_team_independent_acceptance :: bool
  cap_author_person_id :: string
  cap_reviewer_person_id :: string
  cap_evidence_id :: ulid
  cap_evidence_level :: evidence_level
  cap_verified_at_ms :: i64

datatype hard_dependency_status = HdActive | HdRevoked

record hard_delivery_dependency =
  hd_id :: string
  hd_provider :: workstream_work_binding
  hd_consumer :: workstream_work_binding
  hd_selected :: delivery_version
  hd_policy :: delivery_version_policy
  hd_minimum_level :: evidence_level
  hd_status :: hard_dependency_status
  hd_created_at_ms :: i64
  hd_revoked_at_ms :: "i64 option"

record register_hard_dependency_request =
  rh_request_key :: string
  rh_dependency_id :: string
  rh_provider :: workstream_work_binding
  rh_consumer :: workstream_work_binding
  rh_selected :: delivery_version
  rh_policy :: delivery_version_policy
  rh_minimum_level :: evidence_level
  rh_now_ms :: i64

record revoke_hard_dependency_request =
  rv_request_key :: string
  rv_dependency_id :: string
  rv_expected_status :: hard_dependency_status
  rv_now_ms :: i64

datatype export_authorization_status = EaGranted | EaDenied | EaRevoked

record export_authorization =
  ea_id :: string
  ea_project_id :: string
  ea_provider_work_item_id :: string
  ea_delivery :: delivery_version
  ea_status :: export_authorization_status
  ea_granted_by :: string
  ea_created_at_ms :: i64
  ea_revoked_at_ms :: "i64 option"
  ea_revoke_reason :: "string option"

record grant_export_authorization_request =
  ge_request_key :: string
  ge_authorization_id :: string
  ge_project_id :: string
  ge_provider_work_item_id :: string
  ge_delivery :: delivery_version
  ge_granted_by :: string
  ge_now_ms :: i64

record revoke_export_authorization_request =
  re_request_key :: string
  re_authorization_id :: string
  re_reason :: string
  re_now_ms :: i64

datatype adoption_credential_status = AcActive | AcStale | AcRevoked

record adoption_credential =
  cred_id :: string
  cred_dependency_id :: string
  cred_requirement :: delivery_requirement
  cred_completion_receipt_id :: ulid
  cred_export_authorization_id :: string
  cred_acceptance_evidence_id :: ulid
  cred_acceptance_author :: string
  cred_acceptance_reviewer :: string
  cred_acceptance_level :: evidence_level
  cred_acceptance_verified_at_ms :: i64
  cred_adopted_at_ms :: i64
  cred_status :: adoption_credential_status
  cred_assessment_status :: delivery_status
  cred_assessment_reason :: delivery_reason

record adopt_delivery_request =
  adr_request_key :: string
  adr_credential_id :: string
  adr_dependency :: hard_delivery_dependency
  adr_completion :: completion_acceptance_proof
  adr_export_authorization :: export_authorization
  adr_availability :: delivery_availability
  adr_current_selection :: "delivery_version option"
  adr_now_ms :: i64

section \<open>Assessment\<close>

definition delivery_text :: "string \<Rightarrow> bool" where
  "delivery_text v \<longleftrightarrow> \<not> trim_empty v \<and> length v \<le> 4096 \<and> \<not> has_control v"

definition delivery_sha256 :: "string \<Rightarrow> bool" where
  "delivery_sha256 v \<longleftrightarrow> length v = 64 \<and> list_all is_lower_hex v"

definition delivery_binding :: "workstream_work_binding \<Rightarrow> bool" where
  "delivery_binding b \<longleftrightarrow>
     delivery_text (wb_project_id b) \<and> delivery_text (wb_work_item_id b) \<and> wb_workstream_id b \<noteq> 0"

definition version_valid :: "delivery_version \<Rightarrow> bool" where
  "version_valid v \<longleftrightarrow>
     dv_completion_receipt v \<noteq> 0
     \<and> delivery_sha256 (dv_contract_sha256 v)
     \<and> delivery_sha256 (dv_artifact_sha256 v)
     \<and> delivery_sha256 (dv_export_scope_sha256 v)
     \<and> is_source_sha (dv_source_sha v)
     \<and> delivery_text (dv_environment v)
     \<and> delivery_text (dv_acceptance_round v)"

definition assessment :: "delivery_status \<Rightarrow> delivery_reason \<Rightarrow> delivery_assessment" where
  "assessment status reason = \<lparr>da_status = status, da_reason = reason\<rparr>"

text \<open>The early returns of the input checks.\<close>

definition assess_input :: "delivery_requirement \<Rightarrow> delivery_facts \<Rightarrow> (delivery_error, unit) result" where
  "assess_input required facts =
     run_checks
       [refuse (\<not> delivery_binding (dr_provider required)
                \<or> \<not> delivery_binding (dr_consumer required)
                \<or> \<not> version_valid (dr_selected required)
                \<or> rank_below (dr_minimum_level required) 2
                \<or> (case df_delivery facts of None \<Rightarrow> False | Some v \<Rightarrow> \<not> version_valid v)
                \<or> (case df_current_selection facts of None \<Rightarrow> False | Some v \<Rightarrow> \<not> version_valid v))
          DeInvalidDefinition,
        refuse (wb_project_id (dr_provider required) \<noteq> wb_project_id (dr_consumer required)
                \<or> wb_work_item_id (dr_provider required) = wb_work_item_id (dr_consumer required)
                \<or> wb_workstream_id (dr_provider required) = wb_workstream_id (dr_consumer required)
                \<or> dr_provider required \<noteq> df_provider facts
                \<or> dr_consumer required \<noteq> df_consumer facts) DeBindingMismatch,
        refuse (df_observed_at_ms facts < 0) DeInvalidTime,
        (case df_acceptance facts of
           AccVerified evidence_id author reviewer _ verified_at_ms \<Rightarrow>
             run_checks
               [refuse (evidence_id = 0 \<or> \<not> delivery_text author \<or> \<not> delivery_text reviewer)
                  DeInvalidDefinition,
                refuse (verified_at_ms < 0 \<or> verified_at_ms > df_observed_at_ms facts) DeInvalidTime]
         | _ \<Rightarrow> Inr ())]"

text \<open>The acceptance match: \<open>None\<close> is a panic, \<open>Some None\<close> goes on to the next check.\<close>

definition assess_acceptance ::
  "delivery_requirement \<Rightarrow> delivery_acceptance \<Rightarrow> delivery_assessment option option" where
  "assess_acceptance required acceptance = (case acceptance of
     AccUnknown \<Rightarrow> Some (Some (assessment DsUnknown AcceptanceUnknown))
   | AccUntrusted \<Rightarrow> Some (Some (assessment DsUnknown UntrustedAcceptance))
   | AccAuthorDeclaredDone \<Rightarrow> Some (Some (assessment DsWaiting IndependentAcceptanceRequired))
   | AccRejected \<Rightarrow> Some (Some (assessment DsWaiting AcceptanceRejected))
   | AccVerified _ author reviewer level _ \<Rightarrow>
       if author = reviewer then Some (Some (assessment DsWaiting IndependentAcceptanceRequired))
       else (case verification_rank level of
          None \<Rightarrow> Some (Some (assessment DsUnknown AcceptanceUnknown))
        | Some rank \<Rightarrow>
            (case verification_rank (dr_minimum_level required) of
               None \<Rightarrow> None
             | Some minimum \<Rightarrow>
                 Some (if rank < minimum then Some (assessment DsWaiting EvidenceLevelInsufficient)
                       else None)))
   | AccRevoked \<Rightarrow> None)"

definition assess_export :: "delivery_export_authority \<Rightarrow> delivery_assessment option" where
  "assess_export authority = (case authority of
     ExUnknown \<Rightarrow> Some (assessment DsUnknown ExportAuthorityUnknown)
   | ExDenied \<Rightarrow> Some (assessment DsWaiting ExportDenied)
   | ExGranted \<Rightarrow> Some (assessment DsSatisfied VerifiedDelivery)
   | ExRevoked \<Rightarrow> None)"

definition assess_snapshot ::
  "delivery_requirement \<Rightarrow> delivery_facts \<Rightarrow> delivery_assessment option" where
  "assess_snapshot required facts = (case df_delivery facts of
     None \<Rightarrow> Some (assessment DsWaiting MissingDelivery)
   | Some delivery \<Rightarrow>
       if delivery \<noteq> dr_selected required then Some (assessment DsStale DeliveryChanged)
       else if df_acceptance facts = AccRevoked then Some (assessment DsRevoked AcceptanceRevoked)
       else if df_export_authority facts = ExRevoked then Some (assessment DsRevoked ExportRevoked)
       else if dr_policy required = CurrentContract \<and> df_current_selection facts = None
         then Some (assessment DsUnknown CurrentSelectionUnknown)
       else if dr_policy required = CurrentContract \<and> df_current_selection facts \<noteq> Some delivery
         then Some (assessment DsStale CurrentSelectionChanged)
       else (case assess_acceptance required (df_acceptance facts) of
          None \<Rightarrow> None
        | Some (Some verdict) \<Rightarrow> Some verdict
        | Some None \<Rightarrow>
            (case df_availability facts of
               AvUnknown \<Rightarrow> Some (assessment DsUnknown ArtifactAvailabilityUnknown)
             | AvUnavailable \<Rightarrow> Some (assessment DsStale ArtifactUnavailable)
             | AvAvailable \<Rightarrow> assess_export (df_export_authority facts))))"

definition assess_delivery ::
  "delivery_requirement \<Rightarrow> delivery_facts \<Rightarrow> (delivery_error, delivery_assessment) result option" where
  "assess_delivery required facts = (case assess_input required facts of
     Inl e \<Rightarrow> Some (Inl e)
   | Inr _ \<Rightarrow> map_option Inr (assess_snapshot required facts))"

definition adopt_delivery ::
  "delivery_requirement \<Rightarrow> delivery_facts \<Rightarrow> i64 \<Rightarrow> (delivery_error, delivery_adoption) result option" where
  "adopt_delivery requirement facts adopted_at_ms =
     (if adopted_at_ms < 0 \<or> adopted_at_ms \<noteq> df_observed_at_ms facts then Some (Inl DeInvalidTime)
      else map_option (\<lambda>r. and_then r
        (\<lambda>verdict. then_ok (refuse (da_status verdict \<noteq> DsSatisfied) (DeNotSatisfied verdict))
          (Inr \<lparr>ad_requirement = requirement, ad_original_proof = facts, ad_adopted_at_ms = adopted_at_ms\<rparr>)))
        (assess_delivery requirement facts))"

definition adoption_reassess ::
  "delivery_adoption \<Rightarrow> delivery_facts \<Rightarrow> (delivery_error, delivery_assessment) result option" where
  "adoption_reassess adoption facts =
     (if df_observed_at_ms facts < ad_adopted_at_ms adoption then Some (Inl DeInvalidTime)
      else assess_delivery (ad_requirement adoption) facts)"

section \<open>Credentials\<close>

definition acceptance_from_completion_proof :: "completion_acceptance_proof \<Rightarrow> delivery_acceptance" where
  "acceptance_from_completion_proof p =
     (if \<not> delivery_text (cap_work_item_id p)
         \<or> \<not> delivery_sha256 (cap_contract_sha256 p)
         \<or> \<not> delivery_sha256 (cap_artifact_sha256 p)
         \<or> \<not> delivery_text (cap_independence_kind p)
         \<or> \<not> delivery_text (cap_author_person_id p)
         \<or> \<not> delivery_text (cap_reviewer_person_id p)
         \<or> cap_completion_receipt_id p = 0
         \<or> cap_evidence_id p = 0
         \<or> cap_verified_at_ms p < 0
      then AccUnknown
      else if \<not> cap_team_independent_acceptance p \<or> cap_independence_kind p \<noteq> ''team_independent''
      then (if cap_independence_kind p = ''personal_self_review''
                \<or> cap_independence_kind p = ''author_self_report''
                \<or> cap_independence_kind p = ''caller_asserted''
            then AccAuthorDeclaredDone else AccUntrusted)
      else if cap_author_person_id p = cap_reviewer_person_id p then AccAuthorDeclaredDone
      else AccVerified (cap_evidence_id p) (cap_author_person_id p) (cap_reviewer_person_id p)
             (cap_evidence_level p) (cap_verified_at_ms p))"

definition delivery_unlocks_execution :: "delivery_assessment \<Rightarrow> bool" where
  "delivery_unlocks_execution a \<longleftrightarrow> da_status a = DsSatisfied \<and> da_reason a = VerifiedDelivery"

definition hard_requirement :: "hard_delivery_dependency \<Rightarrow> delivery_requirement" where
  "hard_requirement d =
     \<lparr>dr_provider = hd_provider d, dr_consumer = hd_consumer d, dr_selected = hd_selected d,
      dr_policy = hd_policy d, dr_minimum_level = hd_minimum_level d\<rparr>"

definition validate_hard_dependency_registration ::
  "register_hard_dependency_request \<Rightarrow> (delivery_error, hard_delivery_dependency) result" where
  "validate_hard_dependency_registration req =
     then_ok
       (run_checks
         [refuse (\<not> delivery_text (rh_request_key req)
                  \<or> \<not> delivery_text (rh_dependency_id req)
                  \<or> length (rh_dependency_id req) > 128
                  \<or> length (rh_request_key req) > 128
                  \<or> rh_now_ms req < 0
                  \<or> \<not> delivery_binding (rh_provider req)
                  \<or> \<not> delivery_binding (rh_consumer req)
                  \<or> \<not> version_valid (rh_selected req)
                  \<or> rank_below (rh_minimum_level req) 2) DeInvalidDefinition,
          refuse (wb_project_id (rh_provider req) \<noteq> wb_project_id (rh_consumer req)
                  \<or> wb_work_item_id (rh_provider req) = wb_work_item_id (rh_consumer req)
                  \<or> wb_workstream_id (rh_provider req) = wb_workstream_id (rh_consumer req))
            DeBindingMismatch])
       (Inr \<lparr>hd_id = rh_dependency_id req, hd_provider = rh_provider req, hd_consumer = rh_consumer req,
          hd_selected = rh_selected req, hd_policy = rh_policy req,
          hd_minimum_level = rh_minimum_level req, hd_status = HdActive,
          hd_created_at_ms = rh_now_ms req, hd_revoked_at_ms = None\<rparr>)"

definition apply_hard_dependency_revoke ::
  "hard_delivery_dependency \<Rightarrow> revoke_hard_dependency_request \<Rightarrow>
     (delivery_error, hard_delivery_dependency) result" where
  "apply_hard_dependency_revoke current req =
     then_ok
       (run_checks
         [refuse (\<not> delivery_text (rv_request_key req)
                  \<or> length (rv_request_key req) > 128
                  \<or> rv_dependency_id req \<noteq> hd_id current
                  \<or> rv_now_ms req < 0
                  \<or> rv_now_ms req < hd_created_at_ms current) DeInvalidDefinition,
          refuse (hd_status current \<noteq> rv_expected_status req) DeInvalidDefinition])
       (if hd_status current = HdRevoked then Inr current
        else Inr (current\<lparr>hd_status := HdRevoked, hd_revoked_at_ms := Some (rv_now_ms req)\<rparr>))"

definition validate_export_grant ::
  "grant_export_authorization_request \<Rightarrow> (delivery_error, export_authorization) result" where
  "validate_export_grant req =
     then_ok
       (refuse (\<not> delivery_text (ge_request_key req)
                \<or> \<not> delivery_text (ge_authorization_id req)
                \<or> \<not> delivery_text (ge_project_id req)
                \<or> \<not> delivery_text (ge_provider_work_item_id req)
                \<or> \<not> delivery_text (ge_granted_by req)
                \<or> \<not> version_valid (ge_delivery req)
                \<or> ge_now_ms req < 0
                \<or> length (ge_request_key req) > 128
                \<or> length (ge_authorization_id req) > 128) DeInvalidDefinition)
       (Inr \<lparr>ea_id = ge_authorization_id req, ea_project_id = ge_project_id req,
          ea_provider_work_item_id = ge_provider_work_item_id req, ea_delivery = ge_delivery req,
          ea_status = EaGranted, ea_granted_by = ge_granted_by req, ea_created_at_ms = ge_now_ms req,
          ea_revoked_at_ms = None, ea_revoke_reason = None\<rparr>)"

definition apply_export_revoke ::
  "export_authorization \<Rightarrow> revoke_export_authorization_request \<Rightarrow>
     (delivery_error, export_authorization) result" where
  "apply_export_revoke current req =
     then_ok
       (refuse (\<not> delivery_text (re_request_key req)
                \<or> \<not> delivery_text (re_reason req)
                \<or> re_authorization_id req \<noteq> ea_id current
                \<or> re_now_ms req < 0
                \<or> re_now_ms req < ea_created_at_ms current
                \<or> length (re_request_key req) > 128) DeInvalidDefinition)
       (if ea_status current = EaRevoked then Inr current
        else Inr (current\<lparr>ea_status := EaRevoked, ea_revoked_at_ms := Some (re_now_ms req),
               ea_revoke_reason := Some (re_reason req)\<rparr>))"

definition as_authority :: "export_authorization \<Rightarrow> delivery_version \<Rightarrow> delivery_export_authority" where
  "as_authority a delivery =
     (if ea_delivery a \<noteq> delivery then ExUnknown
      else (case ea_status a of EaGranted \<Rightarrow> ExGranted | EaDenied \<Rightarrow> ExDenied | EaRevoked \<Rightarrow> ExRevoked))"

definition adoption_facts :: "adopt_delivery_request \<Rightarrow> delivery_facts" where
  "adoption_facts req =
     \<lparr>df_provider = hd_provider (adr_dependency req),
      df_consumer = hd_consumer (adr_dependency req),
      df_delivery = Some (hd_selected (adr_dependency req)),
      df_current_selection = adr_current_selection req,
      df_acceptance = acceptance_from_completion_proof (adr_completion req),
      df_availability = adr_availability req,
      df_export_authority = as_authority (adr_export_authorization req) (hd_selected (adr_dependency req)),
      df_observed_at_ms = adr_now_ms req\<rparr>"

definition credential_of ::
  "adopt_delivery_request \<Rightarrow> delivery_adoption \<Rightarrow> (delivery_error, adoption_credential) result" where
  "credential_of req adopted =
     (let verdict = assessment DsSatisfied VerifiedDelivery in
      then_ok (refuse (\<not> delivery_unlocks_execution verdict) (DeNotSatisfied verdict))
        (case df_acceptance (ad_original_proof adopted) of
           AccVerified evidence_id author reviewer level verified_at_ms \<Rightarrow>
             Inr \<lparr>cred_id = adr_credential_id req,
                cred_dependency_id = hd_id (adr_dependency req),
                cred_requirement = ad_requirement adopted,
                cred_completion_receipt_id = cap_completion_receipt_id (adr_completion req),
                cred_export_authorization_id = ea_id (adr_export_authorization req),
                cred_acceptance_evidence_id = evidence_id,
                cred_acceptance_author = author,
                cred_acceptance_reviewer = reviewer,
                cred_acceptance_level = level,
                cred_acceptance_verified_at_ms = verified_at_ms,
                cred_adopted_at_ms = ad_adopted_at_ms adopted,
                cred_status = AcActive,
                cred_assessment_status = da_status verdict,
                cred_assessment_reason = da_reason verdict\<rparr>
         | _ \<Rightarrow> Inl (DeNotSatisfied (assessment DsWaiting IndependentAcceptanceRequired))))"

definition adopt_delivery_credential ::
  "adopt_delivery_request \<Rightarrow> (delivery_error, adoption_credential) result option" where
  "adopt_delivery_credential req =
     (let dep = adr_dependency req; cap = adr_completion req; ea = adr_export_authorization req in
      case run_checks
        [refuse (\<not> delivery_text (adr_request_key req)
                 \<or> \<not> delivery_text (adr_credential_id req)
                 \<or> length (adr_request_key req) > 128
                 \<or> length (adr_credential_id req) > 128
                 \<or> adr_now_ms req < 0
                 \<or> hd_status dep \<noteq> HdActive) DeInvalidDefinition,
         refuse (cap_work_item_id cap \<noteq> wb_work_item_id (hd_provider dep)
                 \<or> cap_contract_sha256 cap \<noteq> dv_contract_sha256 (hd_selected dep)
                 \<or> cap_artifact_sha256 cap \<noteq> dv_artifact_sha256 (hd_selected dep)
                 \<or> cap_completion_receipt_id cap \<noteq> dv_completion_receipt (hd_selected dep))
           DeBindingMismatch,
         refuse (ea_project_id ea \<noteq> wb_project_id (hd_provider dep)
                 \<or> ea_provider_work_item_id ea \<noteq> wb_work_item_id (hd_provider dep)
                 \<or> ea_delivery ea \<noteq> hd_selected dep) DeBindingMismatch]
      of Inl e \<Rightarrow> Some (Inl e)
       | Inr _ \<Rightarrow> map_option (\<lambda>r. and_then r (credential_of req))
                   (adopt_delivery (hard_requirement dep) (adoption_facts req) (adr_now_ms req)))"

fun credential_status_of :: "delivery_status \<Rightarrow> adoption_credential_status" where
  "credential_status_of DsSatisfied = AcActive"
| "credential_status_of DsRevoked = AcRevoked"
| "credential_status_of DsStale = AcStale"
| "credential_status_of DsWaiting = AcStale"
| "credential_status_of DsUnknown = AcStale"

definition reassess_adoption_credential ::
  "adoption_credential \<Rightarrow> delivery_facts \<Rightarrow>
     (delivery_error, delivery_assessment \<times> adoption_credential_status) result option" where
  "reassess_adoption_credential credential facts =
     (if df_observed_at_ms facts < cred_adopted_at_ms credential then Some (Inl DeInvalidTime)
      else map_option (\<lambda>r. and_then r (\<lambda>a. Inr (a, credential_status_of (da_status a))))
        (assess_delivery (cred_requirement credential) facts))"

section \<open>Characterisations\<close>

lemma assessment_simps [simp]:
  "da_status (assessment s r) = s" "da_reason (assessment s r) = r"
  "assessment s r = assessment s' r' \<longleftrightarrow> s = s' \<and> r = r'"
  by (auto simp: assessment_def)

lemma assess_input_minimum:
  "assess_input required facts = Inr () \<Longrightarrow> \<exists>m. verification_rank (dr_minimum_level required) = Some m \<and> 2 \<le> m"
  unfolding assess_input_def by (auto simp: rank_below_2)

text \<open>The guards of the two matches exclude their \<open>unreachable!\<close> arms and the \<open>unwrap\<close>.\<close>

lemma assess_snapshot_total:
  assumes "verification_rank (dr_minimum_level required) = Some m"
  shows "assess_snapshot required facts \<noteq> None"
  using assms
  by (cases "df_delivery facts"; cases "df_acceptance facts"; cases "df_export_authority facts")
    (auto simp: assess_snapshot_def assess_acceptance_def assess_export_def
      split: delivery_availability.splits option.splits)

lemma assess_delivery_total: "assess_delivery required facts \<noteq> None"
  using assess_input_minimum[of required facts] assess_snapshot_total[of required _ facts]
  by (auto simp: assess_delivery_def split: sum.splits)

lemma assess_acceptance_pass:
  assumes "verification_rank (dr_minimum_level required) = Some m"
  shows "assess_acceptance required acc = Some None \<longleftrightarrow>
     (\<exists>i author reviewer level at rank. acc = AccVerified i author reviewer level at
        \<and> author \<noteq> reviewer \<and> verification_rank level = Some rank \<and> m \<le> rank)"
  using assms by (cases acc) (auto simp: assess_acceptance_def split: option.splits if_splits)

lemma assess_acceptance_not_satisfied:
  "assess_acceptance required acc = Some (Some a) \<Longrightarrow> da_status a \<noteq> DsSatisfied"
  by (cases acc) (auto simp: assess_acceptance_def split: option.splits if_splits)

lemma assess_export_satisfied:
  "assess_export x = Some a \<and> da_status a = DsSatisfied \<longleftrightarrow>
     x = ExGranted \<and> a = assessment DsSatisfied VerifiedDelivery"
  by (cases x) (auto simp: assess_export_def)

definition drifted :: "delivery_requirement \<Rightarrow> delivery_facts \<Rightarrow> bool" where
  "drifted required facts \<longleftrightarrow> df_acceptance facts = AccRevoked \<or> df_export_authority facts = ExRevoked
     \<or> dr_policy required = CurrentContract \<and> df_current_selection facts \<noteq> Some (dr_selected required)"

lemma assess_snapshot_drifted:
  assumes "df_delivery facts \<noteq> Some (dr_selected required) \<or> drifted required facts"
    and "assess_snapshot required facts = Some a"
  shows "da_status a \<noteq> DsSatisfied"
proof -
  from assms(2) have "df_delivery facts = Some (dr_selected required) \<Longrightarrow> drifted required facts \<Longrightarrow> ?thesis"
    by (auto simp: assess_snapshot_def drifted_def split: if_splits)
  moreover have "df_delivery facts \<noteq> Some (dr_selected required) \<Longrightarrow> ?thesis"
    using assms(2) by (auto simp: assess_snapshot_def split: option.splits)
  ultimately show ?thesis using assms(1) by blast
qed

lemma assess_snapshot_current:
  assumes "df_delivery facts = Some (dr_selected required)" and "\<not> drifted required facts"
  shows "assess_snapshot required facts = (case assess_acceptance required (df_acceptance facts) of
      None \<Rightarrow> None | Some (Some v) \<Rightarrow> Some v
    | Some None \<Rightarrow> (case df_availability facts of
         AvUnknown \<Rightarrow> Some (assessment DsUnknown ArtifactAvailabilityUnknown)
       | AvUnavailable \<Rightarrow> Some (assessment DsStale ArtifactUnavailable)
       | AvAvailable \<Rightarrow> assess_export (df_export_authority facts)))"
  using assms by (auto simp: assess_snapshot_def drifted_def)

lemma assess_snapshot_satisfied:
  assumes "verification_rank (dr_minimum_level required) = Some m"
  shows "assess_snapshot required facts = Some a \<and> da_status a = DsSatisfied \<longleftrightarrow>
     a = assessment DsSatisfied VerifiedDelivery
     \<and> df_delivery facts = Some (dr_selected required) \<and> \<not> drifted required facts
     \<and> assess_acceptance required (df_acceptance facts) = Some None
     \<and> df_availability facts = AvAvailable \<and> df_export_authority facts = ExGranted"
proof (cases "df_delivery facts = Some (dr_selected required) \<and> \<not> drifted required facts")
  case False
  then show ?thesis using assess_snapshot_drifted by blast
next
  case True
  show ?thesis
    unfolding assess_snapshot_current[OF conjunct1[OF True] conjunct2[OF True]]
    using True assess_acceptance_not_satisfied[of required "df_acceptance facts"]
      assess_export_satisfied[of "df_export_authority facts" a]
    by (auto split: option.splits delivery_availability.splits)
qed

section \<open>Properties\<close>

definition ex_sha :: string where
  "ex_sha = replicate 64 CHR ''a''"

definition ex_version :: delivery_version where
  "ex_version = \<lparr>dv_completion_receipt = 9, dv_contract_sha256 = ex_sha, dv_artifact_sha256 = ex_sha,
     dv_source_sha = ex_sha, dv_environment = ''ci'', dv_acceptance_round = ''1'',
     dv_export_scope_sha256 = ex_sha\<rparr>"

definition ex_dependency :: hard_delivery_dependency where
  "ex_dependency = \<lparr>hd_id = ''d1'',
     hd_provider = \<lparr>wb_project_id = ''proj'', wb_workstream_id = 1, wb_work_item_id = ''w1''\<rparr>,
     hd_consumer = \<lparr>wb_project_id = ''proj'', wb_workstream_id = 2, wb_work_item_id = ''w2''\<rparr>,
     hd_selected = ex_version, hd_policy = FixedDelivery, hd_minimum_level = LocallyVerified,
     hd_status = HdActive, hd_created_at_ms = 1, hd_revoked_at_ms = None\<rparr>"

definition ex_adopt :: adopt_delivery_request where
  "ex_adopt = \<lparr>adr_request_key = ''k'', adr_credential_id = ''c'', adr_dependency = ex_dependency,
     adr_completion = \<lparr>cap_completion_receipt_id = 9, cap_work_item_id = ''w1'',
       cap_contract_sha256 = ex_sha, cap_artifact_sha256 = ex_sha,
       cap_independence_kind = ''team_independent'', cap_team_independent_acceptance = True,
       cap_author_person_id = ''alice'', cap_reviewer_person_id = ''bob'', cap_evidence_id = 4,
       cap_evidence_level = Released, cap_verified_at_ms = 3\<rparr>,
     adr_export_authorization = \<lparr>ea_id = ''e'', ea_project_id = ''proj'', ea_provider_work_item_id = ''w1'',
       ea_delivery = ex_version, ea_status = EaGranted, ea_granted_by = ''carol'', ea_created_at_ms = 2,
       ea_revoked_at_ms = None, ea_revoke_reason = None\<rparr>,
     adr_availability = AvAvailable, adr_current_selection = None, adr_now_ms = 5\<rparr>"

text \<open>
  The assessment always returns (its \<open>unreachable!\<close> arms and its \<open>unwrap\<close> are never reached) and
  says Satisfied exactly when the selected version is the one delivered, nothing was revoked, the
  current selection did not move under the current-contract policy, an independent reviewer verified
  it at the required level, the artifact is available and export is granted.
\<close>
theorem assessment_satisfied_iff:
  "assess_delivery required facts \<noteq> None
   \<and> ((\<exists>a. assess_delivery required facts = Some (Inr a) \<and> da_status a = DsSatisfied) \<longleftrightarrow>
        assess_input required facts = Inr ()
        \<and> df_delivery facts = Some (dr_selected required)
        \<and> (dr_policy required = FixedDelivery \<or> df_current_selection facts = Some (dr_selected required))
        \<and> (\<exists>i author reviewer level at. df_acceptance facts = AccVerified i author reviewer level at
             \<and> author \<noteq> reviewer
             \<and> (\<exists>rank minimum. verification_rank level = Some rank
                  \<and> verification_rank (dr_minimum_level required) = Some minimum \<and> minimum \<le> rank))
        \<and> df_availability facts = AvAvailable \<and> df_export_authority facts = ExGranted)"
proof (cases "assess_input required facts")
  case (Inl e)
  then show ?thesis by (simp add: assess_delivery_def)
next
  case (Inr u)
  then have input: "assess_input required facts = Inr ()" by simp
  then obtain m where m: "verification_rank (dr_minimum_level required) = Some m"
    using assess_input_minimum by blast
  have policy: "dr_policy required = FixedDelivery \<or> df_current_selection facts = Some (dr_selected required) \<longleftrightarrow>
      \<not> (dr_policy required = CurrentContract \<and> df_current_selection facts \<noteq> Some (dr_selected required))"
    by (cases "dr_policy required") auto
  show ?thesis
    unfolding policy
    using input m assess_delivery_total[of required facts] assess_snapshot_satisfied[OF m, of facts]
      assess_acceptance_pass[OF m, of "df_acceptance facts"]
    by (auto simp: assess_delivery_def drifted_def)
qed

lemma adopt_credential_ok:
  assumes "adopt_delivery_credential req = Some (Inr cred)"
  shows "hd_status (adr_dependency req) = HdActive"
    and "\<exists>a. assess_delivery (hard_requirement (adr_dependency req)) (adoption_facts req) = Some (Inr a)
           \<and> da_status a = DsSatisfied"
    and "ea_delivery (adr_export_authorization req) = hd_selected (adr_dependency req)"
    and "cap_completion_receipt_id (adr_completion req) = dv_completion_receipt (hd_selected (adr_dependency req))"
    and "credential_of req \<lparr>ad_requirement = hard_requirement (adr_dependency req),
           ad_original_proof = adoption_facts req, ad_adopted_at_ms = adr_now_ms req\<rparr> = Inr cred"
    and "cap_work_item_id (adr_completion req) = wb_work_item_id (hd_provider (adr_dependency req))"
    and "cap_contract_sha256 (adr_completion req) = dv_contract_sha256 (hd_selected (adr_dependency req))"
    and "cap_artifact_sha256 (adr_completion req) = dv_artifact_sha256 (hd_selected (adr_dependency req))"
    and "ea_project_id (adr_export_authorization req) = wb_project_id (hd_provider (adr_dependency req))"
    and "ea_provider_work_item_id (adr_export_authorization req) = wb_work_item_id (hd_provider (adr_dependency req))"
  using assms
  by (auto simp: adopt_delivery_credential_def adopt_delivery_def Let_def split: sum.splits if_splits)

lemma acceptance_verified:
  "acceptance_from_completion_proof p = AccVerified i author reviewer level at \<longleftrightarrow>
     author \<noteq> reviewer \<and> cap_team_independent_acceptance p
     \<and> cap_independence_kind p = ''team_independent''
     \<and> i = cap_evidence_id p \<and> author = cap_author_person_id p \<and> reviewer = cap_reviewer_person_id p
     \<and> level = cap_evidence_level p \<and> at = cap_verified_at_ms p
     \<and> delivery_text (cap_work_item_id p) \<and> delivery_sha256 (cap_contract_sha256 p)
     \<and> delivery_sha256 (cap_artifact_sha256 p) \<and> delivery_text (cap_independence_kind p)
     \<and> delivery_text author \<and> delivery_text reviewer \<and> cap_completion_receipt_id p \<noteq> 0
     \<and> i \<noteq> 0 \<and> 0 \<le> at"
  unfolding acceptance_from_completion_proof_def by (auto simp del: list.inject char.inject)

text \<open>
  C32: An adoption credential exists only on independent acceptance: the completion proof is a team
  acceptance by a reviewer who is not the author, of the provider's work item and for exactly the
  contract, artifact and receipt the active dependency selected, at its minimum level, with an export
  grant in force for the provider's work item, its project and the selected version. The credential
  names the author, the reviewer, the level and the selected version of that proof, and the export
  authorization. A self-reported completion never becomes a credential.
\<close>
theorem credential_needs_independent_acceptance:
  assumes "adopt_delivery_credential req = Some (Inr cred)"
  shows "cap_team_independent_acceptance (adr_completion req)
    \<and> cap_independence_kind (adr_completion req) = ''team_independent''
    \<and> cap_author_person_id (adr_completion req) \<noteq> cap_reviewer_person_id (adr_completion req)
    \<and> cap_work_item_id (adr_completion req) = wb_work_item_id (hd_provider (adr_dependency req))
    \<and> cap_contract_sha256 (adr_completion req) = dv_contract_sha256 (hd_selected (adr_dependency req))
    \<and> cap_artifact_sha256 (adr_completion req) = dv_artifact_sha256 (hd_selected (adr_dependency req))
    \<and> cap_completion_receipt_id (adr_completion req) = dv_completion_receipt (hd_selected (adr_dependency req))
    \<and> hd_status (adr_dependency req) = HdActive
    \<and> ea_project_id (adr_export_authorization req) = wb_project_id (hd_provider (adr_dependency req))
    \<and> ea_provider_work_item_id (adr_export_authorization req) = wb_work_item_id (hd_provider (adr_dependency req))
    \<and> ea_status (adr_export_authorization req) = EaGranted
    \<and> ea_delivery (adr_export_authorization req) = hd_selected (adr_dependency req)
    \<and> (\<exists>rank minimum. verification_rank (cap_evidence_level (adr_completion req)) = Some rank
          \<and> verification_rank (hd_minimum_level (adr_dependency req)) = Some minimum \<and> minimum \<le> rank)
    \<and> cred_requirement cred = hard_requirement (adr_dependency req)
    \<and> cred_acceptance_author cred \<noteq> cred_acceptance_reviewer cred
    \<and> cred_acceptance_author cred = cap_author_person_id (adr_completion req)
    \<and> cred_acceptance_reviewer cred = cap_reviewer_person_id (adr_completion req)
    \<and> cred_acceptance_level cred = cap_evidence_level (adr_completion req)
    \<and> dr_selected (cred_requirement cred) = hd_selected (adr_dependency req)
    \<and> cred_export_authorization_id cred = ea_id (adr_export_authorization req)
    \<and> cred_adopted_at_ms cred = adr_now_ms req"
proof -
  note ok = adopt_credential_ok[OF assms]
  let ?req = "hard_requirement (adr_dependency req)"
  from ok(2) have input: "assess_input ?req (adoption_facts req) = Inr ()"
    and sat: "\<exists>a. assess_snapshot ?req (adoption_facts req) = Some a \<and> da_status a = DsSatisfied"
    by (auto simp: assess_delivery_def split: sum.splits)
  from assess_input_minimum[OF input] obtain m where m: "verification_rank (dr_minimum_level ?req) = Some m"
    by blast
  from sat have pass: "assess_acceptance ?req (df_acceptance (adoption_facts req)) = Some None"
    and gr: "df_export_authority (adoption_facts req) = ExGranted"
    by (auto simp: assess_snapshot_satisfied[OF m])
  from gr have granted: "ea_status (adr_export_authorization req) = EaGranted"
    by (auto simp: adoption_facts_def as_authority_def split: if_splits export_authorization_status.splits)
  from pass obtain i author reviewer level at rank where acc:
      "acceptance_from_completion_proof (adr_completion req) = AccVerified i author reviewer level at"
      "author \<noteq> reviewer" "verification_rank level = Some rank" "m \<le> rank"
    by (auto simp: assess_acceptance_pass[OF m] adoption_facts_def)
  from acc(1) have given: "cap_team_independent_acceptance (adr_completion req)"
    "cap_independence_kind (adr_completion req) = ''team_independent''"
    "author = cap_author_person_id (adr_completion req)" "reviewer = cap_reviewer_person_id (adr_completion req)"
    "level = cap_evidence_level (adr_completion req)"
    unfolding acceptance_verified by blast+
  from ok(5) acc(1,2) have cred: "cred_requirement cred = ?req"
    "cred_acceptance_author cred \<noteq> cred_acceptance_reviewer cred" "cred_adopted_at_ms cred = adr_now_ms req"
    "cred_acceptance_author cred = author" "cred_acceptance_reviewer cred = reviewer" "cred_acceptance_level cred = level"
    "cred_export_authorization_id cred = ea_id (adr_export_authorization req)"
    by (auto simp: credential_of_def Let_def delivery_unlocks_execution_def adoption_facts_def)
  show ?thesis using ok(1,3,4,6-10) granted acc given cred m by (simp add: hard_requirement_def)
qed

theorem credential_needs_independent_acceptance_witness:
  "\<exists>cred. adopt_delivery_credential ex_adopt = Some (Inr cred)
     \<and> cred_acceptance_author cred \<noteq> cred_acceptance_reviewer cred"
proof -
  have "map_option is_ok (adopt_delivery_credential ex_adopt) = Some True" by code_simp
  then obtain cred where ok: "adopt_delivery_credential ex_adopt = Some (Inr cred)"
    by (auto simp: is_ok_iff)
  from credential_needs_independent_acceptance[OF ok] ok show ?thesis by blast
qed

lemma not_granted_no_credential:
  assumes "ea_status (adr_export_authorization req) \<noteq> EaGranted \<or> hd_status (adr_dependency req) \<noteq> HdActive"
  shows "\<exists>e. adopt_delivery_credential req = Some (Inl e)"
proof -
  have "adopt_delivery_credential req \<noteq> None"
    using assess_delivery_total
    by (auto simp: adopt_delivery_credential_def adopt_delivery_def Let_def split: sum.splits)
  then obtain r where r: "adopt_delivery_credential req = Some r" by blast
  moreover have "r \<noteq> Inr cred" for cred
  proof
    assume "r = Inr cred"
    with r have ok: "adopt_delivery_credential req = Some (Inr cred)" by simp
    have "df_export_authority (adoption_facts req) = ExGranted"
      using adopt_credential_ok(2)[OF ok] assess_input_minimum assess_snapshot_satisfied
      by (fastforce simp: assess_delivery_def split: sum.splits)
    then have "ea_status (adr_export_authorization req) = EaGranted"
      by (auto simp: adoption_facts_def as_authority_def split: if_splits export_authorization_status.splits)
    with assms adopt_credential_ok(1)[OF ok] show False by simp
  qed
  ultimately show ?thesis by (cases r) auto
qed

text \<open>
  Revocation is final. A revoked export authorization stays revoked under every later revoke,
  keeping its first reason and time; no credential can be adopted on it, and a credential that was
  adopted before is reported revoked when reassessed with it for the delivery it selected.
\<close>
theorem export_revocation_is_final:
  assumes "apply_export_revoke ea req = Inr revoked"
  shows "ea_status revoked = EaRevoked
    \<and> (\<forall>req' again. apply_export_revoke revoked req' = Inr again \<longrightarrow> again = revoked)
    \<and> (\<forall>adopt. adr_export_authorization adopt = revoked \<longrightarrow>
         (\<exists>e. adopt_delivery_credential adopt = Some (Inl e)))
    \<and> (\<forall>cred facts verdict.
         df_delivery facts = Some (dr_selected (cred_requirement cred))
         \<and> ea_delivery revoked = dr_selected (cred_requirement cred)
         \<and> df_export_authority facts = as_authority revoked (dr_selected (cred_requirement cred))
         \<and> reassess_adoption_credential cred facts = Some (Inr verdict) \<longrightarrow> snd verdict = AcRevoked)"
proof (intro conjI allI impI)
  show status: "ea_status revoked = EaRevoked"
    using assms by (auto simp: apply_export_revoke_def split: if_splits)
  show "again = revoked" if "apply_export_revoke revoked req' = Inr again" for req' again
    using that status by (simp add: apply_export_revoke_def)
  show "\<exists>e. adopt_delivery_credential adopt = Some (Inl e)"
    if "adr_export_authorization adopt = revoked" for adopt
    using that status by (intro not_granted_no_credential) simp
  fix cred facts verdict
  assume h: "df_delivery facts = Some (dr_selected (cred_requirement cred))
         \<and> ea_delivery revoked = dr_selected (cred_requirement cred)
         \<and> df_export_authority facts = as_authority revoked (dr_selected (cred_requirement cred))
         \<and> reassess_adoption_credential cred facts = Some (Inr verdict)"
  then have "df_export_authority facts = ExRevoked" using status by (simp add: as_authority_def)
  with h show "snd verdict = AcRevoked"
    by (auto simp: reassess_adoption_credential_def assess_delivery_def assess_snapshot_def
        split: if_splits sum.splits)
qed

theorem export_revocation_is_final_witness:
  "\<exists>revoked. apply_export_revoke (adr_export_authorization ex_adopt)
       \<lparr>re_request_key = ''k2'', re_authorization_id = ''e'', re_reason = ''leak'', re_now_ms = 7\<rparr> = Inr revoked
     \<and> (\<exists>e. adopt_delivery_credential (ex_adopt\<lparr>adr_export_authorization := revoked\<rparr>) = Some (Inl e))"
proof -
  let ?r = "apply_export_revoke (adr_export_authorization ex_adopt)
       \<lparr>re_request_key = ''k2'', re_authorization_id = ''e'', re_reason = ''leak'', re_now_ms = 7\<rparr>"
  have "is_ok ?r" by code_simp
  then obtain revoked where ok: "?r = Inr revoked" by (auto simp: is_ok_iff)
  have "\<exists>e. adopt_delivery_credential (ex_adopt\<lparr>adr_export_authorization := revoked\<rparr>) = Some (Inl e)"
    using export_revocation_is_final[OF ok] by simp
  with ok show ?thesis by blast
qed

end
