(* ===== verification/Versioned_State.thy ===== *)
theory Versioned_State
  imports Awr_Prelude
begin

text \<open>
  The interface the versioned projections of the runtime share (task responsibility, hand-offs):
  every step moves the version up by exactly one and keeps the structural invariant, and an
  operation is prepared against a version and refused when the state has moved on. What follows
  from it is proved once here.
\<close>

locale versioned_steps =
  fixes step :: "'s \<Rightarrow> 's \<Rightarrow> bool" and version :: "'s \<Rightarrow> u64" and inv :: "'s \<Rightarrow> bool"
  assumes step_version: "step s t \<Longrightarrow> unat (version t) = Suc (unat (version s))"
    and step_inv: "inv s \<Longrightarrow> step s t \<Longrightarrow> inv t"
begin

lemma reach_inv: "step\<^sup>*\<^sup>* s t \<Longrightarrow> inv s \<Longrightarrow> inv t"
  by (induction rule: rtranclp_induct) (auto intro: step_inv)

lemma steps_version: "(step ^^ n) s t \<Longrightarrow> unat (version t) = unat (version s) + n"
  by (induction n arbitrary: t) (auto dest: step_version)

lemma reach_mono: "step\<^sup>*\<^sup>* s t \<Longrightarrow> version s \<le> version t"
  by (auto simp: rtranclp_power word_le_nat_alt dest: steps_version)

lemma reach_same_version:
  assumes "step\<^sup>*\<^sup>* s t" and "version s = version t"
  shows "s = t"
proof -
  from assms(1) obtain n where n: "(step ^^ n) s t" by (auto simp: rtranclp_power)
  with assms(2) steps_version[OF n] have "n = 0" by simp
  with n show ?thesis by simp
qed

lemma step_moves_on:
  assumes "step s t" and "step\<^sup>*\<^sup>* t u"
  shows "version u \<noteq> version s"
  using step_version[OF assms(1)] reach_mono[OF assms(2)] by (auto simp: word_le_nat_alt)

end

text \<open>
  Operations with an expected version: a successful operation is a step, and needs the state's
  version to be the expected one. Then of two operations prepared on one state at most one succeeds,
  however many other steps lie between them.
\<close>

locale optimistic_operations = versioned_steps step version inv
  for step :: "'s \<Rightarrow> 's \<Rightarrow> bool" and version :: "'s \<Rightarrow> u64" and inv :: "'s \<Rightarrow> bool" +
  fixes apply_op :: "'s \<Rightarrow> 'o \<Rightarrow> ('e, 's) result" and expected :: "'o \<Rightarrow> u64"
  assumes apply_step: "apply_op s op = Inr t \<Longrightarrow> step s t"
    and apply_expected: "apply_op s op = Inr t \<Longrightarrow> expected op = version s"
begin

lemma no_lost_update:
  assumes "apply_op s op = Inr t" and "step\<^sup>*\<^sup>* t u" and "expected other = expected op"
  shows "\<not> is_ok (apply_op u other)"
proof
  assume "is_ok (apply_op u other)"
  then obtain w where "apply_op u other = Inr w" by (auto simp: is_ok_iff)
  then have "version u = version s"
    using apply_expected[of u other w] apply_expected[OF assms(1)] assms(3) by simp
  with step_moves_on[OF apply_step[OF assms(1)] assms(2)] show False by simp
qed

end

end
