(* ===== verification/Task_Responsibility.thy ===== *)
theory Task_Responsibility
  imports Core_Error Versioned_State
begin

text \<open>
  \<^verbatim>\<open>crates/awr-core/src/responsibility.rs\<close>: who owns a task, who executes it and who reviews it.
  The pure transitions on the responsibility projection of one task.
\<close>

section \<open>Data\<close>

type_synonym person_id = string

datatype member_identity_kind = MemberHuman | SimulatedMember

record member_identity_metadata =
  mm_kind :: member_identity_kind
  mm_controller_ref :: "string option"

datatype binding_status = BindingActive | BindingDisabled

record person_agent_binding =
  pab_id :: string
  pab_person_id :: person_id
  pab_agent_id :: string
  pab_status :: binding_status
  pab_created_at_ms :: i64

datatype execution_instance =
    ExecPerson person_id
  | ExecAgentRun person_id string string

datatype responsibility_pending_kind = Departure | Disabled | NoAcceptor | LegacyIdentityMigration

record responsibility_pending =
  rp_kind :: responsibility_pending_kind
  rp_person_id :: "person_id option"
  rp_legacy_ref :: "string option"
  rp_transfer_request_key :: "string option"
  rp_detail :: string

record task_responsibility =
  tr_project_id :: string
  tr_work_item_id :: string
  tr_owner :: "person_id option"
  tr_collaborators :: "person_id list"
  tr_current_executor :: "execution_instance option"
  tr_independent_reviewer :: "person_id option"
  tr_version :: u64
  tr_pending :: "responsibility_pending option"
  tr_personal_mode_default :: bool

record assign_responsibility_request =
  asg_request_key :: string
  asg_expected_version :: u64
  asg_owner :: "person_id option"
  asg_collaborators :: "person_id list"
  asg_independent_reviewer :: "person_id option"
  asg_allow_unassigned :: bool
  asg_authorized_by :: person_id

record accept_responsibility_request =
  acr_request_key :: string
  acr_expected_version :: u64
  acr_acceptor :: person_id
  acr_as_owner :: bool

record claim_available_request =
  cav_request_key :: string
  cav_expected_version :: u64
  cav_claimant :: person_id

record claim_execution_request =
  cex_request_key :: string
  cex_expected_version :: u64
  cex_executor :: execution_instance
  cex_coordination_claim_id :: "string option"

record transfer_owner_request =
  tor_request_key :: string
  tor_expected_version :: u64
  tor_from_owner :: person_id
  tor_to_owner :: person_id
  tor_authorized_by :: person_id

section \<open>Validation\<close>

definition validate_id :: "string \<Rightarrow> string \<Rightarrow> (error, unit) result" where
  "validate_id v field =
     refuse (trim_empty v \<or> length v > 128 \<or> list_ex (\<lambda>c. is_control c \<or> c = 0) (utf8_chars v))
       (InvalidInput (field @ '' requires a bounded non-empty identity''))"

definition validate_request_key :: "string \<Rightarrow> (error, unit) result" where
  "validate_request_key key = validate_id key ''request_key''"

definition person_new :: "string \<Rightarrow> (error, person_id) result" where
  "person_new v = then_ok (validate_id v ''person_id'') (Inr v)"

definition member_metadata_validate :: "member_identity_metadata \<Rightarrow> (error, unit) result" where
  "member_metadata_validate m = check_some (\<lambda>r. validate_id r ''controller_ref'') (mm_controller_ref m)"

definition matches_member_actor_kind :: "member_identity_metadata \<Rightarrow> string \<Rightarrow> bool" where
  "matches_member_actor_kind m actor_kind = (case mm_kind m of
     MemberHuman \<Rightarrow> actor_kind = ''human''
   | SimulatedMember \<Rightarrow> actor_kind = ''agent'')"

fun exec_person :: "execution_instance \<Rightarrow> person_id" where
  "exec_person (ExecPerson p) = p"
| "exec_person (ExecAgentRun p _ _) = p"

fun exec_validate :: "execution_instance \<Rightarrow> (error, unit) result" where
  "exec_validate (ExecPerson p) = validate_id p ''person_id''"
| "exec_validate (ExecAgentRun p agent binding) =
     run_checks [validate_id p ''person_id'', validate_id agent ''agent_id'',
       validate_id binding ''binding_id'']"

definition unassigned :: "string \<Rightarrow> string \<Rightarrow> task_responsibility" where
  "unassigned project_id work_item_id =
     \<lparr>tr_project_id = project_id, tr_work_item_id = work_item_id, tr_owner = None,
      tr_collaborators = [], tr_current_executor = None, tr_independent_reviewer = None,
      tr_version = 0, tr_pending = None, tr_personal_mode_default = False\<rparr>"

definition personal_default :: "string \<Rightarrow> string \<Rightarrow> person_id \<Rightarrow> task_responsibility" where
  "personal_default project_id work_item_id self_person =
     \<lparr>tr_project_id = project_id, tr_work_item_id = work_item_id, tr_owner = Some self_person,
      tr_collaborators = [], tr_current_executor = None, tr_independent_reviewer = None,
      tr_version = 0, tr_pending = None, tr_personal_mode_default = True\<rparr>"

definition collaborator_visit ::
  "person_id option \<Rightarrow> string set \<Rightarrow> person_id \<Rightarrow> (error, string set) result" where
  "collaborator_visit owner seen c =
     then_ok (validate_id c ''collaborator'')
       (and_then (insert_new (InvalidInput ''collaborators must be unique persons'') seen c)
         (\<lambda>seen'. then_ok (refuse (owner = Some c)
             (InvalidInput ''owner cannot also be listed as collaborator'')) (Inr seen')))"

definition validate_pending :: "responsibility_pending \<Rightarrow> (error, unit) result" where
  "validate_pending p =
     run_checks
       [refuse (trim_empty (rp_detail p) \<or> length (rp_detail p) > 2048)
          (InvalidInput ''pending detail requires 1..2048 bytes''),
        check_some (\<lambda>l. validate_id l ''legacy_ref'') (rp_legacy_ref p)]"

definition validate_structure :: "task_responsibility \<Rightarrow> (error, unit) result" where
  "validate_structure t =
     run_checks
       [validate_id (tr_project_id t) ''project_id'',
        validate_id (tr_work_item_id t) ''work_item_id'',
        check_some (\<lambda>o'. validate_id o' ''owner'') (tr_owner t),
        refuse (length (tr_collaborators t) > 64)
          (InvalidInput ''collaborators exceed the 64-person bound''),
        and_then (try_fold (collaborator_visit (tr_owner t)) {} (tr_collaborators t)) (\<lambda>_. Inr ()),
        check_some exec_validate (tr_current_executor t),
        check_some (\<lambda>r. run_checks
            [validate_id r ''independent_reviewer'',
             refuse (tr_owner t = Some r)
               (InvalidInput ''independent reviewer must differ from the sole owner'')])
          (tr_independent_reviewer t),
        check_some validate_pending (tr_pending t)]"

section \<open>Transitions\<close>

definition bump_version :: "u64 \<Rightarrow> (error, u64) result" where
  "bump_version v = ok_or (checked_add v 1) (InvalidInput ''responsibility version overflow'')"

definition expect_version :: "task_responsibility \<Rightarrow> u64 \<Rightarrow> (error, unit) result" where
  "expect_version t v = refuse (tr_version t \<noteq> v) (RevisionConflict v (tr_version t))"

definition validated :: "task_responsibility \<Rightarrow> (error, task_responsibility) result" where
  "validated t = then_ok (validate_structure t) (Inr t)"

definition has_pending :: "task_responsibility \<Rightarrow> responsibility_pending_kind list \<Rightarrow> bool" where
  "has_pending t kinds = (case tr_pending t of None \<Rightarrow> False | Some p \<Rightarrow> rp_kind p \<in> set kinds)"

definition apply_assign ::
  "task_responsibility \<Rightarrow> assign_responsibility_request \<Rightarrow> (error, task_responsibility) result" where
  "apply_assign t req =
     then_ok
       (run_checks
         [validate_request_key (asg_request_key req),
          validate_structure t,
          expect_version t (asg_expected_version req),
          refuse (asg_owner req = None \<and> \<not> asg_allow_unassigned req)
            (InvalidInput ''assign without owner requires allow_unassigned for the unassigned pool''),
          validate_id (asg_authorized_by req) ''authorized_by''])
       (and_then (bump_version (tr_version t))
         (\<lambda>v. validated (t\<lparr>tr_owner := asg_owner req,
              tr_collaborators := asg_collaborators req,
              tr_independent_reviewer := asg_independent_reviewer req,
              tr_version := v,
              tr_pending := (if has_pending t [NoAcceptor] then None else tr_pending t)\<rparr>)))"

definition apply_accept ::
  "task_responsibility \<Rightarrow> accept_responsibility_request \<Rightarrow> (error, task_responsibility) result" where
  "apply_accept t req =
     then_ok
       (run_checks
         [validate_request_key (acr_request_key req),
          validate_structure t,
          expect_version t (acr_expected_version req),
          refuse (\<not> acr_as_owner req) (InvalidInput ''accept currently supports as_owner only''),
          (case tr_owner t of
             Some owner \<Rightarrow> refuse (owner \<noteq> acr_acceptor req)
               (RuleViolation ''acceptor is not the assigned owner; ownership cannot be auto-stolen'')
           | None \<Rightarrow> Inl (RuleViolation ''unassigned pool has no owner to accept'')),
          refuse (has_pending t [Departure, Disabled])
            (RuleViolation ''departure/disable pending must be cleared explicitly before accept'')])
       (and_then (bump_version (tr_version t))
         (\<lambda>v. validated (t\<lparr>tr_version := v,
              tr_pending := (if has_pending t [NoAcceptor, LegacyIdentityMigration] then None
                             else tr_pending t)\<rparr>)))"

definition apply_claim_available ::
  "task_responsibility \<Rightarrow> claim_available_request \<Rightarrow> (error, task_responsibility) result" where
  "apply_claim_available t req =
     then_ok
       (run_checks
         [validate_request_key (cav_request_key req),
          validate_id (cav_claimant req) ''claimant'',
          validate_structure t,
          expect_version t (cav_expected_version req),
          refuse (tr_owner t \<noteq> None \<or> tr_pending t \<noteq> None \<or> tr_current_executor t \<noteq> None)
            (ClaimConflict ''available ownership requires no owner, pending responsibility or executor''),
          refuse (tr_independent_reviewer t = Some (cav_claimant req))
            (RuleViolation ''the independent reviewer cannot claim ownership of this task'')])
       (and_then (bump_version (tr_version t))
         (\<lambda>v. validated (t\<lparr>tr_owner := Some (cav_claimant req),
              tr_collaborators := filter (\<lambda>p. p \<noteq> cav_claimant req) (tr_collaborators t),
              tr_version := v\<rparr>)))"

definition ensure_executor_binding ::
  "execution_instance \<Rightarrow> person_agent_binding list \<Rightarrow> (error, unit) result" where
  "ensure_executor_binding executor bindings = (case executor of
     ExecPerson _ \<Rightarrow> Inr ()
   | ExecAgentRun person agent binding \<Rightarrow>
       refuse (\<not> list_ex (\<lambda>b. pab_id b = binding \<and> pab_person_id b = person \<and> pab_agent_id b = agent
                  \<and> pab_status b = BindingActive) bindings)
         (RuleViolation (''agent execution requires an explicit active person'' @ left_right_arrow
            @ ''agent binding; actor.kind is not a substitute'')))"

definition apply_claim_execution ::
  "task_responsibility \<Rightarrow> claim_execution_request \<Rightarrow> person_agent_binding list \<Rightarrow>
     (error, task_responsibility) result" where
  "apply_claim_execution t req bindings =
     then_ok
       (run_checks
         [validate_request_key (cex_request_key req),
          validate_structure t,
          exec_validate (cex_executor req),
          expect_version t (cex_expected_version req),
          check_some (\<lambda>c. validate_id c ''coordination_claim_id'') (cex_coordination_claim_id req),
          ensure_executor_binding (cex_executor req) bindings,
          check_some (\<lambda>e. refuse (exec_person e \<noteq> exec_person (cex_executor req))
              (ClaimConflict ''another execution instance holds the task; release or wait''))
            (tr_current_executor t)])
       (and_then (bump_version (tr_version t))
         (\<lambda>v. validated (t\<lparr>tr_current_executor := Some (cex_executor req), tr_version := v\<rparr>)))"

definition apply_release_execution ::
  "task_responsibility \<Rightarrow> string \<Rightarrow> u64 \<Rightarrow> person_id \<Rightarrow> (error, task_responsibility) result" where
  "apply_release_execution t request_key expected_version by_person =
     then_ok
       (run_checks
         [validate_request_key request_key,
          expect_version t expected_version,
          (case tr_current_executor t of
             Some e \<Rightarrow> refuse (exec_person e \<noteq> by_person)
               (ClaimConflict ''only the current executor person may release the execution claim'')
           | None \<Rightarrow> Inl (NotFound ''no current execution instance to release''))])
       (and_then (bump_version (tr_version t))
         (\<lambda>v. Inr (t\<lparr>tr_current_executor := None, tr_version := v\<rparr>)))"

definition apply_transfer_propose ::
  "task_responsibility \<Rightarrow> transfer_owner_request \<Rightarrow> (error, task_responsibility) result" where
  "apply_transfer_propose t req =
     then_ok
       (run_checks
         [validate_request_key (tor_request_key req),
          validate_structure t,
          expect_version t (tor_expected_version req),
          refuse (tor_from_owner req = tor_to_owner req)
            (InvalidInput ''owner transfer requires a different acceptor person''),
          (case tr_owner t of
             Some owner \<Rightarrow> refuse (owner \<noteq> tor_from_owner req)
               (RuleViolation ''from_owner does not match current sole owner'')
           | None \<Rightarrow> Inl (RuleViolation ''unassigned pool has no owner to transfer'')),
          refuse (tor_authorized_by req \<noteq> tor_from_owner req)
            (RuleViolation ''owner transfer requires authorization by the current owner'')])
       (and_then (bump_version (tr_version t))
         (\<lambda>v. validated (t\<lparr>tr_owner := Some (tor_to_owner req),
              tr_pending := Some \<lparr>rp_kind = NoAcceptor, rp_person_id = Some (tor_to_owner req),
                rp_legacy_ref = None, rp_transfer_request_key = Some (tor_request_key req),
                rp_detail = ''owner transfer awaiting acceptor''\<rparr>,
              tr_current_executor :=
                (case tr_current_executor t of
                   None \<Rightarrow> None
                 | Some e \<Rightarrow> if exec_person e = tor_from_owner req then None else Some e),
              tr_version := v\<rparr>)))"

definition apply_agent_swap_for_person ::
  "task_responsibility \<Rightarrow> string \<Rightarrow> u64 \<Rightarrow> person_id \<Rightarrow> execution_instance \<Rightarrow>
     person_agent_binding list \<Rightarrow> (error, task_responsibility) result" where
  "apply_agent_swap_for_person t request_key expected_version person new_executor bindings =
     then_ok
       (run_checks
         [validate_request_key request_key,
          expect_version t expected_version,
          refuse (exec_person new_executor \<noteq> person)
            (InvalidInput ''agent swap must keep the same person_id''),
          ensure_executor_binding new_executor bindings])
       (and_then (bump_version (tr_version t))
         (\<lambda>v. let next_state = t\<lparr>tr_current_executor := Some new_executor, tr_version := v\<rparr> in
           then_ok (refuse (tr_owner next_state \<noteq> tr_owner t)
               (RuleViolation ''agent swap must not alter responsibility ownership''))
             (validated next_state)))"

definition apply_mark_pending ::
  "task_responsibility \<Rightarrow> string \<Rightarrow> u64 \<Rightarrow> responsibility_pending \<Rightarrow>
     (error, task_responsibility) result" where
  "apply_mark_pending t request_key expected_version pending =
     then_ok
       (run_checks
         [validate_request_key request_key,
          expect_version t expected_version,
          refuse (trim_empty (rp_detail pending)) (InvalidInput ''pending detail required'')])
       (and_then (bump_version (tr_version t))
         (\<lambda>v. validated (t\<lparr>tr_pending := Some pending, tr_version := v\<rparr>)))"

definition refuse_infer_person_from_actor_kind :: "string \<Rightarrow> (error, unit) result" where
  "refuse_infer_person_from_actor_kind actor_kind =
     Inl (RuleViolation (''person'' @ left_right_arrow
       @ ''agent relations must be explicit bindings; actor.kind must not be inferred''))"

section \<open>The operations as one state machine\<close>

datatype responsibility_op =
    OpAssign assign_responsibility_request
  | OpAccept accept_responsibility_request
  | OpClaimAvailable claim_available_request
  | OpClaimExecution claim_execution_request
  | OpRelease string u64 person_id
  | OpTransfer transfer_owner_request
  | OpSwap string u64 person_id execution_instance
  | OpMarkPending string u64 responsibility_pending

fun apply_op ::
  "person_agent_binding list \<Rightarrow> task_responsibility \<Rightarrow> responsibility_op \<Rightarrow>
     (error, task_responsibility) result" where
  "apply_op bindings t (OpAssign r) = apply_assign t r"
| "apply_op bindings t (OpAccept r) = apply_accept t r"
| "apply_op bindings t (OpClaimAvailable r) = apply_claim_available t r"
| "apply_op bindings t (OpClaimExecution r) = apply_claim_execution t r bindings"
| "apply_op bindings t (OpRelease k v p) = apply_release_execution t k v p"
| "apply_op bindings t (OpTransfer r) = apply_transfer_propose t r"
| "apply_op bindings t (OpSwap k v p e) = apply_agent_swap_for_person t k v p e bindings"
| "apply_op bindings t (OpMarkPending k v p) = apply_mark_pending t k v p"

fun op_expected :: "responsibility_op \<Rightarrow> u64" where
  "op_expected (OpAssign r) = asg_expected_version r"
| "op_expected (OpAccept r) = acr_expected_version r"
| "op_expected (OpClaimAvailable r) = cav_expected_version r"
| "op_expected (OpClaimExecution r) = cex_expected_version r"
| "op_expected (OpRelease k v p) = v"
| "op_expected (OpTransfer r) = tor_expected_version r"
| "op_expected (OpSwap k v p e) = v"
| "op_expected (OpMarkPending k v p) = v"

inductive resp_step :: "task_responsibility \<Rightarrow> task_responsibility \<Rightarrow> bool" where
  resp_stepI: "apply_op bindings t op = Inr t' \<Longrightarrow> resp_step t t'"

inductive_cases resp_stepE: "resp_step t t'"

section \<open>Characterisations\<close>

definition valid_id :: "string \<Rightarrow> bool" where
  "valid_id v \<longleftrightarrow> \<not> trim_empty v \<and> length v \<le> 128 \<and> \<not> list_ex (\<lambda>c. is_control c \<or> c = 0) (utf8_chars v)"

lemma validate_id_ok [simp]: "validate_id v field = Inr u \<longleftrightarrow> valid_id v"
  by (auto simp: validate_id_def valid_id_def)

lemma validate_id_err [simp]:
  "validate_id v field = Inl e \<longleftrightarrow>
     \<not> valid_id v \<and> e = InvalidInput (field @ '' requires a bounded non-empty identity'')"
  by (auto simp: validate_id_def valid_id_def)

lemma validate_request_key_ok [simp]: "validate_request_key k = Inr u \<longleftrightarrow> valid_id k"
  by (simp add: validate_request_key_def)

lemma collaborator_fold:
  "try_fold (collaborator_visit owner) seen cs = Inr seen' \<longleftrightarrow>
     list_all valid_id cs \<and> distinct cs \<and> set cs \<inter> seen = {} \<and> owner \<notin> Some ` set cs
     \<and> seen' = seen \<union> set cs"
  by (induction cs arbitrary: seen) (auto simp: collaborator_visit_def)

lemma validate_structure_ok:
  "validate_structure t = Inr u \<longleftrightarrow>
     valid_id (tr_project_id t) \<and> valid_id (tr_work_item_id t)
     \<and> pred_option valid_id (tr_owner t)
     \<and> length (tr_collaborators t) \<le> 64 \<and> list_all valid_id (tr_collaborators t)
     \<and> distinct (tr_collaborators t) \<and> tr_owner t \<notin> Some ` set (tr_collaborators t)
     \<and> (\<forall>e. tr_current_executor t = Some e \<longrightarrow> exec_validate e = Inr ())
     \<and> (\<forall>r. tr_independent_reviewer t = Some r \<longrightarrow> valid_id r \<and> tr_owner t \<noteq> Some r)
     \<and> (\<forall>p. tr_pending t = Some p \<longrightarrow> validate_pending p = Inr ())"
  by (auto simp: validate_structure_def collaborator_fold pred_option_def)

lemma bump_version_ok [simp]:
  "bump_version v = Inr w \<longleftrightarrow> unat v + 1 < 2 ^ 64 \<and> w = v + 1"
  by (simp add: bump_version_def)

lemma bump_version_Suc:
  assumes "bump_version v = Inr w"
  shows "unat w = Suc (unat v)"
  using assms checked_add_unat[of v 1 w] by (simp add: bump_version_def)

lemma validated_ok [simp]: "validated t = Inr t' \<longleftrightarrow> validate_structure t = Inr () \<and> t' = t"
  by (auto simp: validated_def)

lemma expect_version_ok [simp]: "expect_version t v = Inr u \<longleftrightarrow> tr_version t = v"
  by (simp add: expect_version_def)

lemmas apply_defs = apply_assign_def apply_accept_def apply_claim_available_def
  apply_claim_execution_def apply_release_execution_def apply_transfer_propose_def
  apply_agent_swap_for_person_def apply_mark_pending_def

lemma apply_op_version:
  assumes "apply_op bindings t op = Inr t'"
  shows "op_expected op = tr_version t" and "bump_version (tr_version t) = Inr (tr_version t')"
  using assms by (cases op; auto simp: apply_defs Let_def)+

lemma release_keeps_structure:
  "validate_structure t = Inr () \<Longrightarrow>
     validate_structure (t\<lparr>tr_current_executor := None, tr_version := v\<rparr>) = Inr ()"
  by (simp add: validate_structure_ok)

lemma apply_op_structure:
  assumes "apply_op bindings t op = Inr t'" and "validate_structure t = Inr ()"
  shows "validate_structure t' = Inr ()"
  using assms by (cases op) (auto simp: apply_defs Let_def release_keeps_structure)

lemma resp_step_version: "resp_step t t' \<Longrightarrow> unat (tr_version t') = Suc (unat (tr_version t))"
  by (auto elim!: resp_stepE dest: apply_op_version(2) bump_version_Suc)

lemma resp_step_structure:
  "validate_structure t = Inr () \<Longrightarrow> resp_step t t' \<Longrightarrow> validate_structure t' = Inr ()"
  by (auto elim!: resp_stepE dest: apply_op_structure)

interpretation resp: optimistic_operations resp_step tr_version "\<lambda>t. validate_structure t = Inr ()"
    "\<lambda>t (bindings, op). apply_op bindings t op" "op_expected \<circ> snd"
  by unfold_locales
    (auto intro: resp_stepI resp_step_structure dest: apply_op_version(1) resp_step_version)

section \<open>Properties\<close>

definition ex_task :: task_responsibility where
  "ex_task = unassigned ''proj'' ''w1''"

definition ex_claim :: claim_available_request where
  "ex_claim = \<lparr>cav_request_key = ''k1'', cav_expected_version = 0, cav_claimant = ''alice''\<rparr>"

definition ex_owned_task :: task_responsibility where
  "ex_owned_task = ex_task\<lparr>tr_owner := Some ''alice'', tr_version := 1\<rparr>"

lemma ex_claim_ok: "apply_op [] ex_task (OpClaimAvailable ex_claim) = Inr ex_owned_task"
  by code_simp

text \<open>
  C3: Every sequence of responsibility operations keeps the record well formed (one owner who is
  neither collaborator nor reviewer, at most 64 distinct collaborators, a valid executor and pending
  marker), and the version counts the operations exactly: equal versions on one history are equal
  states.
\<close>
theorem responsibility_invariant:
  assumes "validate_structure t = Inr ()" and "(resp_step ^^ n) t t'"
  shows "validate_structure t' = Inr () \<and> unat (tr_version t') = unat (tr_version t) + n
    \<and> tr_owner t' \<notin> Some ` set (tr_collaborators t') \<and> distinct (tr_collaborators t')
    \<and> (\<forall>r. tr_independent_reviewer t' = Some r \<longrightarrow> tr_owner t' \<noteq> Some r)
    \<and> (tr_version t' = tr_version t \<longrightarrow> t' = t)"
proof -
  have reach: "resp_step\<^sup>*\<^sup>* t t'" using assms(2) by (rule relpowp_imp_rtranclp)
  have "validate_structure t' = Inr ()" using resp.reach_inv[OF reach assms(1)] .
  with resp.steps_version[OF assms(2)] resp.reach_same_version[OF reach] show ?thesis
    by (auto simp: validate_structure_ok)
qed

theorem responsibility_invariant_witness:
  "validate_structure ex_task = Inr () \<and> (resp_step ^^ 1) ex_task ex_owned_task
   \<and> validate_structure ex_owned_task = Inr ()"
proof -
  have ok: "validate_structure ex_task = Inr ()" by code_simp
  have step: "(resp_step ^^ 1) ex_task ex_owned_task"
    using resp_stepI[OF ex_claim_ok] by (simp add: eq_OO)
  from responsibility_invariant[OF ok step] ok step show ?thesis by blast
qed

text \<open>
  Ownership moves only by an assignment, by claiming a task that has no owner, no pending marker
  and no executor, or by a transfer that the current owner authorized; accepting, claiming or
  releasing execution, swapping agents and marking pending never change the owner.
\<close>
theorem ownership_moves_only_by_consent:
  assumes "apply_op bindings t op = Inr t'" and "tr_owner t' \<noteq> tr_owner t"
  shows "case op of
      OpAssign r \<Rightarrow> tr_owner t' = asg_owner r \<and> (asg_owner r = None \<longrightarrow> asg_allow_unassigned r)
    | OpClaimAvailable r \<Rightarrow> tr_owner t = None \<and> tr_pending t = None \<and> tr_current_executor t = None
        \<and> tr_owner t' = Some (cav_claimant r) \<and> tr_independent_reviewer t \<noteq> Some (cav_claimant r)
    | OpTransfer r \<Rightarrow> tr_owner t = Some (tor_authorized_by r) \<and> tr_owner t' = Some (tor_to_owner r)
        \<and> (\<exists>p. tr_pending t' = Some p \<and> rp_kind p = NoAcceptor \<and> rp_person_id p = Some (tor_to_owner r))
        \<and> (\<forall>e. tr_current_executor t' = Some e \<longrightarrow> exec_person e \<noteq> tor_authorized_by r)
    | _ \<Rightarrow> False"
  using assms
  by (cases op) (auto simp: apply_defs Let_def split: option.splits if_splits)

theorem ownership_moves_only_by_consent_witness:
  "apply_op [] ex_task (OpClaimAvailable ex_claim) = Inr ex_owned_task
   \<and> tr_independent_reviewer ex_task \<noteq> Some (cav_claimant ex_claim)"
  using ownership_moves_only_by_consent[OF ex_claim_ok] ex_claim_ok
  by (simp add: ex_task_def ex_owned_task_def unassigned_def)

text \<open>
  No lost update: of two operations prepared against the same version at most one succeeds, no
  matter how many other operations are applied in between.
\<close>
theorem stale_operation_is_refused:
  assumes "apply_op bindings t op = Inr t'" and "resp_step\<^sup>*\<^sup>* t' u" and "op_expected other = op_expected op"
  shows "\<not> is_ok (apply_op bindings' u other)"
  using resp.no_lost_update[of t "(bindings, op)" t' u "(bindings', other)"] assms by simp

theorem stale_operation_is_refused_witness:
  "apply_op [] ex_task (OpClaimAvailable ex_claim) = Inr ex_owned_task
   \<and> \<not> is_ok (apply_op [] ex_owned_task (OpRelease ''k2'' 0 ''bob''))"
  using stale_operation_is_refused[OF ex_claim_ok rtranclp.rtrancl_refl, of "OpRelease ''k2'' 0 ''bob''" "[]"]
    ex_claim_ok by (simp add: ex_claim_def)

text \<open>
  An agent becomes the executor of a task only through an active binding to the person it acts
  for, and a claim or swap of execution touches nothing but the executor and the version; claiming
  takes the task over from nobody but the same person.
\<close>
theorem execution_needs_active_binding:
  assumes "apply_op bindings t op = Inr t'" and "tr_current_executor t' \<noteq> tr_current_executor t"
    and "tr_current_executor t' = Some (ExecAgentRun person agent binding)"
  shows "(\<exists>b\<in>set bindings. pab_id b = binding \<and> pab_person_id b = person \<and> pab_agent_id b = agent
            \<and> pab_status b = BindingActive)
    \<and> t' = t\<lparr>tr_current_executor := tr_current_executor t', tr_version := tr_version t + 1\<rparr>
    \<and> (\<forall>r. op = OpClaimExecution r \<longrightarrow>
         (\<forall>e. tr_current_executor t = Some e \<longrightarrow> exec_person e = person))"
  using assms
  by (cases op)
    (auto simp: apply_defs Let_def ensure_executor_binding_def list_ex_iff split: option.splits if_splits)

definition ex_binding :: person_agent_binding where
  "ex_binding = \<lparr>pab_id = ''b1'', pab_person_id = ''alice'', pab_agent_id = ''agent-7'',
     pab_status = BindingActive, pab_created_at_ms = 1\<rparr>"

definition ex_run :: claim_execution_request where
  "ex_run = \<lparr>cex_request_key = ''k3'', cex_expected_version = 1,
     cex_executor = ExecAgentRun ''alice'' ''agent-7'' ''b1'', cex_coordination_claim_id = None\<rparr>"

theorem execution_needs_active_binding_witness:
  "\<exists>t'. apply_op [ex_binding] ex_owned_task (OpClaimExecution ex_run) = Inr t'
     \<and> t' = ex_owned_task\<lparr>tr_current_executor := tr_current_executor t', tr_version := 2\<rparr>"
proof -
  let ?t = "ex_owned_task\<lparr>tr_current_executor := Some (ExecAgentRun ''alice'' ''agent-7'' ''b1''),
      tr_version := 2\<rparr>"
  have ok: "apply_op [ex_binding] ex_owned_task (OpClaimExecution ex_run) = Inr ?t" by code_simp
  have new: "tr_current_executor ?t \<noteq> tr_current_executor ex_owned_task"
    "tr_current_executor ?t = Some (ExecAgentRun ''alice'' ''agent-7'' ''b1'')"
    by (simp_all add: ex_owned_task_def ex_task_def unassigned_def)
  from execution_needs_active_binding[OF ok new] ok show ?thesis by (simp add: ex_owned_task_def)
qed

section \<open>Observed deviations\<close>

text \<open>
  \<open>apply_agent_swap_for_person\<close> does not look at the current executor: a person who holds nothing
  takes the execution from the one who does, which \<open>apply_claim_execution\<close> refuses.
\<close>

definition ex_running :: task_responsibility where
  "ex_running = ex_owned_task\<lparr>tr_current_executor := Some (ExecPerson ''alice'')\<rparr>"

lemma agent_swap_takes_over_execution:
  "apply_claim_execution ex_running \<lparr>cex_request_key = ''k'', cex_expected_version = 1,
      cex_executor = ExecPerson ''mallory'', cex_coordination_claim_id = None\<rparr> []
    = Inl (ClaimConflict ''another execution instance holds the task; release or wait'')"
  "apply_agent_swap_for_person ex_running ''k'' 1 ''mallory'' (ExecPerson ''mallory'') []
    = Inr (ex_running\<lparr>tr_current_executor := Some (ExecPerson ''mallory''), tr_version := 2\<rparr>)"
  by code_simp+

text \<open>
  A transfer replaces a departure marker by its own \<open>NoAcceptor\<close> marker, which the acceptance then
  clears, although a departure is to stay until it is cleared explicitly.
\<close>

lemma transfer_drops_departure:
  assumes "apply_transfer_propose t req = Inr t'"
  shows "\<exists>p. tr_pending t' = Some p \<and> rp_kind p = NoAcceptor"
  using assms by (auto simp: apply_transfer_propose_def)

end
