(* ===== verification/Agent_Authorization.thy ===== *)
theory Agent_Authorization
  imports Task_Responsibility
begin

text \<open>
  \<^verbatim>\<open>crates/awr-core/src/agent_authorization.rs\<close>: authorizations of agents, their issue, revocation and
  narrowing delegation, the binding to a client and session, and the explained decision whether a
  person may accept, occupy or start work on a task. \<open>validate_id\<close> and \<open>validate_request_key\<close> are the
  same functions as in \<^verbatim>\<open>responsibility.rs\<close>.
\<close>

section \<open>Actions\<close>

datatype (plugins only: code size) authorized_action =
    Inspect
  | AcceptResponsibility
  | OccupyCollaboratively
  | ClaimCoordination
  | StartWork
  | ProposePlanning
  | AssignWork
  | EditPlanning
  | ApprovePlanning
  | PublishPlanning
  | FinalizeDelivery
  | Review
  | ManageAuthorization

fun action_as_str :: "authorized_action \<Rightarrow> string" where
  "action_as_str Inspect = ''inspect''"
| "action_as_str AcceptResponsibility = ''accept_responsibility''"
| "action_as_str OccupyCollaboratively = ''occupy_collaboratively''"
| "action_as_str ClaimCoordination = ''claim_coordination''"
| "action_as_str StartWork = ''start_work''"
| "action_as_str ProposePlanning = ''propose_planning''"
| "action_as_str AssignWork = ''assign_work''"
| "action_as_str EditPlanning = ''edit_planning''"
| "action_as_str ApprovePlanning = ''approve_planning''"
| "action_as_str PublishPlanning = ''publish_planning''"
| "action_as_str FinalizeDelivery = ''finalize_delivery''"
| "action_as_str Review = ''review''"
| "action_as_str ManageAuthorization = ''manage_authorization''"

definition action_parse :: "string \<Rightarrow> (error, authorized_action) result" where
  "action_parse v =
     (if v = ''inspect'' then Inr Inspect
      else if v = ''accept_responsibility'' then Inr AcceptResponsibility
      else if v = ''occupy_collaboratively'' then Inr OccupyCollaboratively
      else if v = ''claim_coordination'' then Inr ClaimCoordination
      else if v = ''start_work'' then Inr StartWork
      else if v = ''propose_planning'' then Inr ProposePlanning
      else if v = ''assign_work'' then Inr AssignWork
      else if v = ''edit_planning'' then Inr EditPlanning
      else if v = ''approve_planning'' then Inr ApprovePlanning
      else if v = ''publish_planning'' then Inr PublishPlanning
      else if v = ''finalize_delivery'' then Inr FinalizeDelivery
      else if v = ''review'' then Inr Review
      else if v = ''manage_authorization'' then Inr ManageAuthorization
      else Inl (InvalidInput (''unknown authorized action '' @ [CHR 0x27] @ v @ [CHR 0x27] @ ''; default deny'')))"

section \<open>Scopes and capabilities\<close>

datatype authorization_scope =
    ScopeProject (scope_project_id: string)
  | ScopeWorkstream (scope_project_id: string) string
  | ScopeTask (scope_project_id: string) string
  | ScopeTaskPool (scope_project_id: string) string

fun scope_validate :: "authorization_scope \<Rightarrow> (error, unit) result" where
  "scope_validate (ScopeProject p) = validate_id p ''project_id''"
| "scope_validate (ScopeWorkstream p w) =
     run_checks [validate_id p ''project_id'', validate_id w ''workstream_id'']"
| "scope_validate (ScopeTask p w) =
     run_checks [validate_id p ''project_id'', validate_id w ''work_item_id'']"
| "scope_validate (ScopeTaskPool p l) =
     run_checks [validate_id p ''project_id'', validate_id l ''pool_id'']"

definition in_pool :: "string \<Rightarrow> string \<Rightarrow> bool" where
  "in_pool pool item \<longleftrightarrow> item = pool \<or> prefix (pool @ ''/'') item"

definition is_within :: "authorization_scope \<Rightarrow> authorization_scope \<Rightarrow> bool" where
  "is_within self parent \<longleftrightarrow>
     scope_project_id self = scope_project_id parent
     \<and> (case (parent, self) of
          (ScopeProject _, _) \<Rightarrow> True
        | (ScopeWorkstream _ p, ScopeWorkstream _ c) \<Rightarrow> p = c
        | (ScopeTask _ p, ScopeTask _ c) \<Rightarrow> p = c
        | (ScopeTaskPool _ p, ScopeTaskPool _ c) \<Rightarrow> p = c
        | (ScopeTaskPool _ p, ScopeTask _ c) \<Rightarrow> in_pool p c
        | _ \<Rightarrow> False)"

datatype verifiable_capability =
    CapHostDeclared string string string
  | CapResourceLease string string
  | CapMembership string u64

fun capability_validate :: "verifiable_capability \<Rightarrow> (error, unit) result" where
  "capability_validate (CapHostDeclared host cap digest) =
     run_checks
       [validate_id host ''host_id'',
        validate_id cap ''capability_id'',
        refuse (length digest < 16 \<or> length digest > 128
                \<or> \<not> list_all (\<lambda>b. is_ascii_hexdigit b \<or> b = CHR '':'' \<or> b = CHR ''-'') digest)
          (InvalidInput ''host capability proof_digest must be a bounded verifiable digest'')]"
| "capability_validate (CapResourceLease resource lease) =
     run_checks [validate_id resource ''resource_id'', validate_id lease ''lease_id'']"
| "capability_validate (CapMembership project _) = validate_id project ''project_id''"

section \<open>Authorizations\<close>

datatype authorization_status = AuthActive | AuthRevoked | AuthExpired

datatype execution_subject_kind = SubjectPerson | SubjectAgent | SubjectPlatformService

record agent_authorization =
  aa_id :: string
  aa_authorizer_person_id :: person_id
  aa_responsible_person_id :: person_id
  aa_subject_kind :: execution_subject_kind
  aa_subject_id :: string
  aa_client_id :: string
  aa_session_id :: "string option"
  aa_model_id :: "string option"
  aa_scope :: authorization_scope
  aa_actions :: "authorized_action set"
  aa_expires_at_ms :: "i64 option"
  aa_status :: authorization_status
  aa_revoked_at_ms :: "i64 option"
  aa_revoked_by :: "person_id option"
  aa_verifiable_capabilities :: "verifiable_capability list"
  aa_self_reported_skill_hints :: "string list"
  aa_parent_authorization_id :: "string option"
  aa_maintainer_person_id :: "person_id option"
  aa_created_at_ms :: i64
  aa_binding_id :: "string option"

definition subject_validate :: "agent_authorization \<Rightarrow> (error, unit) result" where
  "subject_validate a = (case aa_subject_kind a of
     SubjectPerson \<Rightarrow> refuse (aa_subject_id a \<noteq> aa_responsible_person_id a)
       (RuleViolation ''person subject_id must equal responsible_person_id'')
   | SubjectAgent \<Rightarrow> refuse (aa_binding_id a = None)
       (RuleViolation (''agent authorization requires an explicit person'' @ left_right_arrow
          @ ''agent binding_id''))
   | SubjectPlatformService \<Rightarrow>
       (case aa_maintainer_person_id a of
          None \<Rightarrow> Inl (RuleViolation ''platform service account authorization requires a maintainer person'')
        | Some m \<Rightarrow> validate_id m ''maintainer_person_id''))"

definition authorization_validate :: "agent_authorization \<Rightarrow> (error, unit) result" where
  "authorization_validate a =
     run_checks
       [validate_id (aa_id a) ''authorization_id'',
        validate_id (aa_authorizer_person_id a) ''authorizer_person_id'',
        validate_id (aa_responsible_person_id a) ''responsible_person_id'',
        validate_id (aa_subject_id a) ''subject_id'',
        validate_id (aa_client_id a) ''client_id'',
        check_some (\<lambda>s. validate_id s ''session_id'') (aa_session_id a),
        check_some (\<lambda>m. validate_id m ''model_id'') (aa_model_id a),
        check_some (\<lambda>b. validate_id b ''binding_id'') (aa_binding_id a),
        check_some (\<lambda>p. validate_id p ''parent_authorization_id'') (aa_parent_authorization_id a),
        scope_validate (aa_scope a),
        refuse (aa_actions a = {})
          (InvalidInput ''authorization requires at least one explicit action''),
        refuse (card (aa_actions a) > 32)
          (InvalidInput ''authorization actions exceed the 32-action bound''),
        refuse (length (aa_verifiable_capabilities a) > 64)
          (InvalidInput ''verifiable_capabilities exceed the 64-item bound''),
        run_checks (map capability_validate (aa_verifiable_capabilities a)),
        refuse (length (aa_self_reported_skill_hints a) > 32)
          (InvalidInput ''self_reported_skill_hints exceed the 32-item bound''),
        run_checks (map (\<lambda>h. refuse (trim_empty h \<or> length h > 256)
            (InvalidInput ''self_reported_skill_hints require bounded non-empty strings''))
          (aa_self_reported_skill_hints a)),
        refuse (aa_created_at_ms a < 0) (InvalidInput ''created_at_ms must be non-negative''),
        check_some (\<lambda>e. refuse (e < aa_created_at_ms a)
            (InvalidInput ''expires_at_ms must not precede created_at_ms'')) (aa_expires_at_ms a),
        subject_validate a,
        refuse (aa_status a = AuthRevoked \<and> (aa_revoked_at_ms a = None \<or> aa_revoked_by a = None))
          (InvalidInput ''revoked authorization requires revoked_at_ms and revoked_by'')]"

definition is_effective_at :: "agent_authorization \<Rightarrow> i64 \<Rightarrow> bool" where
  "is_effective_at a now_ms \<longleftrightarrow>
     aa_status a = AuthActive
     \<and> (case aa_expires_at_ms a of None \<Rightarrow> True | Some e \<Rightarrow> \<not> now_ms \<ge> e)"

definition permits :: "agent_authorization \<Rightarrow> authorized_action \<Rightarrow> bool" where
  "permits a action \<longleftrightarrow> action \<in> aa_actions a"

definition covers_task ::
  "agent_authorization \<Rightarrow> string \<Rightarrow> string \<Rightarrow> string option \<Rightarrow> bool" where
  "covers_task a project_id work_item_id task_workstream_id \<longleftrightarrow>
     scope_project_id (aa_scope a) = project_id
     \<and> (case aa_scope a of
          ScopeProject _ \<Rightarrow> True
        | ScopeWorkstream _ w \<Rightarrow> task_workstream_id = Some w
        | ScopeTask _ scoped \<Rightarrow> scoped = work_item_id
        | ScopeTaskPool _ pool \<Rightarrow> in_pool pool work_item_id)"

record issue_authorization_request =
  iar_request_key :: string
  iar_authorization :: agent_authorization

record revoke_authorization_request =
  rar_request_key :: string
  rar_authorization_id :: string
  rar_revoked_by :: person_id
  rar_revoked_at_ms :: i64
  rar_reason :: string

record delegate_authorization_request =
  dar_request_key :: string
  dar_parent_authorization_id :: string
  dar_child :: agent_authorization

definition validate_issue :: "issue_authorization_request \<Rightarrow> (error, unit) result" where
  "validate_issue req =
     run_checks
       [validate_request_key (iar_request_key req),
        authorization_validate (iar_authorization req),
        refuse (aa_status (iar_authorization req) \<noteq> AuthActive)
          (InvalidInput ''newly issued authorization must be active''),
        refuse (aa_revoked_at_ms (iar_authorization req) \<noteq> None
                \<or> aa_revoked_by (iar_authorization req) \<noteq> None)
          (InvalidInput ''newly issued authorization must not carry revoke metadata'')]"

definition require_authorization_project :: "agent_authorization \<Rightarrow> string \<Rightarrow> (error, unit) result" where
  "require_authorization_project a project_id =
     refuse (scope_project_id (aa_scope a) \<noteq> project_id)
       (RuleViolation ''authorization scope project does not match the addressed project'')"

definition apply_revoke ::
  "agent_authorization \<Rightarrow> revoke_authorization_request \<Rightarrow> (error, agent_authorization) result" where
  "apply_revoke a req =
     then_ok
       (run_checks
         [validate_request_key (rar_request_key req),
          validate_id (rar_authorization_id req) ''authorization_id'',
          validate_id (rar_revoked_by req) ''revoked_by'',
          refuse (trim_empty (rar_reason req) \<or> length (rar_reason req) > 2048)
            (InvalidInput ''revoke reason requires 1..2048 bytes''),
          refuse (aa_id a \<noteq> rar_authorization_id req)
            (NotFound ''authorization id does not match the loaded grant'')])
       (if aa_status a = AuthRevoked then Inr a
        else
          then_ok (refuse (\<not> (rar_revoked_by req = aa_authorizer_person_id a
                \<or> rar_revoked_by req = aa_responsible_person_id a
                \<or> aa_maintainer_person_id a = Some (rar_revoked_by req)))
              (RuleViolation ''revoke requires authorizer, responsible person, or platform maintainer''))
            (let next_auth = a\<lparr>aa_status := AuthRevoked, aa_revoked_at_ms := Some (rar_revoked_at_ms req),
                   aa_revoked_by := Some (rar_revoked_by req)\<rparr>
             in then_ok (authorization_validate next_auth) (Inr next_auth)))"

definition apply_delegate ::
  "agent_authorization \<Rightarrow> delegate_authorization_request \<Rightarrow> i64 \<Rightarrow> (error, agent_authorization) result" where
  "apply_delegate parent req now_ms =
     (let child = (dar_child req)\<lparr>aa_parent_authorization_id := Some (aa_id parent)\<rparr> in
      then_ok
        (run_checks
          [validate_request_key (dar_request_key req),
           refuse (aa_id parent \<noteq> dar_parent_authorization_id req)
             (NotFound ''parent authorization id does not match the loaded grant''),
           refuse (\<not> is_effective_at parent now_ms)
             (RuleViolation ''cannot delegate from a revoked or expired authorization''),
           refuse (\<not> (permits parent ManageAuthorization \<or> permits parent OccupyCollaboratively
                      \<or> permits parent StartWork))
             (RuleViolation ''parent authorization cannot create child agent grants''),
           authorization_validate child,
           refuse (aa_responsible_person_id child \<noteq> aa_responsible_person_id parent)
             (RuleViolation ''delegation cannot transfer responsibility to a different person''),
           refuse (aa_authorizer_person_id child \<noteq> aa_responsible_person_id parent
                   \<and> aa_authorizer_person_id child \<noteq> aa_authorizer_person_id parent)
             (RuleViolation ''child authorizer must be the parent responsible person or parent authorizer''),
           refuse (\<not> aa_actions child \<subseteq> aa_actions parent)
             (RuleViolation ''delegation cannot escalate actions beyond the parent grant''),
           refuse (aa_scope child \<noteq> aa_scope parent \<and> \<not> is_within (aa_scope child) (aa_scope parent))
             (RuleViolation ''delegation cannot widen authorization scope''),
           (case (aa_expires_at_ms parent, aa_expires_at_ms child) of
              (Some p, Some c) \<Rightarrow> refuse (c > p)
                (RuleViolation ''delegation cannot extend expiry beyond the parent grant'')
            | (Some _, None) \<Rightarrow>
                Inl (RuleViolation ''delegation from an expiring parent requires a child expiry'')
            | _ \<Rightarrow> Inr ()),
           refuse (aa_status child \<noteq> AuthActive)
             (InvalidInput ''delegated child must be issued as active'')])
        (Inr child))"

definition bind_runtime_identity ::
  "agent_authorization \<Rightarrow> string \<Rightarrow> string option \<Rightarrow> string option \<Rightarrow> i64 \<Rightarrow> (error, unit) result" where
  "bind_runtime_identity a client_id session_id model_id now_ms =
     run_checks
       [validate_id client_id ''client_id'',
        check_some (\<lambda>s. validate_id s ''session_id'') session_id,
        check_some (\<lambda>m. validate_id m ''model_id'') model_id,
        refuse (\<not> is_effective_at a now_ms)
          (RuleViolation ''model/client/session change cannot bypass revoke or expiry''),
        refuse (aa_client_id a \<noteq> client_id)
          (RuleViolation ''client change requires a new explicit authorization; it cannot reuse a foreign grant''),
        check_some (\<lambda>bound. refuse (session_id \<noteq> Some bound)
            (RuleViolation ''session change cannot reuse a session-bound authorization''))
          (aa_session_id a)]"

section \<open>Claim eligibility\<close>

datatype claim_decision_kind = ResponsibilityAccept | CollaborativeOccupancy | StartWorkAdmission

datatype (plugins only: code size) claim_eligibility_factor =
    MembershipOk string u64
  | MembershipMissing string string
  | DelegationOk string
  | DelegationMissing string
  | DelegationInactive string string
  | AssignmentPolicyOk string
  | AssignmentPolicyDenied string string
  | ResourceOk string
  | ResourceUnavailable string string
  | HostCapabilityVerified string string
  | HostCapabilityMissing string string
  | ConcurrentExecutorPresent string string
  | ConcurrentExecutorClear
  | DependenciesMet
  | DependenciesUnmet string
  | SelfReportedSkillHintIgnored string
  | ReviewerSeparationOk
  | ReviewerSeparationViolated string

record decision_outcome =
  do_kind :: claim_decision_kind
  do_allowed :: bool
  do_reasons :: "claim_eligibility_factor list"

record claim_eligibility_explanation =
  ce_project_id :: string
  ce_work_item_id :: string
  ce_candidate_person_id :: person_id
  ce_authorization_id :: "string option"
  ce_responsibility_accept :: decision_outcome
  ce_collaborative_occupancy :: decision_outcome
  ce_start_work_admission :: decision_outcome
  ce_skill_hints_ignored :: "string list"

record claim_evaluation_input =
  ci_project_id :: string
  ci_work_item_id :: string
  ci_task_workstream_id :: "string option"
  ci_candidate_person :: person_id
  ci_authorization :: "agent_authorization option"
  ci_now_ms :: i64
  ci_is_project_member :: bool
  ci_membership_version :: u64
  ci_assignment_policy :: string
  ci_assignment_policy_allows :: bool
  ci_required_resources :: "string list"
  ci_available_resource_ids :: "string set"
  ci_required_host_capabilities :: "string list"
  ci_verified_host_capabilities :: "string set"
  ci_host_id :: string
  ci_dependencies_satisfied :: bool
  ci_task :: task_responsibility
  ci_requested_executor :: execution_instance

definition delegation_factor :: "claim_evaluation_input \<Rightarrow> claim_eligibility_factor \<times> bool" where
  "delegation_factor i = (case ci_authorization i of
     Some a \<Rightarrow>
       if \<not> is_effective_at a (ci_now_ms i) then
         (DelegationInactive (aa_id a) ''authorization revoked or expired'', False)
       else if aa_responsible_person_id a \<noteq> ci_candidate_person i then
         (DelegationInactive (aa_id a) ''authorization responsible person does not match candidate'', False)
       else if \<not> covers_task a (ci_project_id i) (ci_work_item_id i) (ci_task_workstream_id i) then
         (DelegationInactive (aa_id a) ''authorization scope does not cover this task'', False)
       else (DelegationOk (aa_id a), True)
   | None \<Rightarrow>
       (case ci_requested_executor i of
          ExecAgentRun _ _ _ \<Rightarrow>
            (DelegationMissing ''agent execution requires an explicit agent authorization'', False)
        | ExecPerson p \<Rightarrow>
            if p = ci_candidate_person i then (DelegationOk ''person-direct'', True)
            else (DelegationMissing ''executor person does not match candidate'', False)))"

definition resource_factors :: "claim_evaluation_input \<Rightarrow> claim_eligibility_factor list" where
  "resource_factors i = map (\<lambda>r.
     if r \<in> ci_available_resource_ids i then ResourceOk r
     else ResourceUnavailable r ''required resource is not available to the candidate'')
     (ci_required_resources i)"

definition host_factors :: "claim_evaluation_input \<Rightarrow> claim_eligibility_factor list" where
  "host_factors i = map (\<lambda>c.
     if c \<in> ci_verified_host_capabilities i then HostCapabilityVerified (ci_host_id i) c
     else HostCapabilityMissing c
       ''host capability is not verified; self-reported skills are not proof'')
     (ci_required_host_capabilities i)"

definition reviewer_factor :: "claim_evaluation_input \<Rightarrow> claim_eligibility_factor \<times> bool" where
  "reviewer_factor i =
     (if tr_independent_reviewer (ci_task i) = Some (ci_candidate_person i)
         \<and> tr_owner (ci_task i) = Some (ci_candidate_person i)
      then (ReviewerSeparationViolated ''independent reviewer must differ from the sole owner'', False)
      else (ReviewerSeparationOk, True))"

definition concurrent_factor :: "claim_evaluation_input \<Rightarrow> claim_eligibility_factor \<times> bool" where
  "concurrent_factor i = (case tr_current_executor (ci_task i) of
     Some e \<Rightarrow>
       if exec_person e \<noteq> ci_candidate_person i then
         (ConcurrentExecutorPresent (exec_person e)
            ''another execution instance holds the task; only one effective executor'', False)
       else (ConcurrentExecutorClear, True)
   | None \<Rightarrow> (ConcurrentExecutorClear, True))"

definition skill_hints :: "claim_evaluation_input \<Rightarrow> string list" where
  "skill_hints i = (case ci_authorization i of None \<Rightarrow> [] | Some a \<Rightarrow> aa_self_reported_skill_hints a)"

definition shared_factors :: "claim_evaluation_input \<Rightarrow> claim_eligibility_factor list" where
  "shared_factors i =
     map SelfReportedSkillHintIgnored (skill_hints i)
     @ [if ci_is_project_member i then MembershipOk (ci_project_id i) (ci_membership_version i)
        else MembershipMissing (ci_project_id i) ''candidate is not an active project member'']
     @ [fst (delegation_factor i)]
     @ [if ci_assignment_policy_allows i then AssignmentPolicyOk (ci_assignment_policy i)
        else AssignmentPolicyDenied (ci_assignment_policy i)
          ''assignment policy does not permit this candidate'']
     @ resource_factors i
     @ host_factors i
     @ [fst (reviewer_factor i)]
     @ [fst (concurrent_factor i)]
     @ [if ci_dependencies_satisfied i then DependenciesMet
        else DependenciesUnmet
          ''dependencies unmet: ownership may be assigned, but start-work is not admitted'']"

definition authorization_allows ::
  "claim_evaluation_input \<Rightarrow> (agent_authorization \<Rightarrow> bool) \<Rightarrow> bool" where
  "authorization_allows i f = (case ci_authorization i of None \<Rightarrow> True | Some a \<Rightarrow> f a)"

definition base_ok :: "claim_evaluation_input \<Rightarrow> bool" where
  "base_ok i \<longleftrightarrow>
     ci_is_project_member i
     \<and> snd (delegation_factor i)
     \<and> ci_assignment_policy_allows i
     \<and> list_all (\<lambda>r. r \<in> ci_available_resource_ids i) (ci_required_resources i)
     \<and> list_all (\<lambda>c. c \<in> ci_verified_host_capabilities i) (ci_required_host_capabilities i)
     \<and> snd (reviewer_factor i)"

definition explain_claim_eligibility ::
  "claim_evaluation_input \<Rightarrow> (error, claim_eligibility_explanation) result" where
  "explain_claim_eligibility i =
     then_ok
       (run_checks
         [validate_id (ci_project_id i) ''project_id'',
          validate_id (ci_work_item_id i) ''work_item_id''])
       (let shared = shared_factors i;
            accept_allowed = (base_ok i \<and> authorization_allows i (\<lambda>a. permits a AcceptResponsibility));
            occupy_allowed = (base_ok i
              \<and> authorization_allows i (\<lambda>a. permits a OccupyCollaboratively \<or> permits a ClaimCoordination)
              \<and> snd (concurrent_factor i));
            start_allowed = (base_ok i \<and> authorization_allows i (\<lambda>a. permits a StartWork)
              \<and> snd (concurrent_factor i) \<and> ci_dependencies_satisfied i)
        in Inr \<lparr>ce_project_id = ci_project_id i,
             ce_work_item_id = ci_work_item_id i,
             ce_candidate_person_id = ci_candidate_person i,
             ce_authorization_id = map_option aa_id (ci_authorization i),
             ce_responsibility_accept =
               \<lparr>do_kind = ResponsibilityAccept, do_allowed = accept_allowed, do_reasons = shared\<rparr>,
             ce_collaborative_occupancy =
               \<lparr>do_kind = CollaborativeOccupancy, do_allowed = occupy_allowed, do_reasons = shared\<rparr>,
             ce_start_work_admission =
               \<lparr>do_kind = StartWorkAdmission, do_allowed = start_allowed, do_reasons = shared\<rparr>,
             ce_skill_hints_ignored = skill_hints i\<rparr>)"

definition resolve_single_effective_executor ::
  "task_responsibility \<Rightarrow> person_id \<Rightarrow> bool \<Rightarrow> (error, person_id option) result" where
  "resolve_single_effective_executor task candidate occupancy_allowed =
     (case tr_current_executor task of
        Some existing \<Rightarrow> Inr (Some (exec_person existing))
      | None \<Rightarrow> if occupancy_allowed then Inr (Some candidate) else Inr None)"

section \<open>Scopes form a preorder\<close>

lemma is_within_refl: "is_within s s"
  by (cases s) (auto simp: is_within_def)

lemma is_within_trans: "is_within a b \<Longrightarrow> is_within b c \<Longrightarrow> is_within a c"
  by (cases a; cases b; cases c) (auto simp: is_within_def)

definition scope_covers :: "authorization_scope \<Rightarrow> string \<Rightarrow> string \<Rightarrow> string option \<Rightarrow> bool" where
  "scope_covers s project item stream \<longleftrightarrow> scope_project_id s = project
     \<and> (case s of ScopeProject _ \<Rightarrow> True | ScopeWorkstream _ w \<Rightarrow> stream = Some w
        | ScopeTask _ t \<Rightarrow> t = item | ScopeTaskPool _ pool \<Rightarrow> in_pool pool item)"

lemma covers_task_scope: "covers_task a p w s \<longleftrightarrow> scope_covers (aa_scope a) p w s"
  by (simp add: covers_task_def scope_covers_def)

lemma scope_covers_mono: "is_within a b \<Longrightarrow> scope_covers a p w s \<Longrightarrow> scope_covers b p w s"
  by (cases a; cases b) (auto simp: is_within_def scope_covers_def)

section \<open>The interface of narrowing delegation\<close>

text \<open>
  A grant allows requests; a derivation step never makes the derived grant allow a request its
  parent does not. Whole chains of derivations then allow no more than their root.
\<close>

locale narrowing_grants =
  fixes allows :: "'g \<Rightarrow> 'r \<Rightarrow> bool" and derives :: "'g \<Rightarrow> 'g \<Rightarrow> bool"
  assumes derives_sound: "derives p c \<Longrightarrow> allows c r \<Longrightarrow> allows p r"
begin

lemma chain_sound: "derives\<^sup>*\<^sup>* root g \<Longrightarrow> allows g r \<Longrightarrow> allows root r"
  by (induction rule: converse_rtranclp_induct) (auto intro: derives_sound)

lemma chain_denies: "derives\<^sup>*\<^sup>* root g \<Longrightarrow> \<not> allows root r \<Longrightarrow> \<not> allows g r"
  using chain_sound by blast

end

text \<open>What a grant allows: an action on a task at a time before its expiry, for one person.\<close>

record access_request =
  rq_person :: person_id
  rq_project :: string
  rq_item :: string
  rq_stream :: "string option"
  rq_action :: authorized_action
  rq_at_ms :: i64

definition grant_allows :: "agent_authorization \<Rightarrow> access_request \<Rightarrow> bool" where
  "grant_allows a r \<longleftrightarrow> aa_responsible_person_id a = rq_person r \<and> permits a (rq_action r)
     \<and> covers_task a (rq_project r) (rq_item r) (rq_stream r)
     \<and> (\<forall>e. aa_expires_at_ms a = Some e \<longrightarrow> rq_at_ms r < e)"

inductive delegated :: "agent_authorization \<Rightarrow> agent_authorization \<Rightarrow> bool" where
  delegatedI: "apply_delegate parent req now_ms = Inr child \<Longrightarrow> delegated parent child"

inductive_cases delegatedE: "delegated parent child"

lemma apply_delegate_ok:
  assumes "apply_delegate parent req now_ms = Inr child"
  shows "is_effective_at parent now_ms" and "authorization_validate child = Inr ()"
    and "aa_responsible_person_id child = aa_responsible_person_id parent"
    and "aa_actions child \<subseteq> aa_actions parent"
    and "is_within (aa_scope child) (aa_scope parent)"
    and "aa_expires_at_ms parent = Some p \<Longrightarrow> \<exists>c. aa_expires_at_ms child = Some c \<and> c \<le> p"
    and "aa_status child = AuthActive" and "aa_parent_authorization_id child = Some (aa_id parent)"
  using assms
  by (auto simp: apply_delegate_def Let_def is_within_refl split: option.splits)

lemma delegated_allows:
  assumes "delegated parent child" and "grant_allows child r"
  shows "grant_allows parent r"
proof -
  from assms(1) obtain req now_ms where d: "apply_delegate parent req now_ms = Inr child"
    by (auto elim: delegatedE)
  note ok = apply_delegate_ok[OF d]
  have "rq_at_ms r < p" if p: "aa_expires_at_ms parent = Some p" for p
    using ok(6)[OF p] assms(2) by (auto simp: grant_allows_def)
  moreover have "covers_task parent (rq_project r) (rq_item r) (rq_stream r)"
    using assms(2) ok(5) by (auto simp: grant_allows_def covers_task_scope intro: scope_covers_mono)
  ultimately show ?thesis using assms(2) ok(3,4) by (auto simp: grant_allows_def permits_def)
qed

interpretation delegation: narrowing_grants grant_allows delegated
  by unfold_locales (rule delegated_allows)

section \<open>Properties\<close>

definition ex_grant :: agent_authorization where
  "ex_grant = \<lparr>aa_id = ''auth-1'', aa_authorizer_person_id = ''alice'', aa_responsible_person_id = ''bob'',
     aa_subject_kind = SubjectAgent, aa_subject_id = ''agent-bob'', aa_client_id = ''client-1'',
     aa_session_id = Some ''sess-1'', aa_model_id = None, aa_scope = ScopeTaskPool ''proj'' ''web'',
     aa_actions = {StartWork, AcceptResponsibility}, aa_expires_at_ms = Some 10000,
     aa_status = AuthActive, aa_revoked_at_ms = None, aa_revoked_by = None,
     aa_verifiable_capabilities = [], aa_self_reported_skill_hints = [''rust''],
     aa_parent_authorization_id = None, aa_maintainer_person_id = None, aa_created_at_ms = 1000,
     aa_binding_id = Some ''bind-1''\<rparr>"

definition ex_child :: agent_authorization where
  "ex_child = ex_grant\<lparr>aa_id := ''auth-2'', aa_authorizer_person_id := ''bob'',
     aa_scope := ScopeTask ''proj'' ''web/1'', aa_actions := {StartWork}, aa_expires_at_ms := Some 5000\<rparr>"

definition ex_delegate :: delegate_authorization_request where
  "ex_delegate = \<lparr>dar_request_key = ''k'', dar_parent_authorization_id = ''auth-1'', dar_child = ex_child\<rparr>"

lemma ex_delegated:
  "apply_delegate ex_grant ex_delegate 2000 = Inr (ex_child\<lparr>aa_parent_authorization_id := Some ''auth-1''\<rparr>)"
  by code_simp

text \<open>
  C4: Delegation never escalates, over chains of any length: whatever a derived authorization allows
  (an action, on a task, at a time, for a responsible person) its root allows too, and the scope of
  every derived grant is nested in the root's.
\<close>
theorem delegation_chain_never_escalates:
  assumes "delegated\<^sup>*\<^sup>* root g"
  shows "(\<forall>r. grant_allows g r \<longrightarrow> grant_allows root r)
    \<and> aa_actions g \<subseteq> aa_actions root \<and> is_within (aa_scope g) (aa_scope root)
    \<and> aa_responsible_person_id g = aa_responsible_person_id root
    \<and> (\<forall>p. aa_expires_at_ms root = Some p \<longrightarrow> (\<exists>c. aa_expires_at_ms g = Some c \<and> c \<le> p))"
proof -
  have "aa_actions g \<subseteq> aa_actions root \<and> is_within (aa_scope g) (aa_scope root)
    \<and> aa_responsible_person_id g = aa_responsible_person_id root
    \<and> (\<forall>p. aa_expires_at_ms root = Some p \<longrightarrow> (\<exists>c. aa_expires_at_ms g = Some c \<and> c \<le> p))"
    using assms
  proof (induction rule: rtranclp_induct)
    case base
    then show ?case by (simp add: is_within_refl)
  next
    case (step h g)
    then obtain req now_ms where d: "apply_delegate h req now_ms = Inr g" by (auto elim: delegatedE)
    note ok = apply_delegate_ok[OF d]
    have "\<exists>c. aa_expires_at_ms g = Some c \<and> c \<le> p" if "aa_expires_at_ms root = Some p" for p
      using step.IH that ok(6) by (metis order_trans)
    with step.IH ok(3,4) is_within_trans[OF ok(5)] show ?case by auto
  qed
  with delegation.chain_sound[OF assms] show ?thesis by blast
qed

theorem delegation_chain_never_escalates_witness:
  "delegated\<^sup>*\<^sup>* ex_grant (ex_child\<lparr>aa_parent_authorization_id := Some ''auth-1''\<rparr>)
   \<and> is_within (ScopeTask ''proj'' ''web/1'') (ScopeTaskPool ''proj'' ''web'')"
proof -
  have chain: "delegated\<^sup>*\<^sup>* ex_grant (ex_child\<lparr>aa_parent_authorization_id := Some ''auth-1''\<rparr>)"
    using delegatedI[OF ex_delegated] by blast
  from delegation_chain_never_escalates[OF chain] chain show ?thesis
    by (simp add: ex_child_def ex_grant_def)
qed

definition ex_input :: claim_evaluation_input where
  "ex_input = \<lparr>ci_project_id = ''proj'', ci_work_item_id = ''web/1'', ci_task_workstream_id = None,
     ci_candidate_person = ''bob'', ci_authorization = Some ex_grant, ci_now_ms = 2000,
     ci_is_project_member = True, ci_membership_version = 3, ci_assignment_policy = ''pool-open'',
     ci_assignment_policy_allows = True, ci_required_resources = [''cpu''],
     ci_available_resource_ids = {''cpu''}, ci_required_host_capabilities = [],
     ci_verified_host_capabilities = {}, ci_host_id = ''host-1'', ci_dependencies_satisfied = True,
     ci_task = unassigned ''proj'' ''web/1'', ci_requested_executor = ExecAgentRun ''bob'' ''agent-bob'' ''bind-1''\<rparr>"

text \<open>
  Starting work is admitted exactly when the candidate is a member the policy allows, holds an
  effective authorization for this task that permits starting work (or acts in person, without an
  agent), all required resources and verified host capabilities are present, no other person
  executes the task and the dependencies are satisfied. Unmet dependencies alone never block
  accepting responsibility.
\<close>
theorem start_work_admission_exact:
  assumes "explain_claim_eligibility i = Inr ex"
  shows "(do_allowed (ce_start_work_admission ex) \<longleftrightarrow>
      ci_is_project_member i \<and> ci_assignment_policy_allows i \<and> ci_dependencies_satisfied i
      \<and> (case ci_authorization i of
           Some a \<Rightarrow> is_effective_at a (ci_now_ms i)
             \<and> grant_allows a \<lparr>rq_person = ci_candidate_person i, rq_project = ci_project_id i,
                 rq_item = ci_work_item_id i, rq_stream = ci_task_workstream_id i,
                 rq_action = StartWork, rq_at_ms = ci_now_ms i\<rparr>
         | None \<Rightarrow> ci_requested_executor i = ExecPerson (ci_candidate_person i))
      \<and> set (ci_required_resources i) \<subseteq> ci_available_resource_ids i
      \<and> set (ci_required_host_capabilities i) \<subseteq> ci_verified_host_capabilities i
      \<and> (\<forall>e. tr_current_executor (ci_task i) = Some e \<longrightarrow> exec_person e = ci_candidate_person i)
      \<and> \<not> (tr_independent_reviewer (ci_task i) = Some (ci_candidate_person i)
             \<and> tr_owner (ci_task i) = Some (ci_candidate_person i)))
    \<and> is_ok (explain_claim_eligibility (i\<lparr>ci_dependencies_satisfied := d\<rparr>))
    \<and> (\<forall>ex'. explain_claim_eligibility (i\<lparr>ci_dependencies_satisfied := d\<rparr>) = Inr ex' \<longrightarrow>
         do_allowed (ce_responsibility_accept ex') = do_allowed (ce_responsibility_accept ex))"
proof -
  have ids: "valid_id (ci_project_id i)" "valid_id (ci_work_item_id i)"
    and start: "do_allowed (ce_start_work_admission ex) \<longleftrightarrow> base_ok i
      \<and> authorization_allows i (\<lambda>a. permits a StartWork) \<and> snd (concurrent_factor i) \<and> ci_dependencies_satisfied i"
    and accept: "do_allowed (ce_responsibility_accept ex) \<longleftrightarrow>
      base_ok i \<and> authorization_allows i (\<lambda>a. permits a AcceptResponsibility)"
    using assms by (auto simp: explain_claim_eligibility_def Let_def)
  have del: "snd (delegation_factor i) \<and> authorization_allows i (\<lambda>a. permits a StartWork) \<longleftrightarrow>
      (case ci_authorization i of
           Some a \<Rightarrow> is_effective_at a (ci_now_ms i)
             \<and> grant_allows a \<lparr>rq_person = ci_candidate_person i, rq_project = ci_project_id i,
                 rq_item = ci_work_item_id i, rq_stream = ci_task_workstream_id i,
                 rq_action = StartWork, rq_at_ms = ci_now_ms i\<rparr>
         | None \<Rightarrow> ci_requested_executor i = ExecPerson (ci_candidate_person i))"
    by (auto simp: delegation_factor_def authorization_allows_def grant_allows_def is_effective_at_def
        split: option.splits execution_instance.splits if_splits)
  have conc: "snd (concurrent_factor i) \<longleftrightarrow>
      (\<forall>e. tr_current_executor (ci_task i) = Some e \<longrightarrow> exec_person e = ci_candidate_person i)"
    by (auto simp: concurrent_factor_def split: option.splits)
  have rev: "snd (reviewer_factor i) \<longleftrightarrow> \<not> (tr_independent_reviewer (ci_task i) = Some (ci_candidate_person i)
             \<and> tr_owner (ci_task i) = Some (ci_candidate_person i))"
    by (auto simp: reviewer_factor_def)
  have same: "base_ok (i\<lparr>ci_dependencies_satisfied := d\<rparr>) = base_ok i"
    "authorization_allows (i\<lparr>ci_dependencies_satisfied := d\<rparr>) f = authorization_allows i f" for f
    by (auto simp: base_ok_def delegation_factor_def reviewer_factor_def authorization_allows_def
        split: option.splits execution_instance.splits)
  have "do_allowed (ce_start_work_admission ex) \<longleftrightarrow>
      ci_is_project_member i \<and> ci_assignment_policy_allows i \<and> ci_dependencies_satisfied i
      \<and> (snd (delegation_factor i) \<and> authorization_allows i (\<lambda>a. permits a StartWork))
      \<and> set (ci_required_resources i) \<subseteq> ci_available_resource_ids i
      \<and> set (ci_required_host_capabilities i) \<subseteq> ci_verified_host_capabilities i
      \<and> snd (concurrent_factor i) \<and> snd (reviewer_factor i)"
    unfolding start base_ok_def by (auto simp: list_all_iff)
  moreover have "is_ok (explain_claim_eligibility (i\<lparr>ci_dependencies_satisfied := d\<rparr>))"
    using ids by (simp add: explain_claim_eligibility_def is_ok_iff Let_def)
  moreover have "\<forall>ex'. explain_claim_eligibility (i\<lparr>ci_dependencies_satisfied := d\<rparr>) = Inr ex' \<longrightarrow>
         do_allowed (ce_responsibility_accept ex') = do_allowed (ce_responsibility_accept ex)"
    by (auto simp: explain_claim_eligibility_def Let_def same accept)
  ultimately show ?thesis unfolding del conc rev by blast
qed

theorem start_work_admission_exact_witness:
  "\<exists>ex. explain_claim_eligibility ex_input = Inr ex \<and> do_allowed (ce_start_work_admission ex)
     \<and> is_ok (explain_claim_eligibility (ex_input\<lparr>ci_dependencies_satisfied := False\<rparr>))"
proof -
  have "map_sum id (\<lambda>ex. do_allowed (ce_start_work_admission ex)) (explain_claim_eligibility ex_input) = Inr True"
    by code_simp
  then obtain ex where ex: "explain_claim_eligibility ex_input = Inr ex" "do_allowed (ce_start_work_admission ex)"
    by (cases "explain_claim_eligibility ex_input") auto
  from start_work_admission_exact[OF ex(1), of False] ex show ?thesis by blast
qed

lemma revoked_not_effective: "aa_status a = AuthRevoked \<Longrightarrow> \<not> is_effective_at a now_ms"
  by (simp add: is_effective_at_def)

lemma apply_revoke_ok:
  assumes "apply_revoke a req = Inr b"
  shows "aa_status b = AuthRevoked"
    and "aa_status a \<noteq> AuthRevoked \<Longrightarrow>
       rar_revoked_by req \<in> {aa_authorizer_person_id a, aa_responsible_person_id a} \<union> set_option (aa_maintainer_person_id a)
       \<and> aa_revoked_by b = Some (rar_revoked_by req)"
    and "aa_status a = AuthRevoked \<Longrightarrow> b = a"
  using assms by (auto simp: apply_revoke_def Let_def split: if_splits)

text \<open>
  A revocation is made by the authorizer, the responsible person or the maintainer and is final:
  the revoked authorization is effective at no time, binds to no client, session or model, is never
  the root of a delegation, admits no decision, and further revocations leave it as it is.
\<close>
theorem authorization_revocation_is_final:
  assumes "apply_revoke a req = Inr b"
  shows "(aa_status a \<noteq> AuthRevoked \<longrightarrow> rar_revoked_by req \<in>
        {aa_authorizer_person_id a, aa_responsible_person_id a} \<union> set_option (aa_maintainer_person_id a))
    \<and> (\<forall>now. \<not> is_effective_at b now)
    \<and> (\<forall>client session model now. \<not> is_ok (bind_runtime_identity b client session model now))
    \<and> (\<forall>child. \<not> delegated b child)
    \<and> (\<forall>req' c. apply_revoke b req' = Inr c \<longrightarrow> c = b)
    \<and> (\<forall>i ex. ci_authorization i = Some b \<and> explain_claim_eligibility i = Inr ex \<longrightarrow>
         \<not> do_allowed (ce_responsibility_accept ex) \<and> \<not> do_allowed (ce_collaborative_occupancy ex)
         \<and> \<not> do_allowed (ce_start_work_admission ex))"
proof -
  note ok = apply_revoke_ok[OF assms]
  have eff: "\<not> is_effective_at b now" for now using ok(1) by (rule revoked_not_effective)
  have "\<not> delegated b child" for child
    using eff by (auto elim!: delegatedE dest!: apply_delegate_ok(1))
  moreover have "\<not> is_ok (bind_runtime_identity b client session model now)" for client session model now
    using eff by (auto simp: bind_runtime_identity_def is_ok_iff)
  moreover have "\<not> base_ok i" if "ci_authorization i = Some b" for i
    using eff that by (simp add: base_ok_def delegation_factor_def)
  then have "\<not> do_allowed (ce_responsibility_accept ex) \<and> \<not> do_allowed (ce_collaborative_occupancy ex)
         \<and> \<not> do_allowed (ce_start_work_admission ex)"
    if "ci_authorization i = Some b \<and> explain_claim_eligibility i = Inr ex" for i ex
    using that by (auto simp: explain_claim_eligibility_def Let_def)
  moreover have "c = b" if "apply_revoke b req' = Inr c" for req' c
    using apply_revoke_ok(3)[OF that ok(1)] .
  ultimately show ?thesis using ok(2) eff by blast
qed

theorem authorization_revocation_is_final_witness:
  "\<exists>b. apply_revoke ex_grant \<lparr>rar_request_key = ''k'', rar_authorization_id = ''auth-1'',
        rar_revoked_by = ''alice'', rar_revoked_at_ms = 3000, rar_reason = ''left''\<rparr> = Inr b
     \<and> \<not> is_effective_at b 2000"
proof -
  let ?r = "apply_revoke ex_grant \<lparr>rar_request_key = ''k'', rar_authorization_id = ''auth-1'',
        rar_revoked_by = ''alice'', rar_revoked_at_ms = 3000, rar_reason = ''left''\<rparr>"
  have "is_ok ?r" by code_simp
  then obtain b where b: "?r = Inr b" by (auto simp: is_ok_iff)
  from authorization_revocation_is_final[OF b] b show ?thesis by blast
qed

text \<open>
  The action names round-trip: every action parses back from its name, and nothing else parses,
  so an unknown action is denied.
\<close>
theorem action_names_round_trip:
  "action_parse s = Inr a \<longleftrightarrow> s = action_as_str a"
proof
  assume "action_parse s = Inr a"
  then show "s = action_as_str a"
    unfolding action_parse_def by (auto simp del: list.inject split: if_splits)
next
  assume "s = action_as_str a"
  then show "action_parse s = Inr a" by (cases a) (simp_all add: action_parse_def)
qed

section \<open>Observed deviations\<close>

text \<open>
  On a well-formed task the reviewer check of the eligibility decision always passes, because the
  owner already differs from the reviewer: the independent reviewer is admitted to execute the work.
\<close>

lemma reviewer_separation_never_fires:
  "validate_structure (ci_task i) = Inr () \<Longrightarrow> reviewer_factor i = (ReviewerSeparationOk, True)"
  by (auto simp: reviewer_factor_def validate_structure_ok)

lemma reviewer_may_start_work:
  "map_sum id (\<lambda>ex. do_allowed (ce_start_work_admission ex)) (explain_claim_eligibility
     (ex_input\<lparr>ci_task := (unassigned ''proj'' ''web/1'')\<lparr>tr_independent_reviewer := Some ''bob''\<rparr>\<rparr>)) = Inr True"
  by code_simp

end
