(* ===== verification/Team_Handoff.thy ===== *)
theory Team_Handoff
  imports Task_Responsibility
begin

text \<open>
  \<^verbatim>\<open>crates/awr-core/src/team_handoff.rs\<close>: the confirmed hand-off of a task from one person to another,
  as a state machine on the hand-off record, with the duties each status implies.
\<close>

section \<open>Data\<close>

datatype handoff_kind = HkExecution | HkResponsibility

datatype handoff_status = HsProposed | HsInspected | HsAccepted | HsRejected | HsCancelled | HsTimedOut

fun is_terminal :: "handoff_status \<Rightarrow> bool" where
  "is_terminal HsAccepted = True"
| "is_terminal HsRejected = True"
| "is_terminal HsCancelled = True"
| "is_terminal HsTimedOut = True"
| "is_terminal _ = False"

fun is_open :: "handoff_status \<Rightarrow> bool" where
  "is_open HsProposed = True"
| "is_open HsInspected = True"
| "is_open _ = False"

record handoff_duty =
  duty_responsible_person_id :: person_id
  duty_may_continue_person_id :: person_id
  duty_recovery_duty_person_id :: person_id
  duty_successor_may_execute :: bool
  duty_context_requires_refresh :: bool
  duty_note :: string

record artifact_version_ref =
  av_artifact_id :: string
  av_version :: string

record handoff_package =
  pk_task_id :: string
  pk_contract_version :: string
  pk_contract_hash :: string
  pk_current_person_id :: person_id
  pk_current_execution :: execution_instance
  pk_consumed_context_digest :: string
  pk_checkpoint_ids :: "string list"
  pk_artifact_versions :: "artifact_version_ref list"
  pk_branch_id :: "string option"
  pk_working_directory :: "string option"
  pk_dependency_ids :: "string list"
  pk_todos :: "string list"
  pk_awaiting_replies :: "string list"
  pk_unknown_side_effects :: "string list"

record team_handoff =
  th_id :: string
  th_project_id :: string
  th_work_item_id :: string
  th_kind :: handoff_kind
  th_status :: handoff_status
  th_version :: u64
  th_package :: handoff_package
  th_from_person_id :: person_id
  th_to_person_id :: person_id
  th_proposed_successor :: "execution_instance option"
  th_accepted_successor :: "execution_instance option"
  th_proposer_execution_id :: "string option"
  th_proposer_fence :: "i64 option"
  th_expires_at_ms :: "i64 option"
  th_created_at_ms :: i64
  th_updated_at_ms :: i64
  th_inspected_at_ms :: "i64 option"
  th_terminal_at_ms :: "i64 option"
  th_terminal_reason :: "string option"
  th_accept_request_key :: "string option"

record propose_handoff_request =
  ph_request_key :: string
  ph_handoff_id :: string
  ph_kind :: handoff_kind
  ph_package :: handoff_package
  ph_to_person_id :: person_id
  ph_proposed_successor :: "execution_instance option"
  ph_proposer_execution_id :: "string option"
  ph_proposer_fence :: "i64 option"
  ph_expires_at_ms :: "i64 option"
  ph_now_ms :: i64

record inspect_handoff_request =
  ih_request_key :: string
  ih_handoff_id :: string
  ih_expected_version :: u64
  ih_inspector_person_id :: person_id
  ih_now_ms :: i64

record accept_handoff_request =
  ah_request_key :: string
  ah_handoff_id :: string
  ah_expected_version :: u64
  ah_acceptor_person_id :: person_id
  ah_successor_execution :: execution_instance
  ah_prior_execution_stopped :: bool
  ah_prior_reconciled :: bool
  ah_context_reprepared :: bool
  ah_expected_current_fence :: "i64 option"
  ah_live_fence :: "i64 option"
  ah_unknown_executions_open :: bool
  ah_now_ms :: i64

record close_handoff_request =
  ch_request_key :: string
  ch_handoff_id :: string
  ch_expected_version :: u64
  ch_by_person_id :: person_id
  ch_reason :: string
  ch_now_ms :: i64

record timeout_handoff_request =
  to_request_key :: string
  to_handoff_id :: string
  to_expected_version :: u64
  to_now_ms :: i64

record handoff_receipt =
  hr_request_key :: string
  hr_handoff_id :: string
  hr_op :: string
  hr_event_id :: string
  hr_replayed :: bool
  hr_status :: handoff_status
  hr_version :: u64
  hr_duty :: handoff_duty

section \<open>Validation\<close>

text \<open>This module has its own, stricter identity check.\<close>

definition validate_handoff_id :: "string \<Rightarrow> string \<Rightarrow> (error, unit) result" where
  "validate_handoff_id v field =
     run_checks
       [refuse (v = [] \<or> length v > 128 \<or> has_control v)
          (InvalidInput (field @ '' must be 1..=128 chars without controls'')),
        refuse (has_whitespace v) (InvalidInput (field @ '' must not contain whitespace''))]"

definition validate_handoff_request_key :: "string \<Rightarrow> (error, unit) result" where
  "validate_handoff_request_key key =
     refuse (key = [] \<or> length key > 128 \<or> has_control key)
       (InvalidInput ''request_key must be 1..=128 chars without controls'')"

definition validate_digest :: "string \<Rightarrow> string \<Rightarrow> (error, unit) result" where
  "validate_digest label v =
     refuse (length v \<noteq> 64 \<or> \<not> list_all is_lower_hex v)
       (InvalidInput (label @ '' must be 64 lowercase hex chars''))"

definition package_validate :: "handoff_package \<Rightarrow> (error, unit) result" where
  "package_validate p =
     run_checks
       [validate_handoff_id (pk_task_id p) ''task_id'',
        refuse (pk_contract_version p = [] \<or> length (pk_contract_version p) > 128)
          (InvalidInput ''contract_version required (1..=128)''),
        validate_digest ''contract_hash'' (pk_contract_hash p),
        validate_handoff_id (pk_current_person_id p) ''current_person_id'',
        exec_validate (pk_current_execution p),
        refuse (exec_person (pk_current_execution p) \<noteq> pk_current_person_id p)
          (InvalidInput ''package current_execution must match current_person_id''),
        validate_digest ''consumed_context_digest'' (pk_consumed_context_digest p),
        refuse (pk_checkpoint_ids p = [])
          (InvalidInput ''handoff package requires at least one checkpoint''),
        refuse (length (pk_checkpoint_ids p) > 64
                \<or> length (pk_artifact_versions p) > 128
                \<or> length (pk_dependency_ids p) > 128
                \<or> length (pk_todos p) > 64
                \<or> length (pk_awaiting_replies p) > 64
                \<or> length (pk_unknown_side_effects p) > 64)
          (InvalidInput ''handoff package collection bounds exceeded''),
        run_checks (map (\<lambda>i. validate_handoff_id i ''checkpoint_id'') (pk_checkpoint_ids p)),
        run_checks (map (\<lambda>a. run_checks
            [validate_handoff_id (av_artifact_id a) ''artifact_id'',
             refuse (av_version a = [] \<or> length (av_version a) > 128)
               (InvalidInput ''artifact version required'')]) (pk_artifact_versions p)),
        run_checks (map (\<lambda>i. validate_handoff_id i ''dependency_id'') (pk_dependency_ids p)),
        run_checks (map (\<lambda>t. refuse (trim_empty t \<or> length t > 4096 \<or> contains_nul t)
            (InvalidInput ''todo/awaiting/unknown entries must be nonempty <=4096 without NUL''))
          (pk_todos p @ pk_awaiting_replies p @ pk_unknown_side_effects p)),
        check_some (\<lambda>b. validate_handoff_id b ''branch_id'') (pk_branch_id p),
        check_some (\<lambda>d. refuse (d = [] \<or> length d > 4096 \<or> contains_nul d)
            (InvalidInput ''working_directory invalid'')) (pk_working_directory p)]"

section \<open>Duties\<close>

definition note_open :: string where
  "note_open = ''proposal open; original retains responsibility and recovery; receiver must re-prepare before accept''"

definition note_execution :: string where
  "note_execution = ''execution handoff accepted; ownership unchanged; successor may continue after re-prepare''"

definition note_responsibility :: string where
  "note_responsibility = ''responsibility transferred; execution admission requires a separate execution handoff or claim''"

definition note_closed :: string where
  "note_closed = ''handoff closed without transfer; original keeps responsibility and recovery duty; timeout does not stop execution''"

definition duty_at :: "team_handoff \<Rightarrow> i64 \<Rightarrow> (error, handoff_duty) result" where
  "duty_at h now_ms =
     (if is_open (th_status h) then
        Inr \<lparr>duty_responsible_person_id = th_from_person_id h,
          duty_may_continue_person_id = th_from_person_id h,
          duty_recovery_duty_person_id = th_from_person_id h,
          duty_successor_may_execute = False,
          duty_context_requires_refresh = True, duty_note = note_open\<rparr>
      else if th_status h = HsAccepted then
        (case th_kind h of
           HkExecution \<Rightarrow>
             (let successor = (case th_accepted_successor h of
                                 Some e \<Rightarrow> exec_person e | None \<Rightarrow> th_to_person_id h)
              in Inr \<lparr>duty_responsible_person_id = th_from_person_id h,
                   duty_may_continue_person_id = successor,
                   duty_recovery_duty_person_id = successor,
                   duty_successor_may_execute = True,
                   duty_context_requires_refresh = True, duty_note = note_execution\<rparr>)
         | HkResponsibility \<Rightarrow>
             Inr \<lparr>duty_responsible_person_id = th_to_person_id h,
               duty_may_continue_person_id = th_to_person_id h,
               duty_recovery_duty_person_id = th_to_person_id h,
               duty_successor_may_execute = False,
               duty_context_requires_refresh = True, duty_note = note_responsibility\<rparr>)
      else
        Inr \<lparr>duty_responsible_person_id = th_from_person_id h,
          duty_may_continue_person_id = th_from_person_id h,
          duty_recovery_duty_person_id = th_from_person_id h,
          duty_successor_may_execute = False,
          duty_context_requires_refresh = False, duty_note = note_closed\<rparr>)"

section \<open>Transitions\<close>

definition handoff_bump :: "u64 \<Rightarrow> (error, u64) result" where
  "handoff_bump v = ok_or (checked_add v 1) (InvalidInput ''handoff version overflow'')"

definition require_version :: "team_handoff \<Rightarrow> u64 \<Rightarrow> (error, unit) result" where
  "require_version h expected =
     refuse (th_version h \<noteq> expected) (RevisionConflict expected (th_version h))"

definition apply_handoff_propose ::
  "string \<Rightarrow> string \<Rightarrow> person_id \<Rightarrow> propose_handoff_request \<Rightarrow> (error, team_handoff) result" where
  "apply_handoff_propose project_id work_item_id from_person req =
     then_ok
       (run_checks
         [validate_handoff_request_key (ph_request_key req),
          validate_handoff_id (ph_handoff_id req) ''handoff_id'',
          validate_handoff_id project_id ''project_id'',
          validate_handoff_id work_item_id ''work_item_id'',
          package_validate (ph_package req),
          refuse (pk_task_id (ph_package req) \<noteq> work_item_id)
            (InvalidInput ''package.task_id must match work item''),
          refuse (pk_current_person_id (ph_package req) \<noteq> from_person)
            (RuleViolation ''proposer must be the package current person''),
          refuse (ph_to_person_id req = from_person \<and> ph_kind req = HkResponsibility)
            (InvalidInput ''responsibility transfer requires a different person''),
          check_some (\<lambda>successor. run_checks
              [exec_validate successor,
               refuse (exec_person successor \<noteq> ph_to_person_id req)
                 (case ph_kind req of
                    HkExecution \<Rightarrow> InvalidInput ''proposed successor person must match to_person_id''
                  | HkResponsibility \<Rightarrow>
                      InvalidInput ''responsibility successor must be the receiving person'')])
            (ph_proposed_successor req),
          check_some (\<lambda>e. refuse (e \<le> ph_now_ms req)
              (InvalidInput ''expires_at_ms must be in the future'')) (ph_expires_at_ms req)])
       (Inr \<lparr>th_id = ph_handoff_id req, th_project_id = project_id, th_work_item_id = work_item_id,
          th_kind = ph_kind req, th_status = HsProposed, th_version = 1, th_package = ph_package req,
          th_from_person_id = from_person, th_to_person_id = ph_to_person_id req,
          th_proposed_successor = ph_proposed_successor req, th_accepted_successor = None,
          th_proposer_execution_id = ph_proposer_execution_id req,
          th_proposer_fence = ph_proposer_fence req, th_expires_at_ms = ph_expires_at_ms req,
          th_created_at_ms = ph_now_ms req, th_updated_at_ms = ph_now_ms req,
          th_inspected_at_ms = None, th_terminal_at_ms = None, th_terminal_reason = None,
          th_accept_request_key = None\<rparr>)"

definition apply_handoff_inspect ::
  "team_handoff \<Rightarrow> inspect_handoff_request \<Rightarrow> (error, team_handoff) result" where
  "apply_handoff_inspect h req =
     then_ok
       (run_checks
         [validate_handoff_request_key (ih_request_key req),
          require_version h (ih_expected_version req),
          refuse (th_id h \<noteq> ih_handoff_id req) (NotFound ''handoff id mismatch''),
          refuse (\<not> is_open (th_status h)) (RuleViolation ''only open handoffs can be inspected''),
          refuse (ih_inspector_person_id req \<noteq> th_to_person_id h
                  \<and> ih_inspector_person_id req \<noteq> th_from_person_id h)
            (RuleViolation ''only proposer or designated receiver may inspect'')])
       (if th_status h = HsProposed then
          and_then (handoff_bump (th_version h))
            (\<lambda>v. Inr (h\<lparr>th_status := HsInspected, th_inspected_at_ms := Some (ih_now_ms req),
               th_version := v, th_updated_at_ms := ih_now_ms req\<rparr>))
        else Inr h)"

definition fence_check :: "i64 option \<Rightarrow> i64 option \<Rightarrow> (error, unit) result" where
  "fence_check expected live = (case (expected, live) of
     (Some e, Some l) \<Rightarrow> refuse (e \<noteq> l)
       (ClaimConflict ''stale fence: late write under old fence cannot become current handoff result'')
   | (Some _, None) \<Rightarrow>
       Inl (InvalidInput ''expected_current_fence and live_fence must both be set or both omitted'')
   | (None, Some _) \<Rightarrow>
       Inl (InvalidInput ''expected_current_fence and live_fence must both be set or both omitted'')
   | (None, None) \<Rightarrow> Inr ())"

definition same_accept_request :: "team_handoff \<Rightarrow> accept_handoff_request \<Rightarrow> bool" where
  "same_accept_request h req \<longleftrightarrow>
     th_accept_request_key h = Some (ah_request_key req)
     \<and> th_accepted_successor h = Some (ah_successor_execution req)
     \<and> th_to_person_id h = ah_acceptor_person_id req"

definition apply_handoff_accept ::
  "team_handoff \<Rightarrow> accept_handoff_request \<Rightarrow> (error, team_handoff) result" where
  "apply_handoff_accept h req =
     then_ok
       (run_checks
         [validate_handoff_request_key (ah_request_key req),
          refuse (th_id h \<noteq> ah_handoff_id req) (NotFound ''handoff id mismatch'')])
       (if th_status h = HsAccepted then
          then_ok (refuse (\<not> same_accept_request h req)
              (ClaimConflict ''handoff already accepted by another request'')) (Inr h)
        else
          then_ok
            (run_checks
              [require_version h (ah_expected_version req),
               refuse (\<not> is_open (th_status h)) (RuleViolation ''handoff is not open for accept''),
               refuse (ah_acceptor_person_id req \<noteq> th_to_person_id h)
                 (RuleViolation ''only the designated receiver may accept''),
               refuse (\<not> ah_context_reprepared req)
                 (RuleViolation ''receiver must re-prepare current context before accept; chat summary is insufficient''),
               refuse (ah_unknown_executions_open req)
                 (RuleViolation ''unknown executions must be reconciled before granting successor execution''),
               refuse (\<not> (ah_prior_execution_stopped req \<or> ah_prior_reconciled req))
                 (RuleViolation ''prior execution must be stopped or its results reconciled before accept''),
               fence_check (ah_expected_current_fence req) (ah_live_fence req),
               exec_validate (ah_successor_execution req),
               refuse (exec_person (ah_successor_execution req) \<noteq> ah_acceptor_person_id req)
                 (InvalidInput ''successor execution must be bound to the accepting person''),
               check_some (\<lambda>p. refuse (exec_person p \<noteq> exec_person (ah_successor_execution req))
                   (RuleViolation ''accepted successor person must match the proposed target person''))
                 (th_proposed_successor h),
               check_some (\<lambda>e. refuse (ah_now_ms req \<ge> e)
                   (RuleViolation (''handoff proposal expired; use timeout path '' @ em_dash
                      @ '' original retains responsibility''))) (th_expires_at_ms h)])
            (and_then (handoff_bump (th_version h))
              (\<lambda>v. Inr (h\<lparr>th_status := HsAccepted,
                 th_accepted_successor := Some (ah_successor_execution req),
                 th_accept_request_key := Some (ah_request_key req),
                 th_terminal_at_ms := Some (ah_now_ms req),
                 th_terminal_reason := Some ''accepted'',
                 th_version := v,
                 th_updated_at_ms := ah_now_ms req\<rparr>))))"

definition close_as :: "team_handoff \<Rightarrow> handoff_status \<Rightarrow> string \<Rightarrow> i64 \<Rightarrow> (error, team_handoff) result" where
  "close_as h status reason now_ms =
     and_then (handoff_bump (th_version h))
       (\<lambda>v. Inr (h\<lparr>th_status := status, th_terminal_at_ms := Some now_ms,
          th_terminal_reason := Some reason, th_version := v, th_updated_at_ms := now_ms\<rparr>))"

definition apply_handoff_reject ::
  "team_handoff \<Rightarrow> close_handoff_request \<Rightarrow> (error, team_handoff) result" where
  "apply_handoff_reject h req =
     then_ok
       (run_checks
         [validate_handoff_request_key (ch_request_key req),
          require_version h (ch_expected_version req),
          refuse (\<not> is_open (th_status h)) (RuleViolation ''handoff is not open''),
          refuse (ch_by_person_id req \<noteq> th_to_person_id h)
            (RuleViolation ''only the designated receiver may reject''),
          refuse (trim_empty (ch_reason req) \<or> length (ch_reason req) > 2048)
            (InvalidInput ''reject reason required'')])
       (close_as h HsRejected (ch_reason req) (ch_now_ms req))"

definition apply_handoff_cancel ::
  "team_handoff \<Rightarrow> close_handoff_request \<Rightarrow> (error, team_handoff) result" where
  "apply_handoff_cancel h req =
     then_ok
       (run_checks
         [validate_handoff_request_key (ch_request_key req),
          require_version h (ch_expected_version req),
          refuse (\<not> is_open (th_status h)) (RuleViolation ''handoff is not open''),
          refuse (ch_by_person_id req \<noteq> th_from_person_id h)
            (RuleViolation ''only the proposer may cancel''),
          refuse (trim_empty (ch_reason req) \<or> length (ch_reason req) > 2048)
            (InvalidInput ''cancel reason required'')])
       (close_as h HsCancelled (ch_reason req) (ch_now_ms req))"

definition apply_handoff_timeout ::
  "team_handoff \<Rightarrow> timeout_handoff_request \<Rightarrow> (error, team_handoff) result" where
  "apply_handoff_timeout h req =
     then_ok
       (run_checks
         [validate_handoff_request_key (to_request_key req),
          require_version h (to_expected_version req),
          refuse (\<not> is_open (th_status h)) (RuleViolation ''handoff is not open''),
          (case th_expires_at_ms h of
             None \<Rightarrow> Inl (RuleViolation ''handoff has no expiry; cannot timeout'')
           | Some e \<Rightarrow> refuse (to_now_ms req < e)
               (RuleViolation ''handoff expiry not reached; timeout refused''))])
       (close_as h HsTimedOut
         ''proposal expired; original retains responsibility and recovery; execution not stopped''
         (to_now_ms req))"

definition resolve_concurrent_accept :: "team_handoff \<Rightarrow> string \<Rightarrow> (error, unit) result" where
  "resolve_concurrent_accept first contender_request_key =
     run_checks
       [refuse (th_status first \<noteq> HsAccepted)
          (RuleViolation ''resolve_concurrent_accept requires an accepted handoff''),
        refuse (th_accept_request_key first \<noteq> Some contender_request_key)
          (ClaimConflict ''exactly one concurrent accept is effective; contender discarded'')]"

section \<open>The operations as one state machine\<close>

datatype handoff_op =
    HInspect inspect_handoff_request
  | HAccept accept_handoff_request
  | HReject close_handoff_request
  | HCancel close_handoff_request
  | HTimeout timeout_handoff_request

fun apply_handoff_op :: "team_handoff \<Rightarrow> handoff_op \<Rightarrow> (error, team_handoff) result" where
  "apply_handoff_op h (HInspect r) = apply_handoff_inspect h r"
| "apply_handoff_op h (HAccept r) = apply_handoff_accept h r"
| "apply_handoff_op h (HReject r) = apply_handoff_reject h r"
| "apply_handoff_op h (HCancel r) = apply_handoff_cancel h r"
| "apply_handoff_op h (HTimeout r) = apply_handoff_timeout h r"

text \<open>A step is an operation that changes the record; a replayed one is not a step.\<close>

inductive handoff_step :: "team_handoff \<Rightarrow> team_handoff \<Rightarrow> bool" where
  handoff_stepI: "apply_handoff_op h op = Inr h' \<Longrightarrow> h' \<noteq> h \<Longrightarrow> handoff_step h h'"

inductive_cases handoff_stepE: "handoff_step h h'"

section \<open>Characterisations\<close>

lemma handoff_bump_ok [simp]: "handoff_bump v = Inr w \<longleftrightarrow> unat v + 1 < 2 ^ 64 \<and> w = v + 1"
  by (simp add: handoff_bump_def)

lemma handoff_bump_Suc: "handoff_bump v = Inr w \<Longrightarrow> unat w = Suc (unat v)"
  using checked_add_unat[of v 1 w] by (simp add: handoff_bump_def)

lemma require_version_ok [simp]: "require_version h v = Inr u \<longleftrightarrow> th_version h = v"
  by (simp add: require_version_def)

lemma fence_check_ok [simp]: "fence_check e l = Inr u \<longleftrightarrow> e = l"
  by (auto simp: fence_check_def split: option.splits)

lemma open_iff_not_terminal: "is_open s \<longleftrightarrow> \<not> is_terminal s"
  by (cases s) auto

lemmas handoff_defs = apply_handoff_inspect_def apply_handoff_accept_def apply_handoff_reject_def
  apply_handoff_cancel_def apply_handoff_timeout_def close_as_def

text \<open>What the status says about the other fields.\<close>

definition handoff_wf :: "team_handoff \<Rightarrow> bool" where
  "handoff_wf h \<longleftrightarrow>
     (is_terminal (th_status h) \<longleftrightarrow> th_terminal_at_ms h \<noteq> None)
     \<and> (th_status h = HsAccepted \<longleftrightarrow> th_accept_request_key h \<noteq> None)
     \<and> (th_status h = HsAccepted \<longleftrightarrow> th_accepted_successor h \<noteq> None)
     \<and> (\<forall>e. th_accepted_successor h = Some e \<longrightarrow> exec_person e = th_to_person_id h \<and> exec_validate e = Inr ())
     \<and> (th_kind h = HkResponsibility \<longrightarrow> th_to_person_id h \<noteq> th_from_person_id h)
     \<and> pk_current_person_id (th_package h) = th_from_person_id h"

text \<open>The fields no operation changes.\<close>

definition same_proposal :: "team_handoff \<Rightarrow> team_handoff \<Rightarrow> bool" where
  "same_proposal h h' \<longleftrightarrow> th_id h' = th_id h \<and> th_project_id h' = th_project_id h
     \<and> th_work_item_id h' = th_work_item_id h \<and> th_kind h' = th_kind h \<and> th_package h' = th_package h
     \<and> th_from_person_id h' = th_from_person_id h \<and> th_to_person_id h' = th_to_person_id h
     \<and> th_proposed_successor h' = th_proposed_successor h \<and> th_expires_at_ms h' = th_expires_at_ms h
     \<and> th_created_at_ms h' = th_created_at_ms h"

lemma propose_ok:
  assumes "apply_handoff_propose p w from req = Inr h"
  shows "handoff_wf h" "th_status h = HsProposed" "th_version h = 1" "th_from_person_id h = from"
    "th_id h = ph_handoff_id req" "th_work_item_id h = w" "th_project_id h = p"
  using assms by (auto simp: apply_handoff_propose_def handoff_wf_def)

lemma close_as_ok:
  "close_as h s m t = Inr h' \<longleftrightarrow> (\<exists>v. handoff_bump (th_version h) = Inr v
     \<and> h' = h\<lparr>th_status := s, th_terminal_at_ms := Some t, th_terminal_reason := Some m, th_version := v,
               th_updated_at_ms := t\<rparr>)"
  by (auto simp: close_as_def simp del: handoff_bump_ok)

text \<open>An operation that succeeds returns the record as it was, or moves an open one on.\<close>

lemma op_effect:
  assumes "apply_handoff_op h op = Inr h'"
  obtains (replayed) "h' = h"
  | (inspected) v t where "is_open (th_status h)" "handoff_bump (th_version h) = Inr v"
      "h' = h\<lparr>th_status := HsInspected, th_inspected_at_ms := Some t, th_version := v, th_updated_at_ms := t\<rparr>"
  | (accepted) v t e k where "is_open (th_status h)" "handoff_bump (th_version h) = Inr v"
      "exec_validate e = Inr ()" "exec_person e = th_to_person_id h"
      "h' = h\<lparr>th_status := HsAccepted, th_accepted_successor := Some e, th_accept_request_key := Some k,
         th_terminal_at_ms := Some t, th_terminal_reason := Some ''accepted'', th_version := v, th_updated_at_ms := t\<rparr>"
  | (closed) v s m t where "is_open (th_status h)" "handoff_bump (th_version h) = Inr v"
      "is_terminal s" "s \<noteq> HsAccepted"
      "h' = h\<lparr>th_status := s, th_terminal_at_ms := Some t, th_terminal_reason := Some m, th_version := v, th_updated_at_ms := t\<rparr>"
proof (cases op)
  case (HInspect r)
  with assms show ?thesis
    by (cases "th_status h = HsProposed") (auto simp: apply_handoff_inspect_def simp del: handoff_bump_ok intro: replayed inspected)
next
  case (HAccept r)
  with assms show ?thesis
    by (cases "th_status h = HsAccepted") (auto simp: apply_handoff_accept_def simp del: handoff_bump_ok intro: replayed accepted)
next
  case (HReject r)
  with assms obtain m t where "is_open (th_status h)" "close_as h HsRejected m t = Inr h'"
    by (auto simp: apply_handoff_reject_def)
  then show ?thesis by (auto simp: close_as_ok simp del: handoff_bump_ok intro: closed[where s = HsRejected])
next
  case (HCancel r)
  with assms obtain m t where "is_open (th_status h)" "close_as h HsCancelled m t = Inr h'"
    by (auto simp: apply_handoff_cancel_def)
  then show ?thesis by (auto simp: close_as_ok simp del: handoff_bump_ok intro: closed[where s = HsCancelled])
next
  case (HTimeout r)
  with assms obtain m t where "is_open (th_status h)" "close_as h HsTimedOut m t = Inr h'"
    by (auto simp: apply_handoff_timeout_def)
  then show ?thesis by (auto simp: close_as_ok simp del: handoff_bump_ok intro: closed[where s = HsTimedOut])
qed

lemma op_preserves:
  assumes "apply_handoff_op h op = Inr h'"
  shows "same_proposal h h'" and "handoff_wf h \<Longrightarrow> handoff_wf h'"
proof -
  show "same_proposal h h'" by (rule op_effect[OF assms]) (simp_all add: same_proposal_def)
  have pending: "th_status h \<noteq> HsAccepted" "\<not> is_terminal (th_status h)" if "is_open (th_status h)"
    using that by (cases "th_status h"; simp)+
  show "handoff_wf h'" if "handoff_wf h"
    using that by (cases rule: op_effect[OF assms]) (auto simp: handoff_wf_def dest: pending)
qed

lemma op_version:
  assumes "apply_handoff_op h op = Inr h'" and "h' \<noteq> h"
  shows "handoff_bump (th_version h) = Inr (th_version h')" and "is_open (th_status h)"
  using assms(2) by (cases rule: op_effect[OF assms(1)]; simp)+

lemma handoff_step_version: "handoff_step h h' \<Longrightarrow> unat (th_version h') = Suc (unat (th_version h))"
  by (auto elim!: handoff_stepE dest: op_version(1) handoff_bump_Suc)

lemma handoff_step_open: "handoff_step h h' \<Longrightarrow> is_open (th_status h)"
  by (auto elim!: handoff_stepE dest: op_version(2))

lemma handoff_step_wf: "handoff_wf h \<Longrightarrow> handoff_step h h' \<Longrightarrow> handoff_wf h'"
  by (auto elim!: handoff_stepE dest: op_preserves(2))

interpretation handoff: versioned_steps handoff_step th_version handoff_wf
  by unfold_locales (auto intro: handoff_step_wf dest: handoff_step_version)

lemma reach_same_proposal: "handoff_step\<^sup>*\<^sup>* h h' \<Longrightarrow> same_proposal h h'"
proof (induction rule: rtranclp_induct)
  case base
  then show ?case by (simp add: same_proposal_def)
next
  case (step u v)
  then have "same_proposal u v" by (auto elim!: handoff_stepE dest: op_preserves(1))
  with step.IH show ?case by (simp add: same_proposal_def)
qed

lemma terminal_reach: "handoff_step\<^sup>*\<^sup>* h h' \<Longrightarrow> is_terminal (th_status h) \<Longrightarrow> h' = h"
  by (metis converse_rtranclpE handoff_step_open open_iff_not_terminal)

section \<open>Properties\<close>

definition ex_package :: handoff_package where
  "ex_package = \<lparr>pk_task_id = ''w1'', pk_contract_version = ''3'', pk_contract_hash = replicate 64 CHR ''a'',
     pk_current_person_id = ''alice'', pk_current_execution = ExecPerson ''alice'',
     pk_consumed_context_digest = replicate 64 CHR ''b'', pk_checkpoint_ids = [''cp-1''],
     pk_artifact_versions = [], pk_branch_id = None, pk_working_directory = None, pk_dependency_ids = [],
     pk_todos = [''finish''], pk_awaiting_replies = [], pk_unknown_side_effects = []\<rparr>"

definition ex_propose :: propose_handoff_request where
  "ex_propose = \<lparr>ph_request_key = ''p1'', ph_handoff_id = ''ho-1'', ph_kind = HkExecution,
     ph_package = ex_package, ph_to_person_id = ''bob'', ph_proposed_successor = None,
     ph_proposer_execution_id = None, ph_proposer_fence = Some 7, ph_expires_at_ms = Some 10000,
     ph_now_ms = 1000\<rparr>"

definition ex_accept :: accept_handoff_request where
  "ex_accept = \<lparr>ah_request_key = ''a1'', ah_handoff_id = ''ho-1'', ah_expected_version = 1,
     ah_acceptor_person_id = ''bob'', ah_successor_execution = ExecPerson ''bob'',
     ah_prior_execution_stopped = True, ah_prior_reconciled = False, ah_context_reprepared = True,
     ah_expected_current_fence = Some 7, ah_live_fence = Some 7, ah_unknown_executions_open = False,
     ah_now_ms = 2000\<rparr>"

definition ex_handoff :: team_handoff where
  "ex_handoff = \<lparr>th_id = ''ho-1'', th_project_id = ''proj'', th_work_item_id = ''w1'',
     th_kind = HkExecution, th_status = HsProposed, th_version = 1, th_package = ex_package,
     th_from_person_id = ''alice'', th_to_person_id = ''bob'', th_proposed_successor = None,
     th_accepted_successor = None, th_proposer_execution_id = None, th_proposer_fence = Some 7,
     th_expires_at_ms = Some 10000, th_created_at_ms = 1000, th_updated_at_ms = 1000,
     th_inspected_at_ms = None, th_terminal_at_ms = None, th_terminal_reason = None,
     th_accept_request_key = None\<rparr>"

definition ex_accepted :: team_handoff where
  "ex_accepted = ex_handoff\<lparr>th_status := HsAccepted, th_accepted_successor := Some (ExecPerson ''bob''),
     th_accept_request_key := Some ''a1'', th_terminal_at_ms := Some 2000,
     th_terminal_reason := Some ''accepted'', th_version := 2, th_updated_at_ms := 2000\<rparr>"

lemma ex_proposed: "apply_handoff_propose ''proj'' ''w1'' ''alice'' ex_propose = Inr ex_handoff"
  by code_simp

lemma ex_accepts: "apply_handoff_accept ex_handoff ex_accept = Inr ex_accepted"
  by code_simp

lemma ex_accept_step: "handoff_step ex_handoff ex_accepted"
  by (rule handoff_stepI[of _ "HAccept ex_accept"]) (use ex_accepts in \<open>simp_all add: ex_accepted_def ex_handoff_def\<close>)

text \<open>
  Along every history of a proposed hand-off the parties, the task, the package and the kind stay
  fixed, the version is one more than the number of changes, the accepted successor is recorded
  exactly when the hand-off is accepted and is the receiver, and a closed hand-off never changes again.
\<close>
theorem handoff_history_invariant:
  assumes "apply_handoff_propose project work from req = Inr h" and "(handoff_step ^^ n) h h'"
  shows "handoff_wf h' \<and> same_proposal h h' \<and> unat (th_version h') = 1 + n
    \<and> (\<forall>h''. is_terminal (th_status h') \<and> handoff_step\<^sup>*\<^sup>* h' h'' \<longrightarrow> h'' = h')"
proof -
  have reach: "handoff_step\<^sup>*\<^sup>* h h'" using assms(2) by (rule relpowp_imp_rtranclp)
  show ?thesis
    using handoff.reach_inv[OF reach propose_ok(1)[OF assms(1)]] reach_same_proposal[OF reach]
      handoff.steps_version[OF assms(2)] propose_ok(3)[OF assms(1)] terminal_reach
    by auto
qed

theorem handoff_history_invariant_witness:
  "(handoff_step ^^ 1) ex_handoff ex_accepted \<and> handoff_wf ex_accepted
   \<and> \<not> (\<exists>h. handoff_step ex_accepted h)"
proof -
  have step: "(handoff_step ^^ 1) ex_handoff ex_accepted" using ex_accept_step by (simp add: eq_OO)
  from handoff_history_invariant[OF ex_proposed step] step show ?thesis
    using handoff_step_open[of ex_accepted] by (auto simp: ex_accepted_def)
qed

text \<open>
  C5: Exactly one acceptance is effective. Once a hand-off is accepted, repeating the same request
  returns the same record whatever version it expects, and every other acceptance, now or later, is
  refused as a conflict.
\<close>
theorem single_effective_acceptance:
  assumes "apply_handoff_accept h req = Inr h1" and "is_open (th_status h)"
    and "handoff_step\<^sup>*\<^sup>* h1 u"
  shows "u = h1
    \<and> apply_handoff_accept u (req\<lparr>ah_expected_version := v\<rparr>) = Inr h1
    \<and> (ah_handoff_id other = th_id h1 \<and> validate_handoff_request_key (ah_request_key other) = Inr () \<longrightarrow>
        apply_handoff_accept u other =
          (if ah_request_key other = ah_request_key req
              \<and> ah_successor_execution other = ah_successor_execution req
              \<and> ah_acceptor_person_id other = ah_acceptor_person_id req
           then Inr h1
           else Inl (ClaimConflict ''handoff already accepted by another request'')))"
proof -
  have h1: "th_status h1 = HsAccepted" "th_accept_request_key h1 = Some (ah_request_key req)"
    "th_accepted_successor h1 = Some (ah_successor_execution req)"
    "th_to_person_id h1 = ah_acceptor_person_id req" "th_id h1 = ah_handoff_id req"
    "validate_handoff_request_key (ah_request_key req) = Inr ()"
    using assms(1,2) by (auto simp: apply_handoff_accept_def split: if_splits)
  have u: "u = h1" using terminal_reach[OF assms(3)] h1(1) by simp
  have "apply_handoff_accept h1 other =
      then_ok (run_checks [validate_handoff_request_key (ah_request_key other),
          refuse (th_id h1 \<noteq> ah_handoff_id other) (NotFound ''handoff id mismatch'')])
        (then_ok (refuse (\<not> same_accept_request h1 other)
          (ClaimConflict ''handoff already accepted by another request'')) (Inr h1))" for other
    using h1(1) by (simp add: apply_handoff_accept_def)
  then show ?thesis unfolding u using h1(2-)
    by (auto simp: same_accept_request_def)
qed

theorem single_effective_acceptance_witness:
  "apply_handoff_accept ex_handoff ex_accept = Inr ex_accepted
   \<and> apply_handoff_accept ex_accepted (ex_accept\<lparr>ah_expected_version := 9\<rparr>) = Inr ex_accepted"
proof -
  have "is_open (th_status ex_handoff)" by (simp add: ex_handoff_def)
  from single_effective_acceptance[OF ex_accepts this rtranclp.rtrancl_refl] ex_accepts show ?thesis by blast
qed

text \<open>
  Duty stays with the proposer until the receiver accepts: responsibility moves only by an accepted
  responsibility hand-off, the successor may execute only after an accepted execution hand-off, and an
  acceptance needs the designated receiver, a re-prepared context, no open unknown execution, the
  prior execution stopped or reconciled, the live fence and an unexpired proposal.
\<close>
theorem duty_moves_only_on_acceptance:
  assumes "apply_handoff_propose project work from req = Inr h" and "handoff_step\<^sup>*\<^sup>* h h'"
    and "duty_at h' now = Inr d"
  shows "(duty_responsible_person_id d \<noteq> from \<longrightarrow>
        th_status h' = HsAccepted \<and> th_kind h' = HkResponsibility
        \<and> duty_responsible_person_id d = th_to_person_id h')
    \<and> (duty_successor_may_execute d \<longleftrightarrow> th_status h' = HsAccepted \<and> th_kind h' = HkExecution)
    \<and> (th_status h' \<noteq> HsAccepted \<longrightarrow> duty_may_continue_person_id d = from \<and> duty_recovery_duty_person_id d = from)
    \<and> (th_status h' = HsAccepted \<longrightarrow> (\<exists>g a. handoff_step\<^sup>*\<^sup>* h g \<and> is_open (th_status g)
         \<and> apply_handoff_accept g a = Inr h'
         \<and> ah_acceptor_person_id a = th_to_person_id h' \<and> ah_context_reprepared a
         \<and> \<not> ah_unknown_executions_open a \<and> (ah_prior_execution_stopped a \<or> ah_prior_reconciled a)
         \<and> ah_expected_current_fence a = ah_live_fence a
         \<and> (\<forall>e. th_expires_at_ms h' = Some e \<longrightarrow> ah_now_ms a < e)))"
proof -
  have origin: "th_from_person_id h' = from"
    using reach_same_proposal[OF assms(2)] propose_ok(4)[OF assms(1)] by (simp add: same_proposal_def)
  have accepted: "\<exists>g a. handoff_step\<^sup>*\<^sup>* h g \<and> is_open (th_status g) \<and> apply_handoff_accept g a = Inr h'"
    if acc: "th_status h' = HsAccepted"
    using assms(2) acc
  proof (cases rule: rtranclp.cases)
    case rtrancl_refl
    with acc propose_ok(2)[OF assms(1)] show ?thesis by simp
  next
    case (rtrancl_into_rtrancl g)
    then obtain op where op: "apply_handoff_op g op = Inr h'" "h' \<noteq> g" by (auto elim: handoff_stepE)
    have "\<exists>a. op = HAccept a"
      using op acc op_version(2)[OF op] by (cases op) (auto simp: handoff_defs split: if_splits)
    with op have "\<exists>a. apply_handoff_accept g a = Inr h'" by auto
    with rtrancl_into_rtrancl(1) op_version(2)[OF op] show ?thesis by blast
  qed
  have guards: "ah_acceptor_person_id a = th_to_person_id h' \<and> ah_context_reprepared a
         \<and> \<not> ah_unknown_executions_open a \<and> (ah_prior_execution_stopped a \<or> ah_prior_reconciled a)
         \<and> ah_expected_current_fence a = ah_live_fence a
         \<and> (\<forall>e. th_expires_at_ms h' = Some e \<longrightarrow> ah_now_ms a < e)"
    if "is_open (th_status g)" "apply_handoff_accept g a = Inr h'" for g a
    using that by (auto simp: apply_handoff_accept_def split: if_splits)
  have duty: "(duty_responsible_person_id d \<noteq> from \<longrightarrow>
        th_status h' = HsAccepted \<and> th_kind h' = HkResponsibility
        \<and> duty_responsible_person_id d = th_to_person_id h')
    \<and> (duty_successor_may_execute d \<longleftrightarrow> th_status h' = HsAccepted \<and> th_kind h' = HkExecution)
    \<and> (th_status h' \<noteq> HsAccepted \<longrightarrow> duty_may_continue_person_id d = from \<and> duty_recovery_duty_person_id d = from)"
    using assms(3) origin
    by (cases "th_status h'"; cases "th_kind h'") (auto simp: duty_at_def Let_def)
  show ?thesis using duty accepted guards by blast
qed

theorem duty_moves_only_on_acceptance_witness:
  "\<exists>d. duty_at ex_accepted 3000 = Inr d \<and> duty_successor_may_execute d
     \<and> duty_responsible_person_id d = ''alice''"
proof -
  have "\<exists>d. duty_at ex_accepted 3000 = Inr d"
    by (simp add: duty_at_def ex_accepted_def ex_handoff_def Let_def)
  then obtain d where d: "duty_at ex_accepted 3000 = Inr d" by blast
  from duty_moves_only_on_acceptance[OF ex_proposed r_into_rtranclp[of handoff_step, OF ex_accept_step] d] d
  show ?thesis by (auto simp: ex_accepted_def ex_handoff_def)
qed

end
