(* ===== verification/Handoff_Store.thy ===== *)
theory Handoff_Store
  imports Team_Handoff Ordered_Map "HOL-Library.Product_Lexorder"
begin

text \<open>
  \<^verbatim>\<open>crates/awr-store/src/team_handoff.rs\<close> over the tables of \<^verbatim>\<open>migrations/011_team_handoff.sql\<close>. A
  table is a map from its primary key to the columns the code reads back; the constraints of the
  migration (the primary keys, \<open>version >= 1\<close>, at most one open hand-off per work item) are
  checked where SQLite checks them. The upsert keeps the \<open>work_item_id\<close> column of an existing row, as
  its \<open>DO UPDATE SET\<close> list does. The body column is the record itself: the JSON text is serde's.
  What is not in the repository is an argument: \<open>sql\<close> is the text of a constraint error,
  \<open>event_id\<close> the fresh identifier and \<open>project\<close> the printed project identifier. Statements run outside
  a transaction, so an operation returns the store also when it fails half-way.
\<close>

section \<open>Tables\<close>

record handoff_row =
  row_work_item_id :: string
  row_body :: team_handoff

record receipt_row =
  rr_handoff_id :: string
  rr_op :: string
  rr_event_id :: string

record handoff_store =
  st_handoffs :: "(string \<times> string, handoff_row) btree_map"
  st_receipts :: "(string \<times> string, receipt_row) btree_map"

definition get_team_handoff :: "handoff_store \<Rightarrow> string \<Rightarrow> string \<Rightarrow> team_handoff option" where
  "get_team_handoff st project i = map_option row_body (map_of (st_handoffs st) (project, i))"

text \<open>The row an upsert of \<open>h\<close> produces, and the constraints on it.\<close>

definition upsert_row :: "handoff_store \<Rightarrow> string \<Rightarrow> team_handoff \<Rightarrow> handoff_row" where
  "upsert_row st project h = (case map_of (st_handoffs st) (project, th_id h) of
     None \<Rightarrow> \<lparr>row_work_item_id = th_work_item_id h, row_body = h\<rparr>
   | Some old \<Rightarrow> old\<lparr>row_body := h\<rparr>)"

definition open_conflict :: "handoff_store \<Rightarrow> string \<Rightarrow> string \<Rightarrow> handoff_row \<Rightarrow> bool" where
  "open_conflict st project i row \<longleftrightarrow>
     is_open (th_status (row_body row))
     \<and> list_ex (\<lambda>((p, j), other). p = project \<and> j \<noteq> i
          \<and> row_work_item_id other = row_work_item_id row
          \<and> is_open (th_status (row_body other))) (st_handoffs st)"

definition persist ::
  "string \<Rightarrow> handoff_store \<Rightarrow> string \<Rightarrow> team_handoff \<Rightarrow> (error, handoff_store) result" where
  "persist sql st project h =
     (let row = upsert_row st project h in
      then_ok
        (run_checks
          [refuse (sint (th_version h) < 1) (StorageErr sql),
           refuse (open_conflict st project (th_id h) row) (StorageErr sql)])
        (Inr (st\<lparr>st_handoffs := bt_insert (project, th_id h) row (st_handoffs st)\<rparr>)))"

definition load_receipt ::
  "handoff_store \<Rightarrow> string \<Rightarrow> string \<Rightarrow> string \<Rightarrow> (error, handoff_receipt option) result" where
  "load_receipt st project request_key op =
     (case map_of (st_receipts st) (project, request_key) of
        None \<Rightarrow> Inr None
      | Some row \<Rightarrow>
          then_ok (refuse (rr_op row \<noteq> op)
              (InvalidInput (''request_key bound to op '' @ rr_op row @ '', not '' @ op)))
            (and_then (ok_or (get_team_handoff st project (rr_handoff_id row))
                (StorageErr ''handoff missing for receipt''))
              (\<lambda>h. and_then (duty_at h (th_updated_at_ms h))
                (\<lambda>duty. Inr (Some \<lparr>hr_request_key = request_key, hr_handoff_id = rr_handoff_id row,
                   hr_op = op, hr_event_id = rr_event_id row, hr_replayed = True,
                   hr_status = th_status h, hr_version = th_version h, hr_duty = duty\<rparr>)))))"

definition record_receipt ::
  "string \<Rightarrow> string \<Rightarrow> handoff_store \<Rightarrow> string \<Rightarrow> team_handoff \<Rightarrow> string \<Rightarrow> string \<Rightarrow>
     handoff_store \<times> (error, handoff_receipt) result" where
  "record_receipt sql event_id st project h request_key op =
     (if map_of (st_receipts st) (project, request_key) \<noteq> None then (st, Inl (StorageErr sql))
      else
        (st\<lparr>st_receipts := bt_insert (project, request_key)
              \<lparr>rr_handoff_id = th_id h, rr_op = op, rr_event_id = event_id\<rparr> (st_receipts st)\<rparr>,
         and_then (duty_at h (th_updated_at_ms h))
           (\<lambda>duty. Inr \<lparr>hr_request_key = request_key, hr_handoff_id = th_id h, hr_op = op,
              hr_event_id = event_id, hr_replayed = False, hr_status = th_status h,
              hr_version = th_version h, hr_duty = duty\<rparr>)))"

section \<open>Operations\<close>

type_synonym handoff_outcome = "handoff_store \<times> (error, team_handoff \<times> handoff_receipt) result"

definition persist_and_record ::
  "string \<Rightarrow> string \<Rightarrow> handoff_store \<Rightarrow> string \<Rightarrow> team_handoff \<Rightarrow> string \<Rightarrow> string \<Rightarrow> handoff_outcome" where
  "persist_and_record sql event_id st project h request_key op =
     (case persist sql st project h of
        Inl e \<Rightarrow> (st, Inl e)
      | Inr st1 \<Rightarrow>
          (case record_receipt sql event_id st1 project h request_key op of
             (st2, Inl e) \<Rightarrow> (st2, Inl e)
           | (st2, Inr receipt) \<Rightarrow> (st2, Inr (h, receipt))))"

definition propose_team_handoff ::
  "string \<Rightarrow> string \<Rightarrow> handoff_store \<Rightarrow> string \<Rightarrow> string \<Rightarrow> person_id \<Rightarrow> propose_handoff_request \<Rightarrow>
     handoff_outcome" where
  "propose_team_handoff sql event_id st project work_item_id from_person req =
     (case load_receipt st project (ph_request_key req) ''propose'' of
        Inl e \<Rightarrow> (st, Inl e)
      | Inr (Some receipt) \<Rightarrow>
          (st, and_then (ok_or (get_team_handoff st project (hr_handoff_id receipt))
                 (StorageErr ''handoff missing for receipt'')) (\<lambda>h. Inr (h, receipt)))
      | Inr None \<Rightarrow>
          (case apply_handoff_propose project work_item_id from_person req of
             Inl e \<Rightarrow> (st, Inl e)
           | Inr h \<Rightarrow> persist_and_record sql event_id st project h (ph_request_key req) ''propose''))"

definition mutate_handoff ::
  "string \<Rightarrow> string \<Rightarrow> handoff_store \<Rightarrow> string \<Rightarrow> string \<Rightarrow> string \<Rightarrow> string \<Rightarrow>
     (team_handoff \<Rightarrow> (error, team_handoff) result) \<Rightarrow> handoff_outcome" where
  "mutate_handoff sql event_id st project request_key op handoff_id f =
     (case load_receipt st project request_key op of
        Inl e \<Rightarrow> (st, Inl e)
      | Inr (Some receipt) \<Rightarrow>
          (st, then_ok (refuse (hr_handoff_id receipt \<noteq> handoff_id)
                 (InvalidInput ''request key was already used for a different handoff''))
             (and_then (ok_or (get_team_handoff st project (hr_handoff_id receipt))
                 (StorageErr ''handoff missing for receipt''))
               (\<lambda>h. then_ok
                  (if op = ''accept'' then and_then (f h)
                     (\<lambda>again. refuse (again \<noteq> h)
                        (InvalidInput ''request key replay does not match the stored handoff''))
                   else Inr ())
                  (Inr (h, receipt)))))
      | Inr None \<Rightarrow>
          (case and_then (ok_or (get_team_handoff st project handoff_id) (NotFound ''handoff not found'')) f of
             Inl e \<Rightarrow> (st, Inl e)
           | Inr h \<Rightarrow> persist_and_record sql event_id st project h request_key op))"

definition inspect_team_handoff ::
  "string \<Rightarrow> string \<Rightarrow> handoff_store \<Rightarrow> string \<Rightarrow> inspect_handoff_request \<Rightarrow> handoff_outcome" where
  "inspect_team_handoff sql event_id st project req =
     mutate_handoff sql event_id st project (ih_request_key req) ''inspect'' (ih_handoff_id req)
       (\<lambda>h. apply_handoff_inspect h req)"

definition accept_team_handoff ::
  "string \<Rightarrow> string \<Rightarrow> handoff_store \<Rightarrow> string \<Rightarrow> accept_handoff_request \<Rightarrow> handoff_outcome" where
  "accept_team_handoff sql event_id st project req =
     mutate_handoff sql event_id st project (ah_request_key req) ''accept'' (ah_handoff_id req)
       (\<lambda>h. apply_handoff_accept h req)"

definition reject_team_handoff ::
  "string \<Rightarrow> string \<Rightarrow> handoff_store \<Rightarrow> string \<Rightarrow> close_handoff_request \<Rightarrow> handoff_outcome" where
  "reject_team_handoff sql event_id st project req =
     mutate_handoff sql event_id st project (ch_request_key req) ''reject'' (ch_handoff_id req)
       (\<lambda>h. apply_handoff_reject h req)"

definition cancel_team_handoff ::
  "string \<Rightarrow> string \<Rightarrow> handoff_store \<Rightarrow> string \<Rightarrow> close_handoff_request \<Rightarrow> handoff_outcome" where
  "cancel_team_handoff sql event_id st project req =
     mutate_handoff sql event_id st project (ch_request_key req) ''cancel'' (ch_handoff_id req)
       (\<lambda>h. apply_handoff_cancel h req)"

definition timeout_team_handoff ::
  "string \<Rightarrow> string \<Rightarrow> handoff_store \<Rightarrow> string \<Rightarrow> timeout_handoff_request \<Rightarrow> handoff_outcome" where
  "timeout_team_handoff sql event_id st project req =
     mutate_handoff sql event_id st project (to_request_key req) ''timeout'' (to_handoff_id req)
       (\<lambda>h. apply_handoff_timeout h req)"

section \<open>The store as a state machine\<close>

datatype store_op =
    SPropose string person_id propose_handoff_request
  | SMutate handoff_op

fun op_request_key :: "handoff_op \<Rightarrow> string" where
  "op_request_key (HInspect r) = ih_request_key r"
| "op_request_key (HAccept r) = ah_request_key r"
| "op_request_key (HReject r) = ch_request_key r"
| "op_request_key (HCancel r) = ch_request_key r"
| "op_request_key (HTimeout r) = to_request_key r"

fun op_handoff_id :: "handoff_op \<Rightarrow> string" where
  "op_handoff_id (HInspect r) = ih_handoff_id r"
| "op_handoff_id (HAccept r) = ah_handoff_id r"
| "op_handoff_id (HReject r) = ch_handoff_id r"
| "op_handoff_id (HCancel r) = ch_handoff_id r"
| "op_handoff_id (HTimeout r) = to_handoff_id r"

fun op_name :: "handoff_op \<Rightarrow> string" where
  "op_name (HInspect r) = ''inspect''"
| "op_name (HAccept r) = ''accept''"
| "op_name (HReject r) = ''reject''"
| "op_name (HCancel r) = ''cancel''"
| "op_name (HTimeout r) = ''timeout''"

fun run_handoff_op ::
  "string \<Rightarrow> string \<Rightarrow> handoff_store \<Rightarrow> string \<Rightarrow> handoff_op \<Rightarrow> handoff_outcome" where
  "run_handoff_op sql ev st project (HInspect r) = inspect_team_handoff sql ev st project r"
| "run_handoff_op sql ev st project (HAccept r) = accept_team_handoff sql ev st project r"
| "run_handoff_op sql ev st project (HReject r) = reject_team_handoff sql ev st project r"
| "run_handoff_op sql ev st project (HCancel r) = cancel_team_handoff sql ev st project r"
| "run_handoff_op sql ev st project (HTimeout r) = timeout_team_handoff sql ev st project r"

fun run_store_op ::
  "string \<Rightarrow> string \<Rightarrow> handoff_store \<Rightarrow> string \<Rightarrow> store_op \<Rightarrow> handoff_outcome" where
  "run_store_op sql ev st project (SPropose work from req) =
     propose_team_handoff sql ev st project work from req"
| "run_store_op sql ev st project (SMutate op) = run_handoff_op sql ev st project op"

inductive store_step :: "handoff_store \<Rightarrow> handoff_store \<Rightarrow> bool" where
  store_stepI: "run_store_op sql ev st project op = (st', r) \<Longrightarrow> store_step st st'"

inductive_cases store_stepE: "store_step st st'"

definition empty_store :: handoff_store where
  "empty_store = \<lparr>st_handoffs = [], st_receipts = []\<rparr>"

text \<open>
  Every row holds a well-formed hand-off under its own identifiers, at most one hand-off per work
  item column is open, and every receipt has its hand-off.
\<close>

definition one_open_per_work :: "(string \<times> string \<Rightarrow> handoff_row option) \<Rightarrow> bool" where
  "one_open_per_work m \<longleftrightarrow>
     (\<forall>p i j row row'. m (p, i) = Some row \<longrightarrow> m (p, j) = Some row' \<longrightarrow>
        is_open (th_status (row_body row)) \<longrightarrow> is_open (th_status (row_body row')) \<longrightarrow>
        row_work_item_id row = row_work_item_id row' \<longrightarrow> i = j)"

definition store_ok :: "handoff_store \<Rightarrow> bool" where
  "store_ok st \<longleftrightarrow>
     bt_wf (st_handoffs st) \<and> bt_wf (st_receipts st)
     \<and> (\<forall>p i row. map_of (st_handoffs st) (p, i) = Some row \<longrightarrow>
          th_id (row_body row) = i \<and> th_project_id (row_body row) = p \<and> handoff_wf (row_body row))
     \<and> one_open_per_work (map_of (st_handoffs st))
     \<and> (\<forall>p k r. map_of (st_receipts st) (p, k) = Some r \<longrightarrow>
          (\<exists>row. map_of (st_handoffs st) (p, rr_handoff_id r) = Some row))"

section \<open>Lemmas\<close>

lemma run_handoff_op_mutate:
  "run_handoff_op sql ev st p op =
     mutate_handoff sql ev st p (op_request_key op) (op_name op) (op_handoff_id op)
       (\<lambda>h. apply_handoff_op h op)"
  by (cases op) (simp_all add: inspect_team_handoff_def accept_team_handoff_def
      reject_team_handoff_def cancel_team_handoff_def timeout_team_handoff_def)

lemma op_name_accept [simp]: "op_name op = ''accept'' \<longleftrightarrow> (\<exists>r. op = HAccept r)"
  by (cases op) simp_all

lemma duty_total: "\<exists>d. duty_at h now = Inr d"
  by (simp add: duty_at_def Let_def split: handoff_kind.splits)

lemma duty_no_error [simp]: "duty_at h now \<noteq> Inl e"
  using duty_total[of h now] by auto

text \<open>Accepting again what the same request accepted changes nothing.\<close>

lemma accept_again: "apply_handoff_accept h req = Inr h' \<Longrightarrow> apply_handoff_accept h' req = Inr h'"
  by (auto simp: apply_handoff_accept_def same_accept_request_def split: if_splits)

lemma store_okD:
  assumes "store_ok st"
  shows "bt_wf (st_handoffs st)" "bt_wf (st_receipts st)"
    "map_of (st_handoffs st) (p, i) = Some row \<Longrightarrow> th_id (row_body row) = i"
    "map_of (st_handoffs st) (p, i) = Some row \<Longrightarrow> th_project_id (row_body row) = p"
    "map_of (st_handoffs st) (p, i) = Some row \<Longrightarrow> handoff_wf (row_body row)"
  using assms by (auto simp: store_ok_def)

lemma open_conflict_iff:
  assumes "bt_wf (st_handoffs st)"
  shows "open_conflict st p i row \<longleftrightarrow> is_open (th_status (row_body row))
    \<and> (\<exists>j other. map_of (st_handoffs st) (p, j) = Some other \<and> j \<noteq> i
         \<and> row_work_item_id other = row_work_item_id row \<and> is_open (th_status (row_body other)))"
  using map_of_eq_Some_iff[OF bt_wf_distinct[OF assms]]
  by (fastforce simp: open_conflict_def list_ex_iff)

lemma persist_ok:
  "persist sql st p h = Inr st1 \<longleftrightarrow> \<not> sint (th_version h) < 1 \<and> \<not> open_conflict st p (th_id h) (upsert_row st p h)
     \<and> st1 = st\<lparr>st_handoffs := bt_insert (p, th_id h) (upsert_row st p h) (st_handoffs st)\<rparr>"
  by (auto simp: persist_def Let_def)

lemma row_body_upsert [simp]: "row_body (upsert_row st p h) = h"
  by (simp add: upsert_row_def split: option.splits)

text \<open>
  The rows after an upsert, and what recording a receipt adds. These two facts carry the invariant.
\<close>

lemma persist_rows:
  assumes "persist sql st p h = Inr st1" and "bt_wf (st_handoffs st)"
  shows "map_of (st_handoffs st1) = (map_of (st_handoffs st))((p, th_id h) \<mapsto> upsert_row st p h)"
    and "st_receipts st1 = st_receipts st" and "bt_wf (st_handoffs st1)"
  using assms by (simp_all add: persist_ok bt_insert_lookup bt_wf_insert del: fun_upd_apply)

lemma persist_store_ok:
  assumes "persist sql st p h = Inr st1" and ok: "store_ok st"
    and h: "handoff_wf h" "th_project_id h = p"
  shows "store_ok st1"
proof -
  note rows = persist_rows[OF assms(1) store_okD(1)[OF ok]]
  have free: "\<not> open_conflict st p (th_id h) (upsert_row st p h)" using assms(1) by (simp add: persist_ok)
  have "one_open_per_work (map_of (st_handoffs st1))"
    unfolding one_open_per_work_def
  proof (intro allI impI)
    fix q i j row row'
    assume r: "map_of (st_handoffs st1) (q, i) = Some row" "map_of (st_handoffs st1) (q, j) = Some row'"
      "is_open (th_status (row_body row))" "is_open (th_status (row_body row'))"
      "row_work_item_id row = row_work_item_id row'"
    show "i = j"
    proof (rule ccontr)
      assume ne: "i \<noteq> j"
      consider "q = p" "i = th_id h" | "q = p" "j = th_id h" | "(q, i) \<noteq> (p, th_id h)" "(q, j) \<noteq> (p, th_id h)"
        by auto
      then show False
      proof cases
        case 3
        then have old: "map_of (st_handoffs st) (q, i) = Some row" "map_of (st_handoffs st) (q, j) = Some row'"
          using r(1,2) unfolding rows(1) by (auto split: if_splits)
        from ok have "one_open_per_work (map_of (st_handoffs st))" by (simp add: store_ok_def)
        with old r(3-) ne show False unfolding one_open_per_work_def by blast
      qed (use r ne free in \<open>auto simp: rows(1) open_conflict_iff[OF store_okD(1)[OF ok]] split: if_splits\<close>)
    qed
  qed
  with ok h rows show ?thesis by (auto simp: store_ok_def)
qed

lemma record_receipt_store_ok:
  assumes "record_receipt sql ev st p h key op = (st1, r)" and "store_ok st"
    and "map_of (st_handoffs st) (p, th_id h) = Some row"
  shows "store_ok st1" and "st_handoffs st1 = st_handoffs st"
  using assms
  by (auto simp: record_receipt_def store_ok_def bt_insert_lookup bt_wf_insert split: if_splits)

lemma persist_and_record_store_ok:
  assumes "persist_and_record sql ev st p h key op = (st1, r)" and "store_ok st"
    and "handoff_wf h" "th_project_id h = p"
  shows "store_ok st1"
    and "st_handoffs st1 = st_handoffs st
       \<or> map_of (st_handoffs st1) = (map_of (st_handoffs st))((p, th_id h) \<mapsto> upsert_row st p h)"
proof -
  have "store_ok st1 \<and> (st_handoffs st1 = st_handoffs st
       \<or> map_of (st_handoffs st1) = (map_of (st_handoffs st))((p, th_id h) \<mapsto> upsert_row st p h))"
  proof (cases "persist sql st p h")
    case (Inl e)
    with assms show ?thesis by (simp add: persist_and_record_def)
  next
    case (Inr mid)
    note rows = persist_rows[OF Inr store_okD(1)[OF assms(2)]]
    from Inr assms(1) obtain r' where rec: "record_receipt sql ev mid p h key op = (st1, r')"
      by (auto simp: persist_and_record_def split: prod.splits sum.splits)
    have "map_of (st_handoffs mid) (p, th_id h) = Some (upsert_row st p h)" by (simp add: rows(1))
    from record_receipt_store_ok[OF rec persist_store_ok[OF Inr assms(2-)] this]
    show ?thesis by (simp add: rows(1))
  qed
  then show "store_ok st1"
    and "st_handoffs st1 = st_handoffs st
       \<or> map_of (st_handoffs st1) = (map_of (st_handoffs st))((p, th_id h) \<mapsto> upsert_row st p h)"
    by blast+
qed

text \<open>
  What one operation does to the store: nothing, or the upsert of the computed record together with
  its receipt (or the upsert alone when the receipt cannot be written).
\<close>

lemma propose_effect:
  assumes "propose_team_handoff sql ev st p work from req = (st', r)"
  shows "st' = st \<or> (\<exists>h r'. apply_handoff_propose p work from req = Inr h
     \<and> persist_and_record sql ev st p h (ph_request_key req) ''propose'' = (st', r'))"
  using assms by (auto simp: propose_team_handoff_def split: sum.splits option.splits)

lemma mutate_effect:
  assumes "run_handoff_op sql ev st p op = (st', r)"
  shows "st' = st \<or> (\<exists>row h r'. map_of (st_handoffs st) (p, op_handoff_id op) = Some row
     \<and> apply_handoff_op (row_body row) op = Inr h
     \<and> persist_and_record sql ev st p h (op_request_key op) (op_name op) = (st', r'))"
  using assms
  by (auto simp: run_handoff_op_mutate mutate_handoff_def get_team_handoff_def split: sum.splits option.splits)

lemma mutate_fresh_record:
  assumes "store_ok st" and "map_of (st_handoffs st) (p, i) = Some row"
    and "apply_handoff_op (row_body row) op = Inr h"
  shows "handoff_wf h" "th_project_id h = p" "th_id h = i"
  using op_preserves[OF assms(3)] store_okD(3-5)[OF assms(1,2)] by (simp_all add: same_proposal_def)

lemma run_store_op_ok:
  assumes "run_store_op sql ev st p op = (st', r)" and ok: "store_ok st"
  shows "store_ok st'"
proof (cases op)
  case (SPropose work giver req)
  with assms(1) have "propose_team_handoff sql ev st p work giver req = (st', r)" by simp
  from propose_effect[OF this] ok show ?thesis
    by (auto dest: propose_ok(1,7) intro: persist_and_record_store_ok(1))
next
  case (SMutate m)
  with assms(1) have "run_handoff_op sql ev st p m = (st', r)" by simp
  from mutate_effect[OF this] ok show ?thesis
    by (auto dest: mutate_fresh_record[OF ok] intro: persist_and_record_store_ok(1))
qed

lemma store_step_ok: "store_ok st \<Longrightarrow> store_step st st' \<Longrightarrow> store_ok st'"
  by (auto elim!: store_stepE intro: run_store_op_ok)

lemma store_step_run: "store_step st (fst (run_store_op sql ev st p op))"
  by (rule store_stepI[OF prod.collapse[symmetric]])

lemma empty_store_ok: "store_ok empty_store"
  by (simp add: store_ok_def empty_store_def one_open_per_work_def)

text \<open>After a recorded success the same request finds its receipt.\<close>

lemma persist_and_record_replay:
  assumes "persist_and_record sql ev st p h key op = (st1, Inr (h', r))" and ok: "store_ok st"
  shows "h' = h" and "load_receipt st1 p key op = Inr (Some (r\<lparr>hr_replayed := True\<rparr>))"
    and "get_team_handoff st1 p (th_id h) = Some h" and "hr_handoff_id r = th_id h"
proof -
  from assms(1) obtain mid where mid: "persist sql st p h = Inr mid"
    and rec: "record_receipt sql ev mid p h key op = (st1, Inr r)" and h': "h' = h"
    by (auto simp: persist_and_record_def split: sum.splits prod.splits)
  note rows = persist_rows[OF mid store_okD(1)[OF ok]]
  from rec obtain d where d: "duty_at h (th_updated_at_ms h) = Inr d"
    and r: "r = \<lparr>hr_request_key = key, hr_handoff_id = th_id h, hr_op = op,
              hr_event_id = ev, hr_replayed = False, hr_status = th_status h,
              hr_version = th_version h, hr_duty = d\<rparr>"
    and st1: "st1 = mid\<lparr>st_receipts := bt_insert (p, key)
              \<lparr>rr_handoff_id = th_id h, rr_op = op, rr_event_id = ev\<rparr> (st_receipts mid)\<rparr>"
    by (auto simp: record_receipt_def split: if_splits)
  have get: "get_team_handoff st1 p (th_id h) = Some h"
    by (simp add: get_team_handoff_def st1 rows(1))
  have "map_of (st_receipts st1) (p, key) = Some \<lparr>rr_handoff_id = th_id h, rr_op = op, rr_event_id = ev\<rparr>"
    by (simp add: st1 rows(2) bt_insert_lookup store_okD(2)[OF ok])
  with get d show "load_receipt st1 p key op = Inr (Some (r\<lparr>hr_replayed := True\<rparr>))"
    by (simp add: load_receipt_def r refuse_def then_ok_def)
  show "h' = h" "get_team_handoff st1 p (th_id h) = Some h" "hr_handoff_id r = th_id h"
    using h' get r by simp_all
qed

lemma load_receipt_replayed: "load_receipt st p key op = Inr (Some r) \<Longrightarrow> hr_replayed r"
  by (auto simp: load_receipt_def split: option.splits)

lemma mutate_again:
  assumes "run_handoff_op sql ev st p op = (st1, Inr (h, r))" and ok: "store_ok st"
  shows "run_handoff_op sql ev' st1 p op = (st1, Inr (h, r\<lparr>hr_replayed := True\<rparr>))"
proof (cases "load_receipt st p (op_request_key op) (op_name op)")
  case (Inl e)
  with assms(1) show ?thesis by (simp add: run_handoff_op_mutate mutate_handoff_def)
next
  case (Inr found)
  show ?thesis
  proof (cases found)
    case None
    with Inr assms(1) obtain row where row: "map_of (st_handoffs st) (p, op_handoff_id op) = Some row"
      "apply_handoff_op (row_body row) op = Inr h"
      and rec: "persist_and_record sql ev st p h (op_request_key op) (op_name op) = (st1, Inr (h, r))"
      by (auto simp: run_handoff_op_mutate mutate_handoff_def get_team_handoff_def split: sum.splits
          dest: persist_and_record_replay(1)[OF _ ok])
    note again = persist_and_record_replay[OF rec ok]
    have "apply_handoff_op h op = Inr h" if "op = HAccept a" for a
      using row(2) that by (auto intro: accept_again)
    with again mutate_fresh_record(3)[OF ok row] show ?thesis
      by (auto simp: run_handoff_op_mutate mutate_handoff_def refuse_def then_ok_def and_then_def ok_or_def)
  next
    case (Some found_receipt)
    with Inr assms(1) have "st1 = st" "r = found_receipt" "hr_replayed r"
      by (auto simp: run_handoff_op_mutate mutate_handoff_def dest: load_receipt_replayed)
    with Inr Some assms(1) show ?thesis by (auto simp: run_handoff_op_mutate mutate_handoff_def)
  qed
qed

lemma propose_again:
  assumes "propose_team_handoff sql ev st p work giver req = (st1, Inr (h, r))" and ok: "store_ok st"
  shows "propose_team_handoff sql ev' st1 p work giver req = (st1, Inr (h, r\<lparr>hr_replayed := True\<rparr>))"
proof (cases "load_receipt st p (ph_request_key req) ''propose''")
  case (Inl e)
  with assms(1) show ?thesis by (simp add: propose_team_handoff_def)
next
  case (Inr found)
  show ?thesis
  proof (cases found)
    case None
    with Inr assms(1) obtain h0 where
      rec: "persist_and_record sql ev st p h0 (ph_request_key req) ''propose'' = (st1, Inr (h, r))"
      by (auto simp: propose_team_handoff_def split: sum.splits)
    from persist_and_record_replay[OF this ok] show ?thesis
      by (simp add: propose_team_handoff_def and_then_def ok_or_def)
  next
    case (Some found_receipt)
    with Inr assms(1) have "st1 = st" "r = found_receipt" "hr_replayed r"
      by (auto simp: propose_team_handoff_def dest: load_receipt_replayed)
    with Inr Some assms(1) show ?thesis by (simp add: propose_team_handoff_def)
  qed
qed

section \<open>Properties\<close>

definition ex_store :: handoff_store where
  "ex_store = fst (propose_team_handoff ''busy'' ''e1'' empty_store ''proj'' ''w1'' ''alice'' ex_propose)"

definition ex_store_accepted :: handoff_store where
  "ex_store_accepted = fst (accept_team_handoff ''busy'' ''e2'' ex_store ''proj'' ex_accept)"

lemma ex_store_ok: "store_ok ex_store"
  using store_step_ok[OF empty_store_ok store_step_run, of "''busy''" "''e1''" "''proj''" "SPropose ''w1'' ''alice'' ex_propose"]
  by (simp add: ex_store_def)

definition ex_handoff_receipt :: handoff_receipt where
  "ex_handoff_receipt = \<lparr>hr_request_key = ''a1'', hr_handoff_id = ''ho-1'', hr_op = ''accept'', hr_event_id = ''e2'',
     hr_replayed = False, hr_status = HsAccepted, hr_version = 2,
     hr_duty = \<lparr>duty_responsible_person_id = ''alice'', duty_may_continue_person_id = ''bob'',
       duty_recovery_duty_person_id = ''bob'', duty_successor_may_execute = True,
       duty_context_requires_refresh = True, duty_note = note_execution\<rparr>\<rparr>"

lemma ex_store_accepts:
  "run_store_op ''busy'' ''e2'' ex_store ''proj'' (SMutate (HAccept ex_accept))
     = (ex_store_accepted, Inr (ex_accepted, ex_handoff_receipt))"
  by code_simp

text \<open>
  A hand-off request that succeeded may be repeated. The same request returns the same hand-off and
  the same receipt, marked as replayed and with the original event identifier, and the store is
  not touched; for an acceptance the stored record must be the one that request produces.
\<close>
theorem handoff_request_replay:
  assumes "store_ok st" and "run_store_op sql ev st project op = (st1, Inr (h, receipt))"
  shows "run_store_op sql ev' st1 project op = (st1, Inr (h, receipt\<lparr>hr_replayed := True\<rparr>))"
  using assms by (cases op) (auto intro: mutate_again propose_again)

theorem handoff_request_replay_witness:
  "run_store_op ''busy'' ''e2'' ex_store ''proj'' (SMutate (HAccept ex_accept))
     = (ex_store_accepted, Inr (ex_accepted, ex_handoff_receipt))
   \<and> run_store_op ''busy'' ''e9'' ex_store_accepted ''proj'' (SMutate (HAccept ex_accept))
     = (ex_store_accepted, Inr (ex_accepted, ex_handoff_receipt\<lparr>hr_replayed := True\<rparr>))"
  using handoff_request_replay[OF ex_store_ok ex_store_accepts] ex_store_accepts by blast

text \<open>
  C40: Whatever sequence of hand-off requests runs from the empty tables, failed ones and partial writes
  included, every row holds a well-formed hand-off under its own key, at most one hand-off per work item
  column is open, and every receipt has its hand-off, so a replay never meets a missing record.
\<close>
theorem handoff_store_invariant:
  assumes "store_step\<^sup>*\<^sup>* empty_store st"
  shows "store_ok st"
  using assms by (induction rule: rtranclp_induct) (auto intro: store_step_ok empty_store_ok)

theorem handoff_store_invariant_witness: "store_ok ex_store_accepted \<and> st_handoffs ex_store_accepted \<noteq> []"
proof -
  have "store_step empty_store ex_store"
    using store_step_run[of empty_store "''busy''" "''e1''" "''proj''" "SPropose ''w1'' ''alice'' ex_propose"]
    by (simp add: ex_store_def)
  moreover have "store_step ex_store ex_store_accepted"
    using store_step_run[of ex_store "''busy''" "''e2''" "''proj''" "SMutate (HAccept ex_accept)"]
    by (simp add: ex_store_accepted_def)
  ultimately have "store_step\<^sup>*\<^sup>* empty_store ex_store_accepted" by simp
  from handoff_store_invariant[OF this] show ?thesis by (rule conjI) code_simp
qed

text \<open>
  C6: The stored operations refine the hand-off state machine: inspecting, accepting, rejecting,
  cancelling and timing out leave every stored record as it is or move the addressed one along one
  step of the machine, so a closed hand-off stays as it was recorded.
\<close>
theorem stored_operations_refine_machine:
  assumes "store_ok st" and "run_handoff_op sql ev st project op = (st', r)"
  shows "get_team_handoff st' q i = get_team_handoff st q i
    \<or> q = project \<and> i = op_handoff_id op
      \<and> (\<exists>h h'. get_team_handoff st q i = Some h \<and> get_team_handoff st' q i = Some h'
           \<and> apply_handoff_op h op = Inr h' \<and> handoff_step h h')"
proof -
  from mutate_effect[OF assms(2)] consider "st' = st"
    | row h r' where "map_of (st_handoffs st) (project, op_handoff_id op) = Some row"
      "apply_handoff_op (row_body row) op = Inr h"
      "persist_and_record sql ev st project h (op_request_key op) (op_name op) = (st', r')"
    by blast
  then show ?thesis
  proof cases
    case 1
    then show ?thesis by simp
  next
    case 2
    note fresh = mutate_fresh_record[OF assms(1) 2(1,2)]
    have "handoff_step (row_body row) h" if "h \<noteq> row_body row"
      using 2(2) that by (rule handoff_stepI)
    with persist_and_record_store_ok(2)[OF 2(3) assms(1) fresh(1,2)] 2(1,2) fresh(3) show ?thesis
      by (cases "h = row_body row"; cases "q = project \<and> i = op_handoff_id op") (auto simp: get_team_handoff_def)
  qed
qed

theorem stored_operations_refine_machine_witness:
  "get_team_handoff ex_store ''proj'' ''ho-1'' = Some ex_handoff
   \<and> get_team_handoff ex_store_accepted ''proj'' ''ho-1'' = Some ex_accepted
   \<and> handoff_step ex_handoff ex_accepted"
proof -
  have before: "get_team_handoff ex_store ''proj'' ''ho-1'' = Some ex_handoff" by code_simp
  have after: "get_team_handoff ex_store_accepted ''proj'' ''ho-1'' = Some ex_accepted" by code_simp
  have "ex_handoff \<noteq> ex_accepted" by (simp add: ex_accepted_def ex_handoff_def)
  moreover have "run_handoff_op ''busy'' ''e2'' ex_store ''proj'' (HAccept ex_accept)
     = (ex_store_accepted, Inr (ex_accepted, ex_handoff_receipt))"
    using ex_store_accepts by simp
  note stored_operations_refine_machine[OF ex_store_ok this, of "''proj''" "''ho-1''"]
  ultimately show ?thesis using before after by auto
qed

text \<open>
  A proposal under a new request key but the identifier of a closed hand-off replaces it: the accepted
  hand-off of the example is open again at version 1, its acceptance forgotten.
\<close>

lemma propose_resets_accepted_handoff:
  "case propose_team_handoff ''busy'' ''e3'' ex_store_accepted ''proj'' ''w1'' ''alice''
       (ex_propose\<lparr>ph_request_key := ''p2''\<rparr>) of (st, res) \<Rightarrow>
     is_ok res \<and> get_team_handoff ex_store_accepted ''proj'' ''ho-1'' = Some ex_accepted
     \<and> get_team_handoff st ''proj'' ''ho-1'' = Some ex_handoff"
  by code_simp

end
