(* ===== verification/Team_Error.thy ===== *)
theory Team_Error
  imports Core_Error
begin

text \<open>
  The errors of \<^verbatim>\<open>crates/awr-team/src/error.rs\<close> and the bounded identifiers of \<^verbatim>\<open>ids.rs\<close>. The
  constructors carry the prefix \<open>Te\<close>, since the core's errors share some of their names.
\<close>

datatype team_error =
    TeUnsupported
  | TeInvalidInput string
  | TeInvalidId string
  | TeInvalidVersion string
  | TeUnknownRequiredField string
  | TeMissingRequiredField string
  | TeNonCanonicalNumber string
  | TeInvalidContract string
  | TeProtocolUnsupported
  | TeProjectRequired
  | TeOfflineWriteForbidden
  | TeAuthProjectMismatch
  | TeSecretRefInvalid
  | TePermissionDenied string

fun team_error_code :: "team_error \<Rightarrow> string" where
  "team_error_code TeUnsupported = ''Unsupported''"
| "team_error_code (TeInvalidInput _) = ''InvalidInput''"
| "team_error_code TeProtocolUnsupported = ''PROTOCOL_UNSUPPORTED''"
| "team_error_code TeProjectRequired = ''PROJECT_NOT_AVAILABLE''"
| "team_error_code TeOfflineWriteForbidden = ''SERVICE_UNAVAILABLE''"
| "team_error_code TeAuthProjectMismatch = ''FORBIDDEN''"
| "team_error_code TeSecretRefInvalid = ''UNAUTHENTICATED''"
| "team_error_code (TePermissionDenied _) = ''PERMISSION_DENIED''"
| "team_error_code (TeUnknownRequiredField _) = ''PROTOCOL_UNSUPPORTED''"
| "team_error_code (TeMissingRequiredField _) = ''PROTOCOL_UNSUPPORTED''"
| "team_error_code (TeInvalidVersion _) = ''PROTOCOL_UNSUPPORTED''"
| "team_error_code _ = ''INVALID_CONTRACT''"

text \<open>The \<open>Display\<close> text.\<close>

fun team_error_display :: "team_error \<Rightarrow> string" where
  "team_error_display TeUnsupported = ''operation or transport unsupported''"
| "team_error_display (TeInvalidInput m) = ''invalid input: '' @ m"
| "team_error_display (TeInvalidId m) = ''invalid identifier: '' @ m"
| "team_error_display (TeInvalidVersion m) = ''invalid version string: '' @ m"
| "team_error_display (TeUnknownRequiredField m) = ''unknown required field: '' @ m"
| "team_error_display (TeMissingRequiredField m) = ''missing required field: '' @ m"
| "team_error_display (TeNonCanonicalNumber m) = ''non-canonical number: '' @ m"
| "team_error_display (TeInvalidContract m) = ''contract field rejected: '' @ m"
| "team_error_display TeProtocolUnsupported = ''protocol unsupported''"
| "team_error_display TeProjectRequired = ''project required''"
| "team_error_display TeOfflineWriteForbidden = ''offline team writes are forbidden''"
| "team_error_display TeAuthProjectMismatch = ''body cannot override authorized project''"
| "team_error_display TeSecretRefInvalid = ''credential reference invalid''"
| "team_error_display (TePermissionDenied m) = ''permission denied: '' @ m"

definition typed_id_new :: "string \<Rightarrow> string \<Rightarrow> (team_error, string) result" where
  "typed_id_new name value =
     then_ok (refuse (value = [] \<or> length value > 128 \<or> has_control value) (TeInvalidId name))
       (Inr value)"

end
