(* ===== verification/Canonical_Json.thy ===== *)
theory Canonical_Json
  imports Team_Error "HOL-Library.List_Lexorder" "HOL-Library.Multiset"
begin

text \<open>
  \<^verbatim>\<open>crates/awr-team/src/canonical.rs\<close>: the normal form of a JSON value and the digests taken of it. A
  \<^verbatim>\<open>serde_json::Value\<close> is the datatype \<open>json\<close>; an object is its list of entries, whose keys are
  distinct in every value a Rust program can hold. A number that is not an integer is kept as its
  text with the answer of \<^verbatim>\<open>as_f64().is_finite()\<close>. The serialiser \<^verbatim>\<open>serde_json::to_vec\<close> and SHA-256 are
  other libraries: together they are the argument \<open>digest\<close>, from a value to the printed hash.
\<close>

datatype json_number = JInt int | JFloat string bool

datatype json =
    JNull
  | JBool bool
  | JNumber json_number
  | JString string
  | JArray "json list"
  | JObject "(string \<times> json) list"

text \<open>The accessors of a value; \<open>get\<close> on anything but an object finds nothing.\<close>

definition is_object :: "json \<Rightarrow> bool" where
  "is_object v = (case v of JObject _ \<Rightarrow> True | _ \<Rightarrow> False)"

definition json_get :: "json \<Rightarrow> string \<Rightarrow> json option" where
  "json_get v k = (case v of JObject es \<Rightarrow> map_of es k | _ \<Rightarrow> None)"

definition as_str :: "json \<Rightarrow> string option" where
  "as_str v = (case v of JString s \<Rightarrow> Some s | _ \<Rightarrow> None)"

lemma as_str_Some [simp]: "as_str v = Some s \<longleftrightarrow> v = JString s"
  by (cases v) (auto simp: as_str_def)

definition HASH_CODEC :: string where
  "HASH_CODEC = ''awr-team-hash-v1''"

fun number_normal :: "json_number \<Rightarrow> (team_error, json) result" where
  "number_normal (JInt i) = Inr (JNumber (JInt i))"
| "number_normal (JFloat t fin) =
     then_ok (refuse (\<not> fin) (TeNonCanonicalNumber t)) (Inr (JNumber (JFloat t fin)))"

fun normalize_json :: "json \<Rightarrow> (team_error, json) result" where
  "normalize_json JNull = Inr JNull"
| "normalize_json (JBool b) = Inr (JBool b)"
| "normalize_json (JString s) = Inr (JString s)"
| "normalize_json (JNumber n) = number_normal n"
| "normalize_json (JArray items) =
     and_then (collect_results (map normalize_json items)) (\<lambda>xs. Inr (JArray xs))"
| "normalize_json (JObject entries) =
     and_then
       (collect_results (map (\<lambda>(k, r). and_then r (\<lambda>v. Inr (k, v)))
          (sort_key fst (map (\<lambda>(k, v). (k, normalize_json v)) entries))))
       (\<lambda>out. Inr (JObject out))"

definition hash_wrapper :: "string \<Rightarrow> json \<Rightarrow> json" where
  "hash_wrapper kind body =
     JObject [(''codec'', JString HASH_CODEC), (''kind'', JString kind), (''fields'', body)]"

definition hash_named ::
  "(json \<Rightarrow> string) \<Rightarrow> string \<Rightarrow> json \<Rightarrow> (team_error, string) result" where
  "hash_named digest kind body =
     and_then (normalize_json (hash_wrapper kind body)) (\<lambda>normalized. Inr (digest normalized))"

definition contract_hash :: "(json \<Rightarrow> string) \<Rightarrow> json \<Rightarrow> (team_error, string) result" where
  "contract_hash digest body = hash_named digest ''contract'' body"

definition request_hash :: "(json \<Rightarrow> string) \<Rightarrow> json \<Rightarrow> (team_error, string) result" where
  "request_hash digest body = hash_named digest ''request'' body"

definition reject_unknown_required_fields ::
  "(string \<times> json) list \<Rightarrow> string list \<Rightarrow> (team_error, unit) result" where
  "reject_unknown_required_fields object allowed =
     run_checks
       (map (\<lambda>(k, v). refuse (k \<notin> set allowed) (TeUnknownRequiredField k)) (sort_key fst object)
        @ map (\<lambda>f. refuse (f \<notin> fst ` set object) (TeMissingRequiredField f)) allowed)"

section \<open>Laws of the normal form\<close>

text \<open>A look-up in a normalised object is the normal form of the look-up.\<close>

lemma map_of_sort_key: "distinct (map fst xs) \<Longrightarrow> map_of (sort_key fst xs) = map_of xs"
  by (subst map_of_inject_set) (auto simp: distinct_map)

lemma results_of_pairs:
  "map (\<lambda>(k, r). and_then r (\<lambda>v. Inr (k, v))) S = map Inr out \<Longrightarrow> S = map (\<lambda>(k, v). (k, Inr v)) out"
  by (induction S arbitrary: out) (auto simp: Cons_eq_map_conv)

lemma map_of_map_snd: "map_of (map (\<lambda>(k, v). (k, f v)) xs) k = map_option f (map_of xs k)"
  by (induction xs) auto

lemma normalize_object:
  assumes "normalize_json (JObject es) = Inr x" and "distinct (map fst es)"
  shows "\<exists>out. x = JObject out \<and> (\<forall>k. map_option normalize_json (map_of es k) = map_option Inr (map_of out k))"
proof -
  let ?es = "map (\<lambda>(k, v). (k, normalize_json v)) es"
  from assms(1) obtain out where x: "x = JObject out"
    and out: "map (\<lambda>(k, r). and_then r (\<lambda>v. Inr (k, v))) (sort_key fst ?es) = map Inr out"
    by (auto simp: collect_results_ok)
  have d: "distinct (map fst ?es)" using assms(2) by (simp add: case_prod_unfold comp_def)
  have "map_of (sort_key fst ?es) k = map_option Inr (map_of out k)" for k
    unfolding results_of_pairs[OF out] by (rule map_of_map_snd)
  then show ?thesis using x unfolding map_of_sort_key[OF d] map_of_map_snd by blast
qed

text \<open>Objects with the same normal form agree, entry by entry, up to the normal form.\<close>

lemma normalize_same_lookup:
  assumes "normalize_json (JObject a) = Inr x" and "normalize_json (JObject b) = Inr x"
    and "distinct (map fst a)" and "distinct (map fst b)"
  shows "map_option normalize_json (map_of a k) = map_option normalize_json (map_of b k)"
  using normalize_object[OF assms(1,3)] normalize_object[OF assms(2,4)] by auto

lemma normalize_cong:
  assumes "map (\<lambda>(k, v). (k, normalize_json v)) a = map (\<lambda>(k, v). (k, normalize_json v)) b"
  shows "normalize_json (JObject a) = normalize_json (JObject b)"
  using assms by simp

lemma collect_pairs_ok:
  "\<forall>(k, r)\<in>set S. is_ok r \<Longrightarrow> is_ok (collect_results (map (\<lambda>(k, r). and_then r (\<lambda>v. Inr (k, v))) S))"
  by (induction S) (auto simp: is_ok_iff)

lemma normalize_object_ok:
  assumes "\<And>k v. (k, v) \<in> set es \<Longrightarrow> is_ok (normalize_json v)"
  shows "is_ok (normalize_json (JObject es))"
proof -
  let ?S = "sort_key fst (map (\<lambda>(k, v). (k, normalize_json v)) es)"
  have "\<forall>(k, r)\<in>set ?S. is_ok r" using assms by auto
  then have "is_ok (collect_results (map (\<lambda>(k, r). and_then r (\<lambda>v. Inr (k, v))) ?S))"
    by (rule collect_pairs_ok)
  then show ?thesis by (auto simp: is_ok_iff)
qed

lemma normalize_array_ok: "(\<And>x. x \<in> set xs \<Longrightarrow> is_ok (normalize_json x)) \<Longrightarrow> is_ok (normalize_json (JArray xs))"
proof -
  assume "\<And>x. x \<in> set xs \<Longrightarrow> is_ok (normalize_json x)"
  then have "is_ok (collect_results (map normalize_json xs))" by (induction xs) (auto simp: is_ok_iff)
  then show ?thesis by (auto simp: is_ok_iff)
qed

text \<open>Values with the same normal form agree, look-up by look-up.\<close>

lemma normalize_eq_lookup:
  assumes "normalize_json (JObject a) = normalize_json (JObject b)" and "is_ok (normalize_json (JObject a))"
    and "distinct (map fst a)" and "distinct (map fst b)"
  shows "map_option normalize_json (map_of a k) = map_option normalize_json (map_of b k)"
  using assms normalize_same_lookup unfolding is_ok_iff by metis

lemma normalize_array_same:
  assumes "normalize_json (JArray xs) = normalize_json (JArray ys)" and "is_ok (normalize_json (JArray xs))"
  shows "map normalize_json xs = map normalize_json ys"
proof -
  from assms(2) obtain zs where "normalize_json (JArray xs) = Inr (JArray zs)" by (auto simp: is_ok_iff)
  moreover with assms(1) have "normalize_json (JArray ys) = Inr (JArray zs)" by simp
  ultimately show ?thesis by (auto simp: collect_results_ok)
qed

text \<open>The plain values the program hashes are their own normal form.\<close>

definition json_strings :: "string list \<Rightarrow> json" where
  "json_strings xs = JArray (map JString xs)"

lemma normalize_strings [simp]: "normalize_json (json_strings xs) = Inr (json_strings xs)"
  by (simp add: json_strings_def comp_def)

lemma json_strings_inject [simp]: "json_strings xs = json_strings ys \<longleftrightarrow> xs = ys"
  unfolding json_strings_def json.inject by (rule inj_map_eq_map) (simp add: inj_on_def)

text \<open>The wrapper is normalised exactly when its fields are, and determines their normal form.\<close>

lemma normalize_wrapper:
  "normalize_json (hash_wrapper kind f) =
     and_then (normalize_json f)
       (\<lambda>v. Inr (JObject [(''codec'', JString HASH_CODEC), (''fields'', v), (''kind'', JString kind)]))"
proof -
  have sorted: "sort_key fst [(''codec'', a), (''kind'', b), (''fields'', x)]
      = [(''codec'', a), (''fields'', x), (''kind'', b)]" for a b x :: "(team_error, json) result"
    by simp
  show ?thesis by (cases "normalize_json f") (simp_all add: hash_wrapper_def sorted and_then_def del: sort_key_simps)
qed

text \<open>The digest does not collide on the values hashed for \<open>f\<close> and \<open>g\<close>.\<close>

definition distinguishes :: "(json \<Rightarrow> string) \<Rightarrow> string \<Rightarrow> json \<Rightarrow> json \<Rightarrow> bool" where
  "distinguishes digest kind f g \<longleftrightarrow>
     (\<forall>x y. normalize_json (hash_wrapper kind f) = Inr x \<longrightarrow> normalize_json (hash_wrapper kind g) = Inr y \<longrightarrow>
        digest x = digest y \<longrightarrow> x = y)"

lemma hash_named_same:
  assumes "hash_named digest kind f = Inr d" and "distinguishes digest kind f g"
  shows "hash_named digest kind g = Inr d \<longleftrightarrow> normalize_json f = normalize_json g"
proof -
  from assms(1) obtain x where x: "normalize_json f = Inr x"
    by (auto simp: hash_named_def normalize_wrapper)
  show ?thesis
    using assms x by (cases "normalize_json g") (auto simp: hash_named_def distinguishes_def normalize_wrapper and_then_def)
qed

section \<open>The interface of a hashed record\<close>

text \<open>
  What a record has to promise to be identified by its digest: on valid records its JSON has a normal
  form, and two have the same one exactly when the records are the same as far as the program cares.
\<close>

locale canonical_record =
  fixes kind :: string and to_json :: "'a \<Rightarrow> json" and valid :: "'a \<Rightarrow> bool" and same :: "'a \<Rightarrow> 'a \<Rightarrow> bool"
  assumes normal: "valid x \<Longrightarrow> is_ok (normalize_json (to_json x))"
    and same_normal: "valid x \<Longrightarrow> valid y \<Longrightarrow> normalize_json (to_json x) = normalize_json (to_json y) \<longleftrightarrow> same x y"
begin

lemma hash_total: "valid x \<Longrightarrow> is_ok (hash_named digest kind (to_json x))"
  using normal[of x] by (auto simp: hash_named_def normalize_wrapper is_ok_iff)

lemma hash_identifies:
  assumes "hash_named digest kind (to_json x) = Inr h" and "valid x" and "valid y"
    and "distinguishes digest kind (to_json x) (to_json y)"
  shows "hash_named digest kind (to_json y) = Inr h \<longleftrightarrow> same x y"
  using hash_named_same[OF assms(1,4)] same_normal[OF assms(2,3)] by simp

end

text \<open>Collecting the results of a permuted list collects a permutation of the values.\<close>

lemma collect_results_mset:
  assumes "collect_results (map f xs) = Inr rows" and "mset xs = mset ys"
  shows "\<exists>rows'. collect_results (map f ys) = Inr rows' \<and> mset rows' = mset rows"
proof -
  have fx: "map f xs = map Inr rows" using assms(1) by (simp add: collect_results_ok)
  have "\<exists>r. f y = Inr r" if "y \<in> set ys" for y
  proof -
    have "f y \<in> set (map f xs)" using that mset_eq_setD[OF assms(2)] by simp
    then show ?thesis unfolding fx by auto
  qed
  then obtain g where g: "\<forall>y\<in>set ys. f y = Inr (g y)" by metis
  then have "map f ys = map Inr (map g ys)" "map f xs = map Inr (map g xs)"
    using mset_eq_setD[OF assms(2)] by auto
  then have "collect_results (map f ys) = Inr (map g ys)" "rows = map g xs"
    using fx by (simp_all add: collect_results_ok inj_map_eq_map[symmetric] del: map_map)
  with assms(2) show ?thesis by (metis mset_map)
qed

lemma collect_results_err: "collect_results rs = Inl e \<Longrightarrow> Inl e \<in> set rs"
  by (induction rs) auto

end
