(* ===== verification/Team_Contract.thy ===== *)
theory Team_Contract
  imports Canonical_Json Ordered_Map Delivery_Adoption "HOL-Library.Multiset"
begin

text \<open>
  \<^verbatim>\<open>crates/awr-team/src/contract.rs\<close>: the versioned work contract, its validation per codec, the
  conversion from the wire form, and its digest, which does not depend on the order of the lists.
\<close>

section \<open>Data\<close>

datatype cross_workstream_review_assurance = CrTeamIndependent | CrSimulatedMemberIndependent

record cross_workstream_dependency_policy =
  cw_review_assurance :: cross_workstream_review_assurance
  cw_version_policy :: delivery_version_policy

datatype dependency_acceptance_mode =
    AgentReviewedCallerAssertedReconciled
  | SimulatedMemberIndependent
  | CrossWorkstream cross_workstream_dependency_policy

datatype execution_settlement_mode = IndependentWorkspaceV1 | IndependentWorkspaceV2

record execution_settlement_policy =
  es_mode :: execution_settlement_mode
  es_workspace_id :: string

definition COMPLETION_POLICY :: string where
  "COMPLETION_POLICY = ''caller_managed_execution_and_agent_review''"

definition SIMULATED_MEMBER_COMPLETION_POLICY :: string where
  "SIMULATED_MEMBER_COMPLETION_POLICY = ''caller_managed_execution_and_simulated_member_review''"

definition settlement_validate :: "execution_settlement_policy \<Rightarrow> (team_error, unit) result" where
  "settlement_validate p =
     refuse (es_workspace_id p = [] \<or> length (es_workspace_id p) > 128
             \<or> \<not> is_ascii_alphanumeric (hd (es_workspace_id p))
             \<or> \<not> list_all (\<lambda>c. is_ascii_alphanumeric c \<or> c \<in> set ''_.:-'') (es_workspace_id p))
       (TeInvalidContract ''workspace_id must be a stable opaque identity of 1..128 ASCII bytes'')"

type_synonym dependency_modes = "(string, dependency_acceptance_mode) btree_map"

record work_contract =
  wc_codec :: string
  wc_work_id :: string
  wc_external_key :: string
  wc_goals :: "string list"
  wc_hard_rules :: "string list"
  wc_scope_paths :: "string list"
  wc_acceptance :: "string list"
  wc_required_dependencies :: "string list"
  wc_completion_policy :: string
  wc_verification_requirements :: "string list"
  wc_dependency_acceptance :: dependency_modes
  wc_execution_settlement :: "execution_settlement_policy option"

record wire_contract =
  wi_codec :: string
  wi_work_id :: string
  wi_external_key :: string
  wi_goals :: "string list"
  wi_hard_rules :: "string list"
  wi_scope_paths :: "string list"
  wi_acceptance :: "string list"
  wi_required_dependencies :: "string list"
  wi_completion_policy :: string
  wi_verification_requirements :: "string list"
  wi_dependency_acceptance :: "dependency_modes option"
  wi_execution_settlement :: "execution_settlement_policy option"

section \<open>Validation\<close>

definition CONTRACT_CODEC :: string where "CONTRACT_CODEC = ''awr-team-contract-v1''"
definition CONTRACT_CODEC_V2 :: string where "CONTRACT_CODEC_V2 = ''awr-team-contract-v2''"
definition CONTRACT_CODEC_V3 :: string where "CONTRACT_CODEC_V3 = ''awr-team-contract-v3''"
definition CONTRACT_CODEC_V4 :: string where "CONTRACT_CODEC_V4 = ''awr-team-contract-v4''"
definition CONTRACT_CODEC_V5 :: string where "CONTRACT_CODEC_V5 = ''awr-team-contract-v5''"
definition CONTRACT_CODEC_V6 :: string where "CONTRACT_CODEC_V6 = ''awr-team-contract-v6''"

lemmas contract_codecs = CONTRACT_CODEC_def CONTRACT_CODEC_V2_def CONTRACT_CODEC_V3_def
  CONTRACT_CODEC_V4_def CONTRACT_CODEC_V5_def CONTRACT_CODEC_V6_def

definition is_cross_workstream :: "dependency_acceptance_mode \<Rightarrow> bool" where
  "is_cross_workstream m = (case m of CrossWorkstream _ \<Rightarrow> True | _ \<Rightarrow> False)"

text \<open>The arms of the match on settlement and codec.\<close>

definition settlement_arm :: "work_contract \<Rightarrow> (team_error, unit) result" where
  "settlement_arm c = (case wc_execution_settlement c of
     Some policy \<Rightarrow>
       (if wc_codec c \<in> {CONTRACT_CODEC_V3, CONTRACT_CODEC_V4, CONTRACT_CODEC_V5, CONTRACT_CODEC_V6} then
          run_checks
            [settlement_validate policy,
             refuse
               (\<not> (if wc_codec c = CONTRACT_CODEC_V4 then
                     wc_completion_policy c = SIMULATED_MEMBER_COMPLETION_POLICY
                   else if wc_codec c \<in> {CONTRACT_CODEC_V5, CONTRACT_CODEC_V6} then
                     wc_completion_policy c \<in> {COMPLETION_POLICY, SIMULATED_MEMBER_COMPLETION_POLICY}
                   else wc_completion_policy c = COMPLETION_POLICY)
                \<or> wc_scope_paths c = []
                \<or> list_ex trim_empty (wc_scope_paths c)
                \<or> wc_verification_requirements c = []
                \<or> list_ex trim_empty (wc_verification_requirements c))
               (TeInvalidContract ''independent workspace settlement requires scoped paths, verification requirements and the codec's explicit review policy'')]
        else Inl (TeInvalidContract ''execution_settlement is required for V3/V4 and simulated completion, forbidden in V1/V2, and otherwise optional in V5/V6''))
   | None \<Rightarrow>
       refuse
         (\<not> (wc_codec c \<in> {CONTRACT_CODEC, CONTRACT_CODEC_V2}
             \<or> wc_codec c \<in> {CONTRACT_CODEC_V5, CONTRACT_CODEC_V6}
               \<and> wc_completion_policy c \<noteq> SIMULATED_MEMBER_COMPLETION_POLICY))
         (TeInvalidContract ''execution_settlement is required for V3/V4 and simulated completion, forbidden in V1/V2, and otherwise optional in V5/V6''))"

definition contract_validate :: "work_contract \<Rightarrow> (team_error, unit) result" where
  "contract_validate c =
     (let modes = map snd (wc_dependency_acceptance c);
          simulated_dependency = list_ex (\<lambda>m. m = SimulatedMemberIndependent) modes;
          cross_stream_dependency = list_ex is_cross_workstream modes
      in run_checks
       [refuse (wc_codec c \<notin> {CONTRACT_CODEC, CONTRACT_CODEC_V2, CONTRACT_CODEC_V3, CONTRACT_CODEC_V4,
            CONTRACT_CODEC_V5, CONTRACT_CODEC_V6}) (TeInvalidContract ''unsupported contract codec''),
        refuse
          (wc_codec c = CONTRACT_CODEC \<and> wc_dependency_acceptance c \<noteq> []
           \<or> wc_codec c = CONTRACT_CODEC_V2 \<and> wc_dependency_acceptance c = []
           \<or> wc_codec c \<in> {CONTRACT_CODEC_V2, CONTRACT_CODEC_V3, CONTRACT_CODEC_V4, CONTRACT_CODEC_V5,
                CONTRACT_CODEC_V6}
             \<and> card (set (wc_required_dependencies c)) \<noteq> length (wc_required_dependencies c)
           \<or> list_ex (\<lambda>upstream. upstream = wc_work_id c \<or> upstream \<notin> set (wc_required_dependencies c))
               (map fst (wc_dependency_acceptance c)))
          (TeInvalidContract ''dependency_acceptance requires V2/V3/V4/V5/V6 and unique existing required predecessors; V2 requires a nonempty map''),
        refuse (cross_stream_dependency \<noteq> (wc_codec c = CONTRACT_CODEC_V6))
          (TeInvalidContract ''cross_workstream dependencies require V6; V6 requires at least one explicit cross-stream predecessor''),
        refuse (wc_codec c \<noteq> CONTRACT_CODEC_V6 \<and> simulated_dependency \<noteq> (wc_codec c = CONTRACT_CODEC_V5))
          (TeInvalidContract ''simulated_member_independent dependencies require V5; V5 requires at least one explicit simulated predecessor''),
        refuse (wc_completion_policy c = SIMULATED_MEMBER_COMPLETION_POLICY
                \<and> wc_codec c \<notin> {CONTRACT_CODEC_V4, CONTRACT_CODEC_V5, CONTRACT_CODEC_V6})
          (TeInvalidContract ''simulated member review requires contract V4/V5/V6''),
        settlement_arm c,
        refuse (trim_empty (wc_external_key c)) (TeInvalidContract ''external_key required''),
        refuse (wc_acceptance c = []) (TeInvalidContract ''acceptance required''),
        refuse (trim_empty (wc_completion_policy c)) (TeInvalidContract ''completion_policy required'')])"

definition contract_try_from :: "wire_contract \<Rightarrow> (team_error, work_contract) result" where
  "contract_try_from w =
     then_ok
       (run_checks
         [refuse (wi_codec w = CONTRACT_CODEC \<and> wi_dependency_acceptance w \<noteq> None)
            (TeInvalidContract ''dependency_acceptance requires contract V2''),
          refuse (wi_codec w \<notin> {CONTRACT_CODEC_V3, CONTRACT_CODEC_V4, CONTRACT_CODEC_V5, CONTRACT_CODEC_V6}
                  \<and> wi_execution_settlement w \<noteq> None)
            (TeInvalidContract ''execution_settlement requires contract V3/V4/V5/V6'')])
       (let contract =
          \<lparr>wc_codec = wi_codec w, wc_work_id = wi_work_id w, wc_external_key = wi_external_key w,
           wc_goals = wi_goals w, wc_hard_rules = wi_hard_rules w, wc_scope_paths = wi_scope_paths w,
           wc_acceptance = wi_acceptance w, wc_required_dependencies = wi_required_dependencies w,
           wc_completion_policy = wi_completion_policy w,
           wc_verification_requirements = wi_verification_requirements w,
           wc_dependency_acceptance = (case wi_dependency_acceptance w of None \<Rightarrow> [] | Some m \<Rightarrow> m),
           wc_execution_settlement = wi_execution_settlement w\<rparr>
        in then_ok (contract_validate contract) (Inr contract))"

section \<open>Digest\<close>

fun version_policy_json :: "delivery_version_policy \<Rightarrow> json" where
  "version_policy_json FixedDelivery = JString ''fixed_delivery''"
| "version_policy_json CurrentContract = JString ''current_contract''"

fun review_assurance_json :: "cross_workstream_review_assurance \<Rightarrow> json" where
  "review_assurance_json CrTeamIndependent = JString ''team_independent''"
| "review_assurance_json CrSimulatedMemberIndependent = JString ''simulated_member_independent''"

fun mode_json :: "dependency_acceptance_mode \<Rightarrow> json" where
  "mode_json AgentReviewedCallerAssertedReconciled = JString ''agent_reviewed_caller_asserted_reconciled''"
| "mode_json SimulatedMemberIndependent = JString ''simulated_member_independent''"
| "mode_json (CrossWorkstream p) =
     JObject [(''cross_workstream'',
       JObject [(''review_assurance'', review_assurance_json (cw_review_assurance p)),
                (''version_policy'', version_policy_json (cw_version_policy p))])]"

definition modes_json :: "dependency_modes \<Rightarrow> json" where
  "modes_json ms = JObject (map (\<lambda>(k, m). (k, mode_json m)) ms)"

fun settlement_mode_json :: "execution_settlement_mode \<Rightarrow> json" where
  "settlement_mode_json IndependentWorkspaceV1 = JString ''independent_workspace_v1''"
| "settlement_mode_json IndependentWorkspaceV2 = JString ''independent_workspace_v2''"

definition settlement_json :: "execution_settlement_policy \<Rightarrow> json" where
  "settlement_json p = JObject [(''mode'', settlement_mode_json (es_mode p)),
     (''workspace_id'', JString (es_workspace_id p))]"

definition option_json :: "('a \<Rightarrow> json) \<Rightarrow> 'a option \<Rightarrow> json" where
  "option_json f x = (case x of None \<Rightarrow> JNull | Some v \<Rightarrow> f v)"

definition canonical_entries :: "work_contract \<Rightarrow> (string \<times> json) list" where
  "canonical_entries c =
       [(''codec'', JString (wc_codec c)),
         (''work_id'', JString (wc_work_id c)),
         (''external_key'', JString (wc_external_key c)),
         (''goals'', json_strings (sort (wc_goals c))),
         (''hard_rules'', json_strings (sort (wc_hard_rules c))),
         (''scope_paths'', json_strings (sort (wc_scope_paths c))),
         (''acceptance'', json_strings (sort (wc_acceptance c))),
         (''required_dependencies'', json_strings (sort (wc_required_dependencies c))),
         (''completion_policy'', JString (wc_completion_policy c)),
         (''verification_requirements'', json_strings (sort (wc_verification_requirements c)))]
        @ (if wc_codec c \<in> {CONTRACT_CODEC_V2, CONTRACT_CODEC_V3, CONTRACT_CODEC_V4, CONTRACT_CODEC_V5,
               CONTRACT_CODEC_V6}
           then [(''dependency_acceptance'', modes_json (wc_dependency_acceptance c))] else [])
        @ (if wc_codec c \<in> {CONTRACT_CODEC_V3, CONTRACT_CODEC_V4, CONTRACT_CODEC_V5, CONTRACT_CODEC_V6}
           then [(''execution_settlement'', option_json settlement_json (wc_execution_settlement c))] else [])"

definition canonical_fields :: "work_contract \<Rightarrow> json" where
  "canonical_fields c = JObject (canonical_entries c)"

definition work_contract_hash :: "(json \<Rightarrow> string) \<Rightarrow> work_contract \<Rightarrow> (team_error, string) result" where
  "work_contract_hash digest c =
     then_ok (contract_validate c)
       (and_then (normalize_json (canonical_fields c)) (\<lambda>_. contract_hash digest (canonical_fields c)))"

section \<open>What the digest identifies\<close>

text \<open>Equality up to the order of the lists.\<close>

definition same_contract :: "work_contract \<Rightarrow> work_contract \<Rightarrow> bool" where
  "same_contract c d \<longleftrightarrow>
     wc_codec c = wc_codec d \<and> wc_work_id c = wc_work_id d \<and> wc_external_key c = wc_external_key d
     \<and> mset (wc_goals c) = mset (wc_goals d) \<and> mset (wc_hard_rules c) = mset (wc_hard_rules d)
     \<and> mset (wc_scope_paths c) = mset (wc_scope_paths d) \<and> mset (wc_acceptance c) = mset (wc_acceptance d)
     \<and> mset (wc_required_dependencies c) = mset (wc_required_dependencies d)
     \<and> wc_completion_policy c = wc_completion_policy d
     \<and> mset (wc_verification_requirements c) = mset (wc_verification_requirements d)
     \<and> wc_dependency_acceptance c = wc_dependency_acceptance d
     \<and> wc_execution_settlement c = wc_execution_settlement d"

lemma sort_eq_mset: "sort xs = sort ys \<longleftrightarrow> mset xs = mset (ys :: 'a::linorder list)"
  by (metis mset_sort properties_for_sort sorted_sort)

lemma normalize_version_policy [simp]: "normalize_json (version_policy_json v) = Inr (version_policy_json v)"
  by (cases v) simp_all

lemma normalize_review_assurance [simp]: "normalize_json (review_assurance_json r) = Inr (review_assurance_json r)"
  by (cases r) simp_all

lemma normalize_settlement_mode [simp]: "normalize_json (settlement_mode_json m) = Inr (settlement_mode_json m)"
  by (cases m) simp_all

lemma normalize_mode [simp]: "normalize_json (mode_json m) = Inr (mode_json m)"
  by (cases m) simp_all

lemma normalize_settlement [simp]: "normalize_json (option_json settlement_json s) = Inr (option_json settlement_json s)"
  by (cases s) (simp_all add: option_json_def settlement_json_def)

lemma version_policy_json_inject [simp]: "version_policy_json v = version_policy_json v' \<longleftrightarrow> v = v'"
  by (cases v; cases v') simp_all

lemma review_assurance_json_inject [simp]: "review_assurance_json r = review_assurance_json r' \<longleftrightarrow> r = r'"
  by (cases r; cases r') simp_all

lemma settlement_mode_json_inject [simp]: "settlement_mode_json m = settlement_mode_json m' \<longleftrightarrow> m = m'"
  by (cases m; cases m') simp_all

lemma mode_json_inject [simp]: "mode_json m = mode_json m' \<longleftrightarrow> m = m'"
  by (cases m; cases m') auto

lemma settlement_json_inject [simp]:
  "option_json settlement_json s = option_json settlement_json s' \<longleftrightarrow> s = s'"
  by (cases s; cases s') (auto simp: option_json_def settlement_json_def)

lemma modes_json_ok: "is_ok (normalize_json (modes_json a))"
  unfolding modes_json_def by (rule normalize_object_ok) auto

lemma modes_json_same:
  assumes "bt_wf a" and "bt_wf b"
  shows "normalize_json (modes_json a) = normalize_json (modes_json b) \<longleftrightarrow> a = b"
proof
  assume eq: "normalize_json (modes_json a) = normalize_json (modes_json b)"
  have keys: "distinct (map fst (map (\<lambda>(k, m). (k, mode_json m)) c))" if "bt_wf c" for c
    using bt_wf_distinct[OF that] by (simp add: case_prod_unfold comp_def)
  obtain x where "normalize_json (modes_json a) = Inr x" using modes_json_ok[of a] by (auto simp: is_ok_iff)
  with eq have "map_option normalize_json (map_of (map (\<lambda>(k, m). (k, mode_json m)) a) k)
      = map_option normalize_json (map_of (map (\<lambda>(k, m). (k, mode_json m)) b) k)" for k
    using normalize_same_lookup[OF _ _ keys[OF assms(1)] keys[OF assms(2)]] unfolding modes_json_def by metis
  then have "map_of a k = map_of b k" for k
    unfolding map_of_map_snd option.map_comp comp_def normalize_mode
    by (cases "map_of a k"; cases "map_of b k") (metis mode_json_inject option.map option.inject option.distinct sum.inject(2))+
  with assms show "a = b" by (intro bt_wf_unique) auto
qed simp

lemma canonical_keys: "distinct (map fst (canonical_entries c))"
  by (simp add: canonical_entries_def)

lemma canonical_ok: "is_ok (normalize_json (canonical_fields c))"
  unfolding canonical_fields_def
  by (rule normalize_object_ok) (auto simp: canonical_entries_def modes_json_ok split: if_splits)

text \<open>A valid contract without one of the two optional entries has nothing to put there.\<close>

lemma contract_optional_entries:
  assumes "contract_validate c = Inr ()"
  shows "wc_codec c = CONTRACT_CODEC \<Longrightarrow> wc_dependency_acceptance c = []"
    and "wc_codec c \<in> {CONTRACT_CODEC, CONTRACT_CODEC_V2} \<Longrightarrow> wc_execution_settlement c = None"
    and "wc_codec c \<in> {CONTRACT_CODEC, CONTRACT_CODEC_V2, CONTRACT_CODEC_V3, CONTRACT_CODEC_V4,
       CONTRACT_CODEC_V5, CONTRACT_CODEC_V6}"
proof -
  from assms have arm: "settlement_arm c = Inr ()"
    and "wc_codec c = CONTRACT_CODEC \<longrightarrow> wc_dependency_acceptance c = []"
    and known: "wc_codec c \<in> {CONTRACT_CODEC, CONTRACT_CODEC_V2, CONTRACT_CODEC_V3, CONTRACT_CODEC_V4,
       CONTRACT_CODEC_V5, CONTRACT_CODEC_V6}"
    unfolding contract_validate_def Let_def by simp_all
  then show "wc_codec c = CONTRACT_CODEC \<Longrightarrow> wc_dependency_acceptance c = []" by simp
  show "wc_codec c \<in> {CONTRACT_CODEC, CONTRACT_CODEC_V2, CONTRACT_CODEC_V3, CONTRACT_CODEC_V4,
       CONTRACT_CODEC_V5, CONTRACT_CODEC_V6}" by (rule known)
  have other: "{CONTRACT_CODEC, CONTRACT_CODEC_V2} \<inter> {CONTRACT_CODEC_V3, CONTRACT_CODEC_V4, CONTRACT_CODEC_V5, CONTRACT_CODEC_V6} = {}"
    by (simp add: contract_codecs)
  show "wc_execution_settlement c = None" if "wc_codec c \<in> {CONTRACT_CODEC, CONTRACT_CODEC_V2}"
  proof (rule ccontr)
    assume "wc_execution_settlement c \<noteq> None"
    with arm have "wc_codec c \<in> {CONTRACT_CODEC_V3, CONTRACT_CODEC_V4, CONTRACT_CODEC_V5, CONTRACT_CODEC_V6}"
      by (auto simp: settlement_arm_def split: if_splits)
    with that other show False by blast
  qed
qed

lemma canonical_same:
  assumes valid: "contract_validate c = Inr ()" "contract_validate d = Inr ()"
    and wf: "bt_wf (wc_dependency_acceptance c)" "bt_wf (wc_dependency_acceptance d)"
  shows "normalize_json (canonical_fields c) = normalize_json (canonical_fields d) \<longleftrightarrow> same_contract c d"
proof
  assume eq: "normalize_json (canonical_fields c) = normalize_json (canonical_fields d)"
  obtain x where "normalize_json (canonical_fields c) = Inr x" using canonical_ok[of c] by (auto simp: is_ok_iff)
  with eq have look: "map_option normalize_json (map_of (canonical_entries c) k)
      = map_option normalize_json (map_of (canonical_entries d) k)" for k
    using normalize_same_lookup[OF _ _ canonical_keys canonical_keys] unfolding canonical_fields_def by metis
  have codec: "wc_codec c = wc_codec d" using look[of "''codec''"] by (simp add: canonical_entries_def)
  have "wc_dependency_acceptance c = wc_dependency_acceptance d"
    using look[of "''dependency_acceptance''"] contract_optional_entries(1,3)[OF valid(1)]
      contract_optional_entries(1)[OF valid(2)] codec modes_json_same[OF wf]
    by (cases "wc_codec c = CONTRACT_CODEC") (auto simp: canonical_entries_def)
  moreover have "wc_execution_settlement c = wc_execution_settlement d"
    using look[of "''execution_settlement''"] contract_optional_entries(2,3)[OF valid(1)]
      contract_optional_entries(2)[OF valid(2)] codec
    by (cases "wc_codec c \<in> {CONTRACT_CODEC, CONTRACT_CODEC_V2}") (auto simp: canonical_entries_def)
  ultimately show "same_contract c d"
    using codec look[of "''work_id''"] look[of "''external_key''"] look[of "''goals''"]
      look[of "''hard_rules''"] look[of "''scope_paths''"] look[of "''acceptance''"]
      look[of "''required_dependencies''"] look[of "''completion_policy''"]
      look[of "''verification_requirements''"]
    by (simp add: same_contract_def canonical_entries_def sort_eq_mset)
next
  assume "same_contract c d"
  then have "canonical_entries c = canonical_entries d"
    by (simp add: same_contract_def canonical_entries_def sort_eq_mset[symmetric])
  then show "normalize_json (canonical_fields c) = normalize_json (canonical_fields d)"
    by (simp add: canonical_fields_def)
qed

interpretation contract: canonical_record "''contract''" canonical_fields
  "\<lambda>c. contract_validate c = Inr () \<and> bt_wf (wc_dependency_acceptance c)" same_contract
  by unfold_locales (auto simp: canonical_ok canonical_same)

section \<open>Properties\<close>

definition ex_contract :: work_contract where
  "ex_contract = \<lparr>wc_codec = CONTRACT_CODEC_V2, wc_work_id = ''w2'', wc_external_key = ''K-2'',
     wc_goals = [''g2'', ''g1''], wc_hard_rules = [], wc_scope_paths = [''src/a''],
     wc_acceptance = [''tests pass''], wc_required_dependencies = [''w1''],
     wc_completion_policy = ''independent_review'', wc_verification_requirements = [],
     wc_dependency_acceptance = [(''w1'', AgentReviewedCallerAssertedReconciled)],
     wc_execution_settlement = None\<rparr>"

text \<open>
  The contract digest identifies the contract. Where the digest function does not collide on the
  two hashed values, two valid contracts have the same digest exactly when they agree in codec,
  identity, policies and dependency modes and, up to order, in every list: reordering goals, rules,
  paths, criteria, dependencies or requirements never changes the digest and any other change does.
\<close>
theorem contract_digest_identifies:
  assumes "work_contract_hash digest c = Inr h" and "contract_validate d = Inr ()"
    and "bt_wf (wc_dependency_acceptance c)" and "bt_wf (wc_dependency_acceptance d)"
    and "distinguishes digest ''contract'' (canonical_fields c) (canonical_fields d)"
  shows "work_contract_hash digest d = Inr h \<longleftrightarrow> same_contract c d"
proof -
  have c: "contract_validate c = Inr ()" "hash_named digest ''contract'' (canonical_fields c) = Inr h"
    using assms(1) by (auto simp: work_contract_hash_def contract_hash_def)
  obtain x where x: "normalize_json (canonical_fields d) = Inr x"
    using canonical_ok[of d] by (auto simp: is_ok_iff)
  have "work_contract_hash digest d = Inr h \<longleftrightarrow> hash_named digest ''contract'' (canonical_fields d) = Inr h"
    using assms(2) x by (auto simp: work_contract_hash_def contract_hash_def)
  also have "\<dots> \<longleftrightarrow> same_contract c d"
    by (rule contract.hash_identifies[OF c(2)]) (use c(1) assms in simp_all)
  finally show ?thesis .
qed

theorem contract_digest_identifies_witness:
  "work_contract_hash (\<lambda>_. ''d'') ex_contract = Inr ''d''
   \<and> work_contract_hash (\<lambda>_. ''d'') (ex_contract\<lparr>wc_goals := [''g1'', ''g2'']\<rparr>) = Inr ''d''"
proof -
  let ?d = "ex_contract\<lparr>wc_goals := [''g1'', ''g2'']\<rparr>"
  have c: "work_contract_hash (\<lambda>_. ''d'') ex_contract = Inr ''d''" by code_simp
  have d: "contract_validate ?d = Inr ()" by code_simp
  have fields: "canonical_fields ?d = canonical_fields ex_contract" by code_simp
  have dist: "distinguishes (\<lambda>_. ''d'') ''contract'' (canonical_fields ex_contract) (canonical_fields ?d)"
    unfolding fields by (simp add: distinguishes_def)
  have "bt_wf (wc_dependency_acceptance ex_contract)" "bt_wf (wc_dependency_acceptance ?d)"
    by (simp_all add: ex_contract_def bt_wf_def)
  from contract_digest_identifies[OF c d this dist] c show ?thesis
    by (simp add: same_contract_def ex_contract_def)
qed

end
