(* ===== verification/Team_Permission.thy ===== *)
theory Team_Permission
  imports Team_Error
begin

text \<open>
  \<^verbatim>\<open>crates/awr-team/src/permission.rs\<close>: the closed set of business actions, the role templates, the
  narrowing by business roles, the scoped authority a request is checked against, and the preview
  of what a legacy membership migrates to.
\<close>

section \<open>Roles and actions\<close>

definition PERMISSION_POLICY_VERSION :: u32 where
  "PERMISSION_POLICY_VERSION = 2"

datatype role_template = RtReader | RtDeveloper | RtMaintainer | RtProjectAdmin

fun role_as_str :: "role_template \<Rightarrow> string" where
  "role_as_str RtReader = ''reader''"
| "role_as_str RtDeveloper = ''developer''"
| "role_as_str RtMaintainer = ''maintainer''"
| "role_as_str RtProjectAdmin = ''project_admin''"

definition role_parse :: "string \<Rightarrow> (team_error, role_template) result" where
  "role_parse name =
     (if name = ''reader'' then Inr RtReader
      else if name = ''developer'' then Inr RtDeveloper
      else if name = ''maintainer'' then Inr RtMaintainer
      else if name = ''project_admin'' then Inr RtProjectAdmin
      else Inl (TeInvalidInput (''unknown role template: '' @ name)))"

definition role_all :: "role_template list" where
  "role_all = [RtReader, RtDeveloper, RtMaintainer, RtProjectAdmin]"

datatype team_action =
    WorkRead | WorkAssign | SessionMaintainOwn | ClaimManageOwn | ExecutionRequestAndReportOwn
  | PlanningPropose | PlanningEditDraft | PlanningApprove | PlanningPublish
  | DeliverySubmitAndRequestReview | ReviewDecide | DeliveryFinalize | AccessManageProject
  | AuditReadProject

fun team_action_as_str :: "team_action \<Rightarrow> string" where
  "team_action_as_str WorkRead = ''work.read''"
| "team_action_as_str WorkAssign = ''work.assign''"
| "team_action_as_str SessionMaintainOwn = ''session.maintain_own''"
| "team_action_as_str ClaimManageOwn = ''claim.manage_own''"
| "team_action_as_str ExecutionRequestAndReportOwn = ''execution.request_and_report_own''"
| "team_action_as_str PlanningPropose = ''planning.propose''"
| "team_action_as_str PlanningEditDraft = ''planning.edit_draft''"
| "team_action_as_str PlanningApprove = ''planning.approve''"
| "team_action_as_str PlanningPublish = ''planning.publish''"
| "team_action_as_str DeliverySubmitAndRequestReview = ''delivery.submit_and_request_review''"
| "team_action_as_str ReviewDecide = ''review.decide''"
| "team_action_as_str DeliveryFinalize = ''delivery.finalize''"
| "team_action_as_str AccessManageProject = ''access.manage_project''"
| "team_action_as_str AuditReadProject = ''audit.read_project''"

definition team_action_all :: "team_action list" where
  "team_action_all = [WorkRead, WorkAssign, SessionMaintainOwn, ClaimManageOwn,
     ExecutionRequestAndReportOwn, PlanningPropose, PlanningEditDraft, PlanningApprove,
     PlanningPublish, DeliverySubmitAndRequestReview, ReviewDecide, DeliveryFinalize,
     AccessManageProject, AuditReadProject]"

definition team_action_parse :: "string \<Rightarrow> (team_error, team_action) result" where
  "team_action_parse name =
     (if name = ''work.read'' then Inr WorkRead
      else if name = ''work.assign'' then Inr WorkAssign
      else if name = ''session.maintain_own'' then Inr SessionMaintainOwn
      else if name = ''claim.manage_own'' then Inr ClaimManageOwn
      else if name = ''execution.request_and_report_own'' then Inr ExecutionRequestAndReportOwn
      else if name = ''planning.propose'' then Inr PlanningPropose
      else if name = ''planning.edit_draft'' then Inr PlanningEditDraft
      else if name = ''planning.approve'' then Inr PlanningApprove
      else if name = ''planning.publish'' then Inr PlanningPublish
      else if name = ''delivery.submit_and_request_review'' then Inr DeliverySubmitAndRequestReview
      else if name = ''review.decide'' then Inr ReviewDecide
      else if name = ''delivery.finalize'' then Inr DeliveryFinalize
      else if name = ''access.manage_project'' then Inr AccessManageProject
      else if name = ''audit.read_project'' then Inr AuditReadProject
      else Inl (TePermissionDenied (''unknown action denied by default: '' @ name)))"

definition new_privileged_actions :: "team_action list" where
  "new_privileged_actions = [WorkAssign, PlanningPropose, PlanningEditDraft, PlanningApprove,
     PlanningPublish, AccessManageProject, ReviewDecide]"

datatype special_authority =
    DatabaseOwner | SchemaMigration | ArbitrarySourceFilesystem | TrustedExecutorAttestation
  | ExecutionReconciliation | CrossProjectOrTenantAdministration

fun special_as_str :: "special_authority \<Rightarrow> string" where
  "special_as_str DatabaseOwner = ''database_owner''"
| "special_as_str SchemaMigration = ''schema_migration''"
| "special_as_str ArbitrarySourceFilesystem = ''arbitrary_source_filesystem''"
| "special_as_str TrustedExecutorAttestation = ''trusted_executor_attestation''"
| "special_as_str ExecutionReconciliation = ''execution_reconciliation''"
| "special_as_str CrossProjectOrTenantAdministration = ''cross_project_or_tenant_administration''"

record resource_ref =
  rf_tenant_id :: string
  rf_project_id :: string
  rf_workstream_id :: "string option"
  rf_work_id :: "string option"

record authority_scope =
  au_tenant_id :: string
  au_project_id :: string
  au_workstream_id :: "string option"
  au_work_ids :: "string set"
  au_person_id :: string
  au_execution_identity :: "string option"
  au_client_id :: string
  au_allowed_actions :: "team_action set"
  au_independent_review_grant :: bool
  au_agent_review_grant :: bool
  au_not_after_unix_ms :: "u64 option"
  au_revoked :: bool
  au_policy_version :: u32

fun template_actions :: "role_template \<Rightarrow> team_action set" where
  "template_actions RtReader = {WorkRead}"
| "template_actions RtDeveloper =
     {WorkRead, SessionMaintainOwn, ClaimManageOwn, ExecutionRequestAndReportOwn, PlanningPropose,
      DeliverySubmitAndRequestReview}"
| "template_actions RtMaintainer =
     {WorkRead, SessionMaintainOwn, ClaimManageOwn, ExecutionRequestAndReportOwn, PlanningPropose,
      PlanningEditDraft, PlanningApprove, PlanningPublish, DeliverySubmitAndRequestReview,
      DeliveryFinalize}"
| "template_actions RtProjectAdmin =
     {WorkRead, SessionMaintainOwn, ClaimManageOwn, ExecutionRequestAndReportOwn, PlanningPropose,
      PlanningEditDraft, PlanningApprove, PlanningPublish, DeliverySubmitAndRequestReview,
      DeliveryFinalize, AccessManageProject, AuditReadProject}"

definition independent_review_eligible :: "role_template \<Rightarrow> bool" where
  "independent_review_eligible role \<longleftrightarrow> role \<noteq> RtReader"

datatype business_role = BrObserver | BrDeveloper | BrReviewer | BrSupervisor | BrDeliverer | BrAdministrator

definition business_role_all :: "business_role list" where
  "business_role_all = [BrObserver, BrDeveloper, BrReviewer, BrSupervisor, BrDeliverer, BrAdministrator]"

fun action_ceiling :: "business_role \<Rightarrow> team_action set" where
  "action_ceiling BrObserver = {WorkRead}"
| "action_ceiling BrDeveloper = template_actions RtDeveloper"
| "action_ceiling BrReviewer = {WorkRead, SessionMaintainOwn, ReviewDecide}"
| "action_ceiling BrSupervisor =
     {WorkRead, WorkAssign, SessionMaintainOwn, PlanningPropose, PlanningEditDraft, PlanningApprove,
      PlanningPublish, AuditReadProject}"
| "action_ceiling BrDeliverer = {WorkRead, SessionMaintainOwn, DeliveryFinalize}"
| "action_ceiling BrAdministrator = {WorkRead, AccessManageProject, AuditReadProject}"

definition validate_business_roles :: "business_role set \<Rightarrow> (team_error, unit) result" where
  "validate_business_roles roles = refuse (roles = {}) (TeInvalidInput ''business roles must not be empty'')"

definition constrain_actions_to_business_roles ::
  "team_action set \<Rightarrow> business_role set option \<Rightarrow> team_action set" where
  "constrain_actions_to_business_roles actions roles = (case roles of
     None \<Rightarrow> actions
   | Some rs \<Rightarrow> actions \<inter> \<Union> (action_ceiling ` rs))"

section \<open>Authorization\<close>

definition authority_covers :: "authority_scope \<Rightarrow> resource_ref \<Rightarrow> u64 \<Rightarrow> (team_error, unit) result" where
  "authority_covers scope resource now_unix_ms =
     run_checks
       [refuse (au_revoked scope) (TePermissionDenied ''authority revoked''),
        check_some (\<lambda>exp. refuse (now_unix_ms > exp) (TePermissionDenied ''authority expired''))
          (au_not_after_unix_ms scope),
        refuse (\<not> (au_policy_version scope = 1 \<or> au_policy_version scope = PERMISSION_POLICY_VERSION))
          (TePermissionDenied ''permission policy version mismatch''),
        refuse (au_tenant_id scope \<noteq> rf_tenant_id resource \<or> au_project_id scope \<noteq> rf_project_id resource)
          (TePermissionDenied ''tenant/project scope mismatch''),
        check_some (\<lambda>ws. refuse (rf_workstream_id resource \<noteq> Some ws)
            (TePermissionDenied ''workstream scope mismatch'')) (au_workstream_id scope),
        refuse (au_work_ids scope \<noteq> {}
                \<and> (case rf_work_id resource of None \<Rightarrow> True | Some i \<Rightarrow> i \<notin> au_work_ids scope))
          (TePermissionDenied ''work id outside authorized set''),
        refuse (trim_empty (au_person_id scope) \<or> trim_empty (au_client_id scope)
                \<or> trim_empty (au_tenant_id scope) \<or> trim_empty (au_project_id scope))
          (TePermissionDenied ''authority missing required identity fields'')]"

definition authorize_action ::
  "authority_scope \<Rightarrow> team_action \<Rightarrow> resource_ref \<Rightarrow> u64 \<Rightarrow> (team_error, unit) result" where
  "authorize_action scope action resource now_unix_ms =
     then_ok
       (run_checks
         [authority_covers scope resource now_unix_ms,
          refuse (action = WorkAssign \<and> au_policy_version scope < 2)
            (TePermissionDenied ''work.assign requires permission policy v2'')])
       (if action = ReviewDecide then
          refuse (\<not> (au_independent_review_grant scope \<or> au_agent_review_grant scope)
                  \<or> ReviewDecide \<notin> au_allowed_actions scope)
            (TePermissionDenied ''review.decide requires independent review grant'')
        else
          refuse (action \<notin> au_allowed_actions scope)
            (TePermissionDenied (''action '' @ team_action_as_str action @ '' not permitted by authority'')))"

definition authority_from_template ::
  "role_template \<Rightarrow> string \<Rightarrow> string \<Rightarrow> string \<Rightarrow> string \<Rightarrow> authority_scope" where
  "authority_from_template role tenant_id project_id person_id client_id =
     \<lparr>au_tenant_id = tenant_id, au_project_id = project_id, au_workstream_id = None, au_work_ids = {},
      au_person_id = person_id, au_execution_identity = None, au_client_id = client_id,
      au_allowed_actions = template_actions role, au_independent_review_grant = False,
      au_agent_review_grant = False, au_not_after_unix_ms = None, au_revoked = False,
      au_policy_version = PERMISSION_POLICY_VERSION\<rparr>"

definition with_independent_review ::
  "authority_scope \<Rightarrow> role_template \<Rightarrow> (team_error, authority_scope) result" where
  "with_independent_review scope role =
     then_ok (refuse (\<not> independent_review_eligible role)
         (TePermissionDenied ''reader template cannot receive independent review grant''))
       (Inr (scope\<lparr>au_independent_review_grant := True,
          au_allowed_actions := insert ReviewDecide (au_allowed_actions scope)\<rparr>))"

definition deny_role_name_only :: "string \<Rightarrow> team_action \<Rightarrow> (team_error, unit) result" where
  "deny_role_name_only role_name action =
     Inl (TePermissionDenied (''role name alone cannot authorize '' @ team_action_as_str action))"

definition deny_tool_visibility_only :: "string \<Rightarrow> team_action \<Rightarrow> (team_error, unit) result" where
  "deny_tool_visibility_only tool_name action =
     Inl (TePermissionDenied (''tool visibility alone cannot authorize '' @ team_action_as_str action))"

definition deny_model_self_report_only :: "string \<Rightarrow> team_action \<Rightarrow> (team_error, unit) result" where
  "deny_model_self_report_only claim action =
     Inl (TePermissionDenied (''model self-report alone cannot authorize '' @ team_action_as_str action))"

definition template_grants_special :: "role_template \<Rightarrow> special_authority \<Rightarrow> bool" where
  "template_grants_special role special = False"

definition action_allowed_for_template :: "role_template \<Rightarrow> team_action \<Rightarrow> bool" where
  "action_allowed_for_template role action \<longleftrightarrow> action \<in> template_actions role"

section \<open>Migration of legacy memberships\<close>

datatype person_link_status = LinkVerified | LinkUnknown

datatype legacy_role = LegacyReader | LegacyReviewer | LegacyWorker | LegacyAdmin

datatype legacy_grant = LegacyRead | LegacyWrite | LegacyManage

record migration_preview =
  mp_legacy_role :: "legacy_role option"
  mp_legacy_grant :: "legacy_grant option"
  mp_suggested_template :: "role_template option"
  mp_granted_actions :: "team_action set"
  mp_withheld_new_actions :: "team_action set"
  mp_person_link :: person_link_status
  mp_independent_review_granted :: bool
  mp_notes :: "string list"

fun legacy_role_template :: "legacy_role \<Rightarrow> role_template \<times> string" where
  "legacy_role_template LegacyReader = (RtReader, ''legacy reader maps to reader template'')"
| "legacy_role_template LegacyReviewer =
     (RtReader, ''legacy reviewer maps to reader; review.decide needs a separate grant'')"
| "legacy_role_template LegacyWorker =
     (RtDeveloper, ''legacy worker maps to developer template before withholding'')"
| "legacy_role_template LegacyAdmin =
     (RtProjectAdmin, ''legacy admin maps to project_admin template before withholding'')"

fun legacy_grant_template :: "legacy_grant \<Rightarrow> role_template \<times> string" where
  "legacy_grant_template LegacyRead = (RtReader, ''legacy read grant contributes reader-template actions'')"
| "legacy_grant_template LegacyWrite =
     (RtDeveloper, ''legacy write grant contributes developer-template actions'')"
| "legacy_grant_template LegacyManage =
     (RtProjectAdmin, ''legacy manage grant contributes project_admin-template actions'')"

text \<open>The suggested template, the actions before withholding and the note of each combination.\<close>

definition effective_legacy ::
  "role_template option \<Rightarrow> role_template option \<Rightarrow> role_template option \<times> team_action set \<times> string" where
  "effective_legacy role_t grant_t = (case (role_t, grant_t) of
     (Some r, Some g) \<Rightarrow> (Some r, template_actions r \<inter> template_actions g,
        ''legacy membership and client grant are intersected; neither side expands the other'')
   | (Some r, None) \<Rightarrow> (Some r, template_actions r,
        ''legacy grant missing; membership actions used before withholding'')
   | (None, Some g) \<Rightarrow> (Some g, template_actions g,
        ''legacy membership missing; client grant actions used before withholding'')
   | (None, None) \<Rightarrow> (None, {}, ''legacy membership and grant both missing; no actions granted''))"

definition preview_legacy_migration ::
  "legacy_role option \<Rightarrow> legacy_grant option \<Rightarrow> person_link_status \<Rightarrow> migration_preview" where
  "preview_legacy_migration role grant link =
     (if link = LinkUnknown then
        \<lparr>mp_legacy_role = role, mp_legacy_grant = grant, mp_suggested_template = None,
         mp_granted_actions = {}, mp_withheld_new_actions = set new_privileged_actions,
         mp_person_link = link, mp_independent_review_granted = False,
         mp_notes = [''person relationship has no verified evidence; link stays unknown'']\<rparr>
      else
        let role_t = map_option legacy_role_template role;
            grant_t = map_option legacy_grant_template grant;
            (suggested, granted, note) = effective_legacy (map_option fst role_t) (map_option fst grant_t);
            withheld = set new_privileged_actions
        in \<lparr>mp_legacy_role = role, mp_legacy_grant = grant, mp_suggested_template = suggested,
            mp_granted_actions = granted - withheld, mp_withheld_new_actions = withheld,
            mp_person_link = link, mp_independent_review_granted = False,
            mp_notes = (case role_t of None \<Rightarrow> [] | Some t \<Rightarrow> [snd t])
              @ (case grant_t of None \<Rightarrow> [] | Some t \<Rightarrow> [snd t]) @ [note]
              @ [''newly introduced privileges (planning.*, access.manage_project, review.decide) are withheld from migration'',
                 ''independent review is never granted by migration preview'']\<rparr>)"

section \<open>Laws\<close>

lemma team_action_UNIV: "set team_action_all = UNIV"
proof
  show "UNIV \<subseteq> set team_action_all"
  proof
    fix a :: team_action
    show "a \<in> set team_action_all" by (cases a) (simp_all add: team_action_all_def)
  qed
qed simp

lemma team_action_parse_str [simp]: "team_action_parse (team_action_as_str a) = Inr a"
  by (cases a) (simp_all add: team_action_parse_def)

lemma team_action_parse_ok: "team_action_parse s = Inr a \<longleftrightarrow> s = team_action_as_str a"
proof
  assume "team_action_parse s = Inr a"
  then show "s = team_action_as_str a" by (auto simp: team_action_parse_def split: if_splits)
qed simp

lemma role_parse_ok: "role_parse s = Inr r \<longleftrightarrow> s = role_as_str r"
  by (cases r) (auto simp: role_parse_def)

lemma authority_covers_ok:
  "authority_covers s r now = Inr u \<longleftrightarrow>
     \<not> au_revoked s \<and> (\<forall>e. au_not_after_unix_ms s = Some e \<longrightarrow> now \<le> e)
     \<and> au_policy_version s \<in> {1, 2}
     \<and> au_tenant_id s = rf_tenant_id r \<and> au_project_id s = rf_project_id r
     \<and> (\<forall>w. au_workstream_id s = Some w \<longrightarrow> rf_workstream_id r = Some w)
     \<and> (au_work_ids s \<noteq> {} \<longrightarrow> (\<exists>i\<in>au_work_ids s. rf_work_id r = Some i))
     \<and> \<not> trim_empty (au_person_id s) \<and> \<not> trim_empty (au_client_id s)
     \<and> \<not> trim_empty (au_tenant_id s) \<and> \<not> trim_empty (au_project_id s)"
  by (auto simp: authority_covers_def PERMISSION_POLICY_VERSION_def not_less split: option.splits)

lemma authorize_action_ok:
  "authorize_action s a r now = Inr u \<longleftrightarrow>
     authority_covers s r now = Inr () \<and> a \<in> au_allowed_actions s
     \<and> (a = WorkAssign \<longrightarrow> au_policy_version s = 2)
     \<and> (a = ReviewDecide \<longrightarrow> au_independent_review_grant s \<or> au_agent_review_grant s)"
  by (auto simp: authorize_action_def authority_covers_ok)

text \<open>The templates form a chain, and none of them grants review, assignment or special authority.\<close>

lemma template_chain:
  "template_actions RtReader \<subseteq> template_actions RtDeveloper"
  "template_actions RtDeveloper \<subseteq> template_actions RtMaintainer"
  "template_actions RtMaintainer \<subseteq> template_actions RtProjectAdmin"
  by auto

lemma template_no_review: "ReviewDecide \<notin> template_actions r" "WorkAssign \<notin> template_actions r"
  by (cases r; simp)+

lemma migration_granted:
  "mp_granted_actions (preview_legacy_migration role grant link) =
     (if link = LinkUnknown then {}
      else fst (snd (effective_legacy (map_option (fst \<circ> legacy_role_template) role)
                       (map_option (fst \<circ> legacy_grant_template) grant))) - set new_privileged_actions)"
  by (auto simp: preview_legacy_migration_def Let_def option.map_comp split: prod.splits)

section \<open>Properties\<close>

definition ex_authority :: authority_scope where
  "ex_authority = authority_from_template RtDeveloper ''tenant'' ''proj'' ''alice'' ''client-1''"

definition ex_resource :: resource_ref where
  "ex_resource = \<lparr>rf_tenant_id = ''tenant'', rf_project_id = ''proj'', rf_workstream_id = None, rf_work_id = Some ''w1''\<rparr>"

text \<open>
  C9: A Team action is authorized exactly when the authority is live, of a known policy version and of
  the resource's tenant, project, workstream and work set, none of its person, client, tenant and
  project identifiers is blank, it lists the action, and for the two separately guarded actions it has the newer policy (assignment) or a review grant (review decision).
  Consequently no authority built from a role template alone, under any set of business roles, may
  decide a review or assign work, and restricting an authority to business roles never adds an action.
\<close>
theorem team_authorization_exact:
  "(authorize_action s a r now = Inr () \<longleftrightarrow>
      \<not> au_revoked s \<and> (\<forall>e. au_not_after_unix_ms s = Some e \<longrightarrow> now \<le> e)
      \<and> au_policy_version s \<in> {1, 2}
      \<and> au_tenant_id s = rf_tenant_id r \<and> au_project_id s = rf_project_id r
      \<and> (\<forall>w. au_workstream_id s = Some w \<longrightarrow> rf_workstream_id r = Some w)
      \<and> (au_work_ids s \<noteq> {} \<longrightarrow> (\<exists>i\<in>au_work_ids s. rf_work_id r = Some i))
      \<and> \<not> trim_empty (au_person_id s) \<and> \<not> trim_empty (au_client_id s)
      \<and> \<not> trim_empty (au_tenant_id s) \<and> \<not> trim_empty (au_project_id s)
      \<and> a \<in> au_allowed_actions s
      \<and> (a = WorkAssign \<longrightarrow> au_policy_version s = 2)
      \<and> (a = ReviewDecide \<longrightarrow> au_independent_review_grant s \<or> au_agent_review_grant s))
   \<and> (\<forall>roles. authorize_action
          (s\<lparr>au_allowed_actions := constrain_actions_to_business_roles (au_allowed_actions s) roles\<rparr>) a r now = Inr ()
        \<longrightarrow> authorize_action s a r now = Inr ())
   \<and> (\<forall>role t p who c roles. a \<in> {ReviewDecide, WorkAssign} \<longrightarrow>
        \<not> is_ok (authorize_action ((authority_from_template role t p who c)
           \<lparr>au_allowed_actions := constrain_actions_to_business_roles (template_actions role) roles\<rparr>) a r now))"
  using template_no_review
  by (auto simp: authorize_action_ok authority_covers_ok is_ok_iff constrain_actions_to_business_roles_def
      authority_from_template_def split: option.splits)

theorem team_authorization_exact_witness:
  "authorize_action ex_authority PlanningPropose ex_resource 7 = Inr ()
   \<and> \<not> is_ok (authorize_action ex_authority ReviewDecide ex_resource 7)"
  using team_authorization_exact[of ex_authority PlanningPropose ex_resource 7]
    team_authorization_exact[of ex_authority ReviewDecide ex_resource 7]
  by (simp add: ex_authority_def ex_resource_def authority_from_template_def PERMISSION_POLICY_VERSION_def
      is_ok_iff trim_empty_iff is_whitespace_def)

text \<open>
  Migrating a legacy membership never escalates: what is granted was allowed by every legacy
  record that exists, contains none of the newly introduced privileges and no review grant, and is
  empty without a verified person.
\<close>
theorem migration_never_escalates:
  "let p = preview_legacy_migration role grant link in
     mp_granted_actions p \<inter> set new_privileged_actions = {}
     \<and> \<not> mp_independent_review_granted p
     \<and> (\<forall>x. role = Some x \<longrightarrow> mp_granted_actions p \<subseteq> template_actions (fst (legacy_role_template x)))
     \<and> (\<forall>x. grant = Some x \<longrightarrow> mp_granted_actions p \<subseteq> template_actions (fst (legacy_grant_template x)))
     \<and> (link = LinkUnknown \<or> role = None \<and> grant = None \<longrightarrow> mp_granted_actions p = {})"
proof -
  have "\<not> mp_independent_review_granted (preview_legacy_migration role grant link)"
    by (simp add: preview_legacy_migration_def Let_def split: prod.splits)
  then show ?thesis
    unfolding Let_def migration_granted by (cases role; cases grant) (auto simp: effective_legacy_def)
qed

theorem migration_never_escalates_witness:
  "mp_granted_actions (preview_legacy_migration (Some LegacyAdmin) (Some LegacyRead) LinkVerified) = {WorkRead}"
proof -
  have "mp_granted_actions (preview_legacy_migration (Some LegacyAdmin) (Some LegacyRead) LinkVerified)
      \<subseteq> {WorkRead}"
    using migration_never_escalates[of "Some LegacyAdmin" "Some LegacyRead" LinkVerified] by (simp add: Let_def)
  then show ?thesis by (auto simp: migration_granted effective_legacy_def new_privileged_actions_def)
qed

end
