(* ===== verification/Cycle_Detection.thy ===== *)
theory Cycle_Detection
  imports Workstream_Graph Team_Error
begin

text \<open>
  The second cycle check of the repository, \<^verbatim>\<open>detect_cycle\<close> of
  \<^verbatim>\<open>crates/awr-team/src/planning.rs\<close>: a breadth-first topological count with in-degrees and a queue.
  Planning candidates and V6 workstream bundles use it where the core uses the depth-first check of
  \<open>Workstream_Graph\<close>. It is shown to decide the same relation, so the interface
  \<open>dependency_checker\<close> is interpreted a second time.

  \<open>keys\<close> are the keys of the \<^verbatim>\<open>BTreeMap\<close>s in order. A result \<open>None\<close> is a panic: the
  \<^verbatim>\<open>unwrap\<close> of a missing in-degree, or an in-degree going below zero.
\<close>

section \<open>The algorithm\<close>

definition cycle_keys :: "string list \<Rightarrow> edges \<Rightarrow> string list" where
  "cycle_keys nodes edges = graph_keys (nodes @ map fst edges @ map snd edges)"

definition adjacency :: "edges \<Rightarrow> string \<Rightarrow> string list" where
  "adjacency edges k = map snd (filter (\<lambda>(from, to). from = k) edges)"

definition init_indegrees :: "string list \<Rightarrow> (string \<Rightarrow> string list) \<Rightarrow> string \<Rightarrow> nat" where
  "init_indegrees keys adj =
     fold (\<lambda>k. fold (\<lambda>t indeg. indeg(t := indeg t + 1)) (adj k)) keys (\<lambda>_. 0)"

text \<open>The inner loop over the successors of a popped node.\<close>

fun relax ::
  "string list \<Rightarrow> (string \<Rightarrow> nat) \<Rightarrow> string list \<Rightarrow> string list \<Rightarrow> ((string \<Rightarrow> nat) \<times> string list) option" where
  "relax keys indeg q [] = Some (indeg, q)"
| "relax keys indeg q (t # ts) =
     (if t \<notin> set keys \<or> indeg t = 0 then None
      else relax keys (indeg(t := indeg t - 1)) (if indeg t - 1 = 0 then q @ [t] else q) ts)"

text \<open>Each push zeroes an in-degree, so the positive in-degrees and the queue keep their total.\<close>

lemma relax_total:
  "relax keys indeg q ts = Some (indeg', q') \<Longrightarrow>
     card {k \<in> set keys. 0 < indeg' k} + length q' = card {k \<in> set keys. 0 < indeg k} + length q"
proof (induction keys indeg q ts rule: relax.induct)
  case (1 keys indeg q)
  then show ?case by simp
next
  case (2 keys indeg q t ts)
  then have t: "t \<in> set keys" "0 < indeg t" by (auto split: if_splits)
  define d where "d = indeg(t := indeg t - 1)"
  have card: "card {k \<in> set keys. 0 < d k} + (if indeg t - 1 = 0 then 1 else 0) = card {k \<in> set keys. 0 < indeg k}"
  proof (cases "indeg t - 1 = 0")
    case True
    then have "{k \<in> set keys. 0 < indeg k} = insert t {k \<in> set keys. 0 < d k}" "\<not> 0 < d t"
      using t by (auto simp: d_def)
    with True show ?thesis by simp
  next
    case False
    then have "{k \<in> set keys. 0 < d k} = {k \<in> set keys. 0 < indeg k}" using t by (auto simp: d_def)
    with False show ?thesis by simp
  qed
  have run: "relax keys d (if indeg t - 1 = 0 then q @ [t] else q) ts = Some (indeg', q')"
    using "2.prems" t by (simp add: d_def)
  have "\<not> (t \<notin> set keys \<or> indeg t = 0)" using t by simp
  from "2.IH"[OF this, folded d_def, OF run] card show ?case by (auto split: if_splits)
qed

function kahn_loop ::
  "string list \<Rightarrow> (string \<Rightarrow> string list) \<Rightarrow> (string \<Rightarrow> nat) \<Rightarrow> string list \<Rightarrow> nat \<Rightarrow> nat option" where
  "kahn_loop keys adj indeg [] seen = Some seen"
| "kahn_loop keys adj indeg (n # q) seen =
     (case relax keys indeg q (adj n) of
        None \<Rightarrow> None
      | Some (indeg', q') \<Rightarrow> kahn_loop keys adj indeg' q' (seen + 1))"
  by pat_completeness auto
termination
  by (relation "measure (\<lambda>(keys, adj, indeg, q, seen). card {k \<in> set keys. 0 < indeg k} + length q)")
    (auto dest: relax_total)

definition detect_cycle :: "string list \<Rightarrow> edges \<Rightarrow> (team_error, unit) result option" where
  "detect_cycle nodes edges =
     (let keys = cycle_keys nodes edges;
          adj = adjacency edges;
          indeg = init_indegrees keys adj
      in map_option
           (\<lambda>seen. refuse (seen \<noteq> length keys) (TeInvalidInput ''dependency cycle in planning candidate''))
           (kahn_loop keys adj indeg (filter (\<lambda>k. indeg k = 0) keys) 0))"

section \<open>In-degrees\<close>

text \<open>The edges into \<open>k\<close> whose source is not yet popped, counted with repetition.\<close>

definition pending_in :: "edges \<Rightarrow> string set \<Rightarrow> string \<Rightarrow> nat" where
  "pending_in edges popped k = length (filter (\<lambda>(from, to). to = k \<and> from \<notin> popped) edges)"

lemma pending_in_0: "pending_in edges popped k = 0 \<longleftrightarrow> (\<forall>f. (f, k) \<in> set edges \<longrightarrow> f \<in> popped)"
  by (auto simp: pending_in_def filter_empty_conv)

lemma pending_in_pop:
  "n \<notin> popped \<Longrightarrow>
     pending_in edges popped k = pending_in edges (insert n popped) k + count_list (adjacency edges n) k"
  by (induction edges) (auto simp: pending_in_def adjacency_def)

lemma count_fold:
  "fold (\<lambda>t indeg. indeg(t := Suc (indeg t))) ts indeg k = indeg k + count_list ts k"
  by (induction ts arbitrary: indeg) auto

lemma init_indegrees_sum:
  "fold (\<lambda>k. fold (\<lambda>t indeg. indeg(t := indeg t + 1)) (adj k)) keys indeg t
     = indeg t + sum_list (map (\<lambda>k. count_list (adj k) t) keys)"
  by (induction keys arbitrary: indeg) (simp_all add: count_fold)

lemma count_adjacency: "count_list (adjacency edges f) t = length (filter (\<lambda>(a, b). a = f \<and> b = t) edges)"
  by (induction edges) (auto simp: adjacency_def)

lemma sum_adjacency:
  assumes "distinct keys" and "fst ` set edges \<subseteq> set keys"
  shows "sum_list (map (\<lambda>k. count_list (adjacency edges k) t) keys) = pending_in edges {} t"
  using assms(2)
proof (induction edges)
  case Nil
  then show ?case by (simp add: adjacency_def pending_in_def)
next
  case (Cons e edges)
  obtain a b where e: "e = (a, b)" by (cases e)
  have split: "count_list (adjacency (e # edges) k) t
      = (if k = a then of_bool (b = t) else 0) + count_list (adjacency edges k) t" for k
    by (auto simp: e adjacency_def)
  have one: "sum_list (map (\<lambda>k. if k = a then of_bool (b = t) else 0) keys) = (of_bool (b = t) :: nat)"
    using assms(1) Cons.prems by (simp add: sum_list_distinct_conv_sum_set e)
  show ?case
    unfolding split sum_list_addf one
    using Cons by (auto simp: pending_in_def e)
qed

lemma init_indegrees_eq:
  assumes "distinct keys" and "fst ` set edges \<subseteq> set keys"
  shows "init_indegrees keys (adjacency edges) t = pending_in edges {} t"
  unfolding init_indegrees_def init_indegrees_sum using sum_adjacency[OF assms] by simp

section \<open>The invariant\<close>

text \<open>
  \<open>popped\<close> are the nodes taken from the queue, in order; \<open>ts\<close> are the successors of the last one
  still to be relaxed.
\<close>

definition kahn_inv ::
  "string list \<Rightarrow> edges \<Rightarrow> string list \<Rightarrow> string list \<Rightarrow> (string \<Rightarrow> nat) \<Rightarrow> string list \<Rightarrow> bool" where
  "kahn_inv keys edges popped q indeg ts \<longleftrightarrow>
     schedules (set edges) (popped @ q) \<and> set (popped @ q) \<subseteq> set keys
     \<and> (\<forall>k. indeg k = pending_in edges (set popped) k + count_list ts k)
     \<and> (\<forall>k\<in>set keys. indeg k = 0 \<longleftrightarrow> k \<in> set (popped @ q))"

lemma schedules_snoc:
  assumes "schedules E L" and "t \<notin> set L" and "\<And>m. m \<in> set (t # L) \<Longrightarrow> (t, m) \<notin> E"
  shows "schedules E (L @ [t])"
  using assms by (auto simp: schedules_def nth_append less_Suc_eq split: if_splits)

lemma kahn_inv_relax:
  assumes "kahn_inv keys edges popped q indeg (t # ts)" and "t \<in> set keys"
  shows "indeg t \<noteq> 0"
    and "kahn_inv keys edges popped (if indeg t - 1 = 0 then q @ [t] else q) (indeg(t := indeg t - 1)) ts"
proof -
  have indeg: "indeg k = pending_in edges (set popped) k + count_list (t # ts) k" for k
    using assms(1) by (simp add: kahn_inv_def)
  show pos: "indeg t \<noteq> 0" using indeg[of t] by simp
  have zero: "k \<in> set keys \<Longrightarrow> indeg k = 0 \<longleftrightarrow> k \<in> set (popped @ q)" for k
    using assms(1) unfolding kahn_inv_def by blast
  have new: "t \<notin> set (popped @ q)" using zero[OF assms(2)] pos by simp
  have done_in: "f \<in> set popped" if "m \<in> set (popped @ q)" "(f, m) \<in> set edges" for f m
  proof -
    have "indeg m = 0" using assms(1) that(1) zero[of m] by (auto simp: kahn_inv_def)
    then have "pending_in edges (set popped) m = 0" using indeg[of m] by simp
    with that(2) show ?thesis by (simp add: pending_in_0)
  qed
  have sched: "schedules (set edges) (popped @ q @ [t])" if last: "indeg t - 1 = 0"
  proof -
    have "pending_in edges (set popped) t = 0" using indeg[of t] last by simp
    then have "(t, m) \<notin> set edges" if "m \<in> set (t # popped @ q)" for m
      using that done_in[of m t] new by (auto simp: pending_in_0)
    with schedules_snoc[of "set edges" "popped @ q" t] new assms(1) show ?thesis
      by (simp add: kahn_inv_def)
  qed
  show "kahn_inv keys edges popped (if indeg t - 1 = 0 then q @ [t] else q) (indeg(t := indeg t - 1)) ts"
    unfolding kahn_inv_def
  proof (intro conjI)
    show "schedules (set edges) (popped @ (if indeg t - 1 = 0 then q @ [t] else q))"
      using sched assms(1) by (simp add: kahn_inv_def)
    show "set (popped @ (if indeg t - 1 = 0 then q @ [t] else q)) \<subseteq> set keys"
      using assms by (simp add: kahn_inv_def)
    show "\<forall>k. (indeg(t := indeg t - 1)) k = pending_in edges (set popped) k + count_list ts k"
      using indeg by (auto simp: fun_upd_apply)
    show "\<forall>k\<in>set keys. (indeg(t := indeg t - 1)) k = 0
        \<longleftrightarrow> k \<in> set (popped @ (if indeg t - 1 = 0 then q @ [t] else q))"
      using zero new by auto
  qed
qed

lemma relax_inv:
  assumes "kahn_inv keys edges popped q indeg ts" and "set ts \<subseteq> set keys"
  shows "\<exists>indeg' q'. relax keys indeg q ts = Some (indeg', q') \<and> kahn_inv keys edges popped q' indeg' []"
  using assms
proof (induction keys indeg q ts rule: relax.induct)
  case (1 keys indeg q)
  then show ?case by simp
next
  case (2 keys indeg q t ts)
  from "2.prems" have t: "t \<in> set keys" "set ts \<subseteq> set keys" by auto
  note step = kahn_inv_relax[OF "2.prems"(1) t(1)]
  have "\<not> (t \<notin> set keys \<or> indeg t = 0)" using t(1) step(1) by simp
  from "2.IH"[OF this step(2) t(2)] this show ?case by (simp only: relax.simps if_False)
qed

lemma kahn_inv_pop:
  assumes "kahn_inv keys edges popped (n # q) indeg []"
  shows "kahn_inv keys edges (popped @ [n]) q indeg (adjacency edges n)"
proof -
  have "n \<notin> set popped" using assms by (auto simp: kahn_inv_def schedules_def)
  from pending_in_pop[OF this] have "\<forall>k. indeg k = pending_in edges (set (popped @ [n])) k + count_list (adjacency edges n) k"
    using assms by (simp add: kahn_inv_def)
  moreover have "set ((popped @ [n]) @ q) = set (popped @ n # q)" by auto
  with assms have "\<forall>k\<in>set keys. indeg k = 0 \<longleftrightarrow> k \<in> set ((popped @ [n]) @ q)"
    unfolding kahn_inv_def by metis
  ultimately show ?thesis using assms unfolding kahn_inv_def by simp
qed

lemma kahn_loop_result:
  assumes "kahn_inv keys edges popped q indeg []" and "set edges \<subseteq> set keys \<times> set keys"
  shows "\<exists>final indeg'. kahn_loop keys (adjacency edges) indeg q (length popped) = Some (length final)
    \<and> kahn_inv keys edges final [] indeg' []"
  using assms
proof (induction keys "adjacency edges" indeg q "length popped" arbitrary: popped rule: kahn_loop.induct)
  case (1 keys indeg)
  then show ?case by auto
next
  case (2 keys indeg n q)
  have "set (adjacency edges n) \<subseteq> set keys" using "2.prems"(2) by (auto simp: adjacency_def)
  from relax_inv[OF kahn_inv_pop[OF "2.prems"(1)]] this obtain indeg' q'
    where r: "relax keys indeg q (adjacency edges n) = Some (indeg', q')"
      and inv: "kahn_inv keys edges (popped @ [n]) q' indeg' []"
    by blast
  from "2.hyps"[OF r refl _ inv "2.prems"(2)] r show ?case by auto
qed

lemma kahn_final:
  assumes "kahn_inv keys edges final [] indeg []" and "set edges \<subseteq> set keys \<times> set keys" and "distinct keys"
  shows "length final = length keys \<longleftrightarrow> acyclic (set edges)"
proof
  assume full: "length final = length keys"
  have "distinct final" "set final \<subseteq> set keys" using assms(1) by (auto simp: kahn_inv_def schedules_def)
  then have "set final = set keys" using full assms(3)
    by (metis List.finite_set card_subset_eq distinct_card)
  with assms(1,2) show "acyclic (set edges)" by (auto simp: kahn_inv_def intro: schedules_acyclic)
next
  assume acyc: "acyclic (set edges)"
  have "set final = set keys"
  proof (rule ccontr)
    assume "set final \<noteq> set keys"
    with assms(1) obtain x where x: "x \<in> set keys - set final" by (auto simp: kahn_inv_def)
    have "wf (set edges)" using acyc by (simp add: finite_acyclic_wf)
    from wfE_min[OF this x] obtain m where m: "m \<in> set keys - set final"
      and min: "\<And>y. (y, m) \<in> set edges \<Longrightarrow> y \<notin> set keys - set final" by blast
    then have "indeg m \<noteq> 0" "indeg m = pending_in edges (set final) m" using assms(1)
      by (auto simp: kahn_inv_def)
    then obtain f where "(f, m) \<in> set edges" "f \<notin> set final" by (auto simp: pending_in_0)
    with min assms(2) show False by blast
  qed
  moreover have "distinct final" using assms(1) by (simp add: kahn_inv_def schedules_def)
  ultimately show "length final = length keys" using assms(3) by (metis distinct_card)
qed

lemma kahn_inv_init:
  assumes "distinct keys" and "set edges \<subseteq> set keys \<times> set keys"
    and "indeg = pending_in edges {}"
  shows "kahn_inv keys edges [] (filter (\<lambda>k. indeg k = 0) keys) indeg []"
proof -
  have "(a, b) \<notin> set edges" if "indeg b = 0" for a b
    using that assms(3) by (simp add: pending_in_0)
  then have "schedules (set edges) (filter (\<lambda>k. indeg k = 0) keys)"
    using assms(1) nth_mem[of _ "filter (\<lambda>k. indeg k = 0) keys"] unfolding schedules_def by auto
  then show ?thesis using assms by (auto simp: kahn_inv_def)
qed

lemma detect_cycle_eq:
  "detect_cycle nodes edges =
     Some (refuse (\<not> acyclic (set edges)) (TeInvalidInput ''dependency cycle in planning candidate''))"
proof -
  let ?keys = "cycle_keys nodes edges"
  have keys: "distinct ?keys" "set edges \<subseteq> set ?keys \<times> set ?keys"
    by (auto simp: cycle_keys_def image_iff) force+
  then have indeg: "init_indegrees ?keys (adjacency edges) = pending_in edges {}"
    by (intro ext init_indegrees_eq) auto
  from kahn_loop_result[OF kahn_inv_init[OF keys indeg] keys(2)] obtain final indeg'
    where run: "kahn_loop ?keys (adjacency edges) (init_indegrees ?keys (adjacency edges))
        (filter (\<lambda>k. init_indegrees ?keys (adjacency edges) k = 0) ?keys) 0 = Some (length final)"
      and inv: "kahn_inv ?keys edges final [] indeg' []"
    by auto
  from kahn_final[OF inv keys(2,1)] run show ?thesis
    by (simp add: detect_cycle_def Let_def refuse_def)
qed

lemma detect_cycle_ok [simp]: "detect_cycle nodes edges = Some (Inr u) \<longleftrightarrow> acyclic (set edges)"
  by (simp add: detect_cycle_eq)

text \<open>With the callers' check that the endpoints are known, it is another dependency checker.\<close>

interpretation kahn: dependency_checker
  "\<lambda>nodes edges. set edges \<subseteq> set nodes \<times> set nodes \<and> detect_cycle nodes edges = Some (Inr ())"
  by unfold_locales simp

text \<open>
  C8: The queue-based cycle check always answers, without a missing or negative in-degree, and accepts
  exactly the acyclic graphs. On graphs with known endpoints it agrees with the depth-first check
  of the core, so both sides of the system admit the same dependency graphs.
\<close>
theorem cycle_checks_agree:
  "\<exists>r. detect_cycle nodes edges = Some r \<and> (is_ok r \<longleftrightarrow> acyclic (set edges))
     \<and> (set edges \<subseteq> set nodes \<times> set nodes \<and> is_ok r
        \<longleftrightarrow> validate_dependency_dag nodes edges = Some (Inr ()))"
  by (auto simp: detect_cycle_eq is_ok_iff validate_dependency_dag_ok_iff)

end
