(* ===== verification/Team_Planning.thy ===== *)
theory Team_Planning
  imports Team_Contract Team_Permission Cycle_Detection "HOL-Library.Sublist"
begin

text \<open>
  \<^verbatim>\<open>crates/awr-team/src/planning.rs\<close>: suggestions, task drafts and planning candidates, their validation
  against a baseline, the field-level diff shown to reviewers, and the permissioned approve and
  publish steps, both bound to the digest of the exact candidate. The digest function is the
  argument \<open>digest\<close>, as in \<open>Canonical_Json\<close>. Proposed notes are opaque JSON.
\<close>

section \<open>Data\<close>

definition PLANNING_CODEC :: string where "PLANNING_CODEC = ''awr-team-planning-v1''"
definition PLANNING_CODEC_V2 :: string where "PLANNING_CODEC_V2 = ''awr-team-planning-v2''"
definition PLANNING_CODEC_V3 :: string where "PLANNING_CODEC_V3 = ''awr-team-planning-v3''"
definition PLANNING_CODEC_V4 :: string where "PLANNING_CODEC_V4 = ''awr-team-planning-v4''"
definition PLANNING_CODEC_V5 :: string where "PLANNING_CODEC_V5 = ''awr-team-planning-v5''"
definition PLANNING_CODEC_V6 :: string where "PLANNING_CODEC_V6 = ''awr-team-planning-v6''"

definition SUGGESTION_CLAIMABLE :: bool where "SUGGESTION_CLAIMABLE = False"
definition SUGGESTION_ADDS_FORMAL_WORK :: bool where "SUGGESTION_ADDS_FORMAL_WORK = False"
definition SUGGESTION_API_WRITABLE_BY_READER :: bool where "SUGGESTION_API_WRITABLE_BY_READER = False"
definition HARD_DELETE_HISTORY_ALLOWED :: bool where "HARD_DELETE_HISTORY_ALLOWED = False"
definition FORGE_COMPLETION_VIA_STATUS_ALLOWED :: bool where "FORGE_COMPLETION_VIA_STATUS_ALLOWED = False"

datatype suggestion_state = SgOpen | SgAcceptedIntoDraft | SgDismissed

record planning_suggestion =
  sg_codec :: string
  sg_suggestion_id :: string
  sg_project_id :: string
  sg_author_person_id :: string
  sg_author_actor_id :: string
  sg_rationale :: string
  sg_version :: u32
  sg_baseline_digest :: string
  sg_baseline_epoch :: string
  sg_affected_work_keys :: "string list"
  sg_proposed_notes :: json
  sg_state :: suggestion_state

definition suggestion_validate :: "planning_suggestion \<Rightarrow> (team_error, unit) result" where
  "suggestion_validate s =
     run_checks
       [refuse (sg_codec s \<noteq> PLANNING_CODEC) (TeInvalidInput ''unsupported planning codec''),
        refuse (trim_empty (sg_suggestion_id s) \<or> trim_empty (sg_project_id s)
                \<or> trim_empty (sg_author_person_id s) \<or> trim_empty (sg_author_actor_id s))
          (TeInvalidInput ''suggestion identity/author fields required''),
        refuse (trim_empty (sg_rationale s) \<or> length (sg_rationale s) > 8192)
          (TeInvalidInput ''suggestion rationale required (1..8192 chars)''),
        refuse (sg_version s = 0) (TeInvalidInput ''suggestion version must be >= 1''),
        refuse (trim_empty (sg_baseline_digest s) \<or> trim_empty (sg_baseline_epoch s))
          (TeInvalidInput ''suggestion baseline digest/epoch required''),
        refuse (length (sg_affected_work_keys s) > 256) (TeInvalidInput ''too many affected work keys'')]"

definition suggestion_claimable :: "planning_suggestion \<Rightarrow> bool" where
  "suggestion_claimable s = SUGGESTION_CLAIMABLE"

definition suggestion_adds_formal_work :: "planning_suggestion \<Rightarrow> bool" where
  "suggestion_adds_formal_work s = SUGGESTION_ADDS_FORMAL_WORK"

datatype draft_definition_state = DdDraft | DdEnabled | DdArchived | DdCancelled

fun definition_state_str :: "draft_definition_state \<Rightarrow> string" where
  "definition_state_str DdDraft = ''draft''"
| "definition_state_str DdEnabled = ''enabled''"
| "definition_state_str DdArchived = ''archived''"
| "definition_state_str DdCancelled = ''cancelled''"

definition forges_completion :: "draft_definition_state \<Rightarrow> bool" where
  "forges_completion s = False"

datatype draft_op_kind = OpCreateTask | OpEditFields | OpSplit | OpCancel | OpArchive

record task_draft =
  td_work_id :: string
  td_external_key :: string
  td_title :: string
  td_goals :: "string list"
  td_scope_paths :: "string list"
  td_acceptance :: "string list"
  td_required_dependencies :: "string list"
  td_completion_policy :: string
  td_dependency_acceptance :: "dependency_modes option"
  td_hard_rules :: "string list option"
  td_verification_requirements :: "string list option"
  td_execution_settlement :: "execution_settlement_policy option"
  td_definition_state :: draft_definition_state
  td_workstream :: "string option"
  td_split_from :: "string option"
  td_split_children :: "string list"

record draft_change =
  dc_op :: draft_op_kind
  dc_before :: "task_draft option"
  dc_after :: task_draft

datatype candidate_state = CsDrafting | CsApproved | CsPublished | CsSuperseded

record ordinary_planning_self_approve_policy =
  op_allow_self_approve_ordinary :: bool
  op_delivery_completion_policy :: string

record planning_approval =
  pa_approval_id :: string
  pa_candidate_digest :: string
  pa_approver_person_id :: string
  pa_approver_actor_id :: string
  pa_self_approved :: bool

record planning_candidate =
  pc_codec :: string
  pc_candidate_id :: string
  pc_project_id :: string
  pc_author_person_id :: string
  pc_author_actor_id :: string
  pc_baseline_digest :: string
  pc_baseline_epoch :: string
  pc_draft_revision :: u32
  pc_changes :: "draft_change list"
  pc_suggestion_ids :: "string list"
  pc_state :: candidate_state
  pc_approval :: "planning_approval option"
  pc_allowed_spec_roots :: "string list"
  pc_project_goal_keys :: "string list"

section \<open>Drafts\<close>

definition draft_validate :: "task_draft \<Rightarrow> (team_error, unit) result" where
  "draft_validate d =
     run_checks
       [refuse (trim_empty (td_work_id d) \<or> trim_empty (td_external_key d))
          (TeInvalidInput ''draft work_id and external_key required''),
        refuse (trim_empty (td_title d) \<or> length (td_title d) > 512)
          (TeInvalidInput ''draft title required (1..512 chars)''),
        refuse (td_acceptance d = []) (TeInvalidInput ''draft acceptance required''),
        refuse (trim_empty (td_completion_policy d)) (TeInvalidInput ''draft completion_policy required''),
        check_some (\<lambda>settlement. run_checks
            [settlement_validate settlement,
             refuse (td_completion_policy d \<notin> {COMPLETION_POLICY, SIMULATED_MEMBER_COMPLETION_POLICY}
                     \<or> td_scope_paths d = [] \<or> list_ex trim_empty (td_scope_paths d)
                     \<or> td_verification_requirements d = Some [])
               (TeInvalidInput ''workspace settlement requires an explicit supported review policy, scope and nonempty verification requirements'')])
          (td_execution_settlement d),
        check_some (\<lambda>entries. refuse (list_ex trim_empty entries)
            (TeInvalidInput ''hard_rules entries must be nonblank strings'')) (td_hard_rules d),
        check_some (\<lambda>entries. refuse (list_ex trim_empty entries)
            (TeInvalidInput ''verification_requirements entries must be nonblank strings''))
          (td_verification_requirements d),
        check_some (\<lambda>modes. refuse
            (modes = [] \<or> card (set (td_required_dependencies d)) \<noteq> length (td_required_dependencies d)
             \<or> list_ex (\<lambda>key. key = td_work_id d \<or> key \<notin> set (td_required_dependencies d)) (map fst modes))
            (TeInvalidInput ''dependency_acceptance requires a nonempty map and unique existing required predecessors''))
          (td_dependency_acceptance d),
        refuse FORGE_COMPLETION_VIA_STATUS_ALLOWED
          (TeInvalidInput ''forge completion via status must remain forbidden''),
        refuse (forges_completion (td_definition_state d))
          (TeInvalidInput ''draft definition_state cannot forge completion''),
        refuse (str_ascii_lower (td_completion_policy d)
                \<in> {''done'', ''completed'', ''complete'', ''finished'', ''source_done''})
          (TeInvalidInput ''completion_policy cannot forge completion via status synonyms'')]"

definition draft_validate_for_create :: "task_draft \<Rightarrow> (team_error, unit) result" where
  "draft_validate_for_create d =
     run_checks
       [draft_validate d,
        refuse ((td_execution_settlement d \<noteq> None
                 \<or> td_completion_policy d = SIMULATED_MEMBER_COMPLETION_POLICY)
                \<and> (td_execution_settlement d = None \<or> td_scope_paths d = []
                   \<or> list_ex trim_empty (td_scope_paths d)
                   \<or> td_verification_requirements d \<in> {None, Some []}))
          (TeInvalidInput ''new workspace task requires execution_settlement, scope_paths and verification_requirements'')]"

definition independent_policies :: "string set" where
  "independent_policies = {''independent_review'', ''independent-review'', ''trusted_execution_and_review''}"

definition ensure_independent_review_not_downgraded :: "string \<Rightarrow> string \<Rightarrow> (team_error, unit) result" where
  "ensure_independent_review_not_downgraded prior_policy next_policy =
     refuse (str_ascii_lower (trim_str prior_policy) \<in> independent_policies
             \<and> str_ascii_lower (trim_str next_policy) \<notin> independent_policies)
       (TePermissionDenied ''independent delivery-review policy must not be downgraded by planning self-approve'')"

definition ordinary_default :: ordinary_planning_self_approve_policy where
  "ordinary_default = \<lparr>op_allow_self_approve_ordinary = True,
     op_delivery_completion_policy = ''independent_review''\<rparr>"

definition validate_no_delivery_downgrade ::
  "ordinary_planning_self_approve_policy \<Rightarrow> string \<Rightarrow> (team_error, unit) result" where
  "validate_no_delivery_downgrade policy prior_policy =
     ensure_independent_review_not_downgraded prior_policy (op_delivery_completion_policy policy)"

section \<open>Candidates\<close>

text \<open>The drafts of a change: the new one and the previous one, if any.\<close>

definition change_drafts :: "draft_change \<Rightarrow> task_draft list" where
  "change_drafts c = dc_after c # (case dc_before c of None \<Rightarrow> [] | Some b \<Rightarrow> [b])"

definition any_mode :: "(dependency_acceptance_mode \<Rightarrow> bool) \<Rightarrow> task_draft \<Rightarrow> bool" where
  "any_mode P d = (case td_dependency_acceptance d of None \<Rightarrow> False | Some ms \<Rightarrow> list_ex P (map snd ms))"

definition planning_codec_for_changes :: "draft_change list \<Rightarrow> string" where
  "planning_codec_for_changes changes =
     (let drafts = concat (map change_drafts changes) in
      if list_ex (any_mode is_cross_workstream) drafts then PLANNING_CODEC_V6
      else if list_ex (any_mode (\<lambda>m. m = SimulatedMemberIndependent)) drafts then PLANNING_CODEC_V5
      else if list_ex (\<lambda>d. td_execution_settlement d \<noteq> None
          \<or> td_completion_policy d = SIMULATED_MEMBER_COMPLETION_POLICY) drafts then PLANNING_CODEC_V4
      else if list_ex (\<lambda>d. td_hard_rules d \<noteq> None \<or> td_verification_requirements d \<noteq> None) drafts
      then PLANNING_CODEC_V3
      else if list_ex (\<lambda>d. td_dependency_acceptance d \<noteq> None) drafts then PLANNING_CODEC_V2
      else PLANNING_CODEC)"

fun op_debug :: "draft_op_kind \<Rightarrow> string" where
  "op_debug OpCreateTask = ''CreateTask''"
| "op_debug OpEditFields = ''EditFields''"
| "op_debug OpSplit = ''Split''"
| "op_debug OpCancel = ''Cancel''"
| "op_debug OpArchive = ''Archive''"

definition change_validate :: "draft_change \<Rightarrow> (team_error, unit) result" where
  "change_validate c =
     run_checks
       [check_some (\<lambda>b. run_checks
            [draft_validate b,
             ensure_independent_review_not_downgraded (td_completion_policy b) (td_completion_policy (dc_after c)),
             refuse (td_work_id b \<noteq> td_work_id (dc_after c))
               (TeInvalidInput ''draft edits must preserve original work_id'')]) (dc_before c),
        draft_validate (dc_after c),
        (case dc_op c of
           OpCreateTask \<Rightarrow> run_checks
             [refuse (dc_before c \<noteq> None) (TeInvalidInput ''create_task must not carry before state''),
              draft_validate_for_create (dc_after c)]
         | OpSplit \<Rightarrow> refuse (td_split_children (dc_after c) = [])
             (TeInvalidInput ''split requires child work ids'')
         | op \<Rightarrow> refuse (dc_before c = None) (TeInvalidInput (op_debug op @ '' requires before state'')))]"

definition candidate_validate_structure :: "planning_candidate \<Rightarrow> (team_error, unit) result" where
  "candidate_validate_structure c =
     run_checks
       [refuse (pc_codec c \<noteq> planning_codec_for_changes (pc_changes c))
          (TeInvalidInput ''unsupported planning codec''),
        refuse (trim_empty (pc_candidate_id c) \<or> trim_empty (pc_project_id c)
                \<or> trim_empty (pc_author_person_id c) \<or> trim_empty (pc_author_actor_id c))
          (TeInvalidInput ''candidate identity/author fields required''),
        refuse (pc_draft_revision c = 0) (TeInvalidInput ''draft_revision must be >= 1''),
        refuse (trim_empty (pc_baseline_digest c) \<or> trim_empty (pc_baseline_epoch c))
          (TeInvalidInput ''candidate baseline digest/epoch required''),
        refuse (pc_changes c = [] \<or> length (pc_changes c) > 1024)
          (TeInvalidInput ''candidate requires 1..1024 draft changes''),
        run_checks (map change_validate (pc_changes c)),
        refuse HARD_DELETE_HISTORY_ALLOWED
          (TeInvalidInput ''hard-delete of planning history must remain forbidden'')]"

section \<open>The digest of a candidate\<close>

definition opt_entry :: "string \<Rightarrow> ('a \<Rightarrow> json) \<Rightarrow> 'a option \<Rightarrow> (string \<times> json) list" where
  "opt_entry k f x = (case x of None \<Rightarrow> [] | Some v \<Rightarrow> [(k, f v)])"

definition draft_entries :: "task_draft \<Rightarrow> (string \<times> json) list" where
  "draft_entries d =
     [(''work_id'', JString (td_work_id d)),
      (''external_key'', JString (td_external_key d)),
      (''title'', JString (td_title d)),
      (''goals'', json_strings (td_goals d)),
      (''scope_paths'', json_strings (td_scope_paths d)),
      (''acceptance'', json_strings (td_acceptance d)),
      (''required_dependencies'', json_strings (td_required_dependencies d)),
      (''completion_policy'', JString (td_completion_policy d))]
     @ opt_entry ''dependency_acceptance'' modes_json (td_dependency_acceptance d)
     @ opt_entry ''hard_rules'' json_strings (td_hard_rules d)
     @ opt_entry ''verification_requirements'' json_strings (td_verification_requirements d)
     @ opt_entry ''execution_settlement'' settlement_json (td_execution_settlement d)
     @ [(''definition_state'', JString (definition_state_str (td_definition_state d)))]
     @ opt_entry ''workstream'' JString (td_workstream d)
     @ opt_entry ''split_from'' JString (td_split_from d)
     @ (if td_split_children d = [] then [] else [(''split_children'', json_strings (td_split_children d))])"

definition draft_json :: "task_draft \<Rightarrow> json" where
  "draft_json d = JObject (draft_entries d)"

fun op_json :: "draft_op_kind \<Rightarrow> json" where
  "op_json OpCreateTask = JString ''create_task''"
| "op_json OpEditFields = JString ''edit_fields''"
| "op_json OpSplit = JString ''split''"
| "op_json OpCancel = JString ''cancel''"
| "op_json OpArchive = JString ''archive''"

definition change_json :: "draft_change \<Rightarrow> json" where
  "change_json c = JObject [(''op'', op_json (dc_op c)), (''before'', option_json draft_json (dc_before c)),
     (''after'', draft_json (dc_after c))]"

definition material_entries :: "planning_candidate \<Rightarrow> (string \<times> json) list" where
  "material_entries c =
     [(''codec'', JString (pc_codec c)),
      (''candidate_id'', JString (pc_candidate_id c)),
      (''project_id'', JString (pc_project_id c)),
      (''baseline_digest'', JString (pc_baseline_digest c)),
      (''baseline_epoch'', JString (pc_baseline_epoch c)),
      (''draft_revision'', JNumber (JInt (uint (pc_draft_revision c)))),
      (''suggestion_ids'', json_strings (pc_suggestion_ids c)),
      (''changes'', JArray (map change_json (pc_changes c))),
      (''allowed_spec_roots'', json_strings (pc_allowed_spec_roots c)),
      (''project_goal_keys'', json_strings (pc_project_goal_keys c))]"

definition digest_material :: "planning_candidate \<Rightarrow> (team_error, json) result" where
  "digest_material c = then_ok (candidate_validate_structure c) (Inr (JObject (material_entries c)))"

definition candidate_digest :: "(json \<Rightarrow> string) \<Rightarrow> planning_candidate \<Rightarrow> (team_error, string) result" where
  "candidate_digest digest c = and_then (digest_material c) (contract_hash digest)"

section \<open>Validation against the baseline\<close>

record baseline_view =
  bv_digest :: string
  bv_epoch :: string
  bv_current :: bool
  bv_known_work_ids :: "string set"
  bv_known_external_keys :: "string set"

definition validate_spec_path_in_bounds :: "string \<Rightarrow> string list \<Rightarrow> (team_error, unit) result" where
  "validate_spec_path_in_bounds path roots =
     run_checks
       [refuse (trim_empty path) (TeInvalidInput ''empty scope path''),
        refuse (contains_nul path \<or> CHR 0x5C \<in> set path \<or> prefix ''/'' path \<or> prefix ''./'' path)
          (TeInvalidInput (''out-of-bound spec path: '' @ path)),
        refuse (list_ex (\<lambda>s. s = [] \<or> s = ''.'' \<or> s = ''..'') (split_on CHR ''/'' path))
          (TeInvalidInput (''out-of-bound spec path: '' @ path)),
        refuse (roots \<noteq> []
                \<and> \<not> list_ex (\<lambda>root. path = root \<or> prefix (root @ ''/'') path \<or> root = ''.'') roots)
          (TeInvalidInput (''out-of-bound spec path: '' @ path))]"

definition candidate_visit ::
  "planning_candidate \<Rightarrow> baseline_view \<Rightarrow> string set \<times> edges \<Rightarrow> draft_change \<Rightarrow>
     (team_error, string set \<times> edges) result" where
  "candidate_visit candidate baseline st change = (case st of (nodes, edges) \<Rightarrow>
     let draft = dc_after change in
     then_ok
       (run_checks
         [if dc_op change = OpCreateTask then
            refuse (td_work_id draft \<in> bv_known_work_ids baseline
                    \<or> td_external_key draft \<in> bv_known_external_keys baseline)
              (TeInvalidInput ''create_task cannot reuse existing work identity'')
          else check_some (\<lambda>b. refuse (td_work_id b \<noteq> td_work_id draft)
              (TeInvalidInput ''draft must preserve original task id'')) (dc_before change),
          run_checks (map (\<lambda>goal. refuse (goal \<notin> set (pc_project_goal_keys candidate))
              (TeInvalidInput (''cross-project or unknown goal refused: '' @ goal))) (td_goals draft)),
          run_checks (map (\<lambda>path. validate_spec_path_in_bounds path (pc_allowed_spec_roots candidate))
              (td_scope_paths draft))])
       (Inr (insert (td_work_id draft) nodes \<union> set (td_split_children draft),
             edges @ map (Pair (td_work_id draft)) (td_required_dependencies draft))))"

text \<open>The checks before the cycle search, and the graph they accumulate.\<close>

definition candidate_graph ::
  "planning_candidate \<Rightarrow> baseline_view \<Rightarrow> (team_error, string set \<times> edges) result" where
  "candidate_graph candidate baseline =
     then_ok
       (run_checks
         [candidate_validate_structure candidate,
          refuse (\<not> bv_current baseline \<or> bv_digest baseline \<noteq> pc_baseline_digest candidate
                  \<or> bv_epoch baseline \<noteq> pc_baseline_epoch candidate)
            (TeInvalidInput ''expired or mismatched planning baseline'')])
       (and_then (try_fold (candidate_visit candidate baseline) (bv_known_work_ids baseline, [])
           (pc_changes candidate))
         (\<lambda>(nodes, edges). then_ok
            (run_checks (map (\<lambda>(from, to). run_checks
               [refuse (to \<notin> nodes) (TeInvalidInput (''dangling dependency: '' @ from @ '' -> '' @ to)),
                refuse (from = to) (TeInvalidInput (''dependency cycle (self): '' @ from))]) edges))
            (Inr (nodes, edges))))"

definition validate_candidate ::
  "planning_candidate \<Rightarrow> baseline_view \<Rightarrow> (team_error, unit) result option" where
  "validate_candidate candidate baseline =
     (case candidate_graph candidate baseline of
        Inl e \<Rightarrow> Some (Inl e)
      | Inr (nodes, edges) \<Rightarrow> detect_cycle (sorted_list_of_set nodes) edges)"

section \<open>The diff shown to reviewers\<close>

record field_diff =
  fd_work_key :: string
  fd_field :: string
  fd_before :: "json option"
  fd_after :: "json option"

record affected_task_impact =
  ai_work_id :: string
  ai_external_key :: string
  ai_work_runtime_state :: string
  ai_execution_state :: string
  ai_has_active_claim :: bool
  ai_review_requirement :: string

record candidate_diff =
  cd_candidate_digest :: string
  cd_draft_revision :: u32
  cd_field_diffs :: "field_diff list"
  cd_affected_tasks :: "affected_task_impact list"
  cd_review_requirements :: "string list"

text \<open>The fields every draft has, in the order of the array \<^verbatim>\<open>pairs\<close>.\<close>

definition plain_fields :: "(string \<times> (task_draft \<Rightarrow> json)) list" where
  "plain_fields =
     [(''title'', \<lambda>d. JString (td_title d)),
      (''goals'', \<lambda>d. json_strings (td_goals d)),
      (''scope_paths'', \<lambda>d. json_strings (td_scope_paths d)),
      (''acceptance'', \<lambda>d. json_strings (td_acceptance d)),
      (''required_dependencies'', \<lambda>d. json_strings (td_required_dependencies d)),
      (''definition_state'', \<lambda>d. JString (definition_state_str (td_definition_state d))),
      (''completion_policy'', \<lambda>d. JString (td_completion_policy d))]"

definition plain_diffs :: "draft_change \<Rightarrow> field_diff list" where
  "plain_diffs c =
     filter (\<lambda>d. fd_before d \<noteq> fd_after d)
       (map (\<lambda>(field, get). \<lparr>fd_work_key = td_external_key (dc_after c), fd_field = field,
            fd_before = map_option get (dc_before c), fd_after = Some (get (dc_after c))\<rparr>) plain_fields)"

text \<open>An absent optional field keeps the source's, so it is never shown as a removal.\<close>

definition before_field :: "(task_draft \<Rightarrow> 'a option) \<Rightarrow> draft_change \<Rightarrow> 'a option" where
  "before_field get c = (case dc_before c of None \<Rightarrow> None | Some b \<Rightarrow> get b)"

definition field_changed :: "(task_draft \<Rightarrow> 'a option) \<Rightarrow> draft_change \<Rightarrow> bool" where
  "field_changed get c \<longleftrightarrow> get (dc_after c) \<noteq> None \<and> before_field get c \<noteq> get (dc_after c)"

definition optional_diff ::
  "string \<Rightarrow> ('a \<Rightarrow> json) \<Rightarrow> (task_draft \<Rightarrow> 'a option) \<Rightarrow> draft_change \<Rightarrow> field_diff list" where
  "optional_diff field f get c =
     (if field_changed get c
      then [\<lparr>fd_work_key = td_external_key (dc_after c), fd_field = field,
             fd_before = map_option f (before_field get c), fd_after = map_option f (get (dc_after c))\<rparr>]
      else [])"

definition change_diffs :: "draft_change \<Rightarrow> field_diff list" where
  "change_diffs c =
     plain_diffs c
     @ optional_diff ''dependency_acceptance'' modes_json td_dependency_acceptance c
     @ optional_diff ''execution_settlement'' settlement_json td_execution_settlement c
     @ optional_diff ''hard_rules'' json_strings td_hard_rules c
     @ optional_diff ''verification_requirements'' json_strings td_verification_requirements c"

definition change_requirements :: "draft_change \<Rightarrow> string set" where
  "change_requirements c =
     (if field_changed td_dependency_acceptance c then {''explicit_dependency_assurance_review''} else {})
     \<union> (if field_changed td_execution_settlement c \<or> field_changed td_hard_rules c
            \<or> field_changed td_verification_requirements c
        then {''execution_contract_review''} else {})
     \<union> {td_completion_policy (dc_after c)}
     \<union> (if td_definition_state (dc_after c) \<in> {DdCancelled, DdArchived}
        then {''impact_review_for_retirement''} else {})"

definition impact_requirements :: "affected_task_impact \<Rightarrow> string set" where
  "impact_requirements i =
     insert (ai_review_requirement i)
       (if ai_has_active_claim i \<or> ai_execution_state i \<noteq> ''none''
        then {''in_flight_work_impact_review''} else {})"

definition build_candidate_diff ::
  "(json \<Rightarrow> string) \<Rightarrow> planning_candidate \<Rightarrow> affected_task_impact list \<Rightarrow> (team_error, candidate_diff) result" where
  "build_candidate_diff digest candidate impacts =
     then_ok (candidate_validate_structure candidate)
       (and_then (candidate_digest digest candidate)
         (\<lambda>d. Inr \<lparr>cd_candidate_digest = d, cd_draft_revision = pc_draft_revision candidate,
            cd_field_diffs = concat (map change_diffs (pc_changes candidate)),
            cd_affected_tasks = impacts,
            cd_review_requirements = sorted_list_of_set
              (\<Union> (set (map change_requirements (pc_changes candidate) @ map impact_requirements impacts)))\<rparr>))"

section \<open>Approve, publish and edit\<close>

definition authorize_planning_action ::
  "authority_scope \<Rightarrow> team_action \<Rightarrow> resource_ref \<Rightarrow> u64 \<Rightarrow> (team_error, unit) result" where
  "authorize_planning_action scope action resource now_unix_ms =
     (if action \<in> {PlanningPropose, PlanningEditDraft, PlanningApprove, PlanningPublish}
      then authorize_action scope action resource now_unix_ms
      else Inl (TePermissionDenied (''not a planning action: '' @ team_action_as_str action)))"

definition attested_actor_person :: "string \<Rightarrow> string option \<Rightarrow> (team_error, string) result" where
  "attested_actor_person authenticated_actor asserted =
     (let actor = trim_str authenticated_actor in
      then_ok
        (run_checks
          [refuse (actor = []) (TeInvalidInput ''authenticated actor is empty''),
           check_some (\<lambda>a. refuse (trim_str a \<noteq> [] \<and> trim_str a \<noteq> actor)
               (TePermissionDenied ''asserted person id does not match the authenticated actor'')) asserted])
        (Inr actor))"

definition refuse_reader_suggestion_write :: "authority_scope \<Rightarrow> (team_error, unit) result" where
  "refuse_reader_suggestion_write scope =
     run_checks
       [refuse (PlanningPropose \<notin> au_allowed_actions scope)
          (TePermissionDenied ''readers cannot write via suggestion APIs''),
        refuse SUGGESTION_API_WRITABLE_BY_READER
          (TePermissionDenied ''suggestion API must remain non-writable for readers'')]"

definition authorize_planning_approve ::
  "(json \<Rightarrow> string) \<Rightarrow> authority_scope \<Rightarrow> resource_ref \<Rightarrow> u64 \<Rightarrow> planning_candidate \<Rightarrow> string \<Rightarrow>
     ordinary_planning_self_approve_policy \<Rightarrow> string \<Rightarrow> (team_error, bool) result" where
  "authorize_planning_approve digest scope resource now candidate presented_digest policy prior_delivery_policy =
     then_ok
       (run_checks
         [authorize_planning_action scope PlanningApprove resource now,
          refuse (pc_state candidate \<noteq> CsDrafting) (TeInvalidInput ''approve requires a drafting candidate''),
          validate_no_delivery_downgrade policy prior_delivery_policy])
       (and_then (candidate_digest digest candidate)
         (\<lambda>current.
           let self_approve = (au_person_id scope = pc_author_person_id candidate
                 \<or> au_client_id scope = pc_author_actor_id candidate
                 \<or> au_person_id scope = pc_author_actor_id candidate) in
           then_ok
             (run_checks
               [refuse (current \<noteq> presented_digest)
                  (TeInvalidInput ''approval digest does not match current candidate''),
                check_some (\<lambda>existing. refuse (pa_candidate_digest existing \<noteq> current)
                    (TeInvalidInput ''edited drafts cannot reuse old approvals'')) (pc_approval candidate),
                refuse (self_approve \<and> \<not> op_allow_self_approve_ordinary policy)
                  (TePermissionDenied ''self-approve of ordinary planning disabled by project policy'')])
             (Inr self_approve)))"

definition authorize_planning_publish ::
  "(json \<Rightarrow> string) \<Rightarrow> authority_scope \<Rightarrow> resource_ref \<Rightarrow> u64 \<Rightarrow> planning_candidate \<Rightarrow> string \<Rightarrow>
     (team_error, unit) result" where
  "authorize_planning_publish digest scope resource now candidate presented_digest =
     then_ok
       (run_checks
         [authorize_planning_action scope PlanningPublish resource now,
          refuse (pc_state candidate \<noteq> CsApproved)
            (TeInvalidInput ''publish requires an approved planning candidate'')])
       (and_then (candidate_digest digest candidate)
         (\<lambda>current. then_ok
            (refuse (current \<noteq> presented_digest)
               (TeInvalidInput ''publish digest does not match current candidate''))
            (and_then (ok_or (pc_approval candidate)
                (TeInvalidInput ''publish requires approval bound to current digest''))
              (\<lambda>approval. refuse (pa_candidate_digest approval \<noteq> current)
                 (TeInvalidInput ''edited drafts cannot reuse old approvals for publish'')))))"

definition edit_candidate ::
  "planning_candidate \<Rightarrow> draft_change list \<Rightarrow> (team_error, planning_candidate) result" where
  "edit_candidate candidate changes =
     then_ok (refuse (pc_state candidate \<in> {CsPublished, CsSuperseded})
         (TeInvalidInput ''cannot edit published or superseded candidate''))
       (let edited = candidate\<lparr>pc_codec := planning_codec_for_changes changes, pc_changes := changes,
              pc_draft_revision := max (saturating_add (pc_draft_revision candidate) 1) 1,
              pc_approval := None, pc_state := CsDrafting\<rparr>
        in then_ok (candidate_validate_structure edited) (Inr edited))"

end
