(* ===== verification/Planning_Laws.thy ===== *)
theory Planning_Laws
  imports Team_Planning
begin

text \<open>
  Laws of the planning candidates of \<open>Team_Planning\<close>: what validation against a baseline
  establishes, what the candidate digest identifies, and what approval and publication are bound to.
\<close>

section \<open>Validation\<close>

text \<open>The work ids and the dependency edges a list of changes brings.\<close>

definition draft_nodes :: "draft_change \<Rightarrow> string set" where
  "draft_nodes ch = insert (td_work_id (dc_after ch)) (set (td_split_children (dc_after ch)))"

definition draft_edges :: "draft_change list \<Rightarrow> edges" where
  "draft_edges cs = concat (map (\<lambda>ch. map (Pair (td_work_id (dc_after ch))) (td_required_dependencies (dc_after ch))) cs)"

text \<open>What a visited change has to satisfy.\<close>

definition change_admissible :: "planning_candidate \<Rightarrow> baseline_view \<Rightarrow> draft_change \<Rightarrow> bool" where
  "change_admissible c b ch \<longleftrightarrow>
     (if dc_op ch = OpCreateTask
      then td_work_id (dc_after ch) \<notin> bv_known_work_ids b
        \<and> td_external_key (dc_after ch) \<notin> bv_known_external_keys b
      else \<forall>old. dc_before ch = Some old \<longrightarrow> td_work_id old = td_work_id (dc_after ch))
     \<and> set (td_goals (dc_after ch)) \<subseteq> set (pc_project_goal_keys c)
     \<and> (\<forall>p\<in>set (td_scope_paths (dc_after ch)).
          validate_spec_path_in_bounds p (pc_allowed_spec_roots c) = Inr ())"

lemma candidate_visit_ok:
  "candidate_visit c b (nodes, edges) ch = Inr st \<longleftrightarrow>
     change_admissible c b ch \<and> st = (nodes \<union> draft_nodes ch, edges @ draft_edges [ch])"
  by (auto simp: candidate_visit_def Let_def change_admissible_def draft_nodes_def draft_edges_def)

lemma candidate_visits_ok:
  "try_fold (candidate_visit c b) (nodes, edges) cs = Inr st \<longleftrightarrow>
     (\<forall>ch\<in>set cs. change_admissible c b ch) \<and> st = (nodes \<union> \<Union> (draft_nodes ` set cs), edges @ draft_edges cs)"
  by (induction cs arbitrary: nodes edges) (auto simp: candidate_visit_ok draft_edges_def)

definition candidate_nodes :: "planning_candidate \<Rightarrow> baseline_view \<Rightarrow> string set" where
  "candidate_nodes c b = bv_known_work_ids b \<union> \<Union> (draft_nodes ` set (pc_changes c))"

lemma candidate_graph_ok:
  "candidate_graph c b = Inr st \<longleftrightarrow>
     candidate_validate_structure c = Inr ()
     \<and> bv_current b \<and> bv_digest b = pc_baseline_digest c \<and> bv_epoch b = pc_baseline_epoch c
     \<and> (\<forall>ch\<in>set (pc_changes c). change_admissible c b ch)
     \<and> (\<forall>(f, t)\<in>set (draft_edges (pc_changes c)). t \<in> candidate_nodes c b \<and> f \<noteq> t)
     \<and> st = (candidate_nodes c b, draft_edges (pc_changes c))"
  by (auto simp: candidate_graph_def candidate_visits_ok candidate_nodes_def)

text \<open>
  What adoption of a change needs. A safe path is relative, has no empty, dot or dot-dot segment, and
  lies under a declared root when there is one other than the catch-all.
\<close>

definition path_safe :: "string list \<Rightarrow> string \<Rightarrow> bool" where
  "path_safe roots p \<longleftrightarrow>
     \<not> prefix ''/'' p \<and> set (split_on CHR ''/'' p) \<inter> {[], ''.'', ''..''} = {}
     \<and> (roots = [] \<or> ''.'' \<in> set roots \<or> (\<exists>root\<in>set roots. p = root \<or> prefix (root @ ''/'') p))"

definition keeps_review :: "string \<Rightarrow> string \<Rightarrow> bool" where
  "keeps_review old new \<longleftrightarrow>
     (str_ascii_lower (trim_str old) \<in> independent_policies \<longrightarrow> str_ascii_lower (trim_str new) \<in> independent_policies)"

definition change_safe :: "planning_candidate \<Rightarrow> baseline_view \<Rightarrow> draft_change \<Rightarrow> bool" where
  "change_safe c b ch \<longleftrightarrow>
     (dc_op ch = OpCreateTask \<longrightarrow> dc_before ch = None \<and> td_work_id (dc_after ch) \<notin> bv_known_work_ids b
        \<and> td_external_key (dc_after ch) \<notin> bv_known_external_keys b)
     \<and> (\<forall>old. dc_before ch = Some old \<longrightarrow> td_work_id old = td_work_id (dc_after ch)
          \<and> keeps_review (td_completion_policy old) (td_completion_policy (dc_after ch)))
     \<and> set (td_goals (dc_after ch)) \<subseteq> set (pc_project_goal_keys c)
     \<and> (\<forall>p\<in>set (td_scope_paths (dc_after ch)). path_safe (pc_allowed_spec_roots c) p)"

lemma spec_path_in_bounds:
  "validate_spec_path_in_bounds p roots = Inr () \<Longrightarrow> path_safe roots p"
  by (auto simp: validate_spec_path_in_bounds_def path_safe_def list_ex_iff)

lemma change_validate_old:
  assumes "change_validate ch = Inr ()" and "dc_before ch = Some old"
  shows "dc_op ch \<noteq> OpCreateTask" and "td_work_id old = td_work_id (dc_after ch)"
    and "keeps_review (td_completion_policy old) (td_completion_policy (dc_after ch))"
  using assms by (auto simp: change_validate_def ensure_independent_review_not_downgraded_def keeps_review_def)

lemma admissible_change_safe:
  assumes "change_validate ch = Inr ()" and "change_admissible c b ch"
  shows "change_safe c b ch"
proof -
  have "path_safe (pc_allowed_spec_roots c) p" if "p \<in> set (td_scope_paths (dc_after ch))" for p
    using assms(2) that by (intro spec_path_in_bounds) (simp add: change_admissible_def)
  moreover have "dc_before ch = None" if "dc_op ch = OpCreateTask"
    using change_validate_old(1)[OF assms(1)] that by (cases "dc_before ch") simp_all
  moreover have "\<forall>old. dc_before ch = Some old \<longrightarrow> td_work_id old = td_work_id (dc_after ch)
      \<and> keeps_review (td_completion_policy old) (td_completion_policy (dc_after ch))"
    using change_validate_old(2,3)[OF assms(1)] by blast
  moreover have "dc_op ch = OpCreateTask \<Longrightarrow> td_work_id (dc_after ch) \<notin> bv_known_work_ids b
      \<and> td_external_key (dc_after ch) \<notin> bv_known_external_keys b"
    and "set (td_goals (dc_after ch)) \<subseteq> set (pc_project_goal_keys c)"
    using assms(2) by (simp_all add: change_admissible_def)
  ultimately show ?thesis unfolding change_safe_def by blast
qed

section \<open>What the candidate digest identifies\<close>

text \<open>In every value of the program the maps are ordered maps.\<close>

definition draft_wf :: "task_draft \<Rightarrow> bool" where
  "draft_wf d \<longleftrightarrow> (\<forall>ms. td_dependency_acceptance d = Some ms \<longrightarrow> bt_wf ms)"

definition candidate_wf :: "planning_candidate \<Rightarrow> bool" where
  "candidate_wf c \<longleftrightarrow> (\<forall>ch\<in>set (pc_changes c). \<forall>d\<in>set (change_drafts ch). draft_wf d)"

lemma map_of_opt_entry:
  "j \<noteq> k \<Longrightarrow> map_of (opt_entry k f x @ xs) j = map_of xs j"
  "map_of xs k = None \<Longrightarrow> map_of (opt_entry k f x @ xs) k = map_option f x"
  "map_of (if c then [] else [(k, v)]) j = (if \<not> c \<and> j = k then Some v else None)"
  by (cases x; simp add: opt_entry_def)+

lemma opt_entry_keys: "subseq (map fst (opt_entry k f x)) [k]"
  by (cases x) (simp_all add: opt_entry_def)

lemma draft_keys: "distinct (map fst (draft_entries d))"
proof -
  let ?req = "[''work_id'', ''external_key'', ''title'', ''goals'', ''scope_paths'', ''acceptance'',
     ''required_dependencies'', ''completion_policy'']"
  have "subseq (map fst (draft_entries d))
      (?req @ [''dependency_acceptance''] @ [''hard_rules''] @ [''verification_requirements'']
        @ [''execution_settlement''] @ [''definition_state''] @ [''workstream''] @ [''split_from''] @ [''split_children''])"
    (is "subseq _ ?all")
    unfolding draft_entries_def map_append
    by (intro list_emb_append_mono opt_entry_keys) simp_all
  moreover have "distinct ?all" by simp
  ultimately show ?thesis by (metis distinct_nthsI subseq_conv_nths)
qed

lemma normalize_settlement_plain [simp]: "normalize_json (settlement_json s) = Inr (settlement_json s)"
  using normalize_settlement[of "Some s"] by (simp add: option_json_def)

lemma settlement_json_plain_inject [simp]: "settlement_json s = settlement_json s' \<longleftrightarrow> s = s'"
  using settlement_json_inject[of "Some s" "Some s'"] by (simp add: option_json_def)

lemma opt_entry_ok:
  assumes "(k', v) \<in> set (opt_entry k f x)" and "\<And>y. is_ok (normalize_json (f y))"
  shows "is_ok (normalize_json v)"
  using assms by (auto simp: opt_entry_def split: option.splits)

lemma draft_json_ok: "is_ok (normalize_json (draft_json d))"
  unfolding draft_json_def
  by (rule normalize_object_ok)
    (auto simp: draft_entries_def modes_json_ok split: if_splits elim!: opt_entry_ok)

lemma definition_state_str_inject [simp]: "definition_state_str a = definition_state_str b \<longleftrightarrow> a = b"
  by (cases a; cases b) simp_all

text \<open>Look-ups among the entries of a draft.\<close>

lemma draft_lookup:
  "map_of (draft_entries d) ''work_id'' = Some (JString (td_work_id d))"
  "map_of (draft_entries d) ''external_key'' = Some (JString (td_external_key d))"
  "map_of (draft_entries d) ''title'' = Some (JString (td_title d))"
  "map_of (draft_entries d) ''goals'' = Some (json_strings (td_goals d))"
  "map_of (draft_entries d) ''scope_paths'' = Some (json_strings (td_scope_paths d))"
  "map_of (draft_entries d) ''acceptance'' = Some (json_strings (td_acceptance d))"
  "map_of (draft_entries d) ''required_dependencies'' = Some (json_strings (td_required_dependencies d))"
  "map_of (draft_entries d) ''completion_policy'' = Some (JString (td_completion_policy d))"
  "map_of (draft_entries d) ''definition_state'' = Some (JString (definition_state_str (td_definition_state d)))"
  by (simp_all add: draft_entries_def map_of_opt_entry del: map_of_append)

lemma draft_lookup_optional:
  "map_of (draft_entries d) ''dependency_acceptance'' = map_option modes_json (td_dependency_acceptance d)"
  "map_of (draft_entries d) ''hard_rules'' = map_option json_strings (td_hard_rules d)"
  "map_of (draft_entries d) ''verification_requirements'' = map_option json_strings (td_verification_requirements d)"
  "map_of (draft_entries d) ''execution_settlement'' = map_option settlement_json (td_execution_settlement d)"
  "map_of (draft_entries d) ''workstream'' = map_option JString (td_workstream d)"
  "map_of (draft_entries d) ''split_from'' = map_option JString (td_split_from d)"
  "map_of (draft_entries d) ''split_children''
     = (if td_split_children d = [] then None else Some (json_strings (td_split_children d)))"
  by (simp_all add: draft_entries_def map_of_opt_entry del: map_of_append)

lemma map_normalize_injective:
  assumes "map_option normalize_json (map_option f a) = map_option normalize_json (map_option f b)"
    and "\<And>x y. a = Some x \<Longrightarrow> b = Some y \<Longrightarrow> normalize_json (f x) = normalize_json (f y) \<Longrightarrow> x = y"
  shows "a = b"
proof (cases a)
  case None
  with assms(1) show ?thesis by (cases b) simp_all
next
  case (Some x)
  with assms(1) obtain y where y: "b = Some y" "normalize_json (f x) = normalize_json (f y)"
    by (cases b) simp_all
  with assms(2)[OF Some y] Some show ?thesis by simp
qed

lemma draft_json_same:
  assumes "draft_wf a" and "draft_wf b" and "normalize_json (draft_json a) = normalize_json (draft_json b)"
  shows "a = b"
proof -
  note look = normalize_eq_lookup[OF assms(3)[unfolded draft_json_def] draft_json_ok[unfolded draft_json_def] draft_keys draft_keys]
  note opt = look[of "''dependency_acceptance''"] look[of "''hard_rules''"] look[of "''verification_requirements''"]
    look[of "''execution_settlement''"] look[of "''workstream''"] look[of "''split_from''"] look[of "''split_children''"]
  have "td_dependency_acceptance a = td_dependency_acceptance b"
    using opt(1) unfolding draft_lookup_optional
    by (rule map_normalize_injective) (use assms(1,2) modes_json_same in \<open>auto simp: draft_wf_def\<close>)
  moreover have "td_hard_rules a = td_hard_rules b"
    using opt(2) unfolding draft_lookup_optional by (rule map_normalize_injective) simp
  moreover have "td_verification_requirements a = td_verification_requirements b"
    using opt(3) unfolding draft_lookup_optional by (rule map_normalize_injective) simp
  moreover have "td_execution_settlement a = td_execution_settlement b"
    using opt(4) unfolding draft_lookup_optional by (rule map_normalize_injective) simp
  moreover have "td_workstream a = td_workstream b"
    using opt(5) unfolding draft_lookup_optional by (rule map_normalize_injective) simp
  moreover have "td_split_from a = td_split_from b"
    using opt(6) unfolding draft_lookup_optional by (rule map_normalize_injective) simp
  moreover have "td_split_children a = td_split_children b"
    using opt(7) unfolding draft_lookup_optional by (simp split: if_splits)
  moreover have "td_work_id a = td_work_id b" "td_external_key a = td_external_key b" "td_title a = td_title b"
      "td_goals a = td_goals b" "td_scope_paths a = td_scope_paths b" "td_acceptance a = td_acceptance b"
      "td_required_dependencies a = td_required_dependencies b" "td_completion_policy a = td_completion_policy b"
      "td_definition_state a = td_definition_state b"
    using look[of "''work_id''"] look[of "''external_key''"] look[of "''title''"] look[of "''goals''"]
      look[of "''scope_paths''"] look[of "''acceptance''"] look[of "''required_dependencies''"]
      look[of "''completion_policy''"] look[of "''definition_state''"]
    unfolding draft_lookup by simp_all
  ultimately show ?thesis by simp
qed

lemma op_json_inject [simp]: "op_json a = op_json b \<longleftrightarrow> a = b"
  by (cases a; cases b) simp_all

lemma normalize_op [simp]: "normalize_json (op_json a) = Inr (op_json a)"
  by (cases a) simp_all

lemma change_json_ok: "is_ok (normalize_json (change_json ch))"
  unfolding change_json_def
  by (rule normalize_object_ok) (auto simp: option_json_def draft_json_ok split: option.splits)

lemma option_draft_same:
  assumes "normalize_json (option_json draft_json a) = normalize_json (option_json draft_json b)"
    and "\<And>d. a = Some d \<Longrightarrow> draft_wf d" and "\<And>d. b = Some d \<Longrightarrow> draft_wf d"
  shows "a = b"
proof -
  have "normalize_json (draft_json d) \<noteq> Inr JNull" for d by (auto simp: draft_json_def)
  with assms show ?thesis
    by (cases a; cases b) (auto simp: option_json_def eq_commute[of "Inr JNull"] intro: draft_json_same)
qed

lemma change_json_same:
  assumes "\<forall>d\<in>set (change_drafts a). draft_wf d" and "\<forall>d\<in>set (change_drafts b). draft_wf d"
    and "normalize_json (change_json a) = normalize_json (change_json b)"
  shows "a = b"
proof -
  note look = normalize_eq_lookup[OF assms(3)[unfolded change_json_def] change_json_ok[unfolded change_json_def]]
  have wf: "draft_wf (dc_after a)" "draft_wf (dc_after b)"
      "\<And>d. dc_before a = Some d \<Longrightarrow> draft_wf d" "\<And>d. dc_before b = Some d \<Longrightarrow> draft_wf d"
    using assms(1,2) by (auto simp: change_drafts_def)
  have "dc_op a = dc_op b" using look[of "''op''"] by simp
  moreover have "dc_before a = dc_before b" using look[of "''before''"] wf(3,4)
    by (intro option_draft_same) simp_all
  moreover have "dc_after a = dc_after b" using look[of "''after''"] wf(1,2)
    by (intro draft_json_same) simp_all
  ultimately show ?thesis by simp
qed

lemma changes_ok: "is_ok (normalize_json (JArray (map change_json cs)))"
  by (rule normalize_array_ok) (auto simp: change_json_ok)

lemma changes_same:
  assumes "normalize_json (JArray (map change_json cs)) = normalize_json (JArray (map change_json ds))"
    and "\<forall>ch\<in>set cs. \<forall>d\<in>set (change_drafts ch). draft_wf d"
    and "\<forall>ch\<in>set ds. \<forall>d\<in>set (change_drafts ch). draft_wf d"
  shows "cs = ds"
proof -
  have "map (\<lambda>ch. normalize_json (change_json ch)) cs = map (\<lambda>ch. normalize_json (change_json ch)) ds"
    using normalize_array_same[OF assms(1) changes_ok] by (simp add: comp_def)
  with assms(2,3) show ?thesis
  proof (induction cs arbitrary: ds)
    case Nil
    then show ?case by simp
  next
    case (Cons c cs)
    then obtain d ds' where ds: "ds = d # ds'" by (cases ds) auto
    with Cons.prems have "c = d" by (intro change_json_same) auto
    moreover have "cs = ds'" by (rule Cons.IH) (use Cons.prems ds in auto)
    ultimately show ?case using ds by simp
  qed
qed

text \<open>The material of the digest: everything of a candidate but its author, state and approval.\<close>

definition same_material :: "planning_candidate \<Rightarrow> planning_candidate \<Rightarrow> bool" where
  "same_material c d \<longleftrightarrow>
     pc_codec c = pc_codec d \<and> pc_candidate_id c = pc_candidate_id d \<and> pc_project_id c = pc_project_id d
     \<and> pc_baseline_digest c = pc_baseline_digest d \<and> pc_baseline_epoch c = pc_baseline_epoch d
     \<and> pc_draft_revision c = pc_draft_revision d \<and> pc_suggestion_ids c = pc_suggestion_ids d
     \<and> pc_changes c = pc_changes d \<and> pc_allowed_spec_roots c = pc_allowed_spec_roots d
     \<and> pc_project_goal_keys c = pc_project_goal_keys d"

lemma material_ok: "is_ok (normalize_json (JObject (material_entries c)))"
  by (rule normalize_object_ok) (auto simp: material_entries_def changes_ok simp del: normalize_json.simps(5))

lemma material_keys: "distinct (map fst (material_entries c))"
  by (simp add: material_entries_def)

lemma material_same:
  assumes "candidate_wf c" and "candidate_wf d"
    and "normalize_json (JObject (material_entries c)) = normalize_json (JObject (material_entries d))"
  shows "same_material c d"
proof -
  note look = normalize_eq_lookup[OF assms(3) material_ok material_keys material_keys]
  have "pc_changes c = pc_changes d"
    using look[of "''changes''"] assms(1,2) by (intro changes_same) (simp_all add: material_entries_def candidate_wf_def)
  then show ?thesis
    using look[of "''codec''"] look[of "''candidate_id''"] look[of "''project_id''"] look[of "''baseline_digest''"]
      look[of "''baseline_epoch''"] look[of "''draft_revision''"] look[of "''suggestion_ids''"]
      look[of "''allowed_spec_roots''"] look[of "''project_goal_keys''"]
    by (simp add: same_material_def material_entries_def word_uint_eq_iff)
qed

interpretation material: canonical_record "''contract''" "\<lambda>c. JObject (material_entries c)" candidate_wf same_material
proof unfold_locales
  show "is_ok (normalize_json (JObject (material_entries c)))" for c by (rule material_ok)
  show "normalize_json (JObject (material_entries c)) = normalize_json (JObject (material_entries d)) \<longleftrightarrow> same_material c d"
    if "candidate_wf c" "candidate_wf d" for c d
  proof
    assume "same_material c d"
    then have "material_entries c = material_entries d" by (simp add: same_material_def material_entries_def)
    then show "normalize_json (JObject (material_entries c)) = normalize_json (JObject (material_entries d))" by simp
  qed (rule material_same[OF that])
qed

text \<open>Where the digest does not collide, it identifies the material.\<close>

lemma candidate_digest_same:
  assumes "candidate_digest digest c = Inr h" and "candidate_digest digest d = Inr h"
    and "candidate_wf c" and "candidate_wf d"
    and "distinguishes digest ''contract'' (JObject (material_entries c)) (JObject (material_entries d))"
  shows "same_material c d"
proof -
  have c: "hash_named digest ''contract'' (JObject (material_entries c)) = Inr h"
    and d: "hash_named digest ''contract'' (JObject (material_entries d)) = Inr h"
    using assms(1,2) by (auto simp: candidate_digest_def digest_material_def contract_hash_def)
  from material.hash_identifies[OF c assms(3-5)] d show ?thesis by simp
qed

section \<open>Approval and publication\<close>

lemma approve_ok:
  assumes "authorize_planning_approve digest scope resource now c presented policy prior = Inr self"
  shows "authorize_action scope PlanningApprove resource now = Inr ()" and "pc_state c = CsDrafting"
    and "candidate_digest digest c = Inr presented"
    and "self \<longleftrightarrow> au_person_id scope = pc_author_person_id c \<or> au_client_id scope = pc_author_actor_id c
           \<or> au_person_id scope = pc_author_actor_id c"
    and "self \<Longrightarrow> op_allow_self_approve_ordinary policy"
    and "str_ascii_lower (trim_str prior) \<in> independent_policies \<Longrightarrow>
           str_ascii_lower (trim_str (op_delivery_completion_policy policy)) \<in> independent_policies"
  using assms
  by (auto simp: authorize_planning_approve_def Let_def authorize_planning_action_def
      validate_no_delivery_downgrade_def ensure_independent_review_not_downgraded_def)

lemma publish_ok:
  "authorize_planning_publish digest scope resource now c presented = Inr u \<longleftrightarrow>
     authorize_action scope PlanningPublish resource now = Inr () \<and> pc_state c = CsApproved
     \<and> candidate_digest digest c = Inr presented
     \<and> (\<exists>a. pc_approval c = Some a \<and> pa_candidate_digest a = presented)"
  by (auto simp: authorize_planning_publish_def authorize_planning_action_def)

lemma edit_ok:
  assumes "edit_candidate c changes = Inr d"
  shows "pc_state d = CsDrafting" and "pc_approval d = None" and "pc_changes d = changes"
    and "candidate_validate_structure d = Inr ()" and "pc_codec d = planning_codec_for_changes changes"
    and "pc_state c \<in> {CsDrafting, CsApproved}"
  using assms by (cases "pc_state c"; auto simp: edit_candidate_def Let_def)+

section \<open>Properties\<close>

definition ex_draft :: task_draft where
  "ex_draft = \<lparr>td_work_id = ''w2'', td_external_key = ''K-2'', td_title = ''Task'', td_goals = [''g''],
     td_scope_paths = [''specs/api.md''], td_acceptance = [''tests pass''], td_required_dependencies = [''w1''],
     td_completion_policy = ''independent_review'', td_dependency_acceptance = None, td_hard_rules = None,
     td_verification_requirements = None, td_execution_settlement = None, td_definition_state = DdDraft,
     td_workstream = None, td_split_from = None, td_split_children = []\<rparr>"

definition ex_candidate :: planning_candidate where
  "ex_candidate = \<lparr>pc_codec = PLANNING_CODEC, pc_candidate_id = ''c1'', pc_project_id = ''p1'',
     pc_author_person_id = ''ann'', pc_author_actor_id = ''ann-client'', pc_baseline_digest = ''b'',
     pc_baseline_epoch = ''e'', pc_draft_revision = 1,
     pc_changes = [\<lparr>dc_op = OpCreateTask, dc_before = None, dc_after = ex_draft\<rparr>],
     pc_suggestion_ids = [], pc_state = CsDrafting, pc_approval = None,
     pc_allowed_spec_roots = [''specs''], pc_project_goal_keys = [''g'']\<rparr>"

definition ex_baseline :: baseline_view where
  "ex_baseline = \<lparr>bv_digest = ''b'', bv_epoch = ''e'', bv_current = True, bv_known_work_ids = {''w1''},
     bv_known_external_keys = {''K-1''}\<rparr>"

text \<open>
  C28: Validation of a planning candidate always answers, and a candidate it accepts is safe to adopt:
  the baseline is the current one; the dependencies the drafts declare form an acyclic graph without
  self-edges, every target being a known or drafted task; a created task reuses no known identity and
  an edit keeps the task's identity; goals belong to the project; every scope path is relative, free of
  empty, dot and dot-dot segments and, when roots are declared without the catch-all root, under one of
  them; and no change weakens an independent delivery review.
\<close>
theorem validated_candidate_is_sound:
  "\<exists>r. validate_candidate c b = Some r \<and> (is_ok r \<longrightarrow>
     bv_current b \<and> bv_digest b = pc_baseline_digest c \<and> bv_epoch b = pc_baseline_epoch c
     \<and> acyclic (set (draft_edges (pc_changes c)))
     \<and> (\<forall>(f, t)\<in>set (draft_edges (pc_changes c)). f \<noteq> t \<and> t \<in> candidate_nodes c b)
     \<and> (\<forall>ch\<in>set (pc_changes c). change_safe c b ch))"
proof (cases "candidate_graph c b")
  case (Inl e)
  then show ?thesis by (simp add: validate_candidate_def)
next
  case (Inr st)
  note ok = Inr[unfolded candidate_graph_ok]
  have "change_safe c b ch" if "ch \<in> set (pc_changes c)" for ch
    using ok that by (intro admissible_change_safe) (auto simp: candidate_validate_structure_def)
  with ok Inr show ?thesis by (auto simp: validate_candidate_def detect_cycle_eq is_ok_iff)
qed

theorem validated_candidate_is_sound_witness:
  "validate_candidate ex_candidate ex_baseline = Some (Inr ())
   \<and> acyclic (set (draft_edges (pc_changes ex_candidate)))
   \<and> change_safe ex_candidate ex_baseline (hd (pc_changes ex_candidate))"
proof -
  have run: "validate_candidate ex_candidate ex_baseline = Some (Inr ())" by code_simp
  moreover have "hd (pc_changes ex_candidate) \<in> set (pc_changes ex_candidate)" by (simp add: ex_candidate_def)
  ultimately show ?thesis using validated_candidate_is_sound[of ex_candidate ex_baseline] by auto
qed

text \<open>
  C7: What is published is what was approved. Suppose an approver was authorised for candidate \<open>c0\<close>
  with a presented digest, and a publication of \<open>c\<close> is authorised under an approval that carries
  that digest. Where the digest does not collide on the two materials, \<open>c\<close> agrees with \<open>c0\<close> in every
  field of the material: identity, baseline, revision, changes, suggestions, roots and goals. The
  approver held the approve permission and the publisher the publish permission, an approval by the
  author needed the project's self-approve policy, and once \<open>c\<close> is edited it can neither be published
  nor keeps its approval.
\<close>
theorem published_is_what_was_approved:
  assumes "authorize_planning_approve digest s0 res0 t0 c0 presented policy prior = Inr self"
    and "authorize_planning_publish digest s1 res1 t1 c presented' = Inr ()"
    and "pc_approval c = Some a" and "pa_candidate_digest a = presented"
    and "candidate_wf c0" and "candidate_wf c"
    and "distinguishes digest ''contract'' (JObject (material_entries c0)) (JObject (material_entries c))"
    and "edit_candidate c changes = Inr d"
  shows "same_material c0 c \<and> presented' = presented
     \<and> authorize_action s0 PlanningApprove res0 t0 = Inr ()
     \<and> authorize_action s1 PlanningPublish res1 t1 = Inr ()
     \<and> (au_person_id s0 = pc_author_person_id c0 \<longrightarrow> op_allow_self_approve_ordinary policy)
     \<and> pc_approval d = None \<and> authorize_planning_publish digest s1 res1 t1 d presented \<noteq> Inr ()"
proof -
  note approved = approve_ok[OF assms(1)]
  have c: "candidate_digest digest c = Inr presented'" and p: "presented' = presented"
    and pub: "authorize_action s1 PlanningPublish res1 t1 = Inr ()"
    using assms(2-4) by (auto simp: publish_ok)
  have "same_material c0 c"
    using candidate_digest_same[OF approved(3) _ assms(5-7)] c p by simp
  with p pub approved(1,4,5) edit_ok[OF assms(8)] show ?thesis by (auto simp: publish_ok)
qed

text \<open>The example approved by its author under the default policy, then published.\<close>

definition ex_planner :: authority_scope where
  "ex_planner = authority_from_template RtProjectAdmin ''tenant'' ''proj'' ''ann'' ''ann-client''"

definition ex_approved :: planning_candidate where
  "ex_approved = ex_candidate\<lparr>pc_state := CsApproved, pc_approval := Some
     \<lparr>pa_approval_id = ''a1'', pa_candidate_digest = ''d'', pa_approver_person_id = ''ann'',
      pa_approver_actor_id = ''ann-client'', pa_self_approved = True\<rparr>\<rparr>"

theorem published_is_what_was_approved_witness:
  "same_material ex_candidate ex_approved
   \<and> authorize_planning_publish (\<lambda>_. ''d'') ex_planner ex_resource 7 ex_approved ''d'' = Inr ()
   \<and> is_ok (edit_candidate ex_approved (pc_changes ex_candidate))"
proof -
  have approve: "authorize_planning_approve (\<lambda>_. ''d'') ex_planner ex_resource 7 ex_candidate ''d'' ordinary_default
      ''independent_review'' = Inr True" by code_simp
  have publish: "authorize_planning_publish (\<lambda>_. ''d'') ex_planner ex_resource 7 ex_approved ''d'' = Inr ()"
    by code_simp
  have edit: "is_ok (edit_candidate ex_approved (pc_changes ex_candidate))" by code_simp
  have entries: "material_entries ex_approved = material_entries ex_candidate"
    by (simp add: ex_approved_def material_entries_def)
  have dist: "distinguishes (\<lambda>_. ''d'') ''contract'' (JObject (material_entries ex_candidate))
      (JObject (material_entries ex_approved))" unfolding entries by (simp add: distinguishes_def)
  have wf: "candidate_wf ex_candidate" "candidate_wf ex_approved"
    by (simp_all add: candidate_wf_def ex_approved_def ex_candidate_def change_drafts_def draft_wf_def ex_draft_def)
  obtain a where a: "pc_approval ex_approved = Some a" "pa_candidate_digest a = ''d''"
    by (simp add: ex_approved_def)
  from edit obtain d where "edit_candidate ex_approved (pc_changes ex_candidate) = Inr d" by (auto simp: is_ok_iff)
  from published_is_what_was_approved[OF approve publish a wf dist this] publish edit show ?thesis by simp
qed

text \<open>
  The diff lists a plain field exactly when the change alters it, with its old and new value. It has no
  entry for \<^verbatim>\<open>external_key\<close>, \<^verbatim>\<open>workstream\<close>, \<^verbatim>\<open>split_from\<close> or \<^verbatim>\<open>split_children\<close>: an edit of those alone has an
  empty diff.
\<close>

lemma filter_map_pairs:
  "d \<in> set (filter P (map (\<lambda>(f, g). R f g) xs)) \<longleftrightarrow> (\<exists>(f, g)\<in>set xs. P (R f g) \<and> d = R f g)"
  by force

lemma plain_diffs_exact:
  "d \<in> set (plain_diffs ch) \<longleftrightarrow>
     (\<exists>(field, get)\<in>set plain_fields. map_option get (dc_before ch) \<noteq> Some (get (dc_after ch))
        \<and> d = \<lparr>fd_work_key = td_external_key (dc_after ch), fd_field = field,
             fd_before = map_option get (dc_before ch), fd_after = Some (get (dc_after ch))\<rparr>)"
  unfolding plain_diffs_def filter_map_pairs by simp

lemma diff_omits_workstream_move:
  "dc_before ch = Some b \<Longrightarrow> dc_after ch = b\<lparr>td_external_key := k, td_workstream := w, td_split_from := f, td_split_children := cs\<rparr>
     \<Longrightarrow> change_diffs ch = []"
  by (simp add: change_diffs_def plain_diffs_def plain_fields_def optional_diff_def field_changed_def before_field_def)

text \<open>
  The diff a reviewer sees is bound to the candidate it was built from and misses no review that
  a change calls for. It carries the candidate's digest and revision; it lists a plain field exactly
  when the change alters it; an altered dependency mode, settlement, rule or verification requirement
  demands its review, as do a retirement and work in flight; and the completion policy of every changed
  task is among the requirements.
\<close>
theorem candidate_diff_demands_reviews:
  assumes "build_candidate_diff digest c impacts = Inr diff" and "ch \<in> set (pc_changes c)"
  shows "candidate_digest digest c = Inr (cd_candidate_digest diff) \<and> cd_draft_revision diff = pc_draft_revision c
     \<and> set (change_diffs ch) \<subseteq> set (cd_field_diffs diff)
     \<and> (\<forall>(field, get)\<in>set plain_fields. map_option get (dc_before ch) \<noteq> Some (get (dc_after ch)) \<longrightarrow>
          (\<exists>d\<in>set (cd_field_diffs diff). fd_field d = field \<and> fd_work_key d = td_external_key (dc_after ch)
             \<and> fd_before d = map_option get (dc_before ch) \<and> fd_after d = Some (get (dc_after ch))))
     \<and> td_completion_policy (dc_after ch) \<in> set (cd_review_requirements diff)
     \<and> (td_definition_state (dc_after ch) \<in> {DdCancelled, DdArchived} \<longrightarrow>
          ''impact_review_for_retirement'' \<in> set (cd_review_requirements diff))
     \<and> (field_changed td_dependency_acceptance ch \<longrightarrow>
          ''explicit_dependency_assurance_review'' \<in> set (cd_review_requirements diff))
     \<and> (field_changed td_execution_settlement ch \<or> field_changed td_hard_rules ch
          \<or> field_changed td_verification_requirements ch \<longrightarrow>
          ''execution_contract_review'' \<in> set (cd_review_requirements diff))
     \<and> (\<forall>i\<in>set impacts. ai_has_active_claim i \<longrightarrow> ''in_flight_work_impact_review'' \<in> set (cd_review_requirements diff))"
proof -
  let ?reqs = "\<Union> (set (map change_requirements (pc_changes c) @ map impact_requirements impacts))"
  have "finite ?reqs" by (auto simp: change_requirements_def impact_requirements_def)
  with assms(1) have diff: "candidate_digest digest c = Inr (cd_candidate_digest diff)"
      "cd_draft_revision diff = pc_draft_revision c"
      "cd_field_diffs diff = concat (map change_diffs (pc_changes c))" "set (cd_review_requirements diff) = ?reqs"
    by (auto simp: build_candidate_diff_def)
  have sub: "set (change_diffs ch) \<subseteq> set (cd_field_diffs diff)" unfolding diff using assms(2) by auto
  have plain: "\<exists>d\<in>set (cd_field_diffs diff). fd_field d = field \<and> fd_work_key d = td_external_key (dc_after ch)
         \<and> fd_before d = map_option get (dc_before ch) \<and> fd_after d = Some (get (dc_after ch))"
    if "(field, get) \<in> set plain_fields" "map_option get (dc_before ch) \<noteq> Some (get (dc_after ch))" for field get
  proof -
    from that have "\<lparr>fd_work_key = td_external_key (dc_after ch), fd_field = field,
        fd_before = map_option get (dc_before ch), fd_after = Some (get (dc_after ch))\<rparr> \<in> set (plain_diffs ch)"
        (is "?d \<in> _")
      unfolding plain_diffs_exact by blast
    with sub have "?d \<in> set (cd_field_diffs diff)" by (auto simp: change_diffs_def)
    then show ?thesis by (rule bexI[rotated]) simp
  qed
  have reqs: "change_requirements ch \<subseteq> set (cd_review_requirements diff)"
      "\<forall>i\<in>set impacts. impact_requirements i \<subseteq> set (cd_review_requirements diff)"
    unfolding diff(4) using assms(2) by auto
  have "td_completion_policy (dc_after ch) \<in> change_requirements ch"
      "td_definition_state (dc_after ch) \<in> {DdCancelled, DdArchived} \<Longrightarrow> ''impact_review_for_retirement'' \<in> change_requirements ch"
      "field_changed td_dependency_acceptance ch \<Longrightarrow> ''explicit_dependency_assurance_review'' \<in> change_requirements ch"
      "field_changed td_execution_settlement ch \<or> field_changed td_hard_rules ch
         \<or> field_changed td_verification_requirements ch \<Longrightarrow> ''execution_contract_review'' \<in> change_requirements ch"
    by (simp_all add: change_requirements_def)
  moreover have "\<And>i. ai_has_active_claim i \<Longrightarrow> ''in_flight_work_impact_review'' \<in> impact_requirements i"
    by (simp add: impact_requirements_def)
  ultimately show ?thesis using diff(1,2) sub plain reqs by blast
qed

theorem candidate_diff_demands_reviews_witness:
  "\<exists>diff. build_candidate_diff (\<lambda>_. ''d'') ex_candidate [] = Inr diff
     \<and> ''independent_review'' \<in> set (cd_review_requirements diff)"
proof -
  have "is_ok (build_candidate_diff (\<lambda>_. ''d'') ex_candidate [])" by code_simp
  then obtain diff where run: "build_candidate_diff (\<lambda>_. ''d'') ex_candidate [] = Inr diff" by (auto simp: is_ok_iff)
  have "hd (pc_changes ex_candidate) \<in> set (pc_changes ex_candidate)" by (simp add: ex_candidate_def)
  from candidate_diff_demands_reviews[OF run this] run show ?thesis
    by (simp add: ex_candidate_def ex_draft_def)
qed

end
