(* ===== verification/Team_Bundle.thy ===== *)
theory Team_Bundle
  imports Team_Contract Cycle_Detection "HOL-Library.Product_Lexorder"
begin

text \<open>
  \<^verbatim>\<open>crates/awr-team/src/workstreams.rs\<close>: the source bundle of a multi-workstream project. It ties the
  core's workstream catalog and ownership check to the work contracts and, in its sixth version, to
  the queue-based cycle check. The printed form of a ULID belongs to another library and is the
  argument \<open>show_id\<close>.
\<close>

record workstream_contract =
  wk_workstream_id :: ulid
  wk_contract :: work_contract

record workstream_bundle =
  bu_codec :: string
  bu_catalog :: workstream_catalog
  bu_contracts :: "workstream_contract list"

definition BUNDLE_CODEC :: string where "BUNDLE_CODEC = ''awr-team-workstreams-v1''"
definition BUNDLE_CODEC_V2 :: string where "BUNDLE_CODEC_V2 = ''awr-team-workstreams-v2''"
definition BUNDLE_CODEC_V3 :: string where "BUNDLE_CODEC_V3 = ''awr-team-workstreams-v3''"
definition BUNDLE_CODEC_V4 :: string where "BUNDLE_CODEC_V4 = ''awr-team-workstreams-v4''"
definition BUNDLE_CODEC_V5 :: string where "BUNDLE_CODEC_V5 = ''awr-team-workstreams-v5''"
definition BUNDLE_CODEC_V6 :: string where "BUNDLE_CODEC_V6 = ''awr-team-workstreams-v6''"

lemmas bundle_codecs = BUNDLE_CODEC_def BUNDLE_CODEC_V2_def BUNDLE_CODEC_V3_def BUNDLE_CODEC_V4_def
  BUNDLE_CODEC_V5_def BUNDLE_CODEC_V6_def

abbreviation wk_work_id :: "workstream_contract \<Rightarrow> string" where
  "wk_work_id e \<equiv> wc_work_id (wk_contract e)"

definition codec_too_new :: "string \<Rightarrow> string \<Rightarrow> bool" where
  "codec_too_new bundle contract \<longleftrightarrow>
     bundle = BUNDLE_CODEC_V2
       \<and> contract \<in> {CONTRACT_CODEC_V3, CONTRACT_CODEC_V4, CONTRACT_CODEC_V5, CONTRACT_CODEC_V6}
     \<or> bundle = BUNDLE_CODEC_V3 \<and> contract \<in> {CONTRACT_CODEC_V4, CONTRACT_CODEC_V5, CONTRACT_CODEC_V6}
     \<or> bundle = BUNDLE_CODEC_V4 \<and> contract \<in> {CONTRACT_CODEC_V5, CONTRACT_CODEC_V6}
     \<or> bundle = BUNDLE_CODEC_V5 \<and> contract = CONTRACT_CODEC_V6"

definition same_stream_error :: team_error where
  "same_stream_error = TeInvalidContract ''Agent dependency acceptance requires an existing predecessor in the same workstream; cross-stream adoption is unsupported''"

definition check_mode ::
  "workstream_bundle \<Rightarrow> workstream_contract \<Rightarrow> string \<times> dependency_acceptance_mode \<Rightarrow> (team_error, unit) result" where
  "check_mode b entry = (\<lambda>(upstream, mode).
     and_then (ok_or (find (\<lambda>provider. wk_work_id provider = upstream) (bu_contracts b)) same_stream_error)
       (\<lambda>provider.
          if is_cross_workstream mode then
            refuse (bu_codec b \<noteq> BUNDLE_CODEC_V6 \<or> wk_workstream_id provider = wk_workstream_id entry)
              (TeInvalidContract ''cross_workstream requires V6 and different source-owned workstreams'')
          else refuse (wk_workstream_id provider \<noteq> wk_workstream_id entry) same_stream_error))"

definition check_entry :: "workstream_bundle \<Rightarrow> workstream_contract \<Rightarrow> (team_error, unit) result" where
  "check_entry b entry =
     run_checks
       [contract_validate (wk_contract entry),
        refuse (bu_codec b = BUNDLE_CODEC \<and> wc_codec (wk_contract entry) \<noteq> CONTRACT_CODEC)
          (TeInvalidContract ''extended contracts require an explicit extended workstream codec''),
        refuse (codec_too_new (bu_codec b) (wc_codec (wk_contract entry)))
          (TeInvalidContract ''contract codec is newer than the workstream codec''),
        run_checks (map (check_mode b entry) (wc_dependency_acceptance (wk_contract entry)))]"

definition bundle_bindings :: "workstream_bundle \<Rightarrow> string \<Rightarrow> workstream_work_binding list" where
  "bundle_bindings b project_id =
     map (\<lambda>e. \<lparr>wb_project_id = project_id, wb_workstream_id = wk_workstream_id e, wb_work_item_id = wk_work_id e\<rparr>)
       (bu_contracts b)"

definition check_required ::
  "workstream_bundle \<Rightarrow> workstream_contract \<Rightarrow> string \<Rightarrow> (team_error, unit) result" where
  "check_required b entry upstream =
     and_then (ok_or (map_of (rev (map (\<lambda>e. (wk_work_id e, e)) (bu_contracts b))) upstream)
         (TeInvalidContract ''V6 required dependency must resolve in the source-owned graph''))
       (\<lambda>provider. refuse
          (wk_workstream_id provider \<noteq> wk_workstream_id entry
           \<and> \<not> (case map_of (wc_dependency_acceptance (wk_contract entry)) upstream of
                  Some mode \<Rightarrow> is_cross_workstream mode | None \<Rightarrow> False))
          (TeInvalidContract ''V6 cross-stream required dependency needs an explicit cross_workstream policy''))"

definition v6_entry ::
  "workstream_bundle \<Rightarrow> edges \<Rightarrow> workstream_contract \<Rightarrow> (team_error, edges) result" where
  "v6_entry b edges entry =
     map_sum id snd
       (try_fold (\<lambda>(predecessors, edges) upstream.
          and_then (insert_new (TeInvalidContract ''V6 required dependency graph must not contain duplicate edges'')
              predecessors upstream)
            (\<lambda>predecessors. then_ok (check_required b entry upstream)
              (Inr (predecessors, edges @ [(wk_work_id entry, upstream)]))))
        ({}, edges) (wc_required_dependencies (wk_contract entry)))"

definition validate_v6_dependencies :: "workstream_bundle \<Rightarrow> (team_error, unit) result option" where
  "validate_v6_dependencies b =
     (case then_ok (refuse (\<not> list_ex (\<lambda>e. wc_codec (wk_contract e) = CONTRACT_CODEC_V6) (bu_contracts b))
              (TeInvalidContract ''V6 bundle requires an explicit V6 cross-stream contract''))
         (try_fold (v6_entry b) [] (bu_contracts b))
      of Inl e \<Rightarrow> Some (Inl e)
       | Inr edges \<Rightarrow> map_option (map_err (\<lambda>e. TeInvalidContract (team_error_display e)))
           (detect_cycle (sorted_list_of_set (wk_work_id ` set (bu_contracts b))) edges))"

definition bundle_checks :: "workstream_bundle \<Rightarrow> string \<Rightarrow> (team_error, unit) result" where
  "bundle_checks b project_id =
     run_checks
       [refuse (bu_codec b \<notin> {BUNDLE_CODEC, BUNDLE_CODEC_V2, BUNDLE_CODEC_V3, BUNDLE_CODEC_V4, BUNDLE_CODEC_V5,
             BUNDLE_CODEC_V6} \<or> cat_project_id (bu_catalog b) \<noteq> project_id)
          (TeInvalidContract ''workstream codec or project mismatch''),
        refuse (bu_contracts b = [] \<or> length (bu_contracts b) > 10000)
          (TeInvalidContract ''workstream source needs 1..10000 contracts''),
        map_sum id (\<lambda>_. ())
          (try_fold (\<lambda>keys entry. then_ok (check_entry b entry)
             (insert_new (TeInvalidContract ''duplicate work key'') keys (wc_external_key (wk_contract entry))))
           {} (bu_contracts b)),
        map_err (\<lambda>e. TeInvalidContract (workstream_error_display e))
          (validate_workstream_ownership (bu_catalog b) (map wk_work_id (bu_contracts b))
            (bundle_bindings b project_id))]"

definition bundle_validate :: "workstream_bundle \<Rightarrow> string \<Rightarrow> (team_error, unit) result option" where
  "bundle_validate b project_id =
     (case bundle_checks b project_id of
        Inl e \<Rightarrow> Some (Inl e)
      | Inr _ \<Rightarrow> if bu_codec b = BUNDLE_CODEC_V6 then validate_v6_dependencies b else Some (Inr ()))"

section \<open>Digest\<close>

fun workstream_state_json :: "workstream_state \<Rightarrow> json" where
  "workstream_state_json WsActive = JString ''active''"
| "workstream_state_json WsPaused = JString ''paused''"
| "workstream_state_json WsArchived = JString ''archived''"

definition workstream_json :: "(ulid \<Rightarrow> string) \<Rightarrow> workstream \<Rightarrow> json" where
  "workstream_json show_id w = JObject
     [(''id'', JString (show_id (ws_id w))), (''project_id'', JString (ws_project_id w)),
      (''external_key'', JString (ws_external_key w)), (''title'', JString (ws_title w)),
      (''state'', workstream_state_json (ws_state w)),
      (''authority_version'', JNumber (JInt (uint (ws_authority_version w)))),
      (''goal_keys'', json_strings (sort (ws_goal_keys w))),
      (''acceptance_contracts'', json_strings (sort (ws_acceptance_contracts w)))]"

definition catalog_json :: "(ulid \<Rightarrow> string) \<Rightarrow> workstream_catalog \<Rightarrow> json" where
  "catalog_json show_id c = JObject
     [(''version'', JNumber (JInt (uint (cat_version c)))), (''project_id'', JString (cat_project_id c)),
      (''legacy_default'', option_json (\<lambda>i. JString (show_id i)) (cat_legacy_default c)),
      (''workstreams'', JArray (map (workstream_json show_id) (sort_key ws_id (cat_workstreams c))))]"

definition contract_row ::
  "(json \<Rightarrow> string) \<Rightarrow> workstream_contract \<Rightarrow> (team_error, string \<times> ulid \<times> string) result" where
  "contract_row digest e =
     and_then (work_contract_hash digest (wk_contract e)) (\<lambda>h. Inr (wk_work_id e, wk_workstream_id e, h))"

definition row_json :: "(ulid \<Rightarrow> string) \<Rightarrow> string \<times> ulid \<times> string \<Rightarrow> json" where
  "row_json show_id = (\<lambda>(work, stream, h). JArray [JString work, JString (show_id stream), JString h])"

definition bundle_json ::
  "(ulid \<Rightarrow> string) \<Rightarrow> workstream_bundle \<Rightarrow> (string \<times> ulid \<times> string) list \<Rightarrow> json" where
  "bundle_json show_id b rows = JObject
     [(''codec'', JString (bu_codec b)), (''catalog'', catalog_json show_id (bu_catalog b)),
      (''contracts'', JArray (map (row_json show_id) (sort rows)))]"

definition bundle_hash ::
  "(json \<Rightarrow> string) \<Rightarrow> (ulid \<Rightarrow> string) \<Rightarrow> workstream_bundle \<Rightarrow> (team_error, string) result option" where
  "bundle_hash digest show_id b =
     map_option (\<lambda>valid. then_ok valid
         (and_then (collect_results (map (contract_row digest) (bu_contracts b)))
           (\<lambda>rows. contract_hash digest (bundle_json show_id b rows))))
       (bundle_validate b (cat_project_id (bu_catalog b)))"

section \<open>Laws\<close>

lemma map_sum_ok [simp]: "map_sum id g r = Inr y \<longleftrightarrow> (\<exists>x. r = Inr x \<and> y = g x)"
  by (cases r) auto

lemma v6_fold_ok:
  "try_fold (\<lambda>(predecessors, edges) upstream.
       and_then (insert_new e predecessors upstream)
         (\<lambda>predecessors. then_ok (chk upstream) (Inr (predecessors, edges @ [(w, upstream)]))))
     (P, E) us = Inr (P', E') \<longleftrightarrow>
     distinct us \<and> set us \<inter> P = {} \<and> (\<forall>u\<in>set us. chk u = Inr ()) \<and> P' = P \<union> set us \<and> E' = E @ map (Pair w) us"
  by (induction us arbitrary: P E) auto

lemma v6_entry_ok:
  "v6_entry b E e = Inr E' \<longleftrightarrow>
     distinct (wc_required_dependencies (wk_contract e))
     \<and> (\<forall>u\<in>set (wc_required_dependencies (wk_contract e)). check_required b e u = Inr ())
     \<and> E' = E @ map (Pair (wk_work_id e)) (wc_required_dependencies (wk_contract e))"
  by (auto simp: v6_entry_def v6_fold_ok)

definition bundle_edges :: "workstream_contract list \<Rightarrow> edges" where
  "bundle_edges es = concat (map (\<lambda>e. map (Pair (wk_work_id e)) (wc_required_dependencies (wk_contract e))) es)"

lemma v6_entries_ok:
  "try_fold (v6_entry b) E es = Inr E' \<longleftrightarrow>
     (\<forall>e\<in>set es. distinct (wc_required_dependencies (wk_contract e))
        \<and> (\<forall>u\<in>set (wc_required_dependencies (wk_contract e)). check_required b e u = Inr ()))
     \<and> E' = E @ bundle_edges es"
  by (induction es arbitrary: E) (auto simp: v6_entry_ok bundle_edges_def)

lemma validate_v6_ok:
  "validate_v6_dependencies b = Some (Inr ()) \<longleftrightarrow>
     (\<exists>e\<in>set (bu_contracts b). wc_codec (wk_contract e) = CONTRACT_CODEC_V6)
     \<and> (\<forall>e\<in>set (bu_contracts b). distinct (wc_required_dependencies (wk_contract e))
        \<and> (\<forall>u\<in>set (wc_required_dependencies (wk_contract e)). check_required b e u = Inr ()))
     \<and> acyclic (set (bundle_edges (bu_contracts b)))"
proof (cases "try_fold (v6_entry b) [] (bu_contracts b)")
  case (Inl e)
  with v6_entries_ok[of b "[]" "bu_contracts b" "bundle_edges (bu_contracts b)"] show ?thesis
    by (auto simp: validate_v6_dependencies_def split: sum.splits)
next
  case (Inr E)
  with v6_entries_ok[of b "[]" "bu_contracts b" E] show ?thesis
    by (auto simp: validate_v6_dependencies_def detect_cycle_eq list_ex_iff split: sum.splits)
qed

lemma validate_v6_total: "validate_v6_dependencies b \<noteq> None"
  by (auto simp: validate_v6_dependencies_def detect_cycle_eq split: sum.splits)

lemma bundle_checks_ok:
  "bundle_checks b p = Inr u \<longleftrightarrow>
     bu_codec b \<in> {BUNDLE_CODEC, BUNDLE_CODEC_V2, BUNDLE_CODEC_V3, BUNDLE_CODEC_V4, BUNDLE_CODEC_V5, BUNDLE_CODEC_V6}
     \<and> cat_project_id (bu_catalog b) = p \<and> bu_contracts b \<noteq> [] \<and> length (bu_contracts b) \<le> 10000
     \<and> (\<forall>e\<in>set (bu_contracts b). check_entry b e = Inr ())
     \<and> distinct (map (\<lambda>e. wc_external_key (wk_contract e)) (bu_contracts b))
     \<and> validate_workstream_ownership (bu_catalog b) (map wk_work_id (bu_contracts b)) (bundle_bindings b p) = Inr ()"
  unfolding bundle_checks_def
  by (auto simp: try_fold_insert_new simp del: insert_iff)

lemma owned_bundle:
  assumes "validate_workstream_ownership (bu_catalog b) (map wk_work_id (bu_contracts b)) (bundle_bindings b p) = Inr ()"
  shows "distinct (map wk_work_id (bu_contracts b))"
    and "e \<in> set (bu_contracts b) \<Longrightarrow>
       \<exists>!w. w \<in> set (cat_workstreams (bu_catalog b)) \<and> ws_id w = wk_workstream_id e"
proof -
  show "distinct (map wk_work_id (bu_contracts b))" using assms by (simp add: ownership_ok)
  assume e: "e \<in> set (bu_contracts b)"
  have cat: "catalog_validate (bu_catalog b) = Inr ()" using assms by (simp add: ownership_ok)
  have "validate_work_binding (bu_catalog b)
      \<lparr>wb_project_id = p, wb_workstream_id = wk_workstream_id e, wb_work_item_id = wk_work_id e\<rparr> = Inr ()"
    using assms e by (auto simp: ownership_ok bundle_bindings_def)
  then obtain w where "catalog_get (bu_catalog b) (wk_workstream_id e) = Inr w"
    by (auto simp: validate_work_binding_def)
  then show "\<exists>!w. w \<in> set (cat_workstreams (bu_catalog b)) \<and> ws_id w = wk_workstream_id e"
    using catalog_get_ok[OF cat] by (metis Inr_inject)
qed

text \<open>The contract of the bundle with a given work id, once the ids are distinct.\<close>

lemma find_contract:
  assumes "distinct (map wk_work_id es)" and "e \<in> set es"
  shows "find (\<lambda>x. wk_work_id x = wk_work_id e) es = Some e"
  using find_unique_key[OF assms refl] .

lemma map_of_contract:
  assumes "distinct (map wk_work_id es)"
  shows "map_of (rev (map (\<lambda>e. (wk_work_id e, e)) es)) k = Some e \<longleftrightarrow> e \<in> set es \<and> wk_work_id e = k"
proof -
  have "distinct (map wk_work_id (rev es))" using assms by (simp add: rev_map[symmetric])
  from map_of_key[OF this, of k e] show ?thesis by (simp add: rev_map)
qed

lemma check_required_ok:
  assumes "distinct (map wk_work_id (bu_contracts b))" and "check_required b e u = Inr ()"
  shows "\<exists>provider\<in>set (bu_contracts b). wk_work_id provider = u
     \<and> (wk_workstream_id provider = wk_workstream_id e
        \<or> (\<exists>policy. map_of (wc_dependency_acceptance (wk_contract e)) u = Some (CrossWorkstream policy)))"
  using assms(2)
  by (auto simp: check_required_def map_of_contract[OF assms(1)] is_cross_workstream_def
      split: option.splits dependency_acceptance_mode.splits)

lemma check_mode_ok:
  assumes "check_mode b e (u, m) = Inr ()"
  shows "\<exists>provider\<in>set (bu_contracts b). wk_work_id provider = u
     \<and> (is_cross_workstream m \<longleftrightarrow> wk_workstream_id provider \<noteq> wk_workstream_id e)
     \<and> (is_cross_workstream m \<longrightarrow> bu_codec b = BUNDLE_CODEC_V6)"
  using assms by (auto simp: check_mode_def split: if_splits dest: find_Some_in)

section \<open>Properties\<close>

definition ex_cross :: work_contract where
  "ex_cross = \<lparr>wc_codec = CONTRACT_CODEC_V6, wc_work_id = ''w2'', wc_external_key = ''K-2'',
     wc_goals = [], wc_hard_rules = [], wc_scope_paths = [],
     wc_acceptance = [''tests pass''], wc_required_dependencies = [''w1''],
     wc_completion_policy = ''independent_review'', wc_verification_requirements = [],
     wc_dependency_acceptance = [(''w1'', CrossWorkstream
        \<lparr>cw_review_assurance = CrTeamIndependent, cw_version_policy = FixedDelivery\<rparr>)],
     wc_execution_settlement = None\<rparr>"

definition ex_base :: work_contract where
  "ex_base = ex_cross\<lparr>wc_codec := CONTRACT_CODEC, wc_work_id := ''w1'', wc_external_key := ''K-1'',
     wc_required_dependencies := [], wc_dependency_acceptance := []\<rparr>"

definition ex_bundle :: workstream_bundle where
  "ex_bundle = \<lparr>bu_codec = BUNDLE_CODEC_V6, bu_catalog = ex_catalog,
     bu_contracts = [\<lparr>wk_workstream_id = 2, wk_contract = ex_cross\<rparr>, \<lparr>wk_workstream_id = 1, wk_contract = ex_base\<rparr>]\<rparr>"

text \<open>
  Validation of a workstream bundle always answers. In an accepted bundle every work item has its
  own id, is owned by exactly one workstream of the catalog and has a valid contract, and an explicit
  dependency mode is a cross-workstream policy exactly when its provider belongs to another workstream,
  which only the sixth codec allows. In an accepted bundle of that codec, moreover, every required
  dependency resolves inside the bundle, one that crosses workstreams has an explicit policy, and the
  dependency graph is acyclic, so that all work can be scheduled.
\<close>
theorem accepted_bundle_is_schedulable:
  "\<exists>r. bundle_validate b p = Some r \<and> (is_ok r \<longrightarrow>
     distinct (map wk_work_id (bu_contracts b)) \<and> cat_project_id (bu_catalog b) = p
     \<and> (\<forall>e\<in>set (bu_contracts b). contract_validate (wk_contract e) = Inr ()
          \<and> (\<exists>!w. w \<in> set (cat_workstreams (bu_catalog b)) \<and> ws_id w = wk_workstream_id e)
          \<and> (\<forall>(u, m)\<in>set (wc_dependency_acceptance (wk_contract e)).
               \<exists>provider\<in>set (bu_contracts b). wk_work_id provider = u
                 \<and> (is_cross_workstream m \<longleftrightarrow> wk_workstream_id provider \<noteq> wk_workstream_id e)
                 \<and> (is_cross_workstream m \<longrightarrow> bu_codec b = BUNDLE_CODEC_V6)))
     \<and> (bu_codec b = BUNDLE_CODEC_V6 \<longrightarrow>
          (\<forall>e\<in>set (bu_contracts b). \<forall>u\<in>set (wc_required_dependencies (wk_contract e)).
             \<exists>provider\<in>set (bu_contracts b). wk_work_id provider = u
               \<and> (wk_workstream_id provider = wk_workstream_id e
                  \<or> (\<exists>policy. map_of (wc_dependency_acceptance (wk_contract e)) u = Some (CrossWorkstream policy))))
          \<and> (\<exists>order. set order = set (map wk_work_id (bu_contracts b))
               \<and> schedules (set (bundle_edges (bu_contracts b))) order)))"
proof (cases "bundle_checks b p")
  case (Inl e)
  then show ?thesis by (simp add: bundle_validate_def)
next
  case (Inr u)
  note ok = Inr[unfolded bundle_checks_ok]
  obtain r where r: "bundle_validate b p = Some r" using Inr validate_v6_total[of b]
    by (cases "bu_codec b = BUNDLE_CODEC_V6") (auto simp: bundle_validate_def)
  have v6: "validate_v6_dependencies b = Some (Inr ())" if "is_ok r" "bu_codec b = BUNDLE_CODEC_V6"
    using that r Inr by (auto simp: bundle_validate_def is_ok_iff)
  have own: "validate_workstream_ownership (bu_catalog b) (map wk_work_id (bu_contracts b)) (bundle_bindings b p) = Inr ()"
    and entries: "\<forall>e\<in>set (bu_contracts b). check_entry b e = Inr ()" and proj: "cat_project_id (bu_catalog b) = p"
    using ok by blast+
  have modes: "\<forall>e\<in>set (bu_contracts b). contract_validate (wk_contract e) = Inr ()
      \<and> (\<forall>(u, m)\<in>set (wc_dependency_acceptance (wk_contract e)). check_mode b e (u, m) = Inr ())"
    using entries by (auto simp: check_entry_def)
  have sched: "\<exists>order. set order = set (map wk_work_id (bu_contracts b))
      \<and> schedules (set (bundle_edges (bu_contracts b))) order" if "acyclic (set (bundle_edges (bu_contracts b)))"
    using acyclic_schedule[OF List.finite_set that] .
  show ?thesis
    using r proj modes check_mode_ok owned_bundle[OF own] check_required_ok[OF owned_bundle(1)[OF own]] sched
      v6[unfolded validate_v6_ok]
    by (intro exI[of _ r] conjI impI) (fast+)
qed

theorem accepted_bundle_is_schedulable_witness:
  "bundle_validate ex_bundle ''proj'' = Some (Inr ())
   \<and> (\<exists>order. set order = {''w1'', ''w2''} \<and> schedules (set (bundle_edges (bu_contracts ex_bundle))) order)"
proof -
  have run: "bundle_validate ex_bundle ''proj'' = Some (Inr ())" by code_simp
  moreover have "bu_codec ex_bundle = BUNDLE_CODEC_V6" "set (map wk_work_id (bu_contracts ex_bundle)) = {''w1'', ''w2''}"
    by (auto simp: ex_bundle_def ex_base_def ex_cross_def)
  ultimately show ?thesis using accepted_bundle_is_schedulable[of ex_bundle "''proj''"] by auto
qed

text \<open>Hashing an accepted bundle cannot fail.\<close>

lemma contract_rows_ok:
  assumes "bundle_checks b p = Inr ()"
  shows "is_ok (collect_results (map (contract_row digest) (bu_contracts b)))"
proof -
  have "is_ok (contract_row digest e)" if "e \<in> set (bu_contracts b)" for e
  proof -
    have "contract_validate (wk_contract e) = Inr ()"
      using assms that by (auto simp: bundle_checks_ok check_entry_def)
    moreover obtain x where "normalize_json (canonical_fields (wk_contract e)) = Inr x"
      using canonical_ok by (auto simp: is_ok_iff)
    ultimately show ?thesis
      by (simp add: contract_row_def work_contract_hash_def contract_hash_def hash_named_def normalize_wrapper
          then_ok_def and_then_def)
  qed
  then have "\<forall>e\<in>set es. is_ok (contract_row digest e) \<Longrightarrow> is_ok (collect_results (map (contract_row digest) es))" for es
    by (induction es) (auto simp: is_ok_iff)
  with \<open>\<And>e. e \<in> set (bu_contracts b) \<Longrightarrow> is_ok (contract_row digest e)\<close> show ?thesis by blast
qed

lemma bundle_json_ok: "is_ok (normalize_json (bundle_json show_id b rows))"
proof -
  have stream: "is_ok (normalize_json (workstream_json show_id w))" for w
    unfolding workstream_json_def by (rule normalize_object_ok) (cases "ws_state w"; auto)
  have "is_ok (normalize_json (catalog_json show_id c))" for c
    unfolding catalog_json_def
    by (rule normalize_object_ok)
      (auto simp: option_json_def stream intro!: normalize_array_ok split: option.splits simp del: normalize_json.simps(5))
  moreover have "is_ok (normalize_json (row_json show_id r))" for r
    by (cases r) (simp add: row_json_def and_then_def)
  ultimately show ?thesis
    unfolding bundle_json_def
    by (intro normalize_object_ok) (auto intro!: normalize_array_ok simp del: normalize_json.simps(5))
qed

text \<open>Equality of bundles up to the order of workstreams and contracts.\<close>

definition same_bundle :: "workstream_bundle \<Rightarrow> workstream_bundle \<Rightarrow> bool" where
  "same_bundle a b \<longleftrightarrow>
     bu_codec a = bu_codec b \<and> mset (bu_contracts a) = mset (bu_contracts b)
     \<and> cat_version (bu_catalog a) = cat_version (bu_catalog b)
     \<and> cat_project_id (bu_catalog a) = cat_project_id (bu_catalog b)
     \<and> cat_legacy_default (bu_catalog a) = cat_legacy_default (bu_catalog b)
     \<and> mset (cat_workstreams (bu_catalog a)) = mset (cat_workstreams (bu_catalog b))"

text \<open>
  The identity of a bundle does not depend on the order its source lists things in: two accepted
  bundles that differ only in the order of their workstreams and contracts have the same digest, for
  every digest function, and hashing an accepted bundle never fails.
\<close>
theorem bundle_digest_order_independent:
  assumes "bundle_validate a (cat_project_id (bu_catalog a)) = Some (Inr ())"
    and "bundle_validate b (cat_project_id (bu_catalog b)) = Some (Inr ())" and "same_bundle a b"
  shows "\<exists>h. bundle_hash digest show_id a = Some (Inr h) \<and> bundle_hash digest show_id b = Some (Inr h)"
proof -
  have ok: "bundle_checks c (cat_project_id (bu_catalog c)) = Inr ()"
    if "bundle_validate c (cat_project_id (bu_catalog c)) = Some (Inr ())" for c
    using that by (auto simp: bundle_validate_def split: sum.splits)
  have "catalog_validate (bu_catalog a) = Inr ()" using ok[OF assms(1)] by (simp add: bundle_checks_ok ownership_ok)
  then have "inj_on ws_id (set (cat_workstreams (bu_catalog a)))"
    by (simp add: catalog_validate_ok distinct_map)
  then have cat: "catalog_json show_id (bu_catalog a) = catalog_json show_id (bu_catalog b)"
    using assms(3) sort_key_eq_sort_key[of "cat_workstreams (bu_catalog a)" "cat_workstreams (bu_catalog b)" ws_id]
    by (simp add: catalog_json_def same_bundle_def)
  obtain rows where a: "collect_results (map (contract_row digest) (bu_contracts a)) = Inr rows"
    using contract_rows_ok[OF ok[OF assms(1)]] by (auto simp: is_ok_iff)
  from collect_results_mset[OF a] assms(3) obtain rows'
    where b: "collect_results (map (contract_row digest) (bu_contracts b)) = Inr rows'" "mset rows' = mset rows"
    unfolding same_bundle_def by blast
  have "bundle_json show_id a rows = bundle_json show_id b rows'"
    using cat assms(3) b(2) sort_eq_mset[of rows' rows] by (simp add: bundle_json_def same_bundle_def)
  moreover obtain x where "normalize_json (bundle_json show_id a rows) = Inr x"
    using bundle_json_ok[of show_id a rows] unfolding is_ok_iff by blast
  ultimately show ?thesis
    using a b assms by (simp add: bundle_hash_def contract_hash_def hash_named_def normalize_wrapper then_ok_def and_then_def)
qed

theorem bundle_digest_order_independent_witness:
  "\<exists>h. bundle_hash (\<lambda>_. ''d'') (\<lambda>_. ''i'') ex_bundle = Some (Inr h)
     \<and> bundle_hash (\<lambda>_. ''d'') (\<lambda>_. ''i'') (ex_bundle\<lparr>bu_contracts := rev (bu_contracts ex_bundle)\<rparr>) = Some (Inr h)"
proof (rule bundle_digest_order_independent)
  show "bundle_validate ex_bundle (cat_project_id (bu_catalog ex_bundle)) = Some (Inr ())" by code_simp
  show "bundle_validate (ex_bundle\<lparr>bu_contracts := rev (bu_contracts ex_bundle)\<rparr>)
      (cat_project_id (bu_catalog (ex_bundle\<lparr>bu_contracts := rev (bu_contracts ex_bundle)\<rparr>))) = Some (Inr ())" by code_simp
qed (simp add: same_bundle_def)

end
