(* ===== verification/Team_Access.thy ===== *)
theory Team_Access
  imports Canonical_Json "HOL-Library.Sublist"
begin

text \<open>
  The small entry modules of \<^verbatim>\<open>crates/awr-team\<close>: the decimal text of 64-bit counters
  (\<^verbatim>\<open>version.rs\<close>), the classification of completion (\<^verbatim>\<open>completion.rs\<close>) and the request envelope with its
  validation-only execution on the three surfaces (\<^verbatim>\<open>access.rs\<close>). The URL parser is another library: it
  is the argument \<open>parse_url\<close>, from a text to what the accessors of the parsed URL answer.
\<close>

section \<open>Counters as text\<close>

definition encode_u64 :: "u64 \<Rightarrow> string" where
  "encode_u64 value = show_nat (unat value)"

text \<open>\<^verbatim>\<open>str::parse\<close> on a nonempty list of ASCII digits: their value, or the overflow error.\<close>

definition digits_value :: "string \<Rightarrow> nat" where
  "digits_value s = foldl (\<lambda>acc c. acc * 10 + (byte c - 48)) 0 s"

definition decode_u64 :: "string \<Rightarrow> (team_error, u64) result" where
  "decode_u64 value =
     then_ok
       (run_checks
         [refuse (value = [] \<or> \<not> list_all is_ascii_digit value) (TeInvalidVersion value),
          refuse (length value > 1 \<and> hd value = CHR ''0'') (TeInvalidVersion value)])
       (then_ok (refuse (digits_value value \<ge> 2 ^ 64) (TeInvalidVersion value))
         (Inr (of_nat (digits_value value))))"

section \<open>Completion\<close>

datatype evidence_grade = EgAgentSelfReport | EgTrustedExecutionReceipt | EgAuthorizedReview

record evidence_bundle =
  eb_grade :: evidence_grade
  eb_contract_hash :: string
  eb_artifact_digest :: "string option"
  eb_accessible :: bool

record review_policy =
  rp_required :: bool
  rp_author_may_self_approve :: bool
  rp_approved :: bool
  rp_reviewer_is_author :: bool

datatype completion_view = CvSourceDeclared | CvHistorical | CvCurrentlyVerified | CvNeedsRevalidation

definition current_completion ::
  "bool \<Rightarrow> bool \<Rightarrow> string option \<Rightarrow> string \<Rightarrow> bool \<Rightarrow> evidence_bundle option \<Rightarrow> review_policy \<Rightarrow> completion_view" where
  "current_completion source_declared_completed historical_receipt receipt_contract_hash current_contract_hash
     dependencies_valid bundle review =
     (if historical_receipt then
        if receipt_contract_hash \<noteq> Some current_contract_hash then CvNeedsRevalidation
        else if \<not> dependencies_valid then CvNeedsRevalidation
        else (case bundle of
            None \<Rightarrow> CvNeedsRevalidation
          | Some b \<Rightarrow>
              if eb_contract_hash b \<noteq> current_contract_hash \<or> \<not> eb_accessible b then CvNeedsRevalidation
              else if eb_grade b = EgAgentSelfReport then
                (if source_declared_completed then CvSourceDeclared else CvHistorical)
              else if rp_required review
                  \<and> (\<not> rp_approved review \<or> \<not> rp_author_may_self_approve review \<and> rp_reviewer_is_author review)
              then CvNeedsRevalidation
              else CvCurrentlyVerified)
      else if source_declared_completed then CvSourceDeclared else CvHistorical)"

section \<open>Requests\<close>

definition PROTOCOL :: string where "PROTOCOL = ''awr-team''"
definition PROTOCOL_VERSION :: u32 where "PROTOCOL_VERSION = 1"
definition SURFACES :: "string list" where "SURFACES = [''http'', ''mcp'', ''cli'']"

datatype operation = OpCapabilities | OpClaim

definition operation_parse :: "string \<Rightarrow> (team_error, operation) result" where
  "operation_parse name =
     (if name = ''capabilities'' then Inr OpCapabilities
      else if name = ''work.claim'' then Inr OpClaim
      else Inl TeUnsupported)"

definition operation_writes :: "operation \<Rightarrow> bool" where
  "operation_writes op = (case op of OpClaim \<Rightarrow> True | _ \<Rightarrow> False)"

record auth_context =
  ac_tenant_id :: string
  ac_project_id :: string
  ac_actor_id :: string
  ac_client_id :: string

record remote_profile =
  rm_name :: string
  rm_endpoint :: string
  rm_project_key :: string
  rm_credential_env :: string
  rm_protocol_version :: u32

record envelope =
  en_protocol_version :: u32
  en_request_id :: string
  en_op :: string
  en_raw :: json

subsection \<open>Reading a request\<close>

fun as_u64 :: "json_number \<Rightarrow> u64 option" where
  "as_u64 (JInt i) = (if 0 \<le> i \<and> i < 2 ^ 64 then Some (of_int i) else None)"
| "as_u64 (JFloat _ _) = None"

definition u64_of :: "json option \<Rightarrow> u64 option" where
  "u64_of v = (case v of
     Some (JNumber n) \<Rightarrow> as_u64 n
   | Some (JString s) \<Rightarrow> (case decode_u64 s of Inl _ \<Rightarrow> None | Inr x \<Rightarrow> Some x)
   | _ \<Rightarrow> None)"

definition nonempty_str :: "json option \<Rightarrow> string option" where
  "nonempty_str v = (case Option.bind v as_str of
     Some s \<Rightarrow> if trim_empty s then None else Some s
   | None \<Rightarrow> None)"

subsection \<open>Remote profiles\<close>

datatype url_host = HostDomain string | HostIpv4 u32 | HostIpv6 u128

record parsed_url =
  pu_scheme :: string
  pu_host :: "url_host option"
  pu_username :: string
  pu_password :: "string option"
  pu_query :: "string option"
  pu_fragment :: "string option"

definition url_is_local :: "parsed_url \<Rightarrow> bool" where
  "url_is_local url = (case pu_host url of
     Some (HostDomain d) \<Rightarrow> d = ''localhost''
   | Some (HostIpv4 ip) \<Rightarrow> drop_bit 24 ip = 127
   | Some (HostIpv6 ip) \<Rightarrow> ip = 1
   | None \<Rightarrow> False)"

definition validate_endpoint :: "(string \<Rightarrow> parsed_url option) \<Rightarrow> string \<Rightarrow> (team_error, unit) result" where
  "validate_endpoint parse_url raw =
     and_then (ok_or (parse_url raw) TeSecretRefInvalid)
       (\<lambda>url. refuse
          (pu_host url = None
           \<or> \<not> (pu_scheme url = ''https'' \<or> pu_scheme url = ''http'' \<and> url_is_local url)
           \<or> pu_username url \<noteq> [] \<or> pu_password url \<noteq> None \<or> pu_query url \<noteq> None \<or> pu_fragment url \<noteq> None)
          TeSecretRefInvalid)"

definition safe_endpoint :: "(string \<Rightarrow> parsed_url option) \<Rightarrow> string \<Rightarrow> string" where
  "safe_endpoint parse_url raw =
     (if \<not> is_ok (validate_endpoint parse_url raw) then ''[invalid endpoint]'' else raw)"

definition valid_env_ref :: "string \<Rightarrow> bool" where
  "valid_env_ref name =
     (case name of
        [] \<Rightarrow> False
      | c # rest \<Rightarrow> (is_ascii_uppercase c \<or> c = CHR ''_'')
          \<and> list_all (\<lambda>c. is_ascii_uppercase c \<or> is_ascii_digit c \<or> c = CHR ''_'') rest
          \<and> \<not> sublist ''SECRET_VALUE'' name)"

definition remote_validate :: "(string \<Rightarrow> parsed_url option) \<Rightarrow> remote_profile \<Rightarrow> (team_error, unit) result" where
  "remote_validate parse_url p =
     run_checks
       [refuse (rm_protocol_version p \<noteq> PROTOCOL_VERSION) TeProtocolUnsupported,
        refuse (trim_empty (rm_project_key p)) TeProjectRequired,
        refuse (\<not> valid_env_ref (rm_credential_env p)) TeSecretRefInvalid,
        validate_endpoint parse_url (rm_endpoint p)]"

definition remote_redacted :: "(string \<Rightarrow> parsed_url option) \<Rightarrow> remote_profile \<Rightarrow> json" where
  "remote_redacted parse_url p = JObject
     [(''name'', JString (rm_name p)), (''endpoint'', JString (safe_endpoint parse_url (rm_endpoint p))),
      (''project_key'', JString (rm_project_key p)), (''credential_env'', JString (rm_credential_env p)),
      (''protocol_version'', JNumber (JInt (uint (rm_protocol_version p))))]"

subsection \<open>Parsing\<close>

definition allowed_args :: "operation \<Rightarrow> string list" where
  "allowed_args op = (case op of
     OpCapabilities \<Rightarrow> []
   | OpClaim \<Rightarrow> [''work_id'', ''scope_id'', ''session_id'', ''expected_work_version'', ''expected_contract_hash''])"

definition check_claim_args :: "(string \<times> json) list \<Rightarrow> (team_error, unit) result" where
  "check_claim_args args =
     run_checks
       (map (\<lambda>key. refuse (nonempty_str (map_of args key) = None)
            (TeInvalidInput (key @ '' must be a nonempty string'')))
          [''work_id'', ''scope_id'', ''session_id'', ''expected_contract_hash'']
        @ [refuse (u64_of (map_of args ''expected_work_version'') = None)
             (TeInvalidInput ''expected_work_version must be an unsigned integer or canonical decimal string'')])"

definition parse_envelope :: "json \<Rightarrow> (team_error, envelope) result" where
  "parse_envelope raw =
     then_ok (refuse (\<not> is_object raw) (TeInvalidInput ''envelope must be an object''))
      (and_then (ok_or (u64_of (json_get raw ''protocol_version'')) TeProtocolUnsupported) (\<lambda>version.
       then_ok (run_checks
           [refuse (unat version \<ge> 2 ^ 32) TeProtocolUnsupported,
            refuse (ucast version \<noteq> PROTOCOL_VERSION) TeProtocolUnsupported])
        (and_then (ok_or (nonempty_str (json_get raw ''request_id'')) (TeMissingRequiredField ''request_id'')) (\<lambda>request_id.
         and_then (ok_or (nonempty_str (json_get raw ''op'')) (TeMissingRequiredField ''op'')) (\<lambda>op.
         and_then (operation_parse op) (\<lambda>operation.
         and_then (case json_get raw ''args'' of
              None \<Rightarrow> Inr []
            | Some (JObject es) \<Rightarrow> Inr es
            | Some _ \<Rightarrow> Inl (TeInvalidInput ''args must be an object'')) (\<lambda>args.
         then_ok (run_checks
             [run_checks (map (\<lambda>(key, _). refuse (key \<notin> set (allowed_args operation)) (TeUnknownRequiredField key)) args),
              (if operation = OpClaim then check_claim_args args else Inr ())])
           (Inr \<lparr>en_protocol_version = ucast version, en_request_id = request_id, en_op = op, en_raw = raw\<rparr>))))))))"

subsection \<open>Execution\<close>

definition context_fields :: "auth_context \<Rightarrow> (string \<times> string) list" where
  "context_fields auth =
     [(''tenant_id'', ac_tenant_id auth), (''project_id'', ac_project_id auth),
      (''actor_id'', ac_actor_id auth), (''client_id'', ac_client_id auth)]"

definition access_authorize :: "auth_context \<Rightarrow> json \<Rightarrow> (team_error, unit) result" where
  "access_authorize auth body =
     run_checks
       [refuse (trim_empty (ac_project_id auth)) TeProjectRequired,
        refuse (list_ex trim_empty [ac_tenant_id auth, ac_actor_id auth, ac_client_id auth]) TeAuthProjectMismatch,
        refuse (\<not> is_object body) (TeInvalidInput ''envelope must be an object''),
        run_checks (concat (map
          (\<lambda>value. map
             (\<lambda>(key, expected). check_some
                (\<lambda>actual. refuse (as_str actual \<noteq> Some expected) TeAuthProjectMismatch) (json_get value key))
             (context_fields auth))
          (body # (case json_get body ''args'' of None \<Rightarrow> [] | Some args \<Rightarrow> [args]))))]"

definition validate_only :: "string \<Rightarrow> envelope \<Rightarrow> auth_context \<Rightarrow> (team_error, json) result" where
  "validate_only surface e auth =
     then_ok
       (run_checks
         [refuse (surface \<notin> set SURFACES \<or> en_protocol_version e \<noteq> PROTOCOL_VERSION) TeProtocolUnsupported,
          access_authorize auth (en_raw e)])
       (Inr (JObject
         [(''validation_only'', JBool True), (''submitted'', JBool False), (''authenticated'', JBool False),
          (''surface'', JString surface), (''op'', JString (en_op e)), (''request_id'', JString (en_request_id e)),
          (''context'', JObject (map (\<lambda>(k, v). (k, JString v)) (context_fields auth)))]))"

definition capabilities_json :: "string \<Rightarrow> auth_context \<Rightarrow> (string \<times> json) list" where
  "capabilities_json surface auth =
     [(''local'', JBool True), (''submitted'', JBool False), (''command_transport'', JBool False),
      (''protocol'', JString PROTOCOL), (''protocol_version'', JNumber (JInt (uint PROTOCOL_VERSION))),
      (''authority_model'', JString ''approved-source-snapshot''),
      (''runtime_state_authority'', JString ''server''), (''offline_mutations'', JBool False),
      (''arbitrary_external_exactly_once'', JBool False), (''surface'', JString surface),
      (''project_id'', JString (ac_project_id auth))]"

definition execute ::
  "(string \<Rightarrow> parsed_url option) \<Rightarrow> string \<Rightarrow> envelope \<Rightarrow> auth_context \<Rightarrow> remote_profile option \<Rightarrow> bool \<Rightarrow>
     (team_error, json) result" where
  "execute parse_url surface e auth remote online =
     then_ok
       (run_checks
         [refuse (surface \<notin> set SURFACES) TeProtocolUnsupported,
          refuse (en_protocol_version e \<noteq> PROTOCOL_VERSION) TeProtocolUnsupported])
       (and_then (operation_parse (en_op e)) (\<lambda>operation.
          let write = operation_writes operation in
          then_ok
            (run_checks
              [(case remote of
                  None \<Rightarrow> refuse (write \<or> en_op e \<noteq> ''capabilities'') TeOfflineWriteForbidden
                | Some profile \<Rightarrow> remote_validate parse_url profile),
               refuse (write \<and> \<not> online) TeOfflineWriteForbidden])
            (if en_op e = ''capabilities'' then
               then_ok
                 (if ac_project_id auth \<noteq> [] then access_authorize auth (en_raw e)
                  else refuse (list_ex (\<lambda>(k, _). json_get (en_raw e) k \<noteq> None) (context_fields auth))
                    TeAuthProjectMismatch)
                 (Inr (JObject (capabilities_json surface auth)))
             else and_then (validate_only surface e auth) (\<lambda>_. Inl TeUnsupported))))"

definition without_surface :: "json \<Rightarrow> json" where
  "without_surface v = (case v of JObject es \<Rightarrow> JObject (filter (\<lambda>(k, _). k \<noteq> ''surface'') es) | _ \<Rightarrow> v)"

definition same_error_on_all_surfaces ::
  "(string \<Rightarrow> parsed_url option) \<Rightarrow> envelope \<Rightarrow> auth_context \<Rightarrow> remote_profile option \<Rightarrow> bool \<Rightarrow>
     (team_error, unit) result" where
  "same_error_on_all_surfaces parse_url e auth remote online =
     (let first = execute parse_url ''http'' e auth remote online in
      then_ok
        (run_checks (map (\<lambda>surface.
           refuse
             (\<not> (case (first, execute parse_url surface e auth remote online) of
                   (Inr a, Inr b) \<Rightarrow> without_surface a = without_surface b
                 | (Inl a, Inl b) \<Rightarrow> a = b
                 | _ \<Rightarrow> False))
             (TeInvalidContract ''surfaces diverged'')) SURFACES))
        (map_sum id (\<lambda>_. ()) first))"

section \<open>Laws\<close>

lemma digits_value_snoc [simp]: "digits_value (s @ [c]) = digits_value s * 10 + (byte c - 48)"
  by (simp add: digits_value_def)

lemma digit_byte [simp]: "d < 10 \<Longrightarrow> byte (char_of (48 + d) :: char) = (48 + d :: nat)"
  by simp

lemma digits_value_show [simp]: "digits_value (show_nat n) = n"
proof (induction n rule: show_nat.induct)
  case (1 n)
  show ?case
  proof (cases "n < 10")
    case True
    then show ?thesis by (simp add: show_nat.simps[of n] digits_value_def)
  next
    case False
    with 1 show ?thesis by (simp add: show_nat.simps[of n])
  qed
qed

lemma zero_char: "(char_of (48 :: nat) :: char) = CHR ''0''"
  by code_simp

lemma show_nat_digits: "list_all is_ascii_digit (show_nat n) \<and> show_nat n \<noteq> []"
proof (induction n rule: show_nat.induct)
  case (1 n)
  show ?case
  proof (cases "n < 10")
    case True
    then show ?thesis by (simp add: show_nat.simps[of n] is_ascii_digit_def)
  next
    case False
    have "n mod 10 \<le> 9" by simp
    with 1 False show ?thesis by (simp add: show_nat.simps[of n] is_ascii_digit_def)
  qed
qed

lemma show_nat_snoc: "0 < n \<Longrightarrow> d < 10 \<Longrightarrow> show_nat (n * 10 + d) = show_nat n @ [char_of (48 + d)]"
  by (subst show_nat.simps) simp

lemma show_nat_head: "0 < n \<Longrightarrow> hd (show_nat n) \<noteq> CHR ''0''"
proof (induction n rule: show_nat.induct)
  case (1 n)
  show ?case
  proof (cases "n < 10")
    case True
    then have "byte (hd (show_nat n)) = 48 + n" by (simp add: show_nat.simps[of n])
    moreover have "byte (CHR ''0'') = 48" by simp
    ultimately show ?thesis using 1(2) by (metis add_cancel_left_right less_irrefl)
  next
    case False
    with 1 show_nat_digits[of "n div 10"] show ?thesis by (simp add: show_nat.simps[of n] hd_append)
  qed
qed

text \<open>The canonical texts: digits without a leading zero.\<close>

definition canonical_digits :: "string \<Rightarrow> bool" where
  "canonical_digits s \<longleftrightarrow> s \<noteq> [] \<and> list_all is_ascii_digit s \<and> \<not> (length s > 1 \<and> hd s = CHR ''0'')"

lemma canonical_show: "canonical_digits (show_nat n)"
proof (cases "n = 0")
  case True
  then show ?thesis by (simp add: canonical_digits_def show_nat.simps[of 0] is_ascii_digit_def)
next
  case False
  then show ?thesis using show_nat_head[of n] show_nat_digits[of n] by (simp add: canonical_digits_def)
qed

lemma show_canonical: "canonical_digits s \<Longrightarrow> show_nat (digits_value s) = s \<and> (length s > 1 \<longrightarrow> digits_value s \<ge> 10)"
proof (induction s rule: rev_induct)
  case Nil
  then show ?case by (simp add: canonical_digits_def)
next
  case (snoc c s)
  have c: "48 \<le> byte c" "byte c \<le> 57" using snoc.prems by (auto simp: canonical_digits_def is_ascii_digit_def)
  then have chr: "char_of (48 + (byte c - 48)) = c" by simp
  show ?case
  proof (cases "s = []")
    case True
    have "byte c - 48 < 10" using c by simp
    with True chr show ?thesis by (simp add: show_nat.simps[of "byte c - 48"] digits_value_def)
  next
    case False
    then have s: "canonical_digits s" "hd s \<noteq> CHR ''0''"
      using snoc.prems by (auto simp: canonical_digits_def)
    have pos: "0 < digits_value s"
    proof (rule ccontr)
      assume "\<not> 0 < digits_value s"
      then have zero: "digits_value s = 0" by simp
      with snoc.IH[OF s(1)] have "s = show_nat 0" by simp
      then show False using s(2) zero_char by (simp add: show_nat.simps[of 0])
    qed
  have "show_nat (digits_value s * 10 + (byte c - 48)) = s @ [c]"
      using snoc.IH[OF s(1)] show_nat_snoc[OF pos, of "byte c - 48"] c chr by simp
    moreover have "digits_value s * 10 + (byte c - 48) \<ge> 10" using pos by simp
    ultimately show ?thesis by simp
  qed
qed

section \<open>Properties\<close>

text \<open>
  Counters travel as text without loss and in one spelling only: a text decodes to a value exactly
  when it is the encoding of that value. Leading zeros, signs, blanks and numbers beyond 64 bits are
  all refused.
\<close>
theorem u64_text_round_trip:
  "decode_u64 s = Inr v \<longleftrightarrow> s = encode_u64 v"
proof
  assume "decode_u64 s = Inr v"
  then have "canonical_digits s" and v: "v = of_nat (digits_value s)" "digits_value s < 2 ^ 64"
    by (auto simp: decode_u64_def canonical_digits_def)
  with show_canonical have "show_nat (digits_value s) = s" by blast
  moreover have "unat v = digits_value s" using v by (simp add: unat_of_nat take_bit_nat_eq_self)
  ultimately show "s = encode_u64 v" by (simp add: encode_u64_def)
next
  assume s: "s = encode_u64 v"
  then have "digits_value s = unat v" "canonical_digits s" by (simp_all add: encode_u64_def canonical_show)
  then show "decode_u64 s = Inr v" using unsigned_less[of v, where 'a = nat]
    by (simp add: decode_u64_def canonical_digits_def)
qed

text \<open>
  Work counts as currently verified exactly when there is a receipt for the current contract, every
  dependency is valid, accessible evidence that is more than the agent's own report covers that
  contract, and a required review is approved, by someone other than the author unless the policy
  allows self-approval. A declaration in the source never suffices.
\<close>
theorem currently_verified_iff:
  "current_completion declared receipt receipt_hash current deps bundle review = CvCurrentlyVerified \<longleftrightarrow>
     receipt \<and> receipt_hash = Some current \<and> deps
     \<and> (\<exists>b. bundle = Some b \<and> eb_contract_hash b = current \<and> eb_accessible b \<and> eb_grade b \<noteq> EgAgentSelfReport)
     \<and> (\<not> rp_required review
         \<or> rp_approved review \<and> (rp_author_may_self_approve review \<or> \<not> rp_reviewer_is_author review))"
  by (auto simp: current_completion_def split: option.splits if_splits)


text \<open>A request that passes can only repeat the authenticated context, at the top and in its arguments.\<close>

definition repeats_context :: "auth_context \<Rightarrow> json \<Rightarrow> bool" where
  "repeats_context auth value \<longleftrightarrow>
     (\<forall>(k, expected)\<in>set (context_fields auth). json_get value k \<in> {None, Some (JString expected)})"

lemma access_authorize_ok:
  assumes "access_authorize auth body = Inr ()"
  shows "repeats_context auth body" and "json_get body ''args'' = Some args \<Longrightarrow> repeats_context auth args"
    and "\<not> trim_empty (ac_project_id auth)"
proof -
  have *: "check_some (\<lambda>actual. refuse (actual \<noteq> JString x) err) v = Inr () \<longleftrightarrow> v \<in> {None, Some (JString x)}"
    for x err v by (cases v) auto
  show "repeats_context auth body" "\<not> trim_empty (ac_project_id auth)"
    using assms unfolding access_authorize_def repeats_context_def context_fields_def
    by (auto simp: * simp del: check_some_ok split: option.splits)
  assume "json_get body ''args'' = Some args"
  with assms show "repeats_context auth args"
    unfolding access_authorize_def repeats_context_def context_fields_def
    by (auto simp: * simp del: check_some_ok split: option.splits)
qed

lemma without_surface_capabilities:
  "without_surface (JObject (capabilities_json s auth)) = without_surface (JObject (capabilities_json t auth))"
  by (simp add: without_surface_def capabilities_json_def)

text \<open>On a known surface the outcome of a request depends on the surface only through its name.\<close>

lemma execute_ok:
  assumes "execute parse_url surface e auth remote online = Inr v"
  shows "en_op e = ''capabilities''" and "v = JObject (capabilities_json surface auth)"
    and "ac_project_id auth \<noteq> [] \<Longrightarrow> access_authorize auth (en_raw e) = Inr ()"
  using assms by (auto simp: execute_def Let_def split: if_splits)

lemma execute_surface_ok:
  assumes "surface \<in> set SURFACES" and "surface' \<in> set SURFACES"
    and "execute parse_url surface e auth remote online = Inr v"
  shows "execute parse_url surface' e auth remote online = Inr (JObject (capabilities_json surface' auth))"
  using assms execute_ok(1,3)[OF assms(3)] by (auto simp: execute_def Let_def split: if_splits)

lemma execute_surface_err:
  assumes "surface \<in> set SURFACES" and "surface' \<in> set SURFACES"
    and "execute parse_url surface e auth remote online = Inl err"
  shows "execute parse_url surface' e auth remote online = Inl err"
  using assms by (auto simp: execute_def validate_only_def Let_def split: if_splits)

text \<open>
  Entry requests are read-only and the surfaces agree. The comparison of the three surfaces never
  reports a divergence: its outcome is that of any one of them. A request succeeds only when it asks for
  the capabilities; the answer says that nothing was submitted; and where a project is authenticated the
  request names no tenant, project, actor or client but the authenticated ones, at its top or in its
  arguments.
\<close>
theorem surfaces_agree_and_never_submit:
  assumes "surface \<in> set SURFACES"
  shows "same_error_on_all_surfaces parse_url e auth remote online
           = map_sum id (\<lambda>_. ()) (execute parse_url surface e auth remote online)
     \<and> (\<forall>v. execute parse_url surface e auth remote online = Inr v \<longrightarrow>
          en_op e = ''capabilities'' \<and> json_get v ''submitted'' = Some (JBool False)
          \<and> (ac_project_id auth \<noteq> [] \<longrightarrow> repeats_context auth (en_raw e)
               \<and> (\<forall>args. json_get (en_raw e) ''args'' = Some args \<longrightarrow> repeats_context auth args)))"
proof
  have http: "''http'' \<in> set SURFACES" by (simp add: SURFACES_def)
  show "same_error_on_all_surfaces parse_url e auth remote online
      = map_sum id (\<lambda>_. ()) (execute parse_url surface e auth remote online)"
  proof (cases "execute parse_url ''http'' e auth remote online")
    case (Inl err)
    then have "execute parse_url s e auth remote online = Inl err" if "s \<in> set SURFACES" for s
      using execute_surface_err[OF http that] by blast
    with assms Inl show ?thesis by (simp add: same_error_on_all_surfaces_def then_ok_def SURFACES_def run_checks.simps refuse_def)
  next
    case (Inr v)
    then have all: "execute parse_url s e auth remote online = Inr (JObject (capabilities_json s auth))"
      if "s \<in> set SURFACES" for s
      using execute_surface_ok[OF http that] by blast
    have "run_checks (map (\<lambda>s. refuse (\<not> (case (Inr v, execute parse_url s e auth remote online) of
                   (Inr a, Inr b) \<Rightarrow> without_surface a = without_surface b
                 | (Inl a, Inl b) \<Rightarrow> a = b
                 | _ \<Rightarrow> False)) err) SURFACES) = Inr ()" for err
      using all all[OF http] Inr without_surface_capabilities by auto
    from this[of "TeInvalidContract ''surfaces diverged''"] show ?thesis
      unfolding same_error_on_all_surfaces_def Let_def Inr all[OF assms]
      by (simp del: run_checks_map_ok)
  qed
  show "\<forall>v. execute parse_url surface e auth remote online = Inr v \<longrightarrow>
          en_op e = ''capabilities'' \<and> json_get v ''submitted'' = Some (JBool False)
          \<and> (ac_project_id auth \<noteq> [] \<longrightarrow> repeats_context auth (en_raw e)
               \<and> (\<forall>args. json_get (en_raw e) ''args'' = Some args \<longrightarrow> repeats_context auth args))"
  proof (intro allI impI)
    fix v
    assume run: "execute parse_url surface e auth remote online = Inr v"
    have "json_get v ''submitted'' = Some (JBool False)"
      unfolding execute_ok(2)[OF run] by (simp add: json_get_def capabilities_json_def)
    with execute_ok(1,3)[OF run] access_authorize_ok(1,2)
    show "en_op e = ''capabilities'' \<and> json_get v ''submitted'' = Some (JBool False)
          \<and> (ac_project_id auth \<noteq> [] \<longrightarrow> repeats_context auth (en_raw e)
               \<and> (\<forall>args. json_get (en_raw e) ''args'' = Some args \<longrightarrow> repeats_context auth args))" by blast
  qed
qed

definition ex_envelope :: envelope where
  "ex_envelope = \<lparr>en_protocol_version = 1, en_request_id = ''r1'', en_op = ''capabilities'',
     en_raw = JObject [(''project_id'', JString ''p1'')]\<rparr>"

definition ex_auth :: auth_context where
  "ex_auth = \<lparr>ac_tenant_id = ''t'', ac_project_id = ''p1'', ac_actor_id = ''a'', ac_client_id = ''c''\<rparr>"

theorem surfaces_agree_and_never_submit_witness:
  "same_error_on_all_surfaces (\<lambda>_. None) ex_envelope ex_auth None False = Inr ()
   \<and> repeats_context ex_auth (en_raw ex_envelope)"
proof -
  have mem: "''mcp'' \<in> set SURFACES" by (simp add: SURFACES_def)
  have "is_ok (execute (\<lambda>_. None) ''mcp'' ex_envelope ex_auth None False)" by code_simp
  then obtain v where run: "execute (\<lambda>_. None) ''mcp'' ex_envelope ex_auth None False = Inr v" by (auto simp: is_ok_iff)
  with surfaces_agree_and_never_submit[OF mem, of "\<lambda>_. None" ex_envelope ex_auth None False]
  show ?thesis by (simp add: ex_auth_def)
qed

end
