(* ===== verification/Team_Delivery.thy ===== *)
theory Team_Delivery
  imports Team_Access
begin

text \<open>
  \<^verbatim>\<open>crates/awr-team/src/delivery.rs\<close> and its modules \<^verbatim>\<open>binding.rs\<close>, \<^verbatim>\<open>content.rs\<close>, \<^verbatim>\<open>records.rs\<close> and
  \<^verbatim>\<open>legacy.rs\<close>: the provider-neutral delivery records, all bound to one candidate, and the proof that an
  observed integration carries the candidate's content. The typed JSON codec belongs to \<^verbatim>\<open>serde\<close>: its
  decoder and the length of its output are the arguments \<open>from_slice\<close> and \<open>encoded_len\<close>.
\<close>

section \<open>Bindings\<close>

definition record_text :: "string \<Rightarrow> nat \<Rightarrow> string \<Rightarrow> (team_error, unit) result" where
  "record_text value limit field =
     refuse (trim_empty value \<or> length value > limit \<or> has_control value)
       (TeInvalidInput (''invalid delivery '' @ field))"

definition is_sha256_hash :: "string \<Rightarrow> bool" where
  "is_sha256_hash value \<longleftrightarrow> length value = 64 \<and> list_all is_ascii_hexdigit value"

definition record_digest :: "string \<Rightarrow> string \<Rightarrow> (team_error, unit) result" where
  "record_digest value field =
     refuse (\<not> is_sha256_hash value \<or> \<not> list_all is_lower_hex value)
       (TeInvalidInput (''invalid delivery '' @ field))"

definition record_names :: "string list \<Rightarrow> string \<Rightarrow> (team_error, unit) result" where
  "record_names values field =
     then_ok (refuse (length values > 64) (TeInvalidInput (''too many delivery '' @ field)))
       (map_sum id (\<lambda>_. ())
         (try_fold (\<lambda>unique value. then_ok (record_text value 128 field)
            (insert_new (TeInvalidInput (''duplicate delivery '' @ field)) unique value)) {} values))"

datatype revision_format = GitSha1 | GitSha256 | Artifact

record revision_ref =
  rv_resource :: string
  rv_format :: revision_format
  rv_value :: string

definition revision_validate :: "revision_ref \<Rightarrow> (team_error, unit) result" where
  "revision_validate r =
     then_ok (record_text (rv_resource r) 1024 ''revision resource'')
       (case rv_format r of
          Artifact \<Rightarrow> record_text (rv_value r) 128 ''artifact revision''
        | fmt \<Rightarrow> refuse (length (rv_value r) \<noteq> (if fmt = GitSha1 then 40 else 64)
             \<or> \<not> list_all is_lower_hex (rv_value r)) (TeInvalidInput ''invalid delivery Git revision''))"

datatype target_precondition = Missing | Exact revision_ref

record delivery_target =
  tg_resource :: string
  tg_reference :: "string option"
  tg_precondition :: target_precondition

definition target_validate :: "delivery_target \<Rightarrow> (team_error, unit) result" where
  "target_validate t =
     run_checks
       [record_text (tg_resource t) 1024 ''target resource'',
        check_some (\<lambda>reference. record_text reference 1024 ''target reference'') (tg_reference t),
        (case tg_precondition t of
           Missing \<Rightarrow> Inr ()
         | Exact revision \<Rightarrow> run_checks
             [revision_validate revision,
              refuse (rv_resource revision \<noteq> tg_resource t) (TeInvalidInput ''target revision resource mismatch'')])]"

record artifact_entry =
  ae_artifact_id :: string
  ae_sha256 :: string
  ae_byte_length :: string
  ae_locator :: string

definition artifact_validate :: "artifact_entry \<Rightarrow> (team_error, unit) result" where
  "artifact_validate e =
     run_checks
       [record_text (ae_artifact_id e) 128 ''artifact identity'',
        record_digest (ae_sha256 e) ''artifact digest'',
        refuse (\<not> is_ok (decode_u64 (ae_byte_length e))) (TeInvalidInput ''invalid delivery artifact byte length''),
        record_text (ae_locator e) 4096 ''artifact locator'']"

type_synonym artifact_manifest = "artifact_entry list"

definition manifest_validate :: "artifact_manifest \<Rightarrow> (team_error, unit) result" where
  "manifest_validate m =
     then_ok (refuse (m = [] \<or> length m > 128) (TeInvalidInput ''invalid delivery manifest size''))
       (map_sum id (\<lambda>_. ())
         (try_fold (\<lambda>ids entry. then_ok (artifact_validate entry)
            (insert_new (TeInvalidInput ''duplicate delivery artifact identity'') ids (ae_artifact_id entry))) {} m))"

definition artifact_json :: "artifact_entry \<Rightarrow> json" where
  "artifact_json e = JObject
     [(''artifact_id'', JString (ae_artifact_id e)), (''sha256'', JString (ae_sha256 e)),
      (''byte_length'', JString (ae_byte_length e)), (''locator'', JString (ae_locator e))]"

definition manifest_json :: "artifact_manifest \<Rightarrow> json" where
  "manifest_json m = JObject
     [(''codec'', JString ''awr-delivery-manifest-v1''),
      (''manifest'', JObject [(''entries'', JArray (map artifact_json m))])]"

definition manifest_digest :: "(json \<Rightarrow> string) \<Rightarrow> artifact_manifest \<Rightarrow> (team_error, string) result" where
  "manifest_digest digest m = then_ok (manifest_validate m) (request_hash digest (manifest_json m))"

record candidate_binding =
  cb_tenant_id :: string
  cb_project_id :: string
  cb_scope_id :: string
  cb_workstream_id :: string
  cb_work_id :: string
  cb_candidate_id :: string
  cb_candidate_version :: string
  cb_contract_hash :: string
  cb_manifest_digest :: string
  cb_source_revision :: "revision_ref option"
  cb_required_checks :: "string list"
  cb_target :: delivery_target

definition binding_validate :: "candidate_binding \<Rightarrow> (team_error, unit) result" where
  "binding_validate b =
     run_checks
       (map (\<lambda>i. record_text i 128 ''binding identity'')
          [cb_tenant_id b, cb_project_id b, cb_scope_id b, cb_work_id b, cb_candidate_id b]
        @ [record_text (cb_workstream_id b) 128 ''binding workstream'',
           (case decode_u64 (cb_candidate_version b) of
              Inl _ \<Rightarrow> Inl (TeInvalidInput ''invalid delivery candidate version'')
            | Inr v \<Rightarrow> refuse (v = 0) (TeInvalidInput ''delivery candidate version must be positive'')),
           record_digest (cb_contract_hash b) ''contract hash'',
           record_digest (cb_manifest_digest b) ''manifest digest'',
           check_some revision_validate (cb_source_revision b),
           record_names (cb_required_checks b) ''required checks'',
           target_validate (cb_target b)])"

fun revision_format_json :: "revision_format \<Rightarrow> json" where
  "revision_format_json GitSha1 = JString ''git_sha1''"
| "revision_format_json GitSha256 = JString ''git_sha256''"
| "revision_format_json Artifact = JString ''artifact''"

definition revision_json :: "revision_ref \<Rightarrow> json" where
  "revision_json r = JObject [(''resource'', JString (rv_resource r)), (''format'', revision_format_json (rv_format r)),
     (''value'', JString (rv_value r))]"

fun precondition_json :: "target_precondition \<Rightarrow> json" where
  "precondition_json Missing = JObject [(''kind'', JString ''missing'')]"
| "precondition_json (Exact r) = JObject [(''kind'', JString ''exact''), (''revision'', revision_json r)]"

definition nullable :: "('a \<Rightarrow> json) \<Rightarrow> 'a option \<Rightarrow> json" where
  "nullable f x = (case x of None \<Rightarrow> JNull | Some v \<Rightarrow> f v)"

definition target_json :: "delivery_target \<Rightarrow> json" where
  "target_json t = JObject [(''resource'', JString (tg_resource t)), (''reference'', nullable JString (tg_reference t)),
     (''precondition'', precondition_json (tg_precondition t))]"

definition binding_json :: "candidate_binding \<Rightarrow> json" where
  "binding_json b = JObject
     [(''codec'', JString ''awr-delivery-binding-v1''),
      (''binding'', JObject
        [(''tenant_id'', JString (cb_tenant_id b)), (''project_id'', JString (cb_project_id b)),
         (''scope_id'', JString (cb_scope_id b)), (''workstream_id'', JString (cb_workstream_id b)),
         (''work_id'', JString (cb_work_id b)), (''candidate_id'', JString (cb_candidate_id b)),
         (''candidate_version'', JString (cb_candidate_version b)), (''contract_hash'', JString (cb_contract_hash b)),
         (''manifest_digest'', JString (cb_manifest_digest b)),
         (''source_revision'', nullable revision_json (cb_source_revision b)),
         (''required_checks'', json_strings (cb_required_checks b)), (''target'', target_json (cb_target b))])]"

definition binding_digest :: "(json \<Rightarrow> string) \<Rightarrow> candidate_binding \<Rightarrow> (team_error, string) result" where
  "binding_digest digest b = then_ok (binding_validate b) (request_hash digest (binding_json b))"

definition require_same_candidate :: "candidate_binding \<Rightarrow> candidate_binding \<Rightarrow> (team_error, unit) result" where
  "require_same_candidate expected observed =
     run_checks
       [binding_validate expected, binding_validate observed,
        refuse (expected \<noteq> observed) (TeInvalidInput ''delivery candidate binding changed; reevaluate'')]"

section \<open>Records\<close>

datatype fact_source = CallerDeclared | OperatorRecorded | AdapterObservation

record fact_provenance =
  fp_source :: fact_source
  fp_reference :: string
  fp_observed_at_unix_ms :: "u64 option"
  fp_recorded_at_unix_ms :: u64

definition provenance_validate :: "fact_provenance \<Rightarrow> (team_error, unit) result" where
  "provenance_validate p =
     then_ok (record_text (fp_reference p) 4096 ''fact reference'')
       (run_checks (map (\<lambda>time. refuse (time = 0 \<or> time > 9007199254740991)
            (TeInvalidInput ''invalid delivery observation time''))
          ((case fp_observed_at_unix_ms p of None \<Rightarrow> [] | Some t \<Rightarrow> [t]) @ [fp_recorded_at_unix_ms p])))"

record delivery_candidate =
  dd_binding :: candidate_binding
  dd_manifest :: artifact_manifest

record change_request =
  cq_binding :: candidate_binding
  cq_provider :: string
  cq_resource_id :: string
  cq_locator :: "string option"
  cq_provenance :: fact_provenance

datatype verification_outcome = VoRunning | VoPassed | VoFailed | VoUnknown

record verification_run =
  vr_binding :: candidate_binding
  vr_run_id :: string
  vr_check :: string
  vr_outcome :: verification_outcome
  vr_result_artifact :: "artifact_entry option"
  vr_provenance :: fact_provenance

datatype review_outcome = RoApproved | RoReturned

record review_decision =
  rd_binding :: candidate_binding
  rd_round_id :: string
  rd_decision_id :: string
  rd_evidence_bundle_digest :: string
  rd_reviewer_actor_id :: string
  rd_outcome :: review_outcome

datatype integration_operation = FastForward | Merge | ApplyArtifacts

record verification_ref =
  vf_check :: string
  vf_run_id :: string

record integration_request =
  iq_binding :: candidate_binding
  iq_request_id :: string
  iq_operation :: integration_operation
  iq_review_round_id :: string
  iq_review_decision_id :: string
  iq_verified_checks :: "verification_ref list"

datatype integration_outcome = IoPending | IoApplied | IoRejected | IoUnknown

record integration_observation =
  io_binding :: candidate_binding
  io_request_id :: "string option"
  io_external_reference :: string
  io_outcome :: integration_outcome
  io_result_revision :: "revision_ref option"
  io_contains_manifest_digest :: "string option"
  io_provenance :: fact_provenance

record adapter_capabilities =
  ap_adapter_id :: string
  ap_inspection :: bool
  ap_change_requests :: bool
  ap_verification :: bool
  ap_integration_requests :: bool
  ap_integration_observations :: bool
  ap_notifications :: bool
  ap_polling :: bool

section \<open>Content proofs\<close>

datatype snapshot_format = GitTreeSha1 | GitTreeSha256

record complete_snapshot =
  sp_resource :: string
  sp_format :: snapshot_format
  sp_value :: string

definition snapshot_revision_format :: "complete_snapshot \<Rightarrow> revision_format" where
  "snapshot_revision_format s = (case sp_format s of GitTreeSha1 \<Rightarrow> GitSha1 | GitTreeSha256 \<Rightarrow> GitSha256)"

definition snapshot_validate :: "complete_snapshot \<Rightarrow> (team_error, unit) result" where
  "snapshot_validate s =
     revision_validate \<lparr>rv_resource = sp_resource s, rv_format = snapshot_revision_format s, rv_value = sp_value s\<rparr>"

datatype unavailable_reason =
  NotObserved | HistoryUnavailable | ContentChanged | BaseChanged | TargetUnstable | UnsupportedProof

datatype content_witness =
    ExactRevision
  | MatchingCompleteSnapshots complete_snapshot complete_snapshot revision_ref
  | UnavailableWitness unavailable_reason

fun witness_kind :: "content_witness \<Rightarrow> string" where
  "witness_kind ExactRevision = ''exact_revision''"
| "witness_kind (MatchingCompleteSnapshots _ _ _) = ''matching_complete_snapshots''"
| "witness_kind (UnavailableWitness _) = ''unavailable''"

definition is_unavailable :: "content_witness \<Rightarrow> bool" where
  "is_unavailable w = (case w of UnavailableWitness _ \<Rightarrow> True | _ \<Rightarrow> False)"

record content_proof =
  cp_binding :: candidate_binding
  cp_request_id :: "string option"
  cp_observation_reference :: string
  cp_result_revision :: "revision_ref option"
  cp_witness :: content_witness
  cp_provenance :: fact_provenance

definition invalid_proof :: team_error where
  "invalid_proof = TeInvalidInput ''invalid complete integration content proof''"

definition witness_validate ::
  "candidate_binding \<Rightarrow> revision_ref \<Rightarrow> revision_ref \<Rightarrow> content_witness \<Rightarrow> (team_error, unit) result" where
  "witness_validate b source target_result w = (case w of
     ExactRevision \<Rightarrow> refuse (source \<noteq> target_result) invalid_proof
   | MatchingCompleteSnapshots source_snapshot result_snapshot retained_base \<Rightarrow>
       run_checks
         [snapshot_validate source_snapshot, snapshot_validate result_snapshot, revision_validate retained_base,
          refuse
            (source_snapshot \<noteq> result_snapshot \<or> sp_resource source_snapshot \<noteq> rv_resource source
             \<or> snapshot_revision_format source_snapshot \<noteq> rv_format source
             \<or> rv_format retained_base \<noteq> rv_format source
             \<or> tg_precondition (cb_target b) \<noteq> Exact retained_base) invalid_proof]
   | UnavailableWitness _ \<Rightarrow> Inl invalid_proof)"

definition proof_validate :: "content_proof \<Rightarrow> (team_error, unit) result" where
  "proof_validate p =
     then_ok
       (run_checks
         [binding_validate (cp_binding p),
          record_text (cp_observation_reference p) 4096 ''content observation reference'',
          check_some (\<lambda>request. record_text request 128 ''content proof request'') (cp_request_id p),
          provenance_validate (cp_provenance p),
          check_some (\<lambda>r. run_checks [revision_validate r,
              refuse (rv_resource r \<noteq> tg_resource (cb_target (cp_binding p))) invalid_proof]) (cp_result_revision p)])
       (if is_unavailable (cp_witness p) then Inr ()
        else and_then (ok_or (cb_source_revision (cp_binding p)) invalid_proof) (\<lambda>source.
             and_then (ok_or (cp_result_revision p) invalid_proof) (\<lambda>target_result.
               run_checks
                 [refuse (rv_format source \<notin> {GitSha1, GitSha256}
                          \<or> rv_resource source \<noteq> tg_resource (cb_target (cp_binding p))
                          \<or> rv_format target_result \<noteq> rv_format source) invalid_proof,
                  witness_validate (cp_binding p) source target_result (cp_witness p)])))"

definition proves_observation :: "content_proof \<Rightarrow> integration_observation \<Rightarrow> (team_error, bool) result" where
  "proves_observation p obs =
     then_ok
       (run_checks
         [proof_validate p,
          require_same_candidate (cp_binding p) (io_binding obs),
          refuse
            (cp_request_id p \<noteq> io_request_id obs
             \<or> cp_observation_reference p \<noteq> io_external_reference obs
             \<or> cp_result_revision p \<noteq> io_result_revision obs
             \<or> fp_source (cp_provenance p) \<noteq> AdapterObservation
             \<or> fp_source (io_provenance obs) \<noteq> AdapterObservation
             \<or> fp_reference (cp_provenance p) \<noteq> fp_reference (io_provenance obs)
             \<or> fp_observed_at_unix_ms (cp_provenance p) \<noteq> fp_observed_at_unix_ms (io_provenance obs)
             \<or> fp_recorded_at_unix_ms (cp_provenance p) \<noteq> fp_recorded_at_unix_ms (io_provenance obs))
            invalid_proof])
       (Inr (io_outcome obs = IoApplied \<and> \<not> is_unavailable (cp_witness p)))"

section \<open>Validation of records\<close>

datatype (plugins only: code size) delivery_record =
    DrCandidate delivery_candidate
  | DrChangeRequest change_request
  | DrVerification verification_run
  | DrReviewDecision review_decision
  | DrIntegrationRequest integration_request
  | DrIntegrationObservation integration_observation
  | DrIntegrationContentProof content_proof
  | DrAdapterCapabilities adapter_capabilities

definition record_binding :: "delivery_record \<Rightarrow> candidate_binding option" where
  "record_binding r = (case r of
     DrCandidate c \<Rightarrow> Some (dd_binding c)
   | DrChangeRequest c \<Rightarrow> Some (cq_binding c)
   | DrVerification v \<Rightarrow> Some (vr_binding v)
   | DrReviewDecision d \<Rightarrow> Some (rd_binding d)
   | DrIntegrationRequest q \<Rightarrow> Some (iq_binding q)
   | DrIntegrationObservation o' \<Rightarrow> Some (io_binding o')
   | DrIntegrationContentProof p \<Rightarrow> Some (cp_binding p)
   | DrAdapterCapabilities _ \<Rightarrow> None)"

definition candidate_record_validate ::
  "(json \<Rightarrow> string) \<Rightarrow> delivery_candidate \<Rightarrow> (team_error, unit) result" where
  "candidate_record_validate digest c =
     and_then (manifest_digest digest (dd_manifest c))
       (\<lambda>d. refuse (d \<noteq> cb_manifest_digest (dd_binding c)) (TeInvalidInput ''delivery manifest binding mismatch''))"

definition change_request_validate :: "change_request \<Rightarrow> (team_error, unit) result" where
  "change_request_validate c =
     run_checks
       [record_text (cq_provider c) 128 ''provider'',
        record_text (cq_resource_id c) 1024 ''change request resource'',
        check_some (\<lambda>l. record_text l 4096 ''change request locator'') (cq_locator c),
        provenance_validate (cq_provenance c)]"

definition verification_validate :: "verification_run \<Rightarrow> (team_error, unit) result" where
  "verification_validate v =
     run_checks
       [record_text (vr_run_id v) 128 ''verification run'',
        record_text (vr_check v) 128 ''verification check'',
        check_some artifact_validate (vr_result_artifact v),
        refuse (vr_outcome v = VoPassed \<and> vr_result_artifact v = None)
          (TeInvalidInput ''passed verification needs an inspectable result''),
        provenance_validate (vr_provenance v)]"

definition review_decision_validate :: "review_decision \<Rightarrow> (team_error, unit) result" where
  "review_decision_validate d =
     run_checks
       [record_text (rd_round_id d) 128 ''review round'',
        record_text (rd_decision_id d) 128 ''review decision'',
        record_text (rd_reviewer_actor_id d) 128 ''reviewer identity'',
        record_digest (rd_evidence_bundle_digest d) ''evidence bundle'']"

definition integration_request_validate :: "integration_request \<Rightarrow> (team_error, unit) result" where
  "integration_request_validate q =
     (let checks = map vf_check (iq_verified_checks q) in
      run_checks
        [record_text (iq_request_id q) 128 ''integration request'',
         record_text (iq_review_round_id q) 128 ''integration review round'',
         record_text (iq_review_decision_id q) 128 ''integration review decision'',
         record_names checks ''verification references'',
         refuse (set checks \<noteq> set (cb_required_checks (iq_binding q)))
           (TeInvalidInput ''integration verification set mismatch''),
         run_checks (map (\<lambda>reference. record_text (vf_run_id reference) 128 ''verification reference'')
           (iq_verified_checks q)),
         refuse (iq_operation q \<noteq> ApplyArtifacts
                 \<and> \<not> (case cb_source_revision (iq_binding q) of
                        Some revision \<Rightarrow> rv_format revision \<in> {GitSha1, GitSha256} | None \<Rightarrow> False))
           (TeInvalidInput ''Git integration needs a source Git revision'')])"

definition observation_validate :: "integration_observation \<Rightarrow> (team_error, unit) result" where
  "observation_validate obs =
     run_checks
       [record_text (io_external_reference obs) 4096 ''integration observation reference'',
        check_some (\<lambda>revision. run_checks [revision_validate revision,
            refuse (rv_resource revision \<noteq> tg_resource (cb_target (io_binding obs)))
              (TeInvalidInput ''integration result target mismatch'')]) (io_result_revision obs),
        check_some (\<lambda>value. run_checks [record_digest value ''integrated manifest'',
            refuse (value \<noteq> cb_manifest_digest (io_binding obs)) (TeInvalidInput ''integrated manifest mismatch'')])
          (io_contains_manifest_digest obs),
        refuse (io_outcome obs = IoApplied
                \<and> (io_result_revision obs = None \<or> io_contains_manifest_digest obs = None))
          (TeInvalidInput ''applied integration needs a target revision and manifest observation''),
        provenance_validate (io_provenance obs)]"

definition capabilities_validate :: "adapter_capabilities \<Rightarrow> (team_error, unit) result" where
  "capabilities_validate a =
     run_checks
       [record_text (ap_adapter_id a) 128 ''adapter identity'',
        refuse (ap_integration_requests a \<and> \<not> (ap_inspection a \<and> ap_integration_observations a))
          (TeInvalidInput ''integration adapter must support result inspection'')]"

definition record_validate :: "(json \<Rightarrow> string) \<Rightarrow> delivery_record \<Rightarrow> (team_error, unit) result" where
  "record_validate digest r =
     then_ok (check_some binding_validate (record_binding r))
       (case r of
          DrCandidate c \<Rightarrow> candidate_record_validate digest c
        | DrChangeRequest c \<Rightarrow> change_request_validate c
        | DrVerification v \<Rightarrow> verification_validate v
        | DrReviewDecision d \<Rightarrow> review_decision_validate d
        | DrIntegrationRequest q \<Rightarrow> integration_request_validate q
        | DrIntegrationObservation obs \<Rightarrow> observation_validate obs
        | DrIntegrationContentProof p \<Rightarrow> proof_validate p
        | DrAdapterCapabilities a \<Rightarrow> capabilities_validate a)"

definition record_validate_against ::
  "(json \<Rightarrow> string) \<Rightarrow> delivery_record \<Rightarrow> candidate_binding \<Rightarrow> (team_error, unit) result" where
  "record_validate_against digest r current =
     then_ok (record_validate digest r)
       (and_then (ok_or (record_binding r) TeUnsupported) (require_same_candidate current))"

definition DELIVERY_PROTOCOL :: string where "DELIVERY_PROTOCOL = ''awr-delivery''"
definition DELIVERY_PROTOCOL_VERSION :: u32 where "DELIVERY_PROTOCOL_VERSION = 1"
definition MAX_DELIVERY_RECORD_BYTES :: nat where "MAX_DELIVERY_RECORD_BYTES = 65536"

record delivery_envelope =
  de_protocol :: string
  de_protocol_version :: u32
  de_record :: delivery_record

definition envelope_validate ::
  "(json \<Rightarrow> string) \<Rightarrow> (delivery_envelope \<Rightarrow> nat option) \<Rightarrow> delivery_envelope \<Rightarrow> (team_error, unit) result" where
  "envelope_validate digest encoded_len e =
     then_ok
       (run_checks
         [refuse (de_protocol e \<noteq> DELIVERY_PROTOCOL \<or> de_protocol_version e \<noteq> DELIVERY_PROTOCOL_VERSION)
            TeProtocolUnsupported,
          record_validate digest (de_record e)])
       (and_then (ok_or (encoded_len e) (TeInvalidInput ''delivery encoding failed''))
         (\<lambda>n. refuse (n > MAX_DELIVERY_RECORD_BYTES) (TeInvalidInput ''delivery record is too large'')))"

definition parse_delivery_record ::
  "(json \<Rightarrow> string) \<Rightarrow> (delivery_envelope \<Rightarrow> nat option) \<Rightarrow> (string \<Rightarrow> delivery_envelope option) \<Rightarrow> string \<Rightarrow>
     (team_error, delivery_envelope) result" where
  "parse_delivery_record digest encoded_len from_slice bytes =
     then_ok (refuse (length bytes > MAX_DELIVERY_RECORD_BYTES) (TeInvalidInput ''delivery record is too large''))
       (and_then (ok_or (from_slice bytes) (TeInvalidInput ''malformed delivery record''))
         (\<lambda>e. then_ok (envelope_validate digest encoded_len e) (Inr e)))"

section \<open>Legacy observations\<close>

record legacy_pr =
  lp_delivery_id :: string
  lp_repository :: string
  lp_pr_number :: int
  lp_pr_url :: string
  lp_head_sha :: string
  lp_merge_sha :: "string option"
  lp_submitted :: bool
  lp_approved :: bool
  lp_merged :: bool
  lp_fact_source :: string
  lp_observed_at :: string
  lp_contract_hash :: string
  lp_state :: string
  lp_test_evidence_id :: "string option"

datatype missing_fact =
    MfCandidateIdentity | MfCandidateVersion | MfFullScopeBinding | MfManifest | MfTargetPrecondition
  | MfRequiredChecks | MfVersionBoundVerification | MfAwrReviewDecision | MfIntegrationContentProof
  | MfSourceRevision

datatype legacy_issue = InvalidSourceRevision | InvalidMergeRevision

record legacy_status =
  ls_submitted :: bool
  ls_approved :: bool
  ls_merged :: bool

record legacy_observation =
  lo_protocol :: string
  lo_fact_source :: string
  lo_observed_at :: string
  lo_reported_source_revision :: "revision_ref option"
  lo_reported_merge_revision :: "revision_ref option"
  lo_external_status :: legacy_status
  lo_missing_facts :: "missing_fact list"
  lo_issues :: "legacy_issue list"
  lo_acceptance_ready :: bool

definition legacy_revision :: "legacy_pr \<Rightarrow> string \<Rightarrow> revision_ref option" where
  "legacy_revision p value =
     (let revision = \<lparr>rv_resource = lp_repository p, rv_format = GitSha1, rv_value = value\<rparr> in
      if is_ok (revision_validate revision) then Some revision else None)"

definition incomplete_observation :: "legacy_pr \<Rightarrow> legacy_observation" where
  "incomplete_observation p =
     (let source = legacy_revision p (lp_head_sha p);
          merge = Option.bind (lp_merge_sha p) (legacy_revision p)
      in \<lparr>lo_protocol = ''awr-legacy-delivery-observation-v1'', lo_fact_source = lp_fact_source p,
          lo_observed_at = lp_observed_at p, lo_reported_source_revision = source,
          lo_reported_merge_revision = merge,
          lo_external_status = \<lparr>ls_submitted = lp_submitted p, ls_approved = lp_approved p, ls_merged = lp_merged p\<rparr>,
          lo_missing_facts = [MfCandidateIdentity, MfCandidateVersion, MfFullScopeBinding, MfManifest,
             MfTargetPrecondition, MfRequiredChecks, MfVersionBoundVerification, MfAwrReviewDecision,
             MfIntegrationContentProof] @ (if source = None then [MfSourceRevision] else []),
          lo_issues = (if source = None then [InvalidSourceRevision] else [])
             @ (if lp_merge_sha p \<noteq> None \<and> merge = None then [InvalidMergeRevision] else []),
          lo_acceptance_ready = False\<rparr>)"

definition legacy_change_request ::
  "(json \<Rightarrow> string) \<Rightarrow> (delivery_envelope \<Rightarrow> nat option) \<Rightarrow> legacy_pr \<Rightarrow> delivery_candidate \<Rightarrow> candidate_binding \<Rightarrow>
     fact_provenance \<Rightarrow> (team_error, change_request) result" where
  "legacy_change_request digest encoded_len p candidate current provenance =
     (let source = legacy_revision p (lp_head_sha p) in
      then_ok
        (run_checks
          [record_validate_against digest (DrCandidate candidate) current,
           refuse (lp_state p \<noteq> ''active'' \<or> lp_pr_number p \<le> 0 \<or> source = None
                   \<or> source \<noteq> cb_source_revision (dd_binding candidate)
                   \<or> lp_contract_hash p \<noteq> cb_contract_hash (dd_binding candidate))
             (TeInvalidInput ''legacy delivery does not match current candidate'')])
        (let r = \<lparr>cq_binding = dd_binding candidate, cq_provider = ''github'',
               cq_resource_id = lp_repository p @ ''#'' @ show_nat (nat (lp_pr_number p)),
               cq_locator = Some (lp_pr_url p), cq_provenance = provenance\<rparr>
         in then_ok (envelope_validate digest encoded_len
               \<lparr>de_protocol = DELIVERY_PROTOCOL, de_protocol_version = DELIVERY_PROTOCOL_VERSION,
                de_record = DrChangeRequest r\<rparr>)
             (Inr r)))"

end
