(* ===== verification/Delivery_Laws.thy ===== *)
theory Delivery_Laws
  imports Team_Delivery
begin

text \<open>
  Laws of the delivery records of \<open>Team_Delivery\<close>: what a content proof establishes about an observed
  integration, and that records bound to one candidate speak of the same artifacts and checks.
\<close>

section \<open>Manifests\<close>

lemma map_sum_unit_ok [simp]: "map_sum id (\<lambda>_. ()) r = Inr u \<longleftrightarrow> is_ok r"
  by (cases r) auto

lemma record_names_ok: "record_names values field = Inr () \<Longrightarrow> distinct values"
  by (auto simp: record_names_def is_ok_iff try_fold_insert_new[where key = "\<lambda>x. x"])

lemma artifact_json_inject [simp]: "artifact_json a = artifact_json b \<longleftrightarrow> a = b"
  by (auto simp: artifact_json_def)

text \<open>The JSON of a manifest is normal but for the order of the keys, so the normal form identifies it.\<close>

lemma normalize_artifact:
  "normalize_json (artifact_json e) = Inr (JObject
     [(''artifact_id'', JString (ae_artifact_id e)), (''byte_length'', JString (ae_byte_length e)),
      (''locator'', JString (ae_locator e)), (''sha256'', JString (ae_sha256 e))])"
proof -
  have sorted: "sort_key fst [(''artifact_id'', a), (''sha256'', b), (''byte_length'', c), (''locator'', d)]
      = [(''artifact_id'', a), (''byte_length'', c), (''locator'', d), (''sha256'', b)]"
    for a b c d :: "(team_error, json) result" by simp
  show ?thesis by (simp add: artifact_json_def sorted and_then_def del: sort_key_simps)
qed

lemma artifacts_ok: "is_ok (normalize_json (JArray (map artifact_json m)))"
  by (rule normalize_array_ok) (auto simp: normalize_artifact)

lemma manifest_object_ok: "is_ok (normalize_json (JObject [(''entries'', JArray (map artifact_json m))]))"
  by (rule normalize_object_ok) (use artifacts_ok in simp)

lemma manifest_json_ok: "is_ok (normalize_json (manifest_json m))"
  unfolding manifest_json_def
  by (rule normalize_object_ok) (use manifest_object_ok in \<open>auto simp del: normalize_json.simps(6)\<close>)

lemma manifest_json_same:
  assumes "normalize_json (manifest_json m) = normalize_json (manifest_json n)"
  shows "m = n"
proof -
  have "map_option normalize_json (map_of [(''codec'', JString ''awr-delivery-manifest-v1''),
        (''manifest'', JObject [(''entries'', JArray (map artifact_json m))])] ''manifest'')
      = map_option normalize_json (map_of [(''codec'', JString ''awr-delivery-manifest-v1''),
        (''manifest'', JObject [(''entries'', JArray (map artifact_json n))])] ''manifest'')"
    using assms manifest_json_ok[of m] unfolding manifest_json_def
    by (intro normalize_eq_lookup) simp_all
  then have eq: "normalize_json (JObject [(''entries'', JArray (map artifact_json m))])
      = normalize_json (JObject [(''entries'', JArray (map artifact_json n))])"
    by (simp del: normalize_json.simps)
  have "map_option normalize_json (map_of [(''entries'', JArray (map artifact_json m))] ''entries'')
      = map_option normalize_json (map_of [(''entries'', JArray (map artifact_json n))] ''entries'')"
    by (rule normalize_eq_lookup[OF eq manifest_object_ok]) simp_all
  then have "normalize_json (JArray (map artifact_json m)) = normalize_json (JArray (map artifact_json n))"
    by (simp del: normalize_json.simps)
  from normalize_array_same[OF this artifacts_ok]
  have "map (normalize_json \<circ> artifact_json) m = map (normalize_json \<circ> artifact_json) n" by simp
  moreover have "inj (normalize_json \<circ> artifact_json)"
    by (rule injI) (auto simp: normalize_artifact)
  ultimately show ?thesis by (simp add: inj_map_eq_map)
qed

interpretation manifest: canonical_record "''request''" manifest_json "\<lambda>_. True" "(=)"
  by unfold_locales (auto simp: manifest_json_ok dest: manifest_json_same)

lemma manifest_digest_same:
  assumes "manifest_digest digest m = Inr d" and "manifest_digest digest n = Inr d"
    and "distinguishes digest ''request'' (manifest_json m) (manifest_json n)"
  shows "m = n"
proof -
  have "hash_named digest ''request'' (manifest_json m) = Inr d" "hash_named digest ''request'' (manifest_json n) = Inr d"
    using assms(1,2) by (auto simp: manifest_digest_def request_hash_def)
  with manifest.hash_identifies[OF _ TrueI TrueI assms(3)] show ?thesis by blast
qed

lemma validate_against_ok:
  "record_validate_against digest r current = Inr () \<longleftrightarrow>
     record_validate digest r = Inr () \<and> binding_validate current = Inr () \<and> record_binding r = Some current"
  by (auto simp: record_validate_against_def require_same_candidate_def record_validate_def)

section \<open>Properties\<close>

definition ex_sha40 :: string where
  "ex_sha40 = replicate 40 CHR ''a''"

definition ex_digest :: string where
  "ex_digest = replicate 64 CHR ''b''"

definition ex_revision :: revision_ref where
  "ex_revision = \<lparr>rv_resource = ''repo'', rv_format = GitSha1, rv_value = ex_sha40\<rparr>"

definition ex_delivery_binding :: candidate_binding where
  "ex_delivery_binding = \<lparr>cb_tenant_id = ''t'', cb_project_id = ''p'', cb_scope_id = ''s'', cb_workstream_id = ''w'',
     cb_work_id = ''k'', cb_candidate_id = ''c'', cb_candidate_version = ''1'', cb_contract_hash = ex_digest,
     cb_manifest_digest = ex_digest, cb_source_revision = Some ex_revision, cb_required_checks = [''unit''],
     cb_target = \<lparr>tg_resource = ''repo'', tg_reference = None, tg_precondition = Missing\<rparr>\<rparr>"

definition ex_provenance :: fact_provenance where
  "ex_provenance = \<lparr>fp_source = AdapterObservation, fp_reference = ''obs'', fp_observed_at_unix_ms = None,
     fp_recorded_at_unix_ms = 9\<rparr>"

definition ex_proof :: content_proof where
  "ex_proof = \<lparr>cp_binding = ex_delivery_binding, cp_request_id = None, cp_observation_reference = ''pr/1'',
     cp_result_revision = Some ex_revision, cp_witness = ExactRevision, cp_provenance = ex_provenance\<rparr>"

definition ex_observation :: integration_observation where
  "ex_observation = \<lparr>io_binding = ex_delivery_binding, io_request_id = None, io_external_reference = ''pr/1'',
     io_outcome = IoApplied, io_result_revision = Some ex_revision, io_contains_manifest_digest = Some ex_digest,
     io_provenance = ex_provenance\<rparr>"

text \<open>
  C29: A content proof that is taken to prove an observed integration does establish it: both speak of
  the same candidate and the same result revision, both come from an adapter's observation, the
  integration was applied, source and result are Git revisions of the target's resource in the same
  format, and either the result is the source revision itself or both have one complete snapshot, on
  the exact base the candidate's target had declared.
\<close>
theorem content_proof_is_sound:
  assumes "proves_observation p obs = Inr True"
  shows "cp_binding p = io_binding obs \<and> cp_result_revision p = io_result_revision obs \<and> io_outcome obs = IoApplied
     \<and> fp_source (cp_provenance p) = AdapterObservation \<and> fp_source (io_provenance obs) = AdapterObservation
     \<and> (\<exists>source outcome. cb_source_revision (io_binding obs) = Some source \<and> io_result_revision obs = Some outcome
          \<and> rv_format source \<in> {GitSha1, GitSha256} \<and> rv_format outcome = rv_format source
          \<and> rv_resource source = tg_resource (cb_target (io_binding obs))
          \<and> rv_resource outcome = tg_resource (cb_target (io_binding obs))
          \<and> (outcome = source \<or> (\<exists>snapshot base. cp_witness p = MatchingCompleteSnapshots snapshot snapshot base
               \<and> tg_precondition (cb_target (io_binding obs)) = Exact base
               \<and> sp_resource snapshot = rv_resource source
               \<and> snapshot_revision_format snapshot = rv_format source \<and> rv_format base = rv_format source)))"
proof -
  have valid: "proof_validate p = Inr ()" and bind: "cp_binding p = io_binding obs"
    and rest: "cp_result_revision p = io_result_revision obs" "io_outcome obs = IoApplied"
      "fp_source (cp_provenance p) = AdapterObservation" "fp_source (io_provenance obs) = AdapterObservation"
    and avail: "\<not> is_unavailable (cp_witness p)"
    using assms by (auto simp: proves_observation_def require_same_candidate_def)
  from valid avail obtain source outcome
    where src: "cb_source_revision (cp_binding p) = Some source" "cp_result_revision p = Some outcome"
      and fmt: "rv_format source \<in> {GitSha1, GitSha256}" "rv_resource source = tg_resource (cb_target (cp_binding p))"
        "rv_format outcome = rv_format source"
      and wit: "witness_validate (cp_binding p) source outcome (cp_witness p) = Inr ()"
    unfolding proof_validate_def by auto
  have res: "rv_resource outcome = tg_resource (cb_target (cp_binding p))"
    using valid src(2) by (auto simp: proof_validate_def)
  have "outcome = source \<or> (\<exists>snapshot base. cp_witness p = MatchingCompleteSnapshots snapshot snapshot base
      \<and> tg_precondition (cb_target (cp_binding p)) = Exact base \<and> sp_resource snapshot = rv_resource source
      \<and> snapshot_revision_format snapshot = rv_format source \<and> rv_format base = rv_format source)"
    using wit by (cases "cp_witness p") (auto simp: witness_validate_def)
  with src fmt res bind rest show ?thesis by auto
qed

theorem content_proof_is_sound_witness:
  "proves_observation ex_proof ex_observation = Inr True \<and> io_outcome ex_observation = IoApplied"
proof -
  have run: "proves_observation ex_proof ex_observation = Inr True" by code_simp
  from content_proof_is_sound[OF run] run show ?thesis by simp
qed

text \<open>
  Records accepted against the current candidate speak of the same delivery. Two candidate records
  accepted against it carry the same manifest, entry by entry, where the digest does not collide on the
  two; an integration request accepted against it refers to exactly the required checks, each once; and
  an accepted observation of an applied integration names a result on the target's resource and contains
  that manifest's digest. A legacy observation alone is never ready for acceptance.
\<close>
theorem records_of_a_candidate_agree:
  assumes "record_validate_against digest (DrCandidate c) current = Inr ()"
    and "record_validate_against digest (DrCandidate d) current = Inr ()"
    and "record_validate_against digest (DrIntegrationRequest q) current = Inr ()"
    and "record_validate_against digest (DrIntegrationObservation obs) current = Inr ()"
    and "distinguishes digest ''request'' (manifest_json (dd_manifest c)) (manifest_json (dd_manifest d))"
  shows "dd_manifest c = dd_manifest d \<and> manifest_digest digest (dd_manifest c) = Inr (cb_manifest_digest current)
     \<and> set (map vf_check (iq_verified_checks q)) = set (cb_required_checks current)
     \<and> distinct (map vf_check (iq_verified_checks q))
     \<and> (io_outcome obs = IoApplied \<longrightarrow> io_contains_manifest_digest obs = Some (cb_manifest_digest current)
          \<and> (\<exists>r. io_result_revision obs = Some r \<and> rv_resource r = tg_resource (cb_target current)))
     \<and> \<not> lo_acceptance_ready (incomplete_observation legacy)"
proof -
  have digests: "manifest_digest digest (dd_manifest c) = Inr (cb_manifest_digest current)"
      "manifest_digest digest (dd_manifest d) = Inr (cb_manifest_digest current)"
    using assms(1,2) by (auto simp: validate_against_ok record_validate_def record_binding_def candidate_record_validate_def)
  have q: "iq_binding q = current" "integration_request_validate q = Inr ()"
    and obs: "io_binding obs = current" "observation_validate obs = Inr ()"
    using assms(3,4) by (auto simp: validate_against_ok record_validate_def record_binding_def)
  have checks: "set (map vf_check (iq_verified_checks q)) = set (cb_required_checks current)"
      "distinct (map vf_check (iq_verified_checks q))"
    using q by (auto simp: integration_request_validate_def Let_def dest: record_names_ok)
  have applied: "io_outcome obs = IoApplied \<Longrightarrow> io_contains_manifest_digest obs = Some (cb_manifest_digest current)
      \<and> (\<exists>r. io_result_revision obs = Some r \<and> rv_resource r = tg_resource (cb_target current))"
    using obs by (auto simp: observation_validate_def)
  have "\<not> lo_acceptance_ready (incomplete_observation legacy)" by (simp add: incomplete_observation_def Let_def)
  with manifest_digest_same[OF digests assms(5)] digests(1) checks applied show ?thesis by blast
qed

definition ex_manifest :: artifact_manifest where
  "ex_manifest = [\<lparr>ae_artifact_id = ''a'', ae_sha256 = ex_digest, ae_byte_length = ''0'', ae_locator = ''x''\<rparr>]"

definition ex_candidate_record :: delivery_candidate where
  "ex_candidate_record = \<lparr>dd_binding = ex_delivery_binding, dd_manifest = ex_manifest\<rparr>"

definition ex_integration :: integration_request where
  "ex_integration = \<lparr>iq_binding = ex_delivery_binding, iq_request_id = ''r'', iq_operation = Merge, iq_review_round_id = ''1'',
     iq_review_decision_id = ''d'', iq_verified_checks = [\<lparr>vf_check = ''unit'', vf_run_id = ''run''\<rparr>]\<rparr>"

theorem records_of_a_candidate_agree_witness:
  "manifest_digest (\<lambda>_. ex_digest) ex_manifest = Inr (cb_manifest_digest ex_delivery_binding)
   \<and> set (map vf_check (iq_verified_checks ex_integration)) = {''unit''}"
proof -
  have c: "record_validate_against (\<lambda>_. ex_digest) (DrCandidate ex_candidate_record) ex_delivery_binding = Inr ()" by code_simp
  have q: "record_validate_against (\<lambda>_. ex_digest) (DrIntegrationRequest ex_integration) ex_delivery_binding = Inr ()" by code_simp
  have o1: "record_validate_against (\<lambda>_. ex_digest) (DrIntegrationObservation ex_observation) ex_delivery_binding = Inr ()" by code_simp
  have "distinguishes (\<lambda>_. ex_digest) ''request'' (manifest_json (dd_manifest ex_candidate_record))
      (manifest_json (dd_manifest ex_candidate_record))" by (simp add: distinguishes_def)
  from records_of_a_candidate_agree[OF c c q o1 this] show ?thesis
    by (simp add: ex_candidate_record_def ex_delivery_binding_def)
qed

end
