(* ===== verification/Core_Model.thy ===== *)
theory Core_Model
  imports Canonical_Json Evidence_Level
begin

text \<open>
  The records of \<^verbatim>\<open>crates/awr-core/src/model.rs\<close> that several components read, and the assessment of an
  evidence record relative to a requested source and branch (\<^verbatim>\<open>query.rs\<close>).
\<close>

datatype freshness = Fresh | Stale | SourceGone

fun freshness_debug :: "freshness \<Rightarrow> string" where
  "freshness_debug Fresh = ''Fresh''"
| "freshness_debug Stale = ''Stale''"
| "freshness_debug SourceGone = ''Unavailable''"

fun freshness_name :: "freshness \<Rightarrow> string" where
  "freshness_name Fresh = ''fresh''"
| "freshness_name Stale = ''stale''"
| "freshness_name SourceGone = ''unavailable''"

fun evidence_level_name :: "evidence_level \<Rightarrow> string" where
  "evidence_level_name Designed = ''designed''"
| "evidence_level_name Implemented = ''implemented''"
| "evidence_level_name LocallyVerified = ''locally_verified''"
| "evidence_level_name RealEnvironmentValidated = ''real_environment_validated''"
| "evidence_level_name ReleaseCandidate = ''release_candidate''"
| "evidence_level_name Released = ''released''"
| "evidence_level_name LevelUnknown = ''unknown''"

record source_ref =
  sf_source_id :: ulid
  sf_locator :: string
  sf_source_revision :: u64
  sf_source_fingerprint :: string
  sf_pointer :: "string option"
  sf_start_line :: "nat option"
  sf_end_line :: "nat option"
  sf_section_fingerprint :: "string option"

record source =
  so_id :: ulid
  so_project_id :: ulid
  so_domain :: string
  so_role :: string
  so_locator :: string
  so_format :: string
  so_adapter :: string
  so_revision :: u64
  so_fingerprint :: string
  so_freshness :: freshness
  so_config :: json

record evidence =
  ev_id :: ulid
  ev_project_id :: ulid
  ev_work_item_id :: "ulid option"
  ev_external_key :: string
  ev_evidence_type :: string
  ev_level :: evidence_level
  ev_summary :: string
  ev_locator :: string
  ev_sha256 :: "string option"
  ev_source_sha :: "string option"
  ev_command :: "string option"
  ev_scope :: "string list"
  ev_source_ref :: "source_ref option"
  ev_branch_id :: "ulid option"
  ev_revision :: u64
  ev_verified_at :: "int option"

record evidence_record =
  er_item :: evidence
  er_source :: "source option"
  er_project_revision :: u64

datatype evidence_currency = EcCurrent | EcHistorical | EcUnknown

record evidence_assessment =
  es_evidence :: evidence_record
  es_currency :: evidence_currency
  es_missing_bindings :: "string list"
  es_reasons :: "string list"

definition eq_ignore_ascii_case :: "string \<Rightarrow> string \<Rightarrow> bool" where
  "eq_ignore_ascii_case a b \<longleftrightarrow> str_ascii_lower a = str_ascii_lower b"

definition missing_bindings :: "evidence \<Rightarrow> string list" where
  "missing_bindings e =
     (if ev_scope e = [] then [''scope''] else [])
     @ (if trim_empty (ev_locator e) then [''report''] else [])
     @ (if \<not> (case ev_sha256 e of Some s \<Rightarrow> length s = 64 \<and> list_all is_ascii_hexdigit s | None \<Rightarrow> False)
        then [''sha256''] else [])
     @ (if \<not> (case ev_source_sha e of Some s \<Rightarrow> is_source_sha s | None \<Rightarrow> False) then [''source_sha''] else [])
     @ (if \<not> (case ev_command e of Some s \<Rightarrow> \<not> trim_empty s | None \<Rightarrow> False) then [''command''] else [])
     @ (if ev_verified_at e = None then [''verified_at''] else [])"

text \<open>The currency with its one reason, if any.\<close>

definition currency ::
  "evidence_record \<Rightarrow> string option \<Rightarrow> ulid option \<Rightarrow> evidence_currency \<times> string list" where
  "currency r source_sha branch =
     (if ev_branch_id (er_item r) \<noteq> branch
      then (EcHistorical, [''evidence belongs to a different branch''])
      else (case (ev_source_sha (er_item r), source_sha) of
          (Some recorded, Some requested) \<Rightarrow>
            if \<not> is_source_sha recorded \<or> \<not> is_source_sha requested
            then (EcUnknown, [''source SHA is not a full hash''])
            else if \<not> eq_ignore_ascii_case recorded requested
            then (EcHistorical, [''evidence was recorded for a different source SHA''])
            else if (case er_source r of Some s \<Rightarrow> so_freshness s \<noteq> Fresh | None \<Rightarrow> False)
            then (EcUnknown, [''evidence source is not fresh''])
            else (EcCurrent, [])
        | _ \<Rightarrow> (EcUnknown, [''both recorded and requested source SHA are needed to determine currency''])))"

definition evidence_assess ::
  "evidence_record \<Rightarrow> string option \<Rightarrow> ulid option \<Rightarrow> evidence_assessment" where
  "evidence_assess r source_sha branch =
     \<lparr>es_evidence = r, es_currency = fst (currency r source_sha branch),
      es_missing_bindings = missing_bindings (er_item r), es_reasons = snd (currency r source_sha branch)\<rparr>"

text \<open>The case of the letters does not matter to a hash.\<close>

lemma is_ascii_hexdigit_lower:
  "is_ascii_hexdigit (char_of (to_ascii_lowercase (byte c))) \<longleftrightarrow> is_ascii_hexdigit c"
  by (cases "65 \<le> byte c \<and> byte c \<le> 90")
    (auto simp: is_ascii_hexdigit_def is_lower_hex_def is_ascii_digit_def to_ascii_lowercase_def)

lemma is_source_sha_case:
  assumes "eq_ignore_ascii_case a b"
  shows "is_source_sha a \<longleftrightarrow> is_source_sha b"
proof -
  have eq: "str_ascii_lower a = str_ascii_lower b" using assms by (simp add: eq_ignore_ascii_case_def)
  have "length a = length b" using arg_cong[OF eq, of length] by (simp add: str_ascii_lower_def)
  moreover have "list_all is_ascii_hexdigit (str_ascii_lower s) \<longleftrightarrow> list_all is_ascii_hexdigit s" for s
    by (simp add: str_ascii_lower_def list_all_iff is_ascii_hexdigit_lower)
  with eq have "list_all is_ascii_hexdigit a \<longleftrightarrow> list_all is_ascii_hexdigit b" by metis
  ultimately show ?thesis by (simp add: is_source_sha_def)
qed

end
