(* ===== verification/Completion.thy ===== *)
theory Completion
  imports Core_Model Ordered_Map "HOL-Library.Option_ord" "HOL-Library.Sublist"
begin

text \<open>
  \<^verbatim>\<open>crates/awr-core/src/completion.rs\<close>: the mapping from acceptance criteria to evidence that completes
  a work item, the verification report, and the change it makes to the item's source record.
\<close>

section \<open>Requests\<close>

record acceptance_evidence_request =
  aq_criterion :: string
  aq_evidence :: "string list"

record completion_input =
  cm_version :: u32
  cm_source_sha :: string
  cm_minimum_level :: evidence_level
  cm_acceptance :: "acceptance_evidence_request list"
  cm_required_evidence :: "string list"

definition minimum_level :: evidence_level where
  "minimum_level = LocallyVerified"

definition input_references :: "completion_input \<Rightarrow> string set" where
  "input_references c = (\<Union>a\<in>set (cm_acceptance c). set (aq_evidence a)) \<union> set (cm_required_evidence c)"

definition validate_criteria :: "string list \<Rightarrow> (error, unit) result" where
  "validate_criteria criteria =
     refuse (criteria = [] \<or> list_ex trim_empty criteria \<or> card (set criteria) \<noteq> length criteria)
       (EvidenceMissing ''source acceptance must be nonempty, unambiguous criteria before work can complete'')"

text \<open>Of the work item only its acceptance criteria are read.\<close>

definition input_validate :: "completion_input \<Rightarrow> string list \<Rightarrow> (error, unit) result" where
  "input_validate c work_acceptance =
     (let declared = set (map aq_criterion (cm_acceptance c)) in
      run_checks
        [refuse (cm_version c \<noteq> 1 \<or> \<not> is_source_sha (cm_source_sha c) \<or> rank_below (cm_minimum_level c) 2)
           (InvalidInput ''completion requires version 1, a full source SHA and at least locally_verified evidence''),
         validate_criteria work_acceptance,
         refuse (card declared \<noteq> length (cm_acceptance c) \<or> declared \<noteq> set work_acceptance
                 \<or> list_ex (\<lambda>a. aq_evidence a = []) (cm_acceptance c))
           (EvidenceMissing ''completion must map every source acceptance criterion exactly once to nonempty evidence references''),
         refuse (input_references c = {} \<or> card (input_references c) > 100
                 \<or> (\<exists>s\<in>input_references c. trim_empty s \<or> length s > 4096))
           (InvalidInput ''completion requires 1..100 bounded evidence references'')])"

section \<open>Reports\<close>

record completion_check =
  ch_name :: string
  ch_passed :: bool
  ch_details :: string
  ch_criteria :: "string list"

record completion_report =
  rt_version :: u32
  rt_work_item :: string
  rt_source_sha :: string
  rt_command :: string
  rt_scope :: "string list"
  rt_verified_at :: int
  rt_checks :: "completion_check list"

definition report_validate ::
  "completion_report \<Rightarrow> evidence \<Rightarrow> string \<Rightarrow> string list \<Rightarrow> int \<Rightarrow> (error, unit) result" where
  "report_validate r e work_key criteria at =
     run_checks
       [refuse
          (rt_version r \<noteq> 1 \<or> rt_work_item r \<noteq> work_key \<or> \<not> is_source_sha (rt_source_sha r)
           \<or> \<not> (case ev_source_sha e of Some sha \<Rightarrow> eq_ignore_ascii_case sha (rt_source_sha r) | None \<Rightarrow> False)
           \<or> ev_command e \<noteq> Some (rt_command r) \<or> trim_empty (rt_command r)
           \<or> set (rt_scope r) \<noteq> set (ev_scope e) \<or> rt_verified_at r < 0 \<or> rt_verified_at r > at
           \<or> ev_verified_at e \<noteq> Some (rt_verified_at r))
          (EvidenceMissing ''verification report disagrees with its work, source SHA, command, scope or verification-time binding''),
        refuse
          (rt_checks r = []
           \<or> list_ex (\<lambda>c. \<not> ch_passed c \<or> trim_empty (ch_name c) \<or> trim_empty (ch_details c)
                \<or> list_ex (\<lambda>s. s \<notin> set criteria) (ch_criteria c)) (rt_checks r)
           \<or> card (set (map ch_name (rt_checks r))) \<noteq> length (rt_checks r))
          (EvidenceMissing ''verification report requires uniquely named passing checks with details and current acceptance references'')]"

definition report_covers :: "completion_report \<Rightarrow> string \<Rightarrow> bool" where
  "report_covers r criterion =
     list_ex (\<lambda>c. ch_passed c \<and> list_ex (\<lambda>s. s = criterion) (ch_criteria c)) (rt_checks r)"

section \<open>Bindings\<close>

record acceptance_evidence_binding =
  ab_criterion :: string
  ab_evidence :: "ulid list"

record completion_binding =
  cn_version :: u32
  cn_source_sha :: string
  cn_minimum_level :: evidence_level
  cn_acceptance :: "acceptance_evidence_binding list"
  cn_evidence :: "evidence list"

definition join_comma :: "string list \<Rightarrow> string" where
  "join_comma xs = (case xs of [] \<Rightarrow> [] | x # rest \<Rightarrow> x @ concat (map (\<lambda>y. '', '' @ y) rest))"

definition validate_bound :: "(ulid \<Rightarrow> string) \<Rightarrow> completion_binding \<Rightarrow> evidence \<Rightarrow> (error, unit) result" where
  "validate_bound show_id b e =
     (let assessment = evidence_assess \<lparr>er_item = e, er_source = None, er_project_revision = 0\<rparr>
            (Some (cn_source_sha b)) (ev_branch_id e)
      in run_checks
        [refuse
           ((case (verification_rank (ev_level e), verification_rank (cn_minimum_level b)) of
               (None, _) \<Rightarrow> True | (Some r, Some m) \<Rightarrow> r < m | (Some r, None) \<Rightarrow> True)
            \<or> \<not> (case ev_source_sha e of Some s \<Rightarrow> eq_ignore_ascii_case s (cn_source_sha b) | None \<Rightarrow> False))
           (EvidenceMissing ''evidence does not meet the bound level or source SHA''),
         refuse (es_missing_bindings assessment \<noteq> [])
           (EvidenceMissing (''evidence '' @ show_id (ev_id e) @ '' lacks ''
              @ join_comma (es_missing_bindings assessment)))])"

definition binding_validate_completion ::
  "(ulid \<Rightarrow> string) \<Rightarrow> completion_binding \<Rightarrow> (error, unit) result" where
  "binding_validate_completion show_id b =
     (let ids = set (map ev_id (cn_evidence b)) in
      run_checks
        [refuse (cn_version b \<noteq> 1 \<or> \<not> is_source_sha (cn_source_sha b) \<or> rank_below (cn_minimum_level b) 2)
           (InvalidInput ''invalid completion binding version, SHA or minimum level''),
         refuse (ids = {} \<or> card ids \<noteq> length (cn_evidence b) \<or> card ids > 100)
           (EvidenceMissing ''completion needs 1..100 distinct bound evidence records''),
         validate_criteria (map ab_criterion (cn_acceptance b)),
         refuse (list_ex (\<lambda>a. ab_evidence a = [] \<or> list_ex (\<lambda>i. i \<notin> ids) (ab_evidence a)
              \<or> card (set (ab_evidence a)) \<noteq> length (ab_evidence a)) (cn_acceptance b))
           (EvidenceMissing ''acceptance mapping references missing or repeated evidence''),
         run_checks (map (validate_bound show_id b) (cn_evidence b))])"

text \<open>\<^verbatim>\<open>min_by_key\<close>: the first of the least; \<^verbatim>\<open>None\<close> is below every rank.\<close>

fun min_by_rank :: "evidence list \<Rightarrow> evidence option" where
  "min_by_rank [] = None"
| "min_by_rank (e # es) =
     (case min_by_rank es of
        None \<Rightarrow> Some e
      | Some m \<Rightarrow> if verification_rank (ev_level e) \<le> verification_rank (ev_level m) then Some e else Some m)"

text \<open>A result \<open>None\<close> is the panic of \<open>unwrap\<close> on an empty iterator.\<close>

definition verified_level ::
  "(ulid \<Rightarrow> string) \<Rightarrow> completion_binding \<Rightarrow> (error, evidence_level) result option" where
  "verified_level show_id b =
     (case binding_validate_completion show_id b of
        Inl e \<Rightarrow> Some (Inl e)
      | Inr _ \<Rightarrow> map_option (\<lambda>e. Inr (ev_level e)) (min_by_rank (cn_evidence b)))"

section \<open>Source changes\<close>

definition names_locator :: "string \<Rightarrow> json \<Rightarrow> bool" where
  "names_locator locator e \<longleftrightarrow>
     as_str e = Some locator \<or> Option.bind (json_get e ''locator'') as_str = Some locator
     \<or> Option.bind (json_get e ''path'') as_str = Some locator"

definition append_locator :: "json list \<Rightarrow> evidence \<Rightarrow> json list" where
  "append_locator evs item =
     (if list_ex (names_locator (ev_locator item)) evs then evs else evs @ [JString (ev_locator item)])"

definition source_evidence :: "json \<Rightarrow> (error, json list) result" where
  "source_evidence record = (case json_get record ''evidence'' of
     None \<Rightarrow> Inr [] | Some JNull \<Rightarrow> Inr [] | Some (JArray a) \<Rightarrow> Inr a
   | Some _ \<Rightarrow> Inl (MutationUnsupported ''source evidence is not an appendable list''))"

definition source_verification :: "json \<Rightarrow> (error, (string \<times> json) list) result" where
  "source_verification record = (case json_get record ''verification'' of
     None \<Rightarrow> Inr [] | Some JNull \<Rightarrow> Inr [] | Some (JObject v) \<Rightarrow> Inr v
   | Some _ \<Rightarrow> Inl (MutationUnsupported ''source verification metadata is not a mapping''))"

definition completion_source_changes ::
  "(ulid \<Rightarrow> string) \<Rightarrow> json \<Rightarrow> completion_binding \<Rightarrow> (error, json) result option" where
  "completion_source_changes show_id record b =
     (case binding_validate_completion show_id b of
        Inl e \<Rightarrow> Some (Inl e)
      | Inr _ \<Rightarrow> (case source_evidence record of
            Inl e \<Rightarrow> Some (Inl e)
          | Inr existing \<Rightarrow> (case source_verification record of
                Inl e \<Rightarrow> Some (Inl e)
              | Inr verification \<Rightarrow>
                  map_option
                    (\<lambda>level. and_then level (\<lambda>level.
                       let name = JString (evidence_level_name level);
                           changes =
                             [(''evidence'', JArray (foldl append_locator existing (cn_evidence b))),
                              (''status'', JString ''completed''),
                              (''verification'', JObject (bt_insert ''evidence_level'' name verification))]
                       in Inr (JObject (if json_get record ''evidence_level'' \<noteq> None
                            then bt_insert ''evidence_level'' name changes else changes))))
                    (verified_level show_id b))))"

section \<open>Laws\<close>

lemma min_by_rank_least:
  assumes "es \<noteq> []"
  shows "\<exists>m. min_by_rank es = Some m \<and> m \<in> set es
     \<and> (\<forall>e\<in>set es. verification_rank (ev_level m) \<le> verification_rank (ev_level e))"
  using assms
proof (induction es)
  case Nil
  then show ?case by simp
next
  case (Cons e es)
  show ?case
  proof (cases "es = []")
    case True
    then show ?thesis by simp
  next
    case False
    with Cons.IH obtain m where m: "min_by_rank es = Some m" "m \<in> set es"
      "\<forall>e\<in>set es. verification_rank (ev_level m) \<le> verification_rank (ev_level e)" by blast
    show ?thesis
    proof (cases "verification_rank (ev_level e) \<le> verification_rank (ev_level m)")
      case True
      with m show ?thesis by (auto intro: order_trans)
    next
      case False
      with m show ?thesis by auto
    qed
  qed
qed

lemma validate_bound_ok:
  assumes "validate_bound show_id b e = Inr ()" and "is_source_sha (cn_source_sha b)"
  shows "verification_rank (cn_minimum_level b) \<le> verification_rank (ev_level e)"
    and "es_currency (evidence_assess \<lparr>er_item = e, er_source = None, er_project_revision = 0\<rparr>
           (Some (cn_source_sha b)) (ev_branch_id e)) = EcCurrent"
    and "missing_bindings e = []"
  using assms is_source_sha_case
  by (auto simp: validate_bound_def Let_def evidence_assess_def currency_def split: option.splits)

lemma binding_ok:
  "binding_validate_completion show_id b = Inr () \<longleftrightarrow>
     cn_version b = 1 \<and> is_source_sha (cn_source_sha b) \<and> \<not> rank_below (cn_minimum_level b) 2
     \<and> cn_evidence b \<noteq> [] \<and> distinct (map ev_id (cn_evidence b)) \<and> length (cn_evidence b) \<le> 100
     \<and> validate_criteria (map ab_criterion (cn_acceptance b)) = Inr ()
     \<and> (\<forall>a\<in>set (cn_acceptance b). ab_evidence a \<noteq> [] \<and> set (ab_evidence a) \<subseteq> set (map ev_id (cn_evidence b))
          \<and> distinct (ab_evidence a))
     \<and> (\<forall>e\<in>set (cn_evidence b). validate_bound show_id b e = Inr ())"
proof -
  have ids: "card (set (map ev_id (cn_evidence b))) = length (cn_evidence b) \<longleftrightarrow> distinct (map ev_id (cn_evidence b))"
    using card_set_eq_length[of "map ev_id (cn_evidence b)"] by simp
  show ?thesis
    using ids card_set_eq_length
    by (auto simp: binding_validate_completion_def Let_def list_ex_iff subset_iff simp del: set_map)
qed

lemma append_locators:
  "prefix old (foldl append_locator old es)
   \<and> (\<forall>e\<in>set es. list_ex (names_locator (ev_locator e)) (foldl append_locator old es))"
proof (induction es arbitrary: old)
  case Nil
  then show ?case by simp
next
  case (Cons e es)
  have step: "prefix old (append_locator old e)" "list_ex (names_locator (ev_locator e)) (append_locator old e)"
    by (simp_all add: append_locator_def names_locator_def)
  let ?new = "foldl append_locator (append_locator old e) es"
  from Cons[of "append_locator old e"] have rest: "prefix (append_locator old e) ?new"
      "\<forall>x\<in>set es. list_ex (names_locator (ev_locator x)) ?new" by simp_all
  have "list_ex (names_locator (ev_locator e)) ?new"
    using step(2) set_mono_prefix[OF rest(1)] by (auto simp: list_ex_iff)
  moreover have "prefix old ?new"
    using step(1) rest(1) by (auto simp: prefix_def)
  ultimately show ?case using rest(2) by simp
qed

section \<open>Properties\<close>

definition ex_evidence :: evidence where
  "ex_evidence = \<lparr>ev_id = 5, ev_project_id = 1, ev_work_item_id = None, ev_external_key = ''E'', ev_evidence_type = ''test'',
     ev_level = LocallyVerified, ev_summary = ''s'', ev_locator = ''report.json'', ev_sha256 = Some (replicate 64 CHR ''a''),
     ev_source_sha = Some (replicate 40 CHR ''A''), ev_command = Some ''cargo test'', ev_scope = [''core''],
     ev_source_ref = None, ev_branch_id = None, ev_revision = 1, ev_verified_at = Some 9\<rparr>"

definition ex_completion :: completion_binding where
  "ex_completion = \<lparr>cn_version = 1, cn_source_sha = replicate 40 CHR ''a'', cn_minimum_level = LocallyVerified,
     cn_acceptance = [\<lparr>ab_criterion = ''tests pass'', ab_evidence = [5]\<rparr>], cn_evidence = [ex_evidence]\<rparr>"

text \<open>
  C30: A completion that validates is backed by evidence. Its criteria are nonempty and distinct; each is
  mapped to evidence records that are all bound, one record per id; every bound record is current for
  the bound source on its own branch, lacks no binding and reaches the minimum level; and the level
  reported as verified is that of a bound record, no higher than any other, no lower than the minimum
  and at least locally verified. Computing it never panics.
\<close>
theorem completion_is_backed_by_evidence:
  assumes "binding_validate_completion show_id b = Inr ()"
  shows "cn_acceptance b \<noteq> [] \<and> distinct (map ab_criterion (cn_acceptance b))
     \<and> (\<forall>a\<in>set (cn_acceptance b). ab_evidence a \<noteq> []
          \<and> (\<forall>i\<in>set (ab_evidence a). \<exists>!e. e \<in> set (cn_evidence b) \<and> ev_id e = i))
     \<and> (\<forall>e\<in>set (cn_evidence b). missing_bindings e = []
          \<and> es_currency (evidence_assess \<lparr>er_item = e, er_source = None, er_project_revision = 0\<rparr>
               (Some (cn_source_sha b)) (ev_branch_id e)) = EcCurrent)
     \<and> (\<exists>level. verified_level show_id b = Some (Inr level) \<and> level \<in> ev_level ` set (cn_evidence b)
          \<and> (\<forall>e\<in>set (cn_evidence b). verification_rank level \<le> verification_rank (ev_level e))
          \<and> verification_rank (cn_minimum_level b) \<le> verification_rank level \<and> Some 2 \<le> verification_rank level)"
proof -
  note ok = assms[unfolded binding_ok]
  have criteria: "cn_acceptance b \<noteq> []" "distinct (map ab_criterion (cn_acceptance b))"
    using ok card_set_eq_length[of "map ab_criterion (cn_acceptance b)"] by (auto simp: validate_criteria_def)
  have unique: "\<exists>!e. e \<in> set (cn_evidence b) \<and> ev_id e = i" if "i \<in> set (map ev_id (cn_evidence b))" for i
  proof -
    have inj: "inj_on ev_id (set (cn_evidence b))" using ok by (simp add: distinct_map)
    from that obtain e where "e \<in> set (cn_evidence b)" "ev_id e = i" by auto
    with inj show ?thesis by (intro ex1I[of _ e]) (auto dest: inj_onD)
  qed
  have mapped: "\<forall>a\<in>set (cn_acceptance b). ab_evidence a \<noteq> []
      \<and> (\<forall>i\<in>set (ab_evidence a). \<exists>!e. e \<in> set (cn_evidence b) \<and> ev_id e = i)"
    using ok unique by blast
  have sha: "is_source_sha (cn_source_sha b)" using ok by blast
  have bound: "validate_bound show_id b e = Inr ()" if "e \<in> set (cn_evidence b)" for e using ok that by blast
  note evidence = validate_bound_ok[OF bound sha]
  obtain m where m: "min_by_rank (cn_evidence b) = Some m" "m \<in> set (cn_evidence b)"
      "\<forall>e\<in>set (cn_evidence b). verification_rank (ev_level m) \<le> verification_rank (ev_level e)"
    using min_by_rank_least ok by blast
  have "Some 2 \<le> verification_rank (cn_minimum_level b)"
    using ok by (auto simp: rank_below_def split: option.splits)
  with evidence(1)[OF m(2)] have "verification_rank (cn_minimum_level b) \<le> verification_rank (ev_level m)"
      "Some 2 \<le> verification_rank (ev_level m)" by (auto intro: order_trans)
  with m assms have "\<exists>level. verified_level show_id b = Some (Inr level) \<and> level \<in> ev_level ` set (cn_evidence b)
      \<and> (\<forall>e\<in>set (cn_evidence b). verification_rank level \<le> verification_rank (ev_level e))
      \<and> verification_rank (cn_minimum_level b) \<le> verification_rank level \<and> Some 2 \<le> verification_rank level"
    by (intro exI[of _ "ev_level m"]) (simp add: verified_level_def)
  with criteria mapped evidence(2,3) show ?thesis by blast
qed

theorem completion_is_backed_by_evidence_witness:
  "binding_validate_completion (\<lambda>_. ''i'') ex_completion = Inr ()
   \<and> (\<exists>level. verified_level (\<lambda>_. ''i'') ex_completion = Some (Inr level) \<and> Some 2 \<le> verification_rank level)"
proof -
  have run: "binding_validate_completion (\<lambda>_. ''i'') ex_completion = Inr ()" by code_simp
  from completion_is_backed_by_evidence[OF run] run show ?thesis by blast
qed

text \<open>
  Completing a work item only adds to its source record. The evidence list it had is kept as a
  prefix, every bound report is named in the new list, all verification metadata but the level is kept,
  the level written is the verified one, and the top-level entry for the level changes only
  where there was one.
\<close>
theorem completion_only_adds_to_source:
  assumes "completion_source_changes show_id record b = Some (Inr changes)"
    and "source_evidence record = Inr existing" and "source_verification record = Inr verification"
    and "bt_wf verification"
  shows "\<exists>level evidence' verification'. verified_level show_id b = Some (Inr level)
     \<and> json_get changes ''status'' = Some (JString ''completed'')
     \<and> json_get changes ''evidence'' = Some (JArray evidence') \<and> prefix existing evidence'
     \<and> (\<forall>e\<in>set (cn_evidence b). list_ex (names_locator (ev_locator e)) evidence')
     \<and> json_get changes ''verification'' = Some (JObject verification')
     \<and> map_of verification' = (map_of verification)(''evidence_level'' \<mapsto> JString (evidence_level_name level))
     \<and> json_get changes ''evidence_level''
         = (if json_get record ''evidence_level'' = None then None else Some (JString (evidence_level_name level)))"
proof -
  from assms(1-3) obtain level where level: "verified_level show_id b = Some (Inr level)"
    and changes: "changes = (let name = JString (evidence_level_name level);
           fixed = [(''evidence'', JArray (foldl append_locator existing (cn_evidence b))),
              (''status'', JString ''completed''),
              (''verification'', JObject (bt_insert ''evidence_level'' name verification))]
         in JObject (if json_get record ''evidence_level'' \<noteq> None
              then bt_insert ''evidence_level'' name fixed else fixed))"
    by (auto simp: completion_source_changes_def Let_def split: sum.splits)
  let ?name = "JString (evidence_level_name level)"
  let ?fixed = "[(''evidence'', JArray (foldl append_locator existing (cn_evidence b))),
      (''status'', JString ''completed''), (''verification'', JObject (bt_insert ''evidence_level'' ?name verification))]"
  have wf: "bt_wf ?fixed" by (simp add: bt_wf_def)
  have get: "json_get changes k = (if k = ''evidence_level'' \<and> json_get record ''evidence_level'' \<noteq> None
      then Some ?name else map_of ?fixed k)" for k
    unfolding changes Let_def json_get_def[of "JObject _"]
    by (simp add: bt_insert_lookup[OF wf] del: bt_insert.simps(2))
  have "json_get changes ''status'' = Some (JString ''completed'')"
      "json_get changes ''evidence'' = Some (JArray (foldl append_locator existing (cn_evidence b)))"
      "json_get changes ''verification'' = Some (JObject (bt_insert ''evidence_level'' ?name verification))"
      "json_get changes ''evidence_level'' = (if json_get record ''evidence_level'' = None then None else Some ?name)"
    unfolding get by simp_all
  with level append_locators[of existing "cn_evidence b"] bt_insert_lookup[OF assms(4)] show ?thesis by blast
qed

theorem completion_only_adds_to_source_witness:
  "\<exists>changes. completion_source_changes (\<lambda>_. ''i'') (JObject [(''evidence'', JArray [JString ''old''])]) ex_completion
     = Some (Inr changes) \<and> json_get changes ''status'' = Some (JString ''completed'')"
proof -
  let ?source = "JObject [(''evidence'', JArray [JString ''old''])]"
  have "(case completion_source_changes (\<lambda>_. ''i'') ?source ex_completion of Some r \<Rightarrow> is_ok r | None \<Rightarrow> False)" by code_simp
  then obtain changes where run: "completion_source_changes (\<lambda>_. ''i'') ?source ex_completion = Some (Inr changes)"
    by (auto simp: is_ok_iff split: option.splits)
  have "source_evidence ?source = Inr [JString ''old'']" "source_verification ?source = Inr []" by code_simp+
  from completion_only_adds_to_source[OF run this] run show ?thesis by auto
qed

end
