(* ===== verification/Context_Budget.thy ===== *)
theory Context_Budget
  imports Core_Model "HOL-Library.Product_Lexorder" "HOL-Library.Sublist"
begin

text \<open>
  \<^verbatim>\<open>crates/awr-context/src/budget.rs\<close>: the selection of whole context chunks under a token budget and
  the rendering of the selection. The tokenizer \<^verbatim>\<open>o200k_base\<close>, the printed form of a ULID and SHA-256 over
  \<^verbatim>\<open>serde_json\<close> belong to other libraries: they are the arguments \<open>tc\<close>, \<open>show_id\<close> and \<open>digest\<close>.
  The tokenizer is any function of the text; in particular it need not be additive or monotone.
\<close>

section \<open>Data\<close>

datatype context_section =
    CsGoal | CsWork | CsAcceptance | CsRules | CsDependencies | CsDecisions | CsDelta | CsExecutions
  | CsEvidence | CsMetadata

fun section_title :: "context_section \<Rightarrow> string" where
  "section_title CsGoal = ''Goal''"
| "section_title CsWork = ''Current Work''"
| "section_title CsAcceptance = ''Acceptance''"
| "section_title CsRules = ''Rules''"
| "section_title CsDependencies = ''Dependencies''"
| "section_title CsDecisions = ''Decisions''"
| "section_title CsDelta = ''Recent Delta''"
| "section_title CsExecutions = ''Executions''"
| "section_title CsEvidence = ''Evidence''"
| "section_title CsMetadata = ''Metadata''"

fun section_name :: "context_section \<Rightarrow> string" where
  "section_name CsGoal = ''goal''"
| "section_name CsWork = ''work''"
| "section_name CsAcceptance = ''acceptance''"
| "section_name CsRules = ''rules''"
| "section_name CsDependencies = ''dependencies''"
| "section_name CsDecisions = ''decisions''"
| "section_name CsDelta = ''delta''"
| "section_name CsExecutions = ''executions''"
| "section_name CsEvidence = ''evidence''"
| "section_name CsMetadata = ''metadata''"

text \<open>The derived order of the enumeration.\<close>

fun section_rank :: "context_section \<Rightarrow> nat" where
  "section_rank CsGoal = 0"
| "section_rank CsWork = 1"
| "section_rank CsAcceptance = 2"
| "section_rank CsRules = 3"
| "section_rank CsDependencies = 4"
| "section_rank CsDecisions = 5"
| "section_rank CsDelta = 6"
| "section_rank CsExecutions = 7"
| "section_rank CsEvidence = 8"
| "section_rank CsMetadata = 9"

lemma section_rank_inject: "section_rank s = section_rank t \<Longrightarrow> s = t"
  by (cases s; cases t) simp_all

instantiation context_section :: linorder
begin

definition less_eq_context_section :: "context_section \<Rightarrow> context_section \<Rightarrow> bool" where
  "less_eq_context_section s t \<longleftrightarrow> section_rank s \<le> section_rank t"

definition less_context_section :: "context_section \<Rightarrow> context_section \<Rightarrow> bool" where
  "less_context_section s t \<longleftrightarrow> section_rank s < section_rank t"

instance
  by standard (auto simp: less_eq_context_section_def less_context_section_def intro: section_rank_inject)

end

datatype selected_entity = SelectedEntity (se_kind: string) (se_id: ulid) (se_revision: u64)

abbreviation entity_key :: "selected_entity \<Rightarrow> string \<times> ulid \<times> u64" where
  "entity_key e \<equiv> (se_kind e, se_id e, se_revision e)"

instantiation selected_entity :: linorder
begin

definition less_eq_selected_entity :: "selected_entity \<Rightarrow> selected_entity \<Rightarrow> bool" where
  "less_eq_selected_entity a b \<longleftrightarrow> entity_key a \<le> entity_key b"

definition less_selected_entity :: "selected_entity \<Rightarrow> selected_entity \<Rightarrow> bool" where
  "less_selected_entity a b \<longleftrightarrow> entity_key a < entity_key b"

instance
proof
  fix a b c :: selected_entity
  show "a < b \<longleftrightarrow> a \<le> b \<and> \<not> b \<le> a" "a \<le> a" "a \<le> b \<or> b \<le> a"
    unfolding less_eq_selected_entity_def less_selected_entity_def by (auto simp only: less_le_not_le linear)
  show "a \<le> b \<Longrightarrow> b \<le> c \<Longrightarrow> a \<le> c"
    unfolding less_eq_selected_entity_def by (rule order_trans)
  show "a \<le> b \<Longrightarrow> b \<le> a \<Longrightarrow> a = b"
    unfolding less_eq_selected_entity_def by (cases a; cases b) (drule (1) antisym, simp)
qed

end

record source_version =
  sv_id :: ulid
  sv_revision :: u64
  sv_fingerprint :: string
  sv_freshness :: freshness
  sv_locator :: string

record context_identity =
  ci_project_id :: ulid
  ci_project_key :: string
  ci_project_revision :: u64
  ci_work_item_id :: ulid
  ci_work_item_key :: string
  ci_work_item_revision :: u64
  ci_branch_id :: "ulid option"
  ci_source_versions :: "source_version list"

record workstream_context_identity =
  wi_version :: u32
  wi_workstream_id :: ulid
  wi_authority_version :: u64
  wi_ownership_revision :: u64
  wi_reader_binding :: string

record context_chunk =
  ck_key :: string
  ck_section :: context_section
  ck_text :: string
  ck_entities :: "selected_entity list"

record ranked_chunk =
  rk_priority :: "16 word"
  rk_recency :: u64
  rk_chunk :: context_chunk

record chunk_selection =
  cs_key :: string
  cs_section :: context_section
  cs_required :: bool
  cs_entities :: "selected_entity list"

record omitted_chunk =
  oc_key :: string
  oc_section :: context_section
  oc_entities :: "selected_entity list"
  oc_reason :: string

record budgeted_context =
  bc_identity :: context_identity
  bc_workstream_identity :: "workstream_context_identity option"
  bc_rendered_context :: string
  bc_context_hash :: string
  bc_token_estimate :: nat
  bc_required_tokens :: nat
  bc_token_budget :: nat
  bc_policy :: string
  bc_selected_chunks :: "chunk_selection list"
  bc_selected_entities :: "selected_entity list"
  bc_omitted_chunks :: "omitted_chunk list"

definition TOKENIZER :: string where "TOKENIZER = ''o200k_base''"
definition BUDGET_POLICY :: string where "BUDGET_POLICY = ''awr.whole_chunks.v1''"
definition WORKSTREAM_BUDGET_POLICY :: string where "WORKSTREAM_BUDGET_POLICY = ''awr.workstream_chunks.v1''"

section \<open>Normal forms of the input\<close>

definition freshness_json :: "freshness \<Rightarrow> json" where
  "freshness_json f = JString (freshness_name f)"

definition u64_json :: "u64 \<Rightarrow> json" where
  "u64_json v = JNumber (JInt (uint v))"

definition source_json :: "(ulid \<Rightarrow> string) \<Rightarrow> source_version \<Rightarrow> json" where
  "source_json show_id s = JObject
     [(''id'', JString (show_id (sv_id s))), (''revision'', u64_json (sv_revision s)),
      (''fingerprint'', JString (sv_fingerprint s)), (''freshness'', freshness_json (sv_freshness s)),
      (''locator'', JString (sv_locator s))]"

text \<open>The \<^verbatim>\<open>BTreeMap\<close> of sources by id: the last entry for an id is kept, and must equal the earlier ones.\<close>

definition insert_source ::
  "(ulid \<Rightarrow> string) \<Rightarrow> (ulid \<rightharpoonup> source_version) \<Rightarrow> source_version \<Rightarrow> (error, ulid \<rightharpoonup> source_version) result" where
  "insert_source show_id sources s =
     then_ok
       (refuse (case sources (sv_id s) of
            Some prior \<Rightarrow> source_json show_id prior \<noteq> source_json show_id s | None \<Rightarrow> False)
         (InvalidInput (''conflicting context source '' @ show_id (sv_id s))))
       (Inr (sources(sv_id s \<mapsto> s)))"

definition normalized_identity ::
  "(ulid \<Rightarrow> string) \<Rightarrow> context_identity \<Rightarrow> (error, context_identity) result" where
  "normalized_identity show_id input =
     then_ok (refuse (trim_empty (ci_project_key input) \<or> trim_empty (ci_work_item_key input))
         (InvalidInput ''context identity keys must not be blank''))
       (and_then (try_fold (insert_source show_id) Map.empty (ci_source_versions input))
         (\<lambda>sources. Inr (input\<lparr>ci_source_versions :=
            map (\<lambda>i. the (sources i)) (sorted_list_of_set (sv_id ` set (ci_source_versions input)))\<rparr>)))"

definition normalize_chunk :: "context_chunk \<Rightarrow> (error, context_chunk) result" where
  "normalize_chunk chunk =
     then_ok (refuse (trim_empty (ck_key chunk) \<or> list_ex (\<lambda>e. trim_empty (se_kind e)) (ck_entities chunk))
         (InvalidInput ''context chunk and entity kinds must have keys''))
       (Inr (chunk\<lparr>ck_entities := remdups_adj (sort (ck_entities chunk))\<rparr>))"

section \<open>Rendering\<close>

abbreviation nl :: string where
  "nl \<equiv> [CHR 0x0A]"

definition show_u64 :: "u64 \<Rightarrow> string" where
  "show_u64 v = show_nat (unat v)"

definition render_header ::
  "(ulid \<Rightarrow> string) \<Rightarrow> context_identity \<Rightarrow> workstream_context_identity option \<Rightarrow> string" where
  "render_header show_id identity scope =
     (let branch = (case ci_branch_id identity of Some i \<Rightarrow> show_id i | None \<Rightarrow> ''main'');
          project = ''Project: '' @ ci_project_key identity @ '' ['' @ show_id (ci_project_id identity) @ '']'';
          work = ''Work: '' @ ci_work_item_key identity @ '' ['' @ show_id (ci_work_item_id identity) @ ''] r''
            @ show_u64 (ci_work_item_revision identity) @ nl @ ''Branch: '' @ branch @ nl @ ''Sources:'' @ nl
      in (case scope of
            Some s \<Rightarrow> project @ nl @ ''Workstream: '' @ show_id (wi_workstream_id s) @ '' | authority ''
              @ show_u64 (wi_authority_version s) @ '' | ownership '' @ show_u64 (wi_ownership_revision s) @ nl @ work
          | None \<Rightarrow> project @ '' r'' @ show_u64 (ci_project_revision identity) @ nl @ work))"

definition render_source ::
  "(ulid \<Rightarrow> string) \<Rightarrow> workstream_context_identity option \<Rightarrow> source_version \<Rightarrow> string" where
  "render_source show_id scope s =
     (if scope \<noteq> None
      then show_id (sv_id s) @ '' '' @ freshness_debug (sv_freshness s) @ '' '' @ sv_locator s @ nl
      else show_id (sv_id s) @ '' r'' @ show_u64 (sv_revision s) @ '' '' @ sv_fingerprint s @ '' ''
        @ freshness_debug (sv_freshness s) @ '' '' @ sv_locator s @ nl)"

definition render_entity :: "(ulid \<Rightarrow> string) \<Rightarrow> selected_entity \<Rightarrow> string" where
  "render_entity show_id e = se_kind e @ '':'' @ show_id (se_id e) @ ''@r'' @ show_u64 (se_revision e) @ nl"

type_synonym segments = "(nat \<times> nat \<times> context_chunk) list"

definition render_chunk ::
  "(ulid \<Rightarrow> string) \<Rightarrow> string \<times> context_section option \<times> segments \<Rightarrow> context_chunk \<times> bool \<Rightarrow>
     string \<times> context_section option \<times> segments" where
  "render_chunk show_id = (\<lambda>(text, section, segs) (chunk, _).
     let text = text @ (if section \<noteq> Some (ck_section chunk)
                        then nl @ ''## '' @ section_title (ck_section chunk) @ nl else [])
           @ ''['' @ ck_key chunk @ '']'' @ nl @ concat (map (render_entity show_id) (ck_entities chunk));
         end = length text + length (ck_text chunk)
     in (text @ ck_text chunk @ nl, Some (ck_section chunk), segs @ [(length text, end, chunk)]))"

abbreviation chunk_key :: "context_chunk \<Rightarrow> context_section \<times> string" where
  "chunk_key c \<equiv> (ck_section c, ck_key c)"

definition render_segments ::
  "(ulid \<Rightarrow> string) \<Rightarrow> context_identity \<Rightarrow> (context_chunk \<times> bool) list \<Rightarrow> nat \<Rightarrow>
     workstream_context_identity option \<Rightarrow> string \<times> segments" where
  "render_segments show_id identity chunks omitted scope =
     (let start = render_header show_id identity scope
            @ concat (map (render_source show_id scope) (ci_source_versions identity));
          ordered = sort_key (\<lambda>(c, _). chunk_key c) chunks;
          (text, _, segs) = foldl (render_chunk show_id) (start, None, []) ordered
      in (text @ nl @ ''Optional chunks omitted: '' @ show_nat omitted
            @ ''. Full details remain available through explicit queries.'' @ nl, segs))"

definition render ::
  "(ulid \<Rightarrow> string) \<Rightarrow> context_identity \<Rightarrow> (context_chunk \<times> bool) list \<Rightarrow> nat \<Rightarrow>
     workstream_context_identity option \<Rightarrow> string" where
  "render show_id identity chunks omitted scope = fst (render_segments show_id identity chunks omitted scope)"

section \<open>Selection\<close>

definition visit_entity ::
  "(ulid \<Rightarrow> string) \<Rightarrow> context_identity \<Rightarrow> (string \<times> ulid \<rightharpoonup> u64) \<Rightarrow> selected_entity \<Rightarrow>
     (error, string \<times> ulid \<rightharpoonup> u64) result" where
  "visit_entity show_id identity versions e =
     then_ok
       (run_checks
         [refuse (case versions (se_kind e, se_id e) of Some r \<Rightarrow> r \<noteq> se_revision e | None \<Rightarrow> False)
            (InvalidInput (''conflicting entity revision '' @ show_id (se_id e))),
          refuse (se_kind e = ''work_item'' \<and> se_id e = ci_work_item_id identity
                  \<and> se_revision e \<noteq> ci_work_item_revision identity)
            (InvalidInput ''work revision conflicts with context identity'')])
       (Inr (versions((se_kind e, se_id e) \<mapsto> se_revision e)))"

definition visit_chunk ::
  "(ulid \<Rightarrow> string) \<Rightarrow> context_identity \<Rightarrow>
     (context_section \<times> string) set \<times> (string \<times> ulid \<rightharpoonup> u64) \<Rightarrow> context_chunk \<Rightarrow>
     (error, (context_section \<times> string) set \<times> (string \<times> ulid \<rightharpoonup> u64)) result" where
  "visit_chunk show_id identity = (\<lambda>(keys, versions) chunk.
     and_then (insert_new (InvalidInput (''duplicate context chunk '' @ ck_key chunk)) keys (chunk_key chunk))
       (\<lambda>keys. and_then (try_fold (visit_entity show_id identity) versions (ck_entities chunk))
         (\<lambda>versions. Inr (keys, versions))))"

definition rank_key :: "ranked_chunk \<Rightarrow> 16 word \<times> int \<times> context_section \<times> string" where
  "rank_key c = (rk_priority c, - uint (rk_recency c), chunk_key (rk_chunk c))"

definition normalize_ranked :: "ranked_chunk \<Rightarrow> (error, ranked_chunk) result" where
  "normalize_ranked c = and_then (normalize_chunk (rk_chunk c)) (\<lambda>n. Inr (c\<lparr>rk_chunk := n\<rparr>))"

type_synonym selection = "(context_chunk \<times> bool) list \<times> nat \<times> omitted_chunk list"

definition omit_chunk :: "context_chunk \<Rightarrow> omitted_chunk" where
  "omit_chunk c = \<lparr>oc_key = ck_key c, oc_section = ck_section c, oc_entities = ck_entities c,
     oc_reason = ''insufficient_budget_for_whole_chunk''\<rparr>"

text \<open>One candidate: \<open>rend\<close> counts the tokens of the whole rendering of a trial.\<close>

definition try_candidate ::
  "((context_chunk \<times> bool) list \<Rightarrow> nat \<Rightarrow> nat) \<Rightarrow> nat \<Rightarrow> nat \<Rightarrow> selection \<Rightarrow> ranked_chunk \<Rightarrow> selection" where
  "try_candidate rend token_budget candidates = (\<lambda>(selected, n, omitted) candidate.
     let trial = selected @ [(rk_chunk candidate, False)] in
     if rend trial (candidates - n - 1) \<le> token_budget then (trial, n + 1, omitted)
     else (selected, n, omitted @ [omit_chunk (rk_chunk candidate)]))"

definition selection_of :: "context_chunk \<times> bool \<Rightarrow> chunk_selection" where
  "selection_of = (\<lambda>(c, required). \<lparr>cs_key = ck_key c, cs_section = ck_section c, cs_required = required,
     cs_entities = ck_entities c\<rparr>)"

section \<open>The digest of the result\<close>

definition id_option_json :: "(ulid \<Rightarrow> string) \<Rightarrow> ulid option \<Rightarrow> json" where
  "id_option_json show_id i = (case i of None \<Rightarrow> JNull | Some v \<Rightarrow> JString (show_id v))"

definition entity_json :: "(ulid \<Rightarrow> string) \<Rightarrow> selected_entity \<Rightarrow> json" where
  "entity_json show_id e = JObject [(''kind'', JString (se_kind e)), (''id'', JString (show_id (se_id e))),
     (''revision'', u64_json (se_revision e))]"

definition entities_json :: "(ulid \<Rightarrow> string) \<Rightarrow> selected_entity list \<Rightarrow> json" where
  "entities_json show_id es = JArray (map (entity_json show_id) es)"

definition selection_json :: "(ulid \<Rightarrow> string) \<Rightarrow> chunk_selection \<Rightarrow> json" where
  "selection_json show_id s = JObject [(''key'', JString (cs_key s)), (''section'', JString (section_name (cs_section s))),
     (''required'', JBool (cs_required s)), (''entities'', entities_json show_id (cs_entities s))]"

definition omitted_json :: "(ulid \<Rightarrow> string) \<Rightarrow> omitted_chunk \<Rightarrow> json" where
  "omitted_json show_id s = JObject [(''key'', JString (oc_key s)), (''section'', JString (section_name (oc_section s))),
     (''entities'', entities_json show_id (oc_entities s)), (''reason'', JString (oc_reason s))]"

definition identity_json :: "(ulid \<Rightarrow> string) \<Rightarrow> context_identity \<Rightarrow> workstream_context_identity option \<Rightarrow> json" where
  "identity_json show_id c scope = (case scope of
     Some s \<Rightarrow> JObject
       [(''project_id'', JString (show_id (ci_project_id c))), (''project_key'', JString (ci_project_key c)),
        (''work_item_id'', JString (show_id (ci_work_item_id c))), (''work_item_key'', JString (ci_work_item_key c)),
        (''work_item_revision'', u64_json (ci_work_item_revision c)),
        (''branch_id'', id_option_json show_id (ci_branch_id c)),
        (''scope'', JObject
          [(''version'', JNumber (JInt (uint (wi_version s)))), (''workstream_id'', JString (show_id (wi_workstream_id s))),
           (''authority_version'', u64_json (wi_authority_version s)),
           (''ownership_revision'', u64_json (wi_ownership_revision s)),
           (''reader_binding'', JString (wi_reader_binding s))]),
        (''sources'', JArray (map (\<lambda>v. JObject [(''id'', JString (show_id (sv_id v))),
            (''locator'', JString (sv_locator v)), (''freshness'', freshness_json (sv_freshness v))])
          (ci_source_versions c)))]
   | None \<Rightarrow> JObject
       [(''project_id'', JString (show_id (ci_project_id c))), (''project_key'', JString (ci_project_key c)),
        (''project_revision'', u64_json (ci_project_revision c)),
        (''work_item_id'', JString (show_id (ci_work_item_id c))), (''work_item_key'', JString (ci_work_item_key c)),
        (''work_item_revision'', u64_json (ci_work_item_revision c)),
        (''branch_id'', id_option_json show_id (ci_branch_id c)),
        (''source_versions'', JArray (map (source_json show_id) (ci_source_versions c)))])"

text \<open>The keys of every object in order; unlike \<open>normalize_json\<close> it never fails.\<close>

fun canonical_value :: "json \<Rightarrow> json" where
  "canonical_value (JObject es) = JObject (sort_key fst (map (\<lambda>(k, v). (k, canonical_value v)) es))"
| "canonical_value (JArray xs) = JArray (map canonical_value xs)"
| "canonical_value v = v"

section \<open>The whole function\<close>

text \<open>The result built from the selection, once it is known to fit.\<close>

definition budget_result ::
  "(string \<Rightarrow> nat) \<Rightarrow> (ulid \<Rightarrow> string) \<Rightarrow> (json \<Rightarrow> string) \<Rightarrow> context_identity \<Rightarrow> json \<Rightarrow> nat \<Rightarrow>
     workstream_context_identity option \<Rightarrow> nat \<Rightarrow> (context_chunk \<times> bool) list \<Rightarrow> omitted_chunk list \<Rightarrow> budgeted_context" where
  "budget_result tc show_id digest identity request_binding token_budget scope required_tokens selected omitted =
     (let rendered = render show_id identity selected (length omitted) scope;
          ordered = sort_key (\<lambda>(c, _). chunk_key c) selected;
          selected_chunks = map selection_of ordered;
          selected_entities = remdups_adj (sort (concat (map (\<lambda>(c, _). ck_entities c) ordered)
            @ [SelectedEntity ''work_item'' (ci_work_item_id identity) (ci_work_item_revision identity)]));
          policy = (if scope \<noteq> None then WORKSTREAM_BUDGET_POLICY else BUDGET_POLICY)
      in \<lparr>bc_identity = identity, bc_workstream_identity = scope, bc_rendered_context = rendered,
          bc_context_hash = digest (canonical_value (JObject
            [(''policy'', JString policy), (''tokenizer'', JString TOKENIZER),
             (''budget'', JNumber (JInt (int token_budget))),
             (''identity'', identity_json show_id identity scope), (''request'', request_binding),
             (''selected_chunks'', JArray (map (selection_json show_id) selected_chunks)),
             (''selected_entities'', entities_json show_id selected_entities),
             (''omitted_chunks'', JArray (map (omitted_json show_id) omitted)),
             (''rendered_context'', JString rendered)])),
          bc_token_estimate = tc rendered, bc_required_tokens = required_tokens,
          bc_token_budget = token_budget, bc_policy = policy, bc_selected_chunks = selected_chunks,
          bc_selected_entities = selected_entities, bc_omitted_chunks = omitted\<rparr>)"

text \<open>The selection from normal, sorted and checked chunks.\<close>

definition select_chunks ::
  "(string \<Rightarrow> nat) \<Rightarrow> (ulid \<Rightarrow> string) \<Rightarrow> (json \<Rightarrow> string) \<Rightarrow> context_identity \<Rightarrow> json \<Rightarrow> nat \<Rightarrow>
     workstream_context_identity option \<Rightarrow> context_chunk list \<Rightarrow> ranked_chunk list \<Rightarrow> (error, budgeted_context) result" where
  "select_chunks tc show_id digest identity request_binding token_budget scope required optional =
     (let rend = (\<lambda>chunks omitted. tc (render show_id identity chunks omitted scope));
          selected = map (\<lambda>c. (c, True)) required;
          required_tokens = rend selected (length optional)
      in then_ok (refuse (required_tokens > token_budget) (BudgetExceeded required_tokens token_budget))
         (case foldl (try_candidate rend token_budget (length optional)) (selected, 0, []) optional of
            (selected, _, omitted) \<Rightarrow>
              let token_estimate = rend selected (length omitted)
              in then_ok (refuse (token_estimate > token_budget) (BudgetExceeded token_estimate token_budget))
                 (Inr (budget_result tc show_id digest identity request_binding token_budget scope
                    required_tokens selected omitted))))"

definition budget_context_selected ::
  "(string \<Rightarrow> nat) \<Rightarrow> (ulid \<Rightarrow> string) \<Rightarrow> (json \<Rightarrow> string) \<Rightarrow> context_identity \<Rightarrow> json \<Rightarrow> context_chunk list \<Rightarrow>
     ranked_chunk list \<Rightarrow> nat \<Rightarrow> workstream_context_identity option \<Rightarrow> (error, budgeted_context) result" where
  "budget_context_selected tc show_id digest identity request_binding required optional token_budget scope =
     then_ok (refuse (token_budget = 0 \<or> token_budget > 100000)
         (InvalidInput ''context token budget must be 1..100000''))
     (and_then (normalized_identity show_id identity) (\<lambda>identity.
      and_then (collect_results (map normalize_chunk required)) (\<lambda>required.
      and_then (collect_results (map normalize_ranked optional)) (\<lambda>optional.
      let optional = sort_key rank_key optional in
      and_then (try_fold (visit_chunk show_id identity) ({}, Map.empty) (required @ map rk_chunk optional)) (\<lambda>_.
        select_chunks tc show_id digest identity request_binding token_budget scope required optional)))))"

definition budget_context ::
  "(string \<Rightarrow> nat) \<Rightarrow> (ulid \<Rightarrow> string) \<Rightarrow> (json \<Rightarrow> string) \<Rightarrow> context_identity \<Rightarrow> json \<Rightarrow> context_chunk list \<Rightarrow>
     ranked_chunk list \<Rightarrow> nat \<Rightarrow> (error, budgeted_context) result" where
  "budget_context tc show_id digest identity request_binding required optional token_budget =
     budget_context_selected tc show_id digest identity request_binding required optional token_budget None"

definition budget_workstream_context ::
  "(string \<Rightarrow> nat) \<Rightarrow> (ulid \<Rightarrow> string) \<Rightarrow> (json \<Rightarrow> string) \<Rightarrow> context_identity \<Rightarrow> workstream_context_identity \<Rightarrow>
     json \<Rightarrow> context_chunk list \<Rightarrow> ranked_chunk list \<Rightarrow> nat \<Rightarrow> (error, budgeted_context) result" where
  "budget_workstream_context tc show_id digest identity scope request_binding required optional token_budget =
     then_ok
       (refuse (wi_version scope \<noteq> 1 \<or> wi_authority_version scope = 0 \<or> wi_ownership_revision scope = 0
                \<or> wi_reader_binding scope = [])
         (InvalidInput ''invalid workstream context identity''))
       (budget_context_selected tc show_id digest identity request_binding required optional token_budget (Some scope))"

end
