(* ===== verification/Budget_Laws.thy ===== *)
theory Budget_Laws
  imports Context_Budget
begin

text \<open>
  Laws of the context budget of \<open>Context_Budget\<close>, for an arbitrary tokenizer: the result fits, keeps
  every required chunk verbatim, accounts for every optional one, and depends on the input chunks but
  not on their order.
\<close>

section \<open>The snapshot check does not depend on the order\<close>

abbreviation entity_slot :: "selected_entity \<Rightarrow> string \<times> ulid" where
  "entity_slot e \<equiv> (se_kind e, se_id e)"

text \<open>A map and the values to be recorded in it agree, slot by slot.\<close>

definition slots_ok :: "('k \<rightharpoonup> 'r) \<Rightarrow> ('a \<Rightarrow> 'k) \<Rightarrow> ('a \<Rightarrow> 'r) \<Rightarrow> 'a set \<Rightarrow> bool" where
  "slots_ok V k r A \<longleftrightarrow>
     (\<forall>x\<in>A. V (k x) \<in> {None, Some (r x)}) \<and> (\<forall>a\<in>A. \<forall>b\<in>A. k a = k b \<longrightarrow> r a = r b)"

lemma slots_ok_insert:
  "slots_ok V k r (insert e A) \<longleftrightarrow> V (k e) \<in> {None, Some (r e)} \<and> slots_ok (V(k e \<mapsto> r e)) k r A"
proof
  assume L: "slots_ok V k r (insert e A)"
  have same: "r x = r e" if "x \<in> A" "k x = k e" for x using L that unfolding slots_ok_def by blast
  have "(V(k e \<mapsto> r e)) (k x) \<in> {None, Some (r x)}" if "x \<in> A" for x
  proof (cases "k x = k e")
    case True
    with same[OF that] show ?thesis by simp
  next
    case False
    have "V (k x) \<in> {None, Some (r x)}" using L that unfolding slots_ok_def by blast
    with False show ?thesis by simp
  qed
  with L show "V (k e) \<in> {None, Some (r e)} \<and> slots_ok (V(k e \<mapsto> r e)) k r A"
    unfolding slots_ok_def by (intro conjI ballI) blast+
next
  assume R: "V (k e) \<in> {None, Some (r e)} \<and> slots_ok (V(k e \<mapsto> r e)) k r A"
  have same: "r x = r e" if "x \<in> A" "k x = k e" for x
  proof -
    have "(V(k e \<mapsto> r e)) (k x) \<in> {None, Some (r x)}" using R that(1) unfolding slots_ok_def by blast
    with that(2) show ?thesis by simp
  qed
  have "V (k x) \<in> {None, Some (r x)}" if "x \<in> A" for x
  proof (cases "k x = k e")
    case True
    with R same[OF that True] show ?thesis by simp
  next
    case False
    have "(V(k e \<mapsto> r e)) (k x) \<in> {None, Some (r x)}" using R that unfolding slots_ok_def by blast
    with False show ?thesis by simp
  qed
  moreover have "r e = r x" if "x \<in> A" "k e = k x" for x using same[OF that(1)] that(2) by simp
  ultimately show "slots_ok V k r (insert e A)"
    using R same unfolding slots_ok_def by (intro conjI ballI) blast+
qed
definition one_revision :: "(string \<times> ulid \<rightharpoonup> u64) \<Rightarrow> selected_entity list \<Rightarrow> bool" where
  "one_revision versions es \<longleftrightarrow> slots_ok versions entity_slot se_revision (set es)"

definition work_revision_ok :: "context_identity \<Rightarrow> selected_entity list \<Rightarrow> bool" where
  "work_revision_ok identity es \<longleftrightarrow>
     (\<forall>e\<in>set es. se_kind e = ''work_item'' \<longrightarrow> se_id e = ci_work_item_id identity \<longrightarrow>
        se_revision e = ci_work_item_revision identity)"

definition record_versions :: "(string \<times> ulid \<rightharpoonup> u64) \<Rightarrow> selected_entity list \<Rightarrow> (string \<times> ulid \<rightharpoonup> u64)" where
  "record_versions versions es = foldl (\<lambda>v e. v(entity_slot e \<mapsto> se_revision e)) versions es"

lemma one_revision_Cons:
  "one_revision versions (e # es) \<longleftrightarrow>
     versions (entity_slot e) \<in> {None, Some (se_revision e)}
     \<and> one_revision (versions(entity_slot e \<mapsto> se_revision e)) es"
  unfolding one_revision_def list.set by (rule slots_ok_insert)

lemma one_revision_Nil [simp]: "one_revision versions []"
  by (simp add: one_revision_def slots_ok_def)

lemma record_versions_simps [simp]:
  "record_versions versions [] = versions"
  "record_versions versions (e # es) = record_versions (versions(entity_slot e \<mapsto> se_revision e)) es"
  by (simp_all add: record_versions_def)

lemma one_revision_append:
  "one_revision versions (es @ fs) \<longleftrightarrow> one_revision versions es \<and> one_revision (record_versions versions es) fs"
proof (induction es arbitrary: versions)
  case Nil
  show ?case by simp
next
  case (Cons e es)
  show ?case by (simp add: one_revision_Cons Cons del: fun_upd_apply)
qed

lemma visit_entities_ok:
  "try_fold (visit_entity show_id identity) versions es = Inr v \<longleftrightarrow>
     one_revision versions es \<and> work_revision_ok identity es \<and> v = record_versions versions es"
proof (induction es arbitrary: versions)
  case Nil
  show ?case by (auto simp: work_revision_ok_def)
next
  case (Cons e es)
  have "visit_entity show_id identity versions e = Inr w \<longleftrightarrow>
      versions (entity_slot e) \<in> {None, Some (se_revision e)} \<and> work_revision_ok identity [e]
      \<and> w = versions(entity_slot e \<mapsto> se_revision e)" for w
    by (cases "versions (entity_slot e)") (auto simp: visit_entity_def work_revision_ok_def)
  then show ?case
    by (auto simp: Cons one_revision_Cons work_revision_ok_def simp del: fun_upd_apply)
qed

lemma visit_chunks_ok:
  "is_ok (try_fold (visit_chunk show_id identity) (keys, versions) cs) \<longleftrightarrow>
     distinct (map chunk_key cs) \<and> chunk_key ` set cs \<inter> keys = {}
     \<and> one_revision versions (concat (map ck_entities cs))
     \<and> work_revision_ok identity (concat (map ck_entities cs))"
proof (induction cs arbitrary: keys versions)
  case Nil
  show ?case by (simp add: work_revision_ok_def)
next
  case (Cons c cs)
  have step: "visit_chunk show_id identity (keys, versions) c = Inr st \<longleftrightarrow>
      chunk_key c \<notin> keys \<and> one_revision versions (ck_entities c) \<and> work_revision_ok identity (ck_entities c)
      \<and> st = (insert (chunk_key c) keys, record_versions versions (ck_entities c))" for st
    by (auto simp: visit_chunk_def visit_entities_ok)
  have "is_ok (try_fold (visit_chunk show_id identity) (keys, versions) (c # cs)) \<longleftrightarrow>
      chunk_key c \<notin> keys \<and> one_revision versions (ck_entities c) \<and> work_revision_ok identity (ck_entities c)
      \<and> is_ok (try_fold (visit_chunk show_id identity)
          (insert (chunk_key c) keys, record_versions versions (ck_entities c)) cs)"
    by (auto simp: is_ok_iff step)
  then show ?case by (auto simp: Cons one_revision_append work_revision_ok_def)
qed

lemma visit_chunks_perm:
  assumes "mset cs = mset ds" and "is_ok (try_fold (visit_chunk show_id identity) ({}, Map.empty) cs)"
  shows "is_ok (try_fold (visit_chunk show_id identity) ({}, Map.empty) ds)"
proof -
  have "set cs = set ds" using assms(1) by (rule mset_eq_setD)
  moreover have "mset (map chunk_key cs) = mset (map chunk_key ds)" using assms(1) by (metis mset_map)
  then have "distinct (map chunk_key cs) = distinct (map chunk_key ds)" by (rule mset_eq_imp_distinct_iff)
  moreover have "set (concat (map ck_entities cs)) = set (concat (map ck_entities ds))"
    using calculation(1) by simp
  ultimately show ?thesis
    using assms(2) unfolding visit_chunks_ok one_revision_def work_revision_ok_def by simp
qed

section \<open>The selection loop\<close>

lemma candidates_accounted:
  assumes "foldl (try_candidate rend B N) (S, n, om) cs = (S', n', om')" and "rend S (N - n) \<le> B"
  shows "\<exists>acc rej. S' = S @ map (\<lambda>c. (rk_chunk c, False)) acc \<and> n' = n + length acc
     \<and> om' = om @ map (\<lambda>c. omit_chunk (rk_chunk c)) rej \<and> mset cs = mset acc + mset rej \<and> rend S' (N - n') \<le> B"
  using assms
proof (induction cs arbitrary: S n om)
  case Nil
  then show ?case by auto
next
  case (Cons c cs)
  let ?T = "S @ [(rk_chunk c, False)]"
  show ?case
  proof (cases "rend ?T (N - n - 1) \<le> B")
    case True
    with Cons.prems(1) have "foldl (try_candidate rend B N) (?T, n + 1, om) cs = (S', n', om')"
      by (simp add: try_candidate_def)
    from Cons.IH[OF this] True obtain acc rej where "S' = ?T @ map (\<lambda>c. (rk_chunk c, False)) acc"
      "n' = n + 1 + length acc" "om' = om @ map (\<lambda>c. omit_chunk (rk_chunk c)) rej"
      "mset cs = mset acc + mset rej" "rend S' (N - n') \<le> B" by auto
    then show ?thesis by (intro exI[of _ "c # acc"] exI[of _ rej]) simp
  next
    case False
    with Cons.prems(1) have "foldl (try_candidate rend B N) (S, n, om @ [omit_chunk (rk_chunk c)]) cs = (S', n', om')"
      by (simp add: try_candidate_def)
    from Cons.IH[OF this Cons.prems(2)] obtain acc rej where "S' = S @ map (\<lambda>c. (rk_chunk c, False)) acc"
      "n' = n + length acc" "om' = om @ [omit_chunk (rk_chunk c)] @ map (\<lambda>c. omit_chunk (rk_chunk c)) rej"
      "mset cs = mset acc + mset rej" "rend S' (N - n') \<le> B" by auto
    then show ?thesis by (intro exI[of _ acc] exI[of _ "c # rej"]) simp
  qed
qed

text \<open>
  The number written as omitted at the end is the number that was counted in the last trial, so the
  final check of the code cannot fail.
\<close>

lemma selection_fits:
  assumes "foldl (try_candidate rend B (length cs)) (S, 0, []) cs = (S', n', om')" and "rend S (length cs) \<le> B"
  shows "rend S' (length om') \<le> B"
proof -
  from candidates_accounted[OF assms(1)] assms(2) obtain acc rej where "n' = length acc"
    "om' = map (\<lambda>c. omit_chunk (rk_chunk c)) rej" "mset cs = mset acc + mset rej" and fits: "rend S' (length cs - n') \<le> B"
    by auto
  moreover from this(3) have "length cs = length acc + length rej" by (metis size_mset size_union)
  ultimately show ?thesis by simp
qed

text \<open>A count that ignores the order of the selection makes the same choices.\<close>

lemma candidates_perm:
  assumes "\<And>S T m. mset S = mset T \<Longrightarrow> set S \<subseteq> A \<Longrightarrow> rend S m = rend T m" and "mset S = mset T"
    and "set S \<subseteq> A" and "(\<lambda>c. (rk_chunk c, False)) ` set cs \<subseteq> A"
    and "foldl (try_candidate rend B N) (S, n, om) cs = (S', n', om')"
  shows "\<exists>T'. foldl (try_candidate rend B N) (T, n, om) cs = (T', n', om') \<and> mset S' = mset T' \<and> set S' \<subseteq> A"
  using assms(2-5)
proof (induction cs arbitrary: S T n om)
  case Nil
  then show ?case by auto
next
  case (Cons c cs)
  let ?S = "S @ [(rk_chunk c, False)]" and ?T = "T @ [(rk_chunk c, False)]"
  have m: "mset ?S = mset ?T" "set ?S \<subseteq> A" using Cons.prems by auto
  have same: "rend ?T (N - n - 1) = rend ?S (N - n - 1)" using assms(1)[OF m] by simp
  show ?case
  proof (cases "rend ?S (N - n - 1) \<le> B")
    case True
    with Cons.prems have "foldl (try_candidate rend B N) (?S, n + 1, om) cs = (S', n', om')"
      by (simp add: try_candidate_def)
    from Cons.IH[OF m _ this] Cons.prems(3) True same show ?thesis by (simp add: try_candidate_def)
  next
    case False
    with Cons.prems have "foldl (try_candidate rend B N) (S, n, om @ [omit_chunk (rk_chunk c)]) cs = (S', n', om')"
      by (simp add: try_candidate_def)
    from Cons.IH[OF Cons.prems(1,2) _ this] Cons.prems(3) False same show ?thesis by (simp add: try_candidate_def)
  qed
qed

section \<open>Rendering\<close>

lemma render_chunks_verbatim:
  assumes "foldl (render_chunk show_id) (t, s, g) cs = (t', s', g')"
  shows "prefix t t' \<and> (\<forall>c\<in>fst ` set cs. sublist (ck_text c) t')"
  using assms
proof (induction cs arbitrary: t s g)
  case Nil
  then show ?case by simp
next
  case (Cons c cs)
  obtain chunk b where c: "c = (chunk, b)" by (cases c)
  obtain pre where step: "render_chunk show_id (t, s, g) c = (t @ pre @ ck_text chunk @ nl, Some (ck_section chunk),
      g @ [(length (t @ pre), length (t @ pre) + length (ck_text chunk), chunk)])"
    by (auto simp: render_chunk_def c Let_def)
  with Cons.prems have "foldl (render_chunk show_id) (t @ pre @ ck_text chunk @ nl, Some (ck_section chunk),
      g @ [(length (t @ pre), length (t @ pre) + length (ck_text chunk), chunk)]) cs = (t', s', g')"
    by simp
  from Cons.IH[OF this] obtain rest where t': "t' = t @ pre @ ck_text chunk @ nl @ rest"
    and all: "\<forall>c\<in>fst ` set cs. sublist (ck_text c) t'"
    by (auto simp: prefix_def)
  have "t' = (t @ pre) @ ck_text chunk @ (nl @ rest)" using t' by simp
  then have "sublist (ck_text chunk) t'" unfolding sublist_def by blast
  with all t' c show ?case by auto
qed

lemma render_verbatim:
  assumes "c \<in> fst ` set chunks"
  shows "sublist (ck_text c) (render show_id identity chunks m scope)"
proof -
  let ?start = "render_header show_id identity scope @ concat (map (render_source show_id scope) (ci_source_versions identity))"
  obtain t s g where fold: "foldl (render_chunk show_id) (?start, None, []) (sort_key (\<lambda>(c, _). chunk_key c) chunks) = (t, s, g)"
    by (rule prod_cases3)
  have "sublist (ck_text c) t" using render_chunks_verbatim[OF fold] assms by auto
  then show ?thesis unfolding render_def render_segments_def Let_def fold
    by (auto intro: sublist_order.order.trans[OF _ sublist_append_rightI])
qed

lemma render_perm:
  assumes "mset S = mset T" and "inj_on (\<lambda>(c, _). chunk_key c) (set S)"
  shows "render show_id identity S m scope = render show_id identity T m scope"
  unfolding render_def render_segments_def sort_key_eq_sort_key[OF assms] ..

section \<open>Properties\<close>

text \<open>A successful call, step by step.\<close>

lemma budget_ok:
  "budget_context_selected tc show_id digest identity binding required optional B scope = Inr ctx \<longleftrightarrow>
     (\<exists>ident reqs opts. 0 < B \<and> B \<le> 100000 \<and> normalized_identity show_id identity = Inr ident
        \<and> collect_results (map normalize_chunk required) = Inr reqs
        \<and> collect_results (map normalize_ranked optional) = Inr opts
        \<and> is_ok (try_fold (visit_chunk show_id ident) ({}, Map.empty) (reqs @ map rk_chunk (sort_key rank_key opts)))
        \<and> select_chunks tc show_id digest ident binding B scope reqs (sort_key rank_key opts) = Inr ctx)"
  by (auto simp: budget_context_selected_def Let_def is_ok_iff)

lemma select_ok:
  "select_chunks tc show_id digest ident binding B scope reqs opts = Inr ctx \<longleftrightarrow>
     tc (render show_id ident (map (\<lambda>c. (c, True)) reqs) (length opts) scope) \<le> B
     \<and> (\<exists>S n om. foldl (try_candidate (\<lambda>chunks m. tc (render show_id ident chunks m scope)) B (length opts))
            (map (\<lambda>c. (c, True)) reqs, 0, []) opts = (S, n, om)
          \<and> ctx = budget_result tc show_id digest ident binding B scope
              (tc (render show_id ident (map (\<lambda>c. (c, True)) reqs) (length opts) scope)) S om)"
  using selection_fits[of "\<lambda>chunks m. tc (render show_id ident chunks m scope)" B opts "map (\<lambda>c. (c, True)) reqs"]
  by (fastforce simp: select_chunks_def Let_def split: prod.splits)

lemma normalized_chunks:
  assumes "collect_results (map normalize_chunk cs) = Inr ds"
  shows "ds = map (\<lambda>c. c\<lparr>ck_entities := remdups_adj (sort (ck_entities c))\<rparr>) cs"
  using assms by (induction cs arbitrary: ds) (auto simp: normalize_chunk_def)

lemma normalized_ranked:
  assumes "collect_results (map normalize_ranked cs) = Inr ds"
  shows "map rk_chunk ds = map (\<lambda>c. c\<lparr>ck_entities := remdups_adj (sort (ck_entities c))\<rparr>) (map rk_chunk cs)"
  using assms by (induction cs arbitrary: ds) (auto simp: normalize_ranked_def normalize_chunk_def)

text \<open>A context that is returned, taken apart: the chunks that were selected and those that were not.\<close>

lemma budget_decomposed:
  assumes "budget_context_selected tc show_id digest identity binding required optional B scope = Inr ctx"
  obtains ident and acc rej :: "ranked_chunk list" and S om
  where "S = map (\<lambda>c. (c\<lparr>ck_entities := remdups_adj (sort (ck_entities c))\<rparr>, True)) required
           @ map (\<lambda>c. (rk_chunk c, False)) acc"
    and "om = map (\<lambda>c. omit_chunk (rk_chunk c)) rej"
    and "rk_chunk ` (set acc \<union> set rej)
           = (\<lambda>c. c\<lparr>ck_entities := remdups_adj (sort (ck_entities c))\<rparr>) ` rk_chunk ` set optional"
    and "length optional = length acc + length rej"
    and "bc_rendered_context ctx = render show_id ident S (length om) scope"
    and "bc_token_estimate ctx = tc (render show_id ident S (length om) scope)"
    and "bc_omitted_chunks ctx = om"
    and "bc_selected_chunks ctx = map selection_of (sort_key (\<lambda>(c, _). chunk_key c) S)"
    and "tc (render show_id ident S (length om) scope) \<le> B"
proof -
  from assms obtain ident reqs opts
    where req: "collect_results (map normalize_chunk required) = Inr reqs"
      and opt: "collect_results (map normalize_ranked optional) = Inr opts"
      and sel: "select_chunks tc show_id digest ident binding B scope reqs (sort_key rank_key opts) = Inr ctx"
    unfolding budget_ok by blast
  let ?rend = "\<lambda>chunks m. tc (render show_id ident chunks m scope)"
  from sel obtain S n om where fits0: "?rend (map (\<lambda>c. (c, True)) reqs) (length (sort_key rank_key opts)) \<le> B"
    and fold: "foldl (try_candidate ?rend B (length (sort_key rank_key opts))) (map (\<lambda>c. (c, True)) reqs, 0, [])
        (sort_key rank_key opts) = (S, n, om)"
    and ctx: "ctx = budget_result tc show_id digest ident binding B scope
        (?rend (map (\<lambda>c. (c, True)) reqs) (length (sort_key rank_key opts))) S om"
    unfolding select_ok by blast
  from candidates_accounted[OF fold] fits0 obtain acc rej
    where S: "S = map (\<lambda>c. (c, True)) reqs @ map (\<lambda>c. (rk_chunk c, False)) acc"
      and om: "om = map (\<lambda>c. omit_chunk (rk_chunk c)) rej" and split: "mset opts = mset acc + mset rej"
    by auto
  have sets: "set opts = set acc \<union> set rej" by (metis set_mset_mset set_mset_union split)
  show thesis
  proof (rule that[where S = S and acc = acc and rej = rej and om = om and ident = ident])
    show "S = map (\<lambda>c. (c\<lparr>ck_entities := remdups_adj (sort (ck_entities c))\<rparr>, True)) required
        @ map (\<lambda>c. (rk_chunk c, False)) acc"
      unfolding S normalized_chunks[OF req] by simp
    show "rk_chunk ` (set acc \<union> set rej)
        = (\<lambda>c. c\<lparr>ck_entities := remdups_adj (sort (ck_entities c))\<rparr>) ` rk_chunk ` set optional"
      unfolding sets[symmetric] using normalized_ranked[OF opt] by (metis list.set_map)
    show "length optional = length acc + length rej"
      using arg_cong[OF normalized_ranked[OF opt], of length] arg_cong[OF split, of size] by simp
    show "?rend S (length om) \<le> B" using selection_fits[OF fold fits0] .
  qed (simp_all add: om ctx budget_result_def Let_def)
qed

text \<open>
  C27: A context that is returned fits its budget, whatever the tokenizer. Its token count is that of the
  rendered text and within the budget; every required chunk is selected as required and appears verbatim
  in the text; every optional chunk is either selected, and then appears verbatim, or reported as omitted;
  and the selected and omitted chunks together are exactly as many as were given.
\<close>
theorem context_fits_and_keeps_required:
  assumes "budget_context_selected tc show_id digest identity binding required optional B scope = Inr ctx"
  shows "bc_token_estimate ctx = tc (bc_rendered_context ctx) \<and> bc_token_estimate ctx \<le> B
     \<and> (\<forall>c\<in>set required. sublist (ck_text c) (bc_rendered_context ctx)
          \<and> (\<exists>s\<in>set (bc_selected_chunks ctx). cs_key s = ck_key c \<and> cs_section s = ck_section c \<and> cs_required s))
     \<and> (\<forall>c\<in>rk_chunk ` set optional.
          (sublist (ck_text c) (bc_rendered_context ctx)
             \<and> (\<exists>s\<in>set (bc_selected_chunks ctx). cs_key s = ck_key c \<and> cs_section s = ck_section c \<and> \<not> cs_required s))
          \<or> (\<exists>o'\<in>set (bc_omitted_chunks ctx). oc_key o' = ck_key c \<and> oc_section o' = ck_section c))
     \<and> length (bc_selected_chunks ctx) + length (bc_omitted_chunks ctx) = length required + length optional"
proof -
  let ?norm = "\<lambda>c. c\<lparr>ck_entities := remdups_adj (sort (ck_entities c))\<rparr>"
  from assms obtain ident and acc rej :: "ranked_chunk list" and S om
    where S: "S = map (\<lambda>c. (?norm c, True)) required @ map (\<lambda>c. (rk_chunk c, False)) acc"
      and om: "om = map (\<lambda>c. omit_chunk (rk_chunk c)) rej"
      and sets: "rk_chunk ` (set acc \<union> set rej) = ?norm ` rk_chunk ` set optional"
      and lens: "length optional = length acc + length rej"
      and rendered: "bc_rendered_context ctx = render show_id ident S (length om) scope"
        "bc_token_estimate ctx = tc (render show_id ident S (length om) scope)" "bc_omitted_chunks ctx = om"
        "bc_selected_chunks ctx = map selection_of (sort_key (\<lambda>(c, _). chunk_key c) S)"
      and fits: "tc (render show_id ident S (length om) scope) \<le> B"
    by (rule budget_decomposed)
  have chosen: "sublist (ck_text c) (bc_rendered_context ctx)
      \<and> (\<exists>s\<in>set (bc_selected_chunks ctx). cs_key s = ck_key c \<and> cs_section s = ck_section c \<and> cs_required s = b)"
    if "(?norm c, b) \<in> set S" for c b
  proof
    from that have "?norm c \<in> fst ` set S" by force
    from render_verbatim[OF this] show "sublist (ck_text c) (bc_rendered_context ctx)" unfolding rendered by simp
    from that show "\<exists>s\<in>set (bc_selected_chunks ctx). cs_key s = ck_key c \<and> cs_section s = ck_section c \<and> cs_required s = b"
      unfolding rendered by (intro bexI[of _ "selection_of (?norm c, b)"]) (simp add: selection_of_def, simp)
  qed
  have "(sublist (ck_text c) (bc_rendered_context ctx)
        \<and> (\<exists>s\<in>set (bc_selected_chunks ctx). cs_key s = ck_key c \<and> cs_section s = ck_section c \<and> \<not> cs_required s))
      \<or> (\<exists>o'\<in>set (bc_omitted_chunks ctx). oc_key o' = ck_key c \<and> oc_section o' = ck_section c)"
    if "c \<in> rk_chunk ` set optional" for c
  proof -
    have "?norm c \<in> rk_chunk ` (set acc \<union> set rej)" unfolding sets using that by blast
    then consider "(?norm c, False) \<in> set S" | "omit_chunk (?norm c) \<in> set om"
      unfolding S om by auto
    then show ?thesis
    proof cases
      case 1
      from chosen[OF 1] show ?thesis by simp
    next
      case 2
      then show ?thesis unfolding rendered(3) by (intro disjI2 bexI[of _ "omit_chunk (?norm c)"]) (simp_all add: omit_chunk_def)
    qed
  qed
  moreover have "(?norm c, True) \<in> set S" if "c \<in> set required" for c using that by (auto simp: S)
  moreover have "length (bc_selected_chunks ctx) + length (bc_omitted_chunks ctx) = length required + length optional"
    using lens unfolding rendered by (simp add: S om)
  ultimately show ?thesis using chosen[of _ True] fits unfolding rendered(2) rendered(1)[symmetric] by simp
qed

definition ex_identity :: context_identity where
  "ex_identity = \<lparr>ci_project_id = 1, ci_project_key = ''P'', ci_project_revision = 1, ci_work_item_id = 2,
     ci_work_item_key = ''W'', ci_work_item_revision = 3, ci_branch_id = None, ci_source_versions = []\<rparr>"

definition ex_chunk :: "context_section \<Rightarrow> string \<Rightarrow> string \<Rightarrow> context_chunk" where
  "ex_chunk section key text = \<lparr>ck_key = key, ck_section = section, ck_text = text, ck_entities = []\<rparr>"

definition ex_ranked :: "16 word \<Rightarrow> context_chunk \<Rightarrow> ranked_chunk" where
  "ex_ranked p c = \<lparr>rk_priority = p, rk_recency = 1, rk_chunk = c\<rparr>"

text \<open>A tokenizer that counts bytes; the long decision does not fit, the short one after it does.\<close>

definition ex_budget :: "ranked_chunk list \<Rightarrow> (error, budgeted_context) result" where
  "ex_budget optional = budget_context_selected length (\<lambda>_. ''i'') (\<lambda>_. ''h'') ex_identity JNull
     [ex_chunk CsWork ''w'' ''do it''] optional 190 None"

definition ex_optional :: "ranked_chunk list" where
  "ex_optional = [ex_ranked 1 (ex_chunk CsDecisions ''d1'' (replicate 30 CHR ''x'')), ex_ranked 2 (ex_chunk CsDecisions ''d2'' ''y'')]"

lemma ex_budget_ok: "is_ok (ex_budget ex_optional)"
  by code_simp

theorem context_fits_and_keeps_required_witness:
  "\<exists>ctx. ex_budget ex_optional = Inr ctx \<and> sublist ''do it'' (bc_rendered_context ctx) \<and> bc_token_estimate ctx \<le> 190"
proof -
  from ex_budget_ok obtain ctx where run: "ex_budget ex_optional = Inr ctx" by (auto simp: is_ok_iff)
  from context_fits_and_keeps_required[OF run[unfolded ex_budget_def]] run show ?thesis
    by (simp add: ex_chunk_def)
qed

text \<open>
  C39: A refusal for the budget is about the required chunks alone: the count it reports is that of the
  required chunks rendered with every optional one omitted, and it exceeds the budget. The second check
  of the code, after the selection, never fires, although the tokenizer is arbitrary.
\<close>
theorem budget_refusal_is_about_required:
  assumes "budget_context_selected tc show_id digest identity binding required optional B scope
      = Inl (BudgetExceeded needed limit)"
  shows "limit = B \<and> B < needed \<and> (\<exists>ident reqs. normalized_identity show_id identity = Inr ident
     \<and> collect_results (map normalize_chunk required) = Inr reqs
     \<and> needed = tc (render show_id ident (map (\<lambda>c. (c, True)) reqs) (length optional) scope))"
proof -
  have chunk: "normalize_chunk c \<noteq> Inl (BudgetExceeded n m)" for c n m by (simp add: normalize_chunk_def)
  have source: "try_fold (insert_source show_id) m ss \<noteq> Inl (BudgetExceeded n k)" for m ss n k
    by (induction ss arbitrary: m) (auto simp: insert_source_def)
  have "normalized_identity show_id identity \<noteq> Inl (BudgetExceeded n k)" for n k
    by (auto simp: normalized_identity_def source)
  moreover have entity: "try_fold (visit_entity show_id i) v es \<noteq> Inl (BudgetExceeded n k)" for i v es n k
    by (induction es arbitrary: v) (auto simp: visit_entity_def)
  have "try_fold (visit_chunk show_id i) st cs \<noteq> Inl (BudgetExceeded n k)" for i st cs n k
    by (induction cs arbitrary: st) (auto simp: visit_chunk_def entity)
  moreover have "collect_results (map normalize_chunk cs) \<noteq> Inl (BudgetExceeded n k)" for cs n k
    using chunk by (metis collect_results_err imageE list.set_map)
  moreover have "normalize_ranked c \<noteq> Inl (BudgetExceeded n k)" for c n k
    by (simp add: normalize_ranked_def chunk)
  then have "collect_results (map normalize_ranked cs) \<noteq> Inl (BudgetExceeded n k)" for cs n k
    by (metis collect_results_err imageE list.set_map)
  ultimately obtain ident reqs opts where steps: "normalized_identity show_id identity = Inr ident"
      "collect_results (map normalize_chunk required) = Inr reqs"
      "collect_results (map normalize_ranked optional) = Inr opts"
    and sel: "select_chunks tc show_id digest ident binding B scope reqs (sort_key rank_key opts) = Inl (BudgetExceeded needed limit)"
    using assms by (auto simp: budget_context_selected_def Let_def)
  have "length opts = length optional" using arg_cong[OF normalized_ranked[OF steps(3)], of length] by simp
  with sel selection_fits[of "\<lambda>chunks m. tc (render show_id ident chunks m scope)" B "sort_key rank_key opts" "map (\<lambda>c. (c, True)) reqs"]
  show ?thesis using steps(1,2) by (fastforce simp: select_chunks_def Let_def split: prod.splits)
qed

theorem budget_refusal_is_about_required_witness:
  "\<exists>needed. budget_context_selected length (\<lambda>_. ''i'') (\<lambda>_. ''h'') ex_identity JNull [ex_chunk CsWork ''w'' ''do it'']
     ex_optional 100 None = Inl (BudgetExceeded needed 100) \<and> 100 < needed"
proof -
  have run: "budget_context_selected length (\<lambda>_. ''i'') (\<lambda>_. ''h'') ex_identity JNull [ex_chunk CsWork ''w'' ''do it'']
     ex_optional 100 None = Inl (BudgetExceeded 167 100)" by code_simp
  from budget_refusal_is_about_required[OF run] run show ?thesis by blast
qed

lemma inj_on_tagged:
  assumes "inj_on f R" and "inj_on (\<lambda>c. f (g c)) Q" and "\<And>c d. c \<in> R \<Longrightarrow> d \<in> Q \<Longrightarrow> f c \<noteq> f (g d)"
  shows "inj_on (\<lambda>(c, _). f c) ((\<lambda>c. (c, True)) ` R \<union> (\<lambda>c. (g c, False)) ` Q)"
  using assms by (auto simp: inj_on_def) metis+

lemma distinct_pairs_inj:
  assumes "distinct (map chunk_key (reqs @ map rk_chunk opts))"
  shows "inj_on (\<lambda>(c, _). chunk_key c) ((\<lambda>c. (c, True)) ` set reqs \<union> (\<lambda>c. (rk_chunk c, False)) ` set opts)"
    and "inj_on rank_key (set opts)"
proof -
  have inj: "inj_on chunk_key (set reqs)" "inj_on (\<lambda>c. chunk_key (rk_chunk c)) (set opts)"
    and disj: "chunk_key ` set reqs \<inter> (\<lambda>c. chunk_key (rk_chunk c)) ` set opts = {}"
    using assms by (auto simp: distinct_map comp_def image_image)
  show "inj_on (\<lambda>(c, _). chunk_key c) ((\<lambda>c. (c, True)) ` set reqs \<union> (\<lambda>c. (rk_chunk c, False)) ` set opts)"
    using disj by (intro inj_on_tagged inj) blast
  show "inj_on rank_key (set opts)"
    using inj(2) by (auto simp: inj_on_def rank_key_def)
qed

lemma budget_result_perm:
  assumes "mset S = mset T" and "inj_on (\<lambda>(c, _). chunk_key c) (set S)"
  shows "budget_result tc show_id digest ident binding B scope needed S om
       = budget_result tc show_id digest ident binding B scope needed T om"
  unfolding budget_result_def render_perm[OF assms] sort_key_eq_sort_key[OF assms] ..

text \<open>
  The context is a function of what is offered, not of the order it is offered in: permuting the
  required and the optional chunks gives the same text, the same selection and omissions and the same
  digest.
\<close>
theorem context_is_order_independent:
  assumes "budget_context_selected tc show_id digest identity binding required optional B scope = Inr ctx"
    and "mset required' = mset required" and "mset optional' = mset optional"
  shows "budget_context_selected tc show_id digest identity binding required' optional' B scope = Inr ctx"
proof -
  from assms(1) obtain ident reqs opts
    where B: "0 < B" "B \<le> 100000" and id: "normalized_identity show_id identity = Inr ident"
      and req: "collect_results (map normalize_chunk required) = Inr reqs"
      and opt: "collect_results (map normalize_ranked optional) = Inr opts"
      and visit: "is_ok (try_fold (visit_chunk show_id ident) ({}, Map.empty) (reqs @ map rk_chunk (sort_key rank_key opts)))"
      and sel: "select_chunks tc show_id digest ident binding B scope reqs (sort_key rank_key opts) = Inr ctx"
    unfolding budget_ok by blast
  from collect_results_mset[OF req assms(2)[symmetric]] obtain reqs'
    where req': "collect_results (map normalize_chunk required') = Inr reqs'" "mset reqs' = mset reqs" by blast
  from collect_results_mset[OF opt assms(3)[symmetric]] obtain opts'
    where opt': "collect_results (map normalize_ranked optional') = Inr opts'" "mset opts' = mset opts" by blast
  let ?opts = "sort_key rank_key opts"
  have dist: "distinct (map chunk_key (reqs @ map rk_chunk ?opts))" using visit by (simp add: visit_chunks_ok)
  note inj = distinct_pairs_inj[OF dist]
  have sorted: "sort_key rank_key opts' = ?opts"
    by (rule sort_key_eq_sort_key[symmetric]) (use opt'(2) inj(2) in simp_all)
  have visit': "is_ok (try_fold (visit_chunk show_id ident) ({}, Map.empty) (reqs' @ map rk_chunk ?opts))"
    by (rule visit_chunks_perm[OF _ visit]) (simp add: req'(2))
  let ?A = "(\<lambda>c. (c, True)) ` set reqs \<union> (\<lambda>c. (rk_chunk c, False)) ` set ?opts"
  let ?rend = "\<lambda>chunks m. tc (render show_id ident chunks m scope)"
  let ?S = "map (\<lambda>c. (c, True)) reqs" and ?T = "map (\<lambda>c. (c, True)) reqs'"
  have rend: "?rend S m = ?rend T m" if "mset S = mset T" "set S \<subseteq> ?A" for S T m
    using render_perm[OF that(1) inj_on_subset[OF inj(1) that(2)]] by simp
  have start: "mset ?S = mset ?T" "set ?S \<subseteq> ?A" using req'(2) by (auto simp: mset_map)
  from sel obtain S n om where fits: "?rend ?S (length ?opts) \<le> B"
    and fold: "foldl (try_candidate ?rend B (length ?opts)) (?S, 0, []) ?opts = (S, n, om)"
    and ctx: "ctx = budget_result tc show_id digest ident binding B scope (?rend ?S (length ?opts)) S om"
    unfolding select_ok by blast
  have cands: "(\<lambda>c. (rk_chunk c, False)) ` set ?opts \<subseteq> ?A" by (rule Un_upper2)
  from candidates_perm[where rend = ?rend and A = ?A, OF rend start cands fold] obtain T
    where fold': "foldl (try_candidate ?rend B (length ?opts)) (?T, 0, []) ?opts = (T, n, om)"
      and T: "mset S = mset T" "set S \<subseteq> ?A" by blast
  have "ctx = budget_result tc show_id digest ident binding B scope (?rend ?T (length ?opts)) T om"
    unfolding ctx rend[OF start] by (rule budget_result_perm[OF T(1) inj_on_subset[OF inj(1) T(2)]])
  with fold' fits rend[OF start] have "select_chunks tc show_id digest ident binding B scope reqs' ?opts = Inr ctx"
    unfolding select_ok by auto
  with B id req' opt' sorted visit' show ?thesis unfolding budget_ok by auto
qed

theorem context_is_order_independent_witness:
  "ex_budget (rev ex_optional) = ex_budget ex_optional"
proof -
  from ex_budget_ok obtain ctx where run: "ex_budget ex_optional = Inr ctx" by (auto simp: is_ok_iff)
  from context_is_order_independent[OF run[unfolded ex_budget_def] refl, of "rev ex_optional"] run show ?thesis
    by (simp add: ex_budget_def)
qed

end
