(* ===== verification/Eta_Schedule.thy ===== *)
theory Eta_Schedule
  imports Workstream_Graph Workstream_Usage "HOL-Library.Multiset"
begin

text \<open>
  The scheduler of \<^verbatim>\<open>crates/awr-core/src/workstream_eta.rs\<close>: \<open>schedule_next_acceptance\<close> checks the task
  graph, takes the dependency closure of the target and simulates it on the available executors, so
  that the ready time of the target respects dependencies, waits and concurrency.

  \<^verbatim>\<open>by_id\<close> is \<open>nodes\<close>, with its keys in order in \<open>keys\<close>; a \<^verbatim>\<open>BTreeSet\<close> that the loop iterates and
  shrinks is an ascending list. Indexing a map at a missing key panics in Rust: here it is the
  failure \<open>Panic\<close>, which the outer function turns into \<open>None\<close> and which is shown not to occur.
\<close>

section \<open>Errors and data\<close>

datatype eta_error =
    EtaInvalid string
  | EtaImmutableHistory
  | EtaCalibrationGate
  | EtaExclusionWithoutEvidence
  | EtaLlmSelfReportPromise
  | EtaSampleAcceptanceIsolation
  | EtaDependencyCycle
  | EtaOverflow
  | EtaUsage usage_error

datatype 'e failure = Panic | Failure 'e

fun settle :: "('e failure, 'a) result \<Rightarrow> ('e, 'a) result option" where
  "settle (Inl Panic) = None"
| "settle (Inl (Failure e)) = Some (Inl e)"
| "settle (Inr x) = Some (Inr x)"

abbreviation lift_failure :: "('e, 'a) result \<Rightarrow> ('e failure, 'a) result" where
  "lift_failure \<equiv> map_err Failure"

definition index :: "('k \<rightharpoonup> 'v) \<Rightarrow> 'k \<Rightarrow> ('e failure, 'v) result" where
  "index m k = ok_or (m k) Panic"

definition eta_text :: "string \<Rightarrow> bool" where
  "eta_text value \<longleftrightarrow> \<not> trim_empty value \<and> length value \<le> 512 \<and> \<not> has_control value"

definition add_u64 :: "u64 \<Rightarrow> u64 \<Rightarrow> (eta_error, u64) result" where
  "add_u64 a b = ok_or (checked_add a b) EtaOverflow"

definition max_u64 :: "u64 \<Rightarrow> u64 \<Rightarrow> u64" where
  "max_u64 a b = (if a \<ge> b then a else b)"

record eta_task_node =
  tn_work_id :: string
  tn_effective_execution_ms :: "u64 option"
  tn_wait_before_ms :: "u64 option"
  tn_depends_on :: "string list"
  tn_mainline_id :: "string option"
  tn_is_acceptance_checkpoint :: bool

record eta_execution_capacity =
  ec_concurrency_limit :: nat
  ec_available_executors :: nat

record eta_schedule_result =
  sr_checkpoint_ready_ms :: "u64 option"
  sr_critical_path_work_ids :: "string list"
  sr_effective_execution_ms :: "u64 option"
  sr_dependency_or_human_wait_ms :: "u64 option"
  sr_refused_parallel_sum_ms :: u64
  sr_used_executor_slots :: nat

definition capacity_validate :: "eta_execution_capacity \<Rightarrow> (eta_error, unit) result" where
  "capacity_validate c =
     run_checks
       [refuse (ec_concurrency_limit c = 0 \<or> ec_available_executors c = 0) (EtaInvalid ''capacity''),
        refuse (ec_available_executors c > ec_concurrency_limit c) (EtaInvalid ''executors exceed concurrency'')]"

definition capacity_slots :: "eta_execution_capacity \<Rightarrow> nat" where
  "capacity_slots c = min (ec_available_executors c) (ec_concurrency_limit c)"

type_synonym task_map = "string \<rightharpoonup> eta_task_node"

text \<open>A recursive call after a \<^verbatim>\<open>?\<close> happens on the value of the successful result.\<close>

lemma and_then_cong [fundef_cong]:
  assumes "r = r'" and "\<And>x. r' = Inr x \<Longrightarrow> f x = g x"
  shows "and_then r f = and_then r' g"
  using assms by (simp add: and_then_def split: sum.splits)

section \<open>The task graph\<close>

definition insert_task :: "task_map \<Rightarrow> eta_task_node \<Rightarrow> (eta_error, task_map) result" where
  "insert_task by_id t =
     then_ok
       (run_checks
         [refuse (\<not> eta_text (tn_work_id t)) (EtaInvalid ''task work_id''),
          refuse (by_id (tn_work_id t) \<noteq> None) (EtaInvalid ''duplicate task'')])
       (Inr (by_id(tn_work_id t \<mapsto> t)))"

definition index_tasks :: "eta_task_node list \<Rightarrow> string \<Rightarrow> (eta_error, task_map) result" where
  "index_tasks tasks target =
     then_ok (refuse (tasks = []) (EtaInvalid ''empty task graph''))
      (and_then (try_fold insert_task Map.empty tasks)
        (\<lambda>by_id. then_ok
           (run_checks
             [refuse (by_id target = None) (EtaInvalid ''target missing from graph''),
              refuse (list_ex (\<lambda>t. list_ex (\<lambda>d. by_id d = None) (tn_depends_on t)) tasks)
                (EtaInvalid ''missing dependency endpoint'')])
           (Inr by_id)))"

abbreviation task_keys :: "eta_task_node list \<Rightarrow> string list" where
  "task_keys tasks \<equiv> sorted_list_of_set (tn_work_id ` set tasks)"

text \<open>The cycle check: \<open>stack\<close> holds what each iterator has left, the top of the stack first.\<close>

function eta_dfs ::
  "string list \<Rightarrow> task_map \<Rightarrow> string set \<Rightarrow> (string \<rightharpoonup> nat) \<Rightarrow> string list \<Rightarrow> string list list \<Rightarrow>
     (eta_error failure, string set \<times> (string \<rightharpoonup> nat)) result" where
  "eta_dfs keys nodes don active path [] = Inr (don, active)"
| "eta_dfs keys nodes don active path ((child # rest) # stack) =
     (if active child \<noteq> None then Inl (Failure EtaDependencyCycle)
      else if child \<notin> don then
        (if child \<in> set keys then
           and_then (index nodes child)
             (\<lambda>t. eta_dfs keys nodes don (active(child \<mapsto> length path)) (path @ [child])
                (tn_depends_on t # rest # stack))
         else Inl Panic)
      else eta_dfs keys nodes don active path (rest # stack))"
| "eta_dfs keys nodes don active path ([] # stack) =
     (if path = [] then Inl Panic
      else eta_dfs keys nodes (insert (last path) don) (active(last path := None)) (butlast path) stack)"
  by pat_completeness auto
termination
proof (relation "measures
    [\<lambda>(keys, nodes, don, active, path, stack). card (set keys - don - dom active),
     \<lambda>(keys, nodes, don, active, path, stack). sum_list (map length stack) + length stack]",
    goal_cases)
  case 1
  then show ?case by simp
next
  case (2 keys nodes don active path child rest stack t)
  then have "set keys - don - dom (active(child \<mapsto> length path)) \<subset> set keys - don - dom active"
    by auto
  then show ?case by (simp add: psubset_card_mono)
next
  case (3 keys nodes don active path child rest stack)
  then show ?case by simp
next
  case (4 keys nodes don active path stack)
  have "card (set keys - insert (last path) don - dom (active(last path := None)))
      \<le> card (set keys - don - dom active)"
    by (rule card_mono) auto
  then show ?case by (simp add: le_less)
qed

fun eta_roots ::
  "string list \<Rightarrow> task_map \<Rightarrow> string set \<Rightarrow> string list \<Rightarrow> (eta_error failure, unit) result" where
  "eta_roots keys nodes don [] = Inr ()"
| "eta_roots keys nodes don (root # roots) =
     (if root \<in> don then eta_roots keys nodes don roots
      else and_then (index nodes root)
        (\<lambda>t. and_then (eta_dfs keys nodes don [root \<mapsto> 0] [root] [tn_depends_on t])
           (\<lambda>(don, _). eta_roots keys nodes don roots)))"

text \<open>The dependency closure of the target.\<close>

function closure_loop ::
  "string list \<Rightarrow> task_map \<Rightarrow> string set \<Rightarrow> string list \<Rightarrow> (eta_error failure, string set) result" where
  "closure_loop keys nodes needed [] = Inr needed"
| "closure_loop keys nodes needed (i # stack) =
     (if i \<in> needed then closure_loop keys nodes needed stack
      else if i \<in> set keys then
        and_then (index nodes i) (\<lambda>t. closure_loop keys nodes (insert i needed) (rev (tn_depends_on t) @ stack))
      else Inl Panic)"
  by pat_completeness auto
termination
proof (relation "measures [\<lambda>(keys, nodes, needed, stack). card (set keys - needed),
    \<lambda>(keys, nodes, needed, stack). length stack]", goal_cases)
  case (3 keys nodes needed i stack t)
  then have "set keys - insert i needed \<subset> set keys - needed" by auto
  then show ?case by (simp add: psubset_card_mono)
qed simp_all

section \<open>The simulation\<close>

record schedule_state =
  ss_finish :: "string \<rightharpoonup> u64"
  ss_remaining :: "string list"
  ss_running :: "(string \<times> u64) list"
  ss_refused :: u64
  ss_pred :: "string \<rightharpoonup> string option"

text \<open>\<^verbatim>\<open>max_by_key\<close> returns the last of the greatest.\<close>

fun max_by_finish :: "(string \<times> u64) list \<Rightarrow> string option" where
  "max_by_finish [] = None"
| "max_by_finish ((d, f) # rest) =
     (if list_ex (\<lambda>(_, g). f \<le> g) rest then max_by_finish rest else Some d)"

definition dep_finishes ::
  "schedule_state \<Rightarrow> eta_task_node \<Rightarrow> (eta_error failure, (string \<times> u64) list) result" where
  "dep_finishes st t =
     collect_results (map (\<lambda>d. and_then (index (ss_finish st) d) (\<lambda>f. Inr (d, f))) (tn_depends_on t))"

text \<open>One ready task; \<open>None\<close> is the \<^verbatim>\<open>continue\<close> of an unknown wait or duration.\<close>

definition start_task ::
  "task_map \<Rightarrow> u64 \<Rightarrow> schedule_state \<Rightarrow> string \<Rightarrow> (eta_error failure, schedule_state option) result" where
  "start_task nodes now st i =
     and_then (index nodes i) (\<lambda>node.
     and_then (dep_finishes st node) (\<lambda>deps.
     let dep_ready = foldl max 0 (map snd deps) in
     case tn_wait_before_ms node of
       None \<Rightarrow> Inr None
     | Some wait \<Rightarrow>
         and_then (lift_failure (add_u64 dep_ready wait)) (\<lambda>earliest.
         let start = max_u64 now earliest in
         case tn_effective_execution_ms node of
           None \<Rightarrow> Inr None
         | Some exec \<Rightarrow>
             and_then (lift_failure (add_u64 start exec)) (\<lambda>fin.
             and_then (lift_failure (add_u64 (ss_refused st) exec)) (\<lambda>refused.
               Inr (Some (st\<lparr>ss_finish := (ss_finish st)(i \<mapsto> fin),
                 ss_remaining := remove1 i (ss_remaining st),
                 ss_running := ss_running st @ [(i, fin)],
                 ss_refused := refused,
                 ss_pred := (ss_pred st)(i \<mapsto> max_by_finish deps)\<rparr>)))))))"

fun start_ready ::
  "task_map \<Rightarrow> u64 \<Rightarrow> nat \<Rightarrow> nat \<Rightarrow> schedule_state \<Rightarrow> string list \<Rightarrow> (eta_error failure, schedule_state) result" where
  "start_ready nodes now free started st [] = Inr st"
| "start_ready nodes now free started st (i # ready) =
     (if started \<ge> free then Inr st
      else case start_task nodes now st i of
        Inl e \<Rightarrow> Inl e
      | Inr None \<Rightarrow> start_ready nodes now free started st ready
      | Inr (Some st') \<Rightarrow> start_ready nodes now free (started + 1) st' ready)"

definition deps_started :: "task_map \<Rightarrow> schedule_state \<Rightarrow> string \<Rightarrow> bool" where
  "deps_started nodes st i = (case nodes i of
     Some t \<Rightarrow> list_all (\<lambda>d. ss_finish st d \<noteq> None) (tn_depends_on t) | None \<Rightarrow> False)"

definition unknown_duration :: "task_map \<Rightarrow> string \<Rightarrow> bool" where
  "unknown_duration nodes i = (case nodes i of
     Some t \<Rightarrow> tn_effective_execution_ms t = None \<or> tn_wait_before_ms t = None | None \<Rightarrow> False)"

text \<open>The lines before the advance of time: free the finished runners and start what is ready.\<close>

definition schedule_starts ::
  "task_map \<Rightarrow> nat \<Rightarrow> schedule_state \<Rightarrow> u64 \<Rightarrow> (eta_error failure, schedule_state) result" where
  "schedule_starts nodes slots st now =
     then_ok (refuse (list_ex (\<lambda>i. nodes i = None) (ss_remaining st)) Panic)
      (let st = st\<lparr>ss_running := filter (\<lambda>(_, fin). fin > now) (ss_running st)\<rparr>;
           free = slots - length (ss_running st)
       in if free > 0 then start_ready nodes now free 0 st (filter (deps_started nodes st) (ss_remaining st))
          else Inr st)"

text \<open>Starting a task moves it from the remaining to the running ones.\<close>

lemma start_task_moves:
  assumes "start_task nodes now st i = Inr (Some st')"
  shows "ss_remaining st' = remove1 i (ss_remaining st)" and "\<exists>fin. ss_running st' = ss_running st @ [(i, fin)]"
  using assms
  by (auto simp: start_task_def and_then_def Let_def split: sum.splits option.splits)

lemma start_ready_moves:
  assumes "start_ready nodes now free started st ready = Inr st'" and "mset ready \<subseteq># mset (ss_remaining st)"
  shows "length (ss_remaining st') + length (ss_running st') = length (ss_remaining st) + length (ss_running st)
     \<and> (st' = st \<or> length (ss_remaining st') < length (ss_remaining st))"
  using assms
proof (induction nodes now free started st ready rule: start_ready.induct)
  case (1 nodes now free started st)
  then show ?case by simp
next
  case (2 nodes now free started st i ready)
  show ?case
  proof (cases "started \<ge> free")
    case True
    with "2.prems" show ?thesis by simp
  next
    case False
    with "2.prems" obtain r where r: "start_task nodes now st i = Inr r" by (auto split: sum.splits)
    show ?thesis
    proof (cases r)
      case None
      with 2 False r show ?thesis by (auto dest: subset_mset.order_trans[rotated] simp: mset_subset_eq_insertD subset_mset.less_imp_le)
    next
      case (Some s)
      note moves = start_task_moves[OF r[unfolded Some]]
      have i: "i \<in> set (ss_remaining st)" using "2.prems"(2) by (auto dest: mset_subset_eqD)
      have sub: "mset ready \<subseteq># mset (ss_remaining s)"
        using "2.prems"(2) moves(1) by (simp add: insert_subset_eq_iff)
      have "0 < length (ss_remaining st)" using i by (cases "ss_remaining st") auto
      then have "length (ss_remaining s) + 1 = length (ss_remaining st)" using i moves(1) by (simp add: length_remove1)
      moreover have "start_ready nodes now free (started + 1) s ready = Inr st'"
        using "2.prems"(1) False r Some by simp
      moreover have "length (ss_running s) = length (ss_running st) + 1" using moves(2) by auto
      ultimately show ?thesis using "2.IH"(2)[OF False r Some, of] sub by auto
    qed
  qed
qed

lemma schedule_starts_moves:
  assumes "schedule_starts nodes slots st now = Inr st'"
  shows "2 * length (ss_remaining st') + length (ss_running st')
      \<le> 2 * length (ss_remaining st) + length (filter (\<lambda>(_, fin). fin > now) (ss_running st))"
proof -
  let ?st = "st\<lparr>ss_running := filter (\<lambda>(_, fin). fin > now) (ss_running st)\<rparr>"
  have "st' = ?st \<or> start_ready nodes now (slots - length (ss_running ?st)) 0 ?st
      (filter (deps_started nodes ?st) (ss_remaining ?st)) = Inr st'"
    using assms by (auto simp: schedule_starts_def then_ok_def Let_def split: sum.splits if_splits)
  then show ?thesis
  proof
    assume "start_ready nodes now (slots - length (ss_running ?st)) 0 ?st
      (filter (deps_started nodes ?st) (ss_remaining ?st)) = Inr st'"
    from start_ready_moves[OF this] show ?thesis by (auto simp: multiset_filter_subset mset_filter)
  qed auto
qed

text \<open>The main loop; an iteration frees a runner or starts a task, so it ends.\<close>

function schedule_loop ::
  "task_map \<Rightarrow> nat \<Rightarrow> schedule_state \<Rightarrow> u64 \<Rightarrow> (eta_error failure, schedule_state) result" where
  "schedule_loop nodes slots st now =
     (if ss_remaining st = [] \<and> ss_running st = [] then Inr st
      else and_then (schedule_starts nodes slots st now)
        (\<lambda>st'.
           if list_ex (unknown_duration nodes) (ss_remaining st') \<and> ss_running st' = [] then Inr st'
           else if ss_running st' = [] \<and> ss_remaining st' \<noteq> [] then
             (if list_all (deps_started nodes st') (ss_remaining st') then Inr st'
              else Inl (Failure EtaDependencyCycle))
           else if ss_running st' = [] then Inr st'
           else schedule_loop nodes slots st' (Min (snd ` set (ss_running st')))))"
  by pat_completeness auto
termination
proof (relation "measure (\<lambda>(nodes, slots, st, now).
    2 * length (ss_remaining st) + length (filter (\<lambda>(_, fin). fin > now) (ss_running st)))", goal_cases)
  case (2 nodes slots st now st')
  let ?now = "Min (snd ` set (ss_running st'))"
  from 2 have starts: "schedule_starts nodes slots st now = Inr st'" and run: "ss_running st' \<noteq> []" by auto
  then have "Min (snd ` set (ss_running st')) \<in> snd ` set (ss_running st')" by (intro Min_in) auto
  then obtain i where i: "(i, ?now) \<in> set (ss_running st')" by auto
  have "length (filter (\<lambda>(_, fin). fin > ?now) (ss_running st')) < length (ss_running st')"
    using i by (intro length_filter_less[of "(i, ?now)"]) auto
  with schedule_starts_moves[OF starts] show ?case by simp
qed simp

declare schedule_loop.simps [simp del]

section \<open>The result\<close>

text \<open>The critical path back from the target; that this loop ends is one of the properties.\<close>

partial_function (option) trace_path ::
  "(string \<rightharpoonup> string option) \<Rightarrow> string list \<Rightarrow> string \<Rightarrow> string list option" where
  [code]: "trace_path pred path i =
     (case pred i of
        Some (Some p) \<Rightarrow> trace_path pred (i # path) p
      | _ \<Rightarrow> Some (i # path))"

definition path_execution :: "task_map \<Rightarrow> string list \<Rightarrow> (eta_error failure, u64) result" where
  "path_execution nodes path =
     try_fold (\<lambda>acc i. and_then (index nodes i) (\<lambda>t.
        lift_failure (add_u64 acc (case tn_effective_execution_ms t of Some v \<Rightarrow> v | None \<Rightarrow> 0)))) 0 path"

text \<open>The sum of the waits, unknown as soon as one of them is.\<close>

fun path_wait :: "task_map \<Rightarrow> u64 \<Rightarrow> string list \<Rightarrow> (eta_error failure, u64 option) result" where
  "path_wait nodes acc [] = Inr (Some acc)"
| "path_wait nodes acc (i # ids) =
     (case nodes i of
        None \<Rightarrow> Inl Panic
      | Some t \<Rightarrow> (case tn_wait_before_ms t of
          None \<Rightarrow> Inr None
        | Some w \<Rightarrow> (case add_u64 acc w of
            Inl e \<Rightarrow> Inl (Failure e)
          | Inr acc' \<Rightarrow> path_wait nodes acc' ids)))"

definition init_schedule :: "string set \<Rightarrow> schedule_state" where
  "init_schedule needed = \<lparr>ss_finish = Map.empty, ss_remaining = sorted_list_of_set needed, ss_running = [],
     ss_refused = 0, ss_pred = Map.empty\<rparr>"

definition schedule_report ::
  "task_map \<Rightarrow> nat \<Rightarrow> string \<Rightarrow> string set \<Rightarrow> schedule_state \<Rightarrow> (eta_error failure, eta_schedule_result) result" where
  "schedule_report nodes slots target needed st =
     (let ready = ss_finish st target in
      and_then (if ready \<noteq> None then ok_or (trace_path (ss_pred st) [] target) Panic else Inr [])
       (\<lambda>path. and_then (if ready \<noteq> None then map_sum id Some (path_execution nodes path) else Inr None)
        (\<lambda>exec. and_then (path_wait nodes 0 (if ready \<noteq> None then path else sorted_list_of_set needed))
         (\<lambda>wait. Inr \<lparr>sr_checkpoint_ready_ms = ready, sr_critical_path_work_ids = path,
            sr_effective_execution_ms = exec, sr_dependency_or_human_wait_ms = wait,
            sr_refused_parallel_sum_ms = ss_refused st, sr_used_executor_slots = slots\<rparr>))))"

definition schedule_tasks ::
  "eta_task_node list \<Rightarrow> nat \<Rightarrow> string \<Rightarrow> task_map \<Rightarrow> (eta_error failure, eta_schedule_result) result" where
  "schedule_tasks tasks slots target nodes =
     then_ok (eta_roots (task_keys tasks) nodes {} (task_keys tasks))
      (and_then (closure_loop (task_keys tasks) nodes {} [target])
        (\<lambda>needed. and_then (schedule_loop nodes slots (init_schedule needed) 0)
          (\<lambda>st. schedule_report nodes slots target needed st)))"

definition schedule_next_acceptance ::
  "eta_task_node list \<Rightarrow> eta_execution_capacity \<Rightarrow> string \<Rightarrow> (eta_error, eta_schedule_result) result option" where
  "schedule_next_acceptance tasks capacity target =
     settle (then_ok (lift_failure (capacity_validate capacity))
       (and_then (lift_failure (index_tasks tasks target))
         (\<lambda>nodes. schedule_tasks tasks (capacity_slots capacity) target nodes)))"

end
