(* ===== verification/Eta_Laws.thy ===== *)
theory Eta_Laws
  imports Eta_Schedule
begin

text \<open>
  What the scheduler of \<open>Eta_Schedule\<close> promises: it always answers and refuses exactly the cyclic
  graphs; the schedule it simulates respects dependencies, waits and the executor slots; the ready
  time it reports lies between the longest chain and the sum over the closure of the target.
\<close>

section \<open>The task map\<close>

definition task_deps :: "task_map \<Rightarrow> successors" where
  "task_deps nodes i = (case nodes i of Some t \<Rightarrow> set (tn_depends_on t) | None \<Rightarrow> {})"

definition tasks_wf :: "string list \<Rightarrow> task_map \<Rightarrow> bool" where
  "tasks_wf keys nodes \<longleftrightarrow> set keys = dom nodes \<and> (\<forall>i\<in>dom nodes. task_deps nodes i \<subseteq> dom nodes)"

text \<open>The dependency edges of a list of tasks, and what a task depends on in the end.\<close>

definition dep_edges :: "eta_task_node list \<Rightarrow> (string \<times> string) set" where
  "dep_edges tasks = {(i, d). \<exists>t\<in>set tasks. tn_work_id t = i \<and> d \<in> set (tn_depends_on t)}"

definition task_closure :: "eta_task_node list \<Rightarrow> string \<Rightarrow> string set" where
  "task_closure tasks target = (dep_edges tasks)\<^sup>* `` {target}"

lemma index_ok [simp]: "index m k = Inr v \<longleftrightarrow> m k = Some v"
  by (simp add: index_def)

lemma and_then_on [simp]:
  "and_then (Inr x) f = f x" "and_then (Inl e) f = Inl e"
  by (simp_all add: and_then_def)

lemma index_Some [simp]: "m k = Some v \<Longrightarrow> and_then (index m k) f = f v"
  by (simp add: index_def ok_or_def and_then_def)

lemma add_u64_ok [simp]: "add_u64 a b = Inr c \<longleftrightarrow> unat a + unat b < 2 ^ 64 \<and> c = a + b"
  by (simp add: add_u64_def)

lemma insert_tasks_ok:
  "try_fold insert_task m tasks = Inr nodes \<longleftrightarrow>
     list_all (\<lambda>t. eta_text (tn_work_id t)) tasks \<and> distinct (map tn_work_id tasks)
     \<and> (\<forall>t\<in>set tasks. m (tn_work_id t) = None)
     \<and> nodes = m ++ map_of (map (\<lambda>t. (tn_work_id t, t)) tasks)"
proof (induction tasks arbitrary: m)
  case Nil
  then show ?case by auto
next
  case (Cons t tasks)
  show ?case
  proof (cases "tn_work_id t \<in> tn_work_id ` set tasks")
    case True
    then have "\<not> (\<forall>u\<in>set tasks. (m(tn_work_id t \<mapsto> t)) (tn_work_id u) = None)" by auto
    then have "try_fold insert_task m (t # tasks) \<noteq> Inr nodes"
      unfolding try_fold_Cons_ok by (auto simp: insert_task_def Cons.IH)
    with True show ?thesis by simp
  next
    case False
    then have "map_of (map (\<lambda>t. (tn_work_id t, t)) tasks) (tn_work_id t) = None"
      by (simp add: map_of_eq_None_iff image_image)
    then have "m ++ map_of (map (\<lambda>t. (tn_work_id t, t)) (t # tasks))
        = m(tn_work_id t \<mapsto> t) ++ map_of (map (\<lambda>t. (tn_work_id t, t)) tasks)"
      by (auto simp: fun_eq_iff map_add_def split: option.splits)
    then show ?thesis using False unfolding try_fold_Cons_ok
      by (auto simp: insert_task_def Cons.IH image_iff simp del: map_of.simps)
  qed
qed

lemma index_tasks_ok:
  assumes "index_tasks tasks target = Inr nodes"
  shows "nodes = map_of (map (\<lambda>t. (tn_work_id t, t)) tasks)" and "distinct (map tn_work_id tasks)"
    and "target \<in> dom nodes" and "tasks_wf (task_keys tasks) nodes"
    and "dep_edges tasks = graph_edges (dom nodes) (task_deps nodes)"
proof -
  from assms have ok: "nodes = map_of (map (\<lambda>t. (tn_work_id t, t)) tasks)" "distinct (map tn_work_id tasks)"
      "target \<in> dom nodes" "\<forall>t\<in>set tasks. \<forall>d\<in>set (tn_depends_on t). d \<in> dom nodes"
    by (auto simp: index_tasks_def insert_tasks_ok list_ex_iff)
  then show "nodes = map_of (map (\<lambda>t. (tn_work_id t, t)) tasks)" "distinct (map tn_work_id tasks)" "target \<in> dom nodes"
    by simp_all
  have at: "nodes i = Some t \<longleftrightarrow> t \<in> set tasks \<and> tn_work_id t = i" for i t
    using ok(1,2) by (auto simp: map_of_eq_Some_iff distinct_map comp_def inj_on_def)
  then have dom: "dom nodes = tn_work_id ` set tasks" by (auto simp: dom_def)
  with at ok(4) show "tasks_wf (task_keys tasks) nodes"
    by (auto simp: tasks_wf_def task_deps_def split: option.splits)
  show "dep_edges tasks = graph_edges (dom nodes) (task_deps nodes)"
  proof -
    have "(i, d) \<in> graph_edges (dom nodes) (task_deps nodes) \<longleftrightarrow> (\<exists>t. nodes i = Some t \<and> d \<in> set (tn_depends_on t))" for i d
      by (auto simp: graph_edges_def task_deps_def split: option.splits)
    then show ?thesis unfolding at by (auto simp: dep_edges_def)
  qed
qed

section \<open>The cycle check\<close>

lemma dfs_inv_frame:
  assumes "dfs_inv K graph don active path (f # stack)" and "set f = set f'"
  shows "dfs_inv K graph don active path (f' # stack)"
  using assms by (cases path rule: rev_cases) (auto simp: dfs_inv_def)

definition eta_dfs_ok ::
  "string set \<Rightarrow> successors \<Rightarrow> string set \<Rightarrow> (eta_error failure, string set \<times> (string \<rightharpoonup> nat)) result \<Rightarrow> bool" where
  "eta_dfs_ok K graph D r \<longleftrightarrow> (case r of
     Inr (don', _) \<Rightarrow> done_ok K graph don' \<and> D \<subseteq> don'
   | Inl e \<Rightarrow> e = Failure EtaDependencyCycle \<and> (\<exists>c. closed_walk (graph_edges K graph) c))"

lemma eta_dfs_ok_mono: "eta_dfs_ok K graph D r \<Longrightarrow> D' \<subseteq> D \<Longrightarrow> eta_dfs_ok K graph D' r"
  by (auto simp: eta_dfs_ok_def split: sum.splits)

lemma eta_dfs_result:
  assumes "dfs_inv (set keys) (task_deps nodes) don active path stack" and "set keys = dom nodes"
  shows "eta_dfs_ok (set keys) (task_deps nodes) (don \<union> set path) (eta_dfs keys nodes don active path stack)"
  using assms
proof (induction keys nodes don active path stack rule: eta_dfs.induct)
  case (1 keys nodes don active path)
  then have "path = []" by (cases path rule: rev_cases) (auto simp: dfs_inv_def)
  with 1 show ?case by (auto simp: eta_dfs_ok_def dfs_inv_def)
next
  case (2 keys nodes don active path child rest stack)
  note child = dfs_inv_child[OF "2.prems"(1)]
  show ?case
  proof (cases "active child")
    case (Some start)
    with dfs_inv_cycle[OF "2.prems"(1) Some] show ?thesis by (auto simp: eta_dfs_ok_def)
  next
    case None
    show ?thesis
    proof (cases "child \<in> don")
      case True
      with "2.IH"(2) None dfs_inv_skip[OF "2.prems"(1) True] "2.prems"(2) show ?thesis by simp
    next
      case False
      obtain t where t: "nodes child = Some t" using child(3) "2.prems"(2) by auto
      have "dfs_inv (set keys) (task_deps nodes) don (active(child \<mapsto> length path)) (path @ [child])
          (tn_depends_on t # rest # stack)"
        by (rule dfs_inv_frame[OF dfs_inv_push[OF "2.prems"(1) None False]]) (simp add: task_deps_def t)
      with "2.IH"(1)[of t] None False child(3) t "2.prems"(2)
      have "eta_dfs_ok (set keys) (task_deps nodes) (don \<union> set (path @ [child]))
          (eta_dfs keys nodes don (active(child \<mapsto> length path)) (path @ [child]) (tn_depends_on t # rest # stack))"
        by (simp del: fun_upd_apply)
      then have "eta_dfs_ok (set keys) (task_deps nodes) (don \<union> set path)
          (eta_dfs keys nodes don (active(child \<mapsto> length path)) (path @ [child]) (tn_depends_on t # rest # stack))"
        by (rule eta_dfs_ok_mono) auto
      with None False child(3) t show ?thesis by simp
    qed
  qed
next
  case (3 keys nodes don active path stack)
  note pop = dfs_inv_pop[OF "3.prems"(1)]
  have "set path = insert (last path) (set (butlast path))"
    using pop(1) by (metis append_butlast_last_id set_append list.simps(15) empty_set Un_insert_right sup_bot.right_neutral)
  then have "eta_dfs_ok (set keys) (task_deps nodes) (don \<union> set path)
      (eta_dfs keys nodes (insert (last path) don) (active(last path := None)) (butlast path) stack)"
    by (intro eta_dfs_ok_mono[OF "3.IH"[OF pop "3.prems"(2)]]) auto
  with pop(1) show ?case by simp
qed

lemma eta_roots_result:
  assumes "tasks_wf keys nodes" and "done_ok (set keys) (task_deps nodes) don"
    and "set roots \<subseteq> set keys" and "set keys \<subseteq> don \<union> set roots"
  shows "eta_roots keys nodes don roots = (if acyclic (graph_edges (set keys) (task_deps nodes)) then Inr ()
     else Inl (Failure EtaDependencyCycle))"
  using assms(2-)
proof (induction roots arbitrary: don)
  case Nil
  then have "acyclic (graph_edges (set keys) (task_deps nodes))" by (intro done_all_acyclic) auto
  then show ?case by simp
next
  case (Cons root roots)
  show ?case
  proof (cases "root \<in> don")
    case True
    with Cons.prems have "set keys \<subseteq> don \<union> set roots" by auto
    with True Cons.prems Cons.IH[of don] show ?thesis by auto
  next
    case False
    obtain t where t: "nodes root = Some t" using Cons.prems(2) assms(1) by (auto simp: tasks_wf_def)
    have "dfs_inv (set keys) (task_deps nodes) don [root \<mapsto> 0] [root] [sorted_list_of_set (task_deps nodes root)]"
      using assms(1) Cons.prems False by (intro dfs_inv_root[OF List.finite_set]) (auto simp: tasks_wf_def)
    then have "dfs_inv (set keys) (task_deps nodes) don [root \<mapsto> 0] [root] [tn_depends_on t]"
      by (rule dfs_inv_frame) (simp add: task_deps_def t)
    from eta_dfs_result[OF this] assms(1)
    have r: "eta_dfs_ok (set keys) (task_deps nodes) (insert root don) (eta_dfs keys nodes don [root \<mapsto> 0] [root] [tn_depends_on t])"
      by (simp add: tasks_wf_def)
    show ?thesis
    proof (cases "eta_dfs keys nodes don [root \<mapsto> 0] [root] [tn_depends_on t]")
      case (Inl e)
      with r have "e = Failure EtaDependencyCycle" "\<not> acyclic (graph_edges (set keys) (task_deps nodes))"
        by (auto simp: eta_dfs_ok_def dest: closed_walk_not_acyclic)
      with False t Inl show ?thesis by simp
    next
      case (Inr p)
      with r have "done_ok (set keys) (task_deps nodes) (fst p)" "insert root don \<subseteq> fst p"
        by (auto simp: eta_dfs_ok_def split: prod.splits)
      moreover from this Cons.prems(3) have "set keys \<subseteq> fst p \<union> set roots" by auto
      ultimately show ?thesis using Cons.IH[of "fst p"] Cons.prems False t Inr by (auto split: prod.splits)
    qed
  qed
qed

section \<open>The closure\<close>

lemma closure_loop_ok:
  assumes "tasks_wf keys nodes" and "set stack \<subseteq> set keys" and "needed \<subseteq> set keys"
    and "\<forall>i\<in>needed. task_deps nodes i \<subseteq> needed \<union> set stack"
  shows "\<exists>N. closure_loop keys nodes needed stack = Inr N \<and> needed \<union> set stack \<subseteq> N \<and> N \<subseteq> set keys
     \<and> (\<forall>i\<in>N. task_deps nodes i \<subseteq> N)
     \<and> (\<forall>R. needed \<union> set stack \<subseteq> R \<and> (\<forall>i\<in>R. task_deps nodes i \<subseteq> R) \<longrightarrow> N \<subseteq> R)"
  using assms
proof (induction keys nodes needed stack rule: closure_loop.induct)
  case (1 keys nodes needed)
  then show ?case by auto
next
  case (2 keys nodes needed i stack)
  show ?case
  proof (cases "i \<in> needed")
    case True
    with "2.prems" have "\<forall>j\<in>needed. task_deps nodes j \<subseteq> needed \<union> set stack" by auto
    with "2.IH"(1)[OF True] "2.prems" True show ?thesis by (auto simp: insert_absorb)
  next
    case False
    obtain t where t: "nodes i = Some t" "i \<in> set keys" using "2.prems"(1,2) by (auto simp: tasks_wf_def)
    then have deps: "task_deps nodes i = set (tn_depends_on t)" by (simp add: task_deps_def)
    have sub: "set (tn_depends_on t) \<subseteq> set keys" using "2.prems"(1) t deps by (fastforce simp: tasks_wf_def)
    have "\<forall>j\<in>insert i needed. task_deps nodes j \<subseteq> insert i needed \<union> set (rev (tn_depends_on t) @ stack)"
      using "2.prems"(4) deps by auto
    with "2.IH"(2)[OF False t(2), of t] t sub "2.prems" obtain N
      where N: "closure_loop keys nodes (insert i needed) (rev (tn_depends_on t) @ stack) = Inr N"
        "insert i needed \<union> set (rev (tn_depends_on t) @ stack) \<subseteq> N" "N \<subseteq> set keys" "\<forall>i\<in>N. task_deps nodes i \<subseteq> N"
        "\<forall>R. insert i needed \<union> set (rev (tn_depends_on t) @ stack) \<subseteq> R \<and> (\<forall>i\<in>R. task_deps nodes i \<subseteq> R) \<longrightarrow> N \<subseteq> R"
      by auto
    have "N \<subseteq> R" if "needed \<union> set (i # stack) \<subseteq> R" "\<forall>i\<in>R. task_deps nodes i \<subseteq> R" for R
      using N(5) that deps by auto
    with N False t show ?thesis by auto
  qed
qed

lemma closure_of_target:
  assumes "tasks_wf keys nodes" and "target \<in> set keys"
  shows "closure_loop keys nodes {} [target] = Inr ((graph_edges (dom nodes) (task_deps nodes))\<^sup>* `` {target})"
proof -
  let ?E = "graph_edges (dom nodes) (task_deps nodes)"
  from closure_loop_ok[of keys nodes "[target]" "{}"] assms obtain N
    where N: "closure_loop keys nodes {} [target] = Inr N" "target \<in> N" "N \<subseteq> set keys" "\<forall>i\<in>N. task_deps nodes i \<subseteq> N"
      "\<forall>R. target \<in> R \<and> (\<forall>i\<in>R. task_deps nodes i \<subseteq> R) \<longrightarrow> N \<subseteq> R" by auto
  have closed: "task_deps nodes i \<subseteq> ?E\<^sup>* `` {target}" if "i \<in> ?E\<^sup>* `` {target}" for i
  proof
    fix d assume d: "d \<in> task_deps nodes i"
    then have "(i, d) \<in> ?E" by (auto simp: graph_edges_def task_deps_def split: option.splits)
    with that show "d \<in> ?E\<^sup>* `` {target}" by auto
  qed
  then have "N \<subseteq> ?E\<^sup>* `` {target}" using N(5) by blast
  moreover have "d \<in> N" if "(target, d) \<in> ?E\<^sup>*" for d
    using that N(2,4) by (induction rule: rtrancl_induct) (auto simp: graph_edges_def)
  ultimately show ?thesis using N(1) by auto
qed

section \<open>Starting a task\<close>

lemma dep_finishes_started:
  assumes "list_all (\<lambda>d. ss_finish st d \<noteq> None) (tn_depends_on t)"
  shows "dep_finishes st t = Inr (map (\<lambda>d. (d, the (ss_finish st d))) (tn_depends_on t))"
proof -
  have "collect_results (map (\<lambda>d. and_then (index (ss_finish st) d) (\<lambda>f. Inr (d, f))) ds)
      = Inr (map (\<lambda>d. (d, the (ss_finish st d))) ds)" if "list_all (\<lambda>d. ss_finish st d \<noteq> None) ds" for ds
    using that by (induction ds) (auto simp: ok_or_def)
  with assms show ?thesis by (simp add: dep_finishes_def)
qed

lemma foldl_max_bounds:
  "a \<le> foldl max (a::u64) fs" "f \<in> set fs \<Longrightarrow> f \<le> foldl max a fs" "foldl max a fs = a \<or> foldl max a fs \<in> set fs"
proof (induction fs arbitrary: a)
  case (Cons x fs)
  {
    case 1
    with Cons.IH(1)[of "max a x"] show ?case by simp
  next
    case 2
    with Cons.IH(1)[of "max a x"] Cons.IH(2)[of "max a x"] show ?case by auto
  next
    case 3
    with Cons.IH(3)[of "max a x"] show ?case by (auto simp: max_def)
  }
qed simp_all

lemma max_by_finish_mem: "max_by_finish ds = Some d \<Longrightarrow> d \<in> fst ` set ds"
  by (induction ds rule: max_by_finish.induct) (auto split: if_splits)

lemma max_by_finish_None: "max_by_finish ds = None \<longleftrightarrow> ds = []"
proof (induction ds rule: max_by_finish.induct)
  case (2 d f rest)
  then show ?case by (cases rest) auto
qed simp

text \<open>A task whose dependencies are started is started, overflows, or has an unknown duration.\<close>

lemma start_task_cases:
  assumes "deps_started nodes st i"
  obtains (overflow) "start_task nodes now st i = Inl (Failure EtaOverflow)"
  | (unknown) "start_task nodes now st i = Inr None" "unknown_duration nodes i"
  | (started) t e w f p m where "nodes i = Some t" "tn_effective_execution_ms t = Some e" "tn_wait_before_ms t = Some w"
      "\<forall>d\<in>set (tn_depends_on t). \<exists>g. ss_finish st d = Some g \<and> unat g \<le> m"
      "m = 0 \<or> (\<exists>d\<in>set (tn_depends_on t). \<exists>g. ss_finish st d = Some g \<and> m = unat g)"
      "unat f = max (unat now) (m + unat w) + unat e"
      "unat (ss_refused st + e) = unat (ss_refused st) + unat e"
      "p = None \<longleftrightarrow> tn_depends_on t = []" "\<And>d. p = Some d \<Longrightarrow> d \<in> set (tn_depends_on t)"
      "start_task nodes now st i = Inr (Some (st\<lparr>ss_finish := (ss_finish st)(i \<mapsto> f),
         ss_remaining := remove1 i (ss_remaining st), ss_running := ss_running st @ [(i, f)],
         ss_refused := ss_refused st + e, ss_pred := (ss_pred st)(i \<mapsto> p)\<rparr>))"
proof -
  from assms obtain t where t: "nodes i = Some t" "list_all (\<lambda>d. ss_finish st d \<noteq> None) (tn_depends_on t)"
    by (auto simp: deps_started_def split: option.splits)
  let ?deps = "map (\<lambda>d. (d, the (ss_finish st d))) (tn_depends_on t)"
  let ?m = "foldl max 0 (map snd ?deps)"
  have known: "\<exists>g. ss_finish st d = Some g \<and> unat g \<le> unat ?m" if "d \<in> set (tn_depends_on t)" for d
    using that t(2) foldl_max_bounds(2)[of "the (ss_finish st d)" "map snd ?deps" 0]
    by (fastforce simp: list_all_iff word_le_nat_alt)
  have attained: "unat ?m = 0 \<or> (\<exists>d\<in>set (tn_depends_on t). \<exists>g. ss_finish st d = Some g \<and> unat ?m = unat g)"
    using foldl_max_bounds(3)[of 0 "map snd ?deps"] t(2) by (fastforce simp: list_all_iff)
  have eval: "start_task nodes now st i = (case tn_wait_before_ms t of None \<Rightarrow> Inr None
     | Some wait \<Rightarrow> and_then (lift_failure (add_u64 ?m wait)) (\<lambda>earliest.
         case tn_effective_execution_ms t of None \<Rightarrow> Inr None
         | Some exec \<Rightarrow> and_then (lift_failure (add_u64 (max_u64 now earliest) exec)) (\<lambda>fin.
             and_then (lift_failure (add_u64 (ss_refused st) exec)) (\<lambda>refused.
               Inr (Some (st\<lparr>ss_finish := (ss_finish st)(i \<mapsto> fin), ss_remaining := remove1 i (ss_remaining st),
                 ss_running := ss_running st @ [(i, fin)], ss_refused := refused,
                 ss_pred := (ss_pred st)(i \<mapsto> max_by_finish ?deps)\<rparr>))))))"
    unfolding start_task_def index_Some[of nodes, OF t(1)] dep_finishes_started[OF t(2)] and_then_on Let_def
    by (rule refl)
  show thesis
  proof (cases "unknown_duration nodes i")
    case True
    with t have "start_task nodes now st i = Inr None \<or> start_task nodes now st i = Inl (Failure EtaOverflow)"
      unfolding eval by (auto simp: unknown_duration_def add_u64_def ok_or_def map_err_def split: option.splits)
    with True overflow unknown show thesis by blast
  next
    case False
    with t obtain e w where ew: "tn_effective_execution_ms t = Some e" "tn_wait_before_ms t = Some w"
      by (auto simp: unknown_duration_def)
    let ?s = "max_u64 now (?m + w)"
    show thesis
    proof (cases "unat ?m + unat w < 2 ^ 64 \<and> unat ?s + unat e < 2 ^ 64 \<and> unat (ss_refused st) + unat e < 2 ^ 64")
      case True
      then have "unat (?m + w) = unat ?m + unat w" "unat (?s + e) = unat ?s + unat e"
        "unat (ss_refused st + e) = unat (ss_refused st) + unat e" by (simp_all add: unat_add_lem[symmetric])
      moreover from this have "unat ?s = max (unat now) (unat ?m + unat w)"
        by (simp add: max_u64_def word_le_nat_alt max_def)
      ultimately show thesis
        using True t(1) ew known attained
        by (intro started[of t e w "unat ?m" "?s + e" "max_by_finish ?deps"])
          (auto simp: eval add_u64_def ok_or_def checked_add_def map_err_def max_by_finish_None dest: max_by_finish_mem)
    next
      case False
      then have "start_task nodes now st i = Inl (Failure EtaOverflow)"
        by (auto simp: eval ew add_u64_def ok_or_def checked_add_def map_err_def)
      then show thesis by (rule overflow)
    qed
  qed
qed

section \<open>The simulation invariant\<close>

definition task_execution :: "task_map \<Rightarrow> string \<Rightarrow> nat" where
  "task_execution nodes i = (case nodes i of
     Some t \<Rightarrow> (case tn_effective_execution_ms t of Some e \<Rightarrow> unat e | None \<Rightarrow> 0) | None \<Rightarrow> 0)"

definition task_wait :: "task_map \<Rightarrow> string \<Rightarrow> nat" where
  "task_wait nodes i = (case nodes i of
     Some t \<Rightarrow> (case tn_wait_before_ms t of Some w \<Rightarrow> unat w | None \<Rightarrow> 0) | None \<Rightarrow> 0)"

definition total_cost :: "task_map \<Rightarrow> string set \<Rightarrow> nat" where
  "total_cost nodes S = (\<Sum>i\<in>S. task_execution nodes i + task_wait nodes i)"

text \<open>A started task: it waits for each of its dependencies, and is no later than everything in sequence.\<close>

definition task_scheduled :: "task_map \<Rightarrow> schedule_state \<Rightarrow> string \<Rightarrow> u64 \<Rightarrow> bool" where
  "task_scheduled nodes st i f \<longleftrightarrow>
     \<not> unknown_duration nodes i \<and> nodes i \<noteq> None
     \<and> (\<forall>d\<in>task_deps nodes i. \<exists>g. ss_finish st d = Some g \<and> unat g + task_wait nodes i + task_execution nodes i \<le> unat f)
     \<and> task_wait nodes i + task_execution nodes i \<le> unat f
     \<and> unat f \<le> total_cost nodes (dom (ss_finish st))
     \<and> (\<exists>p. ss_pred st i = Some p \<and> (p = None \<longleftrightarrow> task_deps nodes i = {}) \<and> (\<forall>d. p = Some d \<longrightarrow> d \<in> task_deps nodes i))"

text \<open>The tasks that execute at a moment: started, and not yet finished.\<close>

definition busy_at :: "task_map \<Rightarrow> schedule_state \<Rightarrow> nat \<Rightarrow> string set" where
  "busy_at nodes st \<tau> = {i. \<exists>f. ss_finish st i = Some f \<and> unat f - task_execution nodes i \<le> \<tau> \<and> \<tau> < unat f}"

definition sim_inv :: "task_map \<Rightarrow> string set \<Rightarrow> nat \<Rightarrow> u64 \<Rightarrow> schedule_state \<Rightarrow> bool" where
  "sim_inv nodes N slots now st \<longleftrightarrow>
     finite N \<and> N \<subseteq> dom nodes \<and> (\<forall>i\<in>N. task_deps nodes i \<subseteq> N)
     \<and> dom (ss_finish st) \<union> set (ss_remaining st) = N \<and> dom (ss_finish st) \<inter> set (ss_remaining st) = {}
     \<and> distinct (ss_remaining st)
     \<and> (\<forall>i f. ss_finish st i = Some f \<longrightarrow> task_scheduled nodes st i f)
     \<and> unat (ss_refused st) = (\<Sum>i\<in>dom (ss_finish st). task_execution nodes i)
     \<and> (\<forall>(i, f)\<in>set (ss_running st). ss_finish st i = Some f)
     \<and> (\<forall>i f. ss_finish st i = Some f \<and> now < f \<longrightarrow> (i, f) \<in> set (ss_running st))
     \<and> unat now \<le> total_cost nodes (dom (ss_finish st))
     \<and> (\<forall>\<tau><unat now. card (busy_at nodes st \<tau>) \<le> slots)"

lemma sim_inv_finite: "sim_inv nodes N slots now st \<Longrightarrow> finite (dom (ss_finish st))"
  unfolding sim_inv_def by (meson finite_subset sup.cobounded1)

lemma total_cost_insert:
  "finite S \<Longrightarrow> i \<notin> S \<Longrightarrow> total_cost nodes (insert i S) = task_execution nodes i + task_wait nodes i + total_cost nodes S"
  by (simp add: total_cost_def)

lemma deps_started_mono:
  "deps_started nodes st i \<Longrightarrow> dom (ss_finish st) \<subseteq> dom (ss_finish st') \<Longrightarrow> deps_started nodes st' i"
  by (fastforce simp: deps_started_def list_all_iff split: option.splits)

lemma task_scheduled_mono:
  assumes "task_scheduled nodes st j g" and "j \<in> dom (ss_finish st)" and "ss_finish st i = None" and "finite (dom (ss_finish st))"
    and "ss_finish st' = (ss_finish st)(i \<mapsto> f)" and "ss_pred st' = (ss_pred st)(i \<mapsto> p)"
  shows "task_scheduled nodes st' j g"
proof -
  have keep: "ss_finish st' d = Some x" if "ss_finish st d = Some x" for d x using that assms(3,5) by auto
  have "i \<notin> dom (ss_finish st)" using assms(3) by auto
  then have "total_cost nodes (dom (ss_finish st)) \<le> total_cost nodes (dom (ss_finish st'))"
    using assms(4,5) by (simp add: total_cost_insert)
  moreover have "ss_pred st' j = ss_pred st j" using assms(2,3,6) by auto
  ultimately show ?thesis using assms(1) keep unfolding task_scheduled_def by (smt (verit) le_trans)
qed

lemma sim_inv_start:
  assumes inv: "sim_inv nodes N slots now st" and i: "i \<in> set (ss_remaining st)"
    and t: "nodes i = Some t" "tn_effective_execution_ms t = Some e" "tn_wait_before_ms t = Some w"
    and deps: "\<forall>d\<in>set (tn_depends_on t). \<exists>g. ss_finish st d = Some g \<and> unat g \<le> m"
    and m: "m = 0 \<or> (\<exists>d\<in>set (tn_depends_on t). \<exists>g. ss_finish st d = Some g \<and> m = unat g)"
    and f: "unat f = max (unat now) (m + unat w) + unat e"
    and refused: "unat (ss_refused st + e) = unat (ss_refused st) + unat e"
    and p: "p = None \<longleftrightarrow> tn_depends_on t = []" "\<And>d. p = Some d \<Longrightarrow> d \<in> set (tn_depends_on t)"
    and st': "st' = st\<lparr>ss_finish := (ss_finish st)(i \<mapsto> f), ss_remaining := remove1 i (ss_remaining st),
         ss_running := ss_running st @ [(i, f)], ss_refused := ss_refused st + e, ss_pred := (ss_pred st)(i \<mapsto> p)\<rparr>"
  shows "sim_inv nodes N slots now st'"
proof -
  have fin: "finite (dom (ss_finish st))" using inv by (rule sim_inv_finite)
  have new: "i \<notin> dom (ss_finish st)" using inv i by (auto simp: sim_inv_def)
  have cost: "task_execution nodes i = unat e" "task_wait nodes i = unat w" "task_deps nodes i = set (tn_depends_on t)"
    using t by (simp_all add: task_execution_def task_wait_def task_deps_def)
  have total: "total_cost nodes (dom (ss_finish st')) = unat e + unat w + total_cost nodes (dom (ss_finish st))"
    using fin new st' cost by (simp add: total_cost_insert)
  have sched: "\<forall>j g. ss_finish st j = Some g \<longrightarrow> task_scheduled nodes st j g" using inv by (simp add: sim_inv_def)
  then have "m \<le> total_cost nodes (dom (ss_finish st))" using m by (auto simp: task_scheduled_def)
  moreover have "unat now \<le> total_cost nodes (dom (ss_finish st))" using inv by (simp add: sim_inv_def)
  ultimately have late: "unat f \<le> total_cost nodes (dom (ss_finish st'))" using f total by simp
  have known: "\<not> unknown_duration nodes i" using t by (simp add: unknown_duration_def)
  have mine: "task_scheduled nodes st' i f"
    unfolding task_scheduled_def
  proof (intro conjI ballI)
    fix d assume "d \<in> task_deps nodes i"
    then obtain g where "ss_finish st d = Some g" "unat g \<le> m" using deps cost by auto
    with f cost new st' show "\<exists>g. ss_finish st' d = Some g \<and> unat g + task_wait nodes i + task_execution nodes i \<le> unat f"
      by (intro exI[of _ g]) auto
  next
    show "\<exists>p. ss_pred st' i = Some p \<and> (p = None) = (task_deps nodes i = {}) \<and> (\<forall>d. p = Some d \<longrightarrow> d \<in> task_deps nodes i)"
      using p cost st' by auto
  qed (use t known f cost late p st' in auto)
  have others: "task_scheduled nodes st' j g" if "ss_finish st j = Some g" for j g
    using task_scheduled_mono[of nodes st j g i st' f p] sched that new fin st' by (auto simp: domI)
  have busy: "busy_at nodes st' \<tau> = busy_at nodes st \<tau>" if "\<tau> < unat now" for \<tau>
    using that f new cost st' by (auto simp: busy_at_def domIff split: if_splits)
  show ?thesis
    unfolding sim_inv_def
  proof (intro conjI allI impI)
    show "finite N" "N \<subseteq> dom nodes" "\<forall>i\<in>N. task_deps nodes i \<subseteq> N" using inv by (simp_all add: sim_inv_def)
    show "dom (ss_finish st') \<union> set (ss_remaining st') = N" "dom (ss_finish st') \<inter> set (ss_remaining st') = {}"
      "distinct (ss_remaining st')"
      using inv i st' by (auto simp: sim_inv_def)
    show "task_scheduled nodes st' j g" if "ss_finish st' j = Some g" for j g
      using that mine others st' by (cases "j = i") auto
    show "unat (ss_refused st') = (\<Sum>i\<in>dom (ss_finish st'). task_execution nodes i)"
      using inv fin new st' refused cost by (simp add: sim_inv_def)
    show "\<forall>(j, g)\<in>set (ss_running st'). ss_finish st' j = Some g"
      using inv new st' by (fastforce simp: sim_inv_def)
    show "(j, g) \<in> set (ss_running st')" if "ss_finish st' j = Some g \<and> now < g" for j g
      using that inv st' by (cases "j = i") (auto simp: sim_inv_def)
    show "unat now \<le> total_cost nodes (dom (ss_finish st'))" using inv total by (simp add: sim_inv_def)
    show "card (busy_at nodes st' \<tau>) \<le> slots" if "\<tau> < unat now" for \<tau>
      using that inv busy by (simp add: sim_inv_def)
  qed
qed

lemma start_ready_inv:
  assumes "sim_inv nodes N slots now st" and "set ready \<subseteq> set (ss_remaining st)" and "distinct ready"
    and "\<forall>i\<in>set ready. deps_started nodes st i" and "length (ss_running st) + (free - started) \<le> slots"
    and "\<forall>(i, f)\<in>set (ss_running st). now \<le> f"
  shows "start_ready nodes now free started st ready = Inl (Failure EtaOverflow)
    \<or> (\<exists>st'. start_ready nodes now free started st ready = Inr st' \<and> sim_inv nodes N slots now st'
          \<and> length (ss_running st') \<le> slots \<and> (\<forall>(i, f)\<in>set (ss_running st'). now \<le> f)
          \<and> set (ss_running st) \<subseteq> set (ss_running st')
          \<and> (ss_running st' = [] \<longrightarrow> st' = st \<and> (started < free \<longrightarrow> (\<forall>i\<in>set ready. unknown_duration nodes i))))"
  using assms
proof (induction nodes now free started st ready rule: start_ready.induct)
  case (1 nodes now free started st)
  then show ?case by auto
next
  case (2 nodes now free started st i ready)
  show ?case
  proof (cases "started \<ge> free")
    case True
    with "2.prems" show ?thesis by auto
  next
    case False
    have "deps_started nodes st i" using "2.prems"(4) by simp
    then show ?thesis
    proof (cases rule: start_task_cases[of nodes st i now])
      case overflow
      with False show ?thesis by simp
    next
      case unknown
      from "2.IH"(1)[OF False unknown(1) refl] "2.prems" unknown(2) False
      have "start_ready nodes now free started st ready = Inl (Failure EtaOverflow)
        \<or> (\<exists>st'. start_ready nodes now free started st ready = Inr st' \<and> sim_inv nodes N slots now st'
              \<and> length (ss_running st') \<le> slots \<and> (\<forall>(i, f)\<in>set (ss_running st'). now \<le> f)
              \<and> set (ss_running st) \<subseteq> set (ss_running st')
              \<and> (ss_running st' = [] \<longrightarrow> st' = st \<and> (\<forall>i\<in>set ready. unknown_duration nodes i)))" by simp
      with unknown False show ?thesis by auto
    next
      case (started t e w f p m)
      define s where "s = st\<lparr>ss_finish := (ss_finish st)(i \<mapsto> f), ss_remaining := remove1 i (ss_remaining st),
         ss_running := ss_running st @ [(i, f)], ss_refused := ss_refused st + e, ss_pred := (ss_pred st)(i \<mapsto> p)\<rparr>"
      have run: "start_task nodes now st i = Inr (Some s)" using started(10) by (simp add: s_def)
      have i: "i \<in> set (ss_remaining st)" using "2.prems"(2) by simp
      have inv: "sim_inv nodes N slots now s"
        using sim_inv_start[OF "2.prems"(1) i started(1-9) s_def] .
      have "set ready \<subseteq> set (ss_remaining s)"
        using "2.prems"(1-3) by (auto simp: s_def sim_inv_def)
      moreover have "\<forall>j\<in>set ready. deps_started nodes s j"
        using "2.prems"(4) by (auto simp: s_def intro: deps_started_mono)
      moreover have "length (ss_running s) + (free - (started + 1)) \<le> slots"
        using "2.prems"(5) False by (simp add: s_def)
      moreover have "\<forall>(j, g)\<in>set (ss_running s). now \<le> g"
        using "2.prems"(6) started(6) by (auto simp: s_def word_le_nat_alt)
      moreover have "distinct ready" using "2.prems"(3) by simp
      ultimately have "start_ready nodes now free (started + 1) s ready = Inl (Failure EtaOverflow)
        \<or> (\<exists>st'. start_ready nodes now free (started + 1) s ready = Inr st' \<and> sim_inv nodes N slots now st'
              \<and> length (ss_running st') \<le> slots \<and> (\<forall>(i, f)\<in>set (ss_running st'). now \<le> f)
              \<and> set (ss_running s) \<subseteq> set (ss_running st')
              \<and> (ss_running st' = [] \<longrightarrow> st' = s \<and> (started + 1 < free \<longrightarrow> (\<forall>i\<in>set ready. unknown_duration nodes i))))"
        using "2.IH"(2)[OF False run refl inv] by blast
      then show ?thesis
      proof (elim disjE exE conjE)
        assume "start_ready nodes now free (started + 1) s ready = Inl (Failure EtaOverflow)"
        with False run show ?thesis by simp
      next
        fix st' assume st': "start_ready nodes now free (started + 1) s ready = Inr st'" "sim_inv nodes N slots now st'"
          "length (ss_running st') \<le> slots" "\<forall>(i, f)\<in>set (ss_running st'). now \<le> f" "set (ss_running s) \<subseteq> set (ss_running st')"
        then have "ss_running st' \<noteq> []" "set (ss_running st) \<subseteq> set (ss_running st')" by (auto simp: s_def)
        with st' False run show ?thesis by simp
      qed
    qed
  qed
qed

lemma sim_inv_free:
  assumes "sim_inv nodes N slots now st"
  shows "sim_inv nodes N slots now (st\<lparr>ss_running := filter (\<lambda>(_, fin). fin > now) (ss_running st)\<rparr>)"
proof -
  have "task_scheduled nodes (st\<lparr>ss_running := r\<rparr>) = task_scheduled nodes st" for r
    by (simp add: task_scheduled_def fun_eq_iff)
  moreover have "busy_at nodes (st\<lparr>ss_running := r\<rparr>) = busy_at nodes st" for r
    by (simp add: busy_at_def fun_eq_iff)
  ultimately show ?thesis using assms by (auto simp: sim_inv_def)
qed

lemma schedule_starts_inv:
  assumes inv: "sim_inv nodes N slots now st" and len: "length (ss_running st) \<le> slots" and slots: "0 < slots"
  shows "schedule_starts nodes slots st now = Inl (Failure EtaOverflow)
    \<or> (\<exists>st'. schedule_starts nodes slots st now = Inr st' \<and> sim_inv nodes N slots now st'
          \<and> length (ss_running st') \<le> slots \<and> (\<forall>(i, f)\<in>set (ss_running st'). now \<le> f)
          \<and> (ss_running st' = [] \<longrightarrow>
               (\<forall>i\<in>set (ss_remaining st'). deps_started nodes st' i \<longrightarrow> unknown_duration nodes i)))"
proof -
  let ?st = "st\<lparr>ss_running := filter (\<lambda>(_, fin). fin > now) (ss_running st)\<rparr>"
  let ?free = "slots - length (ss_running ?st)"
  let ?ready = "filter (deps_started nodes ?st) (ss_remaining ?st)"
  note inv' = sim_inv_free[OF inv]
  have known: "\<not> list_ex (\<lambda>i. nodes i = None) (ss_remaining st)"
    using inv by (auto simp: sim_inv_def list_ex_iff)
  have eval: "schedule_starts nodes slots st now = (if ?free > 0 then start_ready nodes now ?free 0 ?st ?ready else Inr ?st)"
    using known by (simp add: schedule_starts_def refuse_def then_ok_def Let_def)
  have flen: "length (ss_running ?st) \<le> length (ss_running st)" by simp
  have late: "\<forall>(i, f)\<in>set (ss_running ?st). now \<le> f" by auto
  show ?thesis
  proof (cases "?free > 0")
    case False
    then have "ss_running ?st \<noteq> []" using slots by auto
    with False eval inv' late le_trans[OF flen len] show ?thesis by auto
  next
    case True
    have "set ?ready \<subseteq> set (ss_remaining ?st)" "distinct ?ready" "\<forall>i\<in>set ?ready. deps_started nodes ?st i"
      using inv' by (auto simp: sim_inv_def)
    moreover have "length (ss_running ?st) + (?free - 0) \<le> slots" using le_trans[OF flen len] by simp
    ultimately have r: "start_ready nodes now ?free 0 ?st ?ready = Inl (Failure EtaOverflow)
      \<or> (\<exists>st'. start_ready nodes now ?free 0 ?st ?ready = Inr st' \<and> sim_inv nodes N slots now st'
            \<and> length (ss_running st') \<le> slots \<and> (\<forall>(i, f)\<in>set (ss_running st'). now \<le> f)
            \<and> set (ss_running ?st) \<subseteq> set (ss_running st')
            \<and> (ss_running st' = [] \<longrightarrow> st' = ?st \<and> (0 < ?free \<longrightarrow> (\<forall>i\<in>set ?ready. unknown_duration nodes i))))"
      by (rule start_ready_inv[OF inv' _ _ _ _ late])
    have e: "schedule_starts nodes slots st now = start_ready nodes now ?free 0 ?st ?ready" using eval True by simp
    from r show ?thesis
    proof
      assume "start_ready nodes now ?free 0 ?st ?ready = Inl (Failure EtaOverflow)"
      then show ?thesis unfolding e by blast
    next
      assume "\<exists>st'. start_ready nodes now ?free 0 ?st ?ready = Inr st' \<and> sim_inv nodes N slots now st'
            \<and> length (ss_running st') \<le> slots \<and> (\<forall>(i, f)\<in>set (ss_running st'). now \<le> f)
            \<and> set (ss_running ?st) \<subseteq> set (ss_running st')
            \<and> (ss_running st' = [] \<longrightarrow> st' = ?st \<and> (0 < ?free \<longrightarrow> (\<forall>i\<in>set ?ready. unknown_duration nodes i)))"
      then obtain st' where st': "start_ready nodes now ?free 0 ?st ?ready = Inr st'" "sim_inv nodes N slots now st'"
          "length (ss_running st') \<le> slots" "\<forall>(i, f)\<in>set (ss_running st'). now \<le> f"
        and none: "ss_running st' = [] \<Longrightarrow> st' = ?st \<and> (\<forall>i\<in>set ?ready. unknown_duration nodes i)"
        using True by blast
      have "\<forall>i\<in>set (ss_remaining st'). deps_started nodes st' i \<longrightarrow> unknown_duration nodes i" if "ss_running st' = []"
        using none[OF that] by auto
      with st' show ?thesis unfolding e by blast
    qed
  qed
qed

text \<open>Advancing to the next completion.\<close>

lemma sim_inv_advance:
  assumes inv: "sim_inv nodes N slots now st" and run: "ss_running st \<noteq> []" and len: "length (ss_running st) \<le> slots"
    and late: "\<forall>(i, f)\<in>set (ss_running st). now \<le> f"
  shows "sim_inv nodes N slots (Min (snd ` set (ss_running st))) st"
proof -
  let ?now = "Min (snd ` set (ss_running st))"
  have "?now \<in> snd ` set (ss_running st)" using run by (intro Min_in) auto
  then obtain i where i: "(i, ?now) \<in> set (ss_running st)" by auto
  then have le: "now \<le> ?now" and fin: "ss_finish st i = Some ?now" using late inv by (auto simp: sim_inv_def)
  have first: "?now \<le> f" if "(j, f) \<in> set (ss_running st)" for j f using that by (auto intro!: Min_le image_eqI)
  have "card (busy_at nodes st \<tau>) \<le> slots" if "\<tau> < unat ?now" for \<tau>
  proof (cases "\<tau> < unat now")
    case True
    with inv show ?thesis by (simp add: sim_inv_def)
  next
    case False
    have "busy_at nodes st \<tau> \<subseteq> fst ` set (ss_running st)"
    proof
      fix j assume "j \<in> busy_at nodes st \<tau>"
      then obtain f where f: "ss_finish st j = Some f" "\<tau> < unat f" by (auto simp: busy_at_def)
      with False have "now < f" by (simp add: word_less_nat_alt)
      with f inv have "(j, f) \<in> set (ss_running st)" by (simp add: sim_inv_def)
      then show "j \<in> fst ` set (ss_running st)" by force
    qed
    then have "card (busy_at nodes st \<tau>) \<le> card (fst ` set (ss_running st))" by (intro card_mono) auto
    also have "\<dots> \<le> length (ss_running st)"
      using card_length[of "map fst (ss_running st)"] by simp
    finally show ?thesis using len by simp
  qed
  moreover have "unat ?now \<le> total_cost nodes (dom (ss_finish st))"
    using inv fin unfolding sim_inv_def task_scheduled_def by blast
  moreover have "(j, f) \<in> set (ss_running st)" if "ss_finish st j = Some f" "?now < f" for j f
    using inv that le unfolding sim_inv_def by (meson le_less_trans)
  ultimately show ?thesis using inv unfolding sim_inv_def by blast
qed

text \<open>Among the remaining tasks of an acyclic graph one has all its dependencies started.\<close>

lemma remaining_ready:
  assumes inv: "sim_inv nodes N slots now st" and acyc: "acyclic (graph_edges (dom nodes) (task_deps nodes))"
    and fin: "finite (dom nodes)" and rem: "ss_remaining st \<noteq> []"
  shows "\<exists>i\<in>set (ss_remaining st). deps_started nodes st i"
proof -
  let ?E = "graph_edges (dom nodes) (task_deps nodes) \<inter> N \<times> N"
  have "finite N" using inv by (simp add: sim_inv_def)
  then have "wf (?E\<inverse>)"
    using acyc by (intro finite_acyclic_wf) (auto simp: acyclic_converse elim: acyclic_subset)
  then obtain i where i: "i \<in> set (ss_remaining st)" "\<And>d. (d, i) \<in> ?E\<inverse> \<Longrightarrow> d \<notin> set (ss_remaining st)"
    using rem wfE_min[of "?E\<inverse>" _ "set (ss_remaining st)"] by (metis set_empty ex_in_conv)
  then have "i \<in> N" using inv by (auto simp: sim_inv_def)
  then obtain t where t: "nodes i = Some t" "task_deps nodes i = set (tn_depends_on t)"
    using inv by (auto simp: sim_inv_def task_deps_def)
  have "ss_finish st d \<noteq> None" if "d \<in> set (tn_depends_on t)" for d
  proof -
    have "task_deps nodes i \<subseteq> N" and parts: "dom (ss_finish st) \<union> set (ss_remaining st) = N"
      using inv \<open>i \<in> N\<close> by (simp_all add: sim_inv_def)
    with that t have "d \<in> N" by auto
    moreover have "(i, d) \<in> ?E" using that t \<open>i \<in> N\<close> calculation by (auto simp: graph_edges_def)
    ultimately show ?thesis using i(2) parts by auto
  qed
  with i t show ?thesis by (auto simp: deps_started_def list_all_iff intro!: bexI[of _ i])
qed

definition loop_end :: "task_map \<Rightarrow> string set \<Rightarrow> nat \<Rightarrow> schedule_state \<Rightarrow> bool" where
  "loop_end nodes N slots st \<longleftrightarrow>
     (\<exists>now. sim_inv nodes N slots now st) \<and> ss_running st = []
     \<and> (\<forall>i\<in>set (ss_remaining st). deps_started nodes st i \<longrightarrow> unknown_duration nodes i)"

lemma schedule_loop_result:
  assumes "sim_inv nodes N slots now st" and "length (ss_running st) \<le> slots"
    and "acyclic (graph_edges (dom nodes) (task_deps nodes))" and "finite (dom nodes)" and "0 < slots"
  shows "schedule_loop nodes slots st now = Inl (Failure EtaOverflow)
    \<or> (\<exists>st'. schedule_loop nodes slots st now = Inr st' \<and> loop_end nodes N slots st')"
  using assms
proof (induction nodes slots st now rule: schedule_loop.induct)
  case (1 nodes slots st now)
  show ?case
  proof (cases "ss_remaining st = [] \<and> ss_running st = []")
    case True
    with "1.prems" show ?thesis by (auto simp: schedule_loop.simps[of nodes slots st now] loop_end_def)
  next
    case False
    from schedule_starts_inv[OF "1.prems"(1,2,5)] show ?thesis
    proof (elim disjE exE conjE)
      assume "schedule_starts nodes slots st now = Inl (Failure EtaOverflow)"
      with False have "schedule_loop nodes slots st now = Inl (Failure EtaOverflow)"
        by (auto simp: schedule_loop.simps[of nodes slots st now])
      then show ?thesis ..
    next
      fix st' assume starts: "schedule_starts nodes slots st now = Inr st'" and inv: "sim_inv nodes N slots now st'"
        and len: "length (ss_running st') \<le> slots" and late: "\<forall>(i, f)\<in>set (ss_running st'). now \<le> f"
        and idle: "ss_running st' = [] \<longrightarrow>
          (\<forall>i\<in>set (ss_remaining st'). deps_started nodes st' i \<longrightarrow> unknown_duration nodes i)"
      show ?thesis
      proof (cases "ss_running st' = []")
        case True
        have "list_ex (unknown_duration nodes) (ss_remaining st')" if "ss_remaining st' \<noteq> []"
          using remaining_ready[OF inv "1.prems"(3,4) that] idle True by (auto simp: list_ex_iff)
        then have "schedule_loop nodes slots st now = Inr st'"
          using False starts True by (auto simp: schedule_loop.simps[of nodes slots st now])
        with inv True idle show ?thesis unfolding loop_end_def by blast
      next
        case running: False
        have step: "schedule_loop nodes slots st now = schedule_loop nodes slots st' (Min (snd ` set (ss_running st')))"
          using False starts running by (auto simp: schedule_loop.simps[of nodes slots st now])
        have "schedule_loop nodes slots st' (Min (snd ` set (ss_running st'))) = Inl (Failure EtaOverflow)
          \<or> (\<exists>st''. schedule_loop nodes slots st' (Min (snd ` set (ss_running st'))) = Inr st'' \<and> loop_end nodes N slots st'')"
          using "1.IH"[OF False starts] running sim_inv_advance[OF inv running len late] len "1.prems"(3-5) by blast
        then show ?thesis unfolding step .
      qed
    qed
  qed
qed

lemma sim_inv_init:
  assumes "finite N" and "N \<subseteq> dom nodes" and "\<forall>i\<in>N. task_deps nodes i \<subseteq> N"
  shows "sim_inv nodes N slots 0 (init_schedule N)"
  using assms by (auto simp: sim_inv_def init_schedule_def busy_at_def)

section \<open>The report\<close>

text \<open>A chain of dependencies, each task after the one it waits for.\<close>

fun dep_chain :: "task_map \<Rightarrow> string list \<Rightarrow> bool" where
  "dep_chain nodes [] = False"
| "dep_chain nodes [i] = True"
| "dep_chain nodes (d # i # path) = (d \<in> task_deps nodes i \<and> dep_chain nodes (i # path))"

lemma trace_path_chain:
  assumes "loop_end nodes N slots st" and "acyclic (graph_edges (dom nodes) (task_deps nodes))" and "finite (dom nodes)"
    and "ss_finish st i \<noteq> None" and "dep_chain nodes (i # path)" and "set path \<subseteq> dom (ss_finish st)"
  shows "\<exists>p. trace_path (ss_pred st) path i = Some p \<and> dep_chain nodes p \<and> last p = last (i # path)
     \<and> task_deps nodes (hd p) = {} \<and> set p \<subseteq> dom (ss_finish st)"
proof -
  from assms(1) obtain now where inv: "sim_inv nodes N slots now st" by (auto simp: loop_end_def)
  let ?E = "graph_edges (dom nodes) (task_deps nodes)"
  have "finite ?E"
  proof (rule finite_subset)
    show "?E \<subseteq> dom nodes \<times> (\<Union>i\<in>dom nodes. task_deps nodes i)" by (auto simp: graph_edges_def)
    show "finite (dom nodes \<times> (\<Union>i\<in>dom nodes. task_deps nodes i))"
      using assms(3) by (auto simp: task_deps_def split: option.splits)
  qed
  then have wf: "wf (?E\<inverse>)" using assms(2) by (intro finite_acyclic_wf) (auto simp: acyclic_converse)
  from wf assms(4-6) show ?thesis
  proof (induction i arbitrary: path rule: wf_induct_rule)
    case (less i)
    then obtain f where "ss_finish st i = Some f" by auto
    then have sched: "task_scheduled nodes st i f" using inv by (simp add: sim_inv_def)
    then obtain p where p: "ss_pred st i = Some p" "p = None \<longleftrightarrow> task_deps nodes i = {}"
        "\<forall>d. p = Some d \<longrightarrow> d \<in> task_deps nodes i" by (auto simp: task_scheduled_def)
    show ?case
    proof (cases p)
      case None
      with p less.prems show ?thesis by (auto simp: trace_path.simps[of _ _ i])
    next
      case (Some d)
      then have d: "d \<in> task_deps nodes i" using p by simp
      then have "(d, i) \<in> ?E\<inverse>" by (auto simp: graph_edges_def task_deps_def split: option.splits)
      moreover have "ss_finish st d \<noteq> None" using sched d by (auto simp: task_scheduled_def)
      moreover have "dep_chain nodes (d # i # path)" using d less.prems(2) by simp
      moreover have "set (i # path) \<subseteq> dom (ss_finish st)" using less.prems by auto
      ultimately have "\<exists>q. trace_path (ss_pred st) (i # path) d = Some q \<and> dep_chain nodes q \<and> last q = last (d # i # path)
         \<and> task_deps nodes (hd q) = {} \<and> set q \<subseteq> dom (ss_finish st)" by (rule less.IH)
      with p Some show ?thesis by (simp add: trace_path.simps[of _ path i])
    qed
  qed
qed

text \<open>A chain is never longer than the finish time of its last task.\<close>

lemma chain_finish:
  assumes "sim_inv nodes N slots now st" and "dep_chain nodes path" and "ss_finish st (last path) = Some f"
  shows "set path \<subseteq> dom (ss_finish st) \<and> (\<Sum>i\<leftarrow>path. task_execution nodes i + task_wait nodes i) \<le> unat f"
  using assms(2,3)
proof (induction path arbitrary: f rule: rev_induct)
  case Nil
  then show ?case by simp
next
  case (snoc i path)
  then have "task_scheduled nodes st i f" using assms(1) by (simp add: sim_inv_def)
  then have sched: "task_wait nodes i + task_execution nodes i \<le> unat f"
      "\<And>d. d \<in> task_deps nodes i \<Longrightarrow> \<exists>g. ss_finish st d = Some g \<and> unat g + task_wait nodes i + task_execution nodes i \<le> unat f"
    unfolding task_scheduled_def by auto
  show ?case
  proof (cases path rule: rev_cases)
    case Nil
    with sched(1) snoc.prems show ?thesis by (auto simp: add.commute)
  next
    case (snoc ps d)
    have chain: "dep_chain nodes (ps @ [d, i]) \<Longrightarrow> d \<in> task_deps nodes i \<and> dep_chain nodes (ps @ [d])" for ps
      by (induction ps rule: dep_chain.induct[of _ nodes, case_names nil one more]) (auto simp: neq_Nil_conv elim: dep_chain.elims)
    from chain[of ps] snoc.prems(1) snoc have d: "d \<in> task_deps nodes i" "dep_chain nodes path" by simp_all
    obtain g where g: "ss_finish st d = Some g" "unat g + task_wait nodes i + task_execution nodes i \<le> unat f"
      using sched(2)[OF d(1)] by blast
    from snoc.IH[OF d(2), of g] g snoc snoc.prems(2) show ?thesis by auto
  qed
qed

lemma scheduled_known:
  assumes "sim_inv nodes N slots now st" and "i \<in> dom (ss_finish st)"
  obtains t e w where "nodes i = Some t" "tn_effective_execution_ms t = Some e" "tn_wait_before_ms t = Some w"
    "task_execution nodes i = unat e" "task_wait nodes i = unat w"
proof -
  from assms obtain f where "ss_finish st i = Some f" by auto
  with assms(1) have "task_scheduled nodes st i f" unfolding sim_inv_def by blast
  then have "nodes i \<noteq> None" "\<not> unknown_duration nodes i" by (simp_all add: task_scheduled_def)
  then obtain t e w where "nodes i = Some t" "tn_effective_execution_ms t = Some e" "tn_wait_before_ms t = Some w"
    by (auto simp: unknown_duration_def)
  then show thesis by (intro that[of t e w]) (simp_all add: task_execution_def task_wait_def)
qed

lemma path_execution_sum:
  assumes "sim_inv nodes N slots now st" and "set path \<subseteq> dom (ss_finish st)"
    and "(\<Sum>i\<leftarrow>path. task_execution nodes i) < 2 ^ 64"
  shows "\<exists>e. path_execution nodes path = Inr e \<and> unat e = (\<Sum>i\<leftarrow>path. task_execution nodes i)"
proof -
  let ?f = "\<lambda>acc i. and_then (index nodes i) (\<lambda>t.
        lift_failure (add_u64 acc (case tn_effective_execution_ms t of Some v \<Rightarrow> v | None \<Rightarrow> 0)))"
  have "\<exists>e. try_fold ?f a path = Inr e \<and> unat e = unat a + (\<Sum>i\<leftarrow>path. task_execution nodes i)"
    if "set path \<subseteq> dom (ss_finish st)" "unat a + (\<Sum>i\<leftarrow>path. task_execution nodes i) < 2 ^ 64" for a path
    using that
  proof (induction path arbitrary: a)
    case (Cons i path)
    from assms(1) Cons.prems(1) obtain t e
      where t: "nodes i = Some t" "tn_effective_execution_ms t = Some e" "task_execution nodes i = unat e"
      by (auto elim: scheduled_known)
    with Cons.prems(2) have "unat a + unat e < 2 ^ 64" by simp
    then have "unat (a + e) = unat a + unat e" and step: "?f a i = Inr (a + e)"
      using t by (simp_all add: unat_add_lem[symmetric] add_u64_def ok_or_def checked_add_def map_err_def)
    with Cons.IH[of "a + e"] Cons.prems t show ?case by (simp add: add.assoc)
  qed simp
  from this[of path 0] assms(2,3) show ?thesis by (simp add: path_execution_def)
qed

lemma path_wait_sum:
  assumes "sim_inv nodes N slots now st" and "set path \<subseteq> dom (ss_finish st)"
    and "unat acc + (\<Sum>i\<leftarrow>path. task_wait nodes i) < 2 ^ 64"
  shows "\<exists>w. path_wait nodes acc path = Inr (Some w) \<and> unat w = unat acc + (\<Sum>i\<leftarrow>path. task_wait nodes i)"
  using assms(2,3)
proof (induction path arbitrary: acc)
  case (Cons i path)
  from assms(1) Cons.prems(1) obtain t w
    where t: "nodes i = Some t" "tn_wait_before_ms t = Some w" "task_wait nodes i = unat w"
    by (auto elim: scheduled_known)
  with Cons.prems(2) have "unat acc + unat w < 2 ^ 64" by simp
  then have "unat (acc + w) = unat acc + unat w" and "path_wait nodes acc (i # path) = path_wait nodes (acc + w) path"
    using t by (simp_all add: unat_add_lem[symmetric] add_u64_def ok_or_def checked_add_def)
  with Cons.IH[of "acc + w"] Cons.prems t show ?case by (simp add: add.assoc)
qed simp

lemma path_wait_answers:
  "set path \<subseteq> dom nodes \<Longrightarrow> path_wait nodes acc path = Inl (Failure EtaOverflow) \<or> (\<exists>w. path_wait nodes acc path = Inr w)"
  by (induction nodes acc path rule: path_wait.induct)
    (auto simp: add_u64_def ok_or_def checked_add_def split: option.splits)

text \<open>What is reported of a finished simulation.\<close>

definition report_ok :: "task_map \<Rightarrow> string set \<Rightarrow> string \<Rightarrow> eta_schedule_result \<Rightarrow> bool" where
  "report_ok nodes N target r \<longleftrightarrow>
     (sr_checkpoint_ready_ms r = None \<longleftrightarrow> (\<exists>i\<in>N. unknown_duration nodes i))
     \<and> (\<forall>R. sr_checkpoint_ready_ms r = Some R \<longrightarrow>
          (\<forall>path. dep_chain nodes path \<and> last path = target \<longrightarrow>
             (\<Sum>i\<leftarrow>path. task_execution nodes i + task_wait nodes i) \<le> unat R)
          \<and> unat R \<le> total_cost nodes N
          \<and> dep_chain nodes (sr_critical_path_work_ids r) \<and> last (sr_critical_path_work_ids r) = target
          \<and> task_deps nodes (hd (sr_critical_path_work_ids r)) = {}
          \<and> (\<exists>e w. sr_effective_execution_ms r = Some e \<and> sr_dependency_or_human_wait_ms r = Some w
               \<and> unat e = (\<Sum>i\<leftarrow>sr_critical_path_work_ids r. task_execution nodes i)
               \<and> unat w = (\<Sum>i\<leftarrow>sr_critical_path_work_ids r. task_wait nodes i)))"

lemma schedule_report_result:
  assumes fin: "loop_end nodes N slots st" and acyc: "acyclic (graph_edges (dom nodes) (task_deps nodes))"
    and dom: "finite (dom nodes)" and target: "target \<in> N"
    and closure: "\<And>S. target \<in> S \<Longrightarrow> \<forall>i\<in>S. task_deps nodes i \<subseteq> S \<Longrightarrow> N \<subseteq> S"
  shows "schedule_report nodes slots target N st = Inl (Failure EtaOverflow)
    \<or> (\<exists>r. schedule_report nodes slots target N st = Inr r \<and> report_ok nodes N target r)"
proof -
  from fin obtain now where inv: "sim_inv nodes N slots now st" by (auto simp: loop_end_def)
  have parts: "dom (ss_finish st) \<union> set (ss_remaining st) = N" "finite N" "N \<subseteq> dom nodes" using inv by (simp_all add: sim_inv_def)
  show ?thesis
  proof (cases "ss_finish st target")
    case None
    then have "ss_remaining st \<noteq> []" using target parts by auto
    from remaining_ready[OF inv acyc dom this] fin parts have unknown: "\<exists>i\<in>N. unknown_duration nodes i"
      by (auto simp: loop_end_def)
    have "path_wait nodes 0 (sorted_list_of_set N) = Inl (Failure EtaOverflow) \<or> (\<exists>w. path_wait nodes 0 (sorted_list_of_set N) = Inr w)"
      using parts by (intro path_wait_answers) simp
    with None unknown show ?thesis by (auto simp: schedule_report_def report_ok_def)
  next
    case (Some R)
    have sched: "task_scheduled nodes st i f" if "ss_finish st i = Some f" for i f using inv that by (simp add: sim_inv_def)
    then have "\<forall>i\<in>dom (ss_finish st). task_deps nodes i \<subseteq> dom (ss_finish st)" by (fastforce simp: task_scheduled_def)
    with closure[of "dom (ss_finish st)"] Some parts have all: "dom (ss_finish st) = N" by auto
    then have known: "\<not> (\<exists>i\<in>N. unknown_duration nodes i)" using sched by (auto simp: task_scheduled_def)
    have late: "unat R \<le> total_cost nodes N" using sched[OF Some] all by (simp add: task_scheduled_def)
    from trace_path_chain[OF fin acyc dom, of target "[]"] Some obtain path
      where path: "trace_path (ss_pred st) [] target = Some path" "dep_chain nodes path" "last path = target"
        "task_deps nodes (hd path) = {}" "set path \<subseteq> dom (ss_finish st)" by auto
    have bound: "(\<Sum>i\<leftarrow>p. task_execution nodes i + task_wait nodes i) \<le> unat R" if "dep_chain nodes p" "last p = target" for p
      using chain_finish[OF inv that(1)] that(2) Some by simp
    have sums: "(\<Sum>i\<leftarrow>path. task_execution nodes i) + (\<Sum>i\<leftarrow>path. task_wait nodes i) \<le> unat R"
      using bound[OF path(2,3)] by (simp add: sum_list_addf)
    have small: "unat R < 2 ^ 64" using unsigned_less[of R] by simp
    obtain e where e: "path_execution nodes path = Inr e" "unat e = (\<Sum>i\<leftarrow>path. task_execution nodes i)"
      using path_execution_sum[OF inv path(5)] sums small by auto
    obtain w where w: "path_wait nodes 0 path = Inr (Some w)" "unat w = (\<Sum>i\<leftarrow>path. task_wait nodes i)"
      using path_wait_sum[OF inv path(5), of 0] sums small by auto
    have "schedule_report nodes slots target N st = Inr \<lparr>sr_checkpoint_ready_ms = Some R, sr_critical_path_work_ids = path,
        sr_effective_execution_ms = Some e, sr_dependency_or_human_wait_ms = Some w,
        sr_refused_parallel_sum_ms = ss_refused st, sr_used_executor_slots = slots\<rparr>"
      using Some path(1) e(1) w(1) by (simp add: schedule_report_def ok_or_def)
    then show ?thesis using known late path bound e w by (auto simp: report_ok_def)
  qed
qed

section \<open>Properties\<close>

abbreviation task_of :: "eta_task_node list \<Rightarrow> task_map" where
  "task_of tasks \<equiv> map_of (map (\<lambda>t. (tn_work_id t, t)) tasks)"

lemma capacity_slots_pos: "capacity_validate c = Inr () \<Longrightarrow> 0 < capacity_slots c"
  by (auto simp: capacity_validate_def capacity_slots_def)

lemma schedule_tasks_result:
  assumes index: "index_tasks tasks target = Inr nodes" and slots: "0 < slots"
  shows "schedule_tasks tasks slots target nodes = (if acyclic (dep_edges tasks)
      then and_then (schedule_loop nodes slots (init_schedule (task_closure tasks target)) 0)
             (schedule_report nodes slots target (task_closure tasks target))
      else Inl (Failure EtaDependencyCycle))"
    and "acyclic (dep_edges tasks) \<Longrightarrow>
      schedule_loop nodes slots (init_schedule (task_closure tasks target)) 0 = Inl (Failure EtaOverflow)
      \<or> (\<exists>st. schedule_loop nodes slots (init_schedule (task_closure tasks target)) 0 = Inr st
            \<and> loop_end nodes (task_closure tasks target) slots st)"
    and "acyclic (dep_edges tasks) \<Longrightarrow> loop_end nodes (task_closure tasks target) slots st \<Longrightarrow>
      schedule_report nodes slots target (task_closure tasks target) st = Inl (Failure EtaOverflow)
      \<or> (\<exists>r. schedule_report nodes slots target (task_closure tasks target) st = Inr r
            \<and> report_ok nodes (task_closure tasks target) target r)"
proof -
  note task = index_tasks_ok[OF index]
  let ?N = "task_closure tasks target"
  have dom: "finite (dom nodes)" unfolding task(1) by (rule finite_dom_map_of)
  have keys: "set (task_keys tasks) = dom nodes" using task(4) dom by (simp add: tasks_wf_def)
  have roots: "eta_roots (task_keys tasks) nodes {} (task_keys tasks)
      = (if acyclic (dep_edges tasks) then Inr () else Inl (Failure EtaDependencyCycle))"
    unfolding task(5) keys[symmetric]
    by (rule eta_roots_result[OF task(4)]) (simp_all add: done_ok_def)
  have close: "closure_loop (task_keys tasks) nodes {} [target] = Inr ?N"
    unfolding task_closure_def task(5) using closure_of_target[OF task(4)] task(3) keys by blast
  show "schedule_tasks tasks slots target nodes = (if acyclic (dep_edges tasks)
      then and_then (schedule_loop nodes slots (init_schedule ?N) 0) (schedule_report nodes slots target ?N)
      else Inl (Failure EtaDependencyCycle))"
    unfolding schedule_tasks_def roots close by (simp add: then_ok_def)
  obtain M where "closure_loop (task_keys tasks) nodes {} [target] = Inr M" "target \<in> M" "M \<subseteq> dom nodes"
      "\<forall>i\<in>M. task_deps nodes i \<subseteq> M" "\<forall>S. target \<in> S \<and> (\<forall>i\<in>S. task_deps nodes i \<subseteq> S) \<longrightarrow> M \<subseteq> S"
    using closure_loop_ok[OF task(4), of "[target]" "{}"] task(3) keys by auto
  with close have N: "target \<in> ?N" "?N \<subseteq> dom nodes" "\<forall>i\<in>?N. task_deps nodes i \<subseteq> ?N"
    "\<forall>S. target \<in> S \<and> (\<forall>i\<in>S. task_deps nodes i \<subseteq> S) \<longrightarrow> ?N \<subseteq> S" by simp_all
  have init: "sim_inv nodes ?N slots 0 (init_schedule ?N)"
    by (rule sim_inv_init[OF finite_subset[OF N(2) dom] N(2,3)])
  have few: "length (ss_running (init_schedule ?N)) \<le> slots" by (simp add: init_schedule_def)
  show "schedule_loop nodes slots (init_schedule ?N) 0 = Inl (Failure EtaOverflow)
      \<or> (\<exists>st. schedule_loop nodes slots (init_schedule ?N) 0 = Inr st \<and> loop_end nodes ?N slots st)"
    if acyc: "acyclic (dep_edges tasks)"
    by (rule schedule_loop_result[OF init few acyc[unfolded task(5)] dom slots])
  show "schedule_report nodes slots target ?N st = Inl (Failure EtaOverflow)
      \<or> (\<exists>r. schedule_report nodes slots target ?N st = Inr r \<and> report_ok nodes ?N target r)"
    if acyc: "acyclic (dep_edges tasks)" and "loop_end nodes ?N slots st"
    using that(2) acyc[unfolded task(5)] dom N by (intro schedule_report_result) blast+
qed

lemma eta_invalid_only:
  "capacity_validate c = Inl e \<Longrightarrow> \<exists>msg. e = EtaInvalid msg"
  "index_tasks tasks target = Inl e \<Longrightarrow> \<exists>msg. e = EtaInvalid msg"
proof -
  show "\<exists>msg. e = EtaInvalid msg" if "capacity_validate c = Inl e"
    using that by (auto simp: capacity_validate_def refuse_def split: if_splits)
  have "\<exists>msg. e = EtaInvalid msg" if "try_fold insert_task m tasks = Inl e" for m
    using that by (induction tasks arbitrary: m)
      (auto simp: insert_task_def refuse_def try_fold_Cons_err split: if_splits)
  then show "\<exists>msg. e = EtaInvalid msg" if "index_tasks tasks target = Inl e"
    using that by (auto simp: index_tasks_def refuse_def split: if_splits)
qed

text \<open>The three ways the scheduler ends.\<close>

lemma schedule_next_cases:
  obtains (invalid) msg where "capacity_validate capacity \<noteq> Inr () \<or> \<not> is_ok (index_tasks tasks target)"
      "schedule_next_acceptance tasks capacity target = Some (Inl (EtaInvalid msg))"
  | (cyclic) nodes where "capacity_validate capacity = Inr ()" "index_tasks tasks target = Inr nodes"
      "\<not> acyclic (dep_edges tasks)" "schedule_next_acceptance tasks capacity target = Some (Inl EtaDependencyCycle)"
  | (overflow) nodes where "capacity_validate capacity = Inr ()" "index_tasks tasks target = Inr nodes"
      "acyclic (dep_edges tasks)" "schedule_next_acceptance tasks capacity target = Some (Inl EtaOverflow)"
  | (scheduled) nodes r where "capacity_validate capacity = Inr ()" "index_tasks tasks target = Inr nodes"
      "acyclic (dep_edges tasks)" "schedule_next_acceptance tasks capacity target = Some (Inr r)"
      "report_ok nodes (task_closure tasks target) target r"
proof (cases "capacity_validate capacity")
  case (Inl e)
  with eta_invalid_only(1)[OF Inl] show thesis
    by (auto simp: schedule_next_acceptance_def map_err_def then_ok_def intro: invalid)
next
  case cap: (Inr u)
  show thesis
  proof (cases "index_tasks tasks target")
    case (Inl e)
    with cap eta_invalid_only(2)[OF Inl] show thesis
      by (auto simp: schedule_next_acceptance_def map_err_def then_ok_def intro: invalid)
  next
    case (Inr nodes)
    have run: "schedule_next_acceptance tasks capacity target
        = settle (schedule_tasks tasks (capacity_slots capacity) target nodes)"
      using cap Inr by (simp add: schedule_next_acceptance_def map_err_def then_ok_def)
    have "0 < capacity_slots capacity" using cap by (intro capacity_slots_pos) simp
    note result = schedule_tasks_result[OF Inr this]
    show thesis
    proof (cases "acyclic (dep_edges tasks)")
      case False
      with cap Inr run result(1) show thesis by (intro cyclic) simp_all
    next
      case True
      from result(2)[OF True] show thesis
      proof (elim disjE exE conjE)
        assume "schedule_loop nodes (capacity_slots capacity) (init_schedule (task_closure tasks target)) 0
          = Inl (Failure EtaOverflow)"
        with True cap Inr run result(1) show thesis by (intro overflow) simp_all
      next
        fix st assume st: "schedule_loop nodes (capacity_slots capacity) (init_schedule (task_closure tasks target)) 0 = Inr st"
          "loop_end nodes (task_closure tasks target) (capacity_slots capacity) st"
        from result(3)[OF True st(2)] True cap Inr run result(1) st(1) show thesis
          by (elim disjE exE conjE) (auto intro: overflow scheduled)
      qed
    qed
  qed
qed

text \<open>
  C25: The scheduler always answers. It never reaches a panic and its simulation always ends: the reply
  is a schedule or an error, whatever the tasks, the capacity and the target are. It reports a
  dependency cycle exactly where the capacity and the tasks are valid and the dependencies have a cycle,
  so its second cycle test, in the simulation, never fires; on valid acyclic input the only error is
  that the time arithmetic overflows 64 bits.
\<close>
theorem schedule_always_answers:
  "schedule_next_acceptance tasks capacity target \<noteq> None
   \<and> (schedule_next_acceptance tasks capacity target = Some (Inl EtaDependencyCycle) \<longleftrightarrow>
        capacity_validate capacity = Inr () \<and> is_ok (index_tasks tasks target) \<and> \<not> acyclic (dep_edges tasks))
   \<and> (capacity_validate capacity = Inr () \<and> is_ok (index_tasks tasks target) \<and> acyclic (dep_edges tasks) \<longleftrightarrow>
        schedule_next_acceptance tasks capacity target = Some (Inl EtaOverflow)
        \<or> (\<exists>r. schedule_next_acceptance tasks capacity target = Some (Inr r)))"
  by (rule schedule_next_cases[of capacity tasks target]) (simp_all add: is_ok_iff)

text \<open>
  C23: The ready time of a schedule is bounded from both sides. There is one exactly when every task the
  target depends on, directly or not, has a known duration and a known wait. It is then no earlier than
  any chain of dependencies that ends in the target takes, waits included, and no later than all tasks
  of the closure take one after the other; parallel tasks outside the closure do not delay it. The
  reported critical path is such a chain, from a task without dependencies to the target, and the
  execution and wait components are its exact sums.
\<close>
theorem ready_time_is_bounded:
  assumes "schedule_next_acceptance tasks capacity target = Some (Inr r)"
  shows "(sr_checkpoint_ready_ms r = None \<longleftrightarrow> (\<exists>i\<in>task_closure tasks target. unknown_duration (task_of tasks) i))
     \<and> (\<forall>R. sr_checkpoint_ready_ms r = Some R \<longrightarrow>
          (\<forall>path. dep_chain (task_of tasks) path \<and> last path = target \<longrightarrow>
             (\<Sum>i\<leftarrow>path. task_execution (task_of tasks) i + task_wait (task_of tasks) i) \<le> unat R)
          \<and> unat R \<le> total_cost (task_of tasks) (task_closure tasks target)
          \<and> dep_chain (task_of tasks) (sr_critical_path_work_ids r) \<and> last (sr_critical_path_work_ids r) = target
          \<and> task_deps (task_of tasks) (hd (sr_critical_path_work_ids r)) = {}
          \<and> (\<exists>e w. sr_effective_execution_ms r = Some e \<and> sr_dependency_or_human_wait_ms r = Some w
               \<and> unat e = (\<Sum>i\<leftarrow>sr_critical_path_work_ids r. task_execution (task_of tasks) i)
               \<and> unat w = (\<Sum>i\<leftarrow>sr_critical_path_work_ids r. task_wait (task_of tasks) i)))"
  using assms index_tasks_ok(1)[of tasks target]
  by (cases rule: schedule_next_cases[of capacity tasks target]) (auto simp: report_ok_def)

definition ex_task :: "string \<Rightarrow> u64 \<Rightarrow> string list \<Rightarrow> eta_task_node" where
  "ex_task i e deps = \<lparr>tn_work_id = i, tn_effective_execution_ms = Some e, tn_wait_before_ms = Some 3, tn_depends_on = deps,
     tn_mainline_id = None, tn_is_acceptance_checkpoint = False\<rparr>"

definition ex_tasks :: "eta_task_node list" where
  "ex_tasks = [ex_task ''a'' 10 [], ex_task ''b'' 20 [], ex_task ''c'' 5 [''a'', ''b''], ex_task ''z'' 9 []]"

definition ex_capacity :: eta_execution_capacity where
  "ex_capacity = \<lparr>ec_concurrency_limit = 2, ec_available_executors = 2\<rparr>"

definition ex_schedule :: eta_schedule_result where
  "ex_schedule = \<lparr>sr_checkpoint_ready_ms = Some 31, sr_critical_path_work_ids = [''b'', ''c''],
     sr_effective_execution_ms = Some 25, sr_dependency_or_human_wait_ms = Some 6,
     sr_refused_parallel_sum_ms = 35, sr_used_executor_slots = 2\<rparr>"

lemma ex_schedules: "schedule_next_acceptance ex_tasks ex_capacity ''c'' = Some (Inr ex_schedule)"
  by code_simp

theorem ready_time_is_bounded_witness:
  "schedule_next_acceptance ex_tasks ex_capacity ''c'' = Some (Inr ex_schedule)
   \<and> 31 \<le> total_cost (task_of ex_tasks) (task_closure ex_tasks ''c'')
   \<and> \<not> (\<exists>i\<in>task_closure ex_tasks ''c''. unknown_duration (task_of ex_tasks) i)"
  using ready_time_is_bounded[OF ex_schedules] ex_schedules by (simp add: ex_schedule_def)

text \<open>
  C24: The simulated schedule is one that can be carried out. For valid acyclic tasks, when the simulation
  ends, every task it scheduled is in the closure of the target and starts only after each of its
  dependencies has finished and its own wait has passed, and at no moment do more tasks execute than
  there are executor slots.
\<close>
theorem schedule_can_be_carried_out:
  assumes "capacity_validate capacity = Inr ()" and "index_tasks tasks target = Inr nodes" and "acyclic (dep_edges tasks)"
    and "schedule_loop nodes (capacity_slots capacity) (init_schedule (task_closure tasks target)) 0 = Inr st"
  shows "dom (ss_finish st) \<subseteq> task_closure tasks target
     \<and> (\<forall>i f. ss_finish st i = Some f \<longrightarrow>
          task_execution nodes i \<le> unat f \<and> task_wait nodes i \<le> unat f - task_execution nodes i
          \<and> (\<forall>d\<in>task_deps nodes i. \<exists>g. ss_finish st d = Some g
               \<and> unat g + task_wait nodes i \<le> unat f - task_execution nodes i))
     \<and> (\<forall>\<tau>. card (busy_at nodes st \<tau>) \<le> ec_available_executors capacity
            \<and> card (busy_at nodes st \<tau>) \<le> ec_concurrency_limit capacity)"
proof -
  from schedule_tasks_result(2)[OF assms(2) capacity_slots_pos[OF assms(1)] assms(3)] assms(4)
  have fin: "loop_end nodes (task_closure tasks target) (capacity_slots capacity) st" by simp
  then obtain now where inv: "sim_inv nodes (task_closure tasks target) (capacity_slots capacity) now st" and idle: "ss_running st = []"
    by (auto simp: loop_end_def)
  have "card (busy_at nodes st \<tau>) \<le> capacity_slots capacity" for \<tau>
  proof (cases "\<tau> < unat now")
    case True
    with inv show ?thesis by (simp add: sim_inv_def)
  next
    case False
    have "f \<le> now" if "ss_finish st i = Some f" for i f
      using inv idle that unfolding sim_inv_def by (metis empty_iff empty_set not_le_imp_less)
    with False have "busy_at nodes st \<tau> = {}" by (fastforce simp: busy_at_def word_le_nat_alt)
    then show ?thesis by simp
  qed
  moreover have "task_scheduled nodes st i f" if "ss_finish st i = Some f" for i f using inv that by (simp add: sim_inv_def)
  ultimately show ?thesis
    using inv by (fastforce simp: sim_inv_def task_scheduled_def capacity_slots_def le_diff_conv2)
qed

theorem schedule_can_be_carried_out_witness:
  "\<exists>st. schedule_loop (task_of ex_tasks) 2 (init_schedule (task_closure ex_tasks ''c'')) 0 = Inr st
     \<and> (\<forall>\<tau>. card (busy_at (task_of ex_tasks) st \<tau>) \<le> 2)"
proof -
  have cap: "capacity_validate ex_capacity = Inr ()" by code_simp
  have "is_ok (index_tasks ex_tasks ''c'')" by code_simp
  then obtain nodes where idx: "index_tasks ex_tasks ''c'' = Inr nodes" by (auto simp: is_ok_iff)
  from schedule_next_cases[of ex_capacity ex_tasks "''c''"] ex_schedules cap idx
  have acyc: "acyclic (dep_edges ex_tasks)" by auto
  from schedule_tasks_result(1)[OF idx capacity_slots_pos[OF cap]] acyc ex_schedules cap idx
  obtain st where st: "schedule_loop nodes (capacity_slots ex_capacity) (init_schedule (task_closure ex_tasks ''c'')) 0 = Inr st"
    by (cases "schedule_loop nodes (capacity_slots ex_capacity) (init_schedule (task_closure ex_tasks ''c'')) 0")
      (auto simp: schedule_next_acceptance_def map_err_def then_ok_def elim: settle.elims)
  from schedule_can_be_carried_out[OF cap idx acyc st] st show ?thesis
    by (intro exI[of _ st]) (simp add: index_tasks_ok(1)[OF idx] ex_capacity_def capacity_slots_def)
qed

end
