(* ===== verification/Eta_Forecast.thy ===== *)
theory Eta_Forecast
  imports Eta_Laws
begin

text \<open>
  The forecasts of \<^verbatim>\<open>crates/awr-core/src/workstream_eta.rs\<close>: the records and their validators,
  \<open>estimate_next_acceptance\<close>, which builds an append-only forecast from the schedule, the historical
  samples and a frozen sample policy, and \<open>reestimate_next_acceptance\<close>.

  A \<^verbatim>\<open>BTreeSet<String>\<close> that is only asked for membership and size is a finite set. The rendering of the
  observation hand-off by \<^verbatim>\<open>serde_json\<close> and the SHA-256 of the text are the arguments \<open>json\<close> and \<open>sha\<close>.
  The addition in \<open>median_u64\<close> is the one sum of the file that is not checked; it wraps here, as it does
  in a release build.
\<close>

section \<open>Data\<close>

type_synonym u16 = "16 word"

definition ETA_METHOD_VERSION :: string where "ETA_METHOD_VERSION = ''awr-eta-v1''"
definition ETA_FORECAST_PROTOCOL :: u32 where "ETA_FORECAST_PROTOCOL = 1"
definition DEFAULT_MIN_CALIBRATION_SAMPLES :: nat where "DEFAULT_MIN_CALIBRATION_SAMPLES = 8"
definition DEFAULT_MIN_HOLDOUT_SAMPLES :: nat where "DEFAULT_MIN_HOLDOUT_SAMPLES = 3"

datatype eta_target_kind = EtaDelivery | EtaStageCheckpoint

record eta_target =
  et_kind :: eta_target_kind
  et_target_id :: string
  et_work_id :: string
  et_checkpoint_name :: "string option"

datatype eta_bound_ms = Known u64 | Unknown

record eta_interval_ms =
  iv_low_ms :: eta_bound_ms
  iv_high_ms :: eta_bound_ms

record eta_components =
  cmp_effective_execution_ms :: eta_interval_ms
  cmp_dependency_or_human_wait_ms :: eta_interval_ms
  cmp_calendar_acceptance_window_ms :: eta_interval_ms
  cmp_excluded_network_queue_ms :: eta_bound_ms
  cmp_excluded_model_queue_ms :: eta_bound_ms

datatype eta_estimate_kind = Provisional string | Unestimable string | Calibrated

record eta_calibration_metrics =
  cal_coverage_bps :: "u16 option"
  cal_interval_width_ms :: "u64 option"
  cal_absolute_error_ms :: "u64 option"
  cal_missing_rate_bps :: "u16 option"
  cal_sample_count :: nat
  cal_holdout_count :: nat
  cal_gate_passed :: bool

record eta_sample_policy =
  pol_policy_id :: string
  pol_method_version :: string
  pol_min_samples :: nat
  pol_min_holdout :: nat
  pol_frozen :: bool

datatype eta_reestimate_trigger =
    NewDependency string | Rework string | ExecutorChange string | CapacityChange string

record eta_forecast_record =
  fr_protocol :: u32
  fr_forecast_id :: string
  fr_project_id :: string
  fr_target :: eta_target
  fr_generated_at_ms :: u64
  fr_task_graph_version :: string
  fr_execution_strategy :: string
  fr_sample_policy_id :: string
  fr_method_version :: string
  fr_estimate_kind :: eta_estimate_kind
  fr_components :: eta_components
  fr_combined_interval_ms :: eta_interval_ms
  fr_assumptions :: "string list"
  fr_unknowns :: "string list"
  fr_calibration :: eta_calibration_metrics
  fr_supersedes_forecast_id :: "string option"
  fr_reestimate_trigger :: "eta_reestimate_trigger option"
  fr_reestimate_reason_before :: "string option"
  fr_reestimate_reason_after :: "string option"
  fr_observation_handoff_digest :: "string option"

record eta_observable_exclusion =
  oe_network_queue_ms :: "u64 option"
  oe_model_queue_ms :: "u64 option"
  oe_evidence_ref :: "string option"

record eta_historical_sample =
  hs_sample_id :: string
  hs_work_kind :: string
  hs_observed_execution_ms :: u64
  hs_observed_wait_ms :: u64
  hs_source_ledger :: string

record eta_acceptance_datum =
  acd_acceptance_id :: string
  acd_work_id :: string
  acd_accepted_at_ms :: u64

record eta_estimate_request =
  est_project_id :: string
  est_forecast_id :: string
  est_generated_at_ms :: u64
  est_target :: eta_target
  est_task_graph_version :: string
  est_execution_strategy :: string
  est_tasks :: "eta_task_node list"
  est_capacity :: eta_execution_capacity
  est_sample_policy :: eta_sample_policy
  est_samples :: "eta_historical_sample list"
  est_holdout_sample_ids :: "string set"
  est_acceptance_data :: "eta_acceptance_datum list"
  est_exclusions :: eta_observable_exclusion
  est_assumptions :: "string list"
  est_unknowns :: "string list"
  est_observation_handoff :: "usage_time_observation_handoff option"
  est_llm_narrative :: "string option"
  est_calendar_offset_ms :: "u64 option"
  est_supersedes_forecast_id :: "string option"
  est_reestimate_trigger :: "eta_reestimate_trigger option"
  est_reestimate_reason_before :: "string option"
  est_reestimate_reason_after :: "string option"

section \<open>Validators\<close>

definition eta_target_validate :: "eta_target \<Rightarrow> (eta_error, unit) result" where
  "eta_target_validate t =
     run_checks
       [refuse (\<not> eta_text (et_target_id t) \<or> \<not> eta_text (et_work_id t)) (EtaInvalid ''target identity''),
        check_some (\<lambda>name. refuse (\<not> eta_text name) (EtaInvalid ''checkpoint name'')) (et_checkpoint_name t)]"

definition interval_known :: "u64 \<Rightarrow> u64 \<Rightarrow> (eta_error, eta_interval_ms) result" where
  "interval_known low high =
     then_ok (refuse (high < low) (EtaInvalid ''reversed interval''))
       (Inr \<lparr>iv_low_ms = Known low, iv_high_ms = Known high\<rparr>)"

definition interval_unknown :: eta_interval_ms where
  "interval_unknown = \<lparr>iv_low_ms = Unknown, iv_high_ms = Unknown\<rparr>"

definition width_ms :: "eta_interval_ms \<Rightarrow> u64 option" where
  "width_ms i = (case (iv_low_ms i, iv_high_ms i) of
     (Known l, Known h) \<Rightarrow> Some (saturating_sub h l) | _ \<Rightarrow> None)"

definition default_frozen :: eta_sample_policy where
  "default_frozen = \<lparr>pol_policy_id = ''eta-sample-default-v1'', pol_method_version = ETA_METHOD_VERSION,
     pol_min_samples = DEFAULT_MIN_CALIBRATION_SAMPLES, pol_min_holdout = DEFAULT_MIN_HOLDOUT_SAMPLES, pol_frozen = True\<rparr>"

definition policy_validate :: "eta_sample_policy \<Rightarrow> (eta_error, unit) result" where
  "policy_validate p =
     run_checks
       [refuse (\<not> eta_text (pol_policy_id p) \<or> \<not> eta_text (pol_method_version p) \<or> \<not> pol_frozen p)
          (EtaInvalid ''sample policy''),
        refuse (pol_min_samples p = 0 \<or> pol_min_holdout p = 0 \<or> pol_min_holdout p > pol_min_samples p)
          (EtaInvalid ''sample policy thresholds'')]"

fun trigger_validate :: "eta_reestimate_trigger \<Rightarrow> (eta_error, unit) result" where
  "trigger_validate (NewDependency detail) = refuse (\<not> eta_text detail) (EtaInvalid ''reestimate trigger detail'')"
| "trigger_validate (Rework detail) = refuse (\<not> eta_text detail) (EtaInvalid ''reestimate trigger detail'')"
| "trigger_validate (ExecutorChange detail) = refuse (\<not> eta_text detail) (EtaInvalid ''reestimate trigger detail'')"
| "trigger_validate (CapacityChange detail) = refuse (\<not> eta_text detail) (EtaInvalid ''reestimate trigger detail'')"

abbreviation none_or_blank :: "string option \<Rightarrow> bool" where
  "none_or_blank v \<equiv> (case v of None \<Rightarrow> True | Some s \<Rightarrow> \<not> eta_text s)"

definition forecast_validate :: "eta_forecast_record \<Rightarrow> (eta_error, unit) result" where
  "forecast_validate f =
     run_checks
       [refuse (fr_protocol f \<noteq> ETA_FORECAST_PROTOCOL) (EtaInvalid ''protocol''),
        refuse (\<not> list_all eta_text [fr_forecast_id f, fr_project_id f, fr_task_graph_version f,
            fr_execution_strategy f, fr_sample_policy_id f, fr_method_version f]) (EtaInvalid ''forecast identity''),
        eta_target_validate (fr_target f),
        refuse (\<not> list_all eta_text (fr_assumptions f)) (EtaInvalid ''assumption''),
        refuse (\<not> list_all eta_text (fr_unknowns f)) (EtaInvalid ''unknown''),
        (case fr_estimate_kind f of
           Provisional source \<Rightarrow> refuse (\<not> eta_text source) (EtaInvalid ''provisional source'')
         | Unestimable reason \<Rightarrow> refuse (\<not> eta_text reason) (EtaInvalid ''unestimable reason'')
         | Calibrated \<Rightarrow> refuse (\<not> cal_gate_passed (fr_calibration f)) EtaCalibrationGate),
        check_some (\<lambda>trigger. run_checks
           [trigger_validate trigger,
            refuse (none_or_blank (fr_supersedes_forecast_id f)) (EtaInvalid ''reestimate requires prior forecast''),
            refuse (none_or_blank (fr_reestimate_reason_before f) \<or> none_or_blank (fr_reestimate_reason_after f))
              (EtaInvalid ''reestimate before/after reasons'')]) (fr_reestimate_trigger f)]"

definition exclusion_validate :: "eta_observable_exclusion \<Rightarrow> (eta_error, unit) result" where
  "exclusion_validate x =
     (let has_exclusion = oe_network_queue_ms x \<noteq> None \<or> oe_model_queue_ms x \<noteq> None in
      if has_exclusion then
        (case oe_evidence_ref x of
           Some r \<Rightarrow> refuse (\<not> eta_text r) EtaExclusionWithoutEvidence
         | None \<Rightarrow> Inl EtaExclusionWithoutEvidence)
      else Inr ())"

definition refuse_forecast_rewrite :: "eta_forecast_record \<Rightarrow> eta_forecast_record \<Rightarrow> (eta_error, unit) result" where
  "refuse_forecast_rewrite existing attempted =
     run_checks
       [refuse (fr_forecast_id existing \<noteq> fr_forecast_id attempted) (EtaInvalid ''forecast id mismatch''),
        refuse (existing \<noteq> attempted) EtaImmutableHistory]"

definition sample_visit :: "string set \<Rightarrow> eta_historical_sample \<Rightarrow> (eta_error, string set) result" where
  "sample_visit ids s =
     then_ok
       (run_checks
         [refuse (\<not> eta_text (hs_sample_id s) \<or> \<not> eta_text (hs_work_kind s) \<or> \<not> eta_text (hs_source_ledger s))
            (EtaInvalid ''sample''),
          refuse (hs_source_ledger s = ''acceptance'' \<or> prefix ''acceptance:'' (hs_source_ledger s))
            EtaSampleAcceptanceIsolation])
       (insert_new (EtaInvalid ''duplicate sample'') ids (hs_sample_id s))"

definition isolate_samples_from_acceptance ::
  "eta_historical_sample list \<Rightarrow> eta_acceptance_datum list \<Rightarrow> (eta_error, unit) result" where
  "isolate_samples_from_acceptance samples acceptance =
     and_then (try_fold sample_visit {} samples)
       (\<lambda>ids. run_checks (map (\<lambda>a. run_checks
          [refuse (\<not> eta_text (acd_acceptance_id a) \<or> \<not> eta_text (acd_work_id a)) (EtaInvalid ''acceptance datum''),
           refuse (acd_acceptance_id a \<in> ids) EtaSampleAcceptanceIsolation]) acceptance))"

section \<open>Samples\<close>

definition median_u64 :: "u64 list \<Rightarrow> u64 option" where
  "median_u64 values =
     (if values = [] then None
      else let sorted = sort values; mid = length sorted div 2 in
        Some (if length sorted mod 2 = 1 then sorted ! mid
              else (sorted ! (mid - 1) + sorted ! mid) div 2))"

definition percentile_u64 :: "u64 list \<Rightarrow> nat \<Rightarrow> u64 option" where
  "percentile_u64 values pct =
     (if values = [] then None
      else let sorted = sort values; pct = min pct 100; idx = (pct * (length sorted - 1)) div 100 in
        Some (sorted ! idx))"

definition saturating_mul :: "u64 \<Rightarrow> u64 \<Rightarrow> u64" where
  "saturating_mul a b = (if unat a * unat b < 2 ^ 64 then a * b else - 1)"

definition abs_diff :: "u64 \<Rightarrow> u64 \<Rightarrow> u64" where
  "abs_diff a b = (if a < b then b - a else a - b)"

abbreviation training :: "eta_historical_sample list \<Rightarrow> string set \<Rightarrow> eta_historical_sample list" where
  "training samples holdout \<equiv> filter (\<lambda>s. hs_sample_id s \<notin> holdout) samples"

definition calibration_metrics ::
  "eta_sample_policy \<Rightarrow> eta_historical_sample list \<Rightarrow> string set \<Rightarrow> eta_interval_ms \<Rightarrow>
     (eta_error, eta_calibration_metrics) result" where
  "calibration_metrics policy samples holdout interval =
     then_ok (policy_validate policy)
      (let sample_count = length samples;
           holdout_count = card holdout;
           gate_passed = (sample_count \<ge> pol_min_samples policy \<and> holdout_count \<ge> pol_min_holdout policy);
           predicted = median_u64 (map hs_observed_execution_ms (training samples holdout));
           held = filter (\<lambda>s. hs_sample_id s \<in> holdout) samples;
           holdout_errors = (case predicted of
              Some p \<Rightarrow> map (\<lambda>s. abs_diff (hs_observed_execution_ms s) p) held | None \<Rightarrow> []);
           missing = length (filter (\<lambda>s. hs_observed_execution_ms s = 0 \<and> hs_observed_wait_ms s = 0) samples);
           miss_bps = (of_nat ((missing * 10000) div sample_count) :: u16)
       in Inr \<lparr>cal_coverage_bps = (if sample_count = 0 then None else Some (saturating_sub 10000 miss_bps)),
            cal_interval_width_ms = width_ms interval,
            cal_absolute_error_ms = median_u64 holdout_errors,
            cal_missing_rate_bps = (if sample_count = 0 then None else Some miss_bps),
            cal_sample_count = sample_count, cal_holdout_count = holdout_count, cal_gate_passed = gate_passed\<rparr>)"

text \<open>The values of one work kind, in the order of the samples; a kind without samples has no entry.\<close>

definition by_kind ::
  "(eta_historical_sample \<Rightarrow> u64) \<Rightarrow> eta_historical_sample list \<Rightarrow> string \<Rightarrow> u64 list option" where
  "by_kind observed train kind =
     (case filter (\<lambda>s. hs_work_kind s = kind) train of [] \<Rightarrow> None | ss \<Rightarrow> Some (map observed ss))"

definition sample_duration :: "(string \<Rightarrow> u64 list option) \<Rightarrow> string \<Rightarrow> u64 option" where
  "sample_duration kinds work_id =
     (case kinds work_id of
        Some vals \<Rightarrow> median_u64 vals
      | None \<Rightarrow> (case kinds ''default'' of Some vals \<Rightarrow> median_u64 vals | None \<Rightarrow> None))"

definition apply_sample_durations ::
  "eta_task_node list \<Rightarrow> eta_historical_sample list \<Rightarrow> string set \<Rightarrow> eta_task_node list" where
  "apply_sample_durations tasks samples holdout =
     (let train = training samples holdout in
      map (\<lambda>t. t\<lparr>
        tn_effective_execution_ms := (case tn_effective_execution_ms t of
           Some v \<Rightarrow> Some v | None \<Rightarrow> sample_duration (by_kind hs_observed_execution_ms train) (tn_work_id t)),
        tn_wait_before_ms := (case tn_wait_before_ms t of
           Some v \<Rightarrow> Some v | None \<Rightarrow> sample_duration (by_kind hs_observed_wait_ms train) (tn_work_id t))\<rparr>) tasks)"

definition handoff_digest ::
  "(usage_time_observation_handoff \<Rightarrow> string option) \<Rightarrow> (string \<Rightarrow> string) \<Rightarrow>
     usage_time_observation_handoff \<Rightarrow> (eta_error, string) result" where
  "handoff_digest json sha handoff =
     then_ok
       (run_checks
         [map_err EtaUsage (refuse_eta_from_cumulative_duration ''ws043 measured timing handoff''
            (case oh_time_totals handoff of Some t \<Rightarrow> tt_observed_execution_ms t | None \<Rightarrow> 0)),
          refuse (\<not> oh_is_historical_observation handoff \<or> \<not> oh_is_not_estimated_remaining_time handoff)
            (EtaInvalid ''handoff must be historical observation'')])
       (and_then (ok_or (json handoff) (EtaInvalid ''handoff json''))
         (\<lambda>payload. Inr (''sha256:'' @ sha payload)))"

section \<open>Estimates\<close>

definition request_checks :: "eta_estimate_request \<Rightarrow> (eta_error, unit) result" where
  "request_checks req =
     run_checks
       [refuse (\<not> eta_text (est_project_id req) \<or> \<not> eta_text (est_forecast_id req)
          \<or> \<not> eta_text (est_task_graph_version req) \<or> \<not> eta_text (est_execution_strategy req))
          (EtaInvalid ''request identity''),
        eta_target_validate (est_target req),
        policy_validate (est_sample_policy req),
        capacity_validate (est_capacity req),
        exclusion_validate (est_exclusions req),
        isolate_samples_from_acceptance (est_samples req) (est_acceptance_data req),
        check_some (\<lambda>narrative. refuse (\<not> eta_text narrative) (EtaInvalid ''llm narrative'')) (est_llm_narrative req),
        refuse (\<not> est_holdout_sample_ids req \<subseteq> set (map hs_sample_id (est_samples req)))
          (EtaInvalid ''holdout not in samples'')]"

definition estimate_tasks :: "eta_estimate_request \<Rightarrow> eta_task_node list" where
  "estimate_tasks req = apply_sample_durations (est_tasks req) (est_samples req) (est_holdout_sample_ids req)"

definition bound_of :: "u64 option \<Rightarrow> eta_bound_ms" where
  "bound_of v = (case v of Some v \<Rightarrow> Known v | None \<Rightarrow> Unknown)"

definition point_interval :: "u64 option \<Rightarrow> (eta_error, eta_interval_ms) result" where
  "point_interval v = (case v of Some v \<Rightarrow> interval_known v v | None \<Rightarrow> Inr interval_unknown)"

definition execution_interval ::
  "eta_historical_sample list \<Rightarrow> u64 option \<Rightarrow> (eta_error, eta_interval_ms) result" where
  "execution_interval train effective =
     (case effective of
        None \<Rightarrow> Inr interval_unknown
      | Some v \<Rightarrow>
          let train_exec = map hs_observed_execution_ms train in
          if length train_exec \<ge> 2 then
            let lo = (case percentile_u64 train_exec 10 of Some p \<Rightarrow> p | None \<Rightarrow> v);
                hi = (case percentile_u64 train_exec 90 of Some p \<Rightarrow> p | None \<Rightarrow> v);
                med = max (case median_u64 train_exec of Some m \<Rightarrow> m | None \<Rightarrow> v) 1;
                low = saturating_mul v lo div med;
                high = saturating_mul v hi div med
            in interval_known (min low high) (max low high)
          else interval_known v v)"

definition calendar_interval ::
  "eta_estimate_request \<Rightarrow> u64 option \<Rightarrow> (eta_error, eta_interval_ms) result" where
  "calendar_interval req checkpoint_ready =
     (case checkpoint_ready of
        None \<Rightarrow> Inr interval_unknown
      | Some ready \<Rightarrow>
          and_then (add_u64 (est_generated_at_ms req) ready)
            (\<lambda>base. let off = (case est_calendar_offset_ms req of Some v \<Rightarrow> v | None \<Rightarrow> 0) in
              and_then (add_u64 base off) (\<lambda>low. and_then (add_u64 base off) (\<lambda>high. interval_known low high))))"

definition combined_interval ::
  "eta_interval_ms \<Rightarrow> u64 option \<Rightarrow> (eta_error, eta_interval_ms) result" where
  "combined_interval execution checkpoint_ready =
     (case checkpoint_ready of
        None \<Rightarrow> Inr interval_unknown
      | Some ready \<Rightarrow>
          (case (iv_low_ms execution, iv_high_ms execution) of
             (Known lo, Known hi) \<Rightarrow> interval_known (min lo ready) (max hi ready)
           | _ \<Rightarrow> interval_known ready ready))"

definition estimate_kind_of ::
  "eta_estimate_request \<Rightarrow> eta_task_node list \<Rightarrow> eta_schedule_result \<Rightarrow> bool \<Rightarrow> eta_estimate_kind" where
  "estimate_kind_of req tasks schedule gate_passed =
     (let ready = sr_checkpoint_ready_ms schedule \<noteq> None;
          work = et_work_id (est_target req);
          unknown_exec = list_ex (\<lambda>t. tn_work_id t = work \<and> tn_effective_execution_ms t = None) tasks;
          cold = (est_samples req = [] \<or> list_ex (\<lambda>t. tn_effective_execution_ms t = None)
                    (filter (\<lambda>t. tn_work_id t = work \<or> tn_is_acceptance_checkpoint t) tasks))
      in if est_llm_narrative req \<noteq> None then
           (if cold \<and> \<not> ready then Unestimable ''cold_start_without_measurable_durations''
            else if gate_passed \<and> ready then Calibrated
            else (case est_assumptions req of
                    src # _ \<Rightarrow> Provisional src
                  | [] \<Rightarrow> Provisional ''explicit_cold_start_assumption''))
         else if gate_passed \<and> ready \<and> \<not> unknown_exec then Calibrated
         else if ready then
           Provisional (case est_assumptions req of src # _ \<Rightarrow> src | [] \<Rightarrow> ''provisional_below_calibration_gate'')
         else if cold then Unestimable ''insufficient_samples_or_unknown_durations''
         else Unestimable ''schedule_incomplete'')"

definition estimate_unknowns :: "eta_estimate_request \<Rightarrow> eta_schedule_result \<Rightarrow> string list" where
  "estimate_unknowns req schedule =
     est_unknowns req
     @ (if oe_network_queue_ms (est_exclusions req) = None then [''network_queue_ms''] else [])
     @ (if oe_model_queue_ms (est_exclusions req) = None then [''model_queue_ms''] else [])
     @ (if sr_checkpoint_ready_ms schedule = None then [''checkpoint_ready_ms''] else [])
     @ (if sr_dependency_or_human_wait_ms schedule = None then [''dependency_or_human_wait_ms''] else [])"

definition estimate_assumptions :: "eta_estimate_request \<Rightarrow> string list" where
  "estimate_assumptions req =
     est_assumptions req
     @ (case est_llm_narrative req of
          Some narrative \<Rightarrow> [''llm_narrative_recorded_not_promise:'' @ narrative] | None \<Rightarrow> [])"

definition components_of ::
  "eta_estimate_request \<Rightarrow> eta_interval_ms \<Rightarrow> eta_interval_ms \<Rightarrow> eta_interval_ms \<Rightarrow> eta_components" where
  "components_of req execution wait calendar =
     \<lparr>cmp_effective_execution_ms = execution, cmp_dependency_or_human_wait_ms = wait,
      cmp_calendar_acceptance_window_ms = calendar,
      cmp_excluded_network_queue_ms = bound_of (oe_network_queue_ms (est_exclusions req)),
      cmp_excluded_model_queue_ms = bound_of (oe_model_queue_ms (est_exclusions req))\<rparr>"

text \<open>The record that is returned; its calibration decides the kind.\<close>

definition forecast_of ::
  "eta_estimate_request \<Rightarrow> string option \<Rightarrow> eta_schedule_result \<Rightarrow> eta_components \<Rightarrow> eta_interval_ms \<Rightarrow>
     eta_calibration_metrics \<Rightarrow> eta_forecast_record" where
  "forecast_of req digest schedule components combined calibration =
     \<lparr>fr_protocol = ETA_FORECAST_PROTOCOL, fr_forecast_id = est_forecast_id req,
      fr_project_id = est_project_id req, fr_target = est_target req,
      fr_generated_at_ms = est_generated_at_ms req, fr_task_graph_version = est_task_graph_version req,
      fr_execution_strategy = est_execution_strategy req,
      fr_sample_policy_id = pol_policy_id (est_sample_policy req),
      fr_method_version = pol_method_version (est_sample_policy req),
      fr_estimate_kind = estimate_kind_of req (estimate_tasks req) schedule (cal_gate_passed calibration),
      fr_components = components, fr_combined_interval_ms = combined, fr_assumptions = estimate_assumptions req,
      fr_unknowns = estimate_unknowns req schedule, fr_calibration = calibration,
      fr_supersedes_forecast_id = est_supersedes_forecast_id req,
      fr_reestimate_trigger = est_reestimate_trigger req,
      fr_reestimate_reason_before = est_reestimate_reason_before req,
      fr_reestimate_reason_after = est_reestimate_reason_after req,
      fr_observation_handoff_digest = digest\<rparr>"

text \<open>Everything after the schedule.\<close>

definition build_forecast ::
  "eta_estimate_request \<Rightarrow> string option \<Rightarrow> eta_schedule_result \<Rightarrow> (eta_error, eta_forecast_record) result" where
  "build_forecast req digest schedule =
     (let ready = sr_checkpoint_ready_ms schedule in
      and_then (execution_interval (training (est_samples req) (est_holdout_sample_ids req))
        (sr_effective_execution_ms schedule))
       (\<lambda>execution. and_then (point_interval (sr_dependency_or_human_wait_ms schedule))
       (\<lambda>wait. and_then (calendar_interval req ready)
       (\<lambda>calendar. and_then (combined_interval execution ready)
       (\<lambda>combined. and_then
           (calibration_metrics (est_sample_policy req) (est_samples req) (est_holdout_sample_ids req) combined)
       (\<lambda>calibration.
          let forecast = forecast_of req digest schedule (components_of req execution wait calendar) combined calibration;
              calibrated = (fr_estimate_kind forecast = Calibrated)
          in then_ok
               (run_checks
                 [refuse (calibrated \<and> \<not> cal_gate_passed calibration) EtaCalibrationGate,
                  refuse (calibrated \<and> est_llm_narrative req \<noteq> None
                    \<and> length (est_samples req) < pol_min_samples (est_sample_policy req)) EtaLlmSelfReportPromise,
                  forecast_validate forecast])
               (Inr forecast)))))))"

definition estimate_next_acceptance ::
  "(usage_time_observation_handoff \<Rightarrow> string option) \<Rightarrow> (string \<Rightarrow> string) \<Rightarrow>
     eta_estimate_request \<Rightarrow> (eta_error, eta_forecast_record) result option" where
  "estimate_next_acceptance json sha req =
     (case then_ok (request_checks req)
             (case est_observation_handoff req of
                Some h \<Rightarrow> map_sum id Some (handoff_digest json sha h) | None \<Rightarrow> Inr None) of
        Inl e \<Rightarrow> Some (Inl e)
      | Inr digest \<Rightarrow>
          (case schedule_next_acceptance (estimate_tasks req) (est_capacity req) (et_work_id (est_target req)) of
             None \<Rightarrow> None
           | Some schedule \<Rightarrow> Some (and_then schedule (build_forecast req digest))))"

definition reestimate_next_acceptance ::
  "(usage_time_observation_handoff \<Rightarrow> string option) \<Rightarrow> (string \<Rightarrow> string) \<Rightarrow>
     eta_forecast_record \<Rightarrow> eta_estimate_request \<Rightarrow> eta_reestimate_trigger \<Rightarrow> string \<Rightarrow> string \<Rightarrow>
     (eta_error, eta_forecast_record) result option" where
  "reestimate_next_acceptance json sha previous req trigger reason_before reason_after =
     (case run_checks
         [trigger_validate trigger,
          refuse (\<not> eta_text reason_before \<or> \<not> eta_text reason_after) (EtaInvalid ''reestimate reasons''),
          refuse (est_project_id req \<noteq> fr_project_id previous) (EtaInvalid ''project mismatch on reestimate''),
          refuse (est_forecast_id req = fr_forecast_id previous) EtaImmutableHistory] of
        Inl e \<Rightarrow> Some (Inl e)
      | Inr _ \<Rightarrow> estimate_next_acceptance json sha (req\<lparr>
          est_supersedes_forecast_id := Some (fr_forecast_id previous), est_reestimate_trigger := Some trigger,
          est_reestimate_reason_before := Some reason_before, est_reestimate_reason_after := Some reason_after\<rparr>))"

section \<open>What a forecast is made of\<close>

lemma interval_known_ok [simp]:
  "interval_known a b = Inr i \<longleftrightarrow> a \<le> b \<and> i = \<lparr>iv_low_ms = Known a, iv_high_ms = Known b\<rparr>"
  by (auto simp: interval_known_def)

lemma interval_known_le [simp]:
  "a \<le> b \<Longrightarrow> interval_known a b = Inr \<lparr>iv_low_ms = Known a, iv_high_ms = Known b\<rparr>"
  by simp

lemma execution_interval_total: "\<exists>i. execution_interval train v = Inr i"
  by (auto simp: execution_interval_def Let_def min_def max_def split: option.splits)

lemma point_interval_total: "\<exists>i. point_interval v = Inr i"
  by (auto simp: point_interval_def split: option.splits)

lemma combined_interval_ok:
  "combined_interval e None = Inr interval_unknown"
  "\<exists>lo hi. combined_interval e (Some R) = Inr \<lparr>iv_low_ms = Known lo, iv_high_ms = Known hi\<rparr> \<and> lo \<le> R \<and> R \<le> hi"
  by (auto simp: combined_interval_def split: eta_bound_ms.splits
      intro!: exI[of _ "min _ R"] exI[of _ "max _ R"] min.coboundedI2 max.coboundedI2)

lemma calendar_interval_ok:
  "calendar_interval req None = Inr interval_unknown"
  "calendar_interval req (Some R) = Inr i \<Longrightarrow> \<exists>c. i = \<lparr>iv_low_ms = Known c, iv_high_ms = Known c\<rparr>
     \<and> unat c = unat (est_generated_at_ms req) + unat R + (case est_calendar_offset_ms req of Some v \<Rightarrow> unat v | None \<Rightarrow> 0)"
  by (auto simp: calendar_interval_def Let_def unat_word_ariths split: option.splits)

lemma calibration_metrics_ok:
  assumes "calibration_metrics p ss holdout i = Inr c"
  shows "cal_gate_passed c \<longleftrightarrow> length ss \<ge> pol_min_samples p \<and> card holdout \<ge> pol_min_holdout p"
  using assms by (auto simp: calibration_metrics_def Let_def)

text \<open>The parts of a forecast that was built from a schedule.\<close>

lemma build_forecast_iff:
  "build_forecast req digest r = Inr f \<longleftrightarrow> (\<exists>execution wait calendar combined c.
     execution_interval (training (est_samples req) (est_holdout_sample_ids req)) (sr_effective_execution_ms r) = Inr execution
     \<and> point_interval (sr_dependency_or_human_wait_ms r) = Inr wait
     \<and> calendar_interval req (sr_checkpoint_ready_ms r) = Inr calendar
     \<and> combined_interval execution (sr_checkpoint_ready_ms r) = Inr combined
     \<and> calibration_metrics (est_sample_policy req) (est_samples req) (est_holdout_sample_ids req) combined = Inr c
     \<and> f = forecast_of req digest r (components_of req execution wait calendar) combined c
     \<and> (fr_estimate_kind f = Calibrated \<longrightarrow> cal_gate_passed c
          \<and> (est_llm_narrative req = None \<or> pol_min_samples (est_sample_policy req) \<le> length (est_samples req)))
     \<and> forecast_validate f = Inr ())"
  by (auto simp: build_forecast_def Let_def not_less)

lemma build_forecast_ok:
  assumes "build_forecast req digest r = Inr f"
  shows "forecast_validate f = Inr ()"
    and "fr_estimate_kind f = estimate_kind_of req (estimate_tasks req) r (cal_gate_passed (fr_calibration f))"
    and "cal_gate_passed (fr_calibration f) \<longleftrightarrow> length (est_samples req) \<ge> pol_min_samples (est_sample_policy req)
       \<and> card (est_holdout_sample_ids req) \<ge> pol_min_holdout (est_sample_policy req)"
    and "calendar_interval req (sr_checkpoint_ready_ms r) = Inr (cmp_calendar_acceptance_window_ms (fr_components f))"
    and "\<exists>e. combined_interval e (sr_checkpoint_ready_ms r) = Inr (fr_combined_interval_ms f)"
  using assms by (auto simp: build_forecast_iff forecast_of_def components_of_def dest: calibration_metrics_ok)

lemma estimate_iff:
  "estimate_next_acceptance json sha req = Some (Inr f) \<longleftrightarrow> request_checks req = Inr ()
     \<and> (\<exists>digest r. (case est_observation_handoff req of
             Some h \<Rightarrow> map_sum id Some (handoff_digest json sha h) | None \<Rightarrow> Inr None) = Inr digest
          \<and> schedule_next_acceptance (estimate_tasks req) (est_capacity req) (et_work_id (est_target req)) = Some (Inr r)
          \<and> build_forecast req digest r = Inr f)"
  by (auto simp: estimate_next_acceptance_def split: sum.splits option.splits)

lemma estimate_kind_of_facts:
  assumes "estimate_kind_of req tasks r gate = kind"
  shows "kind = Calibrated \<Longrightarrow> gate \<and> sr_checkpoint_ready_ms r \<noteq> None"
    and "kind = Unestimable reason \<Longrightarrow> sr_checkpoint_ready_ms r = None"
    and "est_llm_narrative req = None \<Longrightarrow> sr_checkpoint_ready_ms r = None \<Longrightarrow> \<exists>reason. kind = Unestimable reason"
  using assms by (auto simp: estimate_kind_of_def Let_def split: if_splits list.splits)

text \<open>
  C26: A forecast promises no more than was measured. It is well-formed. It is \<open>Calibrated\<close> only when there
  are as many samples and as many held out as the policy asks for, and when every task the target depends
  on has a duration and a wait, given or taken from the samples. It is \<open>Unestimable\<close> only when one of
  them has none, and without a narrative always then. If one has none, the combined interval and the
  calendar window are unknown; if all have both, the combined interval is known, ends no earlier than any chain of dependencies up to the target takes and begins no later
  than all tasks of the closure take one after the other.
\<close>
theorem forecast_is_backed_by_measurements:
  assumes "estimate_next_acceptance json sha req = Some (Inr f)"
  defines "tasks \<equiv> estimate_tasks req" and "target \<equiv> et_work_id (est_target req)"
  defines "unmeasured \<equiv> \<exists>i\<in>task_closure tasks target. unknown_duration (task_of tasks) i"
  shows "forecast_validate f = Inr ()
     \<and> (fr_estimate_kind f = Calibrated \<longrightarrow>
          length (est_samples req) \<ge> pol_min_samples (est_sample_policy req)
          \<and> card (est_holdout_sample_ids req) \<ge> pol_min_holdout (est_sample_policy req) \<and> \<not> unmeasured)
     \<and> (\<forall>reason. fr_estimate_kind f = Unestimable reason \<longrightarrow> unmeasured)
     \<and> (est_llm_narrative req = None \<and> unmeasured \<longrightarrow> (\<exists>reason. fr_estimate_kind f = Unestimable reason))
     \<and> (if unmeasured then fr_combined_interval_ms f = interval_unknown
          \<and> cmp_calendar_acceptance_window_ms (fr_components f) = interval_unknown
        else \<exists>lo hi. fr_combined_interval_ms f = \<lparr>iv_low_ms = Known lo, iv_high_ms = Known hi\<rparr>
          \<and> unat lo \<le> total_cost (task_of tasks) (task_closure tasks target)
          \<and> (\<forall>path. dep_chain (task_of tasks) path \<and> last path = target \<longrightarrow>
               (\<Sum>i\<leftarrow>path. task_execution (task_of tasks) i + task_wait (task_of tasks) i) \<le> unat hi))"
proof -
  from assms(1) obtain digest r
    where run: "schedule_next_acceptance tasks (est_capacity req) target = Some (Inr r)"
      and f: "build_forecast req digest r = Inr f" unfolding tasks_def target_def estimate_iff by blast
  note parts = build_forecast_ok[OF f] and kind = estimate_kind_of_facts[OF build_forecast_ok(2)[OF f, symmetric]]
  obtain nodes where nodes: "index_tasks tasks target = Inr nodes" and rep: "report_ok nodes (task_closure tasks target) target r"
    using run by (cases rule: schedule_next_cases[of "est_capacity req" tasks target]) auto
  have nodes_eq: "nodes = task_of tasks" by (rule index_tasks_ok(1)[OF nodes])
  have known: "sr_checkpoint_ready_ms r = None \<longleftrightarrow> unmeasured"
    using rep unfolding unmeasured_def nodes_eq report_ok_def by simp
  show ?thesis
  proof (cases "sr_checkpoint_ready_ms r")
    case None
    then have "cmp_calendar_acceptance_window_ms (fr_components f) = interval_unknown" "fr_combined_interval_ms f = interval_unknown"
      using parts(4,5) calendar_interval_ok(1)[of req] combined_interval_ok(1) by auto
    with None known parts(1) kind show ?thesis by auto
  next
    case (Some R)
    with parts(5) obtain e where e: "combined_interval e (Some R) = Inr (fr_combined_interval_ms f)" by auto
    from combined_interval_ok(2)[of e R] e
    obtain lo hi where i: "fr_combined_interval_ms f = \<lparr>iv_low_ms = Known lo, iv_high_ms = Known hi\<rparr>" "lo \<le> R" "R \<le> hi" by auto
    then have "unat lo \<le> unat R" "unat R \<le> unat hi" by (simp_all add: word_le_nat_alt)
    with rep Some have "unat lo \<le> total_cost nodes (task_closure tasks target)"
      "\<forall>path. dep_chain nodes path \<and> last path = target \<longrightarrow> (\<Sum>i\<leftarrow>path. task_execution nodes i + task_wait nodes i) \<le> unat hi"
      by (auto simp: report_ok_def intro: le_trans)
    with i(1) Some known parts(1,3) kind show ?thesis unfolding nodes_eq by auto
  qed
qed

definition ex_sample :: "string \<Rightarrow> string \<Rightarrow> u64 \<Rightarrow> eta_historical_sample" where
  "ex_sample i kind ms = \<lparr>hs_sample_id = i, hs_work_kind = kind, hs_observed_execution_ms = ms,
     hs_observed_wait_ms = 2, hs_source_ledger = ''l''\<rparr>"

definition ex_open_task :: "string \<Rightarrow> string list \<Rightarrow> eta_task_node" where
  "ex_open_task i deps = \<lparr>tn_work_id = i, tn_effective_execution_ms = None, tn_wait_before_ms = None, tn_depends_on = deps,
     tn_mainline_id = None, tn_is_acceptance_checkpoint = False\<rparr>"

definition ex_request :: eta_estimate_request where
  "ex_request = \<lparr>est_project_id = ''p'', est_forecast_id = ''f'', est_generated_at_ms = 100,
     est_target = \<lparr>et_kind = EtaDelivery, et_target_id = ''d'', et_work_id = ''b'', et_checkpoint_name = None\<rparr>,
     est_task_graph_version = ''g'', est_execution_strategy = ''s'',
     est_tasks = [ex_open_task ''a'' [], ex_open_task ''b'' [''a'']], est_capacity = ex_capacity,
     est_sample_policy = \<lparr>pol_policy_id = ''q'', pol_method_version = ''m'', pol_min_samples = 3, pol_min_holdout = 1, pol_frozen = True\<rparr>,
     est_samples = [ex_sample ''1'' ''a'' 10, ex_sample ''2'' ''default'' 30, ex_sample ''3'' ''a'' 50],
     est_holdout_sample_ids = {''3''}, est_acceptance_data = [],
     est_exclusions = \<lparr>oe_network_queue_ms = None, oe_model_queue_ms = None, oe_evidence_ref = None\<rparr>,
     est_assumptions = [], est_unknowns = [], est_observation_handoff = None, est_llm_narrative = None,
     est_calendar_offset_ms = Some 5, est_supersedes_forecast_id = None, est_reestimate_trigger = None,
     est_reestimate_reason_before = None, est_reestimate_reason_after = None\<rparr>"

definition ex_forecast :: eta_forecast_record where
  "ex_forecast = \<lparr>fr_protocol = 1, fr_forecast_id = ''f'', fr_project_id = ''p'',
     fr_target = est_target ex_request, fr_generated_at_ms = 100, fr_task_graph_version = ''g'',
     fr_execution_strategy = ''s'', fr_sample_policy_id = ''q'', fr_method_version = ''m'', fr_estimate_kind = Calibrated,
     fr_components = \<lparr>cmp_effective_execution_ms = \<lparr>iv_low_ms = Known 20, iv_high_ms = Known 20\<rparr>,
       cmp_dependency_or_human_wait_ms = \<lparr>iv_low_ms = Known 4, iv_high_ms = Known 4\<rparr>,
       cmp_calendar_acceptance_window_ms = \<lparr>iv_low_ms = Known 149, iv_high_ms = Known 149\<rparr>,
       cmp_excluded_network_queue_ms = Unknown, cmp_excluded_model_queue_ms = Unknown\<rparr>,
     fr_combined_interval_ms = \<lparr>iv_low_ms = Known 20, iv_high_ms = Known 44\<rparr>,
     fr_assumptions = [], fr_unknowns = [''network_queue_ms'', ''model_queue_ms''],
     fr_calibration = \<lparr>cal_coverage_bps = Some 10000, cal_interval_width_ms = Some 24, cal_absolute_error_ms = Some 30,
       cal_missing_rate_bps = Some 0, cal_sample_count = 3, cal_holdout_count = 1, cal_gate_passed = True\<rparr>,
     fr_supersedes_forecast_id = None, fr_reestimate_trigger = None, fr_reestimate_reason_before = None,
     fr_reestimate_reason_after = None, fr_observation_handoff_digest = None\<rparr>"

lemma ex_estimates: "estimate_next_acceptance (\<lambda>_. None) (\<lambda>s. s) ex_request = Some (Inr ex_forecast)"
  by code_simp

theorem forecast_is_backed_by_measurements_witness:
  "estimate_next_acceptance (\<lambda>_. None) (\<lambda>s. s) ex_request = Some (Inr ex_forecast)
   \<and> \<not> (\<exists>i\<in>task_closure (estimate_tasks ex_request) ''b''. unknown_duration (task_of (estimate_tasks ex_request)) i)"
  using forecast_is_backed_by_measurements[OF ex_estimates] ex_estimates
  by (simp add: ex_forecast_def ex_request_def)

text \<open>Replacing held-out samples.\<close>

lemma calibration_metrics_samples:
  assumes "calibration_metrics p ss holdout i = Inr c" and "length ss' = length ss"
  obtains c' where "calibration_metrics p ss' holdout i = Inr c'"
    and "cal_gate_passed c' = cal_gate_passed c" and "cal_interval_width_ms c' = cal_interval_width_ms c"
  using assms by (auto simp: calibration_metrics_def Let_def)

lemma forecast_of_samples:
  assumes "estimate_tasks (req\<lparr>est_samples := ss\<rparr>) = estimate_tasks req" and "ss = [] \<longleftrightarrow> est_samples req = []"
    and "cal_gate_passed c' = cal_gate_passed c"
  shows "forecast_of (req\<lparr>est_samples := ss\<rparr>) digest r cs i c' = (forecast_of req digest r cs i c)\<lparr>fr_calibration := c'\<rparr>"
    and "forecast_validate (f\<lparr>fr_calibration := c'\<rparr>) = forecast_validate (f\<lparr>fr_calibration := c\<rparr>)"
  using assms
  by (auto simp: forecast_of_def forecast_validate_def estimate_kind_of_def estimate_assumptions_def estimate_unknowns_def Let_def
      cong: eta_estimate_kind.case_cong)

lemma build_forecast_samples:
  assumes tasks: "estimate_tasks (req\<lparr>est_samples := ss\<rparr>) = estimate_tasks req" and empty: "ss = [] \<longleftrightarrow> est_samples req = []"
    and train: "training ss (est_holdout_sample_ids req) = training (est_samples req) (est_holdout_sample_ids req)"
    and len: "length ss = length (est_samples req)" and old: "build_forecast req digest r = Inr f"
  shows "\<exists>c. build_forecast (req\<lparr>est_samples := ss\<rparr>) digest r = Inr (f\<lparr>fr_calibration := c\<rparr>)
      \<and> cal_gate_passed c = cal_gate_passed (fr_calibration f)
      \<and> cal_interval_width_ms c = cal_interval_width_ms (fr_calibration f)"
proof -
  let ?req = "req\<lparr>est_samples := ss\<rparr>"
  have calendar: "calendar_interval ?req v = calendar_interval req v" for v
    by (cases v) (simp_all add: calendar_interval_def)
  obtain execution wait k i c where parts:
      "execution_interval (training ss (est_holdout_sample_ids req)) (sr_effective_execution_ms r) = Inr execution"
      "point_interval (sr_dependency_or_human_wait_ms r) = Inr wait"
      "calendar_interval req (sr_checkpoint_ready_ms r) = Inr k" "combined_interval execution (sr_checkpoint_ready_ms r) = Inr i"
      "calibration_metrics (est_sample_policy req) (est_samples req) (est_holdout_sample_ids req) i = Inr c"
    and f: "f = forecast_of req digest r (components_of req execution wait k) i c"
    and checks: "fr_estimate_kind f = Calibrated \<longrightarrow> cal_gate_passed c
       \<and> (est_llm_narrative req = None \<or> pol_min_samples (est_sample_policy req) \<le> length (est_samples req))"
      "forecast_validate f = Inr ()"
    using old unfolding build_forecast_iff train by blast
  obtain c' where c': "calibration_metrics (est_sample_policy req) ss (est_holdout_sample_ids req) i = Inr c'"
      "cal_gate_passed c' = cal_gate_passed c" "cal_interval_width_ms c' = cal_interval_width_ms c"
    using calibration_metrics_samples[OF parts(5) len] by metis
  have c: "fr_calibration f = c" unfolding f by (simp add: forecast_of_def)
  have same: "f\<lparr>fr_calibration := c\<rparr> = f" using c by (cases f) simp
  have "forecast_of ?req digest r (components_of ?req execution wait k) i c' = f\<lparr>fr_calibration := c'\<rparr>"
    unfolding f using forecast_of_samples(1)[OF tasks empty c'(2)] by (simp add: components_of_def)
  moreover have "forecast_validate (f\<lparr>fr_calibration := c'\<rparr>) = Inr ()"
    using forecast_of_samples(2)[OF tasks empty c'(2), of f] checks(2) unfolding same by simp
  ultimately have "build_forecast ?req digest r = Inr (f\<lparr>fr_calibration := c'\<rparr>)"
    using parts(1-4) c'(1,2) checks(1) len calendar by (auto simp: build_forecast_iff)
  with c c'(2,3) show ?thesis by auto
qed

text \<open>
  Held-out samples never train a forecast. If the observations of held-out samples are replaced, and
  the request is still valid, the forecast is the same one except for its calibration metrics, and of
  those the gate and the interval width are the same too.
\<close>
theorem holdout_never_trains:
  assumes "estimate_next_acceptance json sha req = Some (Inr f)"
    and "training samples (est_holdout_sample_ids req) = training (est_samples req) (est_holdout_sample_ids req)"
    and "length samples = length (est_samples req)" and "request_checks (req\<lparr>est_samples := samples\<rparr>) = Inr ()"
  shows "\<exists>c. estimate_next_acceptance json sha (req\<lparr>est_samples := samples\<rparr>) = Some (Inr (f\<lparr>fr_calibration := c\<rparr>))
     \<and> cal_gate_passed c = cal_gate_passed (fr_calibration f)
     \<and> cal_interval_width_ms c = cal_interval_width_ms (fr_calibration f)"
proof -
  let ?req = "req\<lparr>est_samples := samples\<rparr>"
  have tasks: "estimate_tasks ?req = estimate_tasks req"
    using assms(2) by (simp add: estimate_tasks_def apply_sample_durations_def)
  have empty: "samples = [] \<longleftrightarrow> est_samples req = []" using assms(3) by (metis length_0_conv)
  have build: "\<exists>c. build_forecast ?req digest r = Inr (f\<lparr>fr_calibration := c\<rparr>)
      \<and> cal_gate_passed c = cal_gate_passed (fr_calibration f)
      \<and> cal_interval_width_ms c = cal_interval_width_ms (fr_calibration f)"
    if "build_forecast req digest r = Inr f" for digest r
    using that build_forecast_samples[OF tasks empty assms(2,3)] by simp
  from assms(1) obtain digest r where old:
      "(case est_observation_handoff req of Some h \<Rightarrow> map_sum id Some (handoff_digest json sha h) | None \<Rightarrow> Inr None) = Inr digest"
      "schedule_next_acceptance (estimate_tasks req) (est_capacity req) (et_work_id (est_target req)) = Some (Inr r)"
      "build_forecast req digest r = Inr f" unfolding estimate_iff by blast
  from build[OF old(3)] obtain c where "build_forecast ?req digest r = Inr (f\<lparr>fr_calibration := c\<rparr>)"
      "cal_gate_passed c = cal_gate_passed (fr_calibration f)"
      "cal_interval_width_ms c = cal_interval_width_ms (fr_calibration f)" by blast
  with old(1,2) assms(4) have "estimate_next_acceptance json sha ?req = Some (Inr (f\<lparr>fr_calibration := c\<rparr>))"
    unfolding estimate_iff tasks by simp
  with \<open>cal_gate_passed c = _\<close> \<open>cal_interval_width_ms c = _\<close> show ?thesis by blast
qed

theorem holdout_never_trains_witness:
  "\<exists>c. estimate_next_acceptance (\<lambda>_. None) (\<lambda>s. s)
       (ex_request\<lparr>est_samples := [ex_sample ''1'' ''a'' 10, ex_sample ''2'' ''default'' 30, ex_sample ''3'' ''a'' 999]\<rparr>)
     = Some (Inr (ex_forecast\<lparr>fr_calibration := c\<rparr>)) \<and> cal_gate_passed c"
proof -
  let ?ss = "[ex_sample ''1'' ''a'' 10, ex_sample ''2'' ''default'' 30, ex_sample ''3'' ''a'' 999]"
  have train: "training ?ss (est_holdout_sample_ids ex_request) = training (est_samples ex_request) (est_holdout_sample_ids ex_request)"
    and len: "length ?ss = length (est_samples ex_request)"
    by (simp_all add: ex_request_def ex_sample_def)
  have checks: "request_checks (ex_request\<lparr>est_samples := ?ss\<rparr>) = Inr ()" by code_simp
  have "cal_gate_passed (fr_calibration ex_forecast)" by (simp add: ex_forecast_def)
  with holdout_never_trains[OF ex_estimates train len checks] show ?thesis by blast
qed

text \<open>An estimate always answers, since the scheduler does, and so does a re-estimate.\<close>

lemma estimate_answers: "estimate_next_acceptance json sha req \<noteq> None"
  by (rule schedule_next_cases[of "est_capacity req" "estimate_tasks req" "et_work_id (est_target req)"])
    (auto simp: estimate_next_acceptance_def split: sum.splits option.splits)

lemma reestimate_answers: "reestimate_next_acceptance json sha previous req trigger before after \<noteq> None"
  using estimate_answers by (auto simp: reestimate_next_acceptance_def split: sum.splits)

text \<open>A re-estimate is a new record that points to the one it replaces; the old one stays as it is.\<close>

lemma refuse_forecast_rewrite_ok: "refuse_forecast_rewrite existing attempted = Inr () \<longleftrightarrow> existing = attempted"
  by (auto simp: refuse_forecast_rewrite_def)

lemma estimate_record:
  assumes "estimate_next_acceptance json sha req = Some (Inr f)"
  shows "fr_forecast_id f = est_forecast_id req \<and> fr_project_id f = est_project_id req
     \<and> fr_supersedes_forecast_id f = est_supersedes_forecast_id req \<and> fr_reestimate_trigger f = est_reestimate_trigger req"
  using assms unfolding estimate_iff build_forecast_iff forecast_of_def by auto

lemma reestimate_is_new:
  assumes "reestimate_next_acceptance json sha previous req trigger before after = Some (Inr f)"
  shows "fr_forecast_id f \<noteq> fr_forecast_id previous \<and> fr_supersedes_forecast_id f = Some (fr_forecast_id previous)
     \<and> fr_project_id f = fr_project_id previous \<and> fr_reestimate_trigger f = Some trigger
     \<and> refuse_forecast_rewrite previous f \<noteq> Inr ()"
  using assms
  by (auto simp: reestimate_next_acceptance_def refuse_forecast_rewrite_ok dest!: estimate_record split: sum.splits)

text \<open>
  The sum in \<open>median_u64\<close> is not checked: two observations of half the range have the median zero.
\<close>

lemma median_wraps: "median_u64 [9223372036854775808, 9223372036854775808] = Some 0"
  by code_simp

text \<open>
  A narrative is only meant to be an assumption, but it turns an estimate that cannot be made into a
  provisional one without an interval.
\<close>

definition ex_incomplete :: eta_estimate_request where
  "ex_incomplete = ex_request\<lparr>est_samples := [ex_sample ''1'' ''b'' 10], est_holdout_sample_ids := {}\<rparr>"

lemma narrative_hides_unestimable:
  "map_option (map_sum id fr_estimate_kind) (estimate_next_acceptance (\<lambda>_. None) (\<lambda>s. s) ex_incomplete)
     = Some (Inr (Unestimable ''schedule_incomplete''))"
  "map_option (map_sum id fr_estimate_kind) (estimate_next_acceptance (\<lambda>_. None) (\<lambda>s. s)
       (ex_incomplete\<lparr>est_llm_narrative := Some ''soon''\<rparr>))
     = Some (Inr (Provisional ''explicit_cold_start_assumption''))"
  by code_simp+

end
