(* ===== verification/Migration_Takeover.thy ===== *)
theory Migration_Takeover
  imports Canonical_Json Ordered_Map "HOL-Library.Multiset"
begin

text \<open>
  \<^verbatim>\<open>crates/awr-core/src/migration_takeover.rs\<close>: the drill that backs a project up, previews the
  classification of its history, migrates and verifies the restored state, and the preview of a
  project takeover. Values are encoded as JSON in the order of the struct fields; \<^verbatim>\<open>serde_json::to_vec\<close>
  and SHA-256 are the argument \<open>digest\<close>, as in \<open>Canonical_Json\<close>. Encoding these records cannot fail, so
  the branch of \<open>snapshot_digest\<close> for a serialiser error has no counterpart.
\<close>

section \<open>Data\<close>

definition MIGRATION_TAKEOVER_PROTOCOL :: string where
  "MIGRATION_TAKEOVER_PROTOCOL = ''awr-workstream-migration-takeover-v1''"

definition FIXTURE_SCHEMA :: string where
  "FIXTURE_SCHEMA = ''awr-workstream-migration-takeover-fixture/v1''"

definition BACKUP_FORMAT :: string where
  "BACKUP_FORMAT = ''awr-workstream-migration-backup-v1''"

datatype (plugins only: code size) goal_line = LineTeam | LineEvo | LineDec | LineAuto

fun line_as_str :: "goal_line \<Rightarrow> string" where
  "line_as_str LineTeam = ''Team''"
| "line_as_str LineEvo = ''EVO''"
| "line_as_str LineDec = ''DEC''"
| "line_as_str LineAuto = ''AUTO''"

datatype (plugins only: code size) actor_kind = ActorPerson | ActorAgent

record fixture_actor =
  fa_id :: string
  fa_kind :: actor_kind
  fa_display_name :: string

record fixture_person_delegation =
  fd_id :: string
  fd_person_id :: string
  fd_agent_id :: string
  fd_status :: string
  fd_provable :: bool

record fixture_goal =
  fg_id :: string
  fg_title :: string
  fg_line :: goal_line
  fg_owner_person_id :: "string option"
  fg_status :: string

record fixture_session =
  fs_id :: string
  fs_actor_id :: string
  fs_work_item_id :: string
  fs_status :: string

record fixture_claim =
  fc_id :: string
  fc_session_id :: string
  fc_actor_id :: string
  fc_work_item_id :: string
  fc_status :: string

record fixture_review =
  fv_id :: string
  fv_work_item_id :: string
  fv_reviewer_actor_id :: string
  fv_declared_role :: string
  fv_status :: string

record fixture_work_item =
  fw_id :: string
  fw_title :: string
  fw_status :: string
  fw_goal_id :: "string option"
  fw_incomplete :: bool

record fixture_release_evidence =
  fe_id :: string
  fe_work_item_id :: string
  fe_release_tag :: string
  fe_evidence_digest :: string

record migration_fixture =
  mf_schema :: string
  mf_fixture_id :: string
  mf_project_id :: string
  mf_tenant_id :: string
  mf_goals :: "fixture_goal list"
  mf_actors :: "fixture_actor list"
  mf_person_delegations :: "fixture_person_delegation list"
  mf_sessions :: "fixture_session list"
  mf_claims :: "fixture_claim list"
  mf_reviews :: "fixture_review list"
  mf_work_items :: "fixture_work_item list"
  mf_release_evidence :: "fixture_release_evidence list"

datatype (plugins only: code size) history_disposition = Preserved | PendingConfirmation | PersonRetained

record classified_history =
  hy_kind :: string
  hy_id :: string
  hy_original_actor_id :: string
  hy_disposition :: history_disposition
  hy_reason :: string
  hy_person_delegation_proven :: bool
  hy_promoted_to_owner_or_approver :: bool

record goal_ownership_receipt =
  go_goal_id :: string
  go_line :: goal_line
  go_owner_person_id :: "string option"
  go_preserved :: bool

record migration_backup =
  mb_format :: string
  mb_protocol :: string
  mb_fixture_id :: string
  mb_project_id :: string
  mb_tenant_id :: string
  mb_snapshot_digest :: string
  mb_goals :: "fixture_goal list"
  mb_actors :: "fixture_actor list"
  mb_person_delegations :: "fixture_person_delegation list"
  mb_sessions :: "fixture_session list"
  mb_claims :: "fixture_claim list"
  mb_reviews :: "fixture_review list"
  mb_work_items :: "fixture_work_item list"
  mb_release_evidence :: "fixture_release_evidence list"

record migration_preview_rec =
  mp_protocol :: string
  mp_applied :: bool
  mp_backup_digest :: string
  mp_history :: "classified_history list"
  mp_goal_ownership :: "goal_ownership_receipt list"
  mp_incomplete_work_item_ids :: "string list"
  mp_active_session_ids :: "string list"
  mp_release_evidence_ids :: "string list"
  mp_pending_confirmation_count :: nat
  mp_refusals :: "string list"
  mp_safe_to_migrate :: bool

record migration_result =
  mr_protocol :: string
  mr_applied :: bool
  mr_backup_digest :: string
  mr_result_digest :: string
  mr_history :: "classified_history list"
  mr_goal_ownership :: "goal_ownership_receipt list"
  mr_incomplete_work_item_ids :: "string list"
  mr_active_session_ids :: "string list"
  mr_release_evidence_ids :: "string list"
  mr_migrated :: migration_backup
  mr_identity_forged :: bool
  mr_agent_auto_promoted :: bool

record restore_result =
  rr_protocol :: string
  rr_mode :: string
  rr_restored_digest :: string
  rr_matches_backup :: bool
  rr_refusals :: "string list"

record drill_receipt =
  dr_protocol :: string
  dr_fixture_id :: string
  dr_stages :: "(string, string) btree_map"
  dr_backup_digest :: string
  dr_preview_pending_confirmation :: nat
  dr_migrate_result_digest :: string
  dr_restore_matches_backup :: bool
  dr_goal_lines_preserved :: "string list"
  dr_identity_forged :: bool
  dr_agent_auto_promoted :: bool
  dr_ok :: bool

datatype (plugins only: code size) migration_error =
    InvalidFixture string
  | UnsupportedBackupFormat
  | PreviewRefused "string list"
  | DigestMismatch

fun join_refusals :: "string list \<Rightarrow> string" where
  "join_refusals [] = []"
| "join_refusals [r] = r"
| "join_refusals (r # rs) = r @ '','' @ join_refusals rs"

fun migration_error_display :: "migration_error \<Rightarrow> string" where
  "migration_error_display (InvalidFixture r) = ''invalid migration fixture: '' @ r"
| "migration_error_display UnsupportedBackupFormat = ''unsupported backup format''"
| "migration_error_display (PreviewRefused r) = ''migration preview refused: '' @ join_refusals r"
| "migration_error_display DigestMismatch = ''snapshot digest mismatch''"

section \<open>Encoding\<close>

definition opt_json :: "string option \<Rightarrow> json" where
  "opt_json v = (case v of None \<Rightarrow> JNull | Some s \<Rightarrow> JString s)"

fun actor_kind_json :: "actor_kind \<Rightarrow> json" where
  "actor_kind_json ActorPerson = JString ''person''"
| "actor_kind_json ActorAgent = JString ''agent''"

definition actor_json :: "fixture_actor \<Rightarrow> json" where
  "actor_json a = JObject [(''id'', JString (fa_id a)), (''kind'', actor_kind_json (fa_kind a)),
     (''display_name'', JString (fa_display_name a))]"

definition delegation_json :: "fixture_person_delegation \<Rightarrow> json" where
  "delegation_json d = JObject [(''id'', JString (fd_id d)), (''person_id'', JString (fd_person_id d)),
     (''agent_id'', JString (fd_agent_id d)), (''status'', JString (fd_status d)), (''provable'', JBool (fd_provable d))]"

definition goal_json :: "fixture_goal \<Rightarrow> json" where
  "goal_json g = JObject [(''id'', JString (fg_id g)), (''title'', JString (fg_title g)),
     (''line'', JString (line_as_str (fg_line g))), (''owner_person_id'', opt_json (fg_owner_person_id g)),
     (''status'', JString (fg_status g))]"

definition session_json :: "fixture_session \<Rightarrow> json" where
  "session_json s = JObject [(''id'', JString (fs_id s)), (''actor_id'', JString (fs_actor_id s)),
     (''work_item_id'', JString (fs_work_item_id s)), (''status'', JString (fs_status s))]"

definition claim_json :: "fixture_claim \<Rightarrow> json" where
  "claim_json c = JObject [(''id'', JString (fc_id c)), (''session_id'', JString (fc_session_id c)),
     (''actor_id'', JString (fc_actor_id c)), (''work_item_id'', JString (fc_work_item_id c)),
     (''status'', JString (fc_status c))]"

definition review_json :: "fixture_review \<Rightarrow> json" where
  "review_json r = JObject [(''id'', JString (fv_id r)), (''work_item_id'', JString (fv_work_item_id r)),
     (''reviewer_actor_id'', JString (fv_reviewer_actor_id r)), (''declared_role'', JString (fv_declared_role r)),
     (''status'', JString (fv_status r))]"

definition work_item_json :: "fixture_work_item \<Rightarrow> json" where
  "work_item_json w = JObject [(''id'', JString (fw_id w)), (''title'', JString (fw_title w)),
     (''status'', JString (fw_status w)), (''goal_id'', opt_json (fw_goal_id w)), (''incomplete'', JBool (fw_incomplete w))]"

definition release_evidence_json :: "fixture_release_evidence \<Rightarrow> json" where
  "release_evidence_json e = JObject [(''id'', JString (fe_id e)), (''work_item_id'', JString (fe_work_item_id e)),
     (''release_tag'', JString (fe_release_tag e)), (''evidence_digest'', JString (fe_evidence_digest e))]"

definition fixture_json :: "migration_fixture \<Rightarrow> json" where
  "fixture_json f = JObject [(''schema'', JString (mf_schema f)), (''fixture_id'', JString (mf_fixture_id f)),
     (''project_id'', JString (mf_project_id f)), (''tenant_id'', JString (mf_tenant_id f)),
     (''goals'', JArray (map goal_json (mf_goals f))), (''actors'', JArray (map actor_json (mf_actors f))),
     (''person_delegations'', JArray (map delegation_json (mf_person_delegations f))),
     (''sessions'', JArray (map session_json (mf_sessions f))), (''claims'', JArray (map claim_json (mf_claims f))),
     (''reviews'', JArray (map review_json (mf_reviews f))), (''work_items'', JArray (map work_item_json (mf_work_items f))),
     (''release_evidence'', JArray (map release_evidence_json (mf_release_evidence f)))]"

fun disposition_json :: "history_disposition \<Rightarrow> json" where
  "disposition_json Preserved = JString ''preserved''"
| "disposition_json PendingConfirmation = JString ''pending_confirmation''"
| "disposition_json PersonRetained = JString ''person_retained''"

definition history_json :: "classified_history \<Rightarrow> json" where
  "history_json h = JObject [(''kind'', JString (hy_kind h)), (''id'', JString (hy_id h)),
     (''original_actor_id'', JString (hy_original_actor_id h)), (''disposition'', disposition_json (hy_disposition h)),
     (''reason'', JString (hy_reason h)), (''person_delegation_proven'', JBool (hy_person_delegation_proven h)),
     (''promoted_to_owner_or_approver'', JBool (hy_promoted_to_owner_or_approver h))]"

definition ownership_json :: "goal_ownership_receipt \<Rightarrow> json" where
  "ownership_json g = JObject [(''goal_id'', JString (go_goal_id g)), (''line'', JString (line_as_str (go_line g))),
     (''owner_person_id'', opt_json (go_owner_person_id g)), (''preserved'', JBool (go_preserved g))]"

definition snapshot_digest :: "(json \<Rightarrow> string) \<Rightarrow> migration_fixture \<Rightarrow> string" where
  "snapshot_digest digest f = digest (fixture_json f)"

section \<open>Classification\<close>

definition actor_map :: "migration_fixture \<Rightarrow> (string, fixture_actor) btree_map" where
  "actor_map f = bt_collect (map (\<lambda>a. (fa_id a, a)) (mf_actors f))"

definition provable_agent_persons :: "migration_fixture \<Rightarrow> (string, string) btree_map" where
  "provable_agent_persons f =
     fold (\<lambda>d m. if fd_provable d \<and> fd_status d = ''active'' then bt_insert (fd_agent_id d) (fd_person_id d) m else m)
       (mf_person_delegations f) []"

definition actor_row :: "string \<Rightarrow> history_disposition \<Rightarrow> string \<Rightarrow> bool \<Rightarrow> classified_history" where
  "actor_row i disposition reason proven =
     \<lparr>hy_kind = ''actor'', hy_id = i, hy_original_actor_id = i, hy_disposition = disposition, hy_reason = reason,
      hy_person_delegation_proven = proven, hy_promoted_to_owner_or_approver = False\<rparr>"

definition classify_actor_ref ::
  "string \<Rightarrow> (string, fixture_actor) btree_map \<Rightarrow> (string, string) btree_map \<Rightarrow> string option \<Rightarrow> classified_history" where
  "classify_actor_ref actor_id actors proven declared_role =
     (case map_of actors actor_id of
        None \<Rightarrow> actor_row actor_id PendingConfirmation ''unknown_actor_identity'' False
      | Some actor \<Rightarrow>
          (case fa_kind actor of
             ActorPerson \<Rightarrow> actor_row (fa_id actor) PersonRetained ''person_identity_retained'' False
           | ActorAgent \<Rightarrow>
               let proven_ok = map_of proven (fa_id actor) \<noteq> None;
                   role = (case declared_role of Some r \<Rightarrow> r | None \<Rightarrow> []);
                   sensitive = (role = ''owner'' \<or> role = ''independent_approver'')
               in if proven_ok \<and> \<not> sensitive then actor_row (fa_id actor) Preserved ''provable_person_delegation'' True
                  else if proven_ok \<and> sensitive then
                    actor_row (fa_id actor) PendingConfirmation ''agent_cannot_auto_become_owner_or_independent_approver'' True
                  else actor_row (fa_id actor) PendingConfirmation ''unprovable_person_delegation'' False))"

definition validate_fixture :: "migration_fixture \<Rightarrow> (migration_error, unit) result" where
  "validate_fixture f =
     run_checks
       [refuse (mf_schema f \<noteq> FIXTURE_SCHEMA) (InvalidFixture ''schema''),
        refuse (mf_fixture_id f = [] \<or> mf_project_id f = [] \<or> mf_tenant_id f = []) (InvalidFixture ''ids''),
        refuse (\<not> list_all (\<lambda>line. line \<in> fg_line ` set (mf_goals f)) [LineTeam, LineEvo, LineDec, LineAuto])
          (InvalidFixture ''fixture must cover Team/EVO/DEC/AUTO goal lines''),
        refuse (list_ex (\<lambda>d. fd_person_id d \<notin> fa_id ` set (mf_actors f) \<or> fd_agent_id d \<notin> fa_id ` set (mf_actors f))
            (mf_person_delegations f)) (InvalidFixture ''delegation references'')]"

section \<open>The stages\<close>

definition backup :: "(json \<Rightarrow> string) \<Rightarrow> migration_fixture \<Rightarrow> (migration_error, migration_backup) result" where
  "backup digest f =
     then_ok (validate_fixture f)
       (Inr \<lparr>mb_format = BACKUP_FORMAT, mb_protocol = MIGRATION_TAKEOVER_PROTOCOL, mb_fixture_id = mf_fixture_id f,
         mb_project_id = mf_project_id f, mb_tenant_id = mf_tenant_id f, mb_snapshot_digest = snapshot_digest digest f,
         mb_goals = mf_goals f, mb_actors = mf_actors f, mb_person_delegations = mf_person_delegations f,
         mb_sessions = mf_sessions f, mb_claims = mf_claims f, mb_reviews = mf_reviews f,
         mb_work_items = mf_work_items f, mb_release_evidence = mf_release_evidence f\<rparr>)"

definition fixture_from_backup :: "migration_backup \<Rightarrow> migration_fixture" where
  "fixture_from_backup b =
     \<lparr>mf_schema = FIXTURE_SCHEMA, mf_fixture_id = mb_fixture_id b, mf_project_id = mb_project_id b,
      mf_tenant_id = mb_tenant_id b, mf_goals = mb_goals b, mf_actors = mb_actors b,
      mf_person_delegations = mb_person_delegations b, mf_sessions = mb_sessions b, mf_claims = mb_claims b,
      mf_reviews = mb_reviews b, mf_work_items = mb_work_items b, mf_release_evidence = mb_release_evidence b\<rparr>"

text \<open>The actors in order, each identifier once.\<close>

fun actor_rows :: "(string \<Rightarrow> classified_history) \<Rightarrow> string set \<Rightarrow> string list \<Rightarrow> classified_history list" where
  "actor_rows classify seen [] = []"
| "actor_rows classify seen (i # ids) =
     (if i \<in> seen then actor_rows classify seen ids
      else classify i # actor_rows classify (insert i seen) ids)"

definition history_rows :: "migration_fixture \<Rightarrow> classified_history list" where
  "history_rows f =
     (let actors = actor_map f; proven = provable_agent_persons f;
          classify = \<lambda>i role. classify_actor_ref i actors proven role
      in actor_rows (\<lambda>i. classify i None) {} (map fa_id (mf_actors f))
         @ map (\<lambda>s. (classify (fs_actor_id s) None)\<lparr>hy_kind := ''session'', hy_id := fs_id s\<rparr>) (mf_sessions f)
         @ map (\<lambda>c. (classify (fc_actor_id c) None)\<lparr>hy_kind := ''claim'', hy_id := fc_id c\<rparr>) (mf_claims f)
         @ map (\<lambda>r. (classify (fv_reviewer_actor_id r) (Some (fv_declared_role r)))\<lparr>hy_kind := ''review'', hy_id := fv_id r\<rparr>)
             (mf_reviews f))"

definition goal_ownership :: "fixture_goal list \<Rightarrow> goal_ownership_receipt list" where
  "goal_ownership goals = map (\<lambda>g. \<lparr>go_goal_id = fg_id g, go_line = fg_line g,
     go_owner_person_id = fg_owner_person_id g, go_preserved = True\<rparr>) goals"

definition pending_count :: "classified_history list \<Rightarrow> nat" where
  "pending_count history = length (filter (\<lambda>h. hy_disposition h = PendingConfirmation) history)"

definition preview_refusals ::
  "classified_history list \<Rightarrow> goal_ownership_receipt list \<Rightarrow> string list \<Rightarrow> string list \<Rightarrow> string list \<Rightarrow> string list" where
  "preview_refusals history ownership incomplete active evidence =
     (if list_ex (\<lambda>g. \<not> go_preserved g) ownership then [''goal_ownership_drift''] else [])
     @ (if incomplete = [] then [''fixture_lacks_incomplete_work''] else [])
     @ (if active = [] then [''fixture_lacks_active_session''] else [])
     @ (if evidence = [] then [''fixture_lacks_release_evidence''] else [])
     @ (if list_ex hy_promoted_to_owner_or_approver history then [''agent_auto_promoted''] else [])"

definition preview :: "migration_backup \<Rightarrow> (migration_error, migration_preview_rec) result" where
  "preview b =
     then_ok (refuse (mb_format b \<noteq> BACKUP_FORMAT) UnsupportedBackupFormat)
      (let f = fixture_from_backup b in
       then_ok (validate_fixture f)
        (let history = history_rows f;
             ownership = goal_ownership (mf_goals f);
             incomplete = map fw_id (filter (\<lambda>w. fw_incomplete w \<or> fw_status w \<noteq> ''completed'') (mf_work_items f));
             active = map fs_id (filter (\<lambda>s. fs_status s = ''active'') (mf_sessions f));
             evidence = map fe_id (mf_release_evidence f);
             refusals = preview_refusals history ownership incomplete active evidence
         in Inr \<lparr>mp_protocol = MIGRATION_TAKEOVER_PROTOCOL, mp_applied = False, mp_backup_digest = mb_snapshot_digest b,
              mp_history = history, mp_goal_ownership = ownership, mp_incomplete_work_item_ids = incomplete,
              mp_active_session_ids = active, mp_release_evidence_ids = evidence,
              mp_pending_confirmation_count = pending_count history, mp_refusals = refusals,
              mp_safe_to_migrate = (refusals = [])\<rparr>))"

definition result_body :: "migration_backup \<Rightarrow> migration_preview_rec \<Rightarrow> json" where
  "result_body b p = JObject
     [(''backup_digest'', JString (mb_snapshot_digest b)),
      (''history'', JArray (map history_json (mp_history p))),
      (''goal_ownership'', JArray (map ownership_json (mp_goal_ownership p))),
      (''incomplete_work_item_ids'', json_strings (mp_incomplete_work_item_ids p)),
      (''active_session_ids'', json_strings (mp_active_session_ids p)),
      (''release_evidence_ids'', json_strings (mp_release_evidence_ids p))]"

definition migrate ::
  "(json \<Rightarrow> string) \<Rightarrow> migration_backup \<Rightarrow> migration_preview_rec \<Rightarrow> (migration_error, migration_result) result" where
  "migrate digest b p =
     then_ok
       (run_checks
         [refuse (\<not> mp_safe_to_migrate p) (PreviewRefused (mp_refusals p)),
          refuse (mp_backup_digest p \<noteq> mb_snapshot_digest b) DigestMismatch,
          refuse (list_ex hy_promoted_to_owner_or_approver (mp_history p)) (PreviewRefused [''agent_auto_promoted''])])
       (Inr \<lparr>mr_protocol = MIGRATION_TAKEOVER_PROTOCOL, mr_applied = True, mr_backup_digest = mb_snapshot_digest b,
          mr_result_digest = digest (result_body b p), mr_history = mp_history p,
          mr_goal_ownership = mp_goal_ownership p, mr_incomplete_work_item_ids = mp_incomplete_work_item_ids p,
          mr_active_session_ids = mp_active_session_ids p, mr_release_evidence_ids = mp_release_evidence_ids p,
          mr_migrated = b, mr_identity_forged = False, mr_agent_auto_promoted = False\<rparr>)"

definition restore_refusals :: "migration_backup \<Rightarrow> migration_result \<Rightarrow> string list" where
  "restore_refusals b m =
     (let g = mr_migrated m in
      (if mr_identity_forged m then [''identity_forged''] else [])
      @ (if mr_agent_auto_promoted m then [''agent_auto_promoted''] else [])
      @ (if mb_snapshot_digest g \<noteq> mb_snapshot_digest b then [''snapshot_digest_drift''] else [])
      @ (if mb_actors g \<noteq> mb_actors b \<or> mb_sessions g \<noteq> mb_sessions b \<or> mb_claims g \<noteq> mb_claims b
            \<or> mb_reviews g \<noteq> mb_reviews b then [''identity_rows_changed''] else [])
      @ (if list_ex (\<lambda>o'. \<not> go_preserved o') (mr_goal_ownership m) then [''goal_ownership_not_preserved''] else []))"

definition restore :: "migration_backup \<Rightarrow> migration_result \<Rightarrow> (migration_error, restore_result) result" where
  "restore b m =
     then_ok (refuse (mb_format b \<noteq> BACKUP_FORMAT) UnsupportedBackupFormat)
      (let refusals = restore_refusals b m in
       Inr \<lparr>rr_protocol = MIGRATION_TAKEOVER_PROTOCOL,
         rr_mode = (if refusals = [] then ''verified_round_trip'' else ''refused''),
         rr_restored_digest = mb_snapshot_digest b, rr_matches_backup = (refusals = []), rr_refusals = refusals\<rparr>)"

abbreviation stage_word :: "bool \<Rightarrow> string" where
  "stage_word good \<equiv> (if good then ''ok'' else ''refused'')"

definition run_drill :: "(json \<Rightarrow> string) \<Rightarrow> migration_fixture \<Rightarrow> (migration_error, drill_receipt) result" where
  "run_drill digest f =
     and_then (backup digest f) (\<lambda>backed.
     let stages = bt_insert ''backup'' ''ok'' [] in
     and_then (preview backed) (\<lambda>prev.
     let stages = bt_insert ''preview'' (stage_word (mp_safe_to_migrate prev)) stages in
     and_then (migrate digest backed prev) (\<lambda>migrated.
     let stages = bt_insert ''migrate'' ''ok'' stages in
     and_then (restore backed migrated) (\<lambda>restored.
     let stages = bt_insert ''restore'' (stage_word (rr_matches_backup restored)) stages;
         lines = map (\<lambda>g. line_as_str (go_line g)) (filter go_preserved (mr_goal_ownership migrated));
         ok = (list_all (\<lambda>v. v = ''ok'') (bt_values stages) \<and> \<not> mr_identity_forged migrated
               \<and> \<not> mr_agent_auto_promoted migrated \<and> rr_matches_backup restored)
     in Inr \<lparr>dr_protocol = MIGRATION_TAKEOVER_PROTOCOL, dr_fixture_id = mf_fixture_id f, dr_stages = stages,
          dr_backup_digest = mb_snapshot_digest backed,
          dr_preview_pending_confirmation = mp_pending_confirmation_count prev,
          dr_migrate_result_digest = mr_result_digest migrated,
          dr_restore_matches_backup = rr_matches_backup restored, dr_goal_lines_preserved = lines,
          dr_identity_forged = mr_identity_forged migrated,
          dr_agent_auto_promoted = mr_agent_auto_promoted migrated, dr_ok = ok\<rparr>))))"

section \<open>Project takeover\<close>

record project_takeover_input =
  pt_project_id :: string
  pt_goals :: "fixture_goal list"
  pt_history :: "classified_history list"
  pt_incomplete_work_item_ids :: "string list"
  pt_active_session_ids :: "string list"
  pt_release_evidence_ids :: "string list"
  pt_fixture_drill_ok :: bool
  pt_fixture_backup_digest :: string

record project_takeover_receipt =
  tk_protocol :: string
  tk_project_id :: string
  tk_applied :: bool
  tk_mode :: string
  tk_goal_lines_preserved :: "string list"
  tk_pending_confirmation_count :: nat
  tk_incomplete_preserved :: bool
  tk_active_sessions_preserved :: bool
  tk_release_evidence_preserved :: bool
  tk_identity_forged :: bool
  tk_agent_auto_promoted :: bool
  tk_based_on_fixture_digest :: string
  tk_refusals :: "string list"
  tk_ok :: bool

definition takeover_refusals :: "project_takeover_input \<Rightarrow> string list" where
  "takeover_refusals i =
     (if \<not> pt_fixture_drill_ok i then [''independent_fixture_drill_required_first''] else [])
     @ map (\<lambda>line. ''missing_goal_line_'' @ line_as_str line)
         (filter (\<lambda>line. line \<notin> fg_line ` set (pt_goals i)) [LineTeam, LineEvo, LineDec, LineAuto])
     @ (if list_ex hy_promoted_to_owner_or_approver (pt_history i) then [''agent_auto_promoted''] else [])
     @ (if pt_incomplete_work_item_ids i = [] then [''incomplete_work_missing''] else [])
     @ (if pt_active_session_ids i = [] then [''active_sessions_missing''] else [])
     @ (if pt_release_evidence_ids i = [] then [''release_evidence_missing''] else [])"

definition project_takeover_preview :: "project_takeover_input \<Rightarrow> project_takeover_receipt" where
  "project_takeover_preview i =
     (let refusals = takeover_refusals i; ok = (refusals = []) in
      \<lparr>tk_protocol = MIGRATION_TAKEOVER_PROTOCOL, tk_project_id = pt_project_id i, tk_applied = False,
       tk_mode = (if ok then ''dry_run_ready'' else ''refused''),
       tk_goal_lines_preserved = map (\<lambda>g. line_as_str (fg_line g)) (pt_goals i),
       tk_pending_confirmation_count = pending_count (pt_history i),
       tk_incomplete_preserved = (pt_incomplete_work_item_ids i \<noteq> []),
       tk_active_sessions_preserved = (pt_active_session_ids i \<noteq> []),
       tk_release_evidence_preserved = (pt_release_evidence_ids i \<noteq> []),
       tk_identity_forged = False, tk_agent_auto_promoted = False,
       tk_based_on_fixture_digest = pt_fixture_backup_digest i, tk_refusals = refusals, tk_ok = ok\<rparr>)"

section \<open>Laws\<close>

lemma provable_agent_persons_lookup:
  "map_of (provable_agent_persons f) a \<noteq> None \<longleftrightarrow>
     (\<exists>d\<in>set (mf_person_delegations f). fd_provable d \<and> fd_status d = ''active'' \<and> fd_agent_id d = a)"
proof -
  let ?step = "\<lambda>d m. if fd_provable d \<and> fd_status d = ''active'' then bt_insert (fd_agent_id d) (fd_person_id d) m else m"
  have "bt_wf m \<Longrightarrow> map_of (fold ?step ds m) a \<noteq> None \<longleftrightarrow>
      map_of m a \<noteq> None \<or> (\<exists>d\<in>set ds. fd_provable d \<and> fd_status d = ''active'' \<and> fd_agent_id d = a)" for ds m
  proof (induction ds arbitrary: m)
    case (Cons d ds)
    then have "bt_wf (?step d m)" by (simp add: bt_wf_insert)
    from Cons.IH[OF this] Cons.prems show ?case by (auto simp: bt_insert_lookup)
  qed simp
  from this[OF bt_wf_Nil] show ?thesis by (simp add: provable_agent_persons_def)
qed

text \<open>The record that counts for an actor identifier is the last one.\<close>

definition actor_at :: "migration_fixture \<Rightarrow> string \<Rightarrow> fixture_actor option" where
  "actor_at f i = map_of (rev (map (\<lambda>a. (fa_id a, a)) (mf_actors f))) i"

lemma actor_map_lookup: "map_of (actor_map f) i = actor_at f i"
  unfolding actor_map_def actor_at_def bt_collect_def by (simp add: bt.fold_update[OF bt_wf_Nil])

lemma actor_at_id: "actor_at f i = Some a \<Longrightarrow> fa_id a = i \<and> a \<in> set (mf_actors f)"
  unfolding actor_at_def by (auto dest!: map_of_SomeD)

text \<open>What a classified reference says.\<close>

abbreviation classified :: "migration_fixture \<Rightarrow> string \<Rightarrow> string option \<Rightarrow> classified_history" where
  "classified f i role \<equiv> classify_actor_ref i (actor_map f) (provable_agent_persons f) role"

lemma classified_facts:
  shows "hy_id (classified f i role) = i" and "hy_original_actor_id (classified f i role) = i"
    and "hy_kind (classified f i role) = ''actor''" and "\<not> hy_promoted_to_owner_or_approver (classified f i role)"
    and "hy_disposition (classified f i role) = PersonRetained \<longleftrightarrow> (\<exists>a. actor_at f i = Some a \<and> fa_kind a = ActorPerson)"
    and "hy_disposition (classified f i role) = Preserved \<longleftrightarrow> (\<exists>a. actor_at f i = Some a \<and> fa_kind a = ActorAgent)
      \<and> (\<exists>d\<in>set (mf_person_delegations f). fd_provable d \<and> fd_status d = ''active'' \<and> fd_agent_id d = i)
      \<and> role \<notin> {Some ''owner'', Some ''independent_approver''}"
proof -
  note defs = classify_actor_ref_def actor_row_def actor_map_lookup Let_def
  note splits = option.splits actor_kind.splits
  show "hy_id (classified f i role) = i" "hy_original_actor_id (classified f i role) = i"
    "hy_kind (classified f i role) = ''actor''" "\<not> hy_promoted_to_owner_or_approver (classified f i role)"
    "hy_disposition (classified f i role) = PersonRetained \<longleftrightarrow> (\<exists>a. actor_at f i = Some a \<and> fa_kind a = ActorPerson)"
    by (auto simp: defs dest: actor_at_id split: splits)
  show "hy_disposition (classified f i role) = Preserved \<longleftrightarrow> (\<exists>a. actor_at f i = Some a \<and> fa_kind a = ActorAgent)
      \<and> (\<exists>d\<in>set (mf_person_delegations f). fd_provable d \<and> fd_status d = ''active'' \<and> fd_agent_id d = i)
      \<and> role \<notin> {Some ''owner'', Some ''independent_approver''}"
    unfolding provable_agent_persons_lookup[symmetric] by (auto simp: defs dest: actor_at_id split: splits)
qed

lemma actor_rows_mset: "mset (actor_rows c seen ids) = image_mset c (mset_set (set ids - seen))"
proof (induction c seen ids rule: actor_rows.induct)
  case (2 classify seen i ids)
  have "i \<notin> seen \<Longrightarrow> set (i # ids) - seen = insert i (set ids - insert i seen)" by auto
  with 2 show ?case by (auto simp: insert_absorb insert_Diff_if)
qed simp

lemma actor_rows_set: "set (actor_rows c seen ids) = c ` (set ids - seen)"
  by (induction c seen ids rule: actor_rows.induct) auto

lemma history_rows_set:
  "set (history_rows f) = (\<lambda>a. classified f (fa_id a) None) ` set (mf_actors f)
     \<union> (\<lambda>s. (classified f (fs_actor_id s) None)\<lparr>hy_kind := ''session'', hy_id := fs_id s\<rparr>) ` set (mf_sessions f)
     \<union> (\<lambda>c. (classified f (fc_actor_id c) None)\<lparr>hy_kind := ''claim'', hy_id := fc_id c\<rparr>) ` set (mf_claims f)
     \<union> (\<lambda>r. (classified f (fv_reviewer_actor_id r) (Some (fv_declared_role r)))\<lparr>hy_kind := ''review'', hy_id := fv_id r\<rparr>)
         ` set (mf_reviews f)"
  by (auto simp: history_rows_def Let_def actor_rows_set)

lemma history_never_promotes: "\<not> list_ex hy_promoted_to_owner_or_approver (history_rows f)"
  unfolding list_ex_iff history_rows_set by (auto simp: classified_facts)

lemma ownership_preserved [simp]: "\<not> list_ex (\<lambda>g. \<not> go_preserved g) (goal_ownership goals)"
  by (auto simp: goal_ownership_def list_ex_iff)

text \<open>A backup holds the whole fixture.\<close>

lemma backup_ok:
  "backup digest f = Inr b \<longleftrightarrow> validate_fixture f = Inr () \<and> fixture_from_backup b = f \<and> mb_format b = BACKUP_FORMAT
     \<and> mb_protocol b = MIGRATION_TAKEOVER_PROTOCOL \<and> mb_snapshot_digest b = snapshot_digest digest f"
  by (cases b; cases f) (auto simp: backup_def fixture_from_backup_def validate_fixture_def)

text \<open>The facts a takeover must find.\<close>

definition drill_refusals :: "migration_fixture \<Rightarrow> string list" where
  "drill_refusals f =
     (if \<exists>w\<in>set (mf_work_items f). fw_incomplete w \<or> fw_status w \<noteq> ''completed'' then [] else [''fixture_lacks_incomplete_work''])
     @ (if \<exists>s\<in>set (mf_sessions f). fs_status s = ''active'' then [] else [''fixture_lacks_active_session''])
     @ (if mf_release_evidence f = [] then [''fixture_lacks_release_evidence''] else [])"

lemma preview_of_backup:
  assumes "backup digest f = Inr b"
  obtains p where "preview b = Inr p" and "mp_history p = history_rows f" and "mp_refusals p = drill_refusals f"
    and "mp_safe_to_migrate p \<longleftrightarrow> drill_refusals f = []" and "mp_backup_digest p = mb_snapshot_digest b"
    and "mp_goal_ownership p = goal_ownership (mf_goals f)"
    and "mp_pending_confirmation_count p = pending_count (history_rows f)"
proof -
  from assms have b: "validate_fixture f = Inr ()" "fixture_from_backup b = f" "mb_format b = BACKUP_FORMAT"
    by (simp_all add: backup_ok)
  have "preview_refusals (history_rows f) (goal_ownership (mf_goals f))
      (map fw_id (filter (\<lambda>w. fw_incomplete w \<or> fw_status w \<noteq> ''completed'') (mf_work_items f)))
      (map fs_id (filter (\<lambda>s. fs_status s = ''active'') (mf_sessions f))) (map fe_id (mf_release_evidence f)) = drill_refusals f"
    using history_never_promotes[of f]
    by (auto simp: preview_refusals_def drill_refusals_def filter_empty_conv)
  with b have "\<exists>p. preview b = Inr p \<and> mp_history p = history_rows f \<and> mp_refusals p = drill_refusals f
      \<and> (mp_safe_to_migrate p \<longleftrightarrow> drill_refusals f = []) \<and> mp_backup_digest p = mb_snapshot_digest b
      \<and> mp_goal_ownership p = goal_ownership (mf_goals f)
      \<and> mp_pending_confirmation_count p = pending_count (history_rows f)"
    by (simp add: preview_def Let_def)
  with that show thesis by blast
qed

lemma migrate_of_preview:
  assumes "mp_safe_to_migrate p" and "mp_backup_digest p = mb_snapshot_digest b" and "mp_history p = history_rows f"
    and "mp_goal_ownership p = goal_ownership goals" and "mb_format b = BACKUP_FORMAT"
  shows "\<exists>m. migrate digest b p = Inr m \<and> mr_migrated m = b \<and> mr_history m = history_rows f
     \<and> mr_result_digest m = digest (result_body b p) \<and> mr_goal_ownership m = goal_ownership goals
     \<and> \<not> mr_identity_forged m \<and> \<not> mr_agent_auto_promoted m
     \<and> restore b m = Inr \<lparr>rr_protocol = MIGRATION_TAKEOVER_PROTOCOL, rr_mode = ''verified_round_trip'',
         rr_restored_digest = mb_snapshot_digest b, rr_matches_backup = True, rr_refusals = []\<rparr>"
  using assms history_never_promotes[of f]
  by (simp add: migrate_def restore_def restore_refusals_def Let_def)

lemma stage_order:
  "bt_insert ''restore'' ''ok'' (bt_insert ''migrate'' ''ok'' (bt_insert ''preview'' ''ok'' (bt_insert ''backup'' ''ok'' [])))
     = [(''backup'', ''ok''), (''migrate'', ''ok''), (''preview'', ''ok''), (''restore'', ''ok'')]"
  by code_simp

text \<open>
  C35: The drill succeeds exactly on a valid fixture that has incomplete work, an active session and
  release evidence; on any other valid fixture the migration is refused and names exactly what is
  missing. A successful drill is a round trip: every stage reports \<open>ok\<close>, the backup and the migrated state
  each turn back into the very fixture the drill started from, goals, work items and release evidence
  included, and the digest computed anew from the migrated state is the backup digest reported. (The flag
  of the restore stage would not show this: it compares the stored digests and neither goals nor work
  items nor evidence.) All goal lines are reported in order, and the number of entries left for
  confirmation is the number of those in the migrated history.
\<close>
theorem drill_is_a_round_trip:
  "(validate_fixture f = Inr () \<and> drill_refusals f = [] \<longleftrightarrow> is_ok (run_drill digest f))
   \<and> (validate_fixture f = Inr () \<and> drill_refusals f \<noteq> [] \<longleftrightarrow> run_drill digest f = Inl (PreviewRefused (drill_refusals f)))
   \<and> (\<forall>r. run_drill digest f = Inr r \<longrightarrow> dr_ok r
        \<and> dr_stages r = [(''backup'', ''ok''), (''migrate'', ''ok''), (''preview'', ''ok''), (''restore'', ''ok'')]
        \<and> dr_goal_lines_preserved r = map (\<lambda>g. line_as_str (fg_line g)) (mf_goals f)
        \<and> (\<exists>b p m. backup digest f = Inr b \<and> preview b = Inr p \<and> migrate digest b p = Inr m
             \<and> fixture_from_backup b = f \<and> fixture_from_backup (mr_migrated m) = f
             \<and> dr_backup_digest r = snapshot_digest digest (fixture_from_backup (mr_migrated m))
             \<and> dr_preview_pending_confirmation r = length (filter (\<lambda>h. hy_disposition h = PendingConfirmation) (mr_history m))))"
proof (cases "backup digest f")
  case (Inl e)
  then have "validate_fixture f = Inl e" by (auto simp: backup_def split: sum.splits)
  then have "\<forall>rs. e \<noteq> PreviewRefused rs" by (auto simp: validate_fixture_def)
  with Inl \<open>validate_fixture f = Inl e\<close> show ?thesis by (auto simp: run_drill_def and_then_def)
next
  case (Inr b)
  then have b: "validate_fixture f = Inr ()" "fixture_from_backup b = f" "mb_format b = BACKUP_FORMAT"
      "mb_snapshot_digest b = snapshot_digest digest f"
    by (simp_all add: backup_ok)
  from preview_of_backup[OF Inr] obtain p where p: "preview b = Inr p" "mp_history p = history_rows f"
      "mp_refusals p = drill_refusals f" "mp_safe_to_migrate p \<longleftrightarrow> drill_refusals f = []"
      "mp_backup_digest p = mb_snapshot_digest b" "mp_goal_ownership p = goal_ownership (mf_goals f)"
      "mp_pending_confirmation_count p = pending_count (history_rows f)" by blast
  show ?thesis
  proof (cases "drill_refusals f = []")
    case False
    with p have "migrate digest b p = Inl (PreviewRefused (drill_refusals f))" by (simp add: migrate_def)
    with False Inr p(1) b(1) show ?thesis by (simp add: run_drill_def and_then_def Let_def)
  next
    case True
    with migrate_of_preview[OF _ p(5,2,6) b(3), of digest] p(4)
    obtain m where m: "migrate digest b p = Inr m" "mr_migrated m = b" "mr_history m = history_rows f" "mr_goal_ownership m = goal_ownership (mf_goals f)"
        "\<not> mr_identity_forged m" "\<not> mr_agent_auto_promoted m"
      and "restore b m = Inr \<lparr>rr_protocol = MIGRATION_TAKEOVER_PROTOCOL, rr_mode = ''verified_round_trip'',
         rr_restored_digest = mb_snapshot_digest b, rr_matches_backup = True, rr_refusals = []\<rparr>" by blast
    with True Inr p b show ?thesis
      by (simp add: run_drill_def and_then_def Let_def stage_order bt_values_def goal_ownership_def comp_def pending_count_def)
  qed
qed

definition ex_fixture :: migration_fixture where
  "ex_fixture = \<lparr>mf_schema = FIXTURE_SCHEMA, mf_fixture_id = ''f'', mf_project_id = ''p'', mf_tenant_id = ''t'',
     mf_goals = map (\<lambda>(i, line). \<lparr>fg_id = i, fg_title = i, fg_line = line, fg_owner_person_id = Some ''ann'', fg_status = ''open''\<rparr>)
       [(''1'', LineTeam), (''2'', LineEvo), (''3'', LineDec), (''4'', LineAuto)],
     mf_actors = [\<lparr>fa_id = ''ann'', fa_kind = ActorPerson, fa_display_name = ''Ann''\<rparr>,
       \<lparr>fa_id = ''bot'', fa_kind = ActorAgent, fa_display_name = ''Bot''\<rparr>],
     mf_person_delegations = [\<lparr>fd_id = ''d'', fd_person_id = ''ann'', fd_agent_id = ''bot'', fd_status = ''active'', fd_provable = True\<rparr>],
     mf_sessions = [\<lparr>fs_id = ''s'', fs_actor_id = ''bot'', fs_work_item_id = ''w'', fs_status = ''active''\<rparr>],
     mf_claims = [\<lparr>fc_id = ''c'', fc_session_id = ''s'', fc_actor_id = ''bot'', fc_work_item_id = ''w'', fc_status = ''held''\<rparr>],
     mf_reviews = [\<lparr>fv_id = ''r'', fv_work_item_id = ''w'', fv_reviewer_actor_id = ''bot'', fv_declared_role = ''owner'', fv_status = ''done''\<rparr>],
     mf_work_items = [\<lparr>fw_id = ''w'', fw_title = ''w'', fw_status = ''open'', fw_goal_id = None, fw_incomplete = True\<rparr>],
     mf_release_evidence = [\<lparr>fe_id = ''e'', fe_work_item_id = ''w'', fe_release_tag = ''v1'', fe_evidence_digest = ''x''\<rparr>]\<rparr>"

theorem drill_is_a_round_trip_witness:
  "\<exists>r b p m. run_drill (\<lambda>_. ''d'') ex_fixture = Inr r \<and> dr_ok r \<and> migrate (\<lambda>_. ''d'') b p = Inr m
     \<and> fixture_from_backup (mr_migrated m) = ex_fixture"
proof -
  have "validate_fixture ex_fixture = Inr () \<and> drill_refusals ex_fixture = []" by code_simp
  then obtain r where r: "run_drill (\<lambda>_. ''d'') ex_fixture = Inr r"
    using drill_is_a_round_trip[of ex_fixture "\<lambda>_. ''d''"] by (auto simp: is_ok_iff)
  from drill_is_a_round_trip[of ex_fixture "\<lambda>_. ''d''", THEN conjunct2, THEN conjunct2, rule_format, OF r] r show ?thesis
    by (elim conjE exE) (intro exI conjI; assumption)
qed

lemma history_rows_mset:
  "mset (map (\<lambda>h. (hy_kind h, hy_id h, hy_original_actor_id h)) (history_rows f))
     = image_mset (\<lambda>i. (''actor'', i, i)) (mset_set (fa_id ` set (mf_actors f)))
       + mset (map (\<lambda>s. (''session'', fs_id s, fs_actor_id s)) (mf_sessions f))
       + mset (map (\<lambda>c. (''claim'', fc_id c, fc_actor_id c)) (mf_claims f))
       + mset (map (\<lambda>r. (''review'', fv_id r, fv_reviewer_actor_id r)) (mf_reviews f))"
  by (simp add: history_rows_def Let_def actor_rows_mset classified_facts image_mset.compositionality comp_def)

text \<open>
  C36: A takeover promotes nobody and keeps every identity. After backup, preview and migration of a
  fixture, the classified history has one entry for each actor identifier, however often it is recorded,
  and one for each session, claim and review, under its own identifier and the actor recorded for it, and
  nothing else. None is promoted. An entry is retained as
  a person only if the actor is recorded as a person; it is preserved for an agent only with a provable
  active delegation; a review by anyone not recorded as a person that claims the role of owner or
  independent approver always awaits confirmation.
\<close>
theorem takeover_never_promotes:
  assumes "backup digest f = Inr b" and "preview b = Inr p" and "migrate digest b p = Inr m"
  shows "fixture_from_backup (mr_migrated m) = f
     \<and> mset (map (\<lambda>h. (hy_kind h, hy_id h, hy_original_actor_id h)) (mr_history m))
         = image_mset (\<lambda>i. (''actor'', i, i)) (mset_set (fa_id ` set (mf_actors f)))
           + mset (map (\<lambda>s. (''session'', fs_id s, fs_actor_id s)) (mf_sessions f))
           + mset (map (\<lambda>c. (''claim'', fc_id c, fc_actor_id c)) (mf_claims f))
           + mset (map (\<lambda>r. (''review'', fv_id r, fv_reviewer_actor_id r)) (mf_reviews f))
     \<and> (\<forall>h\<in>set (mr_history m). \<not> hy_promoted_to_owner_or_approver h
          \<and> (hy_disposition h = PersonRetained \<longrightarrow>
               (\<exists>a. actor_at f (hy_original_actor_id h) = Some a \<and> fa_kind a = ActorPerson))
          \<and> (hy_disposition h = Preserved \<longrightarrow> (\<exists>d\<in>set (mf_person_delegations f). fd_provable d
               \<and> fd_status d = ''active'' \<and> fd_agent_id d = hy_original_actor_id h)))
     \<and> (\<forall>r\<in>set (mf_reviews f). fv_declared_role r \<in> {''owner'', ''independent_approver''}
          \<and> \<not> (\<exists>a. actor_at f (fv_reviewer_actor_id r) = Some a \<and> fa_kind a = ActorPerson) \<longrightarrow>
          (\<exists>h\<in>set (mr_history m). hy_kind h = ''review'' \<and> hy_id h = fv_id r \<and> hy_disposition h = PendingConfirmation))"
proof -
  have "mr_migrated m = b" "mr_history m = mp_history p"
    using assms(3) by (auto simp: migrate_def)
  moreover have "mp_history p = history_rows f"
    using preview_of_backup[OF assms(1)] assms(2) by (metis sum.inject(2))
  moreover have "fixture_from_backup b = f" using assms(1) by (simp add: backup_ok)
  ultimately have m: "fixture_from_backup (mr_migrated m) = f" "mr_history m = history_rows f" by simp_all
  have pending: "hy_disposition (classified f i (Some role)) = PendingConfirmation"
    if "role \<in> {''owner'', ''independent_approver''}" and "\<not> (\<exists>a. actor_at f i = Some a \<and> fa_kind a = ActorPerson)" for i role
    using that classified_facts(5,6)[where f = f and i = i and role = "Some role"] by (cases "hy_disposition (classified f i (Some role))") auto
  show ?thesis
    unfolding m(2) history_rows_mset history_rows_set
  proof (intro conjI ballI impI refl)
    show "fixture_from_backup (mr_migrated m) = f" by (rule m(1))
  next
    fix r assume r: "r \<in> set (mf_reviews f)" "fv_declared_role r \<in> {''owner'', ''independent_approver''}
      \<and> \<not> (\<exists>a. actor_at f (fv_reviewer_actor_id r) = Some a \<and> fa_kind a = ActorPerson)"
    let ?h = "(classified f (fv_reviewer_actor_id r) (Some (fv_declared_role r)))\<lparr>hy_kind := ''review'', hy_id := fv_id r\<rparr>"
    show "\<exists>h\<in>(\<lambda>a. classified f (fa_id a) None) ` set (mf_actors f)
        \<union> (\<lambda>s. (classified f (fs_actor_id s) None)\<lparr>hy_kind := ''session'', hy_id := fs_id s\<rparr>) ` set (mf_sessions f)
        \<union> (\<lambda>c. (classified f (fc_actor_id c) None)\<lparr>hy_kind := ''claim'', hy_id := fc_id c\<rparr>) ` set (mf_claims f)
        \<union> (\<lambda>r. (classified f (fv_reviewer_actor_id r) (Some (fv_declared_role r)))\<lparr>hy_kind := ''review'', hy_id := fv_id r\<rparr>)
            ` set (mf_reviews f). hy_kind h = ''review'' \<and> hy_id h = fv_id r \<and> hy_disposition h = PendingConfirmation"
      using r pending by (intro bexI[of _ ?h]) auto
  qed (auto simp: classified_facts image_Un image_image)
qed

theorem takeover_never_promotes_witness:
  "\<exists>b p m. backup (\<lambda>_. ''d'') ex_fixture = Inr b \<and> preview b = Inr p \<and> migrate (\<lambda>_. ''d'') b p = Inr m
     \<and> (\<exists>h\<in>set (mr_history m). hy_kind h = ''review'' \<and> hy_id h = ''r'' \<and> hy_disposition h = PendingConfirmation)"
proof -
  have "is_ok (and_then (backup (\<lambda>_. ''d'') ex_fixture) (\<lambda>b. and_then (preview b) (migrate (\<lambda>_. ''d'') b)))" by code_simp
  then obtain b p m where run: "backup (\<lambda>_. ''d'') ex_fixture = Inr b" "preview b = Inr p" "migrate (\<lambda>_. ''d'') b p = Inr m"
    by (auto simp: is_ok_iff)
  have "actor_at ex_fixture ''bot'' = Some \<lparr>fa_id = ''bot'', fa_kind = ActorAgent, fa_display_name = ''Bot''\<rparr>" by code_simp
  with takeover_never_promotes[OF run] run show ?thesis by (auto simp: ex_fixture_def)
qed

text \<open>
  \<open>restore\<close> compares the stored digest and the identity rows; goals, work items and release evidence of the
  migrated state are not compared and the digest is not computed again, so they may change unnoticed.
\<close>

lemma restore_ignores_facts:
  "restore b (m\<lparr>mr_migrated := (mr_migrated m)\<lparr>mb_goals := goals, mb_work_items := items, mb_release_evidence := evidence\<rparr>\<rparr>)
     = restore b m"
  by (simp add: restore_def restore_refusals_def)

text \<open>The takeover of a project is ready exactly after a successful drill and with nothing missing.\<close>

lemma project_takeover_ready:
  "tk_ok (project_takeover_preview i) \<longleftrightarrow> pt_fixture_drill_ok i \<and> {LineTeam, LineEvo, LineDec, LineAuto} \<subseteq> fg_line ` set (pt_goals i)
     \<and> \<not> list_ex hy_promoted_to_owner_or_approver (pt_history i) \<and> pt_incomplete_work_item_ids i \<noteq> []
     \<and> pt_active_session_ids i \<noteq> [] \<and> pt_release_evidence_ids i \<noteq> []"
  "\<not> tk_applied (project_takeover_preview i)"
  by (auto simp: project_takeover_preview_def takeover_refusals_def Let_def)

end
