(* ===== verification/Selective_Invalidation.thy ===== *)
theory Selective_Invalidation
  imports Delivery_Adoption "HOL-Library.List_Lexorder" "HOL-Library.Char_ord"
begin

text \<open>
  \<^verbatim>\<open>crates/awr-runtime/src/selective_invalidation.rs\<close>: which consumers of a delivery must be evaluated again
  after a change of its provider, the check at an execution boundary, and the scoped planning changes
  that block the affected works until they are decided. A \<^verbatim>\<open>BTreeSet\<close> that is collected into a vector is
  the ascending list of its elements.
\<close>

section \<open>Data\<close>

datatype (plugins only: code size) provider_change_kind =
    PcNewVersionOrProgress | PcCurrentSelectionChanged | PcDeliveryRevoked | PcPinnedArtifactUnavailable

record adopted_consumer_edge =
  cdg_dependency_id :: string
  cdg_consumer_work_id :: string
  cdg_provider_work_id :: string
  cdg_policy :: delivery_version_policy
  cdg_credential_status :: adoption_credential_status
  cdg_assessment_status :: delivery_status

record selective_invalidation_plan =
  ip_provider_work_id :: string
  ip_change :: provider_change_kind
  ip_reevaluate :: "string list"
  ip_leave_valid :: "string list"
  ip_unaffected_work_ids :: "string list"

datatype (plugins only: code size) execution_boundary = BdPrepare | BdDispatch | BdComplete

datatype (plugins only: code size) boundary_decision = BdAllow | BdBlockNewEffects | BdKeepEffectsAssignRecovery

record boundary_snapshot =
  sn_boundary :: execution_boundary
  sn_work_id :: string
  sn_dependencies_satisfied :: bool
  sn_revoke_or_invalidation_observed :: bool
  sn_has_real_effects :: bool
  sn_unrelated_work_ids :: "string list"

record boundary_revalidation =
  rv_decision :: boundary_decision
  rv_recovery_duty :: bool
  rv_erase_effects :: bool
  rv_unrelated_may_continue :: bool
  rv_reason :: string

datatype (plugins only: code size) planning_change_status =
    PlRecorded | PlAffectedBlocked | PlConfirmed | PlRejected

record cancel_split_relation =
  csr_kind :: string
  csr_from_work_id :: string
  csr_to_work_id :: string

record scoped_planning_change =
  sc_change_id :: string
  sc_project_id :: string
  sc_discovered_by :: string
  sc_old_graph_version :: string
  sc_new_graph_version :: string
  sc_old_acceptance_contract :: string
  sc_new_acceptance_contract :: string
  sc_affected_work_ids :: "string list"
  sc_cancel_split_relations :: "cancel_split_relation list"
  sc_continue_conditions :: "string list"
  sc_status :: planning_change_status
  sc_confirmed_by :: "string option"

record discover_dependency_request =
  dq_change_id :: string
  dq_project_id :: string
  dq_discovered_by :: string
  dq_old_graph_version :: string
  dq_new_graph_version :: string
  dq_old_acceptance_contract :: string
  dq_new_acceptance_contract :: string
  dq_affected_work_ids :: "string list"
  dq_cancel_split_relations :: "cancel_split_relation list"
  dq_continue_conditions :: "string list"
  dq_all_project_work_ids :: "string list"

record planning_change_application =
  pca_change :: scoped_planning_change
  pca_blocked_work_ids :: "string list"
  pca_unblocked_unrelated_work_ids :: "string list"

fun provider_change_str :: "provider_change_kind \<Rightarrow> string" where
  "provider_change_str PcNewVersionOrProgress = ''new_version_or_progress''"
| "provider_change_str PcCurrentSelectionChanged = ''current_selection_changed''"
| "provider_change_str PcDeliveryRevoked = ''delivery_revoked''"
| "provider_change_str PcPinnedArtifactUnavailable = ''pinned_artifact_unavailable''"

fun boundary_str :: "execution_boundary \<Rightarrow> string" where
  "boundary_str BdPrepare = ''prepare''"
| "boundary_str BdDispatch = ''dispatch''"
| "boundary_str BdComplete = ''complete''"

fun planning_status_str :: "planning_change_status \<Rightarrow> string" where
  "planning_status_str PlRecorded = ''recorded''"
| "planning_status_str PlAffectedBlocked = ''affected_blocked''"
| "planning_status_str PlConfirmed = ''confirmed''"
| "planning_status_str PlRejected = ''rejected''"

definition planning_change_fingerprint :: "scoped_planning_change \<Rightarrow> string" where
  "planning_change_fingerprint c = sc_change_id c @ '':'' @ sc_old_graph_version c @ '':'' @ sc_new_graph_version c
     @ '':'' @ planning_status_str (sc_status c)"

section \<open>Downstream consumers\<close>

fun change_needs :: "delivery_version_policy \<Rightarrow> provider_change_kind \<Rightarrow> bool" where
  "change_needs FixedDelivery PcNewVersionOrProgress = False"
| "change_needs FixedDelivery PcCurrentSelectionChanged = False"
| "change_needs FixedDelivery PcDeliveryRevoked = True"
| "change_needs FixedDelivery PcPinnedArtifactUnavailable = True"
| "change_needs CurrentContract _ = True"

text \<open>One edge; the sets are those to evaluate again, those left valid and all consumers.\<close>

definition edge_visit ::
  "string \<Rightarrow> provider_change_kind \<Rightarrow> adopted_consumer_edge \<Rightarrow> string set \<times> string set \<times> string set \<Rightarrow>
     string set \<times> string set \<times> string set" where
  "edge_visit provider change edge = (\<lambda>(reevaluate, leave_valid, consumers).
     if cdg_provider_work_id edge \<noteq> provider then (reevaluate, leave_valid, consumers)
     else
       let w = cdg_consumer_work_id edge; consumers = insert w consumers in
       if cdg_credential_status edge = AcRevoked \<or> cdg_assessment_status edge = DsRevoked
       then (insert w reevaluate, leave_valid, consumers)
       else if change_needs (cdg_policy edge) change then (insert w reevaluate, leave_valid, consumers)
       else (reevaluate, insert w leave_valid, consumers))"

definition select_downstream_reevaluation ::
  "string \<Rightarrow> provider_change_kind \<Rightarrow> adopted_consumer_edge list \<Rightarrow> string list \<Rightarrow> selective_invalidation_plan" where
  "select_downstream_reevaluation provider change consumers all_works =
     (let (reevaluate, leave_valid, consumer_ids) = fold (edge_visit provider change) consumers ({}, {}, {}) in
      \<lparr>ip_provider_work_id = provider, ip_change = change,
       ip_reevaluate = sorted_list_of_set reevaluate,
       ip_leave_valid = sorted_list_of_set leave_valid,
       ip_unaffected_work_ids =
         sorted_list_of_set (set (filter (\<lambda>w. w \<noteq> provider \<and> w \<notin> consumer_ids) all_works))\<rparr>)"

definition consumers_by_provider ::
  "adopted_consumer_edge list \<Rightarrow> string \<rightharpoonup> adopted_consumer_edge list" where
  "consumers_by_provider edges =
     foldl (\<lambda>m e. m(cdg_provider_work_id e \<mapsto>
        (case m (cdg_provider_work_id e) of Some es \<Rightarrow> es | None \<Rightarrow> []) @ [e])) Map.empty edges"

section \<open>Execution boundaries\<close>

fun blocked_reason :: "execution_boundary \<Rightarrow> string" where
  "blocked_reason BdPrepare = ''prepare revalidation blocked revoke/stale race''"
| "blocked_reason BdDispatch = ''dispatch revalidation blocked revoke/stale race''"
| "blocked_reason BdComplete = ''complete revalidation blocked revoke/stale race''"

definition revalidate_execution_boundary :: "boundary_snapshot \<Rightarrow> boundary_revalidation" where
  "revalidate_execution_boundary s =
     (if sn_dependencies_satisfied s \<and> \<not> sn_revoke_or_invalidation_observed s then
        \<lparr>rv_decision = BdAllow, rv_recovery_duty = False, rv_erase_effects = False,
         rv_unrelated_may_continue = True, rv_reason = ''dependencies satisfied at boundary''\<rparr>
      else if sn_has_real_effects s then
        \<lparr>rv_decision = BdKeepEffectsAssignRecovery, rv_recovery_duty = True, rv_erase_effects = False,
         rv_unrelated_may_continue = True,
         rv_reason = ''mid-execution invalidation retains effects and recovery duty''\<rparr>
      else
        \<lparr>rv_decision = BdBlockNewEffects, rv_recovery_duty = False, rv_erase_effects = False,
         rv_unrelated_may_continue = True, rv_reason = blocked_reason (sn_boundary s)\<rparr>)"

section \<open>Planning changes\<close>

definition bounded_nonempty :: "string \<Rightarrow> bool" where
  "bounded_nonempty s \<longleftrightarrow> s \<noteq> [] \<and> length s \<le> 512 \<and> \<not> has_control s"

definition record_discovered_dependency_change ::
  "discover_dependency_request \<Rightarrow> (string, planning_change_application) result" where
  "record_discovered_dependency_change req =
     then_ok
       (run_checks
         [refuse (\<not> list_all bounded_nonempty [dq_change_id req, dq_project_id req, dq_discovered_by req,
              dq_old_graph_version req, dq_new_graph_version req, dq_old_acceptance_contract req,
              dq_new_acceptance_contract req]) ''bounded planning-change identity fields required'',
          refuse (dq_old_graph_version req = dq_new_graph_version req
              \<and> dq_old_acceptance_contract req = dq_new_acceptance_contract req \<and> dq_affected_work_ids req = [])
            ''planning change must alter graph, contract, or affected set'',
          refuse (dq_affected_work_ids req = []) ''discovered dependency must name an affected work set''])
       (let affected = sorted_list_of_set (set (dq_affected_work_ids req)) in
        Inr \<lparr>pca_change =
            \<lparr>sc_change_id = dq_change_id req, sc_project_id = dq_project_id req, sc_discovered_by = dq_discovered_by req,
             sc_old_graph_version = dq_old_graph_version req, sc_new_graph_version = dq_new_graph_version req,
             sc_old_acceptance_contract = dq_old_acceptance_contract req,
             sc_new_acceptance_contract = dq_new_acceptance_contract req,
             sc_affected_work_ids = affected, sc_cancel_split_relations = dq_cancel_split_relations req,
             sc_continue_conditions = dq_continue_conditions req, sc_status = PlAffectedBlocked, sc_confirmed_by = None\<rparr>,
          pca_blocked_work_ids = affected,
          pca_unblocked_unrelated_work_ids =
            sorted_list_of_set (set (filter (\<lambda>w. w \<notin> set affected) (dq_all_project_work_ids req)))\<rparr>)"

definition confirm_planning_change ::
  "scoped_planning_change \<Rightarrow> string \<Rightarrow> (string, scoped_planning_change) result" where
  "confirm_planning_change change confirmer =
     then_ok
       (run_checks
         [refuse (\<not> bounded_nonempty confirmer) ''authorized confirmer required'',
          refuse (sc_status change \<noteq> PlAffectedBlocked) ''only blocked planning changes can be confirmed''])
       (Inr (change\<lparr>sc_status := PlConfirmed, sc_confirmed_by := Some confirmer\<rparr>))"

definition reject_planning_change ::
  "scoped_planning_change \<Rightarrow> string \<Rightarrow> (string, scoped_planning_change) result" where
  "reject_planning_change change rejector =
     then_ok
       (run_checks
         [refuse (\<not> bounded_nonempty rejector) ''authorized rejector required'',
          refuse (sc_status change \<noteq> PlAffectedBlocked) ''only blocked planning changes can be rejected''])
       (Inr (change\<lparr>sc_status := PlRejected, sc_confirmed_by := Some rejector\<rparr>))"

fun action_blocked_by_planning_changes :: "string \<Rightarrow> scoped_planning_change list \<Rightarrow> string option" where
  "action_blocked_by_planning_changes work_id [] = None"
| "action_blocked_by_planning_changes work_id (c # open_changes) =
     (if sc_status c = PlAffectedBlocked \<and> list_ex (\<lambda>w. w = work_id) (sc_affected_work_ids c)
      then Some (sc_change_id c)
      else action_blocked_by_planning_changes work_id open_changes)"

section \<open>Laws\<close>

definition edge_of :: "string \<Rightarrow> adopted_consumer_edge \<Rightarrow> bool" where
  "edge_of provider e \<longleftrightarrow> cdg_provider_work_id e = provider"

definition edge_lapsed :: "adopted_consumer_edge \<Rightarrow> bool" where
  "edge_lapsed e \<longleftrightarrow> cdg_credential_status e = AcRevoked \<or> cdg_assessment_status e = DsRevoked"

lemma change_needs_iff:
  "change_needs policy change \<longleftrightarrow> policy = CurrentContract \<or> change \<in> {PcDeliveryRevoked, PcPinnedArtifactUnavailable}"
  by (cases policy; cases change) simp_all

lemma edges_fold:
  "fold (edge_visit provider change) es (R, L, C) =
     (R \<union> cdg_consumer_work_id ` {e \<in> set es. edge_of provider e \<and> (edge_lapsed e \<or> change_needs (cdg_policy e) change)},
      L \<union> cdg_consumer_work_id ` {e \<in> set es. edge_of provider e \<and> \<not> edge_lapsed e \<and> \<not> change_needs (cdg_policy e) change},
      C \<union> cdg_consumer_work_id ` {e \<in> set es. edge_of provider e})"
proof (induction es arbitrary: R L C)
  case Nil
  then show ?case by simp
next
  case (Cons e es)
  have split: "{x \<in> set (e # es). P x} = (if P e then insert e {x \<in> set es. P x} else {x \<in> set es. P x})" for P by auto
  show ?case unfolding fold_simps comp_apply edge_visit_def split
    by (simp add: Cons.IH[unfolded edge_visit_def] edge_of_def edge_lapsed_def Let_def)
qed

lemma plan_sets:
  fixes provider change es all_works
  defines "plan \<equiv> select_downstream_reevaluation provider change es all_works"
  shows "set (ip_reevaluate plan) = cdg_consumer_work_id ` {e \<in> set es. edge_of provider e \<and> (edge_lapsed e \<or> change_needs (cdg_policy e) change)}"
    and "set (ip_leave_valid plan) = cdg_consumer_work_id ` {e \<in> set es. edge_of provider e \<and> \<not> edge_lapsed e \<and> \<not> change_needs (cdg_policy e) change}"
    and "set (ip_unaffected_work_ids plan) = {w \<in> set all_works. w \<noteq> provider \<and> w \<notin> cdg_consumer_work_id ` {e \<in> set es. edge_of provider e}}"
  unfolding plan_def select_downstream_reevaluation_def edges_fold by simp_all

text \<open>
  Invalidation is selective. A consumer is evaluated again exactly if one of its adopted edges to the
  changed provider is revoked, follows the current contract, or the change revokes the delivery or its
  artifact; a fixed delivery is left valid on mere progress or a new selection. Works that are neither the
  provider nor its consumers are unaffected, so every work of the project other than the provider is in
  one of the three lists, and the unaffected ones are in no other.
\<close>
theorem reevaluation_is_selective:
  fixes provider change es all_works
  defines "plan \<equiv> select_downstream_reevaluation provider change es all_works"
  shows "set (ip_reevaluate plan) = {cdg_consumer_work_id e | e. e \<in> set es \<and> cdg_provider_work_id e = provider
       \<and> (cdg_credential_status e = AcRevoked \<or> cdg_assessment_status e = DsRevoked \<or> cdg_policy e = CurrentContract
          \<or> change = PcDeliveryRevoked \<or> change = PcPinnedArtifactUnavailable)}
   \<and> set (ip_leave_valid plan) = {cdg_consumer_work_id e | e. e \<in> set es \<and> cdg_provider_work_id e = provider
       \<and> cdg_credential_status e \<noteq> AcRevoked \<and> cdg_assessment_status e \<noteq> DsRevoked \<and> cdg_policy e = FixedDelivery
       \<and> change \<in> {PcNewVersionOrProgress, PcCurrentSelectionChanged}}
   \<and> set all_works - {provider} \<subseteq> set (ip_reevaluate plan) \<union> set (ip_leave_valid plan) \<union> set (ip_unaffected_work_ids plan)
   \<and> set (ip_unaffected_work_ids plan) \<inter> (set (ip_reevaluate plan) \<union> set (ip_leave_valid plan)) = {}"
proof -
  have fixed: "policy \<noteq> CurrentContract \<longleftrightarrow> policy = FixedDelivery" for policy by (cases policy) simp_all
  have kinds: "change \<notin> {PcDeliveryRevoked, PcPinnedArtifactUnavailable} \<longleftrightarrow> change \<in> {PcNewVersionOrProgress, PcCurrentSelectionChanged}"
    by (cases change) simp_all
  show ?thesis
  proof (intro conjI)
    show "set (ip_reevaluate plan) = {cdg_consumer_work_id e | e. e \<in> set es \<and> cdg_provider_work_id e = provider
       \<and> (cdg_credential_status e = AcRevoked \<or> cdg_assessment_status e = DsRevoked \<or> cdg_policy e = CurrentContract
          \<or> change = PcDeliveryRevoked \<or> change = PcPinnedArtifactUnavailable)}"
      unfolding plan_def plan_sets change_needs_iff edge_of_def edge_lapsed_def by auto
    show "set (ip_leave_valid plan) = {cdg_consumer_work_id e | e. e \<in> set es \<and> cdg_provider_work_id e = provider
       \<and> cdg_credential_status e \<noteq> AcRevoked \<and> cdg_assessment_status e \<noteq> DsRevoked \<and> cdg_policy e = FixedDelivery
       \<and> change \<in> {PcNewVersionOrProgress, PcCurrentSelectionChanged}}"
      unfolding plan_def plan_sets change_needs_iff edge_of_def edge_lapsed_def kinds[symmetric] fixed[symmetric] by auto
    show "set all_works - {provider} \<subseteq> set (ip_reevaluate plan) \<union> set (ip_leave_valid plan) \<union> set (ip_unaffected_work_ids plan)"
      "set (ip_unaffected_work_ids plan) \<inter> (set (ip_reevaluate plan) \<union> set (ip_leave_valid plan)) = {}"
      unfolding plan_def plan_sets by auto
  qed
qed

text \<open>A consumer with edges of both policies is in the two lists at once.\<close>

definition ex_edge :: "string \<Rightarrow> delivery_version_policy \<Rightarrow> adopted_consumer_edge" where
  "ex_edge i policy = \<lparr>cdg_dependency_id = i, cdg_consumer_work_id = ''sdk'', cdg_provider_work_id = ''api'', cdg_policy = policy,
     cdg_credential_status = AcActive, cdg_assessment_status = DsSatisfied\<rparr>"

lemma lists_overlap:
  "select_downstream_reevaluation ''api'' PcNewVersionOrProgress [ex_edge ''1'' FixedDelivery, ex_edge ''2'' CurrentContract] [''sdk'']
     = \<lparr>ip_provider_work_id = ''api'', ip_change = PcNewVersionOrProgress, ip_reevaluate = [''sdk''], ip_leave_valid = [''sdk''],
        ip_unaffected_work_ids = []\<rparr>"
  by code_simp

section \<open>The life of a planning change\<close>

inductive change_step :: "scoped_planning_change list \<Rightarrow> scoped_planning_change list \<Rightarrow> bool" where
  recorded: "record_discovered_dependency_change req = Inr app \<Longrightarrow> change_step cs (cs @ [pca_change app])"
| confirmed: "i < length cs \<Longrightarrow> confirm_planning_change (cs ! i) who = Inr c \<Longrightarrow> change_step cs (cs[i := c])"
| rejected: "i < length cs \<Longrightarrow> reject_planning_change (cs ! i) who = Inr c \<Longrightarrow> change_step cs (cs[i := c])"

inductive_cases change_stepE: "change_step cs cs'"

text \<open>What of a change never moves, and the ways its status may move.\<close>

definition change_wf :: "scoped_planning_change \<Rightarrow> bool" where
  "change_wf c \<longleftrightarrow> sc_affected_work_ids c \<noteq> [] \<and> sorted (sc_affected_work_ids c) \<and> distinct (sc_affected_work_ids c)
     \<and> (if sc_status c = PlAffectedBlocked then sc_confirmed_by c = None
        else sc_status c \<in> {PlConfirmed, PlRejected} \<and> (\<exists>who. sc_confirmed_by c = Some who \<and> bounded_nonempty who))"

definition change_evolves :: "scoped_planning_change \<Rightarrow> scoped_planning_change \<Rightarrow> bool" where
  "change_evolves c c' \<longleftrightarrow> c' = c \<or> sc_status c = PlAffectedBlocked
     \<and> (\<exists>status who. status \<in> {PlConfirmed, PlRejected} \<and> bounded_nonempty who
          \<and> c' = c\<lparr>sc_status := status, sc_confirmed_by := Some who\<rparr>)"

lemma change_evolves_decided: "change_evolves a b \<Longrightarrow> b \<noteq> a \<Longrightarrow> sc_status b \<noteq> PlAffectedBlocked"
  unfolding change_evolves_def by force

lemma change_evolves_stays: "change_evolves b c \<Longrightarrow> sc_status b \<noteq> PlAffectedBlocked \<Longrightarrow> c = b"
  unfolding change_evolves_def by blast

lemma change_evolves_trans: "change_evolves a b \<Longrightarrow> change_evolves b c \<Longrightarrow> change_evolves a c"
  using change_evolves_decided change_evolves_stays by metis

lemma recorded_wf: "record_discovered_dependency_change req = Inr app \<Longrightarrow> change_wf (pca_change app)"
  by (auto simp: record_discovered_dependency_change_def change_wf_def Let_def)

lemma recorded_fields:
  assumes "record_discovered_dependency_change req = Inr app"
  shows "set (sc_affected_work_ids (pca_change app)) = set (dq_affected_work_ids req)"
    and "sc_status (pca_change app) = PlAffectedBlocked" and "sc_change_id (pca_change app) = dq_change_id req"
  using assms by (auto simp: record_discovered_dependency_change_def Let_def)

lemma recorded_blocked:
  "record_discovered_dependency_change req = Inr app \<Longrightarrow> set (pca_blocked_work_ids app) = set (dq_affected_work_ids req)"
  by (auto simp: record_discovered_dependency_change_def Let_def)

lemma decided_evolves:
  "confirm_planning_change c who = Inr c' \<Longrightarrow> change_evolves c c'"
  "reject_planning_change c who = Inr c' \<Longrightarrow> change_evolves c c'"
  by (auto simp: confirm_planning_change_def reject_planning_change_def change_evolves_def)

lemma evolves_wf: "change_evolves c c' \<Longrightarrow> change_wf c \<Longrightarrow> change_wf c'"
  by (auto simp: change_evolves_def change_wf_def)

lemma change_step_evolves:
  "change_step cs cs' \<Longrightarrow> length cs \<le> length cs' \<and> (\<forall>i<length cs. change_evolves (cs ! i) (cs' ! i))
     \<and> (\<forall>c\<in>set (drop (length cs) cs'). change_wf c)"
  by (erule change_stepE) (auto simp: nth_append nth_list_update change_evolves_def[of c c for c] recorded_wf dest: decided_evolves)

lemma changes_evolve:
  "change_step\<^sup>*\<^sup>* cs cs' \<Longrightarrow> length cs \<le> length cs' \<and> (\<forall>i<length cs. change_evolves (cs ! i) (cs' ! i))
     \<and> ((\<forall>c\<in>set cs. change_wf c) \<longrightarrow> (\<forall>c\<in>set cs'. change_wf c))"
proof (induction rule: rtranclp_induct)
  case base
  then show ?case by (simp add: change_evolves_def)
next
  case (step ds es)
  note s = change_step_evolves[OF step.hyps(2)]
  have "change_wf c" if "\<forall>c\<in>set ds. change_wf c" "c \<in> set es" for c
  proof -
    from that(2) obtain i where i: "i < length es" "c = es ! i" by (auto simp: in_set_conv_nth)
    show ?thesis
    proof (cases "i < length ds")
      case True
      with s i that(1) show ?thesis by (auto intro: evolves_wf)
    next
      case False
      with i have "c \<in> set (drop (length ds) es)" by (auto simp: in_set_conv_nth intro!: exI[of _ "i - length ds"])
      with s show ?thesis by blast
    qed
  qed
  then have wf: "(\<forall>c\<in>set cs. change_wf c) \<longrightarrow> (\<forall>c\<in>set es. change_wf c)" using step.IH by blast
  have "length cs \<le> length es" using step.IH s by linarith
  moreover have "change_evolves (cs ! i) (es ! i)" if "i < length cs" for i
  proof -
    from that step.IH have "change_evolves (cs ! i) (ds ! i)" "i < length ds" by auto
    with s show ?thesis using change_evolves_trans by blast
  qed
  ultimately show ?case using wf by blast
qed

lemma action_blocked_None:
  "action_blocked_by_planning_changes w cs = None \<longleftrightarrow>
     (\<forall>c\<in>set cs. sc_status c = PlAffectedBlocked \<longrightarrow> w \<notin> set (sc_affected_work_ids c))"
  by (induction w cs rule: action_blocked_by_planning_changes.induct) (auto simp: list_ex_iff)

lemma action_blocked_Some:
  "action_blocked_by_planning_changes w cs = Some i \<Longrightarrow>
     \<exists>c\<in>set cs. sc_change_id c = i \<and> sc_status c = PlAffectedBlocked \<and> w \<in> set (sc_affected_work_ids c)"
  by (induction w cs rule: action_blocked_by_planning_changes.induct) (auto simp: list_ex_iff split: if_splits)

text \<open>
  C14: A planning change blocks its works until it is decided, and no longer. In every history of
  recording, confirming and rejecting, each change names a non-empty set of works and is either open and
  undecided or decided by a named person; a work is refused exactly while an open change names it, and
  the refusal names such a change. Later steps never alter what a change says, and a decided change is
  never touched again.
\<close>
theorem planning_change_lifecycle:
  assumes "change_step\<^sup>*\<^sup>* [] cs" and "change_step\<^sup>*\<^sup>* cs cs'"
  shows "(\<forall>c\<in>set cs. change_wf c)
     \<and> (action_blocked_by_planning_changes w cs \<noteq> None \<longleftrightarrow>
          (\<exists>c\<in>set cs. sc_status c = PlAffectedBlocked \<and> w \<in> set (sc_affected_work_ids c)))
     \<and> (\<forall>i. action_blocked_by_planning_changes w cs = Some i \<longrightarrow>
          (\<exists>c\<in>set cs. sc_change_id c = i \<and> sc_status c = PlAffectedBlocked \<and> w \<in> set (sc_affected_work_ids c)))
     \<and> (\<forall>i<length cs. i < length cs' \<and> change_evolves (cs ! i) (cs' ! i)
          \<and> (sc_status (cs ! i) \<in> {PlConfirmed, PlRejected} \<longrightarrow> cs' ! i = cs ! i))"
proof (intro conjI allI impI)
  show "\<forall>c\<in>set cs. change_wf c" using changes_evolve[OF assms(1)] by simp
  show "action_blocked_by_planning_changes w cs \<noteq> None \<longleftrightarrow>
      (\<exists>c\<in>set cs. sc_status c = PlAffectedBlocked \<and> w \<in> set (sc_affected_work_ids c))"
    unfolding action_blocked_None by blast
  show "\<exists>c\<in>set cs. sc_change_id c = i \<and> sc_status c = PlAffectedBlocked \<and> w \<in> set (sc_affected_work_ids c)"
    if "action_blocked_by_planning_changes w cs = Some i" for i using action_blocked_Some[OF that] .
  fix i assume i: "i < length cs"
  with changes_evolve[OF assms(2)] show "i < length cs'" and ev: "change_evolves (cs ! i) (cs' ! i)" by auto
  show "cs' ! i = cs ! i" if "sc_status (cs ! i) \<in> {PlConfirmed, PlRejected}"
    using that change_evolves_stays[OF ev] by auto
qed

definition ex_discovery :: discover_dependency_request where
  "ex_discovery = \<lparr>dq_change_id = ''pc'', dq_project_id = ''p'', dq_discovered_by = ''a'', dq_old_graph_version = ''g1'',
     dq_new_graph_version = ''g2'', dq_old_acceptance_contract = ''c1'', dq_new_acceptance_contract = ''c2'',
     dq_affected_work_ids = [''sdk'', ''api'', ''sdk''], dq_cancel_split_relations = [], dq_continue_conditions = [],
     dq_all_project_work_ids = [''sdk'', ''api'', ''docs'']\<rparr>"

theorem planning_change_lifecycle_witness:
  "\<exists>cs cs'. change_step\<^sup>*\<^sup>* [] cs \<and> change_step\<^sup>*\<^sup>* cs cs' \<and> action_blocked_by_planning_changes ''sdk'' cs = Some ''pc''
     \<and> action_blocked_by_planning_changes ''docs'' cs = None \<and> action_blocked_by_planning_changes ''sdk'' cs' = None"
proof -
  have "is_ok (record_discovered_dependency_change ex_discovery)
     \<and> is_ok (and_then (record_discovered_dependency_change ex_discovery) (\<lambda>app. confirm_planning_change (pca_change app) ''owner''))"
    by code_simp
  then obtain app c where run: "record_discovered_dependency_change ex_discovery = Inr app"
      "confirm_planning_change (pca_change app) ''owner'' = Inr c" by (auto simp: is_ok_iff)
  from change_step.recorded[OF run(1), of "[]"] have one: "change_step\<^sup>*\<^sup>* [] [pca_change app]" by simp
  from change_step.confirmed[of 0 "[pca_change app]" "''owner''" c] run(2) have two: "change_step\<^sup>*\<^sup>* [pca_change app] [c]" by simp
  have "set (sc_affected_work_ids (pca_change app)) = {''sdk'', ''api''}" "sc_status (pca_change app) = PlAffectedBlocked"
      "sc_change_id (pca_change app) = ''pc''"
    using recorded_fields[OF run(1)] by (auto simp: ex_discovery_def)
  moreover have "sc_status c = PlConfirmed" using run(2) by (auto simp: confirm_planning_change_def)
  ultimately have "action_blocked_by_planning_changes ''sdk'' [pca_change app] = Some ''pc''"
      "\<not> (\<exists>d\<in>set [pca_change app]. sc_status d = PlAffectedBlocked \<and> ''docs'' \<in> set (sc_affected_work_ids d))"
      "action_blocked_by_planning_changes ''sdk'' [c] = None" by (simp_all add: list_ex_iff)
  moreover from this(2) have "action_blocked_by_planning_changes ''docs'' [pca_change app] = None"
    using planning_change_lifecycle[OF one two, of "''docs''"] by blast
  ultimately show ?thesis using one two by blast
qed

end
