(* ===== verification/Planning_Writeback.thy ===== *)
theory Planning_Writeback
  imports Selective_Invalidation Team_Planning
begin

text \<open>
  \<^verbatim>\<open>crates/awr-runtime/src/planning_writeback.rs\<close>: the gate that decides whether a planning change may be
  activated while work is running, and the mapping of draft changes to a scoped planning change. The
  patching of ledger files (\<open>plan_ledger_writeback\<close>, \<open>activate_ledger_writeback_precise\<close>) and the journal
  path are file operations of other crates and are left out.
\<close>

section \<open>Data\<close>

record work_runtime_observation =
  wro_work_id :: string
  wro_external_key :: string
  wro_has_active_claim :: bool
  wro_claim_cancelled :: bool
  wro_claim_expired :: bool
  wro_session_ended :: bool
  wro_external_process_stopped :: bool
  wro_has_nonterminal_execution :: bool
  wro_unknown_effect :: bool
  wro_read_set_work_ids :: "string list"

datatype (plugins only: code size) activation_disposition =
    ContinueUnrelated | RequireStopReconcileReplan | ConservativeRefuse

record affected_work_decision =
  awd_work_id :: string
  awd_disposition :: activation_disposition
  awd_reasons :: "string list"
  awd_recovery_actions :: "string list"

record activation_impact_report =
  air_affected_work_ids :: "string list"
  air_unrelated_work_ids :: "string list"
  air_unknown_impact_work_ids :: "string list"
  air_decisions :: "affected_work_decision list"
  air_allow_activation :: bool
  air_refuse_reason :: "string option"
  air_recovery_actions :: "string list"
  air_retained_project_claim_barrier :: bool

section \<open>The activation gate\<close>

definition affected_works :: "string list \<Rightarrow> work_runtime_observation list \<Rightarrow> string set" where
  "affected_works changed observations =
     foldl (\<lambda>affected ob. if set (wro_read_set_work_ids ob) \<inter> set changed = {} then affected
        else insert (wro_work_id ob) affected) (set changed) observations"

definition unproven_recovery :: "string list" where
  "unproven_recovery =
     [''recompute affected set from planning candidate diffs'',
      ''recheck operation read-sets for live claims and nonterminal executions'',
      ''explicitly stop/reconcile/replan affected works before retry'']"

definition missing_actions :: "string list" where
  "missing_actions =
     [''inspect claim/session/execution for the affected work'',
      ''explicit stop/reconcile if an external process may still be running'',
      ''replan the affected work against the new source version'']"

definition stop_actions :: "string list" where
  "stop_actions =
     [''explicitly stop the external process for this work'',
      ''reconcile unknown effects via authorized execution.reconcile'',
      ''replan the work against the new activated source'']"

definition pretended_reasons :: "work_runtime_observation \<Rightarrow> string list" where
  "pretended_reasons ob =
     (if wro_claim_cancelled ob then [''claim_cancelled_does_not_prove_process_stopped''] else [])
     @ (if wro_claim_expired ob then [''claim_expired_does_not_prove_process_stopped''] else [])
     @ (if wro_session_ended ob then [''session_ended_does_not_prove_process_stopped''] else [])"

definition observation_live :: "work_runtime_observation \<Rightarrow> bool" where
  "observation_live ob =
     (let pretended_stopped = wro_claim_cancelled ob \<or> wro_claim_expired ob \<or> wro_session_ended ob in
      wro_has_active_claim ob \<or> wro_has_nonterminal_execution ob \<or> wro_unknown_effect ob \<or> pretended_stopped)"

record impact_state =
  im_unknown :: "string list"
  im_decisions :: "affected_work_decision list"
  im_recovery :: "string list"
  im_allow :: bool
  im_refuse_reason :: "string option"

definition impact_visit ::
  "(string \<rightharpoonup> work_runtime_observation) \<Rightarrow> impact_state \<Rightarrow> string \<Rightarrow> impact_state" where
  "impact_visit obs_by_id st work_id =
     (case obs_by_id work_id of
        None \<Rightarrow> st\<lparr>im_unknown := im_unknown st @ [work_id], im_allow := False,
          im_refuse_reason := Some (''missing runtime observation for affected work '' @ work_id),
          im_recovery := im_recovery st @ missing_actions,
          im_decisions := im_decisions st @ [\<lparr>awd_work_id = work_id, awd_disposition = ConservativeRefuse,
            awd_reasons = [''observation_missing''], awd_recovery_actions = missing_actions\<rparr>]\<rparr>
      | Some ob \<Rightarrow>
          let reasons = pretended_reasons ob in
          if observation_live ob \<and> \<not> wro_external_process_stopped ob then
            st\<lparr>im_allow := False, im_recovery := im_recovery st @ stop_actions,
              im_decisions := im_decisions st @ [\<lparr>awd_work_id = work_id, awd_disposition = RequireStopReconcileReplan,
                awd_reasons = reasons @ [''affected_work_requires_explicit_stop_reconcile_replan''],
                awd_recovery_actions = stop_actions\<rparr>],
              im_refuse_reason := Some ''affected live work blocks activation until stop/reconcile/replan''\<rparr>
          else
            st\<lparr>im_decisions := im_decisions st @ [\<lparr>awd_work_id = work_id, awd_disposition = ContinueUnrelated,
              awd_reasons = (if reasons = [] then [''affected_but_quiescent''] else reasons), awd_recovery_actions = []\<rparr>]\<rparr>)"

definition analyze_activation_impact ::
  "string list \<Rightarrow> string list \<Rightarrow> work_runtime_observation list \<Rightarrow> bool \<Rightarrow> activation_impact_report" where
  "analyze_activation_impact changed all_works observations impact_proven =
     (let obs_by_id = map_of (rev (map (\<lambda>ob. (wro_work_id ob, ob)) observations));
          affected = sorted_list_of_set (affected_works changed observations);
          unrelated = sorted_list_of_set (set all_works - affected_works changed observations)
      in if \<not> impact_proven then
           \<lparr>air_affected_work_ids = affected, air_unrelated_work_ids = unrelated,
            air_unknown_impact_work_ids = filter (\<lambda>w. w \<notin> set changed) (sorted_list_of_set (set all_works)),
            air_decisions = map (\<lambda>w. \<lparr>awd_work_id = w, awd_disposition = ConservativeRefuse,
              awd_reasons = [''impact_unproven''], awd_recovery_actions = unproven_recovery\<rparr>) affected,
            air_allow_activation = False,
            air_refuse_reason = Some ''activation impact cannot be proven; retaining project-wide active-claim barrier'',
            air_recovery_actions = unproven_recovery, air_retained_project_claim_barrier = True\<rparr>
         else
           let st = foldl (impact_visit obs_by_id)
                 \<lparr>im_unknown = [], im_decisions = [], im_recovery = [], im_allow = True, im_refuse_reason = None\<rparr> affected
           in \<lparr>air_affected_work_ids = affected, air_unrelated_work_ids = unrelated,
                air_unknown_impact_work_ids = im_unknown st,
                air_decisions = im_decisions st @ map (\<lambda>w. \<lparr>awd_work_id = w, awd_disposition = ContinueUnrelated,
                  awd_reasons = [''proven_unrelated_may_continue''], awd_recovery_actions = []\<rparr>) unrelated,
                air_allow_activation = im_allow st, air_refuse_reason = im_refuse_reason st,
                air_recovery_actions = sorted_list_of_set (set (im_recovery st)),
                air_retained_project_claim_barrier = (\<not> impact_proven)\<rparr>)"

section \<open>Draft changes as a planning change\<close>

definition replan_visit ::
  "string set \<times> cancel_split_relation list \<Rightarrow> draft_change \<Rightarrow> string set \<times> cancel_split_relation list" where
  "replan_visit = (\<lambda>(affected, relations) change.
     let after = td_work_id (dc_after change);
         affected = insert after affected \<union> (case dc_before change of Some b \<Rightarrow> {td_work_id b} | None \<Rightarrow> {})
     in case dc_op change of
          OpCancel \<Rightarrow> (affected, relations @ [\<lparr>csr_kind = ''cancel'',
            csr_from_work_id = (case dc_before change of Some b \<Rightarrow> td_work_id b | None \<Rightarrow> after), csr_to_work_id = after\<rparr>])
        | OpSplit \<Rightarrow> (affected \<union> set (td_split_children (dc_after change)),
            relations @ map (\<lambda>child. \<lparr>csr_kind = ''split'', csr_from_work_id = after, csr_to_work_id = child\<rparr>)
              (td_split_children (dc_after change)))
        | _ \<Rightarrow> (affected, relations))"

definition planning_changes_as_selective_replan ::
  "string \<Rightarrow> string \<Rightarrow> string \<Rightarrow> string \<Rightarrow> string \<Rightarrow> string \<Rightarrow> string \<Rightarrow> draft_change list \<Rightarrow> string list \<Rightarrow>
     (string, planning_change_application) result" where
  "planning_changes_as_selective_replan change_id project_id discovered_by old_graph new_graph old_acceptance new_acceptance
       changes all_works =
     (let (affected, relations) = foldl replan_visit ({}, []) changes in
      record_discovered_dependency_change
        \<lparr>dq_change_id = change_id, dq_project_id = project_id, dq_discovered_by = discovered_by,
         dq_old_graph_version = old_graph, dq_new_graph_version = new_graph,
         dq_old_acceptance_contract = old_acceptance, dq_new_acceptance_contract = new_acceptance,
         dq_affected_work_ids = sorted_list_of_set affected, dq_cancel_split_relations = relations,
         dq_continue_conditions = [''unrelated_read_sets_disjoint''], dq_all_project_work_ids = all_works\<rparr>)"

section \<open>The journal\<close>

datatype (plugins only: code size) writeback_phase =
    WbPlanned | WbSourceWritten | WbPgActivating | WbCompleted | WbRefused | WbRolledBack

record writeback_journal =
  wj_version :: u32
  wj_request_id :: string
  wj_phase :: writeback_phase
  wj_candidate_id :: string
  wj_candidate_digest :: string
  wj_before_fingerprint :: string
  wj_after_fingerprint :: string
  wj_source_version :: "string option"
  wj_activated_snapshot_id :: "string option"
  wj_authority_epoch :: "string option"
  wj_approver_actor_id :: "string option"
  wj_affected_work_ids :: "string list"
  wj_unrelated_work_ids :: "string list"
  wj_audit_receipt_id :: "string option"

definition same_request_already_completed :: "writeback_journal option \<Rightarrow> string \<Rightarrow> bool" where
  "same_request_already_completed existing request_id =
     (case existing of None \<Rightarrow> False | Some j \<Rightarrow> wj_request_id j = request_id \<and> wj_phase j = WbCompleted)"

definition reevaluate_graph_consumers ::
  "string \<Rightarrow> provider_change_kind \<Rightarrow> adopted_consumer_edge list \<Rightarrow> string list \<Rightarrow> selective_invalidation_plan" where
  "reevaluate_graph_consumers provider change consumers all_works =
     select_downstream_reevaluation provider change consumers all_works"

definition planning_change_blocks_until_confirmed :: "planning_change_status \<Rightarrow> bool" where
  "planning_change_blocks_until_confirmed status \<longleftrightarrow> status = PlAffectedBlocked"

section \<open>Laws\<close>

text \<open>The affected works are the changed ones and those that have read a changed one.\<close>

lemma affected_works_eq:
  "affected_works changed observations = set changed
     \<union> {wro_work_id ob | ob. ob \<in> set observations \<and> set (wro_read_set_work_ids ob) \<inter> set changed \<noteq> {}}"
proof -
  have "foldl (\<lambda>affected ob. if set (wro_read_set_work_ids ob) \<inter> set changed = {} then affected
        else insert (wro_work_id ob) affected) A obs
      = A \<union> {wro_work_id ob | ob. ob \<in> set obs \<and> set (wro_read_set_work_ids ob) \<inter> set changed \<noteq> {}}" for A obs
    by (induction obs arbitrary: A) auto
  then show ?thesis by (simp add: affected_works_def)
qed

definition observed :: "work_runtime_observation list \<Rightarrow> string \<Rightarrow> work_runtime_observation option" where
  "observed observations w = map_of (rev (map (\<lambda>ob. (wro_work_id ob, ob)) observations)) w"

text \<open>Nothing about the work suggests that something may still be running.\<close>

definition proven_idle :: "work_runtime_observation \<Rightarrow> bool" where
  "proven_idle ob \<longleftrightarrow> \<not> wro_has_active_claim ob \<and> \<not> wro_has_nonterminal_execution ob \<and> \<not> wro_unknown_effect ob
     \<and> \<not> wro_claim_cancelled ob \<and> \<not> wro_claim_expired ob \<and> \<not> wro_session_ended ob"

lemma observation_live_iff: "observation_live ob \<longleftrightarrow> \<not> proven_idle ob"
  by (auto simp: observation_live_def proven_idle_def)

definition quiescent :: "work_runtime_observation list \<Rightarrow> string \<Rightarrow> bool" where
  "quiescent observations w \<longleftrightarrow>
     (\<exists>ob. observed observations w = Some ob \<and> (wro_external_process_stopped ob \<or> proven_idle ob))"

abbreviation impact_step :: "work_runtime_observation list \<Rightarrow> impact_state \<Rightarrow> string \<Rightarrow> impact_state" where
  "impact_step observations \<equiv> impact_visit (observed observations)"

text \<open>The three ways of a step.\<close>

lemma impact_step_cases:
  obtains (quiet) d where "quiescent obs w" "im_decisions (impact_step obs st w) = im_decisions st @ [d]" "awd_work_id d = w"
      "im_allow (impact_step obs st w) = im_allow st" "im_refuse_reason (impact_step obs st w) = im_refuse_reason st"
      "im_recovery (impact_step obs st w) = im_recovery st"
  | (refused) d reason where "\<not> quiescent obs w" "im_decisions (impact_step obs st w) = im_decisions st @ [d]" "awd_work_id d = w"
      "\<not> im_allow (impact_step obs st w)" "im_refuse_reason (impact_step obs st w) = Some reason"
      "im_recovery (impact_step obs st w) \<noteq> []"
proof (cases "observed obs w")
  case None
  then show thesis by (intro refused) (simp add: quiescent_def impact_visit_def missing_actions_def)+
next
  case (Some ob)
  show thesis
  proof (cases "observation_live ob \<and> \<not> wro_external_process_stopped ob")
    case True
    with Some show thesis by (intro refused) (simp add: quiescent_def impact_visit_def stop_actions_def observation_live_iff)+
  next
    case False
    have "quiescent obs w" using Some False by (auto simp: quiescent_def observation_live_iff)
    then show thesis
      by (rule quiet) (unfold impact_visit_def Some option.case Let_def if_not_P[OF False], simp+)
  qed
qed

lemma impact_loop:
  "(im_allow (foldl (impact_step obs) st ws) \<longleftrightarrow> im_allow st \<and> (\<forall>w\<in>set ws. quiescent obs w))
   \<and> map awd_work_id (im_decisions (foldl (impact_step obs) st ws)) = map awd_work_id (im_decisions st) @ ws
   \<and> ((im_allow st \<longleftrightarrow> im_refuse_reason st = None) \<and> (im_allow st \<or> im_recovery st \<noteq> []) \<longrightarrow>
        (im_allow (foldl (impact_step obs) st ws) \<longleftrightarrow> im_refuse_reason (foldl (impact_step obs) st ws) = None)
        \<and> (im_allow (foldl (impact_step obs) st ws) \<or> im_recovery (foldl (impact_step obs) st ws) \<noteq> []))"
proof (induction ws arbitrary: st)
  case Nil
  then show ?case by auto
next
  case (Cons w ws)
  show ?case by (cases rule: impact_step_cases[of obs w st]) (use Cons.IH[of "impact_step obs st w"] in auto)
qed

definition impact_start :: impact_state where
  "impact_start = \<lparr>im_unknown = [], im_decisions = [], im_recovery = [], im_allow = True, im_refuse_reason = None\<rparr>"

lemma impact_start_simps [simp]:
  "im_allow impact_start" "im_decisions impact_start = []" "im_refuse_reason impact_start = None"
  by (simp_all add: impact_start_def)

text \<open>
  C15: A planning change is activated exactly when that is safe. The affected works are the changed ones
  and every work that has read one of them. Activation is allowed exactly when the impact is proven and
  each affected work has been observed and either has no active, cancelled or expired claim, no running
  execution, no ended session and no unknown effect, or its external process was explicitly stopped. A refusal always has a reason and recovery actions, every affected work has
  its own decision, and without proof the project-wide barrier is kept.
\<close>
theorem activation_allowed_exactly:
  fixes changed all_works observations proven
  defines "r \<equiv> analyze_activation_impact changed all_works observations proven"
  defines "affected \<equiv> set changed \<union> {wro_work_id ob | ob. ob \<in> set observations \<and> set (wro_read_set_work_ids ob) \<inter> set changed \<noteq> {}}"
  shows "set (air_affected_work_ids r) = affected
     \<and> set (air_unrelated_work_ids r) = set all_works - affected
     \<and> (air_allow_activation r \<longleftrightarrow> proven \<and> (\<forall>w\<in>affected. quiescent observations w))
     \<and> (air_allow_activation r \<longleftrightarrow> air_refuse_reason r = None)
     \<and> (air_allow_activation r \<or> air_recovery_actions r \<noteq> [])
     \<and> affected \<subseteq> awd_work_id ` set (air_decisions r)
     \<and> (air_retained_project_claim_barrier r \<longleftrightarrow> \<not> proven)"
proof -
  let ?A = "affected_works changed observations"
  let ?st = "foldl (impact_step observations) impact_start (sorted_list_of_set ?A)"
  have A: "?A = affected" "finite affected" unfolding affected_works_eq affected_def by simp_all
  have lookup: "map_of (rev (map (\<lambda>ob. (wro_work_id ob, ob)) observations)) = observed observations"
    by (simp add: observed_def fun_eq_iff)
  have allow: "im_allow ?st \<longleftrightarrow> (\<forall>w\<in>affected. quiescent observations w)" using A impact_loop[of observations impact_start] by simp
  have reason: "im_allow ?st \<longleftrightarrow> im_refuse_reason ?st = None" and recovery: "im_allow ?st \<or> im_recovery ?st \<noteq> []"
    using impact_loop[of observations impact_start "sorted_list_of_set ?A"] impact_start_simps by blast+
  have ids: "awd_work_id ` set (im_decisions ?st) = affected"
    using arg_cong[OF impact_loop[THEN conjunct2, THEN conjunct1, of observations impact_start "sorted_list_of_set ?A"], of set] A
    by simp
  show ?thesis
  proof (cases proven)
    case True
    then have r: "r = \<lparr>air_affected_work_ids = sorted_list_of_set ?A, air_unrelated_work_ids = sorted_list_of_set (set all_works - ?A),
        air_unknown_impact_work_ids = im_unknown ?st,
        air_decisions = im_decisions ?st @ map (\<lambda>w. \<lparr>awd_work_id = w, awd_disposition = ContinueUnrelated,
          awd_reasons = [''proven_unrelated_may_continue''], awd_recovery_actions = []\<rparr>)
            (sorted_list_of_set (set all_works - ?A)),
        air_allow_activation = im_allow ?st, air_refuse_reason = im_refuse_reason ?st,
        air_recovery_actions = sorted_list_of_set (set (im_recovery ?st)), air_retained_project_claim_barrier = False\<rparr>"
      unfolding r_def analyze_activation_impact_def lookup impact_start_def by (simp add: Let_def)
    have "im_allow ?st \<or> sorted_list_of_set (set (im_recovery ?st)) \<noteq> []" using recovery by auto
    with True A allow reason ids show ?thesis unfolding r by (simp add: image_Un)
  next
    case False
    with A show ?thesis unfolding r_def analyze_activation_impact_def lookup
      by (simp add: Let_def image_image unproven_recovery_def)
  qed
qed

definition ex_runtime :: "string \<Rightarrow> bool \<Rightarrow> string list \<Rightarrow> work_runtime_observation" where
  "ex_runtime w cancelled reads = \<lparr>wro_work_id = w, wro_external_key = w, wro_has_active_claim = False,
     wro_claim_cancelled = cancelled, wro_claim_expired = False, wro_session_ended = False, wro_external_process_stopped = False,
     wro_has_nonterminal_execution = False, wro_unknown_effect = False, wro_read_set_work_ids = reads\<rparr>"

theorem activation_allowed_exactly_witness:
  "air_allow_activation (analyze_activation_impact [''a''] [''a'', ''b''] [ex_runtime ''a'' False []] True)
   \<and> \<not> air_allow_activation (analyze_activation_impact [''a''] [''a'', ''b'']
        [ex_runtime ''a'' False [], ex_runtime ''b'' True [''a'']] True)"
proof -
  note allow = activation_allowed_exactly[THEN conjunct2, THEN conjunct2, THEN conjunct1]
  have "quiescent [ex_runtime ''a'' False []] ''a''"
    by (simp add: quiescent_def observed_def ex_runtime_def proven_idle_def)
  moreover have "{wro_work_id ob | ob. ob \<in> set [ex_runtime ''a'' False []]
      \<and> set (wro_read_set_work_ids ob) \<inter> set [''a''] \<noteq> {}} = {}" by (simp add: ex_runtime_def)
  ultimately have "air_allow_activation (analyze_activation_impact [''a''] [''a'', ''b''] [ex_runtime ''a'' False []] True)"
    unfolding allow by simp
  moreover have "\<not> quiescent [ex_runtime ''a'' False [], ex_runtime ''b'' True [''a'']] ''b''"
    by (simp add: quiescent_def observed_def ex_runtime_def proven_idle_def)
  moreover have "''b'' \<in> {wro_work_id ob | ob. ob \<in> set [ex_runtime ''a'' False [], ex_runtime ''b'' True [''a'']]
      \<and> set (wro_read_set_work_ids ob) \<inter> set [''a''] \<noteq> {}}"
    by (intro CollectI exI[of _ "ex_runtime ''b'' True [''a'']"]) (simp add: ex_runtime_def)
  ultimately show ?thesis unfolding allow by blast
qed

text \<open>Draft changes block exactly the works they name, before and after, and the children of a split.\<close>

lemma replan_fold:
  "fst (foldl replan_visit (A, R) changes) = A \<union> (\<Union>c\<in>set changes. insert (td_work_id (dc_after c))
     (set_option (map_option td_work_id (dc_before c)) \<union> (if dc_op c = OpSplit then set (td_split_children (dc_after c)) else {})))"
proof (induction changes arbitrary: A R)
  case (Cons c changes)
  obtain A' R' where step: "replan_visit (A, R) c = (A', R')" by fastforce
  then have "A' = A \<union> insert (td_work_id (dc_after c))
     (set_option (map_option td_work_id (dc_before c)) \<union> (if dc_op c = OpSplit then set (td_split_children (dc_after c)) else {}))"
    by (auto simp: replan_visit_def Let_def split: draft_op_kind.splits option.splits)
  with Cons.IH[of A' R'] step show ?case by auto
qed simp

lemma replan_blocks:
  assumes "planning_changes_as_selective_replan i p by old new olda newa changes all = Inr app"
  shows "set (pca_blocked_work_ids app) = (\<Union>c\<in>set changes. insert (td_work_id (dc_after c))
     (set_option (map_option td_work_id (dc_before c)) \<union> (if dc_op c = OpSplit then set (td_split_children (dc_after c)) else {})))"
proof -
  obtain A R where fold: "foldl replan_visit ({}, []) changes = (A, R)" by fastforce
  with replan_fold[of "{}" "[]" changes] have A: "A = (\<Union>c\<in>set changes. insert (td_work_id (dc_after c))
     (set_option (map_option td_work_id (dc_before c)) \<union> (if dc_op c = OpSplit then set (td_split_children (dc_after c)) else {})))"
    by simp
  then have "finite A" by simp
  then show ?thesis
    using assms recorded_blocked unfolding planning_changes_as_selective_replan_def fold A[symmetric] by fastforce
qed

end
