(* ===== verification/Invalidation_Store.thy ===== *)
theory Invalidation_Store
  imports Selective_Invalidation Core_Error
begin

text \<open>
  \<^verbatim>\<open>crates/awr-team-pg/src/selective_invalidation.rs\<close>: the PostgreSQL store of selective invalidation,
  boundary checks and planning changes, with its own copies of the decision functions of the runtime.

  A table is the list of its rows under their primary keys (\<^verbatim>\<open>migrations/20260923000027_selective_invalidation.sql\<close>
  and, for the bindings, \<^verbatim>\<open>20260918000003_graph_resources.sql\<close>); a row inserted under an existing key is the
  database error \<open>sql\<close>. The \<^verbatim>\<open>body_json\<close> columns are written and never read here and are left out, a JSON
  column of strings is the list itself. Each operation is one transaction: on an error nothing is
  changed. It looks its receipt up before it takes the project lock, so it has two states as
  arguments: \<open>seen\<close>, which the look-up reads, and \<open>st\<close>, the state under the lock; other transactions may
  have committed in between. \<open>ORDER BY\<close> on a text column follows the collation of the database, which is
  the argument \<open>first_of\<close>.
\<close>

section \<open>Data\<close>

datatype (plugins only: code size) pg_error =
    PgWorkstream workstream_error
  | PgSchemaIncompatible string
  | PgIdempotencyConflict
  | PgProjectNotAvailable
  | PgUnsafeSourcePath string
  | PgInvalidUtf8 string
  | PgSnapshotDrift string
  | PgStaleApproval
  | PgEpochMismatch
  | PgParserMismatch
  | PgCandidateNotApproved
  | PgAuthorCannotApprove
  | PgInactiveCandidate
  | PgUnsupported string
  | PgCursorExpired
  | PgEpochChanged
  | PgSessionNotFound
  | PgClaimHeld
  | PgLeaseExpired
  | PgRecoveryBlocked
  | PgWaitOpen
  | PgForbidden
  | PgStaleFence
  | PgDependencyCycle "string list"
  | PgMissingDependency
  | PgResourceConflict
  | PgScopeUnsupported
  | PgParentEvidenceRequired
  | PgBindingInvalid
  | PgActionBlockedByInvalidation string
  | PgPlanningChangePending
  | PgClaimBlocksActivation
  | PgWritebackRefused string
  | PgActivationImpactUnproven string
  | PgGraphBudgetExceeded
  | PgExecutionNotFound
  | PgScopeExceeded
  | PgExactlyOnceUnsupported
  | PgEvidenceInvalid
  | PgReviewRequired
  | PgReworkRequiresReturnedReview
  | PgReviewUnavailable
  | PgAuthorCannotReview
  | PgCompletionRejected
  | PgPolicyDowngrade
  | PgContextIncomplete
  | PgResponseTooLarge
  | PgPreconditionsChanged
  | PgSourceDivergence
  | PgRestoreIncomplete
  | PgOutboxReplayForbidden
  | PgRollbackForbidden
  | PgDb string
  | PgPool string
  | PgProtocol string

type_synonym scope = "string \<times> string"

fun provider_change_parse :: "string \<Rightarrow> (pg_error, provider_change_kind) result" where
  "provider_change_parse s =
     (if s = ''new_version_or_progress'' then Inr PcNewVersionOrProgress
      else if s = ''current_selection_changed'' then Inr PcCurrentSelectionChanged
      else if s = ''delivery_revoked'' then Inr PcDeliveryRevoked
      else if s = ''pinned_artifact_unavailable'' then Inr PcPinnedArtifactUnavailable
      else Inl (PgProtocol ''unknown provider change kind''))"

fun boundary_parse :: "string \<Rightarrow> (pg_error, execution_boundary) result" where
  "boundary_parse s =
     (if s = ''prepare'' then Inr BdPrepare
      else if s = ''dispatch'' then Inr BdDispatch
      else if s = ''complete'' then Inr BdComplete
      else Inl (PgProtocol ''unknown execution boundary''))"

fun decision_str :: "boundary_decision \<Rightarrow> string" where
  "decision_str BdAllow = ''allow''"
| "decision_str BdBlockNewEffects = ''block_new_effects''"
| "decision_str BdKeepEffectsAssignRecovery = ''keep_effects_assign_recovery''"

record pg_consumer_edge =
  pe_dependency_id :: string
  pe_consumer_work_id :: string
  pe_provider_work_id :: string
  pe_policy :: string
  pe_credential_status :: string
  pe_assessment_status :: string

record pg_boundary_snapshot =
  ps_boundary :: execution_boundary
  ps_work_id :: string
  ps_execution_id :: "string option"
  ps_dependencies_satisfied :: bool
  ps_revoke_or_invalidation_observed :: bool
  ps_has_real_effects :: bool
  ps_unrelated_work_ids :: "string list"

record pg_planning_change =
  pp_change_id :: string
  pp_discovered_by :: string
  pp_old_graph_version :: string
  pp_new_graph_version :: string
  pp_old_acceptance_contract :: string
  pp_new_acceptance_contract :: string
  pp_affected_work_ids :: "string list"
  pp_cancel_split_relations :: "cancel_split_relation list"
  pp_continue_conditions :: "string list"
  pp_status :: string
  pp_confirmed_by :: "string option"

record selective_invalidate_request =
  si_request_key :: string
  si_event_id :: string
  si_provider_work_id :: string
  si_change :: provider_change_kind
  si_consumers :: "pg_consumer_edge list"
  si_all_project_work_ids :: "string list"
  si_now_ms :: i64

record boundary_revalidate_request =
  br_request_key :: string
  br_check_id :: string
  br_snapshot :: pg_boundary_snapshot
  br_now_ms :: i64

record record_planning_change_request =
  rpc_request_key :: string
  rpc_change_id :: string
  rpc_discovered_by :: string
  rpc_old_graph_version :: string
  rpc_new_graph_version :: string
  rpc_old_acceptance_contract :: string
  rpc_new_acceptance_contract :: string
  rpc_affected_work_ids :: "string list"
  rpc_cancel_split_relations :: "cancel_split_relation list"
  rpc_continue_conditions :: "string list"
  rpc_all_project_work_ids :: "string list"
  rpc_now_ms :: i64

record decide_planning_change_request =
  dp_request_key :: string
  dp_change_id :: string
  dp_actor_id :: string
  dp_now_ms :: i64

record selective_invalidation_receipt =
  ir_request_key :: string
  ir_subject_id :: string
  ir_op :: string
  ir_event_id :: string
  ir_replayed :: bool
  ir_created_at_ms :: i64

section \<open>The copies of the decision functions\<close>

fun pg_change_needs :: "bool \<Rightarrow> provider_change_kind \<Rightarrow> bool" where
  "pg_change_needs True PcNewVersionOrProgress = False"
| "pg_change_needs True PcCurrentSelectionChanged = False"
| "pg_change_needs True PcDeliveryRevoked = True"
| "pg_change_needs True PcPinnedArtifactUnavailable = True"
| "pg_change_needs False _ = True"

definition pg_edge_visit ::
  "string \<Rightarrow> provider_change_kind \<Rightarrow> pg_consumer_edge \<Rightarrow> string set \<times> string set \<times> string set \<Rightarrow>
     string set \<times> string set \<times> string set" where
  "pg_edge_visit provider change edge = (\<lambda>(reevaluate, leave_valid, consumers).
     if pe_provider_work_id edge \<noteq> provider then (reevaluate, leave_valid, consumers)
     else
       let w = pe_consumer_work_id edge; consumers = insert w consumers in
       if pe_credential_status edge = ''revoked'' \<or> pe_assessment_status edge = ''revoked''
       then (insert w reevaluate, leave_valid, consumers)
       else if pg_change_needs (pe_policy edge = ''fixed_delivery'') change then (insert w reevaluate, leave_valid, consumers)
       else (reevaluate, insert w leave_valid, consumers))"

definition pg_select_downstream_reevaluation ::
  "string \<Rightarrow> provider_change_kind \<Rightarrow> pg_consumer_edge list \<Rightarrow> string list \<Rightarrow> selective_invalidation_plan" where
  "pg_select_downstream_reevaluation provider change consumers all_works =
     (let (reevaluate, leave_valid, consumer_ids) = fold (pg_edge_visit provider change) consumers ({}, {}, {}) in
      \<lparr>ip_provider_work_id = provider, ip_change = change,
       ip_reevaluate = sorted_list_of_set reevaluate,
       ip_leave_valid = sorted_list_of_set leave_valid,
       ip_unaffected_work_ids =
         sorted_list_of_set (set (filter (\<lambda>w. w \<noteq> provider \<and> w \<notin> consumer_ids) all_works))\<rparr>)"

definition pg_revalidate_execution_boundary :: "pg_boundary_snapshot \<Rightarrow> boundary_revalidation" where
  "pg_revalidate_execution_boundary s =
     (if ps_dependencies_satisfied s \<and> \<not> ps_revoke_or_invalidation_observed s then
        \<lparr>rv_decision = BdAllow, rv_recovery_duty = False, rv_erase_effects = False,
         rv_unrelated_may_continue = True, rv_reason = ''dependencies satisfied at boundary''\<rparr>
      else if ps_has_real_effects s then
        \<lparr>rv_decision = BdKeepEffectsAssignRecovery, rv_recovery_duty = True, rv_erase_effects = False,
         rv_unrelated_may_continue = True,
         rv_reason = ''mid-execution invalidation retains effects and recovery duty''\<rparr>
      else
        \<lparr>rv_decision = BdBlockNewEffects, rv_recovery_duty = False, rv_erase_effects = False,
         rv_unrelated_may_continue = True,
         rv_reason = (case ps_boundary s of
            BdPrepare \<Rightarrow> ''prepare revalidation blocked revoke/stale race''
          | BdDispatch \<Rightarrow> ''dispatch revalidation blocked revoke/stale race''
          | BdComplete \<Rightarrow> ''complete revalidation blocked revoke/stale race'')\<rparr>)"

section \<open>Tables\<close>

record event_row =
  ier_provider_work_id :: string
  ier_change_kind :: string
  ier_reevaluate :: "string list"
  ier_leave_valid :: "string list"
  ier_unaffected :: "string list"
  ier_created_at_ms :: i64

record boundary_row =
  bx_work_id :: string
  bx_execution_id :: "string option"
  bx_boundary :: string
  bx_decision :: string
  bx_recovery_duty :: bool
  bx_erase_effects :: bool
  bx_unrelated_may_continue :: bool
  bx_reason :: string
  bx_created_at_ms :: i64

record change_row =
  pcr_change :: pg_planning_change
  pcr_created_at_ms :: i64
  pcr_decided_at_ms :: "i64 option"

record receipt_row_pg =
  rw_subject_id :: string
  rw_op :: string
  rw_event_id :: string
  rw_created_at_ms :: i64

record pg_store =
  pg_projects :: "scope set"
  pg_bindings :: "((scope \<times> string \<times> string) \<times> bool) list"
  pg_events :: "((scope \<times> string) \<times> event_row) list"
  pg_checks :: "((scope \<times> string) \<times> boundary_row) list"
  pg_changes :: "((scope \<times> string) \<times> change_row) list"
  pg_blocks :: "((scope \<times> string \<times> string) \<times> bool) list"
  pg_receipts :: "((scope \<times> string) \<times> receipt_row_pg) list"

definition insert_row :: "string \<Rightarrow> 'k \<Rightarrow> 'v \<Rightarrow> ('k \<times> 'v) list \<Rightarrow> (pg_error, ('k \<times> 'v) list) result" where
  "insert_row sql k v t = (if map_of t k \<noteq> None then Inl (PgDb sql) else Inr (t @ [(k, v)]))"

text \<open>\<^verbatim>\<open>UPDATE ... SET\<close> on the rows whose key satisfies the condition.\<close>

definition update_rows :: "('k \<Rightarrow> 'v \<Rightarrow> bool) \<Rightarrow> ('v \<Rightarrow> 'v) \<Rightarrow> ('k \<times> 'v) list \<Rightarrow> ('k \<times> 'v) list" where
  "update_rows cond f t = map (\<lambda>(k, v). (k, if cond k v then f v else v)) t"

definition lock_project :: "string \<Rightarrow> pg_store \<Rightarrow> scope \<Rightarrow> (pg_error, unit) result" where
  "lock_project sql st sc = refuse (sc \<notin> pg_projects st) (PgDb sql)"

definition pg_load_receipt ::
  "pg_store \<Rightarrow> scope \<Rightarrow> string \<Rightarrow> string \<Rightarrow> (pg_error, receipt_row_pg option) result" where
  "pg_load_receipt st sc request_key op =
     (case map_of (pg_receipts st) (sc, request_key) of
        None \<Rightarrow> Inr None
      | Some row \<Rightarrow> then_ok (refuse (rw_op row \<noteq> op) PgIdempotencyConflict) (Inr (Some row)))"

definition store_receipt ::
  "string \<Rightarrow> scope \<Rightarrow> string \<Rightarrow> string \<Rightarrow> string \<Rightarrow> string \<Rightarrow> i64 \<Rightarrow> pg_store \<Rightarrow> (pg_error, pg_store) result" where
  "store_receipt sql sc request_key subject op event now st =
     and_then (insert_row sql (sc, request_key)
        \<lparr>rw_subject_id = subject, rw_op = op, rw_event_id = event, rw_created_at_ms = now\<rparr> (pg_receipts st))
       (\<lambda>t. Inr (st\<lparr>pg_receipts := t\<rparr>))"

definition replay_receipt :: "string \<Rightarrow> receipt_row_pg \<Rightarrow> selective_invalidation_receipt" where
  "replay_receipt request_key row = \<lparr>ir_request_key = request_key, ir_subject_id = rw_subject_id row, ir_op = rw_op row,
     ir_event_id = rw_event_id row, ir_replayed = True, ir_created_at_ms = rw_created_at_ms row\<rparr>"

definition fresh_receipt :: "string \<Rightarrow> string \<Rightarrow> string \<Rightarrow> i64 \<Rightarrow> selective_invalidation_receipt" where
  "fresh_receipt request_key subject op now = \<lparr>ir_request_key = request_key, ir_subject_id = subject, ir_op = op,
     ir_event_id = subject, ir_replayed = False, ir_created_at_ms = now\<rparr>"

definition load_plan :: "string \<Rightarrow> pg_store \<Rightarrow> scope \<Rightarrow> string \<Rightarrow> (pg_error, selective_invalidation_plan) result" where
  "load_plan sql st sc event_id =
     and_then (ok_or (map_of (pg_events st) (sc, event_id)) (PgDb sql))
       (\<lambda>row. and_then (provider_change_parse (ier_change_kind row))
         (\<lambda>change. Inr \<lparr>ip_provider_work_id = ier_provider_work_id row, ip_change = change,
            ip_reevaluate = ier_reevaluate row, ip_leave_valid = ier_leave_valid row,
            ip_unaffected_work_ids = ier_unaffected row\<rparr>))"

fun decision_parse :: "string \<Rightarrow> (pg_error, boundary_decision) result" where
  "decision_parse s =
     (if s = ''allow'' then Inr BdAllow
      else if s = ''block_new_effects'' then Inr BdBlockNewEffects
      else if s = ''keep_effects_assign_recovery'' then Inr BdKeepEffectsAssignRecovery
      else Inl (PgProtocol ''unknown boundary decision''))"

definition load_boundary :: "string \<Rightarrow> pg_store \<Rightarrow> scope \<Rightarrow> string \<Rightarrow> (pg_error, boundary_revalidation) result" where
  "load_boundary sql st sc check_id =
     and_then (ok_or (map_of (pg_checks st) (sc, check_id)) (PgDb sql))
       (\<lambda>row. and_then (decision_parse (bx_decision row))
         (\<lambda>decision. Inr \<lparr>rv_decision = decision, rv_recovery_duty = bx_recovery_duty row,
            rv_erase_effects = bx_erase_effects row, rv_unrelated_may_continue = bx_unrelated_may_continue row,
            rv_reason = bx_reason row\<rparr>))"

definition load_planning_change :: "string \<Rightarrow> pg_store \<Rightarrow> scope \<Rightarrow> string \<Rightarrow> (pg_error, pg_planning_change) result" where
  "load_planning_change sql st sc change_id =
     and_then (ok_or (map_of (pg_changes st) (sc, change_id)) (PgDb sql)) (\<lambda>row. Inr (pcr_change row))"

section \<open>Operations\<close>

definition invalidate_bindings :: "scope \<Rightarrow> string \<Rightarrow> string list \<Rightarrow> pg_store \<Rightarrow> pg_store" where
  "invalidate_bindings sc provider consumers st =
     fold (\<lambda>consumer st. st\<lparr>pg_bindings :=
        update_rows (\<lambda>k valid. k = (sc, consumer, provider) \<and> valid) (\<lambda>_. False) (pg_bindings st)\<rparr>) consumers st"

definition apply_selective_invalidation ::
  "string \<Rightarrow> pg_store \<Rightarrow> pg_store \<Rightarrow> scope \<Rightarrow> selective_invalidate_request \<Rightarrow>
     (pg_error, (selective_invalidation_plan \<times> selective_invalidation_receipt) \<times> pg_store) result" where
  "apply_selective_invalidation sql seen st sc req =
     then_ok (refuse (si_now_ms req < 0 \<or> si_request_key req = [] \<or> si_event_id req = [])
         (PgProtocol ''invalid selective invalidate request''))
      (and_then (pg_load_receipt seen sc (si_request_key req) ''selective_invalidate'')
        (\<lambda>found. case found of
           Some row \<Rightarrow> and_then (load_plan sql seen sc (rw_subject_id row))
             (\<lambda>plan. Inr ((plan, replay_receipt (si_request_key req) row), st))
         | None \<Rightarrow> then_ok (lock_project sql st sc)
             (let plan = pg_select_downstream_reevaluation (si_provider_work_id req) (si_change req) (si_consumers req)
                    (si_all_project_work_ids req);
                  st1 = invalidate_bindings sc (si_provider_work_id req) (ip_reevaluate plan) st
              in and_then (insert_row sql (sc, si_event_id req)
                   \<lparr>ier_provider_work_id = si_provider_work_id req, ier_change_kind = provider_change_str (si_change req),
                    ier_reevaluate = ip_reevaluate plan, ier_leave_valid = ip_leave_valid plan,
                    ier_unaffected = ip_unaffected_work_ids plan, ier_created_at_ms = si_now_ms req\<rparr> (pg_events st1))
                 (\<lambda>events. and_then (store_receipt sql sc (si_request_key req) (si_event_id req) ''selective_invalidate''
                     (si_event_id req) (si_now_ms req) (st1\<lparr>pg_events := events\<rparr>))
                   (\<lambda>st2. Inr ((plan, fresh_receipt (si_request_key req) (si_event_id req) ''selective_invalidate''
                     (si_now_ms req)), st2))))))"

definition planning_block_count :: "pg_store \<Rightarrow> scope \<Rightarrow> string \<Rightarrow> nat" where
  "planning_block_count st sc work_id =
     length (filter (\<lambda>((s, c, w), active). s = sc \<and> w = work_id \<and> active) (pg_blocks st))"

definition invalid_binding_count :: "pg_store \<Rightarrow> scope \<Rightarrow> string \<Rightarrow> nat" where
  "invalid_binding_count st sc work_id =
     length (filter (\<lambda>((s, d, u), valid). s = sc \<and> d = work_id \<and> \<not> valid) (pg_bindings st))"

definition snapshot_under_lock :: "pg_store \<Rightarrow> scope \<Rightarrow> pg_boundary_snapshot \<Rightarrow> pg_boundary_snapshot" where
  "snapshot_under_lock st sc s =
     (if planning_block_count st sc (ps_work_id s) > 0 \<or> invalid_binding_count st sc (ps_work_id s) > 0
      then s\<lparr>ps_revoke_or_invalidation_observed := True, ps_dependencies_satisfied := False\<rparr> else s)"

definition revalidate_boundary ::
  "string \<Rightarrow> pg_store \<Rightarrow> pg_store \<Rightarrow> scope \<Rightarrow> boundary_revalidate_request \<Rightarrow>
     (pg_error, (boundary_revalidation \<times> selective_invalidation_receipt) \<times> pg_store) result" where
  "revalidate_boundary sql seen st sc req =
     then_ok (refuse (br_now_ms req < 0 \<or> br_request_key req = [] \<or> br_check_id req = [])
         (PgProtocol ''invalid boundary revalidate request''))
      (and_then (pg_load_receipt seen sc (br_request_key req) ''boundary_revalidate'')
        (\<lambda>found. case found of
           Some row \<Rightarrow> and_then (load_boundary sql seen sc (rw_subject_id row))
             (\<lambda>decision. Inr ((decision, replay_receipt (br_request_key req) row), st))
         | None \<Rightarrow> then_ok (lock_project sql st sc)
             (let s = snapshot_under_lock st sc (br_snapshot req);
                  decision = pg_revalidate_execution_boundary s
              in and_then (insert_row sql (sc, br_check_id req)
                   \<lparr>bx_work_id = ps_work_id s, bx_execution_id = ps_execution_id s, bx_boundary = boundary_str (ps_boundary s),
                    bx_decision = decision_str (rv_decision decision), bx_recovery_duty = rv_recovery_duty decision,
                    bx_erase_effects = rv_erase_effects decision,
                    bx_unrelated_may_continue = rv_unrelated_may_continue decision, bx_reason = rv_reason decision,
                    bx_created_at_ms = br_now_ms req\<rparr> (pg_checks st))
                 (\<lambda>checks. and_then (store_receipt sql sc (br_request_key req) (br_check_id req) ''boundary_revalidate''
                     (br_check_id req) (br_now_ms req) (st\<lparr>pg_checks := checks\<rparr>))
                   (\<lambda>st2. Inr ((decision, fresh_receipt (br_request_key req) (br_check_id req) ''boundary_revalidate''
                     (br_now_ms req)), st2))))))"

definition unrelated_of :: "string list \<Rightarrow> string list \<Rightarrow> string list" where
  "unrelated_of affected all_works = sorted_list_of_set (set (filter (\<lambda>w. w \<notin> set affected) all_works))"

definition upsert_block :: "scope \<Rightarrow> string \<Rightarrow> string \<Rightarrow> pg_store \<Rightarrow> pg_store" where
  "upsert_block sc change_id work_id st =
     (let k = (sc, change_id, work_id) in
      st\<lparr>pg_blocks := (if map_of (pg_blocks st) k \<noteq> None then update_rows (\<lambda>k' _. k' = k) (\<lambda>_. True) (pg_blocks st)
         else pg_blocks st @ [(k, True)])\<rparr>)"

definition recorded_change :: "record_planning_change_request \<Rightarrow> pg_planning_change" where
  "recorded_change req =
     \<lparr>pp_change_id = rpc_change_id req, pp_discovered_by = rpc_discovered_by req,
      pp_old_graph_version = rpc_old_graph_version req, pp_new_graph_version = rpc_new_graph_version req,
      pp_old_acceptance_contract = rpc_old_acceptance_contract req,
      pp_new_acceptance_contract = rpc_new_acceptance_contract req,
      pp_affected_work_ids = sorted_list_of_set (set (rpc_affected_work_ids req)),
      pp_cancel_split_relations = rpc_cancel_split_relations req, pp_continue_conditions = rpc_continue_conditions req,
      pp_status = ''affected_blocked'', pp_confirmed_by = None\<rparr>"

definition record_planning_change ::
  "string \<Rightarrow> pg_store \<Rightarrow> pg_store \<Rightarrow> scope \<Rightarrow> record_planning_change_request \<Rightarrow>
     (pg_error, (pg_planning_change \<times> string list \<times> selective_invalidation_receipt) \<times> pg_store) result" where
  "record_planning_change sql seen st sc req =
     then_ok
      (run_checks
        [refuse (rpc_now_ms req < 0 \<or> rpc_request_key req = [] \<or> rpc_change_id req = [] \<or> rpc_affected_work_ids req = [])
           (PgProtocol ''invalid planning change request''),
         refuse (rpc_old_graph_version req = rpc_new_graph_version req
             \<and> rpc_old_acceptance_contract req = rpc_new_acceptance_contract req)
           (PgProtocol ''planning change must alter graph or acceptance contract'')])
      (and_then (pg_load_receipt seen sc (rpc_request_key req) ''record_planning_change'')
        (\<lambda>found. case found of
           Some row \<Rightarrow> and_then (load_planning_change sql seen sc (rw_subject_id row))
             (\<lambda>change. Inr ((change, unrelated_of (pp_affected_work_ids change) (rpc_all_project_work_ids req),
                replay_receipt (rpc_request_key req) row), st))
         | None \<Rightarrow> then_ok (lock_project sql st sc)
             (let change = recorded_change req;
                  unrelated = unrelated_of (pp_affected_work_ids change) (rpc_all_project_work_ids req)
              in and_then (insert_row sql (sc, rpc_change_id req)
                   \<lparr>pcr_change = change, pcr_created_at_ms = rpc_now_ms req, pcr_decided_at_ms = None\<rparr> (pg_changes st))
                 (\<lambda>changes. let st1 = fold (upsert_block sc (rpc_change_id req)) (pp_affected_work_ids change)
                       (st\<lparr>pg_changes := changes\<rparr>) in
                   and_then (store_receipt sql sc (rpc_request_key req) (rpc_change_id req) ''record_planning_change''
                     (rpc_change_id req) (rpc_now_ms req) st1)
                   (\<lambda>st2. Inr ((change, unrelated, fresh_receipt (rpc_request_key req) (rpc_change_id req)
                     ''record_planning_change'' (rpc_now_ms req)), st2))))))"

definition decide_planning_change ::
  "string \<Rightarrow> pg_store \<Rightarrow> pg_store \<Rightarrow> scope \<Rightarrow> decide_planning_change_request \<Rightarrow> bool \<Rightarrow>
     (pg_error, (pg_planning_change \<times> selective_invalidation_receipt) \<times> pg_store) result" where
  "decide_planning_change sql seen st sc req confirm =
     then_ok (refuse (dp_now_ms req < 0 \<or> dp_request_key req = [] \<or> dp_actor_id req = [])
         (PgProtocol ''invalid planning decision request''))
      (let op = (if confirm then ''confirm_planning_change'' else ''reject_planning_change'');
           status = (if confirm then ''confirmed'' else ''rejected'')
       in and_then (pg_load_receipt seen sc (dp_request_key req) op)
        (\<lambda>found. case found of
           Some row \<Rightarrow> and_then (load_planning_change sql seen sc (rw_subject_id row))
             (\<lambda>change. Inr ((change, replay_receipt (dp_request_key req) row), st))
         | None \<Rightarrow> then_ok (lock_project sql st sc)
             (and_then (ok_or (map_of (pg_changes st) (sc, dp_change_id req)) (PgProtocol ''planning change missing''))
               (\<lambda>row. then_ok (refuse (pp_status (pcr_change row) \<noteq> ''affected_blocked'')
                     (PgProtocol ''only affected_blocked planning changes can be decided''))
                 (let st1 = st\<lparr>
                        pg_changes := update_rows (\<lambda>k _. k = (sc, dp_change_id req))
                          (\<lambda>r. r\<lparr>pcr_change := (pcr_change r)\<lparr>pp_status := status, pp_confirmed_by := Some (dp_actor_id req)\<rparr>,
                             pcr_decided_at_ms := Some (dp_now_ms req)\<rparr>) (pg_changes st),
                        pg_blocks := update_rows (\<lambda>(s, c, _) _. s = sc \<and> c = dp_change_id req) (\<lambda>_. False) (pg_blocks st)\<rparr>
                  in and_then (store_receipt sql sc (dp_request_key req) (dp_change_id req) op (dp_change_id req)
                        (dp_now_ms req) st1)
                     (\<lambda>st2. and_then (load_planning_change sql st2 sc (dp_change_id req))
                       (\<lambda>change. Inr ((change, fresh_receipt (dp_request_key req) (dp_change_id req) op (dp_now_ms req)), st2))))))))"

definition confirm_planning_change_pg where
  "confirm_planning_change_pg sql seen st sc req = decide_planning_change sql seen st sc req True"

definition reject_planning_change_pg where
  "reject_planning_change_pg sql seen st sc req = decide_planning_change sql seen st sc req False"

definition action_blocked :: "(string list \<Rightarrow> string) \<Rightarrow> pg_store \<Rightarrow> scope \<Rightarrow> string \<Rightarrow> string option" where
  "action_blocked first_of st sc work_id =
     (case map (\<lambda>((s, c, w), active). c) (filter (\<lambda>((s, c, w), active). s = sc \<and> w = work_id \<and> active) (pg_blocks st)) of
        [] \<Rightarrow> None
      | ids \<Rightarrow> Some (first_of ids))"

end
