(* ===== verification/Invalidation_Laws.thy ===== *)
theory Invalidation_Laws
  imports Invalidation_Store
begin

text \<open>
  Laws of the invalidation store: its decision functions are those of the runtime, its planning changes
  are a refinement of the runtime's, a request takes effect at most once, and a boundary check under the
  project lock sees every open change and every invalidated binding.
\<close>

section \<open>Tables\<close>

lemma insert_row_ok [simp]: "insert_row sql k v t = Inr t' \<longleftrightarrow> map_of t k = None \<and> t' = t @ [(k, v)]"
  by (auto simp: insert_row_def)

lemma map_of_update_rows: "map_of (update_rows cond f t) k = map_option (\<lambda>v. if cond k v then f v else v) (map_of t k)"
  by (induction t) (auto simp: update_rows_def)

lemma update_rows_keys [simp]: "map fst (update_rows cond f t) = map fst t"
  by (auto simp: update_rows_def)

lemma map_of_snoc: "map_of t k = None \<Longrightarrow> map_of (t @ [(k, v)]) = (map_of t)(k \<mapsto> v)"
  by (rule ext) (auto simp: map_add_def split: option.splits)

lemma distinct_snoc: "map_of t k = None \<Longrightarrow> distinct (map fst (t @ [(k, v)])) \<longleftrightarrow> distinct (map fst t)"
  by (auto simp: map_of_eq_None_iff)

lemma in_table: "distinct (map fst t) \<Longrightarrow> (k, v) \<in> set t \<longleftrightarrow> map_of t k = Some v"
  by (auto dest: map_of_SomeD)

lemma length_filter_pos: "length (filter P t) > 0 \<longleftrightarrow> (\<exists>x\<in>set t. P x)"
  by (auto simp: filter_empty_conv)

section \<open>The decision functions are those of the runtime\<close>

text \<open>The serde texts of the enumerations that a team edge carries as strings.\<close>

fun policy_text :: "delivery_version_policy \<Rightarrow> string" where
  "policy_text FixedDelivery = ''fixed_delivery''"
| "policy_text CurrentContract = ''current_contract''"

fun credential_text :: "adoption_credential_status \<Rightarrow> string" where
  "credential_text AcActive = ''active''"
| "credential_text AcStale = ''stale''"
| "credential_text AcRevoked = ''revoked''"

fun assessment_text :: "delivery_status \<Rightarrow> string" where
  "assessment_text DsSatisfied = ''satisfied''"
| "assessment_text DsWaiting = ''waiting''"
| "assessment_text DsStale = ''stale''"
| "assessment_text DsRevoked = ''revoked''"
| "assessment_text DsUnknown = ''unknown''"

definition as_team_edge :: "adopted_consumer_edge \<Rightarrow> pg_consumer_edge" where
  "as_team_edge e = \<lparr>pe_dependency_id = cdg_dependency_id e, pe_consumer_work_id = cdg_consumer_work_id e,
     pe_provider_work_id = cdg_provider_work_id e, pe_policy = policy_text (cdg_policy e),
     pe_credential_status = credential_text (cdg_credential_status e),
     pe_assessment_status = assessment_text (cdg_assessment_status e)\<rparr>"

definition as_runtime_snapshot :: "pg_boundary_snapshot \<Rightarrow> boundary_snapshot" where
  "as_runtime_snapshot s = \<lparr>sn_boundary = ps_boundary s, sn_work_id = ps_work_id s,
     sn_dependencies_satisfied = ps_dependencies_satisfied s,
     sn_revoke_or_invalidation_observed = ps_revoke_or_invalidation_observed s,
     sn_has_real_effects = ps_has_real_effects s, sn_unrelated_work_ids = ps_unrelated_work_ids s\<rparr>"

lemma enum_texts [simp]:
  "policy_text p = ''fixed_delivery'' \<longleftrightarrow> p = FixedDelivery"
  "credential_text c = ''revoked'' \<longleftrightarrow> c = AcRevoked"
  "assessment_text a = ''revoked'' \<longleftrightarrow> a = DsRevoked"
    apply (cases p; simp)
   apply (cases c; simp)
  apply (cases a; simp)
  done

lemma pg_change_needs_eq: "pg_change_needs (p = FixedDelivery) change = change_needs p change"
  by (cases p; cases change) simp_all

lemma edge_visit_agrees: "pg_edge_visit provider change (as_team_edge e) = edge_visit provider change e"
  by (simp add: fun_eq_iff pg_edge_visit_def edge_visit_def as_team_edge_def pg_change_needs_eq Let_def)

text \<open>
  C37: The decision functions that the team store keeps as copies of the runtime's are the same functions:
  on edges and snapshots that stand for each other they give the same plan and the same boundary decision.
\<close>
theorem team_mirror_agrees:
  "pg_select_downstream_reevaluation provider change (map as_team_edge es) all_works
     = select_downstream_reevaluation provider change es all_works
   \<and> pg_revalidate_execution_boundary s = revalidate_execution_boundary (as_runtime_snapshot s)"
proof -
  have "fold (pg_edge_visit provider change) (map as_team_edge es) = fold (edge_visit provider change) es"
    by (simp add: fold_map comp_def edge_visit_agrees fun_eq_iff)
  moreover have "(case ps_boundary s of BdPrepare \<Rightarrow> ''prepare revalidation blocked revoke/stale race''
      | BdDispatch \<Rightarrow> ''dispatch revalidation blocked revoke/stale race''
      | BdComplete \<Rightarrow> ''complete revalidation blocked revoke/stale race'') = blocked_reason (ps_boundary s)"
    by (cases "ps_boundary s") simp_all
  ultimately show ?thesis
    by (simp add: pg_select_downstream_reevaluation_def select_downstream_reevaluation_def as_runtime_snapshot_def
        pg_revalidate_execution_boundary_def revalidate_execution_boundary_def)
qed

section \<open>What a successful request did\<close>

lemma pg_load_receipt_cases:
  obtains (conflict) "pg_load_receipt st sc key op = Inl PgIdempotencyConflict"
  | (absent) "pg_load_receipt st sc key op = Inr None" "map_of (pg_receipts st) (sc, key) = None"
  | (found) row where "pg_load_receipt st sc key op = Inr (Some row)" "map_of (pg_receipts st) (sc, key) = Some row" "rw_op row = op"
proof (cases "map_of (pg_receipts st) (sc, key)")
  case (Some row)
  with that show ?thesis by (cases "rw_op row = op") (simp_all add: pg_load_receipt_def refuse_def then_ok_def)
qed (use that in \<open>simp add: pg_load_receipt_def\<close>)

lemma store_receipt_ok [simp]:
  "store_receipt sql sc key subject op event now st = Inr st' \<longleftrightarrow> map_of (pg_receipts st) (sc, key) = None
     \<and> st' = st\<lparr>pg_receipts := pg_receipts st @ [((sc, key),
          \<lparr>rw_subject_id = subject, rw_op = op, rw_event_id = event, rw_created_at_ms = now\<rparr>)]\<rparr>"
  by (auto simp: store_receipt_def)

lemma invalidate_bindings_keeps [simp]:
  "pg_projects (invalidate_bindings sc p ws st) = pg_projects st" "pg_events (invalidate_bindings sc p ws st) = pg_events st"
  "pg_checks (invalidate_bindings sc p ws st) = pg_checks st" "pg_changes (invalidate_bindings sc p ws st) = pg_changes st"
  "pg_blocks (invalidate_bindings sc p ws st) = pg_blocks st" "pg_receipts (invalidate_bindings sc p ws st) = pg_receipts st"
  unfolding invalidate_bindings_def by (induction ws arbitrary: st) simp_all

definition blocks_of :: "scope \<Rightarrow> string \<Rightarrow> string list \<Rightarrow> ((scope \<times> string \<times> string) \<times> bool) list \<Rightarrow> ((scope \<times> string \<times> string) \<times> bool) list" where
  "blocks_of sc change works t = fold (\<lambda>w t. if map_of t (sc, change, w) \<noteq> None
     then update_rows (\<lambda>k' _. k' = (sc, change, w)) (\<lambda>_. True) t else t @ [((sc, change, w), True)]) works t"

lemma upsert_blocks: "fold (upsert_block sc change) works st = st\<lparr>pg_blocks := blocks_of sc change works (pg_blocks st)\<rparr>"
  by (induction works arbitrary: st) (simp_all add: blocks_of_def upsert_block_def Let_def)

lemma apply_fresh:
  assumes "apply_selective_invalidation sql seen st sc req = Inr (r, st')"
    and "pg_load_receipt seen sc (si_request_key req) ''selective_invalidate'' = Inr None"
  defines "plan \<equiv> pg_select_downstream_reevaluation (si_provider_work_id req) (si_change req) (si_consumers req) (si_all_project_work_ids req)"
  shows "0 \<le> si_now_ms req" "si_request_key req \<noteq> []" "si_event_id req \<noteq> []"
    "map_of (pg_events st) (sc, si_event_id req) = None" "map_of (pg_receipts st) (sc, si_request_key req) = None"
    "r = (plan, fresh_receipt (si_request_key req) (si_event_id req) ''selective_invalidate'' (si_now_ms req))"
    "st' = (invalidate_bindings sc (si_provider_work_id req) (ip_reevaluate plan) st)\<lparr>
       pg_events := pg_events st @ [((sc, si_event_id req), \<lparr>ier_provider_work_id = si_provider_work_id req,
         ier_change_kind = provider_change_str (si_change req), ier_reevaluate = ip_reevaluate plan,
         ier_leave_valid = ip_leave_valid plan, ier_unaffected = ip_unaffected_work_ids plan, ier_created_at_ms = si_now_ms req\<rparr>)],
       pg_receipts := pg_receipts st @ [((sc, si_request_key req), \<lparr>rw_subject_id = si_event_id req, rw_op = ''selective_invalidate'',
         rw_event_id = si_event_id req, rw_created_at_ms = si_now_ms req\<rparr>)]\<rparr>"
  using assms(1,2) by (simp_all add: apply_selective_invalidation_def Let_def plan_def)

lemma revalidate_fresh:
  assumes "revalidate_boundary sql seen st sc req = Inr (r, st')"
    and "pg_load_receipt seen sc (br_request_key req) ''boundary_revalidate'' = Inr None"
  defines "s \<equiv> snapshot_under_lock st sc (br_snapshot req)" and "d \<equiv> pg_revalidate_execution_boundary (snapshot_under_lock st sc (br_snapshot req))"
  shows "0 \<le> br_now_ms req" "br_request_key req \<noteq> []" "br_check_id req \<noteq> []"
    "map_of (pg_checks st) (sc, br_check_id req) = None" "map_of (pg_receipts st) (sc, br_request_key req) = None"
    "r = (d, fresh_receipt (br_request_key req) (br_check_id req) ''boundary_revalidate'' (br_now_ms req))"
    "st' = st\<lparr>
       pg_checks := pg_checks st @ [((sc, br_check_id req), \<lparr>bx_work_id = ps_work_id s, bx_execution_id = ps_execution_id s,
          bx_boundary = boundary_str (ps_boundary s), bx_decision = decision_str (rv_decision d), bx_recovery_duty = rv_recovery_duty d,
          bx_erase_effects = rv_erase_effects d, bx_unrelated_may_continue = rv_unrelated_may_continue d, bx_reason = rv_reason d,
          bx_created_at_ms = br_now_ms req\<rparr>)],
       pg_receipts := pg_receipts st @ [((sc, br_request_key req), \<lparr>rw_subject_id = br_check_id req, rw_op = ''boundary_revalidate'',
         rw_event_id = br_check_id req, rw_created_at_ms = br_now_ms req\<rparr>)]\<rparr>"
  using assms(1,2) by (simp_all add: revalidate_boundary_def Let_def s_def d_def)

lemma record_fresh:
  assumes "record_planning_change sql seen st sc req = Inr (r, st')"
    and "pg_load_receipt seen sc (rpc_request_key req) ''record_planning_change'' = Inr None"
  defines "works \<equiv> sorted_list_of_set (set (rpc_affected_work_ids req))"
  shows "rpc_affected_work_ids req \<noteq> []"
    "rpc_old_graph_version req \<noteq> rpc_new_graph_version req \<or> rpc_old_acceptance_contract req \<noteq> rpc_new_acceptance_contract req"
    "map_of (pg_changes st) (sc, rpc_change_id req) = None" "map_of (pg_receipts st) (sc, rpc_request_key req) = None"
    "r = (recorded_change req, unrelated_of works (rpc_all_project_work_ids req),
          fresh_receipt (rpc_request_key req) (rpc_change_id req) ''record_planning_change'' (rpc_now_ms req))"
    "st' = st\<lparr>
       pg_changes := pg_changes st @ [((sc, rpc_change_id req), \<lparr>pcr_change = recorded_change req, pcr_created_at_ms = rpc_now_ms req,
          pcr_decided_at_ms = None\<rparr>)],
       pg_blocks := blocks_of sc (rpc_change_id req) works (pg_blocks st),
       pg_receipts := pg_receipts st @ [((sc, rpc_request_key req), \<lparr>rw_subject_id = rpc_change_id req, rw_op = ''record_planning_change'',
         rw_event_id = rpc_change_id req, rw_created_at_ms = rpc_now_ms req\<rparr>)]\<rparr>"
  using assms(1,2)
  by (simp_all add: record_planning_change_def Let_def works_def upsert_blocks recorded_change_def[of req])

definition decide_op :: "bool \<Rightarrow> string" where
  "decide_op confirm = (if confirm then ''confirm_planning_change'' else ''reject_planning_change'')"

definition decided :: "bool \<Rightarrow> string \<Rightarrow> pg_planning_change \<Rightarrow> pg_planning_change" where
  "decided confirm actor c = c\<lparr>pp_status := if confirm then ''confirmed'' else ''rejected'', pp_confirmed_by := Some actor\<rparr>"

lemma decide_fresh:
  assumes "decide_planning_change sql seen st sc req confirm = Inr (r, st')"
    and "pg_load_receipt seen sc (dp_request_key req) (decide_op confirm) = Inr None"
  shows "dp_actor_id req \<noteq> []"
    "map_of (pg_receipts st) (sc, dp_request_key req) = None"
    "\<exists>row. map_of (pg_changes st) (sc, dp_change_id req) = Some row \<and> pp_status (pcr_change row) = ''affected_blocked''
       \<and> fst r = decided confirm (dp_actor_id req) (pcr_change row)"
    "snd r = fresh_receipt (dp_request_key req) (dp_change_id req) (decide_op confirm) (dp_now_ms req)"
    "st' = st\<lparr>
       pg_changes := update_rows (\<lambda>k _. k = (sc, dp_change_id req))
         (\<lambda>row. row\<lparr>pcr_change := decided confirm (dp_actor_id req) (pcr_change row), pcr_decided_at_ms := Some (dp_now_ms req)\<rparr>) (pg_changes st),
       pg_blocks := update_rows (\<lambda>(s, c, _) _. s = sc \<and> c = dp_change_id req) (\<lambda>_. False) (pg_blocks st),
       pg_receipts := pg_receipts st @ [((sc, dp_request_key req), \<lparr>rw_subject_id = dp_change_id req, rw_op = decide_op confirm,
         rw_event_id = dp_change_id req, rw_created_at_ms = dp_now_ms req\<rparr>)]\<rparr>"
  using assms
  by (auto simp: decide_planning_change_def Let_def decide_op_def[symmetric] decided_def load_planning_change_def map_of_update_rows
      simp del: receipt_row_pg.simps)

section \<open>A request takes effect at most once\<close>

text \<open>What the operations of the store promise of their receipts.\<close>

locale receipted =
  fixes run :: "pg_store \<Rightarrow> pg_store \<Rightarrow> scope \<Rightarrow> 'q \<Rightarrow> (pg_error, 'r \<times> pg_store) result"
    and key :: "'q \<Rightarrow> string" and opname :: string and receipt_of :: "'r \<Rightarrow> selective_invalidation_receipt"
  assumes conflict: "pg_load_receipt seen sc (key req) opname = Inl e \<Longrightarrow> \<not> is_ok (run seen st sc req)"
    and replay: "pg_load_receipt seen sc (key req) opname = Inr (Some row) \<Longrightarrow> run seen st sc req = Inr (r, st')
      \<Longrightarrow> st' = st \<and> receipt_of r = replay_receipt (key req) row"
    and fresh: "pg_load_receipt seen sc (key req) opname = Inr None \<Longrightarrow> run seen st sc req = Inr (r, st')
      \<Longrightarrow> map_of (pg_receipts st) (sc, key req) = None \<and> \<not> ir_replayed (receipt_of r)
        \<and> (\<exists>row. rw_op row = opname \<and> pg_receipts st' = pg_receipts st @ [((sc, key req), row)]
             \<and> replay_receipt (key req) row = (receipt_of r)\<lparr>ir_replayed := True\<rparr>)"
begin

lemma outcomes:
  assumes "run seen st sc req = Inr (r, st')"
  obtains (again) row where "st' = st" "receipt_of r = replay_receipt (key req) row"
  | (first) row where "pg_load_receipt seen sc (key req) opname = Inr None" "map_of (pg_receipts st) (sc, key req) = None"
      "rw_op row = opname" "pg_receipts st' = pg_receipts st @ [((sc, key req), row)]"
      "replay_receipt (key req) row = (receipt_of r)\<lparr>ir_replayed := True\<rparr>"
proof (cases "pg_load_receipt seen sc (key req) opname")
  case (Inl e)
  with conflict[OF Inl, of st] assms show ?thesis by (simp add: is_ok_iff)
next
  case (Inr found)
  with assms replay fresh that show ?thesis by (cases found) blast+
qed

lemma unless_replayed:
  assumes "run seen st sc req = Inr (r, st')" and "P st" and "pg_load_receipt seen sc (key req) opname = Inr None \<Longrightarrow> P st'"
  shows "P st'"
  using assms(1) by (rule outcomes) (use assms(2,3) in simp_all)

lemma at_most_once: "run seen st sc req = Inr (r, st') \<Longrightarrow> map_of (pg_receipts st) (sc, key req) \<noteq> None \<Longrightarrow> st' = st"
  by (erule outcomes) simp_all

lemma not_replayed:
  "run seen st sc req = Inr (r, st') \<Longrightarrow> \<not> ir_replayed (receipt_of r) \<Longrightarrow> pg_load_receipt seen sc (key req) opname = Inr None"
  by (erule outcomes) (simp_all add: replay_receipt_def)

lemma receipts_grow: "run seen st sc req = Inr (r, st') \<Longrightarrow> map_of (pg_receipts st) \<subseteq>\<^sub>m map_of (pg_receipts st')"
  by (erule outcomes) (auto simp: map_of_snoc map_le_def simp del: map_of_append)

lemma leaves_receipt:
  "run seen st sc req = Inr (r, st') \<Longrightarrow> \<not> ir_replayed (receipt_of r) \<Longrightarrow> \<exists>row. map_of (pg_receipts st') (sc, key req) = Some row
     \<and> rw_op row = opname \<and> replay_receipt (key req) row = (receipt_of r)\<lparr>ir_replayed := True\<rparr>"
  by (erule outcomes) (simp_all add: map_of_snoc replay_receipt_def del: map_of_append)

lemma other_operation_refused:
  assumes "map_of (pg_receipts seen) (sc, key req) = Some row" and "rw_op row \<noteq> opname"
  shows "\<not> is_ok (run seen st sc req)"
  using assms by (intro conflict[of seen sc req PgIdempotencyConflict]) (simp add: pg_load_receipt_def refuse_def then_ok_def)

end

interpretation inval: receipted "apply_selective_invalidation sql" si_request_key "''selective_invalidate''" snd for sql
proof (unfold_locales, goal_cases)
  case (3 seen sc req st r st')
  from apply_fresh[OF 3(2,1)] show ?case by (simp add: fresh_receipt_def replay_receipt_def)
qed (auto simp: apply_selective_invalidation_def is_ok_iff)

interpretation bound: receipted "revalidate_boundary sql" br_request_key "''boundary_revalidate''" snd for sql
proof (unfold_locales, goal_cases)
  case (3 seen sc req st r st')
  from revalidate_fresh[OF 3(2,1)] show ?case by (simp add: fresh_receipt_def replay_receipt_def)
qed (auto simp: revalidate_boundary_def is_ok_iff)

interpretation recd: receipted "record_planning_change sql" rpc_request_key "''record_planning_change''" "\<lambda>r. snd (snd r)" for sql
proof (unfold_locales, goal_cases)
  case (3 seen sc req st r st')
  from record_fresh[OF 3(2,1)] show ?case by (simp add: fresh_receipt_def replay_receipt_def)
qed (auto simp: record_planning_change_def is_ok_iff)

interpretation decd: receipted "\<lambda>seen st sc req. decide_planning_change sql seen st sc req confirm" dp_request_key "decide_op confirm" snd for sql confirm
proof (unfold_locales, goal_cases)
  case (3 seen sc req st r st')
  from decide_fresh[OF 3(2,1)] show ?case by (simp add: fresh_receipt_def replay_receipt_def)
qed (auto simp: decide_planning_change_def decide_op_def is_ok_iff Let_def)

section \<open>Histories of the store\<close>

datatype (plugins only: code size) team_request =
    QInvalidate selective_invalidate_request | QCheck boundary_revalidate_request
  | QRecord record_planning_change_request | QDecide decide_planning_change_request bool

fun request_key_of :: "team_request \<Rightarrow> string" where
  "request_key_of (QInvalidate req) = si_request_key req"
| "request_key_of (QCheck req) = br_request_key req"
| "request_key_of (QRecord req) = rpc_request_key req"
| "request_key_of (QDecide req _) = dp_request_key req"

fun request_op :: "team_request \<Rightarrow> string" where
  "request_op (QInvalidate _) = ''selective_invalidate''"
| "request_op (QCheck _) = ''boundary_revalidate''"
| "request_op (QRecord _) = ''record_planning_change''"
| "request_op (QDecide _ confirm) = decide_op confirm"

fun serve :: "string \<Rightarrow> pg_store \<Rightarrow> pg_store \<Rightarrow> scope \<Rightarrow> team_request \<Rightarrow> (pg_error, selective_invalidation_receipt \<times> pg_store) result" where
  "serve sql seen st sc (QInvalidate req) = and_then (apply_selective_invalidation sql seen st sc req) (\<lambda>((_, r), st'). Inr (r, st'))"
| "serve sql seen st sc (QCheck req) = and_then (revalidate_boundary sql seen st sc req) (\<lambda>((_, r), st'). Inr (r, st'))"
| "serve sql seen st sc (QRecord req) = and_then (record_planning_change sql seen st sc req) (\<lambda>((_, _, r), st'). Inr (r, st'))"
| "serve sql seen st sc (QDecide req confirm) = and_then
     ((if confirm then confirm_planning_change_pg else reject_planning_change_pg) sql seen st sc req) (\<lambda>((_, r), st'). Inr (r, st'))"

lemma decide_variants: "(if confirm then confirm_planning_change_pg else reject_planning_change_pg) sql seen st sc req
   = decide_planning_change sql seen st sc req confirm"
  by (simp add: confirm_planning_change_pg_def reject_planning_change_pg_def)

text \<open>A step serves one request, or another component writes the bindings.\<close>

inductive team_step :: "string \<Rightarrow> pg_store \<Rightarrow> pg_store \<Rightarrow> bool" for sql where
  served: "serve sql seen st sc q = Inr (r, st') \<Longrightarrow> team_step sql st st'"
| bound: "team_step sql st (st\<lparr>pg_bindings := b\<rparr>)"

inductive_cases team_stepE: "team_step sql st st'"


text \<open>Receipts, events and checks are never altered and no change is ever removed.\<close>

definition grows :: "pg_store \<Rightarrow> pg_store \<Rightarrow> bool" where
  "grows st st' \<longleftrightarrow> map_of (pg_receipts st) \<subseteq>\<^sub>m map_of (pg_receipts st') \<and> map_of (pg_events st) \<subseteq>\<^sub>m map_of (pg_events st')
     \<and> map_of (pg_checks st) \<subseteq>\<^sub>m map_of (pg_checks st') \<and> dom (map_of (pg_changes st)) \<subseteq> dom (map_of (pg_changes st'))"

lemma grows_refl [simp]: "grows st st"
  by (simp add: grows_def)

lemma grows_trans: "grows st st' \<Longrightarrow> grows st' st'' \<Longrightarrow> grows st st''"
  unfolding grows_def by (meson map_le_trans order_trans)

lemma snoc_le: "map_of t k = None \<Longrightarrow> map_of t \<subseteq>\<^sub>m map_of (t @ [(k, v)])"
  by (auto simp: map_of_snoc map_le_def simp del: map_of_append)

lemma snoc_dom: "dom (map_of t) \<subseteq> dom (map_of (t @ [(k, v)]))"
  by auto

lemma update_dom [simp]: "dom (map_of (update_rows cond f t)) = dom (map_of t)"
  by (auto simp: map_of_update_rows)

lemma apply_grows:
  assumes ok: "apply_selective_invalidation sql seen st sc req = Inr (r, st')"
  shows "grows st st'"
proof (rule inval.unless_replayed[OF ok])
  assume new: "pg_load_receipt seen sc (si_request_key req) ''selective_invalidate'' = Inr None"
  show "grows st st'" unfolding apply_fresh(7)[OF ok new] using apply_fresh(4,5)[OF ok new]
    by (simp add: grows_def snoc_le del: map_of_append dom_map_add)
qed simp

lemma check_grows:
  assumes ok: "revalidate_boundary sql seen st sc req = Inr (r, st')"
  shows "grows st st'"
proof (rule bound.unless_replayed[OF ok])
  assume new: "pg_load_receipt seen sc (br_request_key req) ''boundary_revalidate'' = Inr None"
  show "grows st st'" unfolding revalidate_fresh(7)[OF ok new] using revalidate_fresh(4,5)[OF ok new]
    by (simp add: grows_def snoc_le del: map_of_append dom_map_add)
qed simp

lemma record_grows:
  assumes ok: "record_planning_change sql seen st sc req = Inr (r, st')"
  shows "grows st st'"
proof (rule recd.unless_replayed[OF ok])
  assume new: "pg_load_receipt seen sc (rpc_request_key req) ''record_planning_change'' = Inr None"
  show "grows st st'" unfolding record_fresh(6)[OF ok new] using record_fresh(3,4)[OF ok new]
    by (simp add: grows_def snoc_le snoc_dom del: map_of_append dom_map_add)
qed simp

lemma decide_grows:
  assumes ok: "decide_planning_change sql seen st sc req confirm = Inr (r, st')"
  shows "grows st st'"
proof (rule decd.unless_replayed[OF ok])
  assume new: "pg_load_receipt seen sc (dp_request_key req) (decide_op confirm) = Inr None"
  show "grows st st'" unfolding decide_fresh(5)[OF ok new] using decide_fresh(2)[OF ok new]
    by (simp add: grows_def snoc_le del: map_of_append dom_map_add)
qed simp

lemma serve_grows: "serve sql seen st sc q = Inr (r, st') \<Longrightarrow> grows st st'"
  by (cases q) (auto simp: decide_variants dest: apply_grows check_grows record_grows decide_grows split: prod.splits)

lemma step_grows: "(team_step sql)\<^sup>*\<^sup>* st st' \<Longrightarrow> grows st st'"
proof (induction rule: rtranclp_induct)
  case (step t u)
  from step.hyps(2) have "grows t u" by cases (simp add: serve_grows, simp add: grows_def)
  with step.IH show ?case by (rule grows_trans)
qed simp

lemma parse_str [simp]:
  "provider_change_parse (provider_change_str k) = Inr k" "boundary_parse (boundary_str b) = Inr b" "decision_parse (decision_str d) = Inr d"
    apply (cases k; simp)
   apply (cases b; simp)
  apply (cases d; simp)
  done

lemma le_Some: "m \<subseteq>\<^sub>m m' \<Longrightarrow> m k = Some v \<Longrightarrow> m' k = Some v"
  by (metis map_le_def domI)

lemma grown_receipt:
  assumes "grows st1 st2" and "pg_receipts st1 = t @ [((sc, key), row)]" and "map_of t (sc, key) = None" and "rw_op row = op"
  shows "pg_load_receipt st2 sc key op = Inr (Some row)"
proof -
  from assms(2,3) have "map_of (pg_receipts st1) (sc, key) = Some row" by (simp add: map_of_snoc del: map_of_append)
  with assms(1) have "map_of (pg_receipts st2) (sc, key) = Some row" unfolding grows_def by (blast intro: le_Some)
  with assms(4) show ?thesis by (simp add: pg_load_receipt_def refuse_def then_ok_def)
qed

lemma grown_row: "m \<subseteq>\<^sub>m map_of t' \<Longrightarrow> m = map_of (t @ [(k, v)]) \<Longrightarrow> map_of t k = None \<Longrightarrow> map_of t' k = Some v"
  by (auto simp: map_le_def map_of_snoc simp del: map_of_append)

lemma apply_answers:
  assumes ok: "apply_selective_invalidation sql seen st sc req = Inr ((plan, r), st1)" and new: "\<not> ir_replayed r" and "grows st1 st2"
  shows "apply_selective_invalidation sql st2 st2 sc req = Inr ((plan, r\<lparr>ir_replayed := True\<rparr>), st2)"
proof -
  from inval.not_replayed[OF ok] new have none: "pg_load_receipt seen sc (si_request_key req) ''selective_invalidate'' = Inr None" by simp
  note f = apply_fresh[OF ok none]
  have "pg_load_receipt st2 sc (si_request_key req) ''selective_invalidate'' = Inr (Some \<lparr>rw_subject_id = si_event_id req,
      rw_op = ''selective_invalidate'', rw_event_id = si_event_id req, rw_created_at_ms = si_now_ms req\<rparr>)"
    using f(5,7) by (intro grown_receipt[OF assms(3)]) simp_all
  moreover have "load_plan sql st2 sc (si_event_id req) = Inr plan"
  proof -
    have "map_of (pg_events st1) \<subseteq>\<^sub>m map_of (pg_events st2)" using assms(3) by (simp add: grows_def)
    from grown_row[OF this _ f(4)] f(6,7) show ?thesis
      by (simp add: load_plan_def pg_select_downstream_reevaluation_def Let_def del: provider_change_parse.simps split: prod.splits)
  qed
  ultimately show ?thesis using f(1,2,3,6)
    by (simp add: apply_selective_invalidation_def then_ok_def and_then_def refuse_def replay_receipt_def fresh_receipt_def)
qed

lemma check_answers:
  assumes ok: "revalidate_boundary sql seen st sc req = Inr ((d, r), st1)" and new: "\<not> ir_replayed r" and "grows st1 st2"
  shows "revalidate_boundary sql st2 st2 sc req = Inr ((d, r\<lparr>ir_replayed := True\<rparr>), st2)"
proof -
  from bound.not_replayed[OF ok] new have none: "pg_load_receipt seen sc (br_request_key req) ''boundary_revalidate'' = Inr None" by simp
  note f = revalidate_fresh[OF ok none]
  have "pg_load_receipt st2 sc (br_request_key req) ''boundary_revalidate'' = Inr (Some \<lparr>rw_subject_id = br_check_id req,
      rw_op = ''boundary_revalidate'', rw_event_id = br_check_id req, rw_created_at_ms = br_now_ms req\<rparr>)"
    using f(5,7) by (intro grown_receipt[OF assms(3)]) simp_all
  moreover have "load_boundary sql st2 sc (br_check_id req) = Inr d"
  proof -
    have "map_of (pg_checks st1) \<subseteq>\<^sub>m map_of (pg_checks st2)" using assms(3) by (simp add: grows_def)
    from grown_row[OF this _ f(4)] f(6,7) show ?thesis by (simp add: load_boundary_def del: decision_parse.simps)
  qed
  ultimately show ?thesis using f(1,2,3,6)
    by (simp add: revalidate_boundary_def then_ok_def and_then_def refuse_def replay_receipt_def fresh_receipt_def)
qed

text \<open>A planning change is answered as it stands by then, with the receipt of the first time.\<close>

lemma record_answers:
  assumes ok: "record_planning_change sql seen st sc req = Inr ((c, u, r), st1)" and new: "\<not> ir_replayed r" and "grows st1 st2"
  shows "\<exists>c' u'. record_planning_change sql st2 st2 sc req = Inr ((c', u', r\<lparr>ir_replayed := True\<rparr>), st2)"
proof -
  from recd.not_replayed[OF ok] new have none: "pg_load_receipt seen sc (rpc_request_key req) ''record_planning_change'' = Inr None" by simp
  note f = record_fresh[OF ok none]
  have "pg_load_receipt st2 sc (rpc_request_key req) ''record_planning_change'' = Inr (Some \<lparr>rw_subject_id = rpc_change_id req,
      rw_op = ''record_planning_change'', rw_event_id = rpc_change_id req, rw_created_at_ms = rpc_now_ms req\<rparr>)"
    using f(4,6) by (intro grown_receipt[OF assms(3)]) simp_all
  moreover have "(sc, rpc_change_id req) \<in> dom (map_of (pg_changes st2))" using assms(3) f(6) by (auto simp: grows_def)
  then obtain c' where "load_planning_change sql st2 sc (rpc_change_id req) = Inr c'" by (auto simp: load_planning_change_def)
  moreover from ok have "0 \<le> rpc_now_ms req" "rpc_request_key req \<noteq> []" "rpc_change_id req \<noteq> []" by (simp_all add: record_planning_change_def)
  ultimately show ?thesis using f(1,2,5)
    by (simp add: record_planning_change_def then_ok_def and_then_def refuse_def run_checks.simps replay_receipt_def fresh_receipt_def)
qed

lemma decide_answers:
  assumes ok: "decide_planning_change sql seen st sc req confirm = Inr ((c, r), st1)" and new: "\<not> ir_replayed r" and "grows st1 st2"
  shows "\<exists>c'. decide_planning_change sql st2 st2 sc req confirm = Inr ((c', r\<lparr>ir_replayed := True\<rparr>), st2)"
proof -
  from decd.not_replayed[OF ok] new have none: "pg_load_receipt seen sc (dp_request_key req) (decide_op confirm) = Inr None" by simp
  note f = decide_fresh[OF ok none]
  have "pg_load_receipt st2 sc (dp_request_key req) (decide_op confirm) = Inr (Some \<lparr>rw_subject_id = dp_change_id req,
      rw_op = decide_op confirm, rw_event_id = dp_change_id req, rw_created_at_ms = dp_now_ms req\<rparr>)"
    using f(2,5) by (intro grown_receipt[OF assms(3)]) simp_all
  moreover have "(sc, dp_change_id req) \<in> dom (map_of (pg_changes st2))" using assms(3) f(3,5) by (auto simp: grows_def)
  then obtain c' where "load_planning_change sql st2 sc (dp_change_id req) = Inr c'" by (auto simp: load_planning_change_def)
  moreover from ok have "0 \<le> dp_now_ms req" "dp_request_key req \<noteq> []" by (simp_all add: decide_planning_change_def)
  ultimately show ?thesis using f(1,4)
    by (simp add: decide_planning_change_def decide_op_def[symmetric] then_ok_def and_then_def refuse_def replay_receipt_def fresh_receipt_def)
qed

lemma serve_answers:
  assumes "serve sql seen st sc q = Inr (r, st1)" and "\<not> ir_replayed r" and "grows st1 st2"
  shows "serve sql st2 st2 sc q = Inr (r\<lparr>ir_replayed := True\<rparr>, st2)"
proof (cases q)
  case (QInvalidate req)
  with assms apply_answers[OF _ assms(2,3)] show ?thesis by (auto simp: and_then_def split: sum.splits prod.splits)
next
  case (QCheck req)
  with assms check_answers[OF _ assms(2,3)] show ?thesis by (auto simp: and_then_def split: sum.splits prod.splits)
next
  case (QRecord req)
  with assms record_answers[OF _ assms(2,3)] show ?thesis by (fastforce simp: and_then_def split: sum.splits prod.splits)
next
  case (QDecide req confirm)
  with assms decide_answers[OF _ assms(2,3)] show ?thesis unfolding QDecide serve.simps decide_variants
    by (fastforce simp: and_then_def decide_variants split: sum.splits prod.splits)
qed

lemma serve_leaves_receipt:
  assumes "serve sql seen st sc q = Inr (r, st')" and "\<not> ir_replayed r"
  shows "\<exists>row. map_of (pg_receipts st') (sc, request_key_of q) = Some row \<and> rw_op row = request_op q"
  using assms
  by (cases q) (auto simp: decide_variants dest: inval.leaves_receipt bound.leaves_receipt recd.leaves_receipt decd.leaves_receipt split: prod.splits)

lemma serve_at_most_once:
  "serve sql seen st sc q = Inr (r, st') \<Longrightarrow> map_of (pg_receipts st) (sc, request_key_of q) \<noteq> None \<Longrightarrow> st' = st"
  by (cases q) (auto simp: decide_variants dest: inval.at_most_once bound.at_most_once recd.at_most_once decd.at_most_once split: prod.splits)

lemma serve_other_operation:
  assumes "map_of (pg_receipts seen) (sc, request_key_of q) = Some row" and "rw_op row \<noteq> request_op q"
  shows "\<not> is_ok (serve sql seen st sc q)"
  using assms
  by (cases q) (auto simp: decide_variants is_ok_iff
      dest: inval.other_operation_refused[of _ _ _ _ sql st] bound.other_operation_refused[of _ _ _ _ sql st]
        recd.other_operation_refused[of _ _ _ _ sql st] decd.other_operation_refused[of _ _ _ _ _ sql st])

text \<open>
  C11: A request takes effect at most once and is answered for ever. After a request was served afresh, at
  any later state the same request gives the receipt of the first time, marked as replayed, and changes
  nothing; no request under the same key changes anything, even if it looked its receipt up before the
  first one committed; and under that key any other operation is refused.
\<close>
theorem request_takes_effect_once:
  assumes "serve sql seen st sc q = Inr (r, st1)" and "\<not> ir_replayed r" and "(team_step sql)\<^sup>*\<^sup>* st1 st2"
  shows "serve sql st2 st2 sc q = Inr (r\<lparr>ir_replayed := True\<rparr>, st2)
     \<and> (\<forall>seen' q' r' st3. request_key_of q' = request_key_of q \<longrightarrow> serve sql seen' st2 sc q' = Inr (r', st3) \<longrightarrow> st3 = st2)
     \<and> (\<forall>q'. request_key_of q' = request_key_of q \<longrightarrow> request_op q' \<noteq> request_op q \<longrightarrow> \<not> is_ok (serve sql st2 st2 sc q'))"
proof -
  note g = step_grows[OF assms(3)]
  obtain row where row: "map_of (pg_receipts st1) (sc, request_key_of q) = Some row" "rw_op row = request_op q"
    using serve_leaves_receipt[OF assms(1,2)] by blast
  with g have later: "map_of (pg_receipts st2) (sc, request_key_of q) = Some row" unfolding grows_def by (blast intro: le_Some)
  show ?thesis
    using serve_answers[OF assms(1,2) g] serve_at_most_once serve_other_operation later row(2) by (metis option.distinct(1))
qed

definition ex_tables :: pg_store where
  "ex_tables = \<lparr>pg_projects = {(''t'', ''p'')}, pg_bindings = [(((''t'', ''p''), ''sdk'', ''api''), True)], pg_events = [],
     pg_checks = [], pg_changes = [], pg_blocks = [], pg_receipts = []\<rparr>"

definition ex_record :: record_planning_change_request where
  "ex_record = \<lparr>rpc_request_key = ''k1'', rpc_change_id = ''pc'', rpc_discovered_by = ''a'', rpc_old_graph_version = ''g1'',
     rpc_new_graph_version = ''g2'', rpc_old_acceptance_contract = ''c1'', rpc_new_acceptance_contract = ''c1'',
     rpc_affected_work_ids = [''sdk''], rpc_cancel_split_relations = [], rpc_continue_conditions = [],
     rpc_all_project_work_ids = [''sdk'', ''docs''], rpc_now_ms = 5\<rparr>"

definition ex_decide :: decide_planning_change_request where
  "ex_decide = \<lparr>dp_request_key = ''k2'', dp_change_id = ''pc'', dp_actor_id = ''owner'', dp_now_ms = 6\<rparr>"

lemma is_ok_and_then: "is_ok (and_then m f) \<Longrightarrow> \<exists>x. m = Inr x \<and> is_ok (f x)"
  by (auto simp: is_ok_iff)

theorem request_takes_effect_once_witness:
  "\<exists>r st1 st2. serve ''db'' ex_tables ex_tables (''t'', ''p'') (QRecord ex_record) = Inr (r, st1) \<and> \<not> ir_replayed r
     \<and> (team_step ''db'')\<^sup>*\<^sup>* st1 st2 \<and> st2 \<noteq> st1
     \<and> serve ''db'' st2 st2 (''t'', ''p'') (QRecord ex_record) = Inr (r\<lparr>ir_replayed := True\<rparr>, st2)"
proof -
  have "is_ok (and_then (serve ''db'' ex_tables ex_tables (''t'', ''p'') (QRecord ex_record))
       (\<lambda>(r, st1). if ir_replayed r then Inl PgForbidden else
         and_then (serve ''db'' st1 st1 (''t'', ''p'') (QDecide ex_decide True))
           (\<lambda>(_, st2). if length (pg_receipts st2) = length (pg_receipts st1) then Inl PgForbidden else Inr ())))"
    by code_simp
  then obtain r st1 r' st2 where run: "serve ''db'' ex_tables ex_tables (''t'', ''p'') (QRecord ex_record) = Inr (r, st1)" "\<not> ir_replayed r"
      "serve ''db'' st1 st1 (''t'', ''p'') (QDecide ex_decide True) = Inr (r', st2)" and "length (pg_receipts st2) \<noteq> length (pg_receipts st1)"
    by (fastforce dest!: is_ok_and_then split: if_splits)
  from team_step.served[OF run(3)] have steps: "(team_step ''db'')\<^sup>*\<^sup>* st1 st2" by blast
  from request_takes_effect_once[OF run(1,2) steps]
  have "serve ''db'' st2 st2 (''t'', ''p'') (QRecord ex_record) = Inr (r\<lparr>ir_replayed := True\<rparr>, st2)" by (rule conjunct1)
  moreover have "st2 \<noteq> st1" using \<open>length (pg_receipts st2) \<noteq> _\<close> by blast
  ultimately show ?thesis using run(1,2) steps by blast
qed

section \<open>Blocks follow the open changes\<close>

definition change_open :: "change_row \<Rightarrow> bool" where
  "change_open row \<longleftrightarrow> pp_status (pcr_change row) = ''affected_blocked''"

definition change_row_ok :: "string \<Rightarrow> change_row \<Rightarrow> bool" where
  "change_row_ok i row \<longleftrightarrow> pp_change_id (pcr_change row) = i \<and> pp_affected_work_ids (pcr_change row) \<noteq> []
     \<and> sorted (pp_affected_work_ids (pcr_change row)) \<and> distinct (pp_affected_work_ids (pcr_change row))
     \<and> (if change_open row then pp_confirmed_by (pcr_change row) = None \<and> pcr_decided_at_ms row = None
        else pp_status (pcr_change row) \<in> {''confirmed'', ''rejected''}
          \<and> (\<exists>who ms. pp_confirmed_by (pcr_change row) = Some who \<and> who \<noteq> [] \<and> pcr_decided_at_ms row = Some ms))"

definition block_expected :: "change_row option \<Rightarrow> string \<Rightarrow> bool option" where
  "block_expected found w = (case found of None \<Rightarrow> None
     | Some row \<Rightarrow> if w \<in> set (pp_affected_work_ids (pcr_change row)) then Some (change_open row) else None)"

definition tables_ok :: "pg_store \<Rightarrow> bool" where
  "tables_ok st \<longleftrightarrow> distinct (map fst (pg_changes st)) \<and> distinct (map fst (pg_blocks st))
     \<and> (\<forall>s c row. map_of (pg_changes st) (s, c) = Some row \<longrightarrow> change_row_ok c row)
     \<and> (\<forall>s c w. map_of (pg_blocks st) (s, c, w) = block_expected (map_of (pg_changes st) (s, c)) w)"

lemma tables_okD:
  assumes "tables_ok st"
  shows "distinct (map fst (pg_changes st))" "distinct (map fst (pg_blocks st))"
    "map_of (pg_changes st) (s, c) = Some row \<Longrightarrow> change_row_ok c row"
    "map_of (pg_blocks st) (s, c, w) = block_expected (map_of (pg_changes st) (s, c)) w"
  using assms unfolding tables_ok_def by blast+

lemma map_of_blocks_of:
  "map_of (blocks_of sc c ws t) k = (if \<exists>w\<in>set ws. k = (sc, c, w) then Some True else map_of t k)"
proof (induction ws arbitrary: t)
  case (Cons w ws)
  have visit: "map_of (if map_of t (sc, c, w) \<noteq> None then update_rows (\<lambda>k' _. k' = (sc, c, w)) (\<lambda>_. True) t
      else t @ [((sc, c, w), True)]) k = (if k = (sc, c, w) then Some True else map_of t k)"
    by (auto simp: map_of_update_rows map_of_snoc option.map_ident simp del: map_of_append)
  show ?case using Cons.IH visit by (auto simp: blocks_of_def)
qed (simp add: blocks_of_def)

lemma distinct_blocks_of: "distinct (map fst t) \<Longrightarrow> distinct (map fst (blocks_of sc c ws t))"
proof (induction ws arbitrary: t)
  case (Cons w ws)
  have "distinct (map fst (if map_of t (sc, c, w) \<noteq> None then update_rows (\<lambda>k' _. k' = (sc, c, w)) (\<lambda>_. True) t
      else t @ [((sc, c, w), True)]))" using Cons.prems by (auto simp: map_of_eq_None_iff)
  with Cons.IH show ?case by (simp add: blocks_of_def)
qed (simp add: blocks_of_def)

lemma record_keeps:
  assumes ok: "record_planning_change sql seen st sc req = Inr (r, st')" and "tables_ok st"
  shows "tables_ok st'"
proof (rule recd.unless_replayed[OF ok])
  assume new: "pg_load_receipt seen sc (rpc_request_key req) ''record_planning_change'' = Inr None"
  note f = record_fresh[OF ok new]
  let ?row = "\<lparr>pcr_change = recorded_change req, pcr_created_at_ms = rpc_now_ms req, pcr_decided_at_ms = None\<rparr>"
  have changes: "map_of (pg_changes st') = (map_of (pg_changes st))((sc, rpc_change_id req) \<mapsto> ?row)"
    unfolding f(6) using f(3) by (simp add: map_of_snoc del: map_of_append)
  have row: "change_row_ok (rpc_change_id req) ?row" "change_open ?row"
    using f(1) by (simp_all add: change_row_ok_def change_open_def recorded_change_def)
  show "tables_ok st'" unfolding tables_ok_def changes
  proof (intro conjI allI impI)
    show "distinct (map fst (pg_changes st'))" "distinct (map fst (pg_blocks st'))" unfolding f(6) using assms(2) f(3)
      by (simp_all add: tables_ok_def distinct_snoc distinct_blocks_of del: map_append)
    show "change_row_ok c row" if "((map_of (pg_changes st))((sc, rpc_change_id req) \<mapsto> ?row)) (s, c) = Some row" for s c row
      using that row(1) tables_okD(3)[OF assms(2), of s c row] by (cases "(s, c) = (sc, rpc_change_id req)") auto
    show "map_of (pg_blocks st') (s, c, w) = block_expected (((map_of (pg_changes st))((sc, rpc_change_id req) \<mapsto> ?row)) (s, c)) w" for s c w
      unfolding f(6) using f(3) row(2)
      by (simp add: tables_okD(4)[OF assms(2)] map_of_blocks_of block_expected_def recorded_change_def)
  qed
qed (rule assms(2))

lemma decided_fields [simp]:
  "pp_change_id (decided confirm who c) = pp_change_id c" "pp_affected_work_ids (decided confirm who c) = pp_affected_work_ids c"
  "pp_status (decided confirm who c) = (if confirm then ''confirmed'' else ''rejected'')" "pp_confirmed_by (decided confirm who c) = Some who"
  by (simp_all add: decided_def)

lemma decide_keeps:
  assumes ok: "decide_planning_change sql seen st sc req confirm = Inr (r, st')" and "tables_ok st"
  shows "tables_ok st'"
proof (rule decd.unless_replayed[OF ok])
  assume new: "pg_load_receipt seen sc (dp_request_key req) (decide_op confirm) = Inr None"
  note f = decide_fresh[OF ok new]
  then obtain row where row: "map_of (pg_changes st) (sc, dp_change_id req) = Some row" by blast
  let ?row = "row\<lparr>pcr_change := decided confirm (dp_actor_id req) (pcr_change row), pcr_decided_at_ms := Some (dp_now_ms req)\<rparr>"
  have changes: "map_of (pg_changes st') = (map_of (pg_changes st))((sc, dp_change_id req) \<mapsto> ?row)"
    unfolding f(5) using row by (auto simp: map_of_update_rows fun_eq_iff option.map_ident)
  have closed: "change_row_ok (dp_change_id req) ?row" "\<not> change_open ?row"
    using tables_okD(3)[OF assms(2) row] f(1) by (simp_all add: change_row_ok_def change_open_def)
  show "tables_ok st'" unfolding tables_ok_def changes
  proof (intro conjI allI impI)
    show "distinct (map fst (pg_changes st'))" "distinct (map fst (pg_blocks st'))" unfolding f(5) using assms(2)
      by (simp_all add: tables_ok_def)
    show "change_row_ok c row'" if "((map_of (pg_changes st))((sc, dp_change_id req) \<mapsto> ?row)) (s, c) = Some row'" for s c row'
      using that closed(1) tables_okD(3)[OF assms(2), of s c row'] by (cases "(s, c) = (sc, dp_change_id req)") auto
    show "map_of (pg_blocks st') (s, c, w) = block_expected (((map_of (pg_changes st))((sc, dp_change_id req) \<mapsto> ?row)) (s, c)) w" for s c w
      unfolding f(5) using row closed(2)
      by (simp add: tables_okD(4)[OF assms(2)] map_of_update_rows block_expected_def option.map_ident split: option.split)
  qed
qed (rule assms(2))

lemma tables_ok_same: "pg_changes st' = pg_changes st \<Longrightarrow> pg_blocks st' = pg_blocks st \<Longrightarrow> tables_ok st \<Longrightarrow> tables_ok st'"
  by (simp add: tables_ok_def)

lemma apply_same_changes:
  assumes ok: "apply_selective_invalidation sql seen st sc req = Inr (r, st')"
  shows "pg_changes st' = pg_changes st \<and> pg_blocks st' = pg_blocks st"
  by (rule inval.unless_replayed[OF ok]) (simp, simp add: apply_fresh(7)[OF ok])

lemma check_same_changes:
  assumes ok: "revalidate_boundary sql seen st sc req = Inr (r, st')"
  shows "pg_changes st' = pg_changes st \<and> pg_blocks st' = pg_blocks st \<and> pg_bindings st' = pg_bindings st"
  by (rule bound.unless_replayed[OF ok]) (simp, simp add: revalidate_fresh(7)[OF ok])

lemma serve_keeps:
  assumes "serve sql seen st sc q = Inr (r, st')" and "tables_ok st"
  shows "tables_ok st'"
proof (cases q)
  case (QInvalidate req)
  with assms(1) show ?thesis by (auto dest!: apply_same_changes intro: tables_ok_same[OF _ _ assms(2)])
next
  case (QCheck req)
  with assms(1) show ?thesis by (auto dest!: check_same_changes intro: tables_ok_same[OF _ _ assms(2)])
next
  case (QRecord req)
  with assms(1) show ?thesis by (auto dest: record_keeps[OF _ assms(2)])
next
  case (QDecide req confirm)
  with assms(1) show ?thesis by (auto simp: decide_variants dest: decide_keeps[OF _ assms(2)])
qed

lemma step_keeps: "team_step sql st st' \<Longrightarrow> tables_ok st \<Longrightarrow> tables_ok st'"
  by (erule team_stepE) (erule serve_keeps, assumption, simp add: tables_ok_def)

lemma reachable_ok: "(team_step sql)\<^sup>*\<^sup>* st st' \<Longrightarrow> tables_ok st \<Longrightarrow> tables_ok st'"
  by (induction rule: rtranclp_induct) (auto intro: step_keeps)

lemma empty_ok: "pg_changes st = [] \<Longrightarrow> pg_blocks st = [] \<Longrightarrow> tables_ok st"
  by (simp add: tables_ok_def block_expected_def)

lemma block_active:
  assumes "tables_ok st"
  shows "((s, c, w), True) \<in> set (pg_blocks st) \<longleftrightarrow>
     (\<exists>row. map_of (pg_changes st) (s, c) = Some row \<and> change_open row \<and> w \<in> set (pp_affected_work_ids (pcr_change row)))"
proof -
  have "((s, c, w), True) \<in> set (pg_blocks st) \<longleftrightarrow> block_expected (map_of (pg_changes st) (s, c)) w = Some True"
    by (simp add: in_table[OF tables_okD(2)[OF assms]] tables_okD(4)[OF assms])
  then show ?thesis by (auto simp: block_expected_def split: option.splits)
qed

definition works_blocked :: "pg_store \<Rightarrow> scope \<Rightarrow> string \<Rightarrow> string set" where
  "works_blocked st sc w = {c. \<exists>row. map_of (pg_changes st) (sc, c) = Some row \<and> change_open row \<and> w \<in> set (pp_affected_work_ids (pcr_change row))}"

lemma active_blocks:
  assumes "tables_ok st"
  shows "set (map (\<lambda>((s, c, w), active). c) (filter (\<lambda>((s, c, w), active). s = sc \<and> w = work_id \<and> active) (pg_blocks st)))
     = works_blocked st sc work_id"
  unfolding works_blocked_def block_active[OF assms, symmetric] by force

lemma planning_block_count_pos:
  assumes "tables_ok st"
  shows "planning_block_count st sc w > 0 \<longleftrightarrow> works_blocked st sc w \<noteq> {}"
  unfolding planning_block_count_def active_blocks[OF assms, symmetric] by (auto simp: filter_empty_conv)

lemma action_blocked_cases:
  assumes "tables_ok st"
  shows "action_blocked first_of st sc w = (if works_blocked st sc w = {} then None
     else Some (first_of (map (\<lambda>((s, c, w), active). c) (filter (\<lambda>((s, c, w'), active). s = sc \<and> w' = w \<and> active) (pg_blocks st)))))"
proof -
  have "(case ids of [] \<Rightarrow> None | x # xs \<Rightarrow> Some (first_of (x # xs))) = (if set ids = {} then None else Some (first_of ids))" for ids
    by (cases ids) simp_all
  then show ?thesis unfolding action_blocked_def active_blocks[OF assms, symmetric] .
qed

section \<open>Refinement of the runtime's planning changes\<close>

fun status_of_text :: "string \<Rightarrow> planning_change_status" where
  "status_of_text s = (if s = ''affected_blocked'' then PlAffectedBlocked else if s = ''confirmed'' then PlConfirmed
     else if s = ''rejected'' then PlRejected else PlRecorded)"

text \<open>A stored change as the runtime sees it, and the changes of a project in the order of their recording.\<close>

definition as_runtime_change :: "scope \<Rightarrow> pg_planning_change \<Rightarrow> scoped_planning_change" where
  "as_runtime_change sc c = \<lparr>sc_change_id = pp_change_id c, sc_project_id = snd sc, sc_discovered_by = pp_discovered_by c,
     sc_old_graph_version = pp_old_graph_version c, sc_new_graph_version = pp_new_graph_version c,
     sc_old_acceptance_contract = pp_old_acceptance_contract c, sc_new_acceptance_contract = pp_new_acceptance_contract c,
     sc_affected_work_ids = pp_affected_work_ids c, sc_cancel_split_relations = pp_cancel_split_relations c,
     sc_continue_conditions = pp_continue_conditions c, sc_status = status_of_text (pp_status c), sc_confirmed_by = pp_confirmed_by c\<rparr>"

definition planning_changes_of :: "pg_store \<Rightarrow> scope \<Rightarrow> scoped_planning_change list" where
  "planning_changes_of st sc = map (\<lambda>(_, row). as_runtime_change sc (pcr_change row)) (filter (\<lambda>((s, _), _). s = sc) (pg_changes st))"

definition as_discovery :: "scope \<Rightarrow> record_planning_change_request \<Rightarrow> discover_dependency_request" where
  "as_discovery sc req = \<lparr>dq_change_id = rpc_change_id req, dq_project_id = snd sc, dq_discovered_by = rpc_discovered_by req,
     dq_old_graph_version = rpc_old_graph_version req, dq_new_graph_version = rpc_new_graph_version req,
     dq_old_acceptance_contract = rpc_old_acceptance_contract req, dq_new_acceptance_contract = rpc_new_acceptance_contract req,
     dq_affected_work_ids = rpc_affected_work_ids req, dq_cancel_split_relations = rpc_cancel_split_relations req,
     dq_continue_conditions = rpc_continue_conditions req, dq_all_project_work_ids = rpc_all_project_work_ids req\<rparr>"

text \<open>The texts that the runtime bounds and the store does not.\<close>

fun bounded_request :: "scope \<Rightarrow> team_request \<Rightarrow> bool" where
  "bounded_request sc (QRecord req) \<longleftrightarrow> list_all bounded_nonempty [rpc_change_id req, snd sc, rpc_discovered_by req,
     rpc_old_graph_version req, rpc_new_graph_version req, rpc_old_acceptance_contract req, rpc_new_acceptance_contract req]"
| "bounded_request sc (QDecide req _) \<longleftrightarrow> bounded_nonempty (dp_actor_id req)"
| "bounded_request sc _ \<longleftrightarrow> True"

lemma record_refines:
  assumes ok: "record_planning_change sql seen st sc req = Inr ((c, u, r), st')"
    and new: "pg_load_receipt seen sc (rpc_request_key req) ''record_planning_change'' = Inr None" and "bounded_request sc (QRecord req)"
  shows "\<exists>app. record_discovered_dependency_change (as_discovery sc req) = Inr app \<and> pca_change app = as_runtime_change sc c
     \<and> pca_unblocked_unrelated_work_ids app = u \<and> planning_changes_of st' sc = planning_changes_of st sc @ [pca_change app]"
proof -
  note f = record_fresh[OF ok new]
  from f(5) have c: "c = recorded_change req"
    and u: "u = unrelated_of (sorted_list_of_set (set (rpc_affected_work_ids req))) (rpc_all_project_work_ids req)" by simp_all
  have "planning_changes_of st' sc = planning_changes_of st sc @ [as_runtime_change sc c]"
    unfolding planning_changes_of_def f(6) c by simp
  then show ?thesis using f(1,2) assms(3)
    by (auto simp: record_discovered_dependency_change_def as_discovery_def as_runtime_change_def c u recorded_change_def unrelated_of_def Let_def)
qed

lemma filter_update_at:
  assumes "distinct (map fst t)" and "(k, v) \<in> set t" and "P k"
  shows "\<exists>i<length (filter (\<lambda>(k, _). P k) t). filter (\<lambda>(k, _). P k) t ! i = (k, v)
     \<and> filter (\<lambda>(k, _). P k) (update_rows (\<lambda>k' _. k' = k) f t) = (filter (\<lambda>(k, _). P k) t)[i := (k, f v)]"
  using assms(1,2)
proof (induction t)
  case (Cons x t)
  show ?case
  proof (cases "x = (k, v)")
    case True
    with Cons.prems have "update_rows (\<lambda>k' _. k' = k) f t = t"
      unfolding update_rows_def by (intro map_idI) force
    with True assms(3) show ?thesis by (intro exI[of _ 0]) (auto simp: update_rows_def)
  next
    case False
    with Cons obtain i where i: "i < length (filter (\<lambda>(k, _). P k) t)" "filter (\<lambda>(k, _). P k) t ! i = (k, v)"
      "filter (\<lambda>(k, _). P k) (update_rows (\<lambda>k' _. k' = k) f t) = (filter (\<lambda>(k, _). P k) t)[i := (k, f v)]" by auto
    from False Cons.prems have "k \<in> fst ` set t" by force
    with Cons.prems have "fst x \<noteq> k" by auto
    then have "update_rows (\<lambda>k' _. k' = k) f (x # t) = x # update_rows (\<lambda>k' _. k' = k) f t" by (cases x) (simp add: update_rows_def)
    moreover obtain a b where x: "x = (a, b)" by fastforce
    ultimately show ?thesis using i by (cases "P a") (intro exI[of _ "Suc i"], simp, intro exI[of _ i], simp)
  qed
qed simp

lemma decide_refines:
  assumes ok: "decide_planning_change sql seen st sc req confirm = Inr (r, st')" and "tables_ok st"
    and new: "pg_load_receipt seen sc (dp_request_key req) (decide_op confirm) = Inr None" and "bounded_nonempty (dp_actor_id req)"
  shows "\<exists>i<length (planning_changes_of st sc). sc_change_id (planning_changes_of st sc ! i) = dp_change_id req
     \<and> (if confirm then confirm_planning_change else reject_planning_change) (planning_changes_of st sc ! i) (dp_actor_id req)
         = Inr (as_runtime_change sc (fst r))
     \<and> planning_changes_of st' sc = (planning_changes_of st sc)[i := as_runtime_change sc (fst r)]"
proof -
  note f = decide_fresh[OF ok new]
  then obtain row where row: "map_of (pg_changes st) (sc, dp_change_id req) = Some row" "pp_status (pcr_change row) = ''affected_blocked''"
      "fst r = decided confirm (dp_actor_id req) (pcr_change row)" by blast
  let ?f = "\<lambda>row. row\<lparr>pcr_change := decided confirm (dp_actor_id req) (pcr_change row), pcr_decided_at_ms := Some (dp_now_ms req)\<rparr>"
  let ?abs = "\<lambda>(_, row). as_runtime_change sc (pcr_change row)"
  have pred: "(\<lambda>((s, _), _). s = sc) = (\<lambda>(k, _). fst k = sc)" by (auto simp: fun_eq_iff)
  obtain i where i: "i < length (filter (\<lambda>(k, _). fst k = sc) (pg_changes st))"
      "filter (\<lambda>(k, _). fst k = sc) (pg_changes st) ! i = ((sc, dp_change_id req), row)"
      "filter (\<lambda>(k, _). fst k = sc) (update_rows (\<lambda>k' _. k' = (sc, dp_change_id req)) ?f (pg_changes st))
         = (filter (\<lambda>(k, _). fst k = sc) (pg_changes st))[i := ((sc, dp_change_id req), ?f row)]"
    using filter_update_at[OF tables_okD(1)[OF assms(2)] map_of_SomeD[OF row(1)], of "\<lambda>k. fst k = sc" ?f] by auto
  have at: "planning_changes_of st sc ! i = as_runtime_change sc (pcr_change row)" "i < length (planning_changes_of st sc)"
    using i(1,2) unfolding planning_changes_of_def pred by simp_all
  have "planning_changes_of st' sc = (planning_changes_of st sc)[i := as_runtime_change sc (fst r)]"
    using i(3) unfolding planning_changes_of_def f(5) pred row(3) by (simp add: map_update)
  moreover have "sc_change_id (planning_changes_of st sc ! i) = dp_change_id req"
    using tables_okD(3)[OF assms(2) row(1)] by (simp add: at as_runtime_change_def change_row_ok_def)
  moreover have "(if confirm then confirm_planning_change else reject_planning_change) (planning_changes_of st sc ! i) (dp_actor_id req)
         = Inr (as_runtime_change sc (fst r))"
    using assms(4) row(2) by (simp add: at(1) row(3) confirm_planning_change_def reject_planning_change_def as_runtime_change_def decided_def)
  ultimately show ?thesis using at(2) by blast
qed

lemma other_scope_kept:
  assumes "record_planning_change sql seen st sc req = Inr (r, st') \<or> decide_planning_change sql seen st sc dreq confirm = Inr (r', st')"
    and "s \<noteq> sc"
  shows "planning_changes_of st' s = planning_changes_of st s"
  using assms(1)
proof
  assume ok: "record_planning_change sql seen st sc req = Inr (r, st')"
  show ?thesis
    by (rule recd.unless_replayed[OF ok]) (simp, simp add: record_fresh(6)[OF ok] planning_changes_of_def assms(2)[symmetric])
next
  assume ok: "decide_planning_change sql seen st sc dreq confirm = Inr (r', st')"
  have other: "filter (\<lambda>((s', _), _). s' = s) (update_rows (\<lambda>k _. k = (sc, i)) f t) = filter (\<lambda>((s', _), _). s' = s) t" for i f and t :: "((scope \<times> string) \<times> change_row) list"
    using assms(2) by (induction t) (auto simp: update_rows_def)
  show ?thesis
    by (rule decd.unless_replayed[OF ok]) (simp, simp add: decide_fresh(5)[OF ok] planning_changes_of_def other)
qed

lemma serve_refines:
  assumes "serve sql seen st sc q = Inr (r, st')" and "tables_ok st" and "bounded_request sc q"
  shows "change_step\<^sup>=\<^sup>= (planning_changes_of st s) (planning_changes_of st' s)"
proof (cases q)
  case (QInvalidate req)
  with assms(1) show ?thesis by (auto dest!: apply_same_changes simp: planning_changes_of_def)
next
  case (QCheck req)
  with assms(1) show ?thesis by (auto dest!: check_same_changes simp: planning_changes_of_def)
next
  case (QRecord req)
  with assms(1) obtain c u where ok: "record_planning_change sql seen st sc req = Inr ((c, u, r), st')" by auto
  show ?thesis
  proof (cases "s = sc")
    case True
    show ?thesis
    proof (rule recd.unless_replayed[OF ok])
      assume "pg_load_receipt seen sc (rpc_request_key req) ''record_planning_change'' = Inr None"
      from record_refines[OF ok this] assms(3) QRecord obtain app where
          app: "record_discovered_dependency_change (as_discovery sc req) = Inr app"
            "planning_changes_of st' sc = planning_changes_of st sc @ [pca_change app]" by blast
      show "change_step\<^sup>=\<^sup>= (planning_changes_of st s) (planning_changes_of st' s)"
        using change_step.recorded[OF app(1)] app(2) True by simp
    qed simp
  qed (use other_scope_kept[OF disjI1[OF ok]] in simp)
next
  case (QDecide req confirm)
  with assms(1) obtain c where ok: "decide_planning_change sql seen st sc req confirm = Inr ((c, r), st')" by (auto simp: decide_variants)
  show ?thesis
  proof (cases "s = sc")
    case True
    show ?thesis
    proof (rule decd.unless_replayed[OF ok])
      assume "pg_load_receipt seen sc (dp_request_key req) (decide_op confirm) = Inr None"
      from decide_refines[OF ok assms(2) this] assms(3) QDecide True
      show "change_step\<^sup>=\<^sup>= (planning_changes_of st s) (planning_changes_of st' s)"
        by (auto intro: change_step.confirmed change_step.rejected split: if_splits)
    qed simp
  qed (use other_scope_kept[OF disjI2[OF ok]] in simp)
qed

text \<open>Steps whose texts keep the runtime's bounds.\<close>

inductive bounded_step :: "string \<Rightarrow> pg_store \<Rightarrow> pg_store \<Rightarrow> bool" for sql where
  served: "serve sql seen st sc q = Inr (r, st') \<Longrightarrow> bounded_request sc q \<Longrightarrow> bounded_step sql st st'"
| bound: "bounded_step sql st (st\<lparr>pg_bindings := b\<rparr>)"

lemma bounded_is_step: "bounded_step sql st st' \<Longrightarrow> team_step sql st st'"
  by (erule bounded_step.cases) (auto intro: team_step.intros)

lemma bounded_reachable: "(bounded_step sql)\<^sup>*\<^sup>* st st' \<Longrightarrow> (team_step sql)\<^sup>*\<^sup>* st st'"
  by (rule rtranclp_mono[THEN predicate2D]) (auto intro: bounded_is_step)

lemma history_refines:
  "(bounded_step sql)\<^sup>*\<^sup>* st st' \<Longrightarrow> tables_ok st \<Longrightarrow> change_step\<^sup>*\<^sup>* (planning_changes_of st sc) (planning_changes_of st' sc)"
proof (induction rule: rtranclp_induct)
  case (step t u)
  have "tables_ok t" using reachable_ok[OF bounded_reachable[OF step.hyps(1)] step.prems] .
  with step.hyps(2) have "change_step\<^sup>=\<^sup>= (planning_changes_of t sc) (planning_changes_of u sc)"
    by cases (auto dest: serve_refines simp: planning_changes_of_def)
  then show ?case using step.IH[OF step.prems] by auto
qed simp

lemma set_planning_changes:
  "set (planning_changes_of st sc) = {as_runtime_change sc (pcr_change row) | i row. ((sc, i), row) \<in> set (pg_changes st)}"
  by (cases sc) (force simp: planning_changes_of_def)

lemma works_blocked_runtime:
  assumes "tables_ok st"
  shows "works_blocked st sc w \<noteq> {} \<longleftrightarrow> action_blocked_by_planning_changes w (planning_changes_of st sc) \<noteq> None"
proof -
  have fields: "pp_status c = ''affected_blocked'' \<longleftrightarrow> sc_status (as_runtime_change sc c) = PlAffectedBlocked"
      "pp_affected_work_ids c = sc_affected_work_ids (as_runtime_change sc c)" for c by (simp_all add: as_runtime_change_def)
  have "(\<exists>c\<in>set (planning_changes_of st sc). sc_status c = PlAffectedBlocked \<and> w \<in> set (sc_affected_work_ids c))
     \<longleftrightarrow> (\<exists>i row. ((sc, i), row) \<in> set (pg_changes st) \<and> change_open row \<and> w \<in> set (pp_affected_work_ids (pcr_change row)))"
    unfolding set_planning_changes change_open_def fields by blast
  then show ?thesis unfolding action_blocked_None works_blocked_def in_table[OF tables_okD(1)[OF assms]] by blast
qed

text \<open>
  C10: The team store implements the planning changes of the runtime. From an empty store, every history of
  requests that keep the runtime's text bounds is, for each project, a history of the runtime's own
  operations on the list of its changes, and the store refuses an action on a work exactly if the runtime
  would refuse it under those changes; the change it names is an open one that affects the work, whatever
  order the database picks the first by.
\<close>
theorem team_store_refines_planning_changes:
  assumes "(bounded_step sql)\<^sup>*\<^sup>* st0 st" and "pg_changes st0 = []" and "pg_blocks st0 = []"
    and "\<And>ids. ids \<noteq> [] \<Longrightarrow> first_of ids \<in> set ids"
  shows "change_step\<^sup>*\<^sup>* [] (planning_changes_of st sc)
     \<and> (action_blocked first_of st sc w = None \<longleftrightarrow> action_blocked_by_planning_changes w (planning_changes_of st sc) = None)
     \<and> (\<forall>i. action_blocked first_of st sc w = Some i \<longrightarrow>
          (\<exists>c\<in>set (planning_changes_of st sc). sc_change_id c = i \<and> sc_status c = PlAffectedBlocked \<and> w \<in> set (sc_affected_work_ids c)))"
proof (intro conjI allI impI)
  have start: "planning_changes_of st0 sc = []" using assms(2) by (simp add: planning_changes_of_def)
  from history_refines[OF assms(1) empty_ok[OF assms(2,3)], of sc] show "change_step\<^sup>*\<^sup>* [] (planning_changes_of st sc)"
    unfolding start .
  have ok: "tables_ok st" using reachable_ok[OF bounded_reachable[OF assms(1)] empty_ok[OF assms(2,3)]] .
  show "action_blocked first_of st sc w = None \<longleftrightarrow> action_blocked_by_planning_changes w (planning_changes_of st sc) = None"
    using works_blocked_runtime[OF ok, of sc w] by (auto simp: action_blocked_cases[OF ok])
  fix i assume i: "action_blocked first_of st sc w = Some i"
  let ?ids = "map (\<lambda>((s, c, w), active). c) (filter (\<lambda>((s, c, w'), active). s = sc \<and> w' = w \<and> active) (pg_blocks st))"
  from i have "works_blocked st sc w \<noteq> {}" and named: "i = first_of ?ids" by (auto simp: action_blocked_cases[OF ok] split: if_splits)
  then have "?ids \<noteq> []" using active_blocks[OF ok, of sc w] by force
  with assms(4) named have "i \<in> works_blocked st sc w" unfolding active_blocks[OF ok, symmetric] by blast
  then obtain row where row: "map_of (pg_changes st) (sc, i) = Some row" "change_open row" "w \<in> set (pp_affected_work_ids (pcr_change row))"
    by (auto simp: works_blocked_def)
  then have "as_runtime_change sc (pcr_change row) \<in> set (planning_changes_of st sc)"
    unfolding set_planning_changes by (blast dest: map_of_SomeD)
  moreover have "pp_change_id (pcr_change row) = i" using tables_okD(3)[OF ok row(1)] by (simp add: change_row_ok_def)
  ultimately show "\<exists>c\<in>set (planning_changes_of st sc). sc_change_id c = i \<and> sc_status c = PlAffectedBlocked \<and> w \<in> set (sc_affected_work_ids c)"
    using row(2,3) by (intro bexI[of _ "as_runtime_change sc (pcr_change row)"]) (simp_all add: as_runtime_change_def change_open_def)
qed

theorem team_store_refines_planning_changes_witness:
  "\<exists>st. (bounded_step ''db'')\<^sup>*\<^sup>* ex_tables st \<and> action_blocked hd st (''t'', ''p'') ''sdk'' = Some ''pc''
     \<and> change_step\<^sup>*\<^sup>* [] (planning_changes_of st (''t'', ''p''))
     \<and> action_blocked_by_planning_changes ''sdk'' (planning_changes_of st (''t'', ''p'')) \<noteq> None"
proof -
  have "is_ok (and_then (serve ''db'' ex_tables ex_tables (''t'', ''p'') (QRecord ex_record))
       (\<lambda>(r, st). if action_blocked hd st (''t'', ''p'') ''sdk'' = Some ''pc'' then Inr () else Inl PgForbidden))"
    and bounded: "bounded_request (''t'', ''p'') (QRecord ex_record)" by code_simp+
  then obtain r st where run: "serve ''db'' ex_tables ex_tables (''t'', ''p'') (QRecord ex_record) = Inr (r, st)"
      "action_blocked hd st (''t'', ''p'') ''sdk'' = Some ''pc''" by (fastforce dest!: is_ok_and_then split: if_splits)
  from bounded_step.served[OF run(1) bounded] have steps: "(bounded_step ''db'')\<^sup>*\<^sup>* ex_tables st" by blast
  have "hd ids \<in> set ids" if "ids \<noteq> []" for ids :: "string list" using that by simp
  note here = team_store_refines_planning_changes[OF steps _ _ this, of "(''t'', ''p'')" "''sdk''"]
  have "pg_changes ex_tables = []" "pg_blocks ex_tables = []" by (simp_all add: ex_tables_def)
  with here run(2) steps show ?thesis by fastforce
qed

section \<open>The boundary check\<close>

lemma boundary_allows:
  "rv_decision (pg_revalidate_execution_boundary s) = BdAllow \<longleftrightarrow> ps_dependencies_satisfied s \<and> \<not> ps_revoke_or_invalidation_observed s"
  by (auto simp: pg_revalidate_execution_boundary_def)

lemma boundary_shape:
  "\<not> rv_erase_effects (pg_revalidate_execution_boundary s) \<and> rv_unrelated_may_continue (pg_revalidate_execution_boundary s)
   \<and> (rv_recovery_duty (pg_revalidate_execution_boundary s) \<longleftrightarrow> rv_decision (pg_revalidate_execution_boundary s) = BdKeepEffectsAssignRecovery)"
  by (simp add: pg_revalidate_execution_boundary_def)

lemma boundary_keeps_effects:
  "rv_decision (pg_revalidate_execution_boundary s) \<noteq> BdAllow \<Longrightarrow>
     rv_decision (pg_revalidate_execution_boundary s) = (if ps_has_real_effects s then BdKeepEffectsAssignRecovery else BdBlockNewEffects)"
  by (simp add: pg_revalidate_execution_boundary_def split: if_splits)

lemma snapshot_effects [simp]: "ps_has_real_effects (snapshot_under_lock st sc s) = ps_has_real_effects s"
  by (simp add: snapshot_under_lock_def)

lemma snapshot_clear:
  "ps_dependencies_satisfied (snapshot_under_lock st sc s) \<and> \<not> ps_revoke_or_invalidation_observed (snapshot_under_lock st sc s) \<longleftrightarrow>
     ps_dependencies_satisfied s \<and> \<not> ps_revoke_or_invalidation_observed s
     \<and> planning_block_count st sc (ps_work_id s) = 0 \<and> invalid_binding_count st sc (ps_work_id s) = 0"
  by (auto simp: snapshot_under_lock_def)

lemma invalid_binding_count_0:
  "invalid_binding_count st sc w = 0 \<longleftrightarrow> (\<forall>u. ((sc, w, u), False) \<notin> set (pg_bindings st))"
  by (force simp: invalid_binding_count_def filter_empty_conv)

text \<open>
  C12: A boundary check does not trust the caller's snapshot. In every state of the store, a check that was
  made afresh lets the work go on exactly if the snapshot says its dependencies are satisfied and nothing
  was revoked, no open planning change names the work, and none of the work's bindings is invalid, all as
  they stand under the project lock. Otherwise real effects are kept with a recovery duty and without them
  new effects are blocked; effects are never erased and unrelated work is never held up. The decision is
  what the check answers from then on, at any later state.
\<close>
theorem boundary_check_sees_the_store:
  assumes "(team_step sql)\<^sup>*\<^sup>* st0 st" and "pg_changes st0 = []" and "pg_blocks st0 = []"
    and "revalidate_boundary sql seen st sc req = Inr ((d, r), st1)" and "\<not> ir_replayed r" and "(team_step sql)\<^sup>*\<^sup>* st1 st2"
  shows "(rv_decision d = BdAllow \<longleftrightarrow>
       ps_dependencies_satisfied (br_snapshot req) \<and> \<not> ps_revoke_or_invalidation_observed (br_snapshot req)
       \<and> action_blocked first_of st sc (ps_work_id (br_snapshot req)) = None
       \<and> (\<forall>u. ((sc, ps_work_id (br_snapshot req), u), False) \<notin> set (pg_bindings st)))
     \<and> (rv_decision d \<noteq> BdAllow \<longrightarrow>
          rv_decision d = (if ps_has_real_effects (br_snapshot req) then BdKeepEffectsAssignRecovery else BdBlockNewEffects))
     \<and> (rv_recovery_duty d \<longleftrightarrow> rv_decision d = BdKeepEffectsAssignRecovery) \<and> \<not> rv_erase_effects d \<and> rv_unrelated_may_continue d
     \<and> revalidate_boundary sql st2 st2 sc req = Inr ((d, r\<lparr>ir_replayed := True\<rparr>), st2)"
proof -
  have ok: "tables_ok st" using reachable_ok[OF assms(1) empty_ok[OF assms(2,3)]] .
  have none: "pg_load_receipt seen sc (br_request_key req) ''boundary_revalidate'' = Inr None"
    using bound.not_replayed[OF assms(4)] assms(5) by simp
  let ?s = "snapshot_under_lock st sc (br_snapshot req)"
  have d: "d = pg_revalidate_execution_boundary ?s" using revalidate_fresh(6)[OF assms(4) none] by simp
  have blocks: "planning_block_count st sc w = 0 \<longleftrightarrow> action_blocked first_of st sc w = None" for w
    using planning_block_count_pos[OF ok, of sc w] by (auto simp: action_blocked_cases[OF ok])
  have "rv_decision d = BdAllow \<longleftrightarrow>
       ps_dependencies_satisfied (br_snapshot req) \<and> \<not> ps_revoke_or_invalidation_observed (br_snapshot req)
       \<and> action_blocked first_of st sc (ps_work_id (br_snapshot req)) = None
       \<and> (\<forall>u. ((sc, ps_work_id (br_snapshot req), u), False) \<notin> set (pg_bindings st))"
    unfolding d boundary_allows snapshot_clear blocks invalid_binding_count_0 ..
  moreover note boundary_shape[of ?s, folded d] boundary_keeps_effects[of ?s, folded d] check_answers[OF assms(4,5) step_grows[OF assms(6)]]
  ultimately show ?thesis by simp
qed

definition ex_check :: boundary_revalidate_request where
  "ex_check = \<lparr>br_request_key = ''k3'', br_check_id = ''chk'', br_snapshot = \<lparr>ps_boundary = BdDispatch, ps_work_id = ''sdk'',
     ps_execution_id = Some ''e'', ps_dependencies_satisfied = True, ps_revoke_or_invalidation_observed = False,
     ps_has_real_effects = True, ps_unrelated_work_ids = []\<rparr>, br_now_ms = 7\<rparr>"

theorem boundary_check_sees_the_store_witness:
  "\<exists>d r st1. revalidate_boundary ''db'' ex_tables ex_tables (''t'', ''p'') ex_check = Inr ((d, r), st1) \<and> \<not> ir_replayed r \<and> rv_decision d = BdAllow"
proof -
  have "is_ok (and_then (revalidate_boundary ''db'' ex_tables ex_tables (''t'', ''p'') ex_check)
      (\<lambda>((d, r), st1). if ir_replayed r then Inl PgForbidden else Inr ()))" by code_simp
  then obtain d r st1 where run: "revalidate_boundary ''db'' ex_tables ex_tables (''t'', ''p'') ex_check = Inr ((d, r), st1)" "\<not> ir_replayed r"
    by (fastforce dest!: is_ok_and_then split: if_splits)
  have start: "pg_changes ex_tables = []" "pg_blocks ex_tables = []" by (simp_all add: ex_tables_def)
  have "action_blocked hd ex_tables (''t'', ''p'') ''sdk'' = None" by code_simp
  with boundary_check_sees_the_store[OF rtranclp.rtrancl_refl start run rtranclp.rtrancl_refl, of hd]
  have "rv_decision d = BdAllow" by (simp add: ex_check_def ex_tables_def)
  with run show ?thesis by blast
qed

section \<open>Invalidation reaches the boundary\<close>

lemma map_of_invalidate_bindings:
  "map_of (pg_bindings (invalidate_bindings sc p ws st)) k =
     (if \<exists>w\<in>set ws. k = (sc, w, p) then map_option (\<lambda>_. False) (map_of (pg_bindings st) k) else map_of (pg_bindings st) k)"
proof (induction ws arbitrary: st)
  case (Cons w ws)
  let ?st = "st\<lparr>pg_bindings := update_rows (\<lambda>k valid. k = (sc, w, p) \<and> valid) (\<lambda>_. False) (pg_bindings st)\<rparr>"
  have "map_of (pg_bindings ?st) k = (if k = (sc, w, p) then map_option (\<lambda>_. False) (map_of (pg_bindings st) k) else map_of (pg_bindings st) k)"
    by (cases "map_of (pg_bindings st) k") (auto simp: map_of_update_rows)
  moreover have "invalidate_bindings sc p (w # ws) st = invalidate_bindings sc p ws ?st" by (simp add: invalidate_bindings_def)
  ultimately show ?case using Cons.IH[of ?st] by (auto simp: option.map_comp comp_def)
qed (simp add: invalidate_bindings_def)

text \<open>An adopted edge that a change of its provider reaches.\<close>

definition edge_due :: "provider_change_kind \<Rightarrow> pg_consumer_edge \<Rightarrow> bool" where
  "edge_due change e \<longleftrightarrow> pe_credential_status e = ''revoked'' \<or> pe_assessment_status e = ''revoked''
     \<or> pe_policy e \<noteq> ''fixed_delivery'' \<or> change \<in> {PcDeliveryRevoked, PcPinnedArtifactUnavailable}"

lemma pg_edges_fold:
  "fold (pg_edge_visit provider change) es (R, L, C) =
     (R \<union> {pe_consumer_work_id e | e. e \<in> set es \<and> pe_provider_work_id e = provider \<and> edge_due change e},
      L \<union> {pe_consumer_work_id e | e. e \<in> set es \<and> pe_provider_work_id e = provider \<and> \<not> edge_due change e},
      C \<union> {pe_consumer_work_id e | e. e \<in> set es \<and> pe_provider_work_id e = provider})"
proof (induction es arbitrary: R L C)
  case (Cons e es)
  have needs: "pg_change_needs fixed change \<longleftrightarrow> \<not> fixed \<or> change \<in> {PcDeliveryRevoked, PcPinnedArtifactUnavailable}" for fixed
    by (cases fixed; cases change) simp_all
  have visit: "pg_edge_visit provider change e (R, L, C) = (if pe_provider_work_id e \<noteq> provider then (R, L, C)
      else if edge_due change e then (insert (pe_consumer_work_id e) R, L, insert (pe_consumer_work_id e) C)
      else (R, insert (pe_consumer_work_id e) L, insert (pe_consumer_work_id e) C))"
    unfolding pg_edge_visit_def Let_def prod.case needs edge_due_def by simp
  have split: "{pe_consumer_work_id x | x. x \<in> set (e # es) \<and> P x} = (if P e then {pe_consumer_work_id e} else {})
      \<union> {pe_consumer_work_id x | x. x \<in> set es \<and> P x}" for P by auto
  show ?case unfolding fold_simps comp_apply visit split by (simp add: Cons.IH)
qed simp

lemma pg_plan_sets:
  fixes provider change es all_works
  defines "plan \<equiv> pg_select_downstream_reevaluation provider change es all_works"
  shows "set (ip_reevaluate plan) = {pe_consumer_work_id e | e. e \<in> set es \<and> pe_provider_work_id e = provider \<and> edge_due change e}"
    and "set (ip_leave_valid plan) = {pe_consumer_work_id e | e. e \<in> set es \<and> pe_provider_work_id e = provider \<and> \<not> edge_due change e}"
  unfolding plan_def pg_select_downstream_reevaluation_def pg_edges_fold by simp_all

text \<open>
  C13: A selective invalidation touches the bindings it must and no others, and the next boundary check
  respects it. Let every consumer follow the provider by one edge. Served afresh, the invalidation makes
  invalid exactly the bindings between the provider and the consumers whose edge is revoked, does not pin a
  fixed delivery, or is reached because the delivery or its artifact is gone; every other binding stays as
  it was, and so does every binding of a consumer the plan leaves valid. A consumer whose binding was made
  invalid is then refused at its boundary, whatever its snapshot claims.
\<close>
theorem invalidation_reaches_the_boundary:
  assumes "apply_selective_invalidation sql seen st sc req = Inr ((plan, r), st1)" and "\<not> ir_replayed r"
    and "inj_on pe_consumer_work_id {e \<in> set (si_consumers req). pe_provider_work_id e = si_provider_work_id req}"
  defines "due \<equiv> \<lambda>w. \<exists>e\<in>set (si_consumers req). pe_provider_work_id e = si_provider_work_id req \<and> pe_consumer_work_id e = w
       \<and> edge_due (si_change req) e"
  shows "(\<forall>s w u. map_of (pg_bindings st1) (s, w, u) =
        (if s = sc \<and> u = si_provider_work_id req \<and> due w
         then map_option (\<lambda>_. False) (map_of (pg_bindings st) (s, w, u)) else map_of (pg_bindings st) (s, w, u)))
     \<and> (\<forall>w. w \<in> set (ip_reevaluate plan) \<longleftrightarrow> due w)
     \<and> (\<forall>w\<in>set (ip_leave_valid plan). \<forall>s u. map_of (pg_bindings st1) (s, w, u) = map_of (pg_bindings st) (s, w, u))
     \<and> (\<forall>w seen' check d r' st2. due w \<longrightarrow> map_of (pg_bindings st) (sc, w, si_provider_work_id req) \<noteq> None
        \<longrightarrow> ps_work_id (br_snapshot check) = w \<longrightarrow> revalidate_boundary sql seen' st1 sc check = Inr ((d, r'), st2) \<longrightarrow> \<not> ir_replayed r'
        \<longrightarrow> rv_decision d \<noteq> BdAllow)"
proof -
  have none: "pg_load_receipt seen sc (si_request_key req) ''selective_invalidate'' = Inr None"
    using inval.not_replayed[OF assms(1)] assms(2) by simp
  note f = apply_fresh[OF assms(1) none]
  have b: "pg_bindings st1 = pg_bindings (invalidate_bindings sc (si_provider_work_id req) (ip_reevaluate plan) st)" using f(6,7) by simp
  have plan: "plan = pg_select_downstream_reevaluation (si_provider_work_id req) (si_change req) (si_consumers req) (si_all_project_work_ids req)"
    using f(6) by simp
  have listed: "w \<in> set (ip_reevaluate plan) \<longleftrightarrow> due w" for w unfolding plan pg_plan_sets due_def by auto
  have kept: "\<not> due w" if "w \<in> set (ip_leave_valid plan)" for w
    using that assms(3) unfolding plan pg_plan_sets due_def by (auto dest: inj_onD)
  have marks: "map_of (pg_bindings st1) (s, w, u) =
        (if s = sc \<and> u = si_provider_work_id req \<and> due w
         then map_option (\<lambda>_. False) (map_of (pg_bindings st) (s, w, u)) else map_of (pg_bindings st) (s, w, u))" for s w u
    unfolding b map_of_invalidate_bindings listed[symmetric] by auto
  have "rv_decision d \<noteq> BdAllow"
    if w: "due w" "map_of (pg_bindings st) (sc, w, si_provider_work_id req) \<noteq> None" "ps_work_id (br_snapshot check) = w"
      and run: "revalidate_boundary sql seen' st1 sc check = Inr ((d, r'), st2)" "\<not> ir_replayed r'" for w seen' check d r' st2
  proof -
    have none': "pg_load_receipt seen' sc (br_request_key check) ''boundary_revalidate'' = Inr None"
      using bound.not_replayed[OF run(1)] run(2) by simp
    have "map_of (pg_bindings st1) (sc, w, si_provider_work_id req) = Some False" using w(1,2) by (auto simp: marks)
    then have "invalid_binding_count st1 sc w \<noteq> 0" unfolding invalid_binding_count_0 by (auto dest: map_of_SomeD)
    then show ?thesis using revalidate_fresh(6)[OF run(1) none'] w(3) by (auto simp: boundary_allows snapshot_clear)
  qed
  with marks listed kept show ?thesis by simp
qed

definition ex_invalidate :: selective_invalidate_request where
  "ex_invalidate = \<lparr>si_request_key = ''k4'', si_event_id = ''ev'', si_provider_work_id = ''api'', si_change = PcDeliveryRevoked,
     si_consumers = [as_team_edge (ex_edge ''1'' FixedDelivery)], si_all_project_work_ids = [''api'', ''sdk'', ''docs''], si_now_ms = 4\<rparr>"

theorem invalidation_reaches_the_boundary_witness:
  "\<exists>plan r st1 d r' st2. apply_selective_invalidation ''db'' ex_tables ex_tables (''t'', ''p'') ex_invalidate = Inr ((plan, r), st1)
     \<and> revalidate_boundary ''db'' st1 st1 (''t'', ''p'') ex_check = Inr ((d, r'), st2) \<and> rv_decision d \<noteq> BdAllow"
proof -
  have "is_ok (and_then (apply_selective_invalidation ''db'' ex_tables ex_tables (''t'', ''p'') ex_invalidate)
      (\<lambda>((plan, r), st1). if ir_replayed r \<or> ip_reevaluate plan \<noteq> [''sdk''] then Inl PgForbidden
         else and_then (revalidate_boundary ''db'' st1 st1 (''t'', ''p'') ex_check)
           (\<lambda>((d, r'), st2). if ir_replayed r' then Inl PgForbidden else Inr ())))" by code_simp
  then obtain plan r st1 d r' st2 where run: "apply_selective_invalidation ''db'' ex_tables ex_tables (''t'', ''p'') ex_invalidate = Inr ((plan, r), st1)"
      "\<not> ir_replayed r" "ip_reevaluate plan = [''sdk'']" "revalidate_boundary ''db'' st1 st1 (''t'', ''p'') ex_check = Inr ((d, r'), st2)" "\<not> ir_replayed r'"
    by (fastforce dest!: is_ok_and_then split: if_splits)
  have "map_of (pg_bindings ex_tables) ((''t'', ''p''), ''sdk'', si_provider_work_id ex_invalidate) \<noteq> None" "ps_work_id (br_snapshot ex_check) = ''sdk''"
    by (simp_all add: ex_tables_def ex_invalidate_def ex_check_def)
  note bound_work = this
  have one: "inj_on pe_consumer_work_id {e \<in> set (si_consumers ex_invalidate). pe_provider_work_id e = si_provider_work_id ex_invalidate}"
    by (auto simp: ex_invalidate_def inj_on_def)
  have due: "\<exists>e\<in>set (si_consumers ex_invalidate). pe_provider_work_id e = si_provider_work_id ex_invalidate
      \<and> pe_consumer_work_id e = ''sdk'' \<and> edge_due (si_change ex_invalidate) e"
    by (simp add: ex_invalidate_def as_team_edge_def ex_edge_def edge_due_def)
  have "rv_decision d \<noteq> BdAllow"
    by (rule invalidation_reaches_the_boundary[OF run(1,2) one, THEN conjunct2, THEN conjunct2, THEN conjunct2, rule_format,
        OF due bound_work run(4,5)])
  with run show ?thesis by blast
qed

text \<open>
  Without the condition a consumer with a fixed and a current edge is in both lists, and its binding is
  made invalid although the plan leaves it valid.
\<close>

lemma overlap_loses_its_binding:
  "map_sum id (\<lambda>((plan, r), st1). (ip_leave_valid plan, map_of (pg_bindings st1) ((''t'', ''p''), ''sdk'', ''api'')))
     (apply_selective_invalidation ''db'' ex_tables ex_tables (''t'', ''p'') (ex_invalidate\<lparr>si_change := PcNewVersionOrProgress,
        si_consumers := [as_team_edge (ex_edge ''1'' FixedDelivery), as_team_edge (ex_edge ''2'' CurrentContract)]\<rparr>))
   = Inr ([''sdk''], Some False)"
  by code_simp


text \<open>The store refuses a change that the runtime records: same graph and contract, but works affected.\<close>

lemma store_stricter_than_runtime:
  "\<not> is_ok (record_planning_change ''db'' ex_tables ex_tables (''t'', ''p'') (ex_record\<lparr>rpc_new_graph_version := ''g1''\<rparr>))
   \<and> is_ok (record_discovered_dependency_change (as_discovery (''t'', ''p'') (ex_record\<lparr>rpc_new_graph_version := ''g1''\<rparr>)))"
  by code_simp

end
