(* ===== verification/Fact_Snapshot.thy ===== *)
theory Fact_Snapshot
  imports Canonical_Json Core_Error "HOL-Library.List_Lexorder" "HOL-Library.Char_ord" "HOL-Library.Sublist"
begin

text \<open>
  \<^verbatim>\<open>crates/awr-core/src/fact_snapshot.rs\<close>: the bounded snapshot of facts an assessment rests on. Signals keep
  their state (known, missing, stale, ...) and their basis; what does not fit the limits is left out and
  counted.

  Arguments of the definitions: \<open>pub\<close> is \<^verbatim>\<open>ensure_public_value\<close>, the secret scanner of \<^verbatim>\<open>secrets.rs\<close>, on
  the serialised value; \<open>len\<close> is the length of the serialised text and \<open>digest\<close> its SHA-256.
\<close>

section \<open>Data\<close>

definition FACT_SNAPSHOT_SCHEMA_ID :: string where
  "FACT_SNAPSHOT_SCHEMA_ID = ''awr-fact-snapshot-v1''"

definition FACT_SNAPSHOT_SCHEMA_VERSION :: u32 where
  "FACT_SNAPSHOT_SCHEMA_VERSION = 1"

definition FACT_COLLECTOR_VERSION :: u32 where
  "FACT_COLLECTOR_VERSION = 1"

definition FACT_SNAPSHOT_MAX_CANDIDATES :: nat where
  "FACT_SNAPSHOT_MAX_CANDIDATES = 256"

definition FACT_SNAPSHOT_MAX_BYTES :: nat where
  "FACT_SNAPSHOT_MAX_BYTES = 256 * 1024"

definition FACT_SNAPSHOT_MAX_SCAN_OPS :: u64 where
  "FACT_SNAPSHOT_MAX_SCAN_OPS = 1024"

datatype (plugins only: code size) signal_state =
    SgKnown | SgMissing | SgStale | SgConflicting | SgUnsupported | SgUnknown

datatype (plugins only: code size) signal_basis =
    SourceDeclared | RuntimeRecorded | HostAsserted | LocallyObserved | RuleDerived

datatype (plugins only: code size) signal_classification = SgFact | SgObservation | SgInference

record fact_signal =
  sig_field :: string
  sig_value :: "json option"
  sig_unit :: "string option"
  sig_state :: signal_state
  sig_basis :: signal_basis
  sig_classification :: signal_classification
  sig_origin_ref :: "string option"
  sig_observed_at :: "i64 option"
  sig_scope :: "string option"
  sig_invalidation :: "string option"

record entity_version_ref =
  evr_entity_kind :: string
  evr_entity_id :: string
  evr_version :: string

record snapshot_identity =
  sid_project_id :: "string option"
  sid_work_key :: "string option"
  sid_work_id :: "string option"
  sid_branch_id :: "string option"
  sid_work_contract_hash :: "string option"

record snapshot_scope =
  ssc_read_scope :: string
  ssc_included :: "string list"
  ssc_truncated :: bool
  ssc_truncation_reason :: "string option"

record snapshot_coverage =
  cov_required_fields :: "string list"
  cov_observed_fields :: "string list"
  cov_missing :: "string list"
  cov_stale :: "string list"
  cov_conflicting :: "string list"
  cov_host_asserted_only :: "string list"
  cov_unsupported :: "string list"
  cov_coverage_note :: string

record snapshot_limits =
  sli_max_candidates :: nat
  sli_max_bytes :: nat
  sli_max_scan_ops :: u64
  sli_candidates_seen :: nat
  sli_bytes_used :: nat
  sli_scan_ops :: u64
  sli_omitted_count :: nat

datatype (plugins only: code size) workspace_fact_supply = ExplicitCollection | HostSupplied

datatype (plugins only: code size) workspace_diff_coverage = DiffBound | DiffPartial | DiffAbsent

record workspace_facts =
  wsf_supply :: workspace_fact_supply
  wsf_base :: "string option"
  wsf_head :: "string option"
  wsf_tree :: "string option"
  wsf_collected_at :: "i64 option"
  wsf_coverage :: workspace_diff_coverage
  wsf_changed_lines :: "u64 option"
  wsf_change_risk :: "string option"
  wsf_notes :: "string list"

record fact_snapshot =
  fsn_schema_id :: string
  fsn_schema_version :: u32
  fsn_collector_version :: u32
  fsn_identity :: snapshot_identity
  fsn_as_of :: i64
  fsn_policy_id :: "string option"
  fsn_policy_version :: "u32 option"
  fsn_policy_hash :: "string option"
  fsn_source_refs :: "string list"
  fsn_runtime_observation_refs :: "string list"
  fsn_scope :: snapshot_scope
  fsn_coverage :: snapshot_coverage
  fsn_limits :: snapshot_limits
  fsn_entity_versions :: "entity_version_ref list"
  fsn_signals :: "fact_signal list"
  fsn_workspace_facts :: "workspace_facts option"
  fsn_content_hash :: string

record fact_snapshot_limits_input =
  fli_max_candidates :: nat
  fli_max_bytes :: nat
  fli_max_scan_ops :: u64

record fact_snapshot_input =
  fsi_identity :: snapshot_identity
  fsi_as_of :: i64
  fsi_policy_id :: "string option"
  fsi_policy_version :: "u32 option"
  fsi_policy_hash :: "string option"
  fsi_source_refs :: "string list"
  fsi_runtime_observation_refs :: "string list"
  fsi_entity_versions :: "entity_version_ref list"
  fsi_signals :: "fact_signal list"
  fsi_required_fields :: "string list"
  fsi_workspace_facts :: "workspace_facts option"
  fsi_read_scope :: string
  fsi_included :: "string list"
  fsi_limits :: fact_snapshot_limits_input
  fsi_candidates_seen :: nat
  fsi_scan_ops :: u64

section \<open>Signals\<close>

fun classification_for :: "signal_basis \<Rightarrow> signal_state \<Rightarrow> signal_classification" where
  "classification_for basis state =
     (if state \<noteq> SgKnown then
        (case basis of RuleDerived \<Rightarrow> SgInference | HostAsserted \<Rightarrow> SgObservation | LocallyObserved \<Rightarrow> SgObservation
         | SourceDeclared \<Rightarrow> SgFact | RuntimeRecorded \<Rightarrow> SgFact)
      else
        (case basis of RuleDerived \<Rightarrow> SgInference | HostAsserted \<Rightarrow> SgObservation | LocallyObserved \<Rightarrow> SgObservation
         | SourceDeclared \<Rightarrow> SgFact | RuntimeRecorded \<Rightarrow> SgFact))"

definition signal_missing :: "string \<Rightarrow> signal_basis \<Rightarrow> fact_signal" where
  "signal_missing field basis = \<lparr>sig_field = field, sig_value = None, sig_unit = None, sig_state = SgMissing, sig_basis = basis,
     sig_classification = classification_for basis SgMissing, sig_origin_ref = None, sig_observed_at = None, sig_scope = None,
     sig_invalidation = None\<rparr>"

definition signal_known :: "string \<Rightarrow> json \<Rightarrow> signal_basis \<Rightarrow> string option \<Rightarrow> i64 option \<Rightarrow> fact_signal" where
  "signal_known field v basis origin_ref observed_at = \<lparr>sig_field = field, sig_value = Some v, sig_unit = None, sig_state = SgKnown,
     sig_basis = basis, sig_classification = classification_for basis SgKnown, sig_origin_ref = origin_ref,
     sig_observed_at = observed_at, sig_scope = None, sig_invalidation = None\<rparr>"

definition is_verified_fact :: "fact_signal \<Rightarrow> bool" where
  "is_verified_fact s \<longleftrightarrow> sig_state s = SgKnown \<and> sig_classification s = SgFact
     \<and> sig_basis s \<in> {SourceDeclared, RuntimeRecorded, LocallyObserved}"

definition missing_git_diff_signal :: fact_signal where
  "missing_git_diff_signal = \<lparr>sig_field = ''workspace.changed_lines'', sig_value = None, sig_unit = Some ''lines'',
     sig_state = SgMissing, sig_basis = LocallyObserved, sig_classification = SgObservation, sig_origin_ref = None,
     sig_observed_at = None, sig_scope = Some ''workspace'', sig_invalidation = Some ''requires_explicit_git_diff''\<rparr>"

definition unsupported_change_risk_signal :: fact_signal where
  "unsupported_change_risk_signal = \<lparr>sig_field = ''workspace.change_risk'', sig_value = None, sig_unit = None,
     sig_state = SgUnsupported, sig_basis = RuleDerived, sig_classification = SgInference, sig_origin_ref = None,
     sig_observed_at = None, sig_scope = Some ''workspace'', sig_invalidation = Some ''risk_requires_bound_diff''\<rparr>"

section \<open>Encoding\<close>

text \<open>\<^verbatim>\<open>skip_serializing_if = "Option::is_none"\<close>\<close>

definition skip_none :: "string \<Rightarrow> ('a \<Rightarrow> json) \<Rightarrow> 'a option \<Rightarrow> (string \<times> json) list" where
  "skip_none k f x = (case x of None \<Rightarrow> [] | Some v \<Rightarrow> [(k, f v)])"

definition null_or :: "('a \<Rightarrow> json) \<Rightarrow> 'a option \<Rightarrow> json" where
  "null_or f x = (case x of None \<Rightarrow> JNull | Some v \<Rightarrow> f v)"

definition json_int :: "int \<Rightarrow> json" where
  "json_int i = JNumber (JInt i)"

abbreviation json_nat :: "nat \<Rightarrow> json" where
  "json_nat n \<equiv> json_int (int n)"

abbreviation json_word :: "'a::len word \<Rightarrow> json" where
  "json_word w \<equiv> json_int (uint w)"

fun signal_state_json :: "signal_state \<Rightarrow> json" where
  "signal_state_json SgKnown = JString ''known''"
| "signal_state_json SgMissing = JString ''missing''"
| "signal_state_json SgStale = JString ''stale''"
| "signal_state_json SgConflicting = JString ''conflicting''"
| "signal_state_json SgUnsupported = JString ''unsupported''"
| "signal_state_json SgUnknown = JString ''unknown''"

fun signal_basis_json :: "signal_basis \<Rightarrow> json" where
  "signal_basis_json SourceDeclared = JString ''source_declared''"
| "signal_basis_json RuntimeRecorded = JString ''runtime_recorded''"
| "signal_basis_json HostAsserted = JString ''host_asserted''"
| "signal_basis_json LocallyObserved = JString ''locally_observed''"
| "signal_basis_json RuleDerived = JString ''rule_derived''"

fun signal_classification_json :: "signal_classification \<Rightarrow> json" where
  "signal_classification_json SgFact = JString ''fact''"
| "signal_classification_json SgObservation = JString ''observation''"
| "signal_classification_json SgInference = JString ''inference''"

definition signal_json :: "fact_signal \<Rightarrow> json" where
  "signal_json s = JObject
     ([(''field'', JString (sig_field s))] @ skip_none ''value'' (\<lambda>v. v) (sig_value s) @ skip_none ''unit'' JString (sig_unit s)
      @ [(''state'', signal_state_json (sig_state s)), (''basis'', signal_basis_json (sig_basis s)),
         (''classification'', signal_classification_json (sig_classification s))]
      @ skip_none ''origin_ref'' JString (sig_origin_ref s) @ skip_none ''observed_at'' json_int (sig_observed_at s)
      @ skip_none ''scope'' JString (sig_scope s) @ skip_none ''invalidation'' JString (sig_invalidation s))"

definition entity_version_json :: "entity_version_ref \<Rightarrow> json" where
  "entity_version_json v = JObject [(''entity_kind'', JString (evr_entity_kind v)), (''entity_id'', JString (evr_entity_id v)),
     (''version'', JString (evr_version v))]"

definition snapshot_identity_json :: "snapshot_identity \<Rightarrow> json" where
  "snapshot_identity_json i = JObject
     (skip_none ''project_id'' JString (sid_project_id i) @ skip_none ''work_key'' JString (sid_work_key i)
      @ skip_none ''work_id'' JString (sid_work_id i) @ skip_none ''branch_id'' JString (sid_branch_id i)
      @ skip_none ''work_contract_hash'' JString (sid_work_contract_hash i))"

definition scope_json :: "snapshot_scope \<Rightarrow> json" where
  "scope_json s = JObject
     ([(''read_scope'', JString (ssc_read_scope s)), (''included'', json_strings (ssc_included s)),
       (''truncated'', JBool (ssc_truncated s))] @ skip_none ''truncation_reason'' JString (ssc_truncation_reason s))"

definition coverage_json :: "snapshot_coverage \<Rightarrow> json" where
  "coverage_json c = JObject
     [(''required_fields'', json_strings (cov_required_fields c)), (''observed_fields'', json_strings (cov_observed_fields c)),
      (''missing'', json_strings (cov_missing c)), (''stale'', json_strings (cov_stale c)),
      (''conflicting'', json_strings (cov_conflicting c)), (''host_asserted_only'', json_strings (cov_host_asserted_only c)),
      (''unsupported'', json_strings (cov_unsupported c)), (''coverage_note'', JString (cov_coverage_note c))]"

definition limits_json :: "snapshot_limits \<Rightarrow> json" where
  "limits_json l = JObject
     [(''max_candidates'', json_nat (sli_max_candidates l)), (''max_bytes'', json_nat (sli_max_bytes l)),
      (''max_scan_ops'', json_word (sli_max_scan_ops l)), (''candidates_seen'', json_nat (sli_candidates_seen l)),
      (''bytes_used'', json_nat (sli_bytes_used l)), (''scan_ops'', json_word (sli_scan_ops l)),
      (''omitted_count'', json_nat (sli_omitted_count l))]"

fun supply_json :: "workspace_fact_supply \<Rightarrow> json" where
  "supply_json ExplicitCollection = JString ''explicit_collection''"
| "supply_json HostSupplied = JString ''host_supplied''"

fun diff_coverage_json :: "workspace_diff_coverage \<Rightarrow> json" where
  "diff_coverage_json DiffBound = JString ''diff_bound''"
| "diff_coverage_json DiffPartial = JString ''partial''"
| "diff_coverage_json DiffAbsent = JString ''absent''"

definition workspace_json :: "workspace_facts \<Rightarrow> json" where
  "workspace_json w = JObject
     ([(''supply'', supply_json (wsf_supply w))] @ skip_none ''base'' JString (wsf_base w) @ skip_none ''head'' JString (wsf_head w)
      @ skip_none ''tree'' JString (wsf_tree w) @ skip_none ''collected_at'' json_int (wsf_collected_at w)
      @ [(''coverage'', diff_coverage_json (wsf_coverage w))] @ skip_none ''changed_lines'' json_word (wsf_changed_lines w)
      @ skip_none ''change_risk'' JString (wsf_change_risk w) @ [(''notes'', json_strings (wsf_notes w))])"

definition snapshot_json :: "fact_snapshot \<Rightarrow> json" where
  "snapshot_json s = JObject
     ([(''schema_id'', JString (fsn_schema_id s)), (''schema_version'', json_word (fsn_schema_version s)),
       (''collector_version'', json_word (fsn_collector_version s)), (''identity'', snapshot_identity_json (fsn_identity s)),
       (''as_of'', json_int (fsn_as_of s))]
      @ skip_none ''policy_id'' JString (fsn_policy_id s) @ skip_none ''policy_version'' json_word (fsn_policy_version s)
      @ skip_none ''policy_hash'' JString (fsn_policy_hash s)
      @ [(''source_refs'', json_strings (fsn_source_refs s)),
         (''runtime_observation_refs'', json_strings (fsn_runtime_observation_refs s)), (''scope'', scope_json (fsn_scope s)),
         (''coverage'', coverage_json (fsn_coverage s)), (''limits'', limits_json (fsn_limits s)),
         (''entity_versions'', JArray (map entity_version_json (fsn_entity_versions s))),
         (''signals'', JArray (map signal_json (fsn_signals s)))]
      @ skip_none ''workspace_facts'' workspace_json (fsn_workspace_facts s) @ [(''content_hash'', JString (fsn_content_hash s))])"

text \<open>The hashed part leaves out the hash itself and the bytes used.\<close>

definition content_payload :: "fact_snapshot \<Rightarrow> json" where
  "content_payload s = JObject
     [(''schema_id'', JString (fsn_schema_id s)), (''schema_version'', json_word (fsn_schema_version s)),
      (''collector_version'', json_word (fsn_collector_version s)), (''identity'', snapshot_identity_json (fsn_identity s)),
      (''as_of'', json_int (fsn_as_of s)), (''policy_id'', null_or JString (fsn_policy_id s)),
      (''policy_version'', null_or json_word (fsn_policy_version s)), (''policy_hash'', null_or JString (fsn_policy_hash s)),
      (''source_refs'', json_strings (fsn_source_refs s)),
      (''runtime_observation_refs'', json_strings (fsn_runtime_observation_refs s)), (''scope'', scope_json (fsn_scope s)),
      (''coverage'', coverage_json (fsn_coverage s)),
      (''limits'', JObject
        [(''max_candidates'', json_nat (sli_max_candidates (fsn_limits s))), (''max_bytes'', json_nat (sli_max_bytes (fsn_limits s))),
         (''max_scan_ops'', json_word (sli_max_scan_ops (fsn_limits s))),
         (''candidates_seen'', json_nat (sli_candidates_seen (fsn_limits s))), (''scan_ops'', json_word (sli_scan_ops (fsn_limits s))),
         (''omitted_count'', json_nat (sli_omitted_count (fsn_limits s)))]),
      (''entity_versions'', JArray (map entity_version_json (fsn_entity_versions s))),
      (''signals'', JArray (map signal_json (fsn_signals s))),
      (''workspace_facts'', null_or workspace_json (fsn_workspace_facts s))]"

definition content_hash_bytes :: "(json \<Rightarrow> string) \<Rightarrow> fact_snapshot \<Rightarrow> string" where
  "content_hash_bytes digest s = digest (content_payload s)"

section \<open>Validation\<close>

definition without_diff :: "workspace_fact_supply \<Rightarrow> i64 option \<Rightarrow> workspace_facts" where
  "without_diff supply collected_at = \<lparr>wsf_supply = supply, wsf_base = None, wsf_head = None, wsf_tree = None,
     wsf_collected_at = collected_at, wsf_coverage = DiffAbsent, wsf_changed_lines = None, wsf_change_risk = None,
     wsf_notes = [''git_diff_absent'']\<rparr>"

definition with_bound_diff ::
  "workspace_fact_supply \<Rightarrow> string \<Rightarrow> string \<Rightarrow> string option \<Rightarrow> i64 option \<Rightarrow> u64 \<Rightarrow> string option \<Rightarrow>
     (error, workspace_facts) result" where
  "with_bound_diff supply base head tree collected_at changed_lines change_risk =
     then_ok (refuse (trim_empty base \<or> trim_empty head)
         (InvalidInput ''workspace facts with a bound diff require nonempty base and head''))
       (Inr \<lparr>wsf_supply = supply, wsf_base = Some base, wsf_head = Some head, wsf_tree = tree, wsf_collected_at = collected_at,
          wsf_coverage = DiffBound, wsf_changed_lines = Some changed_lines, wsf_change_risk = change_risk, wsf_notes = []\<rparr>)"

definition low_risk :: "string option \<Rightarrow> bool" where
  "low_risk risk \<longleftrightarrow> risk = Some ''low'' \<or> risk = Some ''low_risk''"

definition blank_or_none :: "string option \<Rightarrow> bool" where
  "blank_or_none x \<longleftrightarrow> (case x of None \<Rightarrow> True | Some s \<Rightarrow> trim_empty s)"

definition workspace_validate :: "(json \<Rightarrow> (error, unit) result) \<Rightarrow> workspace_facts \<Rightarrow> (error, unit) result" where
  "workspace_validate pub w = then_ok (pub (workspace_json w))
     (case wsf_coverage w of
        DiffAbsent \<Rightarrow> run_checks
          [refuse (wsf_changed_lines w \<noteq> None) (InvalidInput ''absent git diff must not emit changed_lines (including 0)''),
           refuse (low_risk (wsf_change_risk w)) (InvalidInput ''absent git diff must not emit low-risk change labels'')]
      | DiffPartial \<Rightarrow> run_checks
          [refuse (wsf_changed_lines w = Some 0)
             (InvalidInput ''partial workspace coverage must not coerce incomplete scans to changed_lines=0''),
           refuse (low_risk (wsf_change_risk w)) (InvalidInput ''partial workspace coverage must not emit low-risk'')]
      | DiffBound \<Rightarrow> run_checks
          [refuse (blank_or_none (wsf_base w) \<or> blank_or_none (wsf_head w))
             (InvalidInput ''diff-bound workspace facts require base and head''),
           refuse (wsf_changed_lines w = None)
             (InvalidInput ''diff-bound workspace facts require an observed changed_lines count'')])"

definition limits_default :: fact_snapshot_limits_input where
  "limits_default = \<lparr>fli_max_candidates = FACT_SNAPSHOT_MAX_CANDIDATES, fli_max_bytes = FACT_SNAPSHOT_MAX_BYTES,
     fli_max_scan_ops = FACT_SNAPSHOT_MAX_SCAN_OPS\<rparr>"

definition limits_capped :: "fact_snapshot_limits_input \<Rightarrow> (error, unit) result" where
  "limits_capped l = refuse
     (fli_max_candidates l = 0 \<or> fli_max_bytes l = 0 \<or> fli_max_scan_ops l = 0
      \<or> fli_max_candidates l > FACT_SNAPSHOT_MAX_CANDIDATES \<or> fli_max_bytes l > FACT_SNAPSHOT_MAX_BYTES
      \<or> fli_max_scan_ops l > FACT_SNAPSHOT_MAX_SCAN_OPS)
     (InvalidInput ''fact snapshot limits must be within 1..=256/262144/1024'')"

definition version_visit ::
  "((string \<times> string) \<rightharpoonup> string) \<Rightarrow> entity_version_ref \<Rightarrow> (error, (string \<times> string) \<rightharpoonup> string) result" where
  "version_visit seen v =
     then_ok (refuse (trim_empty (evr_entity_kind v) \<or> trim_empty (evr_entity_id v) \<or> trim_empty (evr_version v))
         (InvalidInput ''entity version refs require nonempty kind, id, and version''))
      (let k = (evr_entity_kind v, evr_entity_id v) in
       case seen k of
         Some prior \<Rightarrow> then_ok (refuse (prior \<noteq> evr_version v)
           (SourceConflict (''entity version conflict in one fact snapshot: '' @ evr_entity_kind v @ ''/'' @ evr_entity_id v
             @ '' has both '' @ prior @ '' and '' @ evr_version v))) (Inr seen)
       | None \<Rightarrow> Inr (seen(k \<mapsto> evr_version v)))"

definition reject_entity_version_conflicts :: "entity_version_ref list \<Rightarrow> (error, unit) result" where
  "reject_entity_version_conflicts versions = and_then (try_fold version_visit Map.empty versions) (\<lambda>_. Inr ())"

fun state_debug :: "signal_state \<Rightarrow> string" where
  "state_debug SgKnown = ''Known''"
| "state_debug SgMissing = ''Missing''"
| "state_debug SgStale = ''Stale''"
| "state_debug SgConflicting = ''Conflicting''"
| "state_debug SgUnsupported = ''Unsupported''"
| "state_debug SgUnknown = ''Unknown''"

definition validate_signal :: "(json \<Rightarrow> (error, unit) result) \<Rightarrow> fact_signal \<Rightarrow> (error, unit) result" where
  "validate_signal pub s = run_checks
     [pub (signal_json s),
      refuse (trim_empty (sig_field s) \<or> length (sig_field s) > 4096)
        (InvalidInput ''fact signal field must be a nonempty bounded name''),
      refuse (sig_state s = SgKnown \<and> sig_value s = None)
        (InvalidInput (''known signal '' @ sig_field s @ '' requires a value'')),
      refuse (sig_state s \<in> {SgMissing, SgUnsupported, SgUnknown} \<and> sig_value s \<noteq> None)
        (InvalidInput (''signal '' @ sig_field s @ '' with state '' @ state_debug (sig_state s) @ '' must not carry a value'')),
      refuse (sig_basis s = RuleDerived \<and> sig_classification s = SgFact)
        (InvalidInput (''rule_derived signal '' @ sig_field s @ '' must not be classified as verified fact'')),
      refuse (sig_basis s = HostAsserted \<and> sig_classification s = SgFact \<and> sig_state s = SgKnown)
        (InvalidInput (''host_asserted signal '' @ sig_field s @ '' is an observation, not a verified fact''))]"

section \<open>Construction\<close>

record coverage_sets =
  cvs_observed :: "string set"
  cvs_missing :: "string set"
  cvs_stale :: "string set"
  cvs_conflicting :: "string set"
  cvs_host_asserted_only :: "string set"
  cvs_unsupported :: "string set"

definition coverage_visit :: "fact_signal \<Rightarrow> coverage_sets \<Rightarrow> coverage_sets" where
  "coverage_visit s c =
     (case sig_state s of
        SgKnown \<Rightarrow> c\<lparr>cvs_observed := insert (sig_field s) (cvs_observed c),
          cvs_host_asserted_only := (if sig_basis s = HostAsserted then insert (sig_field s) (cvs_host_asserted_only c)
            else cvs_host_asserted_only c)\<rparr>
      | SgMissing \<Rightarrow> c\<lparr>cvs_missing := insert (sig_field s) (cvs_missing c)\<rparr>
      | SgUnknown \<Rightarrow> c\<lparr>cvs_missing := insert (sig_field s) (cvs_missing c)\<rparr>
      | SgStale \<Rightarrow> c\<lparr>cvs_stale := insert (sig_field s) (cvs_stale c), cvs_observed := insert (sig_field s) (cvs_observed c)\<rparr>
      | SgConflicting \<Rightarrow> c\<lparr>cvs_conflicting := insert (sig_field s) (cvs_conflicting c),
          cvs_observed := insert (sig_field s) (cvs_observed c)\<rparr>
      | SgUnsupported \<Rightarrow> c\<lparr>cvs_unsupported := insert (sig_field s) (cvs_unsupported c)\<rparr>)"

definition required_visit :: "fact_signal list \<Rightarrow> string \<Rightarrow> coverage_sets \<Rightarrow> coverage_sets" where
  "required_visit signals field c =
     (if \<not> list_ex (\<lambda>s. sig_field s = field) signals then c\<lparr>cvs_missing := insert field (cvs_missing c)\<rparr> else c)"

definition coverage_note_text :: string where
  "coverage_note_text = ''coverage is a field count ratio, not probability''"

definition build_coverage :: "string list \<Rightarrow> fact_signal list \<Rightarrow> snapshot_coverage" where
  "build_coverage required signals =
     (let c = fold (required_visit signals) required (fold coverage_visit signals
            \<lparr>cvs_observed = {}, cvs_missing = {}, cvs_stale = {}, cvs_conflicting = {}, cvs_host_asserted_only = {}, cvs_unsupported = {}\<rparr>)
      in \<lparr>cov_required_fields = required, cov_observed_fields = sorted_list_of_set (cvs_observed c),
          cov_missing = sorted_list_of_set (cvs_missing c), cov_stale = sorted_list_of_set (cvs_stale c),
          cov_conflicting = sorted_list_of_set (cvs_conflicting c),
          cov_host_asserted_only = sorted_list_of_set (cvs_host_asserted_only c),
          cov_unsupported = sorted_list_of_set (cvs_unsupported c), cov_coverage_note = coverage_note_text\<rparr>)"

text \<open>The loop that keeps what fits: the elements kept, the bytes used and how many were left out.\<close>

fun keep_bytes :: "('a \<Rightarrow> nat) \<Rightarrow> nat \<Rightarrow> nat \<Rightarrow> 'a list \<Rightarrow> 'a list \<times> nat \<times> nat" where
  "keep_bytes size_of limit used [] = ([], used, 0)"
| "keep_bytes size_of limit used (x # xs) =
     (if used + size_of x > limit
      then (case keep_bytes size_of limit used xs of (kept, bytes, omitted) \<Rightarrow> (kept, bytes, Suc omitted))
      else (case keep_bytes size_of limit (used + size_of x) xs of (kept, bytes, omitted) \<Rightarrow> (x # kept, bytes, omitted)))"

definition snapshot_reason :: "nat \<Rightarrow> fact_snapshot_limits_input \<Rightarrow> u64 \<Rightarrow> nat \<Rightarrow> string option" where
  "snapshot_reason candidates_seen limits scan_ops left_out =
     (let r = (if candidates_seen > fli_max_candidates limits then Some ''candidates_exceeded'' else None);
          r = (if scan_ops > fli_max_scan_ops limits then (case r of Some x \<Rightarrow> Some x | None \<Rightarrow> Some ''scan_ops_exceeded'') else r)
      in if left_out > 0 then Some ''return_bytes_exceeded'' else r)"

definition assembled_snapshot ::
  "(json \<Rightarrow> string) \<Rightarrow> fact_snapshot_input \<Rightarrow> nat \<Rightarrow> fact_signal list \<Rightarrow> nat \<Rightarrow> nat \<Rightarrow> nat \<Rightarrow> fact_snapshot" where
  "assembled_snapshot digest i candidates_seen kept bytes_used dropped left_out =
     (let limits = fsi_limits i;
          reason = snapshot_reason candidates_seen limits (fsi_scan_ops i) left_out;
          snapshot = \<lparr>fsn_schema_id = FACT_SNAPSHOT_SCHEMA_ID, fsn_schema_version = FACT_SNAPSHOT_SCHEMA_VERSION,
             fsn_collector_version = FACT_COLLECTOR_VERSION, fsn_identity = fsi_identity i, fsn_as_of = fsi_as_of i,
             fsn_policy_id = fsi_policy_id i, fsn_policy_version = fsi_policy_version i, fsn_policy_hash = fsi_policy_hash i,
             fsn_source_refs = fsi_source_refs i, fsn_runtime_observation_refs = fsi_runtime_observation_refs i,
             fsn_scope = \<lparr>ssc_read_scope = fsi_read_scope i, ssc_included = fsi_included i, ssc_truncated = (reason \<noteq> None),
               ssc_truncation_reason = reason\<rparr>,
             fsn_coverage = build_coverage (fsi_required_fields i) kept,
             fsn_limits = \<lparr>sli_max_candidates = fli_max_candidates limits, sli_max_bytes = fli_max_bytes limits,
               sli_max_scan_ops = fli_max_scan_ops limits, sli_candidates_seen = candidates_seen, sli_bytes_used = bytes_used,
               sli_scan_ops = fsi_scan_ops i, sli_omitted_count = dropped + left_out\<rparr>,
             fsn_entity_versions = fsi_entity_versions i, fsn_signals = kept, fsn_workspace_facts = fsi_workspace_facts i,
             fsn_content_hash = []\<rparr>
      in snapshot\<lparr>fsn_content_hash := content_hash_bytes digest snapshot\<rparr>)"

definition build_fact_snapshot ::
  "(json \<Rightarrow> (error, unit) result) \<Rightarrow> (json \<Rightarrow> nat) \<Rightarrow> (json \<Rightarrow> string) \<Rightarrow> fact_snapshot_input \<Rightarrow> (error, fact_snapshot) result" where
  "build_fact_snapshot pub len digest i =
     then_ok
      (run_checks
        ([pub (snapshot_identity_json (fsi_identity i)),
          refuse (fsi_as_of i < 0) (InvalidInput ''fact snapshot as_of must be a non-negative timestamp''),
          refuse (trim_empty (fsi_read_scope i)) (InvalidInput ''fact snapshot requires a nonempty read_scope''),
          limits_capped (fsi_limits i),
          reject_entity_version_conflicts (fsi_entity_versions i),
          check_some (workspace_validate pub) (fsi_workspace_facts i)]
         @ map (validate_signal pub) (fsi_signals i)))
      (let limits = fsi_limits i;
           candidates_seen = max (fsi_candidates_seen i) (length (fsi_signals i));
           signals = (if candidates_seen > fli_max_candidates limits then take (fli_max_candidates limits) (fsi_signals i)
              else fsi_signals i);
           (kept, bytes_used, left_out) = keep_bytes (\<lambda>s. len (signal_json s)) (fli_max_bytes limits) 0 signals;
           snapshot = assembled_snapshot digest i candidates_seen kept bytes_used (length (fsi_signals i) - length signals) left_out
       in then_ok (pub (snapshot_json snapshot)) (Inr snapshot))"

section \<open>Laws\<close>

lemma keep_bytes_inv:
  "keep_bytes size_of limit used xs = (kept, bytes, omitted) \<Longrightarrow> used \<le> limit \<Longrightarrow>
     subseq kept xs \<and> bytes = used + sum_list (map size_of kept) \<and> bytes \<le> limit \<and> length kept + omitted = length xs"
proof (induction xs arbitrary: used kept omitted)
  case (Cons x xs)
  show ?case
  proof (cases "used + size_of x > limit")
    case True
    with Cons.prems obtain om where "keep_bytes size_of limit used xs = (kept, bytes, om)" "omitted = Suc om"
      by (auto split: prod.splits)
    with Cons.IH[of used kept om] Cons.prems(2) show ?thesis by auto
  next
    case False
    with Cons.prems obtain ks where "keep_bytes size_of limit (used + size_of x) xs = (ks, bytes, omitted)" "kept = x # ks"
      by (auto split: prod.splits)
    with Cons.IH[of "used + size_of x" ks omitted] False show ?thesis by auto
  qed
qed simp

lemma subseq_set: "subseq xs ys \<Longrightarrow> set xs \<subseteq> set ys"
  by (induction rule: list_emb.induct) auto

lemma keep_bytes_facts:
  assumes "keep_bytes size_of limit used xs = (kept, bytes, omitted)" and "used \<le> limit"
  shows "subseq kept xs" "bytes = used + sum_list (map size_of kept)" "bytes \<le> limit" "length kept + omitted = length xs"
    "omitted = 0 \<Longrightarrow> kept = xs" "set kept \<subseteq> set xs"
  using keep_bytes_inv[OF assms] subseq_same_length[of kept xs] subseq_set[of kept xs] by simp_all

definition fields_in :: "fact_signal list \<Rightarrow> signal_state set \<Rightarrow> string set" where
  "fields_in signals states = sig_field ` {s \<in> set signals. sig_state s \<in> states}"

lemma fields_in_simps [simp]:
  "fields_in [] S = {}"
  "fields_in (s # ss) S = (if sig_state s \<in> S then insert (sig_field s) (fields_in ss S) else fields_in ss S)"
  by (auto simp: fields_in_def)

lemma finite_fields_in [simp]: "finite (fields_in signals S)"
  by (simp add: fields_in_def)

lemma coverage_fold:
  "cvs_observed (fold coverage_visit ss c) = cvs_observed c \<union> fields_in ss {SgKnown, SgStale, SgConflicting}"
  "cvs_missing (fold coverage_visit ss c) = cvs_missing c \<union> fields_in ss {SgMissing, SgUnknown}"
  "cvs_stale (fold coverage_visit ss c) = cvs_stale c \<union> fields_in ss {SgStale}"
  "cvs_conflicting (fold coverage_visit ss c) = cvs_conflicting c \<union> fields_in ss {SgConflicting}"
  "cvs_unsupported (fold coverage_visit ss c) = cvs_unsupported c \<union> fields_in ss {SgUnsupported}"
  by (induction ss arbitrary: c) (simp_all add: coverage_visit_def split: signal_state.split)

lemma required_fold:
  "fold (required_visit ss) required c = c\<lparr>cvs_missing := cvs_missing c \<union> (set required - sig_field ` set ss)\<rparr>"
proof (induction required arbitrary: c)
  case (Cons f required)
  have "list_ex (\<lambda>s. sig_field s = f) ss \<longleftrightarrow> f \<in> sig_field ` set ss" by (auto simp: list_ex_iff)
  with Cons show ?case by (auto simp: required_visit_def insert_Diff_if)
qed simp

lemma coverage_of:
  "set (cov_observed_fields (build_coverage required ss)) = fields_in ss {SgKnown, SgStale, SgConflicting}"
  "set (cov_missing (build_coverage required ss)) = fields_in ss {SgMissing, SgUnknown} \<union> (set required - sig_field ` set ss)"
  "set (cov_stale (build_coverage required ss)) = fields_in ss {SgStale}"
  "set (cov_conflicting (build_coverage required ss)) = fields_in ss {SgConflicting}"
  "set (cov_unsupported (build_coverage required ss)) = fields_in ss {SgUnsupported}"
  by (simp_all add: build_coverage_def Let_def required_fold coverage_fold)

lemma versions_ok:
  "try_fold version_visit m vs = Inr m' \<Longrightarrow> m \<subseteq>\<^sub>m m' \<and> (\<forall>v\<in>set vs. m' (evr_entity_kind v, evr_entity_id v) = Some (evr_version v))"
proof (induction vs arbitrary: m)
  case (Cons v vs)
  let ?k = "(evr_entity_kind v, evr_entity_id v)"
  from Cons.prems obtain m1 where visit: "version_visit m v = Inr m1" and rest: "try_fold version_visit m1 vs = Inr m'" by auto
  from visit have m1: "m \<subseteq>\<^sub>m m1 \<and> m1 ?k = Some (evr_version v)"
    by (auto simp: version_visit_def Let_def map_le_def refuse_def split: option.splits if_splits)
  from Cons.IH[OF rest] m1 have "m \<subseteq>\<^sub>m m'" "m' ?k = Some (evr_version v)"
    by (auto intro: map_le_trans simp: map_le_def dom_def)
  with Cons.IH[OF rest] show ?case by auto
qed simp

lemma reject_conflicts_ok:
  assumes "reject_entity_version_conflicts vs = Inr ()" and "v \<in> set vs" and "v' \<in> set vs"
    and "evr_entity_kind v = evr_entity_kind v'" and "evr_entity_id v = evr_entity_id v'"
  shows "evr_version v = evr_version v'"
proof -
  from assms(1) obtain m where "try_fold version_visit Map.empty vs = Inr m" by (auto simp: reject_entity_version_conflicts_def)
  from versions_ok[OF this] assms(2-5) show ?thesis by (metis option.inject)
qed

text \<open>What a built snapshot is made of.\<close>

lemma build_ok:
  assumes "build_fact_snapshot pub len digest i = Inr snap"
  obtains kept bytes left_out where
    "keep_bytes (\<lambda>s. len (signal_json s)) (fli_max_bytes (fsi_limits i)) 0 (take (fli_max_candidates (fsi_limits i)) (fsi_signals i)) = (kept, bytes, left_out)"
    "snap = assembled_snapshot digest i (max (fsi_candidates_seen i) (length (fsi_signals i))) kept bytes
       (length (fsi_signals i) - fli_max_candidates (fsi_limits i)) left_out"
proof -
  let ?m = "fli_max_candidates (fsi_limits i)"
  let ?cut = "if max (fsi_candidates_seen i) (length (fsi_signals i)) > ?m then take ?m (fsi_signals i) else fsi_signals i"
  have short: "?cut = take ?m (fsi_signals i)" "length (fsi_signals i) - length (take ?m (fsi_signals i)) = length (fsi_signals i) - ?m"
    by simp_all
  obtain kept bytes left_out where k: "keep_bytes (\<lambda>s. len (signal_json s)) (fli_max_bytes (fsi_limits i)) 0 (take ?m (fsi_signals i))
      = (kept, bytes, left_out)" by (metis prod_cases3)
  show thesis
    by (rule that[OF k]) (use assms in \<open>simp only: build_fact_snapshot_def then_ok_simps Let_def short k prod.case sum.inject\<close>)
qed

lemma assembled_fields [simp]:
  "fsn_signals (assembled_snapshot digest i seen kept bytes dropped lo) = kept"
  "fsn_coverage (assembled_snapshot digest i seen kept bytes dropped lo) = build_coverage (fsi_required_fields i) kept"
  "sli_bytes_used (fsn_limits (assembled_snapshot digest i seen kept bytes dropped lo)) = bytes"
  "sli_max_bytes (fsn_limits (assembled_snapshot digest i seen kept bytes dropped lo)) = fli_max_bytes (fsi_limits i)"
  "sli_max_candidates (fsn_limits (assembled_snapshot digest i seen kept bytes dropped lo)) = fli_max_candidates (fsi_limits i)"
  "sli_candidates_seen (fsn_limits (assembled_snapshot digest i seen kept bytes dropped lo)) = seen"
  "sli_omitted_count (fsn_limits (assembled_snapshot digest i seen kept bytes dropped lo)) = dropped + lo"
  "ssc_truncation_reason (fsn_scope (assembled_snapshot digest i seen kept bytes dropped lo)) = snapshot_reason seen (fsi_limits i) (fsi_scan_ops i) lo"
  "ssc_truncated (fsn_scope (assembled_snapshot digest i seen kept bytes dropped lo)) \<longleftrightarrow> snapshot_reason seen (fsi_limits i) (fsi_scan_ops i) lo \<noteq> None"
  "fsn_workspace_facts (assembled_snapshot digest i seen kept bytes dropped lo) = fsi_workspace_facts i"
  "fsn_entity_versions (assembled_snapshot digest i seen kept bytes dropped lo) = fsi_entity_versions i"
  by (simp_all add: assembled_snapshot_def Let_def)

lemma build_checked:
  assumes "build_fact_snapshot pub len digest i = Inr snap"
  shows "limits_capped (fsi_limits i) = Inr ()" "reject_entity_version_conflicts (fsi_entity_versions i) = Inr ()"
    "\<And>w. fsi_workspace_facts i = Some w \<Longrightarrow> workspace_validate pub w = Inr ()"
    "\<And>s. s \<in> set (fsi_signals i) \<Longrightarrow> validate_signal pub s = Inr ()"
  using assms by (auto simp: build_fact_snapshot_def)

lemma snapshot_limits:
  assumes "build_fact_snapshot pub len digest i = Inr snap"
  shows "subseq (fsn_signals snap) (fsi_signals i)
     \<and> length (fsn_signals snap) \<le> sli_max_candidates (fsn_limits snap) \<and> sli_max_candidates (fsn_limits snap) \<le> FACT_SNAPSHOT_MAX_CANDIDATES
     \<and> sli_bytes_used (fsn_limits snap) = (\<Sum>s\<leftarrow>fsn_signals snap. len (signal_json s))
     \<and> sli_bytes_used (fsn_limits snap) \<le> sli_max_bytes (fsn_limits snap) \<and> sli_max_bytes (fsn_limits snap) \<le> FACT_SNAPSHOT_MAX_BYTES
     \<and> length (fsn_signals snap) + sli_omitted_count (fsn_limits snap) = length (fsi_signals i)
     \<and> (ssc_truncated (fsn_scope snap) \<longleftrightarrow> ssc_truncation_reason (fsn_scope snap) \<noteq> None)
     \<and> (sli_omitted_count (fsn_limits snap) > 0 \<longrightarrow> ssc_truncated (fsn_scope snap))
     \<and> (\<not> ssc_truncated (fsn_scope snap) \<longrightarrow> fsn_signals snap = fsi_signals i)"
  using assms
proof (rule build_ok)
  fix kept bytes left_out
  assume k: "keep_bytes (\<lambda>s. len (signal_json s)) (fli_max_bytes (fsi_limits i)) 0 (take (fli_max_candidates (fsi_limits i)) (fsi_signals i)) = (kept, bytes, left_out)"
    and snap: "snap = assembled_snapshot digest i (max (fsi_candidates_seen i) (length (fsi_signals i))) kept bytes
       (length (fsi_signals i) - fli_max_candidates (fsi_limits i)) left_out"
  note f = keep_bytes_facts[OF k]
  have caps: "fli_max_candidates (fsi_limits i) \<le> FACT_SNAPSHOT_MAX_CANDIDATES" "fli_max_bytes (fsi_limits i) \<le> FACT_SNAPSHOT_MAX_BYTES"
    using build_checked(1)[OF assms] by (auto simp: limits_capped_def refuse_def split: if_splits)
  have sub: "subseq kept (fsi_signals i)"
    using list_emb_prefix[OF f(1), of "drop (fli_max_candidates (fsi_limits i)) (fsi_signals i)"] by simp
  have reason: "snapshot_reason seen limits ops lo = None \<longleftrightarrow> seen \<le> fli_max_candidates limits \<and> \<not> ops > fli_max_scan_ops limits \<and> lo = 0" for seen limits ops lo
    by (auto simp: snapshot_reason_def Let_def split: option.splits)
  have "fsn_signals snap = fsi_signals i" if "\<not> ssc_truncated (fsn_scope snap)"
    using that f(5) by (simp add: snap reason)
  then show ?thesis using sub f(2-4) caps by (auto simp: snap reason)
qed

text \<open>
  C18: A snapshot stays within its limits and says what it left out. The signals it holds are signals of
  the input in their order, at most the allowed number, their serialised size is the size reported and at
  most the allowed one, and every signal of the input is either kept or counted as omitted. A snapshot that
  is not marked as truncated holds all of them; one that is marked has a reason.
\<close>
theorem snapshot_is_bounded:
  assumes "build_fact_snapshot pub len digest i = Inr snap"
  shows "subseq (fsn_signals snap) (fsi_signals i)
     \<and> length (fsn_signals snap) \<le> sli_max_candidates (fsn_limits snap) \<and> sli_max_candidates (fsn_limits snap) \<le> FACT_SNAPSHOT_MAX_CANDIDATES
     \<and> sli_bytes_used (fsn_limits snap) = (\<Sum>s\<leftarrow>fsn_signals snap. len (signal_json s))
     \<and> sli_bytes_used (fsn_limits snap) \<le> sli_max_bytes (fsn_limits snap) \<and> sli_max_bytes (fsn_limits snap) \<le> FACT_SNAPSHOT_MAX_BYTES
     \<and> length (fsn_signals snap) + sli_omitted_count (fsn_limits snap) = length (fsi_signals i)
     \<and> (ssc_truncated (fsn_scope snap) \<longleftrightarrow> ssc_truncation_reason (fsn_scope snap) \<noteq> None)
     \<and> (sli_omitted_count (fsn_limits snap) > 0 \<longrightarrow> ssc_truncated (fsn_scope snap))
     \<and> (\<not> ssc_truncated (fsn_scope snap) \<longrightarrow> fsn_signals snap = fsi_signals i)"
  using assms by (rule snapshot_limits)

lemma snapshot_conflicts:
  assumes "build_fact_snapshot pub len digest i = Inr snap"
  shows "set (cov_conflicting (fsn_coverage snap)) = sig_field ` {s \<in> set (fsn_signals snap). sig_state s = SgConflicting}"
  using assms by (rule build_ok) (simp add: coverage_of fields_in_def)

lemma signal_rules:
  "validate_signal pub s = Inr () \<Longrightarrow> (sig_state s = SgKnown \<longrightarrow> sig_value s \<noteq> None)
     \<and> (sig_state s \<in> {SgMissing, SgUnsupported, SgUnknown} \<longrightarrow> sig_value s = None)
     \<and> (sig_basis s \<in> {HostAsserted, RuleDerived} \<and> sig_state s = SgKnown \<longrightarrow> sig_classification s \<noteq> SgFact)"
  by (auto simp: validate_signal_def)

text \<open>
  C19: A snapshot never fills a gap. In a built snapshot a known signal has a value, and a missing,
  unsupported or unknown one has none; what the host asserts or a rule derives is never classified as a
  known fact. Every required field is observed, missing or unsupported, a required field without a signal
  is missing, and the conflicting fields are exactly those of the conflicting signals. No entity has two
  versions. Without a bound diff no workspace fact claims zero changed lines or a low risk.
\<close>
theorem snapshot_never_fills_gaps:
  assumes "build_fact_snapshot pub len digest i = Inr snap"
  shows "(\<forall>s\<in>set (fsn_signals snap). (sig_state s = SgKnown \<longrightarrow> sig_value s \<noteq> None)
        \<and> (sig_state s \<in> {SgMissing, SgUnsupported, SgUnknown} \<longrightarrow> sig_value s = None)
        \<and> (sig_basis s \<in> {HostAsserted, RuleDerived} \<and> sig_state s = SgKnown \<longrightarrow> sig_classification s \<noteq> SgFact))
     \<and> set (fsi_required_fields i) \<subseteq> set (cov_observed_fields (fsn_coverage snap)) \<union> set (cov_missing (fsn_coverage snap)) \<union> set (cov_unsupported (fsn_coverage snap))
     \<and> set (fsi_required_fields i) - sig_field ` set (fsn_signals snap) \<subseteq> set (cov_missing (fsn_coverage snap))
     \<and> set (cov_conflicting (fsn_coverage snap)) = sig_field ` {s \<in> set (fsn_signals snap). sig_state s = SgConflicting}
     \<and> (\<forall>v\<in>set (fsn_entity_versions snap). \<forall>v'\<in>set (fsn_entity_versions snap).
          evr_entity_kind v = evr_entity_kind v' \<and> evr_entity_id v = evr_entity_id v' \<longrightarrow> v = v')
     \<and> (\<forall>w. fsn_workspace_facts snap = Some w \<and> wsf_coverage w \<noteq> DiffBound \<longrightarrow>
          wsf_changed_lines w \<noteq> Some 0 \<and> wsf_change_risk w \<notin> {Some ''low'', Some ''low_risk''})"
  using assms
proof (rule build_ok)
  fix kept bytes left_out
  assume k: "keep_bytes (\<lambda>s. len (signal_json s)) (fli_max_bytes (fsi_limits i)) 0 (take (fli_max_candidates (fsi_limits i)) (fsi_signals i)) = (kept, bytes, left_out)"
    and snap: "snap = assembled_snapshot digest i (max (fsi_candidates_seen i) (length (fsi_signals i))) kept bytes
       (length (fsi_signals i) - fli_max_candidates (fsi_limits i)) left_out"
  have "validate_signal pub s = Inr ()" if "s \<in> set kept" for s
    using that keep_bytes_facts(6)[OF k] build_checked(4)[OF assms] by (auto dest: in_set_takeD)
  then have signals: "\<forall>s\<in>set kept. (sig_state s = SgKnown \<longrightarrow> sig_value s \<noteq> None)
        \<and> (sig_state s \<in> {SgMissing, SgUnsupported, SgUnknown} \<longrightarrow> sig_value s = None)
        \<and> (sig_basis s \<in> {HostAsserted, RuleDerived} \<and> sig_state s = SgKnown \<longrightarrow> sig_classification s \<noteq> SgFact)"
    using signal_rules by blast
  have every: "sig_field ` set kept = fields_in kept {SgKnown, SgStale, SgConflicting} \<union> fields_in kept {SgMissing, SgUnknown} \<union> fields_in kept {SgUnsupported}"
    unfolding fields_in_def using signal_state.exhaust by blast
  have versions: "v = v'" if "v \<in> set (fsi_entity_versions i)" "v' \<in> set (fsi_entity_versions i)" "evr_entity_kind v = evr_entity_kind v'"
      "evr_entity_id v = evr_entity_id v'" for v v'
    using reject_conflicts_ok[OF build_checked(2)[OF assms] that] that(3,4) by simp
  have work: "wsf_changed_lines w \<noteq> Some 0 \<and> wsf_change_risk w \<notin> {Some ''low'', Some ''low_risk''}"
    if "fsi_workspace_facts i = Some w" "wsf_coverage w \<noteq> DiffBound" for w
    using build_checked(3)[OF assms that(1)] that(2)
    by (cases "wsf_coverage w") (auto simp: workspace_validate_def low_risk_def refuse_def split: if_splits)
  show ?thesis unfolding snap assembled_fields coverage_of using signals every versions work by (auto simp: fields_in_def)
qed

definition ex_signals :: "fact_signal list" where
  "ex_signals = [signal_known ''a'' (JBool True) SourceDeclared None None, signal_missing ''b'' HostAsserted,
     (signal_known ''c'' (JBool True) HostAsserted None None)\<lparr>sig_state := SgConflicting\<rparr>]"

definition ex_snapshot_input :: "fact_signal list \<Rightarrow> nat \<Rightarrow> fact_snapshot_input" where
  "ex_snapshot_input signals max_bytes =
     \<lparr>fsi_identity = \<lparr>sid_project_id = Some ''p'', sid_work_key = None, sid_work_id = None, sid_branch_id = None, sid_work_contract_hash = None\<rparr>,
      fsi_as_of = 7, fsi_policy_id = None, fsi_policy_version = None, fsi_policy_hash = None, fsi_source_refs = [],
      fsi_runtime_observation_refs = [], fsi_entity_versions = [\<lparr>evr_entity_kind = ''work'', evr_entity_id = ''w'', evr_version = ''1''\<rparr>],
      fsi_signals = signals, fsi_required_fields = [''a'', ''d''], fsi_workspace_facts = Some (without_diff HostSupplied None),
      fsi_read_scope = ''project'', fsi_included = [],
      fsi_limits = \<lparr>fli_max_candidates = 8, fli_max_bytes = max_bytes, fli_max_scan_ops = 8\<rparr>, fsi_candidates_seen = 0, fsi_scan_ops = 1\<rparr>"

text \<open>Every serialised value is ten bytes long, and all of them are public.\<close>

definition ex_build :: "fact_signal list \<Rightarrow> nat \<Rightarrow> (error, fact_snapshot) result" where
  "ex_build signals max_bytes = build_fact_snapshot (\<lambda>_. Inr ()) (\<lambda>_. 10) (\<lambda>_. ''hash'') (ex_snapshot_input signals max_bytes)"

lemma ex_builds: "is_ok (ex_build ex_signals 100)" "is_ok (ex_build ex_signals 20)"
  by code_simp+

theorem snapshot_is_bounded_witness:
  "\<exists>snap. ex_build ex_signals 20 = Inr snap \<and> length (fsn_signals snap) + sli_omitted_count (fsn_limits snap) = 3
     \<and> sli_bytes_used (fsn_limits snap) \<le> sli_max_bytes (fsn_limits snap)"
proof -
  from ex_builds(2) obtain snap where snap: "ex_build ex_signals 20 = Inr snap" by (auto simp: is_ok_iff)
  from snapshot_is_bounded[OF this[unfolded ex_build_def]] snap show ?thesis by (auto simp: ex_snapshot_input_def ex_signals_def)
qed

theorem snapshot_never_fills_gaps_witness:
  "\<exists>snap. ex_build ex_signals 100 = Inr snap \<and> fsn_signals snap = ex_signals \<and> ''d'' \<in> set (cov_missing (fsn_coverage snap))"
proof -
  have "is_ok (and_then (ex_build ex_signals 100) (\<lambda>snap. if map sig_field (fsn_signals snap) = [''a'', ''b'', ''c''] \<and> sli_omitted_count (fsn_limits snap) = 0
      then Inr () else Inl (NotFound [])))" by code_simp
  then obtain snap where snap: "ex_build ex_signals 100 = Inr snap" and f: "sli_omitted_count (fsn_limits snap) = 0" "map sig_field (fsn_signals snap) = [''a'', ''b'', ''c'']"
    by (auto simp: is_ok_iff split: if_splits)
  have sub: "subseq (fsn_signals snap) ex_signals" "length (fsn_signals snap) = length ex_signals"
    using snapshot_limits[OF snap[unfolded ex_build_def]] f(1) by (simp_all add: ex_snapshot_input_def)
  then have all: "fsn_signals snap = ex_signals" by (metis list_emb_length subseq_same_length)
  have "sig_field ` set (fsn_signals snap) = {''a'', ''b'', ''c''}" using f(2) by (metis list.set_map list.simps(15) list.set(1))
  then have "''d'' \<in> set (cov_missing (fsn_coverage snap))"
    using snapshot_never_fills_gaps[OF snap[unfolded ex_build_def]] by (auto simp: ex_snapshot_input_def)
  with snap all show ?thesis by blast
qed

text \<open>A local observation that the caller classifies as a fact is accepted and counts as verified.\<close>

lemma local_observation_counts_as_verified:
  "is_ok (ex_build [(signal_known ''a'' (JBool True) LocallyObserved None None)\<lparr>sig_classification := SgFact\<rparr>] 100)
   \<and> is_verified_fact ((signal_known ''a'' (JBool True) LocallyObserved None None)\<lparr>sig_classification := SgFact\<rparr>)"
  by code_simp

end
