(* ===== verification/Management_Decision.thy ===== *)
theory Management_Decision
  imports Fact_Snapshot
begin

text \<open>
  \<^verbatim>\<open>crates/awr-core/src/management.rs\<close> and \<^verbatim>\<open>guidance.rs\<close>: how closely a piece of work is managed, decided from
  what the host observed, and the guidance record. The secret scanner is the argument \<open>pub\<close>.
\<close>

record management_observation =
  mob_observed_at :: i64
  mob_note :: string
  mob_single_outcome :: "bool option"
  mob_bounded_scope :: "bool option"
  mob_single_executor :: "bool option"
  mob_no_deferred_wait :: "bool option"
  mob_independently_schedulable_units :: "u32 option"
  mob_plan_valid :: "bool option"
  mob_outcome_known :: "bool option"
  mob_active_elapsed_ms :: "u64 option"
  mob_completed_rework_cycles :: "u32 option"

record management_reason =
  mgr_code :: string
  mgr_basis :: string
  mgr_reference :: string

datatype (plugins only: code size) management_mode = MmUndetermined | MmLightweight | MmContinuous

record management_decision =
  mgd_version :: u32
  mgd_mode :: management_mode
  mgd_reasons :: "management_reason list"
  mgd_unknown_observations :: "string list"
  mgd_reevaluation_signals :: "string list"
  mgd_required_actions :: "string list"
  mgd_optional_maintenance :: "string list"
  mgd_completion_policy :: string
  mgd_execution_admission :: string

definition ACTION_GUIDANCE_MAX_BYTES :: nat where
  "ACTION_GUIDANCE_MAX_BYTES = 1024"

record action_guidance =
  gui_when :: string
  gui_basis :: string
  gui_next_action :: string
  gui_recheck :: string

definition guidance_new :: "string \<Rightarrow> string \<Rightarrow> string \<Rightarrow> string \<Rightarrow> action_guidance" where
  "guidance_new when_text basis next_action recheck =
     \<lparr>gui_when = when_text, gui_basis = basis, gui_next_action = next_action, gui_recheck = recheck\<rparr>"

definition observation_json :: "management_observation \<Rightarrow> json" where
  "observation_json o' = JObject
     [(''observed_at'', json_int (mob_observed_at o')), (''note'', JString (mob_note o')),
      (''single_outcome'', null_or JBool (mob_single_outcome o')), (''bounded_scope'', null_or JBool (mob_bounded_scope o')),
      (''single_executor'', null_or JBool (mob_single_executor o')), (''no_deferred_wait'', null_or JBool (mob_no_deferred_wait o')),
      (''independently_schedulable_units'', null_or json_word (mob_independently_schedulable_units o')),
      (''plan_valid'', null_or JBool (mob_plan_valid o')), (''outcome_known'', null_or JBool (mob_outcome_known o')),
      (''active_elapsed_ms'', null_or json_word (mob_active_elapsed_ms o')),
      (''completed_rework_cycles'', null_or json_word (mob_completed_rework_cycles o'))]"

definition management_observation_validate :: "(json \<Rightarrow> (error, unit) result) \<Rightarrow> management_observation \<Rightarrow> i64 \<Rightarrow> (error, unit) result" where
  "management_observation_validate pub o' at = run_checks
     [pub (observation_json o'),
      refuse (mob_observed_at o' < 0 \<or> mob_observed_at o' > at \<or> trim_empty (mob_note o') \<or> length (mob_note o') > 4096
          \<or> mob_independently_schedulable_units o' = Some 0)
        (InvalidInput ''observations require a past/current observed_at, bounded explanatory note and positive unit count when known'')]"

definition observation_default :: management_observation where
  "observation_default = \<lparr>mob_observed_at = 0, mob_note = [], mob_single_outcome = None, mob_bounded_scope = None,
     mob_single_executor = None, mob_no_deferred_wait = None, mob_independently_schedulable_units = None, mob_plan_valid = None,
     mob_outcome_known = None, mob_active_elapsed_ms = None, mob_completed_rework_cycles = None\<rparr>"

text \<open>The questions in the order of the loop: name, answer, and the reason a negative answer gives.\<close>

definition observed_answers :: "management_observation \<Rightarrow> (string \<times> bool option \<times> string) list" where
  "observed_answers o' =
     [(''single_outcome'', mob_single_outcome o', ''multiple_outcomes''),
      (''bounded_scope'', mob_bounded_scope o', ''scope_requires_planning''),
      (''single_executor'', mob_single_executor o', ''handoff_or_collaboration''),
      (''no_deferred_wait'', mob_no_deferred_wait o', ''deferred_wait''),
      (''plan_valid'', mob_plan_valid o', ''plan_invalidated''),
      (''outcome_known'', mob_outcome_known o', ''query_outcome_before_retry'')]"

definition host_reason :: "string \<Rightarrow> string \<Rightarrow> management_reason" where
  "host_reason code reference = \<lparr>mgr_code = code, mgr_basis = ''host_assertion'', mgr_reference = reference\<rparr>"

definition answer_visit ::
  "string list \<times> management_reason list \<Rightarrow> string \<times> bool option \<times> string \<Rightarrow> string list \<times> management_reason list" where
  "answer_visit = (\<lambda>(unknown, reasons) (name, answer, trigger).
     case answer of
       None \<Rightarrow> (unknown @ [name], reasons)
     | Some False \<Rightarrow> (unknown, reasons @ [host_reason trigger name])
     | Some True \<Rightarrow> (unknown, reasons))"

definition observed_state :: "management_observation \<Rightarrow> management_reason list \<Rightarrow> string list \<times> management_reason list" where
  "observed_state o' reasons =
     (let (unknown, reasons) = foldl answer_visit ([], reasons) (observed_answers o') in
      case mob_independently_schedulable_units o' of
        None \<Rightarrow> (unknown @ [''independently_schedulable_units''], reasons)
      | Some n \<Rightarrow> if n \<ge> 2 then (unknown, reasons @ [host_reason ''independent_work_units'' ''independently_schedulable_units''])
          else (unknown, reasons))"

definition management_actions :: "management_mode \<Rightarrow> string list \<Rightarrow> string list \<Rightarrow> string list" where
  "management_actions mode unknown reevaluate =
     [''preserve_identity_intent_scope_and_current_state'', ''consume_required_context_and_hard_rules'',
      ''retain_completion_basis_and_actual_outcome'', ''check_source_versions_permissions_claims_and_request_identity'']
     @ (if mode = MmContinuous then
          [''maintain_dependencies_and_ownership'', ''checkpoint_at_wait_handoff_interruption_and_phase_change'',
           ''maintain_next_action_wait_conditions_and_open_loops'', ''query_unknown_results_before_any_retry''] else [])
     @ (if unknown \<noteq> [] \<and> mode = MmUndetermined then [''assess_unknown_management_facts''] else [])
     @ (if reevaluate \<noteq> [] then [''reevaluate_scope_plan_and_recovery_without_automatic_upgrade''] else [])"

definition optional_maintenance :: "management_mode \<Rightarrow> string list" where
  "optional_maintenance mode =
     (if mode = MmContinuous then [''per_tool_checkpoints'', ''duplicate_goal_rule_or_report_bodies'']
      else [''separate_goal_document_when_explicit_inheritance_suffices'', ''per_tool_checkpoints'', ''task_graph_without_dependencies'',
        ''duplicate_summaries_or_evidence_bodies''])"

definition decide_management ::
  "management_observation option \<Rightarrow> management_reason list \<Rightarrow> bool \<Rightarrow> management_decision" where
  "decide_management observation reasons prior_continuous =
     (let o' = (case observation of Some x \<Rightarrow> x | None \<Rightarrow> observation_default);
          (unknown, reasons) = observed_state o' reasons;
          reevaluate =
            (case mob_active_elapsed_ms o' of Some n \<Rightarrow> if n \<ge> 30 * 60 * 1000 then [''active_elapsed_at_least_30_minutes''] else [] | None \<Rightarrow> [])
            @ (case mob_completed_rework_cycles o' of Some n \<Rightarrow> if n \<ge> 3 then [''at_least_3_completed_rework_cycles''] else [] | None \<Rightarrow> []);
          mode = (if prior_continuous \<or> reasons \<noteq> [] then MmContinuous else if unknown = [] then MmLightweight else MmUndetermined);
          reasons = (if prior_continuous then reasons @ [\<lparr>mgr_code = ''continuous_management_retained'', mgr_basis = ''runtime_history'',
            mgr_reference = ''previous_management_record''\<rparr>] else reasons)
      in \<lparr>mgd_version = 1, mgd_mode = mode, mgd_reasons = reasons, mgd_unknown_observations = unknown,
          mgd_reevaluation_signals = reevaluate, mgd_required_actions = management_actions mode unknown reevaluate,
          mgd_optional_maintenance = optional_maintenance mode, mgd_completion_policy = ''unchanged_source_policy'',
          mgd_execution_admission = ''not_granted_by_management_classification''\<rparr>)"

section \<open>Laws\<close>

lemma answers_fold:
  "foldl answer_visit (u, r) qs = (u @ map fst (filter (\<lambda>q. fst (snd q) = None) qs),
     r @ map (\<lambda>q. host_reason (snd (snd q)) (fst q)) (filter (\<lambda>q. fst (snd q) = Some False) qs))"
  by (induction qs arbitrary: u r) (auto simp: answer_visit_def split: option.splits bool.splits)

text \<open>The seven questions, with the answer and the reason an unfavourable answer gives.\<close>

definition all_answers :: "management_observation \<Rightarrow> (string \<times> bool option \<times> string) list" where
  "all_answers o' =
     [(''single_outcome'', mob_single_outcome o', ''multiple_outcomes''),
      (''bounded_scope'', mob_bounded_scope o', ''scope_requires_planning''),
      (''single_executor'', mob_single_executor o', ''handoff_or_collaboration''),
      (''no_deferred_wait'', mob_no_deferred_wait o', ''deferred_wait''),
      (''plan_valid'', mob_plan_valid o', ''plan_invalidated''),
      (''outcome_known'', mob_outcome_known o', ''query_outcome_before_retry''),
      (''independently_schedulable_units'', map_option (\<lambda>n. n < 2) (mob_independently_schedulable_units o'), ''independent_work_units'')]"

lemma all_answers_eq: "all_answers o' = observed_answers o'
     @ [(''independently_schedulable_units'', map_option (\<lambda>n. n < 2) (mob_independently_schedulable_units o'), ''independent_work_units'')]"
  by (simp add: all_answers_def observed_answers_def)

lemma observed_state_eq:
  "observed_state o' reasons = (map fst (filter (\<lambda>q. fst (snd q) = None) (all_answers o')),
     reasons @ map (\<lambda>q. host_reason (snd (snd q)) (fst q)) (filter (\<lambda>q. fst (snd q) = Some False) (all_answers o')))"
  by (cases "mob_independently_schedulable_units o'")
     (simp_all add: observed_state_def answers_fold all_answers_eq not_less)

abbreviation answers_of :: "management_observation option \<Rightarrow> (string \<times> bool option \<times> string) list" where
  "answers_of observation \<equiv> all_answers (case observation of Some x \<Rightarrow> x | None \<Rightarrow> observation_default)"

abbreviation unfavourable :: "(string \<times> bool option \<times> string) list \<Rightarrow> management_reason list" where
  "unfavourable ans \<equiv> map (\<lambda>q. host_reason (snd (snd q)) (fst q)) (filter (\<lambda>q. fst (snd q) = Some False) ans)"

lemma decision_fields:
  "mgd_unknown_observations (decide_management observation reasons prior) = map fst (filter (\<lambda>q. fst (snd q) = None) (answers_of observation))"
  "mgd_mode (decide_management observation reasons prior) =
     (if prior \<or> reasons @ unfavourable (answers_of observation) \<noteq> [] then MmContinuous
      else if map fst (filter (\<lambda>q. fst (snd q) = None) (answers_of observation)) = [] then MmLightweight else MmUndetermined)"
  "mgd_reasons (decide_management observation reasons prior) = reasons @ unfavourable (answers_of observation)
     @ (if prior then [\<lparr>mgr_code = ''continuous_management_retained'', mgr_basis = ''runtime_history'',
            mgr_reference = ''previous_management_record''\<rparr>] else [])"
  unfolding decide_management_def Let_def observed_state_eq prod.case by simp_all

lemma timing_changes_signals_only:
  fixes o' ms cycles
  defines "o'' \<equiv> o'\<lparr>mob_active_elapsed_ms := ms, mob_completed_rework_cycles := cycles\<rparr>"
  shows "decide_management (Some o'') reasons prior = (decide_management (Some o') reasons prior)
     \<lparr>mgd_reevaluation_signals := mgd_reevaluation_signals (decide_management (Some o'') reasons prior),
      mgd_required_actions := mgd_required_actions (decide_management (Some o'') reasons prior)\<rparr>"
  "filter (\<lambda>x. x \<noteq> ''reevaluate_scope_plan_and_recovery_without_automatic_upgrade'') (mgd_required_actions (decide_management (Some o'') reasons prior))
   = filter (\<lambda>x. x \<noteq> ''reevaluate_scope_plan_and_recovery_without_automatic_upgrade'') (mgd_required_actions (decide_management (Some o') reasons prior))"
proof -
  have same: "observed_state o'' reasons = observed_state o' reasons"
    by (simp add: o''_def observed_state_def observed_answers_def)
  show "decide_management (Some o'') reasons prior = (decide_management (Some o') reasons prior)
     \<lparr>mgd_reevaluation_signals := mgd_reevaluation_signals (decide_management (Some o'') reasons prior),
      mgd_required_actions := mgd_required_actions (decide_management (Some o'') reasons prior)\<rparr>"
    by (cases "observed_state o' reasons") (simp add: decide_management_def same Let_def)
  show "filter (\<lambda>x. x \<noteq> ''reevaluate_scope_plan_and_recovery_without_automatic_upgrade'') (mgd_required_actions (decide_management (Some o'') reasons prior))
   = filter (\<lambda>x. x \<noteq> ''reevaluate_scope_plan_and_recovery_without_automatic_upgrade'') (mgd_required_actions (decide_management (Some o') reasons prior))"
    by (cases "observed_state o' reasons") (simp add: decide_management_def same Let_def management_actions_def)
qed

lemma signals_iff:
  "mgd_reevaluation_signals (decide_management (Some o') reasons prior) \<noteq> [] \<longleftrightarrow>
     (\<exists>n. mob_active_elapsed_ms o' = Some n \<and> n \<ge> 30 * 60 * 1000) \<or> (\<exists>n. mob_completed_rework_cycles o' = Some n \<and> n \<ge> 3)"
  by (cases "observed_state o' reasons") (auto simp: decide_management_def Let_def split: option.splits)

text \<open>
  C22: The management decision never guesses. Work is managed continuously exactly if it already was, a
  reason was handed in, or one of the seven questions was answered unfavourably; it is lightweight exactly
  if none of that holds and all seven were answered favourably; and it stays undetermined exactly if an
  answer is missing and nothing demands continuous management. The missing answers are the ones listed,
  and without an observation all are missing. Every reason handed in is kept and each unfavourable answer
  adds its own. Elapsed time and rework never change the mode: they give a re-evaluation signal exactly
  from thirty minutes or three cycles on, and two observations that differ in nothing else lead to
  decisions that differ in nothing but the signals and the required action to re-evaluate.
\<close>
theorem management_never_guesses:
  fixes observation reasons prior
  defines "ans \<equiv> answers_of observation" and "d \<equiv> decide_management observation reasons prior"
  shows "(mgd_mode d = MmContinuous \<longleftrightarrow> prior \<or> reasons \<noteq> [] \<or> (\<exists>q\<in>set ans. fst (snd q) = Some False))
     \<and> (mgd_mode d = MmLightweight \<longleftrightarrow> \<not> prior \<and> reasons = [] \<and> (\<forall>q\<in>set ans. fst (snd q) = Some True))
     \<and> (mgd_mode d = MmUndetermined \<longleftrightarrow> \<not> prior \<and> reasons = [] \<and> (\<forall>q\<in>set ans. fst (snd q) \<noteq> Some False) \<and> (\<exists>q\<in>set ans. fst (snd q) = None))
     \<and> set (mgd_unknown_observations d) = fst ` {q \<in> set ans. fst (snd q) = None}
     \<and> (observation = None \<longrightarrow> (\<forall>q\<in>set ans. fst (snd q) = None))
     \<and> set reasons \<subseteq> set (mgd_reasons d)
     \<and> (\<lambda>q. snd (snd q)) ` {q \<in> set ans. fst (snd q) = Some False} \<subseteq> mgr_code ` set (mgd_reasons d)
     \<and> (\<forall>o'. observation = Some o' \<longrightarrow>
          (mgd_reevaluation_signals d \<noteq> [] \<longleftrightarrow> (\<exists>n. mob_active_elapsed_ms o' = Some n \<and> n \<ge> 30 * 60 * 1000)
            \<or> (\<exists>n. mob_completed_rework_cycles o' = Some n \<and> n \<ge> 3))
          \<and> (\<forall>ms cycles. let d' = decide_management (Some (o'\<lparr>mob_active_elapsed_ms := ms, mob_completed_rework_cycles := cycles\<rparr>)) reasons prior in
               d' = d\<lparr>mgd_reevaluation_signals := mgd_reevaluation_signals d', mgd_required_actions := mgd_required_actions d'\<rparr>
               \<and> filter (\<lambda>x. x \<noteq> ''reevaluate_scope_plan_and_recovery_without_automatic_upgrade'') (mgd_required_actions d')
                 = filter (\<lambda>x. x \<noteq> ''reevaluate_scope_plan_and_recovery_without_automatic_upgrade'') (mgd_required_actions d)))"
proof -
  note f = decision_fields[of observation reasons prior, folded ans_def d_def]
  have cases: "fst (snd q) = Some True \<longleftrightarrow> fst (snd q) \<noteq> Some False \<and> fst (snd q) \<noteq> None" for q :: "string \<times> bool option \<times> string"
    by (cases "fst (snd q)") auto
  have none: "unfavourable ans = [] \<longleftrightarrow> \<not> (\<exists>q\<in>set ans. fst (snd q) = Some False)"
      "map fst (filter (\<lambda>q. fst (snd q) = None) ans) = [] \<longleftrightarrow> \<not> (\<exists>q\<in>set ans. fst (snd q) = None)" by (auto simp: filter_empty_conv)
  show ?thesis
  proof (intro conjI impI allI)
    show "mgd_mode d = MmContinuous \<longleftrightarrow> prior \<or> reasons \<noteq> [] \<or> (\<exists>q\<in>set ans. fst (snd q) = Some False)"
      unfolding f append_is_Nil_conv none by simp
    show "mgd_mode d = MmLightweight \<longleftrightarrow> \<not> prior \<and> reasons = [] \<and> (\<forall>q\<in>set ans. fst (snd q) = Some True)"
      unfolding f append_is_Nil_conv none cases by auto
    show "mgd_mode d = MmUndetermined \<longleftrightarrow> \<not> prior \<and> reasons = [] \<and> (\<forall>q\<in>set ans. fst (snd q) \<noteq> Some False) \<and> (\<exists>q\<in>set ans. fst (snd q) = None)"
      unfolding f append_is_Nil_conv none by auto
    show "set (mgd_unknown_observations d) = fst ` {q \<in> set ans. fst (snd q) = None}" "set reasons \<subseteq> set (mgd_reasons d)"
      unfolding f by auto
    show "\<forall>q\<in>set ans. fst (snd q) = None" if "observation = None"
      using that by (simp add: ans_def all_answers_def observation_default_def)
    show "(\<lambda>q. snd (snd q)) ` {q \<in> set ans. fst (snd q) = Some False} \<subseteq> mgr_code ` set (mgd_reasons d)"
    proof
      fix c assume "c \<in> (\<lambda>q. snd (snd q)) ` {q \<in> set ans. fst (snd q) = Some False}"
      then obtain q where "q \<in> set ans" "fst (snd q) = Some False" "c = snd (snd q)" by blast
      then have "host_reason c (fst q) \<in> set (mgd_reasons d)" unfolding f by simp
      moreover have "mgr_code (host_reason c (fst q)) = c" by (simp add: host_reason_def)
      ultimately show "c \<in> mgr_code ` set (mgd_reasons d)" by (metis imageI)
    qed
  next
    fix o' assume o': "observation = Some o'"
    show "mgd_reevaluation_signals d \<noteq> [] \<longleftrightarrow> (\<exists>n. mob_active_elapsed_ms o' = Some n \<and> n \<ge> 30 * 60 * 1000)
        \<or> (\<exists>n. mob_completed_rework_cycles o' = Some n \<and> n \<ge> 3)" unfolding d_def o' by (rule signals_iff)
    fix ms cycles
    show "let d' = decide_management (Some (o'\<lparr>mob_active_elapsed_ms := ms, mob_completed_rework_cycles := cycles\<rparr>)) reasons prior in
        d' = d\<lparr>mgd_reevaluation_signals := mgd_reevaluation_signals d', mgd_required_actions := mgd_required_actions d'\<rparr>
        \<and> filter (\<lambda>x. x \<noteq> ''reevaluate_scope_plan_and_recovery_without_automatic_upgrade'') (mgd_required_actions d')
          = filter (\<lambda>x. x \<noteq> ''reevaluate_scope_plan_and_recovery_without_automatic_upgrade'') (mgd_required_actions d)"
      unfolding d_def o' Let_def by (intro conjI timing_changes_signals_only)
  qed
qed

definition ex_observed :: "bool option \<Rightarrow> management_observation" where
  "ex_observed outcome = \<lparr>mob_observed_at = 1, mob_note = ''seen'', mob_single_outcome = Some True, mob_bounded_scope = Some True,
     mob_single_executor = Some True, mob_no_deferred_wait = Some True, mob_independently_schedulable_units = Some 1,
     mob_plan_valid = Some True, mob_outcome_known = outcome, mob_active_elapsed_ms = Some 9000000, mob_completed_rework_cycles = None\<rparr>"

theorem management_never_guesses_witness:
  "mgd_mode (decide_management (Some (ex_observed (Some True))) [] False) = MmLightweight
   \<and> mgd_mode (decide_management (Some (ex_observed (Some False))) [] False) = MmContinuous
   \<and> mgd_mode (decide_management (Some (ex_observed None)) [] False) = MmUndetermined"
proof -
  have "mgd_mode (decide_management (Some (ex_observed (Some True))) [] False) = MmLightweight"
       "mgd_mode (decide_management (Some (ex_observed (Some False))) [] False) = MmContinuous"
    using management_never_guesses[of "Some (ex_observed (Some True))" "[]" False] management_never_guesses[of "Some (ex_observed (Some False))" "[]" False]
    by (simp_all add: all_answers_def ex_observed_def)
  moreover have "mgd_mode (decide_management (Some (ex_observed None)) [] False) = MmUndetermined" by code_simp
  ultimately show ?thesis by blast
qed

end
