(* ===== verification/Assessment_Envelope.thy ===== *)
theory Assessment_Envelope
  imports Management_Decision Ordered_Map "HOL-Library.Product_Lexorder" "HOL-Library.Multiset"
begin

text \<open>
  \<^verbatim>\<open>crates/awr-core/src/assessment_envelope.rs\<close>: assessments of a piece of work, composed from a fact snapshot, a
  management decision and sub-assessments into one envelope with a hard gate.

  The five layers are a function of the layer identifier, since the code always holds all five; the maps of
  the envelope are ordered association lists. \<^verbatim>\<open>sort_by\<close> is stable and is \<open>sort_key\<close> with the compared fields
  as the key, \<^verbatim>\<open>dedup\<close> removes adjacent duplicates. \<open>pub\<close>, \<open>len\<close> and \<open>digest\<close> are as in \<open>Fact_Snapshot\<close>.
\<close>

section \<open>Data\<close>

definition ASSESSMENT_ENVELOPE_SCHEMA_ID :: string where
  "ASSESSMENT_ENVELOPE_SCHEMA_ID = ''awr-assessment-envelope-v1''"

definition ASSESSMENT_ENVELOPE_SCHEMA_VERSION :: u32 where
  "ASSESSMENT_ENVELOPE_SCHEMA_VERSION = 1"

definition ASSESSMENT_PROFILE_MANAGEMENT_ACTION :: string where
  "ASSESSMENT_PROFILE_MANAGEMENT_ACTION = ''management_and_action_rationale''"

definition ASSESSMENT_POLICY_ID :: string where
  "ASSESSMENT_POLICY_ID = ''tip_management_v1''"

definition ASSESSMENT_POLICY_VERSION :: u32 where
  "ASSESSMENT_POLICY_VERSION = 1"

definition ASSESSMENT_MAX_ASSESSMENTS :: nat where
  "ASSESSMENT_MAX_ASSESSMENTS = 64"

definition ASSESSMENT_MAX_ADVISORY :: nat where
  "ASSESSMENT_MAX_ADVISORY = 32"

definition ASSESSMENT_MAX_CANDIDATES :: nat where
  "ASSESSMENT_MAX_CANDIDATES = 256"

definition ASSESSMENT_MAX_RETURN_BYTES :: nat where
  "ASSESSMENT_MAX_RETURN_BYTES = 256 * 1024"

definition ADVISORY_ACTION_CODES :: "string list" where
  "ADVISORY_ACTION_CODES =
     [''continue_prepare_current_work'', ''query_original_operation_result'', ''collect_user_reply'', ''refresh_sources'',
      ''repair_required_materials'', ''inspect_claim_conflict'', ''request_human_review'', ''record_management_observations'',
      ''no_advisory'']"

definition DEFAULT_REASON_CODE_ORDER :: "string list" where
  "DEFAULT_REASON_CODE_ORDER =
     [''execution_result_requires_query'', ''query_outcome_before_retry'', ''work_contract_changed'', ''unresolved_dependencies'',
      ''plan_invalidated'', ''persistent_wait'', ''deferred_wait'', ''work_handoff'', ''cross_session_resume'',
      ''handoff_or_collaboration'', ''multiple_outcomes'', ''scope_requires_planning'', ''independent_work_units'',
      ''continuous_management_retained'', ''claim_conflict'', ''hard_guard_reject'', ''missing_required_field'',
      ''conflicting_signals'', ''resource_limit_exceeded'']"

definition DEFAULT_HARD_REASON_CODES :: "string list" where
  "DEFAULT_HARD_REASON_CODES =
     [''execution_result_requires_query'', ''query_outcome_before_retry'', ''work_contract_changed'', ''unresolved_dependencies'',
      ''plan_invalidated'', ''claim_conflict'', ''hard_guard_reject'', ''resource_limit_exceeded'']"

datatype (plugins only: code size) assessment_support = AsSupported | AsUnknown | AsConflicting | AsUnsupported

fun support_priority :: "assessment_support \<Rightarrow> nat" where
  "support_priority AsConflicting = 4"
| "support_priority AsUnknown = 3"
| "support_priority AsUnsupported = 2"
| "support_priority AsSupported = 1"

datatype (plugins only: code size) layer_status = LySupported | LyUnknown | LyConflicting | LyUnsupported | LyNotEvaluated

fun layer_priority :: "layer_status \<Rightarrow> nat" where
  "layer_priority LyConflicting = 4"
| "layer_priority LyUnknown = 3"
| "layer_priority LyUnsupported = 2"
| "layer_priority LySupported = 1"
| "layer_priority LyNotEvaluated = 0"

fun from_support :: "assessment_support \<Rightarrow> layer_status" where
  "from_support AsSupported = LySupported"
| "from_support AsUnknown = LyUnknown"
| "from_support AsConflicting = LyConflicting"
| "from_support AsUnsupported = LyUnsupported"

definition layer_merge :: "layer_status \<Rightarrow> layer_status \<Rightarrow> layer_status" where
  "layer_merge a b = (if layer_priority b > layer_priority a then b else a)"

datatype (plugins only: code size) assessment_layer_id =
    WorkReadiness | ExecutionAdmission | ContextCompleteness | DeliveryObservation | CompletionValidity

definition LAYER_ALL :: "assessment_layer_id list" where
  "LAYER_ALL = [WorkReadiness, ExecutionAdmission, ContextCompleteness, DeliveryObservation, CompletionValidity]"

fun layer_str :: "assessment_layer_id \<Rightarrow> string" where
  "layer_str WorkReadiness = ''work_readiness''"
| "layer_str ExecutionAdmission = ''execution_admission''"
| "layer_str ContextCompleteness = ''context_completeness''"
| "layer_str DeliveryObservation = ''delivery_observation''"
| "layer_str CompletionValidity = ''completion_validity''"

record assessment_identity =
  aid_project_id :: "string option"
  aid_work_key :: "string option"
  aid_work_id :: "string option"
  aid_branch_id :: "string option"
  aid_contract_fingerprint :: "string option"
  aid_policy_id :: string
  aid_policy_version :: u32
  aid_policy_hash :: "string option"
  aid_input_summary :: "string option"
  aid_as_of :: "i64 option"
  aid_verified_main_sha :: "string option"
  aid_fact_snapshot_hash :: "string option"

record layer_result =
  lay_status :: layer_status
  lay_summary :: "string option"
  lay_basis_refs :: "string list"

definition not_evaluated :: layer_result where
  "not_evaluated = \<lparr>lay_status = LyNotEvaluated, lay_summary = None, lay_basis_refs = []\<rparr>"

record assessment_item =
  ait_id :: string
  ait_support :: assessment_support
  ait_conclusion :: "json option"
  ait_reason_codes :: "string list"
  ait_basis_refs :: "string list"
  ait_layer :: "assessment_layer_id option"
  ait_heuristic_score :: "i64 option"
  ait_hard_reject :: bool

record evidence_quality =
  evq_required_fields :: "string list"
  evq_observed_fields :: "string list"
  evq_missing :: "string list"
  evq_stale :: "string list"
  evq_conflicting :: "string list"
  evq_host_asserted_only :: "string list"
  evq_unsupported :: "string list"
  evq_coverage_note :: string
  evq_applicability :: "string option"

definition from_snapshot_coverage :: "snapshot_coverage \<Rightarrow> string option \<Rightarrow> evidence_quality" where
  "from_snapshot_coverage c applicability = \<lparr>evq_required_fields = cov_required_fields c, evq_observed_fields = cov_observed_fields c,
     evq_missing = cov_missing c, evq_stale = cov_stale c, evq_conflicting = cov_conflicting c,
     evq_host_asserted_only = cov_host_asserted_only c, evq_unsupported = cov_unsupported c,
     evq_coverage_note = cov_coverage_note c, evq_applicability = applicability\<rparr>"

definition evidence_empty :: "string option \<Rightarrow> evidence_quality" where
  "evidence_empty applicability = \<lparr>evq_required_fields = [], evq_observed_fields = [], evq_missing = [], evq_stale = [],
     evq_conflicting = [], evq_host_asserted_only = [], evq_unsupported = [], evq_coverage_note = coverage_note_text,
     evq_applicability = applicability\<rparr>"

record advisory_action =
  adv_code :: string
  adv_when :: "string option"
  adv_query_refs :: "string list"
  adv_limits :: "string list"
  adv_reevaluation :: "string option"

record assessment_limits =
  lim_candidates :: "nat option"
  lim_scan_ops :: "u64 option"
  lim_return_bytes :: "nat option"
  lim_time_budget_ms :: "u64 option"
  lim_read_scope :: string
  lim_omitted_count :: nat
  lim_truncation_reason :: "string option"

record action_rationale_view =
  arv_when :: string
  arv_basis :: string
  arv_next_action :: string
  arv_recheck :: string
  arv_max_bytes :: nat
  arv_response_view :: "string option"

definition rationale_view :: "action_guidance \<Rightarrow> action_rationale_view" where
  "rationale_view g = \<lparr>arv_when = gui_when g, arv_basis = gui_basis g, arv_next_action = gui_next_action g, arv_recheck = gui_recheck g,
     arv_max_bytes = ACTION_GUIDANCE_MAX_BYTES, arv_response_view = Some ''action''\<rparr>"

record management_envelope_view =
  mev_decision :: management_decision
  mev_observation :: "json option"
  mev_observation_basis :: string
  mev_admission_gaps :: "string list"
  mev_record_required :: bool
  mev_next_action :: string

record legacy_compat =
  leg_compatible :: bool
  leg_source_views :: "string list"
  leg_omitted_fields :: "string list"

datatype (plugins only: code size) hard_gate_outcome = HgPass | HgReject | HgUnknown

record assessment_envelope =
  env_schema_id :: string
  env_schema_version :: u32
  env_assessment_profile :: string
  env_identity :: assessment_identity
  env_layers :: "(string, layer_result) btree_map"
  env_assessments :: "assessment_item list"
  env_evidence_quality :: evidence_quality
  env_advisory_actions :: "advisory_action list"
  env_limits :: assessment_limits
  env_management :: "management_envelope_view option"
  env_action_rationale :: "action_rationale_view option"
  env_legacy :: legacy_compat
  env_unsupported_fields :: "(string, string) btree_map"
  env_hard_gate :: hard_gate_outcome
  env_assessment_hash :: string

record assessment_policy =
  apo_policy_id :: string
  apo_policy_version :: u32
  apo_policy_hash :: "string option"
  apo_reason_code_order :: "string list"
  apo_hard_reason_codes :: "string list"
  apo_max_assessments :: nat
  apo_max_advisory :: nat
  apo_max_candidates :: nat
  apo_max_return_bytes :: nat

record assessment_compose_input =
  acp_identity :: assessment_identity
  acp_as_of :: i64
  acp_policy :: assessment_policy
  acp_fact_snapshot :: "fact_snapshot option"
  acp_management :: "management_decision option"
  acp_management_observation :: "json option"
  acp_management_observation_basis :: "string option"
  acp_management_admission_gaps :: "string list"
  acp_management_record_required :: "bool option"
  acp_management_next_action :: "string option"
  acp_action_rationale :: "action_guidance option"
  acp_layers :: "assessment_layer_id \<rightharpoonup> layer_result"
  acp_assessments :: "assessment_item list"
  acp_advisory_actions :: "advisory_action list"
  acp_evidence_quality :: "evidence_quality option"
  acp_evidence_applicability :: "string option"
  acp_unsupported_fields :: "(string, string) btree_map"
  acp_legacy_source_views :: "string list"
  acp_candidates_seen :: nat
  acp_scan_ops :: "u64 option"
  acp_time_budget_ms :: "u64 option"
  acp_read_scope :: string

section \<open>Encoding\<close>

definition assessment_identity_json :: "assessment_identity \<Rightarrow> json" where
  "assessment_identity_json i = JObject
     (skip_none ''project_id'' JString (aid_project_id i) @ skip_none ''work_key'' JString (aid_work_key i)
      @ skip_none ''work_id'' JString (aid_work_id i) @ skip_none ''branch_id'' JString (aid_branch_id i)
      @ skip_none ''contract_fingerprint'' JString (aid_contract_fingerprint i)
      @ [(''policy_id'', JString (aid_policy_id i)), (''policy_version'', json_word (aid_policy_version i))]
      @ skip_none ''policy_hash'' JString (aid_policy_hash i) @ skip_none ''input_summary'' JString (aid_input_summary i)
      @ skip_none ''as_of'' json_int (aid_as_of i) @ skip_none ''verified_main_sha'' JString (aid_verified_main_sha i)
      @ skip_none ''fact_snapshot_hash'' JString (aid_fact_snapshot_hash i))"

fun layer_status_json :: "layer_status \<Rightarrow> json" where
  "layer_status_json LySupported = JString ''supported''"
| "layer_status_json LyUnknown = JString ''unknown''"
| "layer_status_json LyConflicting = JString ''conflicting''"
| "layer_status_json LyUnsupported = JString ''unsupported''"
| "layer_status_json LyNotEvaluated = JString ''not_evaluated''"

definition layer_json :: "layer_result \<Rightarrow> json" where
  "layer_json l = JObject
     ([(''status'', layer_status_json (lay_status l))] @ skip_none ''summary'' JString (lay_summary l)
      @ [(''basis_refs'', json_strings (lay_basis_refs l))])"

fun support_json :: "assessment_support \<Rightarrow> json" where
  "support_json AsSupported = JString ''supported''"
| "support_json AsUnknown = JString ''unknown''"
| "support_json AsConflicting = JString ''conflicting''"
| "support_json AsUnsupported = JString ''unsupported''"

definition item_json :: "assessment_item \<Rightarrow> json" where
  "item_json a = JObject
     ([(''id'', JString (ait_id a)), (''support'', support_json (ait_support a))]
      @ skip_none ''conclusion'' (\<lambda>v. v) (ait_conclusion a)
      @ [(''reason_codes'', json_strings (ait_reason_codes a)), (''basis_refs'', json_strings (ait_basis_refs a))]
      @ skip_none ''layer'' (\<lambda>l. JString (layer_str l)) (ait_layer a)
      @ skip_none ''heuristic_score'' json_int (ait_heuristic_score a) @ [(''hard_reject'', JBool (ait_hard_reject a))])"

definition evidence_json :: "evidence_quality \<Rightarrow> json" where
  "evidence_json e = JObject
     ([(''required_fields'', json_strings (evq_required_fields e)), (''observed_fields'', json_strings (evq_observed_fields e)),
       (''missing'', json_strings (evq_missing e)), (''stale'', json_strings (evq_stale e)),
       (''conflicting'', json_strings (evq_conflicting e)), (''host_asserted_only'', json_strings (evq_host_asserted_only e)),
       (''unsupported'', json_strings (evq_unsupported e)), (''coverage_note'', JString (evq_coverage_note e))]
      @ skip_none ''applicability'' JString (evq_applicability e))"

definition advisory_json :: "advisory_action \<Rightarrow> json" where
  "advisory_json a = JObject
     ([(''code'', JString (adv_code a))] @ skip_none ''when'' JString (adv_when a)
      @ [(''query_refs'', json_strings (adv_query_refs a)), (''limits'', json_strings (adv_limits a))]
      @ skip_none ''reevaluation'' JString (adv_reevaluation a))"

definition assessment_limits_json :: "assessment_limits \<Rightarrow> json" where
  "assessment_limits_json l = JObject
     (skip_none ''candidates'' json_nat (lim_candidates l) @ skip_none ''scan_ops'' json_word (lim_scan_ops l)
      @ skip_none ''return_bytes'' json_nat (lim_return_bytes l) @ skip_none ''time_budget_ms'' json_word (lim_time_budget_ms l)
      @ [(''read_scope'', JString (lim_read_scope l)), (''omitted_count'', json_nat (lim_omitted_count l))]
      @ skip_none ''truncation_reason'' JString (lim_truncation_reason l))"

definition rationale_json :: "action_rationale_view \<Rightarrow> json" where
  "rationale_json a = JObject
     ([(''when'', JString (arv_when a)), (''basis'', JString (arv_basis a)), (''next_action'', JString (arv_next_action a)),
       (''recheck'', JString (arv_recheck a)), (''max_bytes'', json_nat (arv_max_bytes a))]
      @ skip_none ''response_view'' JString (arv_response_view a))"

fun management_mode_json :: "management_mode \<Rightarrow> json" where
  "management_mode_json MmUndetermined = JString ''undetermined''"
| "management_mode_json MmLightweight = JString ''lightweight''"
| "management_mode_json MmContinuous = JString ''continuous''"

definition decision_json :: "management_decision \<Rightarrow> json" where
  "decision_json d = JObject
     [(''version'', json_word (mgd_version d)), (''mode'', management_mode_json (mgd_mode d)),
      (''reasons'', JArray (map (\<lambda>r. JObject [(''code'', JString (mgr_code r)), (''basis'', JString (mgr_basis r)),
         (''reference'', JString (mgr_reference r))]) (mgd_reasons d))),
      (''unknown_observations'', json_strings (mgd_unknown_observations d)),
      (''reevaluation_signals'', json_strings (mgd_reevaluation_signals d)),
      (''required_actions'', json_strings (mgd_required_actions d)),
      (''optional_maintenance'', json_strings (mgd_optional_maintenance d)),
      (''completion_policy'', JString (mgd_completion_policy d)), (''execution_admission'', JString (mgd_execution_admission d))]"

definition management_json :: "management_envelope_view \<Rightarrow> json" where
  "management_json m = JObject
     ([(''decision'', decision_json (mev_decision m))] @ skip_none ''observation'' (\<lambda>v. v) (mev_observation m)
      @ [(''observation_basis'', JString (mev_observation_basis m)), (''admission_gaps'', json_strings (mev_admission_gaps m)),
         (''record_required'', JBool (mev_record_required m)), (''next_action'', JString (mev_next_action m))])"

definition legacy_json :: "legacy_compat \<Rightarrow> json" where
  "legacy_json l = JObject [(''compatible'', JBool (leg_compatible l)), (''source_views'', json_strings (leg_source_views l)),
     (''omitted_fields'', json_strings (leg_omitted_fields l))]"

fun hard_gate_json :: "hard_gate_outcome \<Rightarrow> json" where
  "hard_gate_json HgPass = JString ''pass''"
| "hard_gate_json HgReject = JString ''reject''"
| "hard_gate_json HgUnknown = JString ''unknown''"

text \<open>The entries that the hash and the serialised envelope share.\<close>

definition envelope_head :: "assessment_envelope \<Rightarrow> (string \<times> json) list" where
  "envelope_head e =
     [(''schema_id'', JString (env_schema_id e)), (''schema_version'', json_word (env_schema_version e)),
      (''assessment_profile'', JString (env_assessment_profile e)), (''identity'', assessment_identity_json (env_identity e)),
      (''layers'', JObject (map (\<lambda>(k, l). (k, layer_json l)) (env_layers e))),
      (''assessments'', JArray (map item_json (env_assessments e))), (''evidence_quality'', evidence_json (env_evidence_quality e)),
      (''advisory_actions'', JArray (map advisory_json (env_advisory_actions e)))]"

definition envelope_tail :: "assessment_envelope \<Rightarrow> (string \<times> json) list" where
  "envelope_tail e =
     [(''legacy'', legacy_json (env_legacy e)),
      (''unsupported_fields'', JObject (map (\<lambda>(k, v). (k, JString v)) (env_unsupported_fields e))),
      (''hard_gate'', hard_gate_json (env_hard_gate e))]"

definition envelope_json :: "assessment_envelope \<Rightarrow> json" where
  "envelope_json e = JObject
     (envelope_head e @ [(''limits'', assessment_limits_json (env_limits e))]
      @ skip_none ''management'' management_json (env_management e) @ skip_none ''action_rationale'' rationale_json (env_action_rationale e)
      @ envelope_tail e @ [(''assessment_hash'', JString (env_assessment_hash e))])"

definition hash_payload :: "assessment_envelope \<Rightarrow> json" where
  "hash_payload e = JObject
     (envelope_head e @ [(''limits'', JObject
        [(''candidates'', null_or json_nat (lim_candidates (env_limits e))), (''scan_ops'', null_or json_word (lim_scan_ops (env_limits e))),
         (''return_bytes'', null_or json_nat (lim_return_bytes (env_limits e))),
         (''time_budget_ms'', null_or json_word (lim_time_budget_ms (env_limits e))),
         (''read_scope'', JString (lim_read_scope (env_limits e))), (''omitted_count'', json_nat (lim_omitted_count (env_limits e))),
         (''truncation_reason'', null_or JString (lim_truncation_reason (env_limits e)))]),
       (''management'', null_or management_json (env_management e)),
       (''action_rationale'', null_or rationale_json (env_action_rationale e))]
      @ envelope_tail e)"

definition assessment_hash_bytes :: "(json \<Rightarrow> string) \<Rightarrow> assessment_envelope \<Rightarrow> string" where
  "assessment_hash_bytes digest e = digest (hash_payload e)"

definition canonical_assessment_hash :: "(json \<Rightarrow> string) \<Rightarrow> assessment_envelope \<Rightarrow> string" where
  "canonical_assessment_hash digest e = assessment_hash_bytes digest e"

section \<open>Policy and order\<close>

definition policy_default :: assessment_policy where
  "policy_default = \<lparr>apo_policy_id = ASSESSMENT_POLICY_ID, apo_policy_version = ASSESSMENT_POLICY_VERSION, apo_policy_hash = None,
     apo_reason_code_order = DEFAULT_REASON_CODE_ORDER, apo_hard_reason_codes = DEFAULT_HARD_REASON_CODES,
     apo_max_assessments = ASSESSMENT_MAX_ASSESSMENTS, apo_max_advisory = ASSESSMENT_MAX_ADVISORY,
     apo_max_candidates = ASSESSMENT_MAX_CANDIDATES, apo_max_return_bytes = ASSESSMENT_MAX_RETURN_BYTES\<rparr>"

definition policy_capped :: "assessment_policy \<Rightarrow> (error, unit) result" where
  "policy_capped p = run_checks
     [refuse (apo_max_assessments p = 0 \<or> apo_max_advisory p = 0 \<or> apo_max_candidates p = 0 \<or> apo_max_return_bytes p = 0
          \<or> apo_max_assessments p > ASSESSMENT_MAX_ASSESSMENTS \<or> apo_max_advisory p > ASSESSMENT_MAX_ADVISORY
          \<or> apo_max_candidates p > ASSESSMENT_MAX_CANDIDATES \<or> apo_max_return_bytes p > ASSESSMENT_MAX_RETURN_BYTES)
        (InvalidInput ''assessment policy limits must be within 1..=64/32/256/262144''),
      refuse (trim_empty (apo_policy_id p)) (InvalidInput ''assessment policy_id must be nonempty'')]"

definition is_hard_reason :: "assessment_policy \<Rightarrow> string \<Rightarrow> bool" where
  "is_hard_reason p code \<longleftrightarrow> list_ex (\<lambda>c. c = code) (apo_hard_reason_codes p)"

text \<open>\<^verbatim>\<open>position(..).unwrap_or(usize::MAX)\<close> on a 64-bit machine.\<close>

fun position_from :: "u64 \<Rightarrow> string list \<Rightarrow> string \<Rightarrow> u64" where
  "position_from n [] code = -1"
| "position_from n (c # cs) code = (if c = code then n else position_from (n + 1) cs code)"

definition reason_rank :: "assessment_policy \<Rightarrow> string \<Rightarrow> u64" where
  "reason_rank p code = position_from 0 (apo_reason_code_order p) code"

definition sort_reason_codes :: "assessment_policy \<Rightarrow> string list \<Rightarrow> string list" where
  "sort_reason_codes p codes = sort_key (\<lambda>c. (reason_rank p c, c)) codes"

definition item_sorted :: "assessment_policy \<Rightarrow> assessment_item \<Rightarrow> assessment_item" where
  "item_sorted p a = a\<lparr>ait_reason_codes := sort_reason_codes p (ait_reason_codes a), ait_basis_refs := sort (ait_basis_refs a)\<rparr>"

definition item_key :: "assessment_policy \<Rightarrow> assessment_item \<Rightarrow> bool \<times> nat \<times> u64 \<times> string" where
  "item_key p a = (\<not> ait_hard_reject a, 4 - support_priority (ait_support a),
     (case ait_reason_codes a of c # _ \<Rightarrow> reason_rank p c | [] \<Rightarrow> -1), ait_id a)"

definition sort_assessments :: "assessment_policy \<Rightarrow> assessment_item list \<Rightarrow> assessment_item list" where
  "sort_assessments p items = sort_key (item_key p) (map (item_sorted p) items)"

section \<open>Validation\<close>

definition validate_advisory :: "(json \<Rightarrow> (error, unit) result) \<Rightarrow> advisory_action \<Rightarrow> (error, unit) result" where
  "validate_advisory pub a = run_checks
     [pub (advisory_json a),
      refuse (adv_code a \<notin> set ADVISORY_ACTION_CODES)
        (InvalidInput (''advisory action code '' @ adv_code a @ '' is not in the frozen advisory set''))]"

definition forbidden_key_checks :: "assessment_item \<Rightarrow> (error, unit) result list" where
  "forbidden_key_checks a =
     (case ait_conclusion a of
        Some (JObject m) \<Rightarrow> map (\<lambda>key. refuse (map_of m key \<noteq> None)
            (InvalidInput (''assessment '' @ ait_id a @ '' must not emit uncalibrated '' @ key @ '' on conclusions'')))
          [''confidence'', ''probability'', ''calibrated_probability'', ''p_success'']
      | _ \<Rightarrow> [])"

definition validate_assessment_item :: "(json \<Rightarrow> (error, unit) result) \<Rightarrow> assessment_item \<Rightarrow> (error, unit) result" where
  "validate_assessment_item pub a = run_checks
     ([pub (item_json a),
       refuse (trim_empty (ait_id a) \<or> length (ait_id a) > 4096) (InvalidInput ''assessment id must be a nonempty bounded name'')]
      @ forbidden_key_checks a
      @ [refuse (ait_support a = AsUnknown \<and> ait_conclusion a = Some (JBool False))
           (InvalidInput (''assessment '' @ ait_id a @ '' with support=unknown must not coerce conclusion to false'')),
         refuse (ait_support a = AsUnknown \<and> ait_conclusion a \<in> {Some (JString ''low_risk''), Some (JString ''low'')})
           (InvalidInput (''assessment '' @ ait_id a @ '' with support=unknown must not coerce conclusion to low-risk''))])"

section \<open>Parts of the composition\<close>

definition derive_management_assessment :: "management_decision \<Rightarrow> assessment_item" where
  "derive_management_assessment d =
     \<lparr>ait_id = ''management_mode'',
      ait_support = (case mgd_mode d of MmUndetermined \<Rightarrow> AsUnknown | _ \<Rightarrow> AsSupported),
      ait_conclusion = Some (management_mode_json (mgd_mode d)),
      ait_reason_codes = remdups_adj (sort (map mgr_code (mgd_reasons d))),
      ait_basis_refs = (if mgd_unknown_observations d = [] then map (\<lambda>r. ''management.decision.reasons.'' @ mgr_code r) (mgd_reasons d)
         else [''management.decision.unknown_observations'']),
      ait_layer = None, ait_heuristic_score = None,
      ait_hard_reject = list_ex (\<lambda>r. mgr_code r \<in> set DEFAULT_HARD_REASON_CODES) (mgd_reasons d)\<rparr>"

definition default_layers_from_management :: "management_decision \<Rightarrow> assessment_layer_id \<Rightarrow> layer_result" where
  "default_layers_from_management d i =
     (if i = CompletionValidity then \<lparr>lay_status = LySupported, lay_summary = Some (mgd_completion_policy d),
        lay_basis_refs = [''management.decision.completion_policy'']\<rparr>
      else if i = ExecutionAdmission then \<lparr>lay_status = LySupported, lay_summary = Some (mgd_execution_admission d),
        lay_basis_refs = [''management.decision.execution_admission'']\<rparr>
      else not_evaluated)"

definition push_new :: "string list \<Rightarrow> string \<Rightarrow> string list" where
  "push_new refs r = (if r \<in> set refs then refs else refs @ [r])"

definition layer_visit :: "assessment_item \<Rightarrow> (assessment_layer_id \<Rightarrow> layer_result) \<Rightarrow> assessment_layer_id \<Rightarrow> layer_result" where
  "layer_visit a layers =
     (case ait_layer a of
        None \<Rightarrow> layers
      | Some i \<Rightarrow> let entry = layers i in
          layers(i := entry\<lparr>lay_status := layer_merge (lay_status entry) (from_support (ait_support a)),
            lay_basis_refs := remdups_adj (sort (foldl push_new (lay_basis_refs entry) (ait_basis_refs a))),
            lay_summary := (case lay_summary entry of
               None \<Rightarrow> (case ait_conclusion a of Some (JString s) \<Rightarrow> Some s | _ \<Rightarrow> None)
             | Some s \<Rightarrow> Some s)\<rparr>))"

definition merge_layers_from_assessments ::
  "(assessment_layer_id \<Rightarrow> layer_result) \<Rightarrow> assessment_item list \<Rightarrow> assessment_layer_id \<Rightarrow> layer_result" where
  "merge_layers_from_assessments layers items = fold layer_visit items layers"

definition item_is_hard :: "assessment_policy \<Rightarrow> assessment_item \<Rightarrow> bool" where
  "item_is_hard p a \<longleftrightarrow> ait_hard_reject a \<or> list_ex (is_hard_reason p) (ait_reason_codes a)"

fun hard_gate_loop :: "assessment_policy \<Rightarrow> bool \<Rightarrow> assessment_item list \<Rightarrow> hard_gate_outcome" where
  "hard_gate_loop p saw_unknown_hard [] = (if saw_unknown_hard then HgUnknown else HgPass)"
| "hard_gate_loop p saw_unknown_hard (a # items) =
     (if \<not> item_is_hard p a then hard_gate_loop p saw_unknown_hard items
      else if ait_hard_reject a \<or> ait_support a = AsConflicting then HgReject
      else (case ait_support a of
              AsUnknown \<Rightarrow> hard_gate_loop p True items
            | AsSupported \<Rightarrow> HgReject | AsUnsupported \<Rightarrow> HgReject | AsConflicting \<Rightarrow> HgReject))"

definition compute_hard_gate :: "assessment_policy \<Rightarrow> assessment_item list \<Rightarrow> hard_gate_outcome" where
  "compute_hard_gate p items = hard_gate_loop p False items"

definition soft_scores_may_rank :: "hard_gate_outcome \<Rightarrow> bool" where
  "soft_scores_may_rank g \<longleftrightarrow> g = HgPass"

definition aggregate_support :: "assessment_support list \<Rightarrow> assessment_support option" where
  "aggregate_support items = foldl (\<lambda>best s. case best of None \<Rightarrow> Some s
     | Some b \<Rightarrow> if support_priority s \<ge> support_priority b then Some s else Some b) None items"

text \<open>The assessments of the caller and, unless it has one of its own, that of the management decision.\<close>

definition all_assessments :: "assessment_compose_input \<Rightarrow> assessment_item list" where
  "all_assessments i = acp_assessments i @
     (case acp_management i of
        Some d \<Rightarrow> if list_ex (\<lambda>a. ait_id a = ''management_mode'') (acp_assessments i) then [] else [derive_management_assessment d]
      | None \<Rightarrow> [])"

definition base_layers :: "assessment_compose_input \<Rightarrow> assessment_layer_id \<Rightarrow> layer_result" where
  "base_layers i layer =
     (let entry = (case acp_layers i layer of Some r \<Rightarrow> r | None \<Rightarrow> not_evaluated) in
      case acp_management i of
        Some d \<Rightarrow> if lay_status entry = LyNotEvaluated then default_layers_from_management d layer else entry
      | None \<Rightarrow> entry)"

definition management_view :: "assessment_compose_input \<Rightarrow> management_envelope_view option" where
  "management_view i = map_option (\<lambda>d.
     let record_required = (case acp_management_record_required i of Some b \<Rightarrow> b
           | None \<Rightarrow> mgd_mode d = MmUndetermined \<or> mgd_unknown_observations d \<noteq> []);
         next_action = (case acp_management_next_action i of Some a \<Rightarrow> a
           | None \<Rightarrow> if record_required then ''record_current_assessment_with_explicit_host_observations''
               else ''follow_required_actions_and_existing_workflow'')
     in \<lparr>mev_decision = d, mev_observation = acp_management_observation i,
         mev_observation_basis = (case acp_management_observation_basis i of Some b \<Rightarrow> b
           | None \<Rightarrow> ''host_assertion_not_independently_verified''),
         mev_admission_gaps = acp_management_admission_gaps i, mev_record_required = record_required, mev_next_action = next_action\<rparr>)
     (acp_management i)"

text \<open>The cuts: by number of assessments, of advisories, and by size; the first reason stays.\<close>

definition or_reason :: "bool \<Rightarrow> string \<Rightarrow> string option \<Rightarrow> string option" where
  "or_reason over reason r = (if over then (case r of Some x \<Rightarrow> Some x | None \<Rightarrow> Some reason) else r)"

record envelope_cut =
  ecu_assessments :: "assessment_item list"
  ecu_advisory :: "advisory_action list"
  ecu_bytes :: nat
  ecu_omitted :: nat
  ecu_reason :: "string option"
  ecu_candidates :: nat

definition envelope_cuts :: "(json \<Rightarrow> nat) \<Rightarrow> assessment_compose_input \<Rightarrow> envelope_cut" where
  "envelope_cuts len i =
     (let p = acp_policy i; all = all_assessments i; candidates_seen = max (acp_candidates_seen i) (length all);
          advisory = sort_key adv_code (acp_advisory_actions i);
          (kept, bytes, left_out) = keep_bytes (\<lambda>a. len (item_json a)) (apo_max_return_bytes p) 0
             (sort_assessments p (take (apo_max_assessments p) all))
      in \<lparr>ecu_assessments = kept, ecu_advisory = take (apo_max_advisory p) advisory, ecu_bytes = bytes,
          ecu_omitted = (length all - apo_max_assessments p) + (length advisory - apo_max_advisory p) + left_out,
          ecu_reason = or_reason (left_out > 0) ''return_bytes_exceeded''
            (or_reason (length advisory > apo_max_advisory p) ''advisory_exceeded''
              (or_reason (length all > apo_max_assessments p) ''assessments_exceeded''
                (or_reason (candidates_seen > apo_max_candidates p) ''candidates_exceeded'' None))),
          ecu_candidates = candidates_seen\<rparr>)"

definition gate_after_cuts :: "assessment_policy \<Rightarrow> envelope_cut \<Rightarrow> hard_gate_outcome" where
  "gate_after_cuts p c =
     (let gate = compute_hard_gate p (ecu_assessments c) in
      if ecu_reason c \<in> {Some ''return_bytes_exceeded'', Some ''candidates_exceeded'', Some ''assessments_exceeded'', Some ''advisory_exceeded''}
         \<and> gate = HgPass
      then HgUnknown else gate)"

definition management_required :: "string list" where
  "management_required = [''single_outcome'', ''bounded_scope'', ''single_executor'', ''no_deferred_wait'', ''plan_valid'', ''outcome_known'',
     ''independently_schedulable_units'']"

definition evidence_of :: "assessment_compose_input \<Rightarrow> evidence_quality" where
  "evidence_of i =
     (case acp_evidence_quality i of Some eq \<Rightarrow> eq
      | None \<Rightarrow> (case acp_fact_snapshot i of
           Some snap \<Rightarrow> from_snapshot_coverage (fsn_coverage snap) (acp_evidence_applicability i)
         | None \<Rightarrow> (case acp_management i of
              Some d \<Rightarrow> (evidence_empty (acp_evidence_applicability i))\<lparr>evq_required_fields := management_required,
                evq_observed_fields := filter (\<lambda>f. f \<notin> set (mgd_unknown_observations d)) management_required,
                evq_missing := mgd_unknown_observations d\<rparr>
            | None \<Rightarrow> evidence_empty (acp_evidence_applicability i))))"

definition identity_of :: "assessment_compose_input \<Rightarrow> assessment_identity" where
  "identity_of i =
     (let d = acp_identity i; p = acp_policy i in
      d\<lparr>aid_policy_id := apo_policy_id p, aid_policy_version := apo_policy_version p,
        aid_policy_hash := (case aid_policy_hash d of None \<Rightarrow> apo_policy_hash p | Some h \<Rightarrow> Some h),
        aid_as_of := Some (acp_as_of i),
        aid_fact_snapshot_hash := (case aid_fact_snapshot_hash d of None \<Rightarrow> map_option fsn_content_hash (acp_fact_snapshot i) | Some h \<Rightarrow> Some h)\<rparr>)"

definition or_insert :: "string \<Rightarrow> string \<Rightarrow> (string, string) btree_map \<Rightarrow> (string, string) btree_map" where
  "or_insert k v m = (if map_of m k = None then bt_insert k v m else m)"

definition unsupported_of :: "assessment_compose_input \<Rightarrow> (string, string) btree_map" where
  "unsupported_of i =
     (let m = (if acp_management i = None then or_insert ''management'' ''unknown'' (acp_unsupported_fields i) else acp_unsupported_fields i)
      in if acp_action_rationale i = None then or_insert ''action_rationale'' ''unknown'' m else m)"

definition compose_checks :: "(json \<Rightarrow> (error, unit) result) \<Rightarrow> assessment_compose_input \<Rightarrow> (error, unit) result" where
  "compose_checks pub i = run_checks
     ([pub (assessment_identity_json (acp_identity i)),
       refuse (acp_as_of i < 0) (InvalidInput ''assessment as_of must be a non-negative timestamp''),
       refuse (trim_empty (acp_read_scope i)) (InvalidInput ''assessment requires a nonempty read_scope''),
       policy_capped (acp_policy i)]
      @ map (validate_assessment_item pub) (acp_assessments i) @ map (validate_advisory pub) (acp_advisory_actions i)
      @ map (\<lambda>v. refuse (v \<noteq> ''unknown'') (InvalidInput ''unsupported_fields values must be the literal \"unknown\"''))
          (bt_values (acp_unsupported_fields i)))"

definition composed_envelope :: "(json \<Rightarrow> nat) \<Rightarrow> (json \<Rightarrow> string) \<Rightarrow> assessment_compose_input \<Rightarrow> assessment_envelope" where
  "composed_envelope len digest i =
     (let c = envelope_cuts len i;
          layers = merge_layers_from_assessments (base_layers i) (all_assessments i);
          envelope = \<lparr>env_schema_id = ASSESSMENT_ENVELOPE_SCHEMA_ID, env_schema_version = ASSESSMENT_ENVELOPE_SCHEMA_VERSION,
            env_assessment_profile = ASSESSMENT_PROFILE_MANAGEMENT_ACTION, env_identity = identity_of i,
            env_layers = bt_collect (map (\<lambda>l. (layer_str l, layers l)) LAYER_ALL), env_assessments = ecu_assessments c,
            env_evidence_quality = evidence_of i, env_advisory_actions = ecu_advisory c,
            env_limits = \<lparr>lim_candidates = Some (ecu_candidates c), lim_scan_ops = acp_scan_ops i, lim_return_bytes = Some (ecu_bytes c),
              lim_time_budget_ms = acp_time_budget_ms i, lim_read_scope = acp_read_scope i, lim_omitted_count = ecu_omitted c,
              lim_truncation_reason = ecu_reason c\<rparr>,
            env_management = management_view i, env_action_rationale = map_option rationale_view (acp_action_rationale i),
            env_legacy = \<lparr>leg_compatible = True, leg_source_views = acp_legacy_source_views i, leg_omitted_fields = []\<rparr>,
            env_unsupported_fields = unsupported_of i, env_hard_gate = gate_after_cuts (acp_policy i) c, env_assessment_hash = []\<rparr>
      in envelope\<lparr>env_assessment_hash := assessment_hash_bytes digest envelope\<rparr>)"

definition compose_assessment_envelope ::
  "(json \<Rightarrow> (error, unit) result) \<Rightarrow> (json \<Rightarrow> nat) \<Rightarrow> (json \<Rightarrow> string) \<Rightarrow> assessment_compose_input \<Rightarrow> (error, assessment_envelope) result" where
  "compose_assessment_envelope pub len digest i =
     then_ok (compose_checks pub i)
       (let envelope = composed_envelope len digest i in then_ok (pub (envelope_json envelope)) (Inr envelope))"

definition snapshot_items :: "fact_snapshot \<Rightarrow> assessment_item list" where
  "snapshot_items facts =
     map (\<lambda>field. \<lparr>ait_id = ''signal_conflict:'' @ field, ait_support = AsConflicting, ait_conclusion = None,
        ait_reason_codes = [''conflicting_signals''], ait_basis_refs = [''fact_snapshot.coverage.conflicting.'' @ field],
        ait_layer = None, ait_heuristic_score = None, ait_hard_reject = True\<rparr>) (cov_conflicting (fsn_coverage facts))
     @ map (\<lambda>field. \<lparr>ait_id = ''signal_missing:'' @ field, ait_support = AsUnknown, ait_conclusion = None,
        ait_reason_codes = [''missing_required_field''], ait_basis_refs = [''fact_snapshot.coverage.missing.'' @ field],
        ait_layer = None, ait_heuristic_score = None, ait_hard_reject = False\<rparr>) (cov_missing (fsn_coverage facts))"

definition evaluate_input ::
  "fact_snapshot \<Rightarrow> assessment_policy \<Rightarrow> i64 \<Rightarrow> management_decision option \<Rightarrow> action_guidance option \<Rightarrow> assessment_compose_input" where
  "evaluate_input facts policy as_of management rationale =
     \<lparr>acp_identity = \<lparr>aid_project_id = sid_project_id (fsn_identity facts), aid_work_key = sid_work_key (fsn_identity facts),
        aid_work_id = sid_work_id (fsn_identity facts), aid_branch_id = sid_branch_id (fsn_identity facts),
        aid_contract_fingerprint = sid_work_contract_hash (fsn_identity facts), aid_policy_id = apo_policy_id policy,
        aid_policy_version = apo_policy_version policy,
        aid_policy_hash = (case apo_policy_hash policy of Some h \<Rightarrow> Some h | None \<Rightarrow> fsn_policy_hash facts),
        aid_input_summary = Some (''fact_snapshot:'' @ fsn_content_hash facts), aid_as_of = Some as_of, aid_verified_main_sha = None,
        aid_fact_snapshot_hash = Some (fsn_content_hash facts)\<rparr>,
      acp_as_of = as_of, acp_policy = policy, acp_fact_snapshot = Some facts, acp_management = management,
      acp_management_observation = None, acp_management_observation_basis = None, acp_management_admission_gaps = [],
      acp_management_record_required = None, acp_management_next_action = None, acp_action_rationale = rationale,
      acp_layers = Map.empty, acp_assessments = snapshot_items facts, acp_advisory_actions = [], acp_evidence_quality = None,
      acp_evidence_applicability = Some (ssc_read_scope (fsn_scope facts)), acp_unsupported_fields = [],
      acp_legacy_source_views = [''fact_snapshot''], acp_candidates_seen = sli_candidates_seen (fsn_limits facts),
      acp_scan_ops = Some (sli_scan_ops (fsn_limits facts)), acp_time_budget_ms = None, acp_read_scope = ssc_read_scope (fsn_scope facts)\<rparr>"

definition evaluate_assessment ::
  "(json \<Rightarrow> (error, unit) result) \<Rightarrow> (json \<Rightarrow> nat) \<Rightarrow> (json \<Rightarrow> string) \<Rightarrow> fact_snapshot \<Rightarrow> assessment_policy \<Rightarrow> i64 \<Rightarrow>
     management_decision option \<Rightarrow> action_guidance option \<Rightarrow> (error, assessment_envelope) result" where
  "evaluate_assessment pub len digest facts policy as_of management rationale =
     then_ok (refuse (as_of \<noteq> fsn_as_of facts) (InvalidInput ''evaluate_assessment as_of must match FactSnapshot.as_of''))
       (compose_assessment_envelope pub len digest (evaluate_input facts policy as_of management rationale))"

end
