(* ===== verification/Assessment_Laws.thy ===== *)
theory Assessment_Laws
  imports Assessment_Envelope
begin

text \<open>
  Laws of the assessment envelope: the hard gate passes only on a complete and clean set of assessments, no
  conclusion is rewritten, no layer looks better than its evidence, and a conflict among the facts of a
  snapshot is never waved through.
\<close>

section \<open>The hard gate\<close>

text \<open>An assessment that rejects on its own: a hard one that is not merely unknown.\<close>

definition item_blocks :: "assessment_policy \<Rightarrow> assessment_item \<Rightarrow> bool" where
  "item_blocks p a \<longleftrightarrow> item_is_hard p a \<and> (ait_hard_reject a \<or> ait_support a \<noteq> AsUnknown)"

lemma hard_gate_loop_eq:
  "hard_gate_loop p saw items = (if \<exists>a\<in>set items. item_blocks p a then HgReject
     else if saw \<or> (\<exists>a\<in>set items. item_is_hard p a) then HgUnknown else HgPass)"
proof (induction items arbitrary: saw)
  case (Cons a items)
  consider "\<not> item_is_hard p a" | "item_blocks p a" | "item_is_hard p a" "\<not> ait_hard_reject a" "ait_support a = AsUnknown"
    by (auto simp: item_blocks_def)
  then show ?case
  proof cases
    case 1
    then have "\<not> item_blocks p a" by (simp add: item_blocks_def)
    with 1 Cons.IH show ?thesis by simp
  next
    case 2
    then have "hard_gate_loop p saw (a # items) = HgReject" by (cases "ait_support a") (auto simp: item_blocks_def)
    with 2 show ?thesis by simp
  next
    case 3
    then have "\<not> item_blocks p a" by (simp add: item_blocks_def)
    with 3 Cons.IH show ?thesis by simp
  qed
qed simp

lemma item_sorted_facts [simp]:
  "item_is_hard p (item_sorted p a) = item_is_hard p a" "item_blocks p (item_sorted p a) = item_blocks p a"
  "ait_id (item_sorted p a) = ait_id a" "ait_support (item_sorted p a) = ait_support a"
  "ait_conclusion (item_sorted p a) = ait_conclusion a" "ait_hard_reject (item_sorted p a) = ait_hard_reject a"
  by (simp_all add: item_is_hard_def item_blocks_def item_sorted_def sort_reason_codes_def list_ex_iff)

lemma sort_assessments_facts:
  "mset (sort_assessments p items) = mset (map (item_sorted p) items)" "sorted (map (item_key p) (sort_assessments p items))"
  "set (sort_assessments p items) = item_sorted p ` set items" "length (sort_assessments p items) = length items"
  by (simp_all add: sort_assessments_def)

lemma subseq_mset: "subseq xs ys \<Longrightarrow> mset xs \<subseteq># mset ys"
  by (induction rule: list_emb.induct) (auto intro: subset_mset.order_trans)

lemma subseq_sorted: "subseq xs ys \<Longrightarrow> sorted (map f ys) \<Longrightarrow> sorted (map f xs)"
proof (induction rule: list_emb.induct)
  case (list_emb_Cons2 x y xs ys)
  have "set xs \<subseteq> set ys" using subseq_set[OF list_emb_Cons2.hyps(2)] .
  with list_emb_Cons2 show ?case by auto
qed auto

lemma or_reason_None [simp]: "or_reason over reason r = None \<longleftrightarrow> \<not> over \<and> r = None"
  by (simp add: or_reason_def split: option.splits)

lemma or_reason_in: "r \<in> S \<Longrightarrow> Some reason \<in> S \<Longrightarrow> or_reason over reason r \<in> S"
  by (cases r) (simp_all add: or_reason_def)

text \<open>What the cuts leave: a part of the sorted assessments, all of them when no reason is given.\<close>

lemma cuts_facts:
  fixes len i
  defines "c \<equiv> envelope_cuts len i" and "p \<equiv> acp_policy i"
  shows "subseq (ecu_assessments c) (sort_assessments p (take (apo_max_assessments p) (all_assessments i)))"
    and "ecu_bytes c = (\<Sum>a\<leftarrow>ecu_assessments c. len (item_json a))" and "ecu_bytes c \<le> apo_max_return_bytes p"
    and "length (ecu_assessments c) + length (ecu_advisory c) + ecu_omitted c = length (all_assessments i) + length (acp_advisory_actions i)"
    and "ecu_reason c = None \<Longrightarrow> ecu_assessments c = sort_assessments p (all_assessments i) \<and> ecu_omitted c = 0"
    and "ecu_omitted c > 0 \<Longrightarrow> ecu_reason c \<noteq> None"
    and "ecu_reason c \<in> {None, Some ''return_bytes_exceeded'', Some ''candidates_exceeded'', Some ''assessments_exceeded'', Some ''advisory_exceeded''}"
proof -
  obtain kept bytes left_out where k: "keep_bytes (\<lambda>a. len (item_json a)) (apo_max_return_bytes p) 0
      (sort_assessments p (take (apo_max_assessments p) (all_assessments i))) = (kept, bytes, left_out)" by (metis prod_cases3)
  note f = keep_bytes_facts[OF k le0]
  have c: "ecu_assessments c = kept" "ecu_bytes c = bytes" "ecu_advisory c = take (apo_max_advisory p) (sort_key adv_code (acp_advisory_actions i))"
    "ecu_omitted c = (length (all_assessments i) - apo_max_assessments p) + (length (acp_advisory_actions i) - apo_max_advisory p) + left_out"
    "ecu_reason c = or_reason (left_out > 0) ''return_bytes_exceeded''
            (or_reason (length (acp_advisory_actions i) > apo_max_advisory p) ''advisory_exceeded''
              (or_reason (length (all_assessments i) > apo_max_assessments p) ''assessments_exceeded''
                (or_reason (max (acp_candidates_seen i) (length (all_assessments i)) > apo_max_candidates p) ''candidates_exceeded'' None)))"
    using k by (simp_all add: c_def p_def envelope_cuts_def Let_def)
  show "subseq (ecu_assessments c) (sort_assessments p (take (apo_max_assessments p) (all_assessments i)))"
    "ecu_bytes c = (\<Sum>a\<leftarrow>ecu_assessments c. len (item_json a))" "ecu_bytes c \<le> apo_max_return_bytes p"
    using f(1-3) by (simp_all add: c)
  show "length (ecu_assessments c) + length (ecu_advisory c) + ecu_omitted c = length (all_assessments i) + length (acp_advisory_actions i)"
    using f(4) by (simp add: c sort_assessments_facts min_def split: if_splits)
  show "ecu_assessments c = sort_assessments p (all_assessments i) \<and> ecu_omitted c = 0" if "ecu_reason c = None"
    using that f(5) by (simp add: c)
  show "ecu_reason c \<noteq> None" if "ecu_omitted c > 0" using that by (auto simp: c)
  show "ecu_reason c \<in> {None, Some ''return_bytes_exceeded'', Some ''candidates_exceeded'', Some ''assessments_exceeded'', Some ''advisory_exceeded''}"
    unfolding c by (intro or_reason_in) simp_all
qed

lemma gate_after_cuts_eq:
  assumes "ecu_reason c \<in> {None, Some ''return_bytes_exceeded'', Some ''candidates_exceeded'', Some ''assessments_exceeded'', Some ''advisory_exceeded''}"
  shows "gate_after_cuts p c = (if \<exists>a\<in>set (ecu_assessments c). item_blocks p a then HgReject
     else if ecu_reason c \<noteq> None \<or> (\<exists>a\<in>set (ecu_assessments c). item_is_hard p a) then HgUnknown else HgPass)"
proof -
  have "ecu_reason c \<in> {Some ''return_bytes_exceeded'', Some ''candidates_exceeded'', Some ''assessments_exceeded'', Some ''advisory_exceeded''}
      \<longleftrightarrow> ecu_reason c \<noteq> None" using assms by auto
  then show ?thesis unfolding gate_after_cuts_def Let_def compute_hard_gate_def hard_gate_loop_eq by simp
qed

lemma cut_items:
  assumes "a \<in> set (ecu_assessments (envelope_cuts len i))"
  shows "\<exists>b\<in>set (all_assessments i). a = item_sorted (acp_policy i) b"
proof -
  have "a \<in> set (sort_assessments (acp_policy i) (take (apo_max_assessments (acp_policy i)) (all_assessments i)))"
    using subseq_set[OF cuts_facts(1)[of len i]] assms by blast
  then show ?thesis by (auto simp: sort_assessments_facts dest: in_set_takeD)
qed

lemma composed_fields [simp]:
  "env_hard_gate (composed_envelope len digest i) = gate_after_cuts (acp_policy i) (envelope_cuts len i)"
  "env_assessments (composed_envelope len digest i) = ecu_assessments (envelope_cuts len i)"
  "env_advisory_actions (composed_envelope len digest i) = ecu_advisory (envelope_cuts len i)"
  "lim_truncation_reason (env_limits (composed_envelope len digest i)) = ecu_reason (envelope_cuts len i)"
  "lim_omitted_count (env_limits (composed_envelope len digest i)) = ecu_omitted (envelope_cuts len i)"
  "lim_return_bytes (env_limits (composed_envelope len digest i)) = Some (ecu_bytes (envelope_cuts len i))"
  "env_layers (composed_envelope len digest i) = bt_collect (map (\<lambda>l. (layer_str l, merge_layers_from_assessments (base_layers i) (all_assessments i) l)) LAYER_ALL)"
  "env_evidence_quality (composed_envelope len digest i) = evidence_of i"
  by (simp_all add: composed_envelope_def Let_def)

lemma compose_ok:
  "compose_assessment_envelope pub len digest i = Inr env \<Longrightarrow> compose_checks pub i = Inr () \<and> env = composed_envelope len digest i"
  by (simp add: compose_assessment_envelope_def Let_def)

lemma gate_facts:
  assumes "compose_assessment_envelope pub len digest i = Inr env"
  shows "(env_hard_gate env = HgPass \<longleftrightarrow>
        lim_truncation_reason (env_limits env) = None \<and> (\<forall>a\<in>set (all_assessments i). \<not> item_is_hard (acp_policy i) a))
     \<and> (env_hard_gate env = HgReject \<longrightarrow> (\<exists>a\<in>set (all_assessments i). item_blocks (acp_policy i) a))
     \<and> (lim_truncation_reason (env_limits env) = None \<and> (\<exists>a\<in>set (all_assessments i). item_blocks (acp_policy i) a) \<longrightarrow> env_hard_gate env = HgReject)
     \<and> length (env_assessments env) + length (env_advisory_actions env) + lim_omitted_count (env_limits env)
         = length (all_assessments i) + length (acp_advisory_actions i)
     \<and> (lim_omitted_count (env_limits env) > 0 \<longrightarrow> lim_truncation_reason (env_limits env) \<noteq> None)"
proof -
  let ?p = "acp_policy i" and ?c = "envelope_cuts len i"
  have env: "env = composed_envelope len digest i" using compose_ok[OF assms] by blast
  note f = cuts_facts[of len i]
  have whole: "set (ecu_assessments ?c) = item_sorted ?p ` set (all_assessments i)" if "ecu_reason ?c = None"
    using f(5)[OF that] by (simp add: sort_assessments_facts)
  have part: "P a" if "\<forall>b\<in>set (all_assessments i). P (item_sorted ?p b)" "a \<in> set (ecu_assessments ?c)" for P a
    using cut_items[OF that(2)] that(1) by auto
  have gate: "env_hard_gate env = (if \<exists>a\<in>set (ecu_assessments ?c). item_blocks ?p a then HgReject
     else if ecu_reason ?c \<noteq> None \<or> (\<exists>a\<in>set (ecu_assessments ?c). item_is_hard ?p a) then HgUnknown else HgPass)"
    unfolding env composed_fields by (rule gate_after_cuts_eq[OF f(7)])
  have blocks_hard: "item_blocks ?p a \<Longrightarrow> item_is_hard ?p a" for a by (simp add: item_blocks_def)
  have pass: "env_hard_gate env = HgPass \<longleftrightarrow> ecu_reason ?c = None \<and> (\<forall>a\<in>set (all_assessments i). \<not> item_is_hard ?p a)"
    using whole blocks_hard unfolding gate by (cases "ecu_reason ?c = None") auto
  have reject: "\<exists>a\<in>set (all_assessments i). item_blocks ?p a" if "env_hard_gate env = HgReject"
  proof -
    from that obtain a where "a \<in> set (ecu_assessments ?c)" "item_blocks ?p a" unfolding gate by (auto split: if_splits)
    with cut_items[of a len i] show ?thesis by auto
  qed
  have rejects: "env_hard_gate env = HgReject" if "ecu_reason ?c = None" "\<exists>a\<in>set (all_assessments i). item_blocks ?p a"
    using that whole unfolding gate by auto
  show ?thesis using pass reject rejects f(4,6) by (simp add: env)
qed

text \<open>A hard assessment, in the terms of the policy.\<close>

definition hard_item :: "assessment_policy \<Rightarrow> assessment_item \<Rightarrow> bool" where
  "hard_item p a \<longleftrightarrow> ait_hard_reject a \<or> set (ait_reason_codes a) \<inter> set (apo_hard_reason_codes p) \<noteq> {}"

lemma item_is_hard_iff: "item_is_hard p a \<longleftrightarrow> hard_item p a"
  by (auto simp: item_is_hard_def hard_item_def is_hard_reason_def list_ex_iff)

lemma all_assessments_cases:
  "all_assessments i = acp_assessments i
   \<or> (\<exists>d. acp_management i = Some d \<and> all_assessments i = acp_assessments i @ [derive_management_assessment d])"
  by (auto simp: all_assessments_def split: option.splits)

lemma all_assessments_management:
  "acp_management i = Some d \<Longrightarrow> ''management_mode'' \<notin> ait_id ` set (acp_assessments i) \<Longrightarrow>
     all_assessments i = acp_assessments i @ [derive_management_assessment d]"
  unfolding all_assessments_def by (simp add: list_ex_iff image_iff) (metis (full_types))

lemma derived_hard: "mgr_code r \<in> set DEFAULT_HARD_REASON_CODES \<Longrightarrow> r \<in> set (mgd_reasons d) \<Longrightarrow> item_is_hard p (derive_management_assessment d)"
  by (auto simp: item_is_hard_def derive_management_assessment_def list_ex_iff)

lemma cuts_reason:
  "ecu_reason (envelope_cuts len i) = None \<longleftrightarrow> ecu_omitted (envelope_cuts len i) = 0
     \<and> max (acp_candidates_seen i) (length (all_assessments i)) \<le> apo_max_candidates (acp_policy i)"
proof -
  obtain kept bytes left_out where "keep_bytes (\<lambda>a. len (item_json a)) (apo_max_return_bytes (acp_policy i)) 0
      (sort_assessments (acp_policy i) (take (apo_max_assessments (acp_policy i)) (all_assessments i))) = (kept, bytes, left_out)"
    by (metis prod_cases3)
  then show ?thesis by (auto simp: envelope_cuts_def Let_def not_less)
qed

text \<open>
  C16: The hard gate passes exactly on a complete and clean envelope: no truncation is reported and none of
  the assessments handed in or derived from the management decision is hard, that is, marked as a hard
  reject or carrying one of the policy's hard reason codes. It rejects only for an assessment that is hard
  and marked as a hard reject or more than unknown, and when no truncation is reported it rejects exactly
  then. Every assessment handed in counts, and so does the one derived from the decision when none of its
  name is handed in: a decision with one of the default hard reasons then never passes. Truncation is
  reported exactly when something was left out or more candidates were seen than allowed, and everything
  left out is counted. Scores do not enter.
\<close>
theorem hard_gate_is_exact:
  assumes "compose_assessment_envelope pub len digest i = Inr env"
  defines "hard_and_known \<equiv> \<lambda>a. hard_item (acp_policy i) a \<and> (ait_hard_reject a \<or> ait_support a \<noteq> AsUnknown)"
  shows "(env_hard_gate env = HgPass \<longleftrightarrow>
        lim_truncation_reason (env_limits env) = None \<and> (\<forall>a\<in>set (all_assessments i). \<not> hard_item (acp_policy i) a))
     \<and> (env_hard_gate env = HgReject \<longrightarrow> (\<exists>a\<in>set (all_assessments i). hard_and_known a))
     \<and> (lim_truncation_reason (env_limits env) = None \<and> (\<exists>a\<in>set (all_assessments i). hard_and_known a) \<longrightarrow> env_hard_gate env = HgReject)
     \<and> set (acp_assessments i) \<subseteq> set (all_assessments i)
     \<and> (\<forall>d. acp_management i = Some d \<and> ''management_mode'' \<notin> ait_id ` set (acp_assessments i)
          \<and> (\<exists>r\<in>set (mgd_reasons d). mgr_code r \<in> set DEFAULT_HARD_REASON_CODES) \<longrightarrow> env_hard_gate env \<noteq> HgPass)
     \<and> length (env_assessments env) + length (env_advisory_actions env) + lim_omitted_count (env_limits env)
         = length (all_assessments i) + length (acp_advisory_actions i)
     \<and> (lim_truncation_reason (env_limits env) = None \<longleftrightarrow> lim_omitted_count (env_limits env) = 0
          \<and> max (acp_candidates_seen i) (length (all_assessments i)) \<le> apo_max_candidates (acp_policy i))"
proof -
  note g = gate_facts[OF assms(1), unfolded item_blocks_def item_is_hard_iff]
  have env: "env = composed_envelope len digest i" using compose_ok[OF assms(1)] by blast
  have handed: "set (acp_assessments i) \<subseteq> set (all_assessments i)" using all_assessments_cases[of i] by auto
  have derived: "env_hard_gate env \<noteq> HgPass" if "acp_management i = Some d" "''management_mode'' \<notin> ait_id ` set (acp_assessments i)"
    "r \<in> set (mgd_reasons d)" "mgr_code r \<in> set DEFAULT_HARD_REASON_CODES" for d r
    using g all_assessments_management[OF that(1,2)] derived_hard[OF that(4,3), of "acp_policy i", unfolded item_is_hard_iff] by auto
  have reason: "lim_truncation_reason (env_limits env) = None \<longleftrightarrow> lim_omitted_count (env_limits env) = 0
      \<and> max (acp_candidates_seen i) (length (all_assessments i)) \<le> apo_max_candidates (acp_policy i)"
    unfolding env composed_fields by (rule cuts_reason)
  show ?thesis unfolding hard_and_known_def using g handed derived reason by blast
qed

definition conclusion_safe :: "assessment_item \<Rightarrow> bool" where
  "conclusion_safe a \<longleftrightarrow> (ait_support a = AsUnknown \<longrightarrow>
       ait_conclusion a \<notin> {Some (JBool False), Some (JString ''low_risk''), Some (JString ''low'')})
     \<and> (\<forall>m. ait_conclusion a = Some (JObject m) \<longrightarrow>
       dom (map_of m) \<inter> {''confidence'', ''probability'', ''calibrated_probability'', ''p_success''} = {})"

lemma conclusion_checked: "validate_assessment_item pub a = Inr () \<Longrightarrow> conclusion_safe a"
  by (auto simp: validate_assessment_item_def conclusion_safe_def forbidden_key_checks_def)

lemma conclusion_derived: "conclusion_safe (derive_management_assessment d)"
  by (cases "mgd_mode d") (simp_all add: conclusion_safe_def derive_management_assessment_def)

lemma conclusion_safeD:
  "conclusion_safe a \<Longrightarrow> ait_support a = AsUnknown \<Longrightarrow> ait_conclusion a \<notin> {Some (JBool False), Some (JString ''low_risk''), Some (JString ''low'')}"
  "conclusion_safe a \<Longrightarrow> ait_conclusion a = Some (JObject m) \<Longrightarrow>
     dom (map_of m) \<inter> {''confidence'', ''probability'', ''calibrated_probability'', ''p_success''} = {}"
  unfolding conclusion_safe_def by iprover+

lemma conclusion_sorted [simp]: "conclusion_safe (item_sorted p a) = conclusion_safe a"
  by (simp add: conclusion_safe_def)

text \<open>Two assessments that differ in nothing but the order of their reason codes and references.\<close>

definition reordered :: "assessment_item \<Rightarrow> assessment_item \<Rightarrow> bool" where
  "reordered a b \<longleftrightarrow> mset (ait_reason_codes a) = mset (ait_reason_codes b) \<and> mset (ait_basis_refs a) = mset (ait_basis_refs b)
     \<and> b = a\<lparr>ait_reason_codes := ait_reason_codes b, ait_basis_refs := ait_basis_refs b\<rparr>"

lemma reordered_sorted: "reordered a (item_sorted p a)"
  by (simp add: reordered_def item_sorted_def sort_reason_codes_def)

text \<open>The order of the envelope: hard rejects, then the more severe support, then the policy's rank of the first reason, then the identifier.\<close>

definition first_position :: "assessment_policy \<Rightarrow> assessment_item \<Rightarrow> nat" where
  "first_position p a = (case ait_reason_codes a of c # _ \<Rightarrow> length (takeWhile (\<lambda>x. x \<noteq> c) (apo_reason_code_order p))
     | [] \<Rightarrow> length (apo_reason_code_order p))"

definition comes_before :: "assessment_policy \<Rightarrow> assessment_item \<Rightarrow> assessment_item \<Rightarrow> bool" where
  "comes_before p a b \<longleftrightarrow> (ait_hard_reject b \<longrightarrow> ait_hard_reject a)
     \<and> (ait_hard_reject a = ait_hard_reject b \<longrightarrow> support_priority (ait_support a) \<ge> support_priority (ait_support b)
        \<and> (ait_support a = ait_support b \<longrightarrow> first_position p a \<le> first_position p b
           \<and> (first_position p a = first_position p b \<longrightarrow> ait_id a \<le> ait_id b)))"

lemma position_from_eq:
  "unat n + length order < 2 ^ 64 \<Longrightarrow> position_from n order c =
     (if c \<in> set order then n + of_nat (length (takeWhile (\<lambda>x. x \<noteq> c) order)) else -1)"
proof (induction n order c rule: position_from.induct)
  case (2 n x xs c)
  have "unat (n + 1) = unat n + 1" using 2(2) by (intro unat_plus_simple[THEN iffD1, THEN trans]) (auto simp: no_olen_add_nat)
  with 2 show ?case by (auto simp: add.assoc)
qed simp

definition key_position :: "assessment_policy \<Rightarrow> assessment_item \<Rightarrow> u64" where
  "key_position p a = (case ait_reason_codes a of c # _ \<Rightarrow> reason_rank p c | [] \<Rightarrow> -1)"

lemma unat_max_u64: "unat (-1 :: u64) = 2 ^ 64 - 1"
  by (simp add: unsigned_minus_1_eq_mask mask_eq_exp_minus_1)

lemma key_position_nat:
  assumes "length (apo_reason_code_order p) < 2 ^ 64"
  shows "unat (key_position p a) = (if first_position p a < length (apo_reason_code_order p) then first_position p a else 2 ^ 64 - 1)"
proof (cases "ait_reason_codes a")
  case (Cons c cs)
  let ?n = "length (takeWhile (\<lambda>x. x \<noteq> c) (apo_reason_code_order p))"
  have "?n < length (apo_reason_code_order p) \<longleftrightarrow> c \<in> set (apo_reason_code_order p)"
    by (metis (full_types) length_takeWhile_le order_le_less takeWhile_eq_all_conv takeWhile_eq_take take_all_iff order_refl linorder_not_less)
  moreover have "unat (of_nat ?n :: u64) = ?n" using assms length_takeWhile_le[of "\<lambda>x. x \<noteq> c" "apo_reason_code_order p"]
    by (simp add: unat_of_nat)
  ultimately show ?thesis using assms by (simp add: key_position_def first_position_def Cons reason_rank_def position_from_eq unat_max_u64)
qed (simp add: key_position_def first_position_def unat_max_u64)

lemma first_position_le: "first_position p a \<le> length (apo_reason_code_order p)"
  by (simp add: first_position_def length_takeWhile_le split: list.splits)

lemma key_orders:
  assumes "length (apo_reason_code_order p) < 2 ^ 64" and "item_key p a \<le> item_key p b"
  shows "comes_before p a b"
proof -
  have pos: "key_position p a \<le> key_position p b \<Longrightarrow> first_position p a \<le> first_position p b"
    "key_position p a = key_position p b \<longleftrightarrow> first_position p a = first_position p b"
    using key_position_nat[OF assms(1), of a] key_position_nat[OF assms(1), of b] first_position_le[of p a] first_position_le[of p b] assms(1)
    by (auto simp: word_le_nat_alt word_unat_eq_iff split: if_splits)
  have pri: "4 - support_priority x \<le> 4 - support_priority y \<longleftrightarrow> support_priority y \<le> support_priority x"
    "4 - support_priority x = 4 - support_priority y \<longleftrightarrow> x = y" for x y by (cases x; cases y; simp)+
  have "item_key p c = (\<not> ait_hard_reject c, 4 - support_priority (ait_support c), key_position p c, ait_id c)" for c
    by (simp add: item_key_def key_position_def)
  with assms(2) show ?thesis using pos pri
    unfolding comes_before_def by (auto simp: less_eq_prod_def less_le_not_le)
qed

lemma map_mset_origins:
  "mset ys \<subseteq># image_mset f M \<Longrightarrow> \<exists>xs. map f xs = ys \<and> mset xs \<subseteq># M"
proof (induction ys arbitrary: M)
  case (Cons y ys)
  from Cons.prems have "y \<in># image_mset f M" by (simp add: insert_subset_eq_iff)
  then obtain x where x: "x \<in># M" "f x = y" by auto
  then have "mset ys \<subseteq># image_mset f (M - {#x#})" using Cons.prems by (simp add: insert_subset_eq_iff image_mset_Diff)
  from Cons.IH[OF this] obtain xs where "map f xs = ys" "mset xs \<subseteq># M - {#x#}" by blast
  with x show ?case by (intro exI[of _ "x # xs"]) (simp add: insert_subset_eq_iff)
qed simp

text \<open>
  C21: No conclusion is rewritten. The assessments of an envelope are among those handed in or derived from
  the management decision, each with nothing altered but the order of its reason codes and references; all
  of them are there when no truncation is reported. They stand in the order of the policy (any policy with
  fewer than \<open>2 ^ 64\<close> reason codes), and they fit the policy's size limit. An assessment without sufficient
  evidence never concludes false, low or low risk, and none carries an uncalibrated probability.
\<close>
theorem conclusions_survive:
  assumes "compose_assessment_envelope pub len digest i = Inr env"
  shows "(\<exists>originals. list_all2 reordered originals (env_assessments env) \<and> mset originals \<subseteq># mset (all_assessments i)
          \<and> (lim_truncation_reason (env_limits env) = None \<longrightarrow> mset originals = mset (all_assessments i)))
     \<and> (all_assessments i = acp_assessments i
          \<or> (\<exists>d. acp_management i = Some d \<and> all_assessments i = acp_assessments i @ [derive_management_assessment d]))
     \<and> (length (apo_reason_code_order (acp_policy i)) < 2 ^ 64 \<longrightarrow> sorted_wrt (comes_before (acp_policy i)) (env_assessments env))
     \<and> (\<Sum>a\<leftarrow>env_assessments env. len (item_json a)) \<le> apo_max_return_bytes (acp_policy i)
     \<and> apo_max_return_bytes (acp_policy i) \<le> ASSESSMENT_MAX_RETURN_BYTES
     \<and> (\<forall>a\<in>set (env_assessments env). ait_support a = AsUnknown \<longrightarrow>
          ait_conclusion a \<notin> {Some (JBool False), Some (JString ''low_risk''), Some (JString ''low'')})
     \<and> (\<forall>a\<in>set (env_assessments env). \<forall>m. ait_conclusion a = Some (JObject m) \<longrightarrow>
          dom (map_of m) \<inter> {''confidence'', ''probability'', ''calibrated_probability'', ''p_success''} = {})"
proof -
  let ?p = "acp_policy i" and ?c = "envelope_cuts len i"
  have env: "env = composed_envelope len digest i" and ok: "compose_checks pub i = Inr ()" using compose_ok[OF assms] by blast+
  note f = cuts_facts[of len i]
  have "mset (take (apo_max_assessments ?p) (all_assessments i)) \<subseteq># mset (all_assessments i)"
    by (metis append_take_drop_id mset_append mset_subset_eq_add_left)
  then have "mset (sort_assessments ?p (take (apo_max_assessments ?p) (all_assessments i))) \<subseteq># mset (map (item_sorted ?p) (all_assessments i))"
    unfolding sort_assessments_facts mset_map by (rule image_mset_subseteq_mono)
  with subseq_mset[OF f(1)] have sub: "mset (ecu_assessments ?c) \<subseteq># mset (map (item_sorted ?p) (all_assessments i))"
    by (rule subset_mset.order_trans)
  have bytes: "apo_max_return_bytes ?p \<le> ASSESSMENT_MAX_RETURN_BYTES" using ok by (auto simp: compose_checks_def policy_capped_def)
  have safe: "conclusion_safe b" if "b \<in> set (all_assessments i)" for b
    using that ok conclusion_checked conclusion_derived
    by (auto simp: all_assessments_def compose_checks_def split: option.splits if_splits)
  have kept: "conclusion_safe a" if "a \<in> set (ecu_assessments ?c)" for a using cut_items[OF that] safe by auto
  have all: "mset (ecu_assessments ?c) = mset (map (item_sorted ?p) (all_assessments i))" if "ecu_reason ?c = None"
    using f(5)[OF that] by (simp add: sort_assessments_facts)
  obtain originals where o': "map (item_sorted ?p) originals = ecu_assessments ?c" "mset originals \<subseteq># mset (all_assessments i)"
    using map_mset_origins[of "ecu_assessments ?c" "item_sorted ?p" "mset (all_assessments i)"] sub by (auto simp: mset_map)
  have same: "list_all2 reordered originals (ecu_assessments ?c)"
    unfolding o'(1)[symmetric] by (simp add: list_all2_conv_all_nth reordered_sorted)
  have whole: "mset originals = mset (all_assessments i)" if "ecu_reason ?c = None"
  proof (rule ccontr)
    assume "mset originals \<noteq> mset (all_assessments i)"
    with o'(2) have "length originals < length (all_assessments i)"
      using mset_subset_size[of "mset originals" "mset (all_assessments i)"] by (simp add: subset_mset.less_le)
    moreover have "length originals = length (ecu_assessments ?c)" unfolding o'(1)[symmetric] by simp
    moreover have "length (ecu_assessments ?c) = length (all_assessments i)" using arg_cong[OF all[OF that], of size] by simp
    ultimately show False by simp
  qed
  have kinds: "\<exists>originals. list_all2 reordered originals (ecu_assessments ?c) \<and> mset originals \<subseteq># mset (all_assessments i)
      \<and> (ecu_reason ?c = None \<longrightarrow> mset originals = mset (all_assessments i))"
    by (intro exI[of _ originals] conjI impI same o'(2) whole)
  have order: "sorted_wrt (comes_before ?p) (ecu_assessments ?c)" if "length (apo_reason_code_order ?p) < 2 ^ 64"
  proof -
    have "sorted_wrt (\<lambda>a b. item_key ?p a \<le> item_key ?p b) (ecu_assessments ?c)"
      using subseq_sorted[OF f(1) sort_assessments_facts(2)] by (simp add: sorted_map)
    then show ?thesis by (rule sorted_wrt_mono_rel[rotated]) (rule key_orders[OF that])
  qed
  show ?thesis unfolding env composed_fields
  proof (intro conjI ballI allI impI)
    fix a assume a: "a \<in> set (ecu_assessments ?c)"
    show "ait_conclusion a \<notin> {Some (JBool False), Some (JString ''low_risk''), Some (JString ''low'')}" if "ait_support a = AsUnknown"
      using conclusion_safeD(1)[OF kept[OF a] that] .
    show "dom (map_of m) \<inter> {''confidence'', ''probability'', ''calibrated_probability'', ''p_success''} = {}"
      if "ait_conclusion a = Some (JObject m)" for m using conclusion_safeD(2)[OF kept[OF a] that] .
  qed (use kinds all_assessments_cases order f(2,3) bytes in simp_all)
qed

section \<open>Layers\<close>

lemma merge_priority: "layer_priority (layer_merge a b) = max (layer_priority a) (layer_priority b)"
  by (simp add: layer_merge_def)

lemma from_support_priority [simp]: "layer_priority (from_support s) = support_priority s"
  by (cases s) simp_all

lemma layer_priority_inject: "layer_priority a = layer_priority b \<Longrightarrow> a = b"
  by (cases a; cases b) simp_all

definition layer_supports :: "assessment_layer_id \<Rightarrow> assessment_item list \<Rightarrow> nat set" where
  "layer_supports l items = (\<lambda>a. support_priority (ait_support a)) ` {a \<in> set items. ait_layer a = Some l}"

lemma layer_supports_Cons:
  "layer_supports l (a # items) = (if ait_layer a = Some l then insert (support_priority (ait_support a)) (layer_supports l items) else layer_supports l items)"
  by (auto simp: layer_supports_def)

lemma merge_layers_priority:
  "layer_priority (lay_status (merge_layers_from_assessments layers items l)) = Max (insert (layer_priority (lay_status (layers l))) (layer_supports l items))"
proof (induction items arbitrary: layers)
  case Nil
  then show ?case by (simp add: merge_layers_from_assessments_def layer_supports_def)
next
  case (Cons a items)
  have fin: "finite (layer_supports l items)" by (simp add: layer_supports_def)
  have "layer_priority (lay_status (layer_visit a layers l)) = (if ait_layer a = Some l
      then max (layer_priority (lay_status (layers l))) (support_priority (ait_support a)) else layer_priority (lay_status (layers l)))"
    by (auto simp: layer_visit_def Let_def merge_priority split: option.splits)
  with Cons[of "layer_visit a layers"] fin show ?case
    by (cases "layer_supports l items = {}")
       (simp_all add: merge_layers_from_assessments_def layer_supports_Cons Max_insert max.assoc insert_commute max.left_commute max.commute)
qed

lemma priority_bounds: "layer_priority x \<le> 4" "support_priority s \<le> 4" "support_priority s > 0"
    apply (cases x; simp)
   apply (cases s; simp)
  apply (cases s; simp)
  done

lemma priority_extremes:
  "x = LyConflicting \<longleftrightarrow> layer_priority x = 4" "x = LyNotEvaluated \<longleftrightarrow> layer_priority x = 0" "s = AsConflicting \<longleftrightarrow> support_priority s = 4"
    apply (cases x; simp)
   apply (cases x; simp)
  apply (cases s; simp)
  done

lemma layer_lookup: "map_of (bt_collect (map (\<lambda>l. (layer_str l, f l)) LAYER_ALL)) (layer_str l) = Some (f l)"
proof -
  have "distinct (map fst (map (\<lambda>l. (layer_str l, f l)) LAYER_ALL))" by (simp add: LAYER_ALL_def)
  then show ?thesis by (cases l) (simp_all add: bt_collect_lookup LAYER_ALL_def)
qed

text \<open>
  C20: A layer never looks better than its evidence. An envelope has all five layers; the status of a layer
  ranks as the worst of what the layer started from and of every assessment of the layer, conflict before
  unknown before unsupported before supported. So a single conflicting assessment makes its layer
  conflicting, and a layer is reported as not evaluated exactly when it started so and no assessment speaks
  of it. The cuts do not hide an assessment from its layer.
\<close>
theorem layers_show_the_worst:
  assumes "compose_assessment_envelope pub len digest i = Inr env"
  shows "\<exists>r. map_of (env_layers env) (layer_str l) = Some r
     \<and> layer_priority (lay_status r) = Max (insert (layer_priority (lay_status (base_layers i l)))
          ((\<lambda>a. support_priority (ait_support a)) ` {a \<in> set (all_assessments i). ait_layer a = Some l}))
     \<and> (lay_status r = LyConflicting \<longleftrightarrow> lay_status (base_layers i l) = LyConflicting
          \<or> (\<exists>a\<in>set (all_assessments i). ait_layer a = Some l \<and> ait_support a = AsConflicting))
     \<and> (lay_status r = LyNotEvaluated \<longleftrightarrow> lay_status (base_layers i l) = LyNotEvaluated
          \<and> (\<forall>a\<in>set (all_assessments i). ait_layer a \<noteq> Some l))"
proof -
  have env: "env = composed_envelope len digest i" using compose_ok[OF assms] by blast
  let ?r = "merge_layers_from_assessments (base_layers i) (all_assessments i) l"
  let ?S = "layer_supports l (all_assessments i)"
  have fin: "finite ?S" by (simp add: layer_supports_def)
  have pr: "layer_priority (lay_status ?r) = Max (insert (layer_priority (lay_status (base_layers i l))) ?S)" by (rule merge_layers_priority)
  have max4: "Max (insert n T) = 4 \<longleftrightarrow> n = 4 \<or> 4 \<in> T" if "finite T" "n \<le> 4" "\<forall>t\<in>T. t \<le> 4" for n :: nat and T
    using that by (subst Max_eq_iff) auto
  have max0: "Max (insert n T) = 0 \<longleftrightarrow> n = 0 \<and> T = {}" if "finite T" "\<forall>t\<in>T. t > 0" for n :: nat and T
    using that by (subst Max_eq_iff) auto
  have S4: "\<forall>t\<in>?S. t \<le> 4" "\<forall>t\<in>?S. t > 0" using priority_bounds by (auto simp: layer_supports_def)
  have conflict: "lay_status ?r = LyConflicting \<longleftrightarrow> lay_status (base_layers i l) = LyConflicting
          \<or> (\<exists>a\<in>set (all_assessments i). ait_layer a = Some l \<and> ait_support a = AsConflicting)"
    unfolding priority_extremes pr max4[OF fin priority_bounds(1) S4(1)] by (auto simp: layer_supports_def image_iff)
  have never: "lay_status ?r = LyNotEvaluated \<longleftrightarrow> lay_status (base_layers i l) = LyNotEvaluated
          \<and> (\<forall>a\<in>set (all_assessments i). ait_layer a \<noteq> Some l)"
    unfolding priority_extremes pr max0[OF fin S4(2)] by (auto simp: layer_supports_def)
  show ?thesis using pr conflict never by (intro exI[of _ ?r]) (simp add: env layer_lookup layer_supports_def)
qed

section \<open>From facts to the gate\<close>

lemma conflict_blocks:
  assumes "field \<in> set (cov_conflicting (fsn_coverage snap))"
  shows "\<exists>a\<in>set (all_assessments (evaluate_input snap policy as_of management rationale)). item_blocks policy a"
proof -
  let ?a = "\<lparr>ait_id = ''signal_conflict:'' @ field, ait_support = AsConflicting, ait_conclusion = None,
      ait_reason_codes = [''conflicting_signals''], ait_basis_refs = [''fact_snapshot.coverage.conflicting.'' @ field],
      ait_layer = None, ait_heuristic_score = None, ait_hard_reject = True\<rparr>"
  have "?a \<in> set (all_assessments (evaluate_input snap policy as_of management rationale))"
    using assms by (simp add: all_assessments_def evaluate_input_def snapshot_items_def)
  moreover have "item_blocks policy ?a" by (simp add: item_blocks_def item_is_hard_def)
  ultimately show ?thesis by blast
qed

text \<open>
  C17: Conflicting facts are never waved through. If a snapshot that was built from facts holds a conflicting
  signal, then no evaluation of it passes the hard gate, under any policy, with any management decision and
  any guidance; unless something was cut it is rejected. The evidence of the envelope names every
  conflicting and every missing field of the snapshot.
\<close>
theorem conflicting_facts_never_pass:
  assumes "build_fact_snapshot pub len digest i = Inr snap" and "s \<in> set (fsn_signals snap)" and "sig_state s = SgConflicting"
    and "evaluate_assessment pub' len' digest' snap policy as_of management rationale = Inr env"
  shows "env_hard_gate env \<noteq> HgPass \<and> (lim_truncation_reason (env_limits env) = None \<longrightarrow> env_hard_gate env = HgReject)
     \<and> sig_field s \<in> set (evq_conflicting (env_evidence_quality env))
     \<and> evq_missing (env_evidence_quality env) = cov_missing (fsn_coverage snap)"
proof -
  let ?in = "evaluate_input snap policy as_of management rationale"
  have comp: "compose_assessment_envelope pub' len' digest' ?in = Inr env" using assms(4) unfolding evaluate_assessment_def then_ok_simps by blast
  have field: "sig_field s \<in> set (cov_conflicting (fsn_coverage snap))"
    using snapshot_conflicts[OF assms(1)] assms(2,3) by blast
  obtain a where a: "a \<in> set (all_assessments ?in)" "item_blocks policy a" using conflict_blocks[OF field] by blast
  have pol: "acp_policy ?in = policy" by (simp add: evaluate_input_def)
  have hard: "item_is_hard policy a" using a(2) by (simp add: item_blocks_def)
  have "evidence_of ?in = from_snapshot_coverage (fsn_coverage snap) (Some (ssc_read_scope (fsn_scope snap)))"
    by (simp add: evidence_of_def evaluate_input_def)
  then have ev: "env_evidence_quality env = from_snapshot_coverage (fsn_coverage snap) (Some (ssc_read_scope (fsn_scope snap)))"
    using compose_ok[OF comp] by simp
  show ?thesis using gate_facts[OF comp] a hard field unfolding ev pol by (auto simp: from_snapshot_coverage_def)
qed

section \<open>Witnesses\<close>

text \<open>The facts of the example snapshot and a management decision, evaluated: one field conflicts, two are missing.\<close>

definition ex_decision :: management_decision where
  "ex_decision = decide_management (Some (ex_observed (Some True))) [] False"

lemma keep_bytes_all: "used + sum_list (map size_of xs) \<le> limit \<Longrightarrow> keep_bytes size_of limit used xs = (xs, used + sum_list (map size_of xs), 0)"
  by (induction xs arbitrary: used) (simp_all add: add.assoc)

lemma nothing_cut:
  assumes "length (all_assessments i) \<le> apo_max_assessments (acp_policy i)" and "length (acp_advisory_actions i) \<le> apo_max_advisory (acp_policy i)"
    and "max (acp_candidates_seen i) (length (all_assessments i)) \<le> apo_max_candidates (acp_policy i)"
    and "10 * length (all_assessments i) \<le> apo_max_return_bytes (acp_policy i)"
  shows "ecu_reason (envelope_cuts (\<lambda>_. 10) i) = None"
proof -
  have "sum_list (map (\<lambda>a. 10) (sort_assessments (acp_policy i) (all_assessments i))) = 10 * length (all_assessments i)"
    by (simp add: sum_list_triv sort_assessments_facts)
  then show ?thesis using assms keep_bytes_all[of 0 "\<lambda>a. 10" "sort_assessments (acp_policy i) (all_assessments i)"]
    by (simp add: envelope_cuts_def Let_def not_less)
qed

definition ex_built :: "nat \<Rightarrow> string list \<Rightarrow> bool" where
  "ex_built max_bytes conflicting \<longleftrightarrow> is_ok (and_then (ex_build ex_signals max_bytes) (\<lambda>snap. refuse
     (\<not> (fsn_as_of snap = 7 \<and> ssc_read_scope (fsn_scope snap) = ''project'' \<and> sli_candidates_seen (fsn_limits snap) = 3
       \<and> cov_conflicting (fsn_coverage snap) = conflicting \<and> cov_missing (fsn_coverage snap) = [''b'', ''d''])) (NotFound [])))"

lemma ex_names: "\<not> trim_empty ''signal_conflict:c''" "\<not> trim_empty ''signal_missing:b''" "\<not> trim_empty ''signal_missing:d''"
  "\<not> trim_empty ''project''" "\<not> trim_empty ASSESSMENT_POLICY_ID"
  by code_simp+

lemma ex_limits: "apo_max_assessments policy_default = 64" "apo_max_advisory policy_default = 32"
  "apo_max_candidates policy_default = 256" "apo_max_return_bytes policy_default = 262144"
  by (simp_all add: policy_default_def ASSESSMENT_MAX_ASSESSMENTS_def ASSESSMENT_MAX_ADVISORY_def
      ASSESSMENT_MAX_CANDIDATES_def ASSESSMENT_MAX_RETURN_BYTES_def)

lemma ex_policy: "policy_capped policy_default = Inr ()"
  using ex_names(5) by (simp add: policy_capped_def policy_default_def ASSESSMENT_MAX_ASSESSMENTS_def ASSESSMENT_MAX_ADVISORY_def
      ASSESSMENT_MAX_CANDIDATES_def ASSESSMENT_MAX_RETURN_BYTES_def refuse_def)

lemma plain_item_validates:
  "ait_conclusion a = None \<Longrightarrow> \<not> trim_empty (ait_id a) \<Longrightarrow> length (ait_id a) \<le> 4096 \<Longrightarrow> validate_assessment_item (\<lambda>_. Inr ()) a = Inr ()"
  by (simp add: validate_assessment_item_def forbidden_key_checks_def refuse_def)

lemma ex_evaluated:
  assumes "ex_built n conflicting" and "conflicting = [''c''] \<or> conflicting = []"
  obtains snap env where "build_fact_snapshot (\<lambda>_. Inr ()) (\<lambda>_. 10) (\<lambda>_. ''hash'') (ex_snapshot_input ex_signals n) = Inr snap"
    and "cov_conflicting (fsn_coverage snap) = conflicting"
    and "evaluate_assessment (\<lambda>_. Inr ()) (\<lambda>_. 10) (\<lambda>_. ''hash'') snap policy_default 7 (Some ex_decision) None = Inr env"
    and "compose_assessment_envelope (\<lambda>_. Inr ()) (\<lambda>_. 10) (\<lambda>_. ''hash'') (evaluate_input snap policy_default 7 (Some ex_decision) None) = Inr env"
    and "lim_truncation_reason (env_limits env) = None"
proof -
  from assms(1) obtain snap where snap: "build_fact_snapshot (\<lambda>_. Inr ()) (\<lambda>_. 10) (\<lambda>_. ''hash'') (ex_snapshot_input ex_signals n) = Inr snap"
    and f: "fsn_as_of snap = 7" "ssc_read_scope (fsn_scope snap) = ''project''" "sli_candidates_seen (fsn_limits snap) = 3"
      "cov_conflicting (fsn_coverage snap) = conflicting" "cov_missing (fsn_coverage snap) = [''b'', ''d'']"
    unfolding ex_built_def ex_build_def by (auto simp: is_ok_iff)
  let ?i = "evaluate_input snap policy_default 7 (Some ex_decision) None"
  have i: "acp_policy ?i = policy_default" "acp_as_of ?i = 7" "acp_read_scope ?i = ''project''" "acp_advisory_actions ?i = []"
    "acp_unsupported_fields ?i = []" "acp_candidates_seen ?i = 3" "acp_assessments ?i = snapshot_items snap"
    by (simp_all add: evaluate_input_def f)
  have items: "validate_assessment_item (\<lambda>_. Inr ()) a = Inr ()" if "a \<in> set (snapshot_items snap)" for a
    using that assms(2) ex_names(1-3)
    by (elim disjE) (auto simp: snapshot_items_def f intro!: plain_item_validates)
  have "compose_checks (\<lambda>_. Inr ()) ?i = Inr ()"
    using items ex_names(4) ex_policy by (simp add: compose_checks_def i refuse_def bt_values_def)
  then have c: "compose_assessment_envelope (\<lambda>_. Inr ()) (\<lambda>_. 10) (\<lambda>_. ''hash'') ?i = Inr (composed_envelope (\<lambda>_. 10) (\<lambda>_. ''hash'') ?i)"
    by (simp add: compose_assessment_envelope_def Let_def)
  have "length (all_assessments ?i) \<le> 5" using assms(2) by (auto simp: all_assessments_def evaluate_input_def snapshot_items_def f)
  then have cuts: "ecu_reason (envelope_cuts (\<lambda>_. 10) ?i) = None" by (intro nothing_cut) (simp_all add: i ex_limits)
  show thesis by (rule that[OF snap f(4) _ c]) (simp_all add: evaluate_assessment_def f c cuts refuse_def)
qed

lemma ex_complete: "ex_built 100 [''c'']" and ex_truncated: "ex_built 20 []"
  by code_simp+

theorem hard_gate_is_exact_witness:
  "\<exists>i env. compose_assessment_envelope (\<lambda>_. Inr ()) (\<lambda>_. 10) (\<lambda>_. ''hash'') i = Inr env \<and> env_hard_gate env = HgReject"
  using ex_complete
proof (rule ex_evaluated)
  fix snap env
  let ?i = "evaluate_input snap policy_default 7 (Some ex_decision) None"
  assume c: "compose_assessment_envelope (\<lambda>_. Inr ()) (\<lambda>_. 10) (\<lambda>_. ''hash'') ?i = Inr env"
    and env: "lim_truncation_reason (env_limits env) = None" "cov_conflicting (fsn_coverage snap) = [''c'']"
  have "\<exists>a\<in>set (all_assessments ?i). item_blocks policy_default a" by (rule conflict_blocks[of "''c''"]) (simp add: env)
  then have "\<exists>a\<in>set (all_assessments ?i). hard_item policy_default a \<and> (ait_hard_reject a \<or> ait_support a \<noteq> AsUnknown)"
    unfolding item_blocks_def item_is_hard_iff .
  moreover have "acp_policy ?i = policy_default" by (simp add: evaluate_input_def)
  ultimately have "env_hard_gate env = HgReject" using hard_gate_is_exact[OF c] env(1) by metis
  with c show ?thesis by blast
qed simp

theorem conclusions_survive_witness:
  "\<exists>i env originals. compose_assessment_envelope (\<lambda>_. Inr ()) (\<lambda>_. 10) (\<lambda>_. ''hash'') i = Inr env
     \<and> list_all2 reordered originals (env_assessments env) \<and> mset originals = mset (all_assessments i)"
  using ex_complete
proof (rule ex_evaluated)
  fix snap env
  assume c: "compose_assessment_envelope (\<lambda>_. Inr ()) (\<lambda>_. 10) (\<lambda>_. ''hash'') (evaluate_input snap policy_default 7 (Some ex_decision) None) = Inr env"
    and whole: "lim_truncation_reason (env_limits env) = None"
  show ?thesis using conclusions_survive[OF c, THEN conjunct1] whole c by blast
qed simp

theorem layers_show_the_worst_witness:
  "\<exists>i env r. compose_assessment_envelope (\<lambda>_. Inr ()) (\<lambda>_. 10) (\<lambda>_. ''hash'') i = Inr env
     \<and> map_of (env_layers env) (layer_str CompletionValidity) = Some r \<and> lay_status r \<noteq> LyNotEvaluated"
  using ex_complete
proof (rule ex_evaluated)
  fix snap env
  let ?i = "evaluate_input snap policy_default 7 (Some ex_decision) None"
  assume c: "compose_assessment_envelope (\<lambda>_. Inr ()) (\<lambda>_. 10) (\<lambda>_. ''hash'') ?i = Inr env"
  have base: "lay_status (base_layers ?i CompletionValidity) \<noteq> LyNotEvaluated"
    by (simp add: base_layers_def evaluate_input_def default_layers_from_management_def not_evaluated_def)
  obtain r where "map_of (env_layers env) (layer_str CompletionValidity) = Some r" "lay_status r \<noteq> LyNotEvaluated"
    using layers_show_the_worst[OF c, of CompletionValidity] base by (elim exE conjE) simp
  with c show ?thesis by blast
qed simp

theorem conflicting_facts_never_pass_witness:
  "\<exists>snap env. build_fact_snapshot (\<lambda>_. Inr ()) (\<lambda>_. 10) (\<lambda>_. ''hash'') (ex_snapshot_input ex_signals 100) = Inr snap
     \<and> evaluate_assessment (\<lambda>_. Inr ()) (\<lambda>_. 10) (\<lambda>_. ''hash'') snap policy_default 7 (Some ex_decision) None = Inr env
     \<and> env_hard_gate env = HgReject"
  using ex_complete
proof (rule ex_evaluated)
  fix snap env
  assume b: "build_fact_snapshot (\<lambda>_. Inr ()) (\<lambda>_. 10) (\<lambda>_. ''hash'') (ex_snapshot_input ex_signals 100) = Inr snap"
    and e: "evaluate_assessment (\<lambda>_. Inr ()) (\<lambda>_. 10) (\<lambda>_. ''hash'') snap policy_default 7 (Some ex_decision) None = Inr env"
    and env: "lim_truncation_reason (env_limits env) = None" "cov_conflicting (fsn_coverage snap) = [''c'']"
  have "''c'' \<in> sig_field ` {s \<in> set (fsn_signals snap). sig_state s = SgConflicting}" unfolding snapshot_conflicts[OF b, symmetric] env(2) by simp
  then obtain s where s: "s \<in> set (fsn_signals snap)" "sig_state s = SgConflicting" by blast
  have "env_hard_gate env = HgReject" using conflicting_facts_never_pass[OF b s e] env(1) by blast
  with b e show ?thesis by blast
qed simp

text \<open>
  A conflict that the snapshot's own size limit left out is not seen: the evaluation reads the coverage of
  the signals that were kept and not whether the snapshot is truncated, so the gate passes as if the scan
  had been complete, and the envelope gives no truncation reason.
\<close>

lemma omitted_conflict_is_not_seen:
  "\<exists>snap env. build_fact_snapshot (\<lambda>_. Inr ()) (\<lambda>_. 10) (\<lambda>_. ''hash'') (ex_snapshot_input ex_signals 20) = Inr snap
     \<and> evaluate_assessment (\<lambda>_. Inr ()) (\<lambda>_. 10) (\<lambda>_. ''hash'') snap policy_default 7 (Some ex_decision) None = Inr env
     \<and> (\<exists>s\<in>set (fsi_signals (ex_snapshot_input ex_signals 20)). sig_state s = SgConflicting)
     \<and> env_hard_gate env = HgPass \<and> lim_truncation_reason (env_limits env) = None"
  using ex_truncated
proof (rule ex_evaluated)
  fix snap env
  let ?i = "evaluate_input snap policy_default 7 (Some ex_decision) None"
  assume b: "build_fact_snapshot (\<lambda>_. Inr ()) (\<lambda>_. 10) (\<lambda>_. ''hash'') (ex_snapshot_input ex_signals 20) = Inr snap"
    and e: "evaluate_assessment (\<lambda>_. Inr ()) (\<lambda>_. 10) (\<lambda>_. ''hash'') snap policy_default 7 (Some ex_decision) None = Inr env"
    and c: "compose_assessment_envelope (\<lambda>_. Inr ()) (\<lambda>_. 10) (\<lambda>_. ''hash'') ?i = Inr env"
    and env: "lim_truncation_reason (env_limits env) = None" "cov_conflicting (fsn_coverage snap) = []"
  have derived: "\<not> item_is_hard policy_default (derive_management_assessment ex_decision)" by code_simp
  have missing: "\<not> is_hard_reason policy_default ''missing_required_field''" by code_simp
  have "\<forall>a\<in>set (all_assessments ?i). \<not> item_is_hard policy_default a"
    using derived missing
    by (auto simp: all_assessments_def evaluate_input_def snapshot_items_def env(2) item_is_hard_def)
  then have "env_hard_gate env = HgPass" using gate_facts[OF c] env(1) by (simp add: evaluate_input_def)
  moreover have "\<exists>s\<in>set (fsi_signals (ex_snapshot_input ex_signals 20)). sig_state s = SgConflicting"
    by (simp add: ex_snapshot_input_def ex_signals_def)
  ultimately show ?thesis using b e env(1) by blast
qed simp

end
