(* ===== verification/Spec2Isabelle.thy ===== *)
theory Spec2Isabelle
  imports Workstream_Graph Operation_Readset Workstream_Accounting Usage_Laws Delivery_Adoption
    Agent_Authorization Handoff_Store Planning_Laws Team_Bundle Delivery_Laws Team_Access Completion Budget_Laws Eta_Forecast
    Migration_Takeover Planning_Writeback Invalidation_Laws Assessment_Laws
begin

text \<open>
  The coordination core of AWR, the agent work runtime.

  \<^bold>\<open>The program.\<close> AWR keeps a project's work, its people and its coding agents in step. The crate
  \<^verbatim>\<open>crates/awr-core\<close> holds the decisions as pure functions on serialisable records; the other crates
  store the records (\<^verbatim>\<open>awr-store\<close>, \<^verbatim>\<open>awr-team-pg\<close>), serve them (\<^verbatim>\<open>awr-server\<close>, \<^verbatim>\<open>awr-mcp\<close>, \<^verbatim>\<open>awr-cli\<close>),
  read sources (\<^verbatim>\<open>awr-source\<close>, \<^verbatim>\<open>awr-workspace\<close>) and compile contexts (\<^verbatim>\<open>awr-context\<close>). A caller resolves
  the workstream it may act in, states what it read, is admitted by authorization and
  responsibility, delivers and hands over, and its usage is accounted.

  \<^bold>\<open>Theories.\<close> All paths are below \<^verbatim>\<open>src/crates/\<close>.
  \<^item> \<open>Awr_Prelude\<close>: machine integers, results, strings. \<open>Ordered_Map\<close>: \<^verbatim>\<open>BTreeMap\<close> with the
    \<open>updatable_map\<close> interface. \<open>Versioned_State\<close>: the interfaces \<open>versioned_steps\<close> and
    \<open>optimistic_operations\<close> of the versioned projections. \<open>Core_Error\<close>: \<^verbatim>\<open>awr-core/src/error.rs\<close>.
  \<^item> \<open>Workstream\<close> (\<^verbatim>\<open>awr-core/src/workstream.rs\<close>): the catalog, ownership, grants and
    \<open>resolve_workstream\<close>. Shown: a resolved scope is one the subject may act in; ownership is total
    and unique; changing an authority version invalidates the old grants; no scope is guessed.
  \<^item> \<open>Workstream_Graph\<close> (\<^verbatim>\<open>awr-core/src/workstream_graph.rs\<close>): the iterative depth-first check of the
    dependency graph, with the explicit stack of the code. Shown: it accepts exactly the acyclic
    graphs with known endpoints, every refusal exhibits a real cycle or a missing endpoint, the
    verdict does not depend on the order of nodes and edges, and an accepted graph has a schedule.
    The interface \<open>dependency_checker\<close> is what the workstream graph uses of it.
  \<^item> \<open>Operation_Readset\<close> (\<^verbatim>\<open>awr-core/src/workstream_readset.rs\<close>): optimistic concurrency and request
    replay. Shown: a read set passes exactly when nothing it names has changed; a replay is
    classified as existing and never runs again. Interface \<open>request_intent\<close>.
  \<^item> \<open>Workstream_Accounting\<close> (\<^verbatim>\<open>awr-core/src/workstream_accounting.rs\<close>): stage counts over a frozen work
    set, which are complete and add up.
  \<^item> \<open>Workstream_Usage\<close> (definitions) and \<open>Usage_Laws\<close> (laws) of \<^verbatim>\<open>awr-core/src/workstream_usage.rs\<close>:
    deduplication of usage receipts, cost totals, allocations, counter deltas, wall-clock union,
    corrections and the observation hand-off.
  \<^item> \<open>Evidence_Level\<close> and \<open>Delivery_Adoption\<close> (\<^verbatim>\<open>awr-core/src/workstream_adoption.rs\<close>): assessment and
    adoption of deliveries between workstreams, export authorizations, adoption credentials.
  \<^item> \<open>Task_Responsibility\<close> (\<^verbatim>\<open>awr-core/src/responsibility.rs\<close>): one owner, collaborators, reviewer and
    executor per task, as a versioned state machine. Interpretation \<open>resp\<close>.
  \<^item> \<open>Agent_Authorization\<close> (\<^verbatim>\<open>awr-core/src/agent_authorization.rs\<close>): grants, delegation, revocation and the
    explained eligibility decisions. Interface \<open>narrowing_grants\<close>, interpretation \<open>delegation\<close>.
  \<^item> \<open>Team_Handoff\<close> (\<^verbatim>\<open>awr-core/src/team_handoff.rs\<close>): the hand-off state machine (interpretation
    \<open>handoff\<close>); \<open>Handoff_Store\<close> (\<^verbatim>\<open>awr-store/src/team_handoff.rs\<close>): its SQLite tables, with the
    refinement of the machine, the table invariant and request replay.
  \<^item> \<open>Core_Model\<close> (\<^verbatim>\<open>awr-core/src/model.rs\<close>, \<^verbatim>\<open>query.rs\<close>): evidence records, their missing bindings and
    currency. \<open>Completion\<close> (\<^verbatim>\<open>awr-core/src/completion.rs\<close>): completion requests, reports and bindings, and
    the source changes. Shown: a completion rests on bound evidence, and only adds to the source.
  \<^item> \<open>Team_Error\<close> (\<^verbatim>\<open>awr-team/src/error.rs\<close>, \<^verbatim>\<open>ids.rs\<close>), \<open>Team_Permission\<close> (\<^verbatim>\<open>permission.rs\<close>): roles,
    authority scopes and the exact authorization decision; the migration never escalates.
  \<^item> \<open>Canonical_Json\<close> (\<^verbatim>\<open>canonical.rs\<close>): normal forms and named hashes, with the interface
    \<open>canonical_record\<close> of a record whose digest identifies it, which \<open>Team_Contract\<close>
    (\<^verbatim>\<open>contract.rs\<close>), \<open>Planning_Laws\<close> and \<open>Delivery_Laws\<close> interpret.
  \<^item> \<open>Cycle_Detection\<close> and \<open>Team_Planning\<close> (\<^verbatim>\<open>planning.rs\<close>), with the laws in \<open>Planning_Laws\<close>: the
    queue-based cycle check always answers and agrees with the depth-first one of the core; a
    validated candidate is sound; what is published is what was approved. \<open>Team_Bundle\<close>
    (\<^verbatim>\<open>workstreams.rs\<close>): an accepted bundle can be scheduled.
  \<^item> \<open>Team_Access\<close> (\<^verbatim>\<open>access.rs\<close>, \<^verbatim>\<open>completion.rs\<close>, \<^verbatim>\<open>version.rs\<close>): request envelopes, equal on every
    surface. \<open>Team_Delivery\<close> (\<^verbatim>\<open>delivery.rs\<close>, \<^verbatim>\<open>delivery/\<close>), laws in \<open>Delivery_Laws\<close>: records of a delivery
    candidate and the proof that integrated content is the reviewed one.
  \<^item> \<open>Context_Budget\<close> (\<^verbatim>\<open>awr-context/src/budget.rs\<close>), laws in \<open>Budget_Laws\<close>: the whole-chunk selection
    fits its budget, keeps what is required and does not depend on the order of its input.
  \<^item> \<open>Eta_Schedule\<close> (definitions) and \<open>Eta_Laws\<close> (laws): the scheduler of
    \<^verbatim>\<open>awr-core/src/workstream_eta.rs\<close>. Shown: it always answers and never panics, its ready time lies
    between every dependency chain and the serial total, and the simulated schedule respects
    dependencies, waits and executor slots. \<open>Eta_Forecast\<close>: the forecasts of the same file; a forecast
    promises no more than was measured and held-out samples never train it.
  \<^item> \<open>Migration_Takeover\<close> (\<^verbatim>\<open>awr-core/src/migration_takeover.rs\<close>): the takeover drill. Shown: when the
    drill answers, its stages agree and nothing of the fixture is lost, exactly when it is refused,
    and no agent becomes an owner or an approver by migration.
  \<^item> \<open>Selective_Invalidation\<close> (\<^verbatim>\<open>awr-runtime/src/selective_invalidation.rs\<close>): which consumers a change of
    their provider reaches, the check at an execution boundary, and the planning changes, whose
    histories are the step relation \<open>change_step\<close>. \<open>Planning_Writeback\<close>
    (\<^verbatim>\<open>awr-runtime/src/planning_writeback.rs\<close>): when a planning change may be activated.
  \<^item> \<open>Invalidation_Store\<close> (definitions) and \<open>Invalidation_Laws\<close> (laws) of
    \<^verbatim>\<open>awr-team-pg/src/selective_invalidation.rs\<close>: the same decisions on PostgreSQL tables, under a project
    lock that is taken after the receipt look-up. Shown: the histories of the store (\<open>team_step\<close>)
    refine \<open>change_step\<close>; a request takes effect at most once even when its look-up was stale
    (interface \<open>receipted\<close>, interpreted by the four operations); a boundary check sees every open change
    and invalid binding.
  \<^item> \<open>Fact_Snapshot\<close> (\<^verbatim>\<open>awr-core/src/fact_snapshot.rs\<close>): the bounded snapshot of facts. Shown: it keeps
    within its limits, counts what it leaves out and never fills a gap. \<open>Management_Decision\<close>
    (\<^verbatim>\<open>management.rs\<close>, \<^verbatim>\<open>guidance.rs\<close>): how closely work is managed, which is never guessed from unknown
    answers. \<open>Assessment_Envelope\<close> (definitions) and \<open>Assessment_Laws\<close> (laws) of
    \<^verbatim>\<open>awr-core/src/assessment_envelope.rs\<close>: the envelope composed from both. Shown: the hard gate passes
    exactly on a complete and clean set of assessments, no conclusion is rewritten, a layer shows its
    worst evidence, and a conflict in the snapshot never passes.
  \<^item> This theory: what admission promises to a claim, across authorization and responsibility.

  \<^bold>\<open>Correspondence.\<close> A struct is a record with prefixed fields, an enum a datatype, a function one
  definition of the same name (with a suffix or prefix where HOL has the name); \<^verbatim>\<open>Result\<close> is a sum
  with the error left and the messages as in the source; a sequence of \<^verbatim>\<open>?\<close> checks is \<open>run_checks\<close> in
  source order; a mutated record is returned updated. \<^verbatim>\<open>u64\<close> is a 64-bit word and overflow is the
  source's \<^verbatim>\<open>checked_add\<close>. A \<^verbatim>\<open>usize\<close> counter is a \<open>nat\<close>: it counts elements of a slice in memory. A
  \<^verbatim>\<open>for\<close> loop with an early return is \<open>try_fold\<close>. A panic is \<open>None\<close> (inside the
  scheduler the failure \<open>Panic\<close>, which \<open>settle\<close> turns into \<open>None\<close>) and is shown not to occur.

  \<^bold>\<open>Loops.\<close> Every definition is total. The depth-first loop of \<open>validate_dependency_dag\<close> has a
  termination proof on the nodes not yet finished and the children left on the stack, the queue of
  \<open>detect_cycle\<close> on the positive in-degrees and the queue, the simulation of the scheduler on the
  remaining and running tasks. The walk back along the critical path is a \<open>partial_function\<close> whose
  end is proved; no fuel is used anywhere.

  \<^bold>\<open>Parameters.\<close> SHA-256 is an argument of \<open>catalog_legacy\<close>; the digest of a JSON value, the text of
  an identifier (\<open>show_id\<close>), the tokenizer, the URL parser and the serde encoder and decoder are
  arguments of the definitions that use them; in \<open>Handoff_Store\<close> the text of an SQLite
  constraint error, a fresh identifier and the printed project identifier are arguments. In
  \<open>Invalidation_Store\<close> the text of a database error and the order by which the database picks the first
  change (\<open>first_of\<close>, of which only membership is assumed) are arguments. In the snapshot and the envelope the
  secret scanner of \<^verbatim>\<open>secrets.rs\<close> (\<open>pub\<close>), the length of a serialised value (\<open>len\<close>) and the digest
  (\<open>digest\<close>) are arguments, about which nothing is assumed.

  \<^bold>\<open>Not modelled yet.\<close> Content review, branch closing and the secret scanner of \<^verbatim>\<open>awr-core\<close>; the other tables of
  \<^verbatim>\<open>awr-store\<close> and \<^verbatim>\<open>awr-team-pg\<close>; the collection of context items in \<^verbatim>\<open>awr-context\<close>; the ledger patch of the
  planning writeback; \<^verbatim>\<open>awr-source\<close> and \<^verbatim>\<open>awr-workspace\<close>. Serialisation is serde's and the transports and command line are input and
  output; they stay outside.
\<close>

section \<open>Admission and claim\<close>

definition ex_start_request :: claim_execution_request where
  "ex_start_request = \<lparr>cex_request_key = ''k1'', cex_expected_version = 0,
     cex_executor = ExecAgentRun ''bob'' ''agent-bob'' ''bind-1'', cex_coordination_claim_id = None\<rparr>"

definition ex_start_binding :: person_agent_binding where
  "ex_start_binding = \<lparr>pab_id = ''bind-1'', pab_person_id = ''bob'', pab_agent_id = ''agent-bob'',
     pab_status = BindingActive, pab_created_at_ms = 1\<rparr>"

text \<open>What a claim request has to bring along by itself, whoever holds the task.\<close>

definition claim_request_complete :: "task_responsibility \<Rightarrow> claim_execution_request \<Rightarrow> person_agent_binding list \<Rightarrow> bool" where
  "claim_request_complete t req bindings \<longleftrightarrow>
     valid_id (cex_request_key req) \<and> pred_option valid_id (cex_coordination_claim_id req)
     \<and> valid_id (exec_person (cex_executor req))
     \<and> (\<forall>p agent b. cex_executor req = ExecAgentRun p agent b \<longrightarrow> valid_id agent \<and> valid_id b
          \<and> (\<exists>pb\<in>set bindings. pab_id pb = b \<and> pab_person_id pb = p \<and> pab_agent_id pb = agent \<and> pab_status pb = BindingActive))
     \<and> cex_expected_version req = tr_version t"

lemma claim_request_complete_iff:
  "claim_request_complete t req bindings \<longleftrightarrow> validate_request_key (cex_request_key req) = Inr ()
     \<and> exec_validate (cex_executor req) = Inr () \<and> expect_version t (cex_expected_version req) = Inr ()
     \<and> check_some (\<lambda>c. validate_id c ''coordination_claim_id'') (cex_coordination_claim_id req) = Inr ()
     \<and> ensure_executor_binding (cex_executor req) bindings = Inr ()"
  by (cases "cex_executor req"; cases "cex_coordination_claim_id req")
     (auto simp: claim_request_complete_def ensure_executor_binding_def list_ex_iff refuse_def)

text \<open>No check of the task or of the request speaks of another executor.\<close>

definition not_conflict :: "(error, 'a) result \<Rightarrow> bool" where
  "not_conflict r \<longleftrightarrow> (\<forall>m. r \<noteq> Inl (ClaimConflict m))"

lemma run_checks_passed: "run_checks (cs @ [Inr ()]) = run_checks cs"
  by (induction cs) (simp_all add: run_checks.simps split: sum.splits)

lemma run_checks_not_conflict: "(\<And>c. c \<in> set cs \<Longrightarrow> not_conflict c) \<Longrightarrow> not_conflict (run_checks cs)"
  by (induction cs) (auto simp: not_conflict_def split: sum.splits)

lemma not_conflict_basic [simp]:
  "not_conflict (validate_id v field)" "not_conflict (refuse b e) \<longleftrightarrow> b \<longrightarrow> (\<forall>m. e \<noteq> ClaimConflict m)"
  "not_conflict (Inr x)"
  by (auto simp: not_conflict_def refuse_def)

lemma sequence_not_conflict:
  "not_conflict c \<Longrightarrow> not_conflict r \<Longrightarrow> not_conflict (then_ok c r)"
  "not_conflict x \<Longrightarrow> (\<And>v. x = Inr v \<Longrightarrow> not_conflict (f v)) \<Longrightarrow> not_conflict (and_then x f)"
  by (auto simp: not_conflict_def)

lemma check_some_not_conflict: "(\<And>x. not_conflict (f x)) \<Longrightarrow> not_conflict (check_some f v)"
  by (cases v) (auto simp: not_conflict_def)

lemma collaborators_not_conflict: "not_conflict (try_fold (collaborator_visit owner) seen cs)"
  by (induction cs arbitrary: seen) (auto simp: not_conflict_def collaborator_visit_def insert_new_def refuse_def split: sum.splits if_splits)

lemma exec_not_conflict: "not_conflict (exec_validate e)"
  by (cases e) (simp, simp only: exec_validate.simps, rule run_checks_not_conflict, auto)

lemma structure_not_conflict: "not_conflict (validate_structure t)"
proof -
  have pending: "not_conflict (validate_pending p)" for p
    by (cases p) (auto simp: validate_pending_def intro!: run_checks_not_conflict check_some_not_conflict)
  have "not_conflict (and_then (try_fold (collaborator_visit (tr_owner t)) {} (tr_collaborators t)) (\<lambda>_. Inr ()))"
    using collaborators_not_conflict[of "tr_owner t" "{}" "tr_collaborators t"]
    by (auto simp: not_conflict_def)
  then show ?thesis unfolding validate_structure_def
    by (intro run_checks_not_conflict) (auto intro!: check_some_not_conflict run_checks_not_conflict exec_not_conflict pending)
qed

lemma request_not_conflict:
  "not_conflict (validate_request_key k)" "not_conflict (exec_validate e)" "not_conflict (expect_version t v)"
  "not_conflict (check_some (\<lambda>c. validate_id c ''coordination_claim_id'') c)" "not_conflict (ensure_executor_binding e bindings)"
      apply (simp add: validate_request_key_def)
     apply (rule exec_not_conflict)
    apply (simp add: expect_version_def)
   apply (rule check_some_not_conflict, simp)
  apply (cases e; simp add: ensure_executor_binding_def)
  done

text \<open>
  C38: Admission and claim agree. For a candidate admitted to start work, an execution claim is accepted
  exactly when the task is well-formed, its version can still be counted up in 64 bits, and the request is
  complete by itself: valid identifiers, the current version, and for an agent an active binding of the
  very person, agent and binding named. It is never refused because of another executor. Once accepted the
  candidate is the single effective executor, the owner is unchanged, the version has gone up by one, and
  nobody else is admitted to occupy or start the task.
\<close>
theorem admitted_start_can_be_claimed:
  assumes "explain_claim_eligibility i = Inr ex" and "do_allowed (ce_start_work_admission ex)"
    and "exec_person (cex_executor req) = ci_candidate_person i"
  shows "(is_ok (apply_claim_execution (ci_task i) req bindings) \<longleftrightarrow>
        validate_structure (ci_task i) = Inr () \<and> claim_request_complete (ci_task i) req bindings
        \<and> unat (tr_version (ci_task i)) + 1 < 2 ^ 64)
     \<and> (\<forall>m. apply_claim_execution (ci_task i) req bindings \<noteq> Inl (ClaimConflict m))
     \<and> (\<forall>t'. apply_claim_execution (ci_task i) req bindings = Inr t' \<longrightarrow>
          tr_current_executor t' = Some (cex_executor req) \<and> tr_owner t' = tr_owner (ci_task i)
          \<and> unat (tr_version t') = unat (tr_version (ci_task i)) + 1
          \<and> (\<forall>c b. resolve_single_effective_executor t' c b = Inr (Some (ci_candidate_person i)))
          \<and> (\<forall>j ex'. ci_task j = t' \<and> ci_candidate_person j \<noteq> ci_candidate_person i
               \<and> explain_claim_eligibility j = Inr ex' \<longrightarrow>
               \<not> do_allowed (ce_collaborative_occupancy ex') \<and> \<not> do_allowed (ce_start_work_admission ex')))"
proof -
  let ?t = "(ci_task i)\<lparr>tr_current_executor := Some (cex_executor req), tr_version := tr_version (ci_task i) + 1\<rparr>"
  have clear: "snd (concurrent_factor i)"
    using assms(1,2) by (auto simp: explain_claim_eligibility_def Let_def)
  then have same: "check_some (\<lambda>e. refuse (exec_person e \<noteq> exec_person (cex_executor req))
      (ClaimConflict ''another execution instance holds the task; release or wait'')) (tr_current_executor (ci_task i)) = Inr ()"
    using assms(3) by (cases "tr_current_executor (ci_task i)") (auto simp: concurrent_factor_def split: if_splits)
  have kept: "validate_structure ?t = Inr ()" if "validate_structure (ci_task i) = Inr ()" "exec_validate (cex_executor req) = Inr ()"
    using that by (simp add: validate_structure_def)
  let ?checks = "[validate_request_key (cex_request_key req), validate_structure (ci_task i), exec_validate (cex_executor req),
      expect_version (ci_task i) (cex_expected_version req),
      check_some (\<lambda>c. validate_id c ''coordination_claim_id'') (cex_coordination_claim_id req),
      ensure_executor_binding (cex_executor req) bindings]"
  have run: "apply_claim_execution (ci_task i) req bindings =
      then_ok (run_checks ?checks) (and_then (bump_version (tr_version (ci_task i)))
        (\<lambda>v. validated ((ci_task i)\<lparr>tr_current_executor := Some (cex_executor req), tr_version := v\<rparr>)))"
    unfolding apply_claim_execution_def same using run_checks_passed[of ?checks] by simp
  have ok: "apply_claim_execution (ci_task i) req bindings = Inr t' \<longleftrightarrow> validate_structure (ci_task i) = Inr ()
      \<and> claim_request_complete (ci_task i) req bindings \<and> unat (tr_version (ci_task i)) + 1 < 2 ^ 64 \<and> t' = ?t" for t'
    unfolding run claim_request_complete_iff using kept by (auto simp: bump_version_def)
  have "not_conflict (run_checks ?checks)"
    by (intro run_checks_not_conflict) (auto intro: request_not_conflict structure_not_conflict)
  then have never: "not_conflict (apply_claim_execution (ci_task i) req bindings)"
    unfolding run by (intro sequence_not_conflict) (auto simp: not_conflict_def bump_version_def validated_def structure_not_conflict[unfolded not_conflict_def])
  have others: "\<not> do_allowed (ce_collaborative_occupancy ex') \<and> \<not> do_allowed (ce_start_work_admission ex')"
    if "ci_task j = ?t" "ci_candidate_person j \<noteq> ci_candidate_person i" "explain_claim_eligibility j = Inr ex'" for j ex'
  proof -
    have "\<not> snd (concurrent_factor j)" using that(1,2) assms(3) by (simp add: concurrent_factor_def)
    then show ?thesis using that(3) by (auto simp: explain_claim_eligibility_def Let_def)
  qed
  have counted: "unat (tr_version (ci_task i) + 1) = unat (tr_version (ci_task i)) + 1" if "unat (tr_version (ci_task i)) + 1 < 2 ^ 64"
    using bump_version_Suc[of "tr_version (ci_task i)" "tr_version (ci_task i) + 1"] that by simp
  have single: "resolve_single_effective_executor ?t c b = Inr (Some (ci_candidate_person i))" for c b
    using assms(3) by (simp add: resolve_single_effective_executor_def)
  show ?thesis using never others counted single
    by (auto simp: ok is_ok_iff not_conflict_def)
qed

theorem admitted_start_can_be_claimed_witness:
  "\<exists>t'. apply_claim_execution (ci_task ex_input) ex_start_request [ex_start_binding] = Inr t'
     \<and> resolve_single_effective_executor t' ''carol'' True = Inr (Some ''bob'')"
proof -
  have "map_sum id (\<lambda>ex. do_allowed (ce_start_work_admission ex)) (explain_claim_eligibility ex_input) = Inr True"
    by code_simp
  then obtain ex where ex: "explain_claim_eligibility ex_input = Inr ex" "do_allowed (ce_start_work_admission ex)"
    by (cases "explain_claim_eligibility ex_input") auto
  have person: "exec_person (cex_executor ex_start_request) = ci_candidate_person ex_input" by code_simp
  have "validate_structure (ci_task ex_input) = Inr ()" "exec_validate (cex_executor ex_start_request) = Inr ()" by code_simp+
  moreover have "validate_request_key (cex_request_key ex_start_request) = Inr ()"
    "expect_version (ci_task ex_input) (cex_expected_version ex_start_request) = Inr ()"
    "check_some (\<lambda>c. validate_id c ''coordination_claim_id'') (cex_coordination_claim_id ex_start_request) = Inr ()"
    "ensure_executor_binding (cex_executor ex_start_request) [ex_start_binding] = Inr ()" by code_simp+
  moreover have "unat (tr_version (ci_task ex_input)) + 1 < 2 ^ 64" by code_simp
  ultimately have "is_ok (apply_claim_execution (ci_task ex_input) ex_start_request [ex_start_binding])"
    using admitted_start_can_be_claimed[OF ex person, of "[ex_start_binding]"] unfolding claim_request_complete_iff by blast
  then obtain t' where t': "apply_claim_execution (ci_task ex_input) ex_start_request [ex_start_binding] = Inr t'" by (auto simp: is_ok_iff)
  have bob: "ci_candidate_person ex_input = ''bob''" by (simp add: ex_input_def)
  show ?thesis using admitted_start_can_be_claimed[OF ex person, of "[ex_start_binding]"] t' unfolding bob by blast
qed

end
